(* ===== verification/Go_Prelude.thy ===== *)
theory Go_Prelude
  imports Main "HOL-Library.Sublist"
begin

text \<open>
  The shared prelude of the development: the parts of Go's language and standard
  library that the modelled packages use.

  \<^item> Integers. Go's \<open>int64\<close> and \<open>int\<close> (64 bits on every supported target) are
    HOL \<open>int\<close>s; \<open>wrap64\<close> writes out the two's-complement wrap-around of an arithmetic
    result where it can happen, \<open>in_int64\<close> is the representable range.
  \<^item> Strings are byte strings (\<open>char list\<close>), as in Go: \<open>TrimSpace\<close> knows the UTF-8
    encodings of every Unicode white-space code point.
  \<^item> \<open>strconv.ParseInt(s, 10, 64)\<close> and its inverse on decimal numerals.
  \<^item> \<open>any\<close> values that the Redis client returns.
\<close>

section \<open>Theorem collections\<close>

named_theorems wallet_defs \<open>definitions of wallet store operations\<close>
named_theorems convert_defs \<open>definitions of protocol conversion handlers\<close>

section \<open>64-bit integers\<close>

definition int64_min :: int where "int64_min = - (2 ^ 63)"
definition int64_max :: int where "int64_max = 2 ^ 63 - 1"

definition in_int64 :: "int \<Rightarrow> bool" where
  "in_int64 x \<longleftrightarrow> int64_min \<le> x \<and> x \<le> int64_max"

definition wrap64 :: "int \<Rightarrow> int" where
  "wrap64 x = (x + 2 ^ 63) mod 2 ^ 64 - 2 ^ 63"

text \<open>Go's integer division truncates towards zero.\<close>

definition go_div :: "int \<Rightarrow> int \<Rightarrow> int" where
  "go_div a b = sgn a * sgn b * (\<bar>a\<bar> div \<bar>b\<bar>)"

section \<open>Strings\<close>

text \<open>
  The UTF-8 encodings of the code points of \<open>unicode.White_Space\<close>: the six ASCII ones, then
  U+0085, U+00A0, U+1680, U+2000 to U+200A, U+2028, U+2029, U+202F, U+205F and U+3000.
\<close>

definition go_spaces :: "string list" where
  "go_spaces =
     [[CHR 0x09], [CHR 0x0A], [CHR 0x0B], [CHR 0x0C], [CHR 0x0D], [CHR 0x20],
      [CHR 0xC2, CHR 0x85], [CHR 0xC2, CHR 0xA0], [CHR 0xE1, CHR 0x9A, CHR 0x80],
      [CHR 0xE2, CHR 0x80, CHR 0x80], [CHR 0xE2, CHR 0x80, CHR 0x81],
      [CHR 0xE2, CHR 0x80, CHR 0x82], [CHR 0xE2, CHR 0x80, CHR 0x83],
      [CHR 0xE2, CHR 0x80, CHR 0x84], [CHR 0xE2, CHR 0x80, CHR 0x85],
      [CHR 0xE2, CHR 0x80, CHR 0x86], [CHR 0xE2, CHR 0x80, CHR 0x87],
      [CHR 0xE2, CHR 0x80, CHR 0x88], [CHR 0xE2, CHR 0x80, CHR 0x89],
      [CHR 0xE2, CHR 0x80, CHR 0x8A], [CHR 0xE2, CHR 0x80, CHR 0xA8],
      [CHR 0xE2, CHR 0x80, CHR 0xA9], [CHR 0xE2, CHR 0x80, CHR 0xAF],
      [CHR 0xE2, CHR 0x81, CHR 0x9F], [CHR 0xE3, CHR 0x80, CHR 0x80]]"

function trim_left_by :: "string list \<Rightarrow> string \<Rightarrow> string" where
  "trim_left_by ws s =
     (case find (\<lambda>w. w \<noteq> [] \<and> prefix w s) ws of
        None \<Rightarrow> s
      | Some w \<Rightarrow> trim_left_by ws (drop (length w) s))"
  by pat_completeness auto
termination
proof (relation "measure (\<lambda>(ws, s). length s)")
  fix ws :: "string list" and s w
  assume "find (\<lambda>w. w \<noteq> [] \<and> prefix w s) ws = Some w"
  then have "w \<noteq> []" and "prefix w s"
    by (auto simp: find_Some_iff)
  then show "((ws, drop (length w) s), ws, s) \<in> measure (\<lambda>(ws, s). length s)"
    by (cases s) (auto simp: prefix_def)
qed simp

declare trim_left_by.simps [simp del]

text \<open>\<open>strings.TrimSpace\<close>: leading and trailing Unicode white space removed.\<close>

definition TrimSpace :: "string \<Rightarrow> string" where
  "TrimSpace s =
     rev (trim_left_by (map rev go_spaces) (rev (trim_left_by go_spaces s)))"

text \<open>
  \<open>strings.ToUpper\<close>, as far as a comparison with an ASCII literal can see it: ASCII letters,
  and the two non-ASCII letters whose upper case is ASCII, U+017F (to \<open>S\<close>) and U+0131
  (to \<open>I\<close>). Every other multi-byte letter maps to a multi-byte letter and is kept.
\<close>

fun ToUpper :: "string \<Rightarrow> string" where
  "ToUpper [] = []"
| "ToUpper (a # s) =
     (if 97 \<le> (of_char a :: nat) \<and> (of_char a :: nat) \<le> 122
      then char_of ((of_char a :: nat) - 32) # ToUpper s
      else case s of
        b # t \<Rightarrow>
          if a = CHR 0xC5 \<and> b = CHR 0xBF then CHR ''S'' # ToUpper t
          else if a = CHR 0xC4 \<and> b = CHR 0xB1 then CHR ''I'' # ToUpper t
          else a # ToUpper s
      | [] \<Rightarrow> [a])"

text \<open>Byte-wise string order, as Lua and Go compare strings.\<close>

fun str_less :: "string \<Rightarrow> string \<Rightarrow> bool" where
  "str_less s [] = False"
| "str_less [] (b # t) = True"
| "str_less (a # s) (b # t) =
     ((of_char a :: nat) < of_char b \<or> a = b \<and> str_less s t)"

text \<open>Sorting strings, as Lua's \<open>table.sort\<close> and Go's map encoder do.\<close>

fun insort_str :: "string \<Rightarrow> string list \<Rightarrow> string list" where
  "insort_str x [] = [x]"
| "insort_str x (y # ys) = (if str_less y x then y # insort_str x ys else x # y # ys)"

definition sort_strs :: "string list \<Rightarrow> string list" where
  "sort_strs xs = foldr insort_str xs []"

section \<open>Decimal numerals\<close>

fun show_nat :: "nat \<Rightarrow> string" where
  "show_nat n =
     (if n < 10 then [char_of (48 + n)]
      else show_nat (n div 10) @ [char_of (48 + n mod 10)])"

declare show_nat.simps [simp del]

definition show_int :: "int \<Rightarrow> string" where
  "show_int x = (if x < 0 then ''-'' @ show_nat (nat (- x)) else show_nat (nat x))"

definition digit_of :: "char \<Rightarrow> nat option" where
  "digit_of c = (if 48 \<le> (of_char c :: nat) \<and> (of_char c :: nat) \<le> 57
                 then Some (of_char c - 48) else None)"

fun parse_digits :: "nat \<Rightarrow> string \<Rightarrow> nat option" where
  "parse_digits acc [] = Some acc"
| "parse_digits acc (c # s) =
     (case digit_of c of None \<Rightarrow> None | Some d \<Rightarrow> parse_digits (10 * acc + d) s)"

text \<open>
  \<open>strconv.ParseInt(s, 10, 64)\<close>: an optional sign, at least one digit, nothing else, and a value
  of the 64-bit range; \<open>None\<close> is either error (\<open>ErrSyntax\<close>, \<open>ErrRange\<close>).
\<close>

definition ParseInt :: "string \<Rightarrow> int option" where
  "ParseInt s =
     (let neg = (case s of c # _ \<Rightarrow> c = CHR ''-'' | [] \<Rightarrow> False);
          signed = (case s of c # _ \<Rightarrow> c = CHR ''-'' \<or> c = CHR ''+'' | [] \<Rightarrow> False);
          body = (if signed then tl s else s)
      in if body = [] then None
         else case parse_digits 0 body of
             None \<Rightarrow> None
           | Some n \<Rightarrow>
               (let v = (if neg then - int n else int n)
                in if in_int64 v then Some v else None))"

section \<open>Dynamically typed values\<close>

text \<open>Go's \<open>any\<close> as the Redis client produces it; \<open>fmt.Sprint\<close> prints it.\<close>

datatype go_any = AInt int | AStr string | ABytes string | ANil

fun Sprint :: "go_any \<Rightarrow> string" where
  "Sprint (AInt n) = show_int n"
| "Sprint (AStr s) = s"
| "Sprint (ABytes s) = s"
| "Sprint ANil = ''<nil>''"

section \<open>Lemmas\<close>

lemma wrap64_id [simp]: "in_int64 x \<Longrightarrow> wrap64 x = x"
  by (simp add: in_int64_def int64_min_def int64_max_def wrap64_def)

lemma wrap64_range: "in_int64 (wrap64 x)"
proof -
  have "0 \<le> (x + 2 ^ 63) mod 2 ^ 64" and "(x + 2 ^ 63) mod 2 ^ 64 < (2 ^ 64 :: int)"
    by simp_all
  then show ?thesis
    by (simp add: in_int64_def int64_min_def int64_max_def wrap64_def)
qed

lemma in_int64_nonneg: "0 \<le> x \<Longrightarrow> x \<le> int64_max \<Longrightarrow> in_int64 x"
  by (simp add: in_int64_def int64_min_def)

lemma int_div_less_iff: "0 < f \<Longrightarrow> M div f < a \<longleftrightarrow> M < a * (f::int)"
proof -
  assume f: "0 < f"
  have "(M - a * f) div f = M div f - a"
    using f div_mult_self1 [of f M "- a"] by simp
  then show ?thesis
    using pos_imp_zdiv_neg_iff [OF f, of "M - a * f"] by simp
qed

lemma digit_of_char [simp]: "d < 10 \<Longrightarrow> digit_of (char_of (48 + d :: nat)) = Some d"
  by (simp add: digit_of_def)

lemma parse_digits_append:
  "parse_digits acc (s @ t) =
     (case parse_digits acc s of None \<Rightarrow> None | Some n \<Rightarrow> parse_digits n t)"
  by (induction s arbitrary: acc) (auto split: option.splits)

lemma parse_digits_show_nat: "parse_digits 0 (show_nat n) = Some n"
proof (induction n rule: show_nat.induct)
  case (1 n)
  then show ?case
    by (subst show_nat.simps) (auto simp: parse_digits_append)
qed

lemma show_nat_Cons: "\<exists>c s. show_nat n = c # s \<and> digit_of c \<noteq> None"
proof (induction n rule: show_nat.induct)
  case (1 n)
  show ?case
  proof (cases "n < 10")
    case True
    then show ?thesis by (subst show_nat.simps) simp
  next
    case False
    with "1" obtain c s where "show_nat (n div 10) = c # s" "digit_of c \<noteq> None"
      by blast
    with False show ?thesis by (subst show_nat.simps) auto
  qed
qed

lemma ParseInt_show_int:
  assumes "in_int64 x"
  shows "ParseInt (show_int x) = Some x"
proof -
  obtain c s where c: "show_nat (nat \<bar>x\<bar>) = c # s" "digit_of c \<noteq> None"
    using show_nat_Cons by blast
  have "c \<noteq> CHR ''-''" "c \<noteq> CHR ''+''"
    using c(2) by (auto simp: digit_of_def)
  moreover have "parse_digits 0 (c # s) = Some (nat \<bar>x\<bar>)"
    using parse_digits_show_nat c(1) by metis
  ultimately show ?thesis
    using assms c(1) by (auto simp: show_int_def ParseInt_def Let_def simp del: parse_digits.simps)
qed

lemma ParseInt_show_int_iff: "ParseInt (show_int x) = (if in_int64 x then Some x else None)"
proof (cases "in_int64 x")
  case False
  obtain c s where c: "show_nat (nat \<bar>x\<bar>) = c # s" "digit_of c \<noteq> None"
    using show_nat_Cons by blast
  have "c \<noteq> CHR ''-''" "c \<noteq> CHR ''+''"
    using c(2) by (auto simp: digit_of_def)
  moreover have "parse_digits 0 (c # s) = Some (nat \<bar>x\<bar>)"
    using parse_digits_show_nat c(1) by metis
  ultimately show ?thesis
    using False c(1) by (auto simp: show_int_def ParseInt_def Let_def simp del: parse_digits.simps)
qed (simp add: ParseInt_show_int)

lemma show_int_nonempty [simp]: "show_int x \<noteq> []"
  using show_nat_Cons [of "nat x"] by (auto simp: show_int_def)

lemma str_less_irrefl [simp]: "\<not> str_less s s"
  by (induction s) auto

lemma str_less_asym: "str_less s t \<Longrightarrow> \<not> str_less t s"
  by (induction s t rule: str_less.induct) auto

lemma str_less_total: "s \<noteq> t \<Longrightarrow> str_less s t \<or> str_less t s"
proof (induction s t rule: str_less.induct)
  case (1 s)
  then show ?case by (cases s) auto
next
  case (3 a s b t)
  then show ?case
    by (metis linorder_neqE_nat of_char_eq_iff str_less.simps(3))
qed auto

lemma str_less_trans: "str_less s t \<Longrightarrow> str_less t u \<Longrightarrow> str_less s u"
proof (induction s t arbitrary: u rule: str_less.induct)
  case (2 b t)
  then show ?case by (cases u) auto
next
  case (3 a s b t)
  then show ?case by (cases u) auto
qed auto

end
