(* ===== verification/Wallet_Units.thy ===== *)
theory Wallet_Units
  imports Go_Prelude
begin

text \<open>
  Money amounts of the canonical wallet (\<open>service/canonical_wallet_units.go\<close>): integers of
  1e-8 USD (\<open>usd-e8-v1\<close>) and their checked arithmetic, and the lease value that the wallet
  bridge passes around (\<open>service/canonical_wallet_bridge.go\<close>) with its headroom computation.
\<close>

section \<open>Checked arithmetic\<close>

datatype units_error = ErrCanonicalWalletUnitsOverflow | ErrCanonicalWalletUnitsNegative

definition canonicalWalletUnitsPerUSD :: int where
  "canonicalWalletUnitsPerUSD = 100000000"

definition AddUnits :: "int \<Rightarrow> int \<Rightarrow> units_error + int" where
  "AddUnits a b =
     (if a < 0 \<or> b < 0 then Inl ErrCanonicalWalletUnitsNegative
      else if b > wrap64 (int64_max - a) then Inl ErrCanonicalWalletUnitsOverflow
      else Inr (wrap64 (a + b)))"

definition SubUnits :: "int \<Rightarrow> int \<Rightarrow> units_error + int" where
  "SubUnits a b =
     (if a < 0 \<or> b < 0 then Inl ErrCanonicalWalletUnitsNegative
      else if b > a then Inl ErrCanonicalWalletUnitsNegative
      else Inr (wrap64 (a - b)))"

definition MulUnits :: "int \<Rightarrow> int \<Rightarrow> units_error + int" where
  "MulUnits a factor =
     (if a < 0 \<or> factor < 0 then Inl ErrCanonicalWalletUnitsNegative
      else if a = 0 \<or> factor = 0 then Inr 0
      else if a > go_div int64_max factor then Inl ErrCanonicalWalletUnitsOverflow
      else Inr (wrap64 (a * factor)))"

section \<open>The lease value\<close>

text \<open>
  A \<open>time.Time\<close> is its instant in nanoseconds since the epoch; \<open>None\<close> is Go's zero time.
\<close>

type_synonym go_time = "int option"

definition UnixMilli :: "int \<Rightarrow> int" where
  "UnixMilli t = t div 1000000"

text \<open>\<open>time.UnixMilli(ms)\<close>.\<close>

definition of_UnixMilli :: "int \<Rightarrow> int" where
  "of_UnixMilli ms = ms * 1000000"

record CanonicalWalletLease =
  FundedUnits :: int
  ReturnedUnits :: int
  ReturnRevision :: int
  BudgetRevision :: int
  FundingScope :: string
  FundingOwnerID :: string
  FundingIssuanceKey :: string
  FundingFrozen :: bool
  RequireCachedLease :: bool
  LeaseID :: string
  PlatformUserID :: string
  Currency :: string
  BudgetUnits :: int
  ConsumedUnits :: int
  ReleasedUnits :: int
  Sealed :: bool
  ExpiresAt :: go_time
  RetainUntil :: go_time

text \<open>The zero value of the struct, from which composite literals are written.\<close>

definition zeroLease :: CanonicalWalletLease where
  "zeroLease = \<lparr>FundedUnits = 0, ReturnedUnits = 0, ReturnRevision = 0, BudgetRevision = 0,
     FundingScope = [], FundingOwnerID = [], FundingIssuanceKey = [], FundingFrozen = False,
     RequireCachedLease = False, LeaseID = [], PlatformUserID = [], Currency = [],
     BudgetUnits = 0, ConsumedUnits = 0, ReleasedUnits = 0, Sealed = False,
     ExpiresAt = None, RetainUntil = None\<rparr>"

definition RemainingUnits :: "CanonicalWalletLease \<Rightarrow> int" where
  "RemainingUnits l =
     (if Sealed l \<or> FundingFrozen l then 0
      else case AddUnits (BudgetUnits l) (ReleasedUnits l) of
          Inl _ \<Rightarrow> 0
        | Inr budget \<Rightarrow>
            (case SubUnits budget (ConsumedUnits l) of Inl _ \<Rightarrow> 0 | Inr remaining \<Rightarrow> remaining))"

text \<open>
  \<open>leaseExpiredAt\<close> with the configured \<open>ExpirySkewMarginMS\<close> as its first argument; a nil lease
  is \<open>None\<close>. The zero expiry time is before every instant of the epoch clock.
\<close>

definition leaseExpiredAt :: "int \<Rightarrow> CanonicalWalletLease option \<Rightarrow> int \<Rightarrow> bool" where
  "leaseExpiredAt margin_ms lease now =
     (case lease of
        None \<Rightarrow> True
      | Some l \<Rightarrow>
          (case ExpiresAt l of
             None \<Rightarrow> True
           | Some e \<Rightarrow> \<not> (e > now + margin_ms * 1000000)))"

definition leaseCovers ::
  "int \<Rightarrow> CanonicalWalletLease option \<Rightarrow> string \<Rightarrow> int \<Rightarrow> int \<Rightarrow> bool" where
  "leaseCovers margin_ms lease currency amountUnits now =
     (case lease of
        None \<Rightarrow> False
      | Some l \<Rightarrow> Currency l = currency \<and> \<not> leaseExpiredAt margin_ms lease now
                  \<and> RemainingUnits l \<ge> amountUnits)"

definition FundingPrincipalUnits :: "CanonicalWalletLease \<Rightarrow> int" where
  "FundingPrincipalUnits l =
     (if FundedUnits l > 0 then FundedUnits l
      else wrap64 (BudgetUnits l + ReturnedUnits l))"

section \<open>Lemmas\<close>

lemma AddUnits_exact:
  assumes "in_int64 a" "in_int64 b"
  shows "AddUnits a b =
    (if a < 0 \<or> b < 0 then Inl ErrCanonicalWalletUnitsNegative
     else if a + b > int64_max then Inl ErrCanonicalWalletUnitsOverflow else Inr (a + b))"
proof (cases "a < 0 \<or> b < 0")
  case False
  with assms have "in_int64 (int64_max - a)"
    by (auto simp: in_int64_def int64_min_def int64_max_def)
  then have "wrap64 (int64_max - a) = int64_max - a" by simp
  moreover have "in_int64 (a + b)" if "a + b \<le> int64_max"
    using that False by (auto intro: in_int64_nonneg)
  ultimately show ?thesis
    using False by (auto simp: AddUnits_def)
qed (auto simp: AddUnits_def)

lemma SubUnits_exact:
  assumes "in_int64 a" "in_int64 b"
  shows "SubUnits a b =
    (if a < 0 \<or> b < 0 \<or> b > a then Inl ErrCanonicalWalletUnitsNegative else Inr (a - b))"
proof -
  have "in_int64 (a - b)" if "0 \<le> a" "0 \<le> b" "b \<le> a"
    using that assms by (auto simp: in_int64_def int64_min_def int64_max_def)
  then show ?thesis by (auto simp: SubUnits_def)
qed

lemma go_div_pos: "0 \<le> a \<Longrightarrow> 0 < b \<Longrightarrow> go_div a b = a div b"
  by (cases "a = 0") (auto simp: go_div_def)

lemma MulUnits_exact:
  assumes "in_int64 a" "in_int64 f"
  shows "MulUnits a f =
    (if a < 0 \<or> f < 0 then Inl ErrCanonicalWalletUnitsNegative
     else if a * f > int64_max then Inl ErrCanonicalWalletUnitsOverflow else Inr (a * f))"
proof (cases "a \<le> 0 \<or> f \<le> 0")
  case True
  then show ?thesis
    using mult_nonneg_nonpos [of a f] mult_nonpos_nonneg [of a f]
    by (auto simp: MulUnits_def int64_max_def)
next
  case False
  then have pos: "0 < a" "0 < f" by auto
  have "a > int64_max div f \<longleftrightarrow> a * f > int64_max"
    using pos(2) by (rule int_div_less_iff)
  moreover have "go_div int64_max f = int64_max div f"
    using pos by (intro go_div_pos) (auto simp: int64_max_def)
  moreover have "in_int64 (a * f)" if "a * f \<le> int64_max"
    using that pos by (auto intro!: in_int64_nonneg)
  ultimately show ?thesis
    using pos by (auto simp: MulUnits_def)
qed

lemma RemainingUnits_open:
  assumes "\<not> Sealed l" "\<not> FundingFrozen l"
    and "in_int64 (BudgetUnits l)" "in_int64 (ReleasedUnits l)" "in_int64 (ConsumedUnits l)"
    and "RemainingUnits l > 0"
  shows "RemainingUnits l = BudgetUnits l + ReleasedUnits l - ConsumedUnits l"
    and "0 \<le> ReleasedUnits l" and "0 \<le> ConsumedUnits l"
proof -
  have sub: "BudgetUnits l + ReleasedUnits l \<le> int64_max \<Longrightarrow> 0 \<le> BudgetUnits l \<Longrightarrow>
      0 \<le> ReleasedUnits l \<Longrightarrow> in_int64 (BudgetUnits l + ReleasedUnits l)"
    by (intro in_int64_nonneg) auto
  show "RemainingUnits l = BudgetUnits l + ReleasedUnits l - ConsumedUnits l"
    and "0 \<le> ReleasedUnits l" and "0 \<le> ConsumedUnits l"
    using assms sub
    by (auto simp: RemainingUnits_def AddUnits_exact SubUnits_exact split: sum.splits if_splits)
qed

end
