(* ===== verification/Wallet_Redis.thy ===== *)
theory Wallet_Redis
  imports Wallet_Units
begin

text \<open>
  The canonical wallet's Redis state and the Lua scripts that change it
  (\<open>repository/canonical_wallet_store.go\<close>, \<open>canonical_wallet_funding.go\<close>,
  \<open>canonical_wallet_pool.go\<close>, \<open>media_wallet_state.go\<close>).

  The database is a record of typed maps over the key strings the Go code builds: lease hashes,
  hold hashes, funding tombstones, plain strings (the current-lease pointer, reservation and
  release markers), sets, and the expiry deadline of each key that has one. A script is one
  atomic function from the database to the new database and its reply. Hash fields that a script
  may find absent are options. Expiry itself is a step of the environment: it removes a key whose
  deadline has passed (see \<open>Wallet_Ledger\<close>).

  \<open>crypto/sha256\<close> appears as the parameter \<open>H\<close>, the hex digest of a string.
\<close>

section \<open>State\<close>

record lease_hash =
  l_lease_id :: string
  l_platform_user_id :: string
  l_currency :: string
  l_budget_units :: int
  l_consumed_units :: int
  l_expires_at_ms :: int
  l_released_units :: "int option"
  l_funded_units :: "int option"
  l_returned_units :: "int option"
  l_return_revision :: "int option"
  l_budget_revision :: "int option"
  l_funding_frozen :: "string option"
  l_funding_scope :: "string option"
  l_funding_owner_id :: "string option"
  l_funding_issuance_key :: "string option"
  l_sealed :: "string option"
  l_durable_media :: "string option"
  l_media_recovered :: "string option"
  l_funding_closed :: "string option"

record hold_hash =
  h_lease_id :: string
  h_held_units :: int
  h_armed_at_ms :: int
  h_class :: string
  h_state :: string
  h_event_id :: string

record tomb_hash =
  t_funding_frozen :: "string option"
  t_funded_units :: "int option"
  t_returned_units :: "int option"
  t_return_revision :: "int option"
  t_receipt_signature :: "string option"
  t_funding_closed :: "string option"

record redis_db =
  leases :: "string \<rightharpoonup> lease_hash"
  holds :: "string \<rightharpoonup> hold_hash"
  tombs :: "string \<rightharpoonup> tomb_hash"
  strs :: "string \<rightharpoonup> string"
  sets :: "string \<Rightarrow> string list"
  ttl :: "string \<rightharpoonup> int"

definition empty_db :: redis_db where
  "empty_db = \<lparr>leases = Map.empty, holds = Map.empty, tombs = Map.empty, strs = Map.empty,
     sets = (\<lambda>_. []), ttl = Map.empty\<rparr>"

definition no_tomb :: tomb_hash where
  "no_tomb = \<lparr>t_funding_frozen = None, t_funded_units = None, t_returned_units = None,
     t_return_revision = None, t_receipt_signature = None, t_funding_closed = None\<rparr>"

section \<open>Redis commands the scripts use\<close>

definition r_hset_lease :: "string \<Rightarrow> lease_hash \<Rightarrow> redis_db \<Rightarrow> redis_db" where
  "r_hset_lease k L db = db\<lparr>leases := (leases db)(k \<mapsto> L)\<rparr>"

definition r_hset_hold :: "string \<Rightarrow> hold_hash \<Rightarrow> redis_db \<Rightarrow> redis_db" where
  "r_hset_hold k h db = db\<lparr>holds := (holds db)(k \<mapsto> h)\<rparr>"

definition r_hset_tomb :: "string \<Rightarrow> tomb_hash \<Rightarrow> redis_db \<Rightarrow> redis_db" where
  "r_hset_tomb k t db = db\<lparr>tombs := (tombs db)(k \<mapsto> t)\<rparr>"

text \<open>\<open>SET\<close> clears the deadline of its key.\<close>

definition r_set :: "string \<Rightarrow> string \<Rightarrow> redis_db \<Rightarrow> redis_db" where
  "r_set k v db = db\<lparr>strs := (strs db)(k \<mapsto> v), ttl := (ttl db)(k := None)\<rparr>"

definition r_del :: "string \<Rightarrow> redis_db \<Rightarrow> redis_db" where
  "r_del k db = db\<lparr>strs := (strs db)(k := None), ttl := (ttl db)(k := None)\<rparr>"

definition r_pexpireat :: "string \<Rightarrow> int \<Rightarrow> redis_db \<Rightarrow> redis_db" where
  "r_pexpireat k t db = db\<lparr>ttl := (ttl db)(k \<mapsto> t)\<rparr>"

definition r_persist :: "string \<Rightarrow> redis_db \<Rightarrow> redis_db" where
  "r_persist k db = db\<lparr>ttl := (ttl db)(k := None)\<rparr>"

definition r_sadd :: "string \<Rightarrow> string \<Rightarrow> redis_db \<Rightarrow> redis_db" where
  "r_sadd k x db = db\<lparr>sets := (sets db)(k := List.insert x (sets db k))\<rparr>"

definition r_srem :: "string \<Rightarrow> string \<Rightarrow> redis_db \<Rightarrow> redis_db" where
  "r_srem k x db = db\<lparr>sets := (sets db)(k := removeAll x (sets db k))\<rparr>"

lemmas redis_cmd_defs = r_hset_lease_def r_hset_hold_def r_hset_tomb_def r_set_def r_del_def
  r_pexpireat_def r_persist_def r_sadd_def r_srem_def

text \<open>Lua's \<open>x or y\<close> on \<open>HGET\<close> replies, and \<open>tonumber(x or '0')\<close>.\<close>

fun lua_or :: "'a option \<Rightarrow> 'a option \<Rightarrow> 'a option" where
  "lua_or (Some x) y = Some x"
| "lua_or None y = y"

definition num0 :: "int option \<Rightarrow> int" where
  "num0 x = (case x of None \<Rightarrow> 0 | Some n \<Rightarrow> n)"

definition str0 :: "string option \<Rightarrow> string" where
  "str0 x = (case x of None \<Rightarrow> [] | Some s \<Rightarrow> s)"

definition lua_opt :: "string option \<Rightarrow> go_any" where
  "lua_opt x = (case x of None \<Rightarrow> ANil | Some s \<Rightarrow> AStr s)"

section \<open>Keys\<close>

definition canonicalWalletUserHash :: "(string \<Rightarrow> string) \<Rightarrow> string \<Rightarrow> string" where
  "canonicalWalletUserHash H platformUserID = H (TrimSpace platformUserID)"

definition canonicalWalletLeaseKeyPrefix :: "(string \<Rightarrow> string) \<Rightarrow> string \<Rightarrow> string" where
  "canonicalWalletLeaseKeyPrefix H u =
     ''canonical_wallet:lease:'' @ ''{'' @ canonicalWalletUserHash H u @ ''}:''"

definition canonicalWalletLeaseKey :: "(string \<Rightarrow> string) \<Rightarrow> string \<Rightarrow> string \<Rightarrow> string" where
  "canonicalWalletLeaseKey H u leaseID = canonicalWalletLeaseKeyPrefix H u @ leaseID"

definition canonicalWalletCurrentKey :: "(string \<Rightarrow> string) \<Rightarrow> string \<Rightarrow> string" where
  "canonicalWalletCurrentKey H u =
     ''canonical_wallet:current:'' @ ''{'' @ canonicalWalletUserHash H u @ ''}''"

definition canonicalWalletReservationKey ::
  "(string \<Rightarrow> string) \<Rightarrow> string \<Rightarrow> string \<Rightarrow> string" where
  "canonicalWalletReservationKey H u eventID =
     ''canonical_wallet:reservation:{'' @ canonicalWalletUserHash H u @ ''}:'' @ H (TrimSpace eventID)"

definition canonicalWalletReleaseMarkerKey ::
  "(string \<Rightarrow> string) \<Rightarrow> string \<Rightarrow> string \<Rightarrow> string" where
  "canonicalWalletReleaseMarkerKey H u eventID =
     ''canonical_wallet:released:{'' @ canonicalWalletUserHash H u @ ''}:'' @ H (TrimSpace eventID)"

definition canonicalWalletHoldKey :: "(string \<Rightarrow> string) \<Rightarrow> string \<Rightarrow> string \<Rightarrow> string" where
  "canonicalWalletHoldKey H u authorizationID =
     ''canonical_wallet:hold:'' @ ''{'' @ canonicalWalletUserHash H u @ ''}:'' @ authorizationID"

definition canonicalWalletHoldSetKey :: "(string \<Rightarrow> string) \<Rightarrow> string \<Rightarrow> string" where
  "canonicalWalletHoldSetKey H u =
     ''canonical_wallet:holds:'' @ ''{'' @ canonicalWalletUserHash H u @ ''}''"

definition canonicalWalletHoldUserEmptyKey :: "(string \<Rightarrow> string) \<Rightarrow> string \<Rightarrow> string" where
  "canonicalWalletHoldUserEmptyKey H u =
     ''canonical_wallet:holds_empty:'' @ ''{'' @ canonicalWalletUserHash H u @ ''}''"

definition canonicalWalletFundingTombstoneKey ::
  "(string \<Rightarrow> string) \<Rightarrow> string \<Rightarrow> string \<Rightarrow> string" where
  "canonicalWalletFundingTombstoneKey H u lease = canonicalWalletLeaseKey H u lease @ '':funding''"

definition canonicalWalletHoldUsersKey :: string where
  "canonicalWalletHoldUsersKey = ''canonical_wallet:hold_users''"

definition boolWalletFlag :: "bool \<Rightarrow> string" where
  "boolWalletFlag b = (if b then ''1'' else ''0'')"

section \<open>Scripts: leases and reservations\<close>

text \<open>\<open>ARGV\<close> of the install script, by name.\<close>

record install_args =
  a_lease_id :: string
  a_user :: string
  a_currency :: string
  a_consumed :: int
  a_expires :: int
  a_budget :: int
  a_prefix :: string
  a_retain :: int
  a_require_cached :: string
  a_revision :: int
  a_returned :: int
  a_funded :: int
  a_frozen :: string
  a_scope :: string
  a_owner :: string
  a_issuance :: string
  a_budget_revision :: int

text \<open>The checks of the script, in order; \<open>Some e\<close> is \<open>redis.error_reply(e)\<close>.\<close>

definition install_refusal ::
  "lease_hash option \<Rightarrow> tomb_hash option \<Rightarrow> install_args \<Rightarrow> string option" where
  "install_refusal L T a =
     (let previous_revision =
            num0 (lua_or (Option.bind T t_return_revision) (Option.bind L l_return_revision));
          previous_returned =
            num0 (lua_or (Option.bind T t_returned_units) (Option.bind L l_returned_units));
          previous_frozen =
            lua_or (Option.bind T t_funding_frozen) (Option.bind L l_funding_frozen);
          old_scope = Option.bind L l_funding_scope;
          previous_funded =
            (case lua_or (Option.bind T t_funded_units) (Option.bind L l_funded_units) of
               None \<Rightarrow> a_funded a | Some n \<Rightarrow> n)
      in if a_revision a < previous_revision \<or> a_returned a < previous_returned
            \<or> (a_revision a = previous_revision \<and> a_returned a \<noteq> previous_returned)
            \<or> (previous_frozen = Some ''1'' \<and> a_frozen a \<noteq> ''1'')
         then Some ''stale canonical wallet funding revision''
         else if a_funded a - a_returned a \<noteq> a_budget a
         then Some ''canonical wallet funding does not conserve''
         else if (case old_scope of None \<Rightarrow> False | Some sc \<Rightarrow>
                    sc \<noteq> [] \<and> (sc \<noteq> a_scope a
                      \<or> str0 (Option.bind L l_funding_owner_id) \<noteq> a_owner a
                      \<or> str0 (Option.bind L l_funding_issuance_key) \<noteq> a_issuance a))
         then Some ''canonical wallet funding identity conflict''
         else if previous_frozen = Some ''1'' \<and> previous_funded \<noteq> a_funded a
         then Some ''canonical frozen principal conflict''
         else if a_require_cached a = ''1'' \<and> L = None
         then Some ''canonical wallet cached lease disappeared''
         else if (case L of None \<Rightarrow> False | Some l \<Rightarrow>
                    a_frozen a = ''1''
                    \<and> max (l_consumed_units l) (a_consumed a) - num0 (l_released_units l)
                        > a_budget a)
         then Some ''canonical frozen backing conflict''
         else None)"

text \<open>The lease hash the script writes: counters merge monotonically with what is stored.\<close>

definition install_merge :: "lease_hash option \<Rightarrow> install_args \<Rightarrow> lease_hash" where
  "install_merge L a =
     (let budget = (case L of None \<Rightarrow> a_budget a | Some l \<Rightarrow>
            if a_frozen a \<noteq> ''1'' then max (a_budget a) (l_budget_units l) else a_budget a);
          funded = (case L of None \<Rightarrow> a_funded a | Some l \<Rightarrow>
            if a_frozen a \<noteq> ''1'' then budget + a_returned a else a_funded a)
      in \<lparr>l_lease_id = a_lease_id a, l_platform_user_id = a_user a, l_currency = a_currency a,
          l_budget_units = budget,
          l_consumed_units = (case L of None \<Rightarrow> a_consumed a
             | Some l \<Rightarrow> max (l_consumed_units l) (a_consumed a)),
          l_expires_at_ms = (case L of None \<Rightarrow> a_expires a
             | Some l \<Rightarrow> min (l_expires_at_ms l) (a_expires a)),
          l_released_units = Option.bind L l_released_units,
          l_funded_units = Some funded,
          l_returned_units = Some (a_returned a),
          l_return_revision = Some (a_revision a),
          l_budget_revision = Some (max (a_budget_revision a) (num0 (Option.bind L l_budget_revision))),
          l_funding_frozen = Some (a_frozen a),
          l_funding_scope = Some (a_scope a),
          l_funding_owner_id = Some (a_owner a),
          l_funding_issuance_key = Some (a_issuance a),
          l_sealed = Option.bind L l_sealed,
          l_durable_media = Option.bind L l_durable_media,
          l_media_recovered = Option.bind L l_media_recovered,
          l_funding_closed = Option.bind L l_funding_closed\<rparr>)"

text \<open>Whether the current pointer moves to the installed lease.\<close>

definition should_advance_pointer ::
  "string \<Rightarrow> install_args \<Rightarrow> lease_hash \<Rightarrow> redis_db \<Rightarrow> bool" where
  "should_advance_pointer k2 a l db =
     (case strs db k2 of
        None \<Rightarrow> True
      | Some p \<Rightarrow>
          if p = a_lease_id a then True
          else (let pointer_expires =
                      (case leases db (a_prefix a @ p) of
                         None \<Rightarrow> 0 | Some pl \<Rightarrow> l_expires_at_ms pl)
                in \<not> (pointer_expires > l_expires_at_ms l
                       \<or> pointer_expires = l_expires_at_ms l \<and> str_less (a_lease_id a) p)))"

definition install_tomb :: "string \<Rightarrow> lease_hash \<Rightarrow> tomb_hash option \<Rightarrow> bool \<Rightarrow> tomb_hash" where
  "install_tomb frozen l T newer =
     (let t = (case T of None \<Rightarrow> no_tomb | Some t \<Rightarrow> t)
      in t\<lparr>t_receipt_signature := (if newer then None else t_receipt_signature t),
           t_funding_frozen := Some ''1'', t_funded_units := l_funded_units l,
           t_returned_units := l_returned_units l, t_return_revision := l_return_revision l\<rparr>)"

definition installCanonicalWalletLeaseScript ::
  "string \<Rightarrow> string \<Rightarrow> string \<Rightarrow> install_args \<Rightarrow> redis_db \<Rightarrow> redis_db \<times> (string + int)" where
  "installCanonicalWalletLeaseScript k1 k2 k3 a db =
     (let L = leases db k1; T = tombs db k3
      in case install_refusal L T a of
           Some e \<Rightarrow> (db, Inl e)
         | None \<Rightarrow>
             (let l = install_merge L a;
                  previous_revision =
                    num0 (lua_or (Option.bind T t_return_revision) (Option.bind L l_return_revision));
                  db1 = r_hset_lease k1 l db;
                  db2 = (if a_frozen a = ''1''
                         then r_persist k3 (r_hset_tomb k3
                                (install_tomb (a_frozen a) l T (a_revision a > previous_revision)) db1)
                         else db1);
                  db3 = (if a_frozen a = ''1'' \<or> l_durable_media l = Some ''1''
                         then r_persist k1 db2 else r_pexpireat k1 (a_retain a) db2)
              in if a_frozen a = ''1'' \<or> a_scope a = ''media'' \<or> a_scope a = ''settle''
                 then ((if strs db3 k2 = Some (a_lease_id a) then r_del k2 db3 else db3), Inr 1)
                 else if should_advance_pointer k2 a l db3
                 then (r_pexpireat k2 (a_retain a) (r_set k2 (a_lease_id a) db3), Inr 1)
                 else (db3, Inr 1)))"

text \<open>The headroom test shared by the reserve, arm, pool and conversion scripts.\<close>

definition outstanding :: "lease_hash \<Rightarrow> int" where
  "outstanding l = l_consumed_units l - num0 (l_released_units l)"

definition reserveCanonicalWalletLeaseScript ::
  "string \<Rightarrow> string \<Rightarrow> string \<Rightarrow> int \<Rightarrow> int \<Rightarrow> redis_db \<Rightarrow> redis_db \<times> go_any list" where
  "reserveCanonicalWalletLeaseScript k1 k2 currency amount now_ms db =
     (case leases db k1 of
        None \<Rightarrow> (db, [AInt 1])
      | Some l \<Rightarrow>
          if l_currency l \<noteq> currency then (db, [AInt 2])
          else case strs db k2 of
            Some existing \<Rightarrow>
              if existing = l_lease_id l
              then (db, [AInt 5, AStr (l_lease_id l), AStr (l_currency l), AInt (l_budget_units l),
                         AInt (l_consumed_units l), AInt (l_expires_at_ms l)])
              else (db, [AInt 6])
          | None \<Rightarrow>
              if l_sealed l = Some ''1'' \<or> l_funding_frozen l = Some ''1'' then (db, [AInt 3])
              else if l_expires_at_ms l \<le> now_ms then (db, [AInt 3])
              else if amount \<le> 0 \<or> outstanding l + amount > l_budget_units l then (db, [AInt 4])
              else (let updated = l_consumed_units l + amount
                    in (r_pexpireat k2 (l_expires_at_ms l) (r_set k2 (l_lease_id l)
                          (r_hset_lease k1 (l\<lparr>l_consumed_units := updated\<rparr>) db)),
                        [AInt 0, AStr (l_lease_id l), AStr (l_currency l), AInt (l_budget_units l),
                         AInt updated, AInt (l_expires_at_ms l)])))"

definition sealCanonicalWalletLeaseScript ::
  "string \<Rightarrow> string \<Rightarrow> string \<Rightarrow> redis_db \<Rightarrow> redis_db \<times> go_any list" where
  "sealCanonicalWalletLeaseScript k1 k2 lease_id db =
     (case leases db k1 of
        None \<Rightarrow> (db, [AInt 1])
      | Some l \<Rightarrow>
          (let l' = (if l_funding_frozen l = Some ''1'' then l\<lparr>l_sealed := Some ''1''\<rparr>
                     else l\<lparr>l_consumed_units := l_budget_units l, l_sealed := Some ''1''\<rparr>);
               db1 = r_hset_lease k1 l' db;
               db2 = (if strs db1 k2 = Some lease_id then r_del k2 db1 else db1)
           in (db2, [AInt 0, AInt (l_consumed_units l), AInt (num0 (l_released_units l))])))"

section \<open>Scripts: holds\<close>

definition armCanonicalWalletHoldScript ::
  "string \<Rightarrow> string \<Rightarrow> string \<Rightarrow> string \<Rightarrow> int \<Rightarrow> int \<Rightarrow> string \<Rightarrow> int \<Rightarrow> redis_db
     \<Rightarrow> redis_db \<times> go_any list" where
  "armCanonicalWalletHoldScript k1 k2 k3 currency units now_ms authorization_id grace_ms db =
     (case leases db k1 of
        None \<Rightarrow> (db, [AInt 1])
      | Some l \<Rightarrow>
          if l_currency l \<noteq> currency then (db, [AInt 2])
          else if l_sealed l = Some ''1'' then (db, [AInt 3])
          else if l_expires_at_ms l \<le> now_ms then (db, [AInt 3])
          else case holds db k2 of
            Some h \<Rightarrow> (db, [AInt 5, AStr (h_lease_id h), AInt (h_held_units h)])
          | None \<Rightarrow>
              if l_funding_frozen l = Some ''1'' then (db, [AInt 3])
              else if units \<le> 0 \<or> outstanding l + units > l_budget_units l then (db, [AInt 4])
              else (r_sadd k3 authorization_id
                      (r_pexpireat k2 (l_expires_at_ms l + grace_ms)
                        (r_hset_hold k2 \<lparr>h_lease_id = l_lease_id l, h_held_units = units,
                            h_armed_at_ms = now_ms, h_class = [], h_state = ''armed'', h_event_id = []\<rparr>
                          (r_hset_lease k1
                             (l\<lparr>l_consumed_units := l_consumed_units l + units\<rparr>) db))),
                    [AInt 0, AStr (l_lease_id l), AInt units]))"

definition lease_release :: "int \<Rightarrow> lease_hash \<Rightarrow> lease_hash" where
  "lease_release n l = l\<lparr>l_released_units := Some (num0 (l_released_units l) + n)\<rparr>"

definition releaseCanonicalWalletHoldScript ::
  "string \<Rightarrow> string \<Rightarrow> string \<Rightarrow> string \<Rightarrow> string \<Rightarrow> string \<Rightarrow> redis_db \<Rightarrow> redis_db \<times> go_any list"
where
  "releaseCanonicalWalletHoldScript k1 k2 k3 authorization_id state_after class_after db =
     (case holds db k1 of
        None \<Rightarrow> (db, [AInt 1])
      | Some h \<Rightarrow>
          if h_state h \<noteq> ''armed'' then (db, [AInt 7, AStr (h_state h), AStr (h_event_id h)])
          else
            (let db1 = (case leases db k3 of
                          None \<Rightarrow> db
                        | Some l \<Rightarrow> r_hset_lease k3 (lease_release (h_held_units h) l) db);
                 h' = h\<lparr>h_state := state_after,
                        h_class := (if class_after = [] then h_class h else class_after)\<rparr>
             in (r_srem k2 authorization_id (r_hset_hold k1 h' db1),
                 [AInt 0, AInt (h_held_units h)])))"

text \<open>
  The conversion script. \<open>rnow\<close> is Redis' own clock, which only \<open>PTTL\<close>/\<open>PEXPIRE\<close> read: the
  marker gets the lease key's remaining life.
\<close>

definition settle_hold :: "string \<Rightarrow> string \<Rightarrow> string \<Rightarrow> string \<Rightarrow> hold_hash \<Rightarrow> redis_db \<Rightarrow> redis_db"
where
  "settle_hold k1 k2 authorization_id event_id h db =
     r_srem k2 authorization_id (r_hset_hold k1 (h\<lparr>h_state := ''settled'', h_event_id := event_id\<rparr>) db)"

definition mark_with_lease_life :: "int \<Rightarrow> string \<Rightarrow> string \<Rightarrow> string \<Rightarrow> redis_db \<Rightarrow> redis_db" where
  "mark_with_lease_life rnow k3 k4 lease_id db =
     (let db1 = r_set k4 lease_id db
      in case ttl db1 k3 of
           None \<Rightarrow> db1
         | Some d \<Rightarrow> if d - rnow > 0 then r_pexpireat k4 (rnow + (d - rnow)) db1 else db1)"

definition convertCanonicalWalletHoldScript ::
  "string \<Rightarrow> string \<Rightarrow> string \<Rightarrow> string \<Rightarrow> string \<Rightarrow> string \<Rightarrow> int \<Rightarrow> int \<Rightarrow> int \<Rightarrow> redis_db
     \<Rightarrow> redis_db \<times> go_any list" where
  "convertCanonicalWalletHoldScript k1 k2 k3 k4 authorization_id event_id actual now_ms rnow db =
     (case holds db k1 of
        None \<Rightarrow> (db, [AInt 1])
      | Some h \<Rightarrow>
          if h_state h \<noteq> ''armed''
          then (db, [AInt 7, AStr (h_state h), AStr (h_event_id h), AStr (h_lease_id h)])
          else if actual \<le> h_held_units h then
            (case leases db k3 of
               None \<Rightarrow> (settle_hold k1 k2 authorization_id event_id h db, [AInt 3])
             | Some l \<Rightarrow>
                 (settle_hold k1 k2 authorization_id event_id h
                    (mark_with_lease_life rnow k3 k4 (h_lease_id h)
                       (r_hset_lease k3 (lease_release (h_held_units h - actual) l) db)),
                  [AInt 0, AStr (h_lease_id h)]))
          else
            (let excess = actual - h_held_units h;
                 released_hold = (\<lambda>d. r_srem k2 authorization_id
                                        (r_hset_hold k1 (h\<lparr>h_state := ''released''\<rparr>) d))
             in case leases db k3 of
                  None \<Rightarrow> (released_hold db, [AInt 4])
                | Some l \<Rightarrow>
                    if l_funding_frozen l \<noteq> Some ''1'' \<and> l_expires_at_ms l > now_ms
                       \<and> outstanding l + excess \<le> l_budget_units l
                    then (settle_hold k1 k2 authorization_id event_id h
                            (r_pexpireat k4 (l_expires_at_ms l) (r_set k4 (h_lease_id h)
                              (r_hset_lease k3
                                (l\<lparr>l_consumed_units := l_consumed_units l + excess\<rparr>) db))),
                          [AInt 0, AStr (h_lease_id h)])
                    else (released_hold (r_hset_lease k3 (lease_release (h_held_units h) l) db),
                          [AInt 4])))"

definition markCanonicalWalletHoldClassScript ::
  "string \<Rightarrow> string \<Rightarrow> redis_db \<Rightarrow> redis_db \<times> go_any list" where
  "markCanonicalWalletHoldClassScript k1 class db =
     (case holds db k1 of
        None \<Rightarrow> (db, [AInt 1])
      | Some h \<Rightarrow>
          if h_state h \<noteq> ''armed'' then (db, [AInt 7, AStr (h_state h), AStr (h_event_id h)])
          else (r_hset_hold k1 (h\<lparr>h_class := class\<rparr>) db, [AInt 0, AStr class]))"

definition releaseCanonicalWalletReservationScript ::
  "string \<Rightarrow> string \<Rightarrow> string \<Rightarrow> string \<Rightarrow> int \<Rightarrow> string \<Rightarrow> int \<Rightarrow> redis_db \<Rightarrow> redis_db \<times> go_any list"
where
  "releaseCanonicalWalletReservationScript k1 k2 k3 lease_id units drop_marker rnow db =
     (case strs db k2 of
        None \<Rightarrow> (db, [AInt 1])
      | Some marker \<Rightarrow>
          if marker \<noteq> lease_id then (db, [AInt 6])
          else if drop_marker = ''0'' \<and> strs db k3 \<noteq> None then (db, [AInt 7])
          else
            (let db1 = (case leases db k1 of
                          None \<Rightarrow> db
                        | Some l \<Rightarrow> r_hset_lease k1 (lease_release units l) db)
             in if drop_marker = ''0'' then
                  (let db2 = r_set k3 lease_id db1;
                       expires_at = (case leases db2 k1 of None \<Rightarrow> 0 | Some l \<Rightarrow> l_expires_at_ms l)
                   in ((if expires_at > 0 then r_pexpireat k3 expires_at db2
                        else r_pexpireat k3 (rnow + 3600000) db2), [AInt 0]))
                else (r_del k2 db1, [AInt 0])))"

section \<open>Script: arming a pool of holds\<close>

text \<open>One share of a pool: lease key, hold key, authorization id, units.\<close>

type_synonym pool_share = "string \<times> string \<times> string \<times> int"

text \<open>The validation loop: \<open>Inl\<close> is the early return code, \<open>Inr\<close> the number of duplicates.\<close>

fun pool_check :: "int \<Rightarrow> redis_db \<Rightarrow> pool_share list \<Rightarrow> nat \<Rightarrow> int + nat" where
  "pool_check now_ms db [] duplicates = Inr duplicates"
| "pool_check now_ms db ((lease, hold, auth, units) # rest) duplicates =
     (case holds db hold of
        Some h \<Rightarrow>
          if Some (h_lease_id h) \<noteq> map_option l_lease_id (leases db lease)
             \<or> h_held_units h \<noteq> units \<or> h_state h \<noteq> ''armed''
          then Inl 6
          else pool_check now_ms db rest (Suc duplicates)
      | None \<Rightarrow>
          (case leases db lease of
             None \<Rightarrow> Inl 1
           | Some l \<Rightarrow>
               if l_currency l \<noteq> ''USD'' then Inl 2
               else if l_sealed l = Some ''1'' \<or> l_funding_frozen l = Some ''1''
                       \<or> l_expires_at_ms l \<le> now_ms then Inl 3
               else if units \<le> 0 \<or> outstanding l + units > l_budget_units l
                       \<or> l_consumed_units l + units > 9007199254740991 then Inl 4
               else pool_check now_ms db rest duplicates))"

definition pool_arm_one :: "int \<Rightarrow> int \<Rightarrow> string \<Rightarrow> pool_share \<Rightarrow> redis_db \<Rightarrow> redis_db" where
  "pool_arm_one now_ms grace k_set share db =
     (case share of (lease, hold, auth, units) \<Rightarrow>
        (case leases db lease of
           None \<Rightarrow> db
         | Some l \<Rightarrow>
             r_sadd k_set auth
               (r_pexpireat hold (l_expires_at_ms l + grace)
                 (r_hset_hold hold \<lparr>h_lease_id = l_lease_id l, h_held_units = units,
                     h_armed_at_ms = now_ms, h_class = [], h_state = ''armed'', h_event_id = []\<rparr>
                   (r_hset_lease lease (l\<lparr>l_consumed_units := l_consumed_units l + units\<rparr>) db)))))"

definition armCanonicalWalletPoolScript ::
  "pool_share list \<Rightarrow> string \<Rightarrow> int \<Rightarrow> int \<Rightarrow> redis_db \<Rightarrow> redis_db \<times> int" where
  "armCanonicalWalletPoolScript shares k_set now_ms grace db =
     (case pool_check now_ms db shares 0 of
        Inl code \<Rightarrow> (db, code)
      | Inr duplicates \<Rightarrow>
          if duplicates = length shares then (db, 0)
          else if duplicates > 0 then (db, 6)
          else (fold (pool_arm_one now_ms grace k_set) shares db, 0))"

end
