(* ===== verification/Wallet_Store.thy ===== *)
theory Wallet_Store
  imports Wallet_Redis
begin

text \<open>
  The Go side of the canonical wallet store (\<open>repository/canonical_wallet_store.go\<close>): argument
  guards, key construction, the script call, and the decoding of its reply into a value or a typed
  error. A store without a Redis client (\<open>c == nil\<close> or \<open>c.rdb == nil\<close>) is \<open>None\<close>; a store
  with one is \<open>Some db\<close>, and its Redis is reachable, so that the only error a script call
  reports is an error reply of the script.
\<close>

section \<open>Errors\<close>

datatype wallet_error =
    ErrNew string                       \<comment> \<open>\<open>errors.New(text)\<close>\<close>
  | ErrRedisReply string                \<comment> \<open>an error reply of a script\<close>
  | ErrUnsafeInt int                    \<comment> \<open>\<open>ensureRedisLuaSafeInt64\<close>\<close>
  | ErrRequiresUSD string               \<comment> \<open>\<open>RequireUSDBillingCurrency\<close>\<close>
  | ErrParse string                     \<comment> \<open>a field that is no 64-bit decimal\<close>
  | ErrUnexpectedType
  | ErrUnknownCode int
  | ErrCanonicalWalletLeaseMissing
  | ErrCanonicalWalletLeaseCurrencyMismatch
  | ErrCanonicalWalletLeaseExpired
  | ErrCanonicalWalletLeaseExhausted
  | ErrCanonicalWalletReservationConflict
  | ErrCanonicalWalletHoldMissing
  | CanonicalWalletHoldNotArmedError string string

type_synonym wallet_store = "redis_db option"
type_synonym 'a wallet_result = "wallet_error + 'a"

definition errUnavailable :: wallet_error where
  "errUnavailable = ErrNew ''canonical wallet Redis store unavailable''"

section \<open>Values\<close>

record CanonicalWalletReservation =
  res_Lease :: CanonicalWalletLease
  res_Duplicate :: bool

record CanonicalWalletHold =
  hold_AuthorizationID :: string
  hold_LeaseID :: string
  hold_HeldUnits :: int
  hold_ArmedAt :: go_time
  hold_Class :: string
  hold_State :: string
  hold_EventID :: string

record CanonicalWalletHoldConversion =
  conv_Code :: int
  conv_LeaseID :: string
  conv_State :: string
  conv_EventID :: string

section \<open>Guards\<close>

definition redisLuaMaxSafeInt64 :: int where
  "redisLuaMaxSafeInt64 = 9007199254740991"

fun ensureRedisLuaSafeInt64 :: "int list \<Rightarrow> wallet_error option" where
  "ensureRedisLuaSafeInt64 [] = None"
| "ensureRedisLuaSafeInt64 (v # vs) =
     (if v < 0 \<or> v > redisLuaMaxSafeInt64 then Some (ErrUnsafeInt v)
      else ensureRedisLuaSafeInt64 vs)"

definition RequireUSDBillingCurrency :: "string \<Rightarrow> string wallet_result" where
  "RequireUSDBillingCurrency value =
     (let normalized = ToUpper (TrimSpace value)
      in if normalized \<noteq> ''USD'' then Inl (ErrRequiresUSD value) else Inr normalized)"

section \<open>Decoding\<close>

definition redisResultInt64 :: "go_any \<Rightarrow> int wallet_result" where
  "redisResultInt64 value =
     (case value of
        AInt v \<Rightarrow> Inr v
      | AStr s \<Rightarrow> (case ParseInt s of None \<Rightarrow> Inl (ErrParse s) | Some v \<Rightarrow> Inr v)
      | ABytes s \<Rightarrow> (case ParseInt s of None \<Rightarrow> Inl (ErrParse s) | Some v \<Rightarrow> Inr v)
      | ANil \<Rightarrow> Inl ErrUnexpectedType)"

definition bind_res :: "'a wallet_result \<Rightarrow> ('a \<Rightarrow> 'b wallet_result) \<Rightarrow> 'b wallet_result" where
  "bind_res r f = (case r of Inl e \<Rightarrow> Inl e | Inr x \<Rightarrow> f x)"

definition decodeCanonicalWalletReservationResult ::
  "go_any list \<Rightarrow> string \<Rightarrow> CanonicalWalletReservation wallet_result" where
  "decodeCanonicalWalletReservationResult result platformUserID =
     (case result of
        [] \<Rightarrow> Inl (ErrNew ''canonical wallet reservation returned no result'')
      | c # _ \<Rightarrow>
          bind_res (redisResultInt64 c) (\<lambda>code.
            if code = 1 then Inl ErrCanonicalWalletLeaseMissing
            else if code = 2 then Inl ErrCanonicalWalletLeaseCurrencyMismatch
            else if code = 3 then Inl ErrCanonicalWalletLeaseExpired
            else if code = 4 then Inl ErrCanonicalWalletLeaseExhausted
            else if code = 6 then Inl ErrCanonicalWalletReservationConflict
            else if code = 0 \<or> code = 5 then
              (if length result \<noteq> 6
               then Inl (ErrNew ''canonical wallet reservation returned an invalid snapshot'')
               else
                 bind_res (redisResultInt64 (result ! 3)) (\<lambda>budget.
                 bind_res (redisResultInt64 (result ! 4)) (\<lambda>consumed.
                 bind_res (redisResultInt64 (result ! 5)) (\<lambda>expiresAtMS.
                   Inr \<lparr>res_Lease = zeroLease\<lparr>LeaseID := Sprint (result ! 1),
                            PlatformUserID := TrimSpace platformUserID,
                            Currency := Sprint (result ! 2), BudgetUnits := budget,
                            ConsumedUnits := consumed, ExpiresAt := Some (of_UnixMilli expiresAtMS)\<rparr>,
                        res_Duplicate = (code = 5)\<rparr>))))
            else Inl (ErrUnknownCode code)))"

text \<open>\<open>HGETALL\<close> of a lease hash: the field map the client returns, numbers as decimals.\<close>

definition lease_fields :: "lease_hash \<Rightarrow> (string \<rightharpoonup> string)" where
  "lease_fields l = [
     ''lease_id'' \<mapsto> l_lease_id l,
     ''platform_user_id'' \<mapsto> l_platform_user_id l,
     ''currency'' \<mapsto> l_currency l,
     ''budget_units'' \<mapsto> show_int (l_budget_units l),
     ''consumed_units'' \<mapsto> show_int (l_consumed_units l),
     ''expires_at_ms'' \<mapsto> show_int (l_expires_at_ms l)]
     (''released_units'' := map_option show_int (l_released_units l),
      ''funded_units'' := map_option show_int (l_funded_units l),
      ''returned_units'' := map_option show_int (l_returned_units l),
      ''return_revision'' := map_option show_int (l_return_revision l),
      ''budget_revision'' := map_option show_int (l_budget_revision l),
      ''funding_frozen'' := l_funding_frozen l,
      ''funding_scope'' := l_funding_scope l,
      ''funding_owner_id'' := l_funding_owner_id l,
      ''funding_issuance_key'' := l_funding_issuance_key l,
      ''sealed'' := l_sealed l,
      ''durable_media'' := l_durable_media l,
      ''media_recovered'' := l_media_recovered l,
      ''funding_closed'' := l_funding_closed l)"

text \<open>Reading a Go map yields the zero value for an absent key.\<close>

definition map_get :: "(string \<rightharpoonup> string) \<Rightarrow> string \<Rightarrow> string" where
  "map_get m k = str0 (m k)"

definition parse_or :: "wallet_error \<Rightarrow> string \<Rightarrow> int wallet_result" where
  "parse_or e s = (case ParseInt s of None \<Rightarrow> Inl e | Some v \<Rightarrow> Inr v)"

text \<open>One entry of the funding metadata loop: absent or empty is 0, otherwise a non-negative int.\<close>

definition parse_funding :: "string \<Rightarrow> int wallet_result" where
  "parse_funding s =
     (if s = [] then Inr 0
      else case ParseInt s of
          None \<Rightarrow> Inl (ErrNew ''invalid canonical funding metadata'')
        | Some v \<Rightarrow> if v < 0 then Inl (ErrNew ''invalid canonical funding metadata'') else Inr v)"

definition parseCanonicalWalletLease :: "(string \<rightharpoonup> string) \<Rightarrow> CanonicalWalletLease wallet_result" where
  "parseCanonicalWalletLease values =
     (let v = map_get values in
      bind_res (parse_or (ErrParse ''budget_units'') (v ''budget_units'')) (\<lambda>budget.
      bind_res (parse_or (ErrParse ''consumed_units'') (v ''consumed_units'')) (\<lambda>consumed.
      bind_res (if v ''released_units'' \<noteq> [] then
                  parse_or (ErrParse ''released_units'') (v ''released_units'') else Inr 0) (\<lambda>released.
      bind_res (parse_or (ErrParse ''expires_at_ms'') (v ''expires_at_ms'')) (\<lambda>expiresAtMS.
      bind_res (parse_funding (v ''funded_units'')) (\<lambda>funded.
      bind_res (parse_funding (v ''returned_units'')) (\<lambda>returned.
      bind_res (parse_funding (v ''return_revision'')) (\<lambda>return_revision.
      bind_res (parse_funding (v ''budget_revision'')) (\<lambda>budget_revision.
        if funded > 0 \<and> wrap64 (funded - returned) \<noteq> budget
        then Inl (ErrNew ''canonical funding principal mismatch'')
        else Inr (zeroLease\<lparr>FundedUnits := funded, ReturnedUnits := returned,
               ReturnRevision := return_revision, BudgetRevision := budget_revision,
               FundingFrozen := (v ''funding_frozen'' = ''1''), FundingScope := v ''funding_scope'',
               FundingOwnerID := v ''funding_owner_id'',
               FundingIssuanceKey := v ''funding_issuance_key'',
               LeaseID := v ''lease_id'', PlatformUserID := v ''platform_user_id'',
               Currency := v ''currency'', BudgetUnits := budget, ConsumedUnits := consumed,
               ReleasedUnits := released, Sealed := (v ''sealed'' = ''1''),
               ExpiresAt := Some (of_UnixMilli expiresAtMS)\<rparr>))))))))))"

definition hold_fields :: "hold_hash \<Rightarrow> (string \<rightharpoonup> string)" where
  "hold_fields h = [
     ''lease_id'' \<mapsto> h_lease_id h, ''held_units'' \<mapsto> show_int (h_held_units h),
     ''armed_at_ms'' \<mapsto> show_int (h_armed_at_ms h), ''class'' \<mapsto> h_class h,
     ''state'' \<mapsto> h_state h, ''event_id'' \<mapsto> h_event_id h]"

definition parseCanonicalWalletHold ::
  "string \<Rightarrow> (string \<rightharpoonup> string) \<Rightarrow> CanonicalWalletHold wallet_result" where
  "parseCanonicalWalletHold authorizationID values =
     (let v = map_get values in
      bind_res (parse_or (ErrParse ''held_units'') (v ''held_units'')) (\<lambda>held.
      bind_res (parse_or (ErrParse ''armed_at_ms'') (v ''armed_at_ms'')) (\<lambda>armedAtMS.
        Inr \<lparr>hold_AuthorizationID = authorizationID, hold_LeaseID = v ''lease_id'',
             hold_HeldUnits = held, hold_ArmedAt = Some (of_UnixMilli armedAtMS),
             hold_Class = v ''class'', hold_State = v ''state'', hold_EventID = v ''event_id''\<rparr>)))"

section \<open>Lease operations\<close>

text \<open>The guards of \<open>InstallCanonicalWalletLease\<close> up to the currency check.\<close>

definition install_guard :: "CanonicalWalletLease \<Rightarrow> string wallet_result" where
  "install_guard lease =
     (if TrimSpace (PlatformUserID lease) = [] \<or> TrimSpace (LeaseID lease) = []
         \<or> (BudgetUnits lease < 0 \<or> (BudgetUnits lease = 0 \<and> \<not> FundingFrozen lease))
         \<or> ExpiresAt lease = None
      then Inl (ErrNew ''invalid canonical wallet lease'')
      else if ConsumedUnits lease < 0 \<or> ReleasedUnits lease < 0
              \<or> ReleasedUnits lease > ConsumedUnits lease
              \<or> wrap64 (ConsumedUnits lease - ReleasedUnits lease) > BudgetUnits lease
      then Inl (ErrNew ''invalid canonical wallet lease consumption'')
      else case ensureRedisLuaSafeInt64 [BudgetUnits lease, ConsumedUnits lease, ReleasedUnits lease,
                  FundingPrincipalUnits lease, ReturnedUnits lease, ReturnRevision lease,
                  BudgetRevision lease] of
          Some e \<Rightarrow> Inl e
        | None \<Rightarrow> RequireUSDBillingCurrency (Currency lease))"

definition install_argv ::
  "(string \<Rightarrow> string) \<Rightarrow> CanonicalWalletLease \<Rightarrow> string \<Rightarrow> install_args" where
  "install_argv H lease currency =
     (let expires = (case ExpiresAt lease of None \<Rightarrow> 0 | Some e \<Rightarrow> e);
          retainUntil = (case RetainUntil lease of
                           None \<Rightarrow> expires
                         | Some r \<Rightarrow> if r < expires then expires else r)
      in \<lparr>a_lease_id = LeaseID lease, a_user = TrimSpace (PlatformUserID lease),
          a_currency = currency, a_consumed = ConsumedUnits lease,
          a_expires = UnixMilli expires, a_budget = BudgetUnits lease,
          a_prefix = canonicalWalletLeaseKeyPrefix H (PlatformUserID lease),
          a_retain = UnixMilli retainUntil,
          a_require_cached = (if RequireCachedLease lease \<or> ReleasedUnits lease > 0
                              then ''1'' else ''0''),
          a_revision = ReturnRevision lease, a_returned = ReturnedUnits lease,
          a_funded = FundingPrincipalUnits lease, a_frozen = boolWalletFlag (FundingFrozen lease),
          a_scope = FundingScope lease, a_owner = FundingOwnerID lease,
          a_issuance = FundingIssuanceKey lease, a_budget_revision = BudgetRevision lease\<rparr>)"

definition InstallCanonicalWalletLease ::
  "(string \<Rightarrow> string) \<Rightarrow> CanonicalWalletLease \<Rightarrow> wallet_store \<Rightarrow> wallet_store \<times> unit wallet_result" where
  "InstallCanonicalWalletLease H lease c =
     (case c of
        None \<Rightarrow> (None, Inl errUnavailable)
      | Some db \<Rightarrow>
          (case install_guard lease of
             Inl e \<Rightarrow> (Some db, Inl e)
           | Inr currency \<Rightarrow>
               (case installCanonicalWalletLeaseScript
                       (canonicalWalletLeaseKey H (PlatformUserID lease) (LeaseID lease))
                       (canonicalWalletCurrentKey H (PlatformUserID lease))
                       (canonicalWalletFundingTombstoneKey H (PlatformUserID lease) (LeaseID lease))
                       (install_argv H lease currency) db of
                  (db', Inl e) \<Rightarrow> (Some db', Inl (ErrRedisReply e))
                | (db', Inr _) \<Rightarrow> (Some db', Inr ()))))"

definition GetCanonicalWalletLeaseByID ::
  "(string \<Rightarrow> string) \<Rightarrow> string \<Rightarrow> string \<Rightarrow> wallet_store \<Rightarrow> CanonicalWalletLease wallet_result" where
  "GetCanonicalWalletLeaseByID H platformUserID leaseID c =
     (case c of
        None \<Rightarrow> Inl errUnavailable
      | Some db \<Rightarrow>
          (case leases db (canonicalWalletLeaseKey H platformUserID leaseID) of
             None \<Rightarrow> Inl ErrCanonicalWalletLeaseMissing
           | Some l \<Rightarrow> parseCanonicalWalletLease (lease_fields l)))"

definition GetCanonicalWalletLease ::
  "(string \<Rightarrow> string) \<Rightarrow> string \<Rightarrow> wallet_store \<Rightarrow> CanonicalWalletLease wallet_result" where
  "GetCanonicalWalletLease H platformUserID c =
     (case c of
        None \<Rightarrow> Inl errUnavailable
      | Some db \<Rightarrow>
          (case strs db (canonicalWalletCurrentKey H platformUserID) of
             None \<Rightarrow> Inl ErrCanonicalWalletLeaseMissing
           | Some currentID \<Rightarrow> GetCanonicalWalletLeaseByID H platformUserID currentID c))"

definition ReserveCanonicalWalletLease ::
  "(string \<Rightarrow> string) \<Rightarrow> string \<Rightarrow> string \<Rightarrow> string \<Rightarrow> string \<Rightarrow> int \<Rightarrow> int \<Rightarrow> wallet_store
     \<Rightarrow> wallet_store \<times> CanonicalWalletReservation wallet_result" where
  "ReserveCanonicalWalletLease H platformUserID leaseID currency eventID amountUnits now c =
     (case c of
        None \<Rightarrow> (None, Inl errUnavailable)
      | Some db \<Rightarrow>
          if TrimSpace eventID = [] \<or> amountUnits \<le> 0 \<or> TrimSpace leaseID = []
          then (Some db, Inl (ErrNew ''canonical wallet reservation requires a lease id, positive amount, and event id''))
          else case ensureRedisLuaSafeInt64 [amountUnits] of
            Some e \<Rightarrow> (Some db, Inl e)
          | None \<Rightarrow>
              (case RequireUSDBillingCurrency currency of
                 Inl e \<Rightarrow> (Some db, Inl e)
               | Inr strictCurrency \<Rightarrow>
                   (let (db', result) = reserveCanonicalWalletLeaseScript
                          (canonicalWalletLeaseKey H platformUserID leaseID)
                          (canonicalWalletReservationKey H platformUserID eventID)
                          strictCurrency amountUnits (UnixMilli now) db
                    in (Some db', decodeCanonicalWalletReservationResult result platformUserID))))"

definition SealCanonicalWalletLease ::
  "(string \<Rightarrow> string) \<Rightarrow> string \<Rightarrow> string \<Rightarrow> wallet_store \<Rightarrow> wallet_store \<times> (int \<times> int) wallet_result" where
  "SealCanonicalWalletLease H platformUserID leaseID c =
     (case c of
        None \<Rightarrow> (None, Inl errUnavailable)
      | Some db \<Rightarrow>
          if TrimSpace platformUserID = [] \<or> TrimSpace leaseID = []
          then (Some db, Inl (ErrNew ''canonical wallet seal requires a platform user id and a lease id''))
          else
            (let (db', result) = sealCanonicalWalletLeaseScript
                   (canonicalWalletLeaseKey H platformUserID leaseID)
                   (canonicalWalletCurrentKey H platformUserID) leaseID db
             in (Some db',
                 (case result of
                    [] \<Rightarrow> Inl (ErrNew ''canonical wallet seal returned no result'')
                  | c # _ \<Rightarrow>
                      bind_res (redisResultInt64 c) (\<lambda>code.
                        if code = 1 then Inl ErrCanonicalWalletLeaseMissing
                        else if length result \<noteq> 3
                        then Inl (ErrNew ''canonical wallet seal returned an invalid result'')
                        else bind_res (redisResultInt64 (result ! 1)) (\<lambda>preSealConsumed.
                             bind_res (redisResultInt64 (result ! 2)) (\<lambda>released.
                               Inr (preSealConsumed, released))))))))"

section \<open>Hold operations\<close>

text \<open>The result is (lease id, held units, whether the hold existed already).\<close>

definition ArmCanonicalWalletHold ::
  "(string \<Rightarrow> string) \<Rightarrow> string \<Rightarrow> string \<Rightarrow> string \<Rightarrow> string \<Rightarrow> int \<Rightarrow> int \<Rightarrow> int \<Rightarrow> wallet_store
     \<Rightarrow> wallet_store \<times> (string \<times> int \<times> bool) wallet_result" where
  "ArmCanonicalWalletHold H platformUserID leaseID currency authorizationID units graceMS now c =
     (case c of
        None \<Rightarrow> (None, Inl errUnavailable)
      | Some db \<Rightarrow>
          if TrimSpace platformUserID = [] \<or> TrimSpace leaseID = [] \<or> TrimSpace authorizationID = []
             \<or> units \<le> 0 \<or> graceMS < 0
          then (Some db, Inl (ErrNew ''canonical wallet hold arm requires a platform user id, a lease id, an authorization id and positive units''))
          else case ensureRedisLuaSafeInt64 [units] of
            Some e \<Rightarrow> (Some db, Inl e)
          | None \<Rightarrow>
              (case RequireUSDBillingCurrency currency of
                 Inl e \<Rightarrow> (Some db, Inl e)
               | Inr strictCurrency \<Rightarrow>
                   (let (db', result) = armCanonicalWalletHoldScript
                          (canonicalWalletLeaseKey H platformUserID leaseID)
                          (canonicalWalletHoldKey H platformUserID authorizationID)
                          (canonicalWalletHoldSetKey H platformUserID)
                          strictCurrency units (UnixMilli now) authorizationID graceMS db
                    in case result of
                         [] \<Rightarrow> (Some db', Inl (ErrNew ''canonical wallet hold arm returned no result''))
                       | r0 # _ \<Rightarrow>
                           (case redisResultInt64 r0 of
                              Inl e \<Rightarrow> (Some db', Inl e)
                            | Inr code \<Rightarrow>
                                if code = 1 then (Some db', Inl ErrCanonicalWalletLeaseMissing)
                                else if code = 2 then (Some db', Inl ErrCanonicalWalletLeaseCurrencyMismatch)
                                else if code = 3 then (Some db', Inl ErrCanonicalWalletLeaseExpired)
                                else if code = 4 then (Some db', Inl ErrCanonicalWalletLeaseExhausted)
                                else if code = 5 then
                                  (if length result \<noteq> 3
                                   then (Some db', Inl (ErrNew ''canonical wallet hold arm returned an invalid duplicate reply''))
                                   else (Some db', bind_res (redisResultInt64 (result ! 2))
                                           (\<lambda>held. Inr (Sprint (result ! 1), held, True))))
                                else if code = 0 then
                                  (if length result \<noteq> 3
                                   then (Some db', Inl (ErrNew ''canonical wallet hold arm returned an invalid reply''))
                                   else case redisResultInt64 (result ! 2) of
                                       Inl e \<Rightarrow> (Some db', Inl e)
                                     | Inr held \<Rightarrow>
                                         (Some (r_sadd canonicalWalletHoldUsersKey
                                                  (TrimSpace platformUserID) db'),
                                          Inr (Sprint (result ! 1), held, False)))
                                else (Some db', Inl (ErrUnknownCode code))))))"

definition ReleaseCanonicalWalletHold ::
  "(string \<Rightarrow> string) \<Rightarrow> string \<Rightarrow> string \<Rightarrow> string \<Rightarrow> string \<Rightarrow> wallet_store
     \<Rightarrow> wallet_store \<times> int wallet_result" where
  "ReleaseCanonicalWalletHold H platformUserID authorizationID stateAfter classAfter c =
     (case c of
        None \<Rightarrow> (None, Inl errUnavailable)
      | Some db \<Rightarrow>
          if TrimSpace platformUserID = [] \<or> TrimSpace authorizationID = []
          then (Some db, Inl (ErrNew ''canonical wallet hold release requires a platform user id and an authorization id''))
          else if stateAfter \<noteq> ''released'' \<and> stateAfter \<noteq> ''abandoned''
          then (Some db, Inl (ErrNew ''canonical wallet hold release state_after must be released or abandoned''))
          else case holds db (canonicalWalletHoldKey H platformUserID authorizationID) of
            None \<Rightarrow> (Some db, Inl ErrCanonicalWalletHoldMissing)
          | Some h0 \<Rightarrow>
              (let (db', result) = releaseCanonicalWalletHoldScript
                     (canonicalWalletHoldKey H platformUserID authorizationID)
                     (canonicalWalletHoldSetKey H platformUserID)
                     (canonicalWalletLeaseKey H platformUserID (h_lease_id h0))
                     authorizationID stateAfter classAfter db
               in (Some db',
                   (case result of
                      [] \<Rightarrow> Inl (ErrNew ''canonical wallet hold release returned no result'')
                    | r0 # _ \<Rightarrow>
                        bind_res (redisResultInt64 r0) (\<lambda>code.
                          if code = 1 then Inl ErrCanonicalWalletHoldMissing
                          else if code = 7 then
                            Inl (CanonicalWalletHoldNotArmedError (Sprint (result ! 1))
                                   (if length result > 2 then Sprint (result ! 2) else []))
                          else if code = 0 then
                            (if length result \<noteq> 2
                             then Inl (ErrNew ''canonical wallet hold release returned an invalid reply'')
                             else redisResultInt64 (result ! 1))
                          else Inl (ErrUnknownCode code))))))"

definition conversion :: "int \<Rightarrow> CanonicalWalletHoldConversion" where
  "conversion code = \<lparr>conv_Code = code, conv_LeaseID = [], conv_State = [], conv_EventID = []\<rparr>"

definition ConvertCanonicalWalletHold ::
  "(string \<Rightarrow> string) \<Rightarrow> string \<Rightarrow> string \<Rightarrow> string \<Rightarrow> int \<Rightarrow> int \<Rightarrow> int \<Rightarrow> wallet_store
     \<Rightarrow> wallet_store \<times> CanonicalWalletHoldConversion wallet_result" where
  "ConvertCanonicalWalletHold H platformUserID authorizationID eventID actualUnits now rnow c =
     (case c of
        None \<Rightarrow> (None, Inl errUnavailable)
      | Some db \<Rightarrow>
          if TrimSpace platformUserID = [] \<or> TrimSpace authorizationID = [] \<or> TrimSpace eventID = []
             \<or> actualUnits < 0
          then (Some db, Inl (ErrNew ''canonical wallet hold convert requires a platform user id, an authorization id, an event id and non-negative units''))
          else case ensureRedisLuaSafeInt64 [actualUnits] of
            Some e \<Rightarrow> (Some db, Inl e)
          | None \<Rightarrow>
              (case holds db (canonicalWalletHoldKey H platformUserID authorizationID) of
                 None \<Rightarrow> (Some db, Inr (conversion 1))
               | Some h0 \<Rightarrow>
                   (let (db', result) = convertCanonicalWalletHoldScript
                          (canonicalWalletHoldKey H platformUserID authorizationID)
                          (canonicalWalletHoldSetKey H platformUserID)
                          (canonicalWalletLeaseKey H platformUserID (h_lease_id h0))
                          (canonicalWalletReservationKey H platformUserID eventID)
                          authorizationID eventID actualUnits (UnixMilli now) rnow db
                    in (Some db',
                        (case result of
                           [] \<Rightarrow> Inl (ErrNew ''canonical wallet hold convert returned no result'')
                         | r0 # _ \<Rightarrow>
                             bind_res (redisResultInt64 r0) (\<lambda>code.
                               if code = 0 then
                                 (if length result \<noteq> 2
                                  then Inl (ErrNew ''canonical wallet hold convert returned an invalid reply'')
                                  else Inr ((conversion 0)\<lparr>conv_LeaseID := Sprint (result ! 1)\<rparr>))
                               else if code = 3 \<or> code = 4 then Inr (conversion code)
                               else if code = 7 then
                                 (if length result \<noteq> 4
                                  then Inl (ErrNew ''canonical wallet hold convert returned an invalid not-armed reply'')
                                  else Inr \<lparr>conv_Code = 7, conv_LeaseID = Sprint (result ! 3),
                                            conv_State = Sprint (result ! 1),
                                            conv_EventID = Sprint (result ! 2)\<rparr>)
                               else if code = 1 then Inr (conversion 1)
                               else Inl (ErrUnknownCode code)))))))"

definition GetCanonicalWalletHold ::
  "(string \<Rightarrow> string) \<Rightarrow> string \<Rightarrow> string \<Rightarrow> wallet_store \<Rightarrow> CanonicalWalletHold wallet_result" where
  "GetCanonicalWalletHold H platformUserID authorizationID c =
     (case c of
        None \<Rightarrow> Inl errUnavailable
      | Some db \<Rightarrow>
          (case holds db (canonicalWalletHoldKey H platformUserID authorizationID) of
             None \<Rightarrow> Inl ErrCanonicalWalletHoldMissing
           | Some h \<Rightarrow> parseCanonicalWalletHold authorizationID (hold_fields h)))"

definition MarkCanonicalWalletHoldClass ::
  "(string \<Rightarrow> string) \<Rightarrow> string \<Rightarrow> string \<Rightarrow> string \<Rightarrow> wallet_store
     \<Rightarrow> wallet_store \<times> CanonicalWalletHold wallet_result" where
  "MarkCanonicalWalletHoldClass H platformUserID authorizationID class c =
     (case c of
        None \<Rightarrow> (None, Inl errUnavailable)
      | Some db \<Rightarrow>
          if TrimSpace platformUserID = [] \<or> TrimSpace authorizationID = [] \<or> TrimSpace class = []
          then (Some db, Inl (ErrNew ''canonical wallet hold mark-class requires a platform user id, an authorization id and a class''))
          else
            (let (db', result) = markCanonicalWalletHoldClassScript
                   (canonicalWalletHoldKey H platformUserID authorizationID) class db
             in (Some db',
                 (case result of
                    [] \<Rightarrow> Inl (ErrNew ''canonical wallet hold mark-class returned no result'')
                  | r0 # _ \<Rightarrow>
                      bind_res (redisResultInt64 r0) (\<lambda>code.
                        if code = 1 then Inl ErrCanonicalWalletHoldMissing
                        else if code = 7 then
                          Inl (CanonicalWalletHoldNotArmedError (Sprint (result ! 1))
                                 (if length result > 2 then Sprint (result ! 2) else []))
                        else if code = 0 then
                          GetCanonicalWalletHold H platformUserID authorizationID (Some db')
                        else Inl (ErrUnknownCode code))))))"

definition ReleaseCanonicalWalletReservation ::
  "(string \<Rightarrow> string) \<Rightarrow> string \<Rightarrow> string \<Rightarrow> string \<Rightarrow> int \<Rightarrow> bool \<Rightarrow> int \<Rightarrow> wallet_store
     \<Rightarrow> wallet_store \<times> bool wallet_result" where
  "ReleaseCanonicalWalletReservation H platformUserID leaseID eventID units dropMarker rnow c =
     (case c of
        None \<Rightarrow> (None, Inl errUnavailable)
      | Some db \<Rightarrow>
          if TrimSpace platformUserID = [] \<or> TrimSpace leaseID = [] \<or> TrimSpace eventID = []
          then (Some db, Inl (ErrNew ''canonical wallet reservation release requires a platform user id, a lease id and an event id''))
          else case ensureRedisLuaSafeInt64 [units] of
            Some e \<Rightarrow> (Some db, Inl e)
          | None \<Rightarrow>
              if units \<le> 0
              then (Some db, Inl (ErrNew ''canonical wallet reservation release requires positive units''))
              else
                (let (db', result) = releaseCanonicalWalletReservationScript
                       (canonicalWalletLeaseKey H platformUserID leaseID)
                       (canonicalWalletReservationKey H platformUserID eventID)
                       (canonicalWalletReleaseMarkerKey H platformUserID eventID)
                       leaseID units (if dropMarker then ''1'' else ''0'') rnow db
                 in (Some db',
                     (case result of
                        [] \<Rightarrow> Inl (ErrNew ''canonical wallet reservation release returned no result'')
                      | r0 # _ \<Rightarrow>
                          bind_res (redisResultInt64 r0) (\<lambda>code.
                            if code = 0 then Inr True
                            else if code = 1 \<or> code = 6 \<or> code = 7 then Inr False
                            else Inl (ErrUnknownCode code))))))"

section \<open>The reaper's bookkeeping\<close>

text \<open>
  \<open>SMEMBERS\<close> answers in no particular order; \<open>order\<close> is the order Redis picks.
\<close>

definition ListCanonicalWalletHolds ::
  "(string \<Rightarrow> string) \<Rightarrow> (string list \<Rightarrow> string list) \<Rightarrow> string \<Rightarrow> int \<Rightarrow> wallet_store
     \<Rightarrow> string list wallet_result" where
  "ListCanonicalWalletHolds H order platformUserID limit c =
     (case c of
        None \<Rightarrow> Inl errUnavailable
      | Some db \<Rightarrow>
          (let limit' = (if limit \<le> 0 then 200 else limit);
               members = order (sets db (canonicalWalletHoldSetKey H platformUserID))
           in Inr (if int (length members) > limit' then take (nat limit') members else members)))"

definition PruneCanonicalWalletHoldUser ::
  "string \<Rightarrow> wallet_store \<Rightarrow> wallet_store \<times> unit wallet_result" where
  "PruneCanonicalWalletHoldUser platformUserID c =
     (case c of
        None \<Rightarrow> (None, Inl errUnavailable)
      | Some db \<Rightarrow> (Some (r_srem canonicalWalletHoldUsersKey (TrimSpace platformUserID) db), Inr ()))"

definition ForgetCanonicalWalletHold ::
  "(string \<Rightarrow> string) \<Rightarrow> string \<Rightarrow> string \<Rightarrow> wallet_store \<Rightarrow> wallet_store \<times> unit wallet_result" where
  "ForgetCanonicalWalletHold H platformUserID authorizationID c =
     (case c of
        None \<Rightarrow> (None, Inl errUnavailable)
      | Some db \<Rightarrow>
          (Some (r_srem (canonicalWalletHoldSetKey H platformUserID) authorizationID db), Inr ()))"

text \<open>
  \<open>SET NX PX\<close>: the two deployment-wide tick leaders and the two-tick empty mark share it. The
  TTL is in milliseconds; \<open>rnow\<close> is Redis' clock.
\<close>

definition r_setnx :: "string \<Rightarrow> int \<Rightarrow> int \<Rightarrow> redis_db \<Rightarrow> redis_db \<times> bool" where
  "r_setnx k ttl_ms rnow db =
     (case strs db k of
        Some _ \<Rightarrow> (db, False)
      | None \<Rightarrow>
          ((if ttl_ms > 0 then r_pexpireat k (rnow + ttl_ms) (r_set k ''1'' db)
            else r_set k ''1'' db), True))"

definition TryCanonicalWalletReaperLease ::
  "int \<Rightarrow> int \<Rightarrow> wallet_store \<Rightarrow> wallet_store \<times> bool wallet_result" where
  "TryCanonicalWalletReaperLease ttl_ms rnow c =
     (case c of
        None \<Rightarrow> (None, Inl errUnavailable)
      | Some db \<Rightarrow>
          (let (db', ok) = r_setnx ''canonical_wallet:reaper:tick'' ttl_ms rnow db
           in (Some db', Inr ok)))"

definition TryCanonicalWalletReceivableCollectorLease ::
  "int \<Rightarrow> int \<Rightarrow> wallet_store \<Rightarrow> wallet_store \<times> bool wallet_result" where
  "TryCanonicalWalletReceivableCollectorLease ttl_ms rnow c =
     (case c of
        None \<Rightarrow> (None, Inl errUnavailable)
      | Some db \<Rightarrow>
          (let (db', ok) = r_setnx ''canonical_wallet:receivable_collector:tick'' ttl_ms rnow db
           in (Some db', Inr ok)))"

definition MarkCanonicalWalletHoldUserEmpty ::
  "(string \<Rightarrow> string) \<Rightarrow> string \<Rightarrow> int \<Rightarrow> int \<Rightarrow> wallet_store \<Rightarrow> wallet_store \<times> bool wallet_result" where
  "MarkCanonicalWalletHoldUserEmpty H platformUserID ttl_ms rnow c =
     (case c of
        None \<Rightarrow> (None, Inl errUnavailable)
      | Some db \<Rightarrow>
          (let (db', ok) = r_setnx (canonicalWalletHoldUserEmptyKey H platformUserID) ttl_ms rnow db
           in (Some db', Inr (\<not> ok))))"

definition ClearCanonicalWalletHoldUserEmpty ::
  "(string \<Rightarrow> string) \<Rightarrow> string \<Rightarrow> wallet_store \<Rightarrow> wallet_store \<times> unit wallet_result" where
  "ClearCanonicalWalletHoldUserEmpty H platformUserID c =
     (case c of
        None \<Rightarrow> (None, Inl errUnavailable)
      | Some db \<Rightarrow> (Some (r_del (canonicalWalletHoldUserEmptyKey H platformUserID) db), Inr ()))"

section \<open>Arming a pool\<close>

text \<open>The fields of a segment that arming reads; its kind, events and lease basis concern the bridge only.\<close>

record AuthorizationSegment =
  seg_AuthorizationID :: string
  seg_LeaseID :: string
  seg_HeldUnits :: int

text \<open>The loop that builds the script's keys and arguments, stopping at the first bad segment.\<close>

fun pool_shares ::
  "(string \<Rightarrow> string) \<Rightarrow> string \<Rightarrow> string list \<Rightarrow> AuthorizationSegment list \<Rightarrow> pool_share list wallet_result"
where
  "pool_shares H user seen [] = Inr []"
| "pool_shares H user seen (s # rest) =
     (if seg_AuthorizationID s = [] \<or> seg_LeaseID s = [] \<or> seg_LeaseID s \<in> set seen
      then Inl (ErrNew ''duplicate wallet pool lease'')
      else case ensureRedisLuaSafeInt64 [seg_HeldUnits s] of
          Some e \<Rightarrow> Inl e
        | None \<Rightarrow>
            bind_res (pool_shares H user (seg_LeaseID s # seen) rest) (\<lambda>shares.
              Inr ((canonicalWalletLeaseKey H user (seg_LeaseID s),
                    canonicalWalletHoldKey H user (seg_AuthorizationID s),
                    seg_AuthorizationID s, seg_HeldUnits s) # shares)))"

definition ArmCanonicalWalletPool ::
  "(string \<Rightarrow> string) \<Rightarrow> string \<Rightarrow> AuthorizationSegment list \<Rightarrow> int \<Rightarrow> int \<Rightarrow> redis_db
     \<Rightarrow> redis_db \<times> unit wallet_result" where
  "ArmCanonicalWalletPool H user segments grace now db =
     (if segments = [] \<or> length segments > 1000 \<or> user = []
      then (db, Inl (ErrNew ''invalid wallet authorization pool''))
      else case pool_shares H user [] segments of
          Inl e \<Rightarrow> (db, Inl e)
        | Inr shares \<Rightarrow>
            (let (db', code) = armCanonicalWalletPoolScript shares
                   (canonicalWalletHoldSetKey H user) (UnixMilli now) grace db
             in if code = 0 then (r_sadd canonicalWalletHoldUsersKey user db', Inr ())
                else if code = 1 then (db', Inl ErrCanonicalWalletLeaseMissing)
                else if code = 2 then (db', Inl ErrCanonicalWalletLeaseCurrencyMismatch)
                else if code = 3 then (db', Inl ErrCanonicalWalletLeaseExpired)
                else if code = 4 then (db', Inl ErrCanonicalWalletLeaseExhausted)
                else (db', Inl (ErrNew ''wallet authorization pool is not replayable''))))"

declare InstallCanonicalWalletLease_def [wallet_defs] ReserveCanonicalWalletLease_def [wallet_defs]
  SealCanonicalWalletLease_def [wallet_defs] ArmCanonicalWalletHold_def [wallet_defs]
  ConvertCanonicalWalletHold_def [wallet_defs] ReleaseCanonicalWalletReservation_def [wallet_defs]

end
