(* ===== verification/Wallet_Funding.thy ===== *)
theory Wallet_Funding
  imports Wallet_Store
begin

text \<open>
  Returning the unused principal of a lease to the control plane
  (\<open>repository/canonical_wallet_funding.go\<close>) and the durable protection of media holds
  (\<open>repository/media_wallet_state.go\<close>): freezing a lease and its armed holds, applying a signed
  return receipt, restoring a lost lease or hold, ending the protection, and the raw read of a
  user's wallet. A script that answers with an error after it wrote keeps its writes, as Redis does.
\<close>

section \<open>Freezing a lease's funding\<close>

record CanonicalWalletFundingBasis =
  basis_Lease :: CanonicalWalletLease
  basis_Holds :: "CanonicalWalletHold list"

definition armed_on :: "string \<Rightarrow> hold_hash option \<Rightarrow> bool" where
  "armed_on lease_id h =
     (case h of None \<Rightarrow> False | Some h \<Rightarrow> h_lease_id h = lease_id \<and> h_state h = ''armed'')"

text \<open>The armed holds of the lease, by sorted authorization id, with their units as stored.\<close>

definition frozen_holds :: "string \<Rightarrow> string \<Rightarrow> string list \<Rightarrow> redis_db \<Rightarrow> (string \<times> string) list" where
  "frozen_holds hold_prefix lease_id ids db =
     [(i, case holds db (hold_prefix @ i) of None \<Rightarrow> [] | Some h \<Rightarrow> show_int (h_held_units h)).
        i \<leftarrow> sort_strs ids, armed_on lease_id (holds db (hold_prefix @ i))]"

definition freezeCanonicalWalletFundingScript ::
  "string \<Rightarrow> string \<Rightarrow> string \<Rightarrow> string \<Rightarrow> string \<Rightarrow> string \<Rightarrow> string \<Rightarrow> redis_db
     \<Rightarrow> redis_db \<times> (string + (string \<rightharpoonup> string) \<times> (string \<times> string) list)" where
  "freezeCanonicalWalletFundingScript k1 k2 k3 k4 user lease_id hold_prefix db =
     (case leases db k1 of
        None \<Rightarrow> (db, Inl ''canonical funding lease missing'')
      | Some l \<Rightarrow>
          if l_platform_user_id l \<noteq> user \<or> l_lease_id l \<noteq> lease_id
          then (db, Inl ''canonical funding owner mismatch'')
          else
            (let ids = sets db k4
             in if length ids > 1000 then (db, Inl ''canonical funding holds exceed bound'')
                else
                  (let hs = frozen_holds hold_prefix lease_id ids db
                   in if length hs > 128 then (db, Inl ''canonical funding lease holds exceed bound'')
                      else
                        (let l' = l\<lparr>l_funding_frozen := Some ''1''\<rparr>;
                             t = (case tombs db k3 of None \<Rightarrow> no_tomb | Some t \<Rightarrow> t);
                             t' = t\<lparr>t_funding_frozen := Some ''1'',
                                    t_funded_units := lua_or (l_funded_units l) (Some (l_budget_units l)),
                                    t_returned_units := lua_or (l_returned_units l) (Some 0),
                                    t_return_revision := lua_or (l_return_revision l) (Some 0)\<rparr>;
                             db1 = r_persist k1 (r_hset_lease k1 l' db);
                             db2 = r_persist k3 (r_hset_tomb k3 t' db1);
                             db3 = (if strs db2 k2 = Some lease_id then r_del k2 db2 else db2)
                         in (db3, Inr (lease_fields l', hs))))))"

fun decode_frozen_holds ::
  "string \<Rightarrow> (string \<times> string) list \<Rightarrow> CanonicalWalletHold list wallet_result" where
  "decode_frozen_holds leaseID [] = Inr []"
| "decode_frozen_holds leaseID ((auth, held) # rest) =
     (case ParseInt held of
        None \<Rightarrow> Inl (ErrParse held)
      | Some units \<Rightarrow>
          if units \<le> 0 then Inl (ErrNew ''invalid frozen hold'')
          else bind_res (decode_frozen_holds leaseID rest) (\<lambda>hs.
            Inr (\<lparr>hold_AuthorizationID = auth, hold_LeaseID = leaseID, hold_HeldUnits = units,
                  hold_ArmedAt = None, hold_Class = [], hold_State = ''armed'', hold_EventID = []\<rparr> # hs)))"

definition FreezeCanonicalWalletFunding ::
  "(string \<Rightarrow> string) \<Rightarrow> string \<Rightarrow> string \<Rightarrow> redis_db
     \<Rightarrow> redis_db \<times> CanonicalWalletFundingBasis wallet_result" where
  "FreezeCanonicalWalletFunding H user leaseID db =
     (case freezeCanonicalWalletFundingScript (canonicalWalletLeaseKey H user leaseID)
             (canonicalWalletCurrentKey H user) (canonicalWalletFundingTombstoneKey H user leaseID)
             (canonicalWalletHoldSetKey H user) user leaseID (canonicalWalletHoldKey H user []) db of
        (db', Inl e) \<Rightarrow> (db', Inl (ErrRedisReply e))
      | (db', Inr (fs, hs)) \<Rightarrow>
          (db', bind_res (parseCanonicalWalletLease fs) (\<lambda>lease.
                bind_res (decode_frozen_holds leaseID hs) (\<lambda>hds.
                  Inr \<lparr>basis_Lease = lease, basis_Holds = hds\<rparr>))))"

section \<open>Applying a signed return\<close>

text \<open>The refusals of the script, in order. \<open>T\<close> is the tombstone, \<open>L\<close> the lease hash.\<close>

definition return_refusal ::
  "lease_hash option \<Rightarrow> tomb_hash option \<Rightarrow> int \<Rightarrow> int \<Rightarrow> int \<Rightarrow> int \<Rightarrow> string \<Rightarrow> string option" where
  "return_refusal L T revision before after funded signature =
     (let previous = num0 (Option.bind T t_return_revision);
          prior_returned = num0 (Option.bind T t_returned_units);
          previous_signature = str0 (Option.bind T t_receipt_signature)
      in if previous > revision \<or> prior_returned > after then Some ''stale canonical funding receipt''
         else if previous = revision \<and> (prior_returned \<noteq> after
                   \<or> (previous_signature \<noteq> [] \<and> previous_signature \<noteq> signature))
         then Some ''canonical funding receipt conflict''
         else if previous < revision \<and> T \<noteq> None \<and> (previous \<noteq> revision - 1 \<or> prior_returned \<noteq> before)
         then Some ''canonical funding revision conflict''
         else if (case Option.bind T t_funded_units of None \<Rightarrow> funded | Some n \<Rightarrow> n) \<noteq> funded
         then Some ''canonical funding principal conflict''
         else case L of
             None \<Rightarrow> None
           | Some l \<Rightarrow>
               if outstanding l > funded - after \<or> l_funding_frozen l \<noteq> Some ''1''
                  \<or> (case l_funded_units l of None \<Rightarrow> funded | Some n \<Rightarrow> n) \<noteq> funded
                  \<or> num0 (l_return_revision l) > revision
                  \<or> num0 (l_returned_units l) > after
               then Some ''canonical funding obligation conflict'' else None)"

definition applyCanonicalWalletFundingReturnScript ::
  "string \<Rightarrow> string \<Rightarrow> int \<Rightarrow> int \<Rightarrow> int \<Rightarrow> int \<Rightarrow> string \<Rightarrow> string \<Rightarrow> redis_db
     \<Rightarrow> redis_db \<times> (string + int)" where
  "applyCanonicalWalletFundingReturnScript k1 k2 revision before after funded mode signature db =
     (case return_refusal (leases db k1) (tombs db k2) revision before after funded signature of
        Some e \<Rightarrow> (db, Inl e)
      | None \<Rightarrow>
          (let db1 = (case leases db k1 of
                 None \<Rightarrow> db
               | Some l \<Rightarrow>
                   (let l1 = l\<lparr>l_budget_units := funded - after, l_funded_units := Some funded,
                               l_returned_units := Some after, l_return_revision := Some revision,
                               l_funding_frozen := Some ''1''\<rparr>;
                        l2 = (if mode = ''close''
                              then l1\<lparr>l_sealed := Some ''1'', l_funding_closed := Some ''1''\<rparr> else l1)
                    in r_persist k1 (r_hset_lease k1 l2 db)));
               t = (case tombs db k2 of None \<Rightarrow> no_tomb | Some t \<Rightarrow> t);
               t1 = t\<lparr>t_funded_units := Some funded, t_returned_units := Some after,
                      t_return_revision := Some revision, t_funding_frozen := Some ''1'',
                      t_receipt_signature := Some signature,
                      t_funding_closed := (if mode = ''close'' then Some ''1'' else t_funding_closed t)\<rparr>
           in (r_persist k2 (r_hset_tomb k2 t1 db1), Inr 1)))"

text \<open>The fields of a signed receipt that the store reads.\<close>

record WalletFundingReturnReceipt =
  rcpt_PlatformUserID :: string
  rcpt_LeaseID :: string
  rcpt_ReturnRevision :: int
  rcpt_ReturnedBeforeUnits :: string
  rcpt_ReturnedAfterUnits :: string
  rcpt_FundedUnits :: string
  rcpt_Mode :: string
  rcpt_Signature :: string

definition ApplyCanonicalWalletFundingReturn ::
  "(string \<Rightarrow> string) \<Rightarrow> WalletFundingReturnReceipt \<Rightarrow> redis_db \<Rightarrow> redis_db \<times> unit wallet_result" where
  "ApplyCanonicalWalletFundingReturn H r db =
     (case bind_res (parse_or (ErrParse (rcpt_ReturnedBeforeUnits r)) (rcpt_ReturnedBeforeUnits r)) (\<lambda>before.
           bind_res (parse_or (ErrParse (rcpt_ReturnedAfterUnits r)) (rcpt_ReturnedAfterUnits r)) (\<lambda>after.
           bind_res (parse_or (ErrParse (rcpt_FundedUnits r)) (rcpt_FundedUnits r)) (\<lambda>funded.
             if rcpt_ReturnRevision r \<le> 0 \<or> after < before \<or> after > funded \<or> rcpt_Signature r = []
             then Inl (ErrNew ''invalid signed funding return'')
             else case ensureRedisLuaSafeInt64 [before, after, funded, rcpt_ReturnRevision r] of
                 Some e \<Rightarrow> Inl e
               | None \<Rightarrow> Inr (before, after, funded)))) of
        Inl e \<Rightarrow> (db, Inl e)
      | Inr (before, after, funded) \<Rightarrow>
          (case applyCanonicalWalletFundingReturnScript
                  (canonicalWalletLeaseKey H (rcpt_PlatformUserID r) (rcpt_LeaseID r))
                  (canonicalWalletFundingTombstoneKey H (rcpt_PlatformUserID r) (rcpt_LeaseID r))
                  (rcpt_ReturnRevision r) before after funded (rcpt_Mode r) (rcpt_Signature r) db of
             (db', Inl e) \<Rightarrow> (db', Inl (ErrRedisReply e))
           | (db', Inr _) \<Rightarrow> (db', Inr ())))"

section \<open>Protecting a media hold\<close>

record protect_args =
  p_lease_id :: string
  p_user :: string
  p_budget :: int
  p_consumed :: int
  p_released :: int
  p_expires :: int
  p_held :: int
  p_armed_at :: int
  p_auth :: string
  p_revision :: int
  p_returned :: int
  p_funded :: int
  p_frozen :: string
  p_scope :: string
  p_owner :: string
  p_issuance :: string
  p_budget_revision :: int

definition restored_lease :: "protect_args \<Rightarrow> lease_hash" where
  "restored_lease a = \<lparr>l_lease_id = p_lease_id a, l_platform_user_id = p_user a, l_currency = ''USD'',
     l_budget_units = p_budget a, l_consumed_units = p_consumed a, l_expires_at_ms = p_expires a,
     l_released_units = Some (p_released a), l_funded_units = Some (p_funded a),
     l_returned_units = Some (p_returned a), l_return_revision = Some (p_revision a),
     l_budget_revision = Some (p_budget_revision a), l_funding_frozen = Some (p_frozen a),
     l_funding_scope = Some (p_scope a), l_funding_owner_id = Some (p_owner a),
     l_funding_issuance_key = Some (p_issuance a), l_sealed = Some ''1'', l_durable_media = None,
     l_media_recovered = Some ''1'', l_funding_closed = None\<rparr>"

text \<open>The end of the script, once the lease hash \<open>l\<close> is in place and its identity is checked.\<close>

definition protect_hold ::
  "string \<Rightarrow> string \<Rightarrow> string \<Rightarrow> protect_args \<Rightarrow> bool \<Rightarrow> lease_hash \<Rightarrow> redis_db \<Rightarrow> redis_db \<times> (string + int)"
where
  "protect_hold k1 k2 k3 a restored l db =
     (let fresh = \<lparr>h_lease_id = p_lease_id a, h_held_units = p_held a, h_armed_at_ms = p_armed_at a,
                   h_class = ''indeterminate'', h_state = ''armed'', h_event_id = []\<rparr>;
          missing = (holds db k2 = None);
          h = (case holds db k2 of None \<Rightarrow> fresh | Some h \<Rightarrow> h);
          l1 = (if missing \<and> \<not> restored
                then l\<lparr>l_sealed := Some ''1'', l_media_recovered := Some ''1'',
                       l_consumed_units := max (l_consumed_units l) (p_consumed a)\<rparr> else l);
          db1 = r_hset_lease k1 l1 (if missing then r_hset_hold k2 fresh db else db)
      in if h_lease_id h \<noteq> p_lease_id a \<or> h_held_units h \<noteq> p_held a
         then (db1, Inl ''media hold mismatch'')
         else
           (let db2 = r_persist k2 (r_persist k1
                        (r_hset_lease k1 (l1\<lparr>l_durable_media := Some ''1''\<rparr>) db1))
            in ((if h_state h = ''armed'' then r_sadd k3 (p_auth a) db2 else db2), Inr 1)))"

definition protectMediaHoldScript ::
  "string \<Rightarrow> string \<Rightarrow> string \<Rightarrow> string \<Rightarrow> protect_args \<Rightarrow> redis_db \<Rightarrow> redis_db \<times> (string + int)" where
  "protectMediaHoldScript k1 k2 k3 k4 a db =
     (let L = leases db k1; T = tombs db k4;
          previous = num0 (lua_or (Option.bind T t_return_revision) (Option.bind L l_return_revision));
          previous_returned =
            num0 (lua_or (Option.bind T t_returned_units) (Option.bind L l_returned_units))
      in if p_revision a < previous \<or> p_returned a < previous_returned
            \<or> p_funded a - p_returned a \<noteq> p_budget a
            \<or> ((Option.bind T t_funding_frozen = Some ''1'' \<or> Option.bind L l_funding_frozen = Some ''1'')
               \<and> p_frozen a \<noteq> ''1'')
         then (db, Inl ''stale media funding basis'')
         else
           (let restored = (L = None);
                l = (case L of None \<Rightarrow> restored_lease a | Some l \<Rightarrow> l);
                db1 = r_hset_lease k1 l db;
                t = (case T of None \<Rightarrow> no_tomb | Some t \<Rightarrow> t);
                t' = t\<lparr>t_receipt_signature := (if p_revision a > previous then None else t_receipt_signature t),
                       t_funding_frozen := Some ''1'', t_return_revision := Some (p_revision a),
                       t_returned_units := Some (p_returned a), t_funded_units := Some (p_funded a)\<rparr>;
                db2 = (if p_frozen a = ''1'' then r_persist k4 (r_hset_tomb k4 t' db1) else db1);
                old_scope = str0 (l_funding_scope l)
            in if l_platform_user_id l \<noteq> p_user a then (db2, Inl ''media lease owner mismatch'')
               else if old_scope \<noteq> [] \<and> (old_scope \<noteq> p_scope a
                        \<or> str0 (l_funding_owner_id l) \<noteq> p_owner a
                        \<or> str0 (l_funding_issuance_key l) \<noteq> p_issuance a)
               then (db2, Inl ''media funding identity conflict'')
               else if p_frozen a = ''1''
                       \<and> max (l_consumed_units l) (p_consumed a) - num0 (l_released_units l) > p_budget a
               then (db2, Inl ''media frozen backing conflict'')
               else
                 (let l' = (if p_frozen a = ''1''
                            then l\<lparr>l_budget_units := p_budget a, l_return_revision := Some (p_revision a),
                                   l_returned_units := Some (p_returned a),
                                   l_funded_units := Some (p_funded a),
                                   l_funding_frozen := Some ''1'',
                                   l_budget_revision := Some (p_budget_revision a)\<rparr>
                            else l)
                  in protect_hold k1 k2 k3 a restored l' (r_hset_lease k1 l' db2))))"

definition protect_argv :: "CanonicalWalletLease \<Rightarrow> CanonicalWalletHold \<Rightarrow> protect_args" where
  "protect_argv lease hold = \<lparr>p_lease_id = LeaseID lease, p_user = PlatformUserID lease,
     p_budget = BudgetUnits lease, p_consumed = ConsumedUnits lease, p_released = ReleasedUnits lease,
     p_expires = (case ExpiresAt lease of None \<Rightarrow> -62135596800000 | Some e \<Rightarrow> UnixMilli e),
     p_held = hold_HeldUnits hold,
     p_armed_at = (case hold_ArmedAt hold of None \<Rightarrow> -62135596800000 | Some e \<Rightarrow> UnixMilli e),
     p_auth = hold_AuthorizationID hold, p_revision = ReturnRevision lease,
     p_returned = ReturnedUnits lease, p_funded = FundingPrincipalUnits lease,
     p_frozen = boolWalletFlag (FundingFrozen lease), p_scope = FundingScope lease,
     p_owner = FundingOwnerID lease, p_issuance = FundingIssuanceKey lease,
     p_budget_revision = BudgetRevision lease\<rparr>"

definition ProtectMediaHold ::
  "(string \<Rightarrow> string) \<Rightarrow> CanonicalWalletLease \<Rightarrow> CanonicalWalletHold \<Rightarrow> wallet_store
     \<Rightarrow> wallet_store \<times> unit wallet_result" where
  "ProtectMediaHold H lease hold c =
     (case c of
        None \<Rightarrow> (None, Inl (ErrNew ''media wallet unavailable''))
      | Some db \<Rightarrow>
          if LeaseID lease = [] \<or> hold_AuthorizationID hold = [] \<or> hold_HeldUnits hold \<le> 0
          then (Some db, Inl (ErrNew ''invalid media protection''))
          else case ensureRedisLuaSafeInt64 [BudgetUnits lease, ConsumedUnits lease, ReleasedUnits lease,
                  hold_HeldUnits hold, FundingPrincipalUnits lease, ReturnedUnits lease,
                  ReturnRevision lease, BudgetRevision lease] of
            Some e \<Rightarrow> (Some db, Inl e)
          | None \<Rightarrow>
              (case protectMediaHoldScript
                      (canonicalWalletLeaseKey H (PlatformUserID lease) (LeaseID lease))
                      (canonicalWalletHoldKey H (PlatformUserID lease) (hold_AuthorizationID hold))
                      (canonicalWalletHoldSetKey H (PlatformUserID lease))
                      (canonicalWalletFundingTombstoneKey H (PlatformUserID lease) (LeaseID lease))
                      (protect_argv lease hold) db of
                 (db', Inl e) \<Rightarrow> (Some db', Inl (ErrRedisReply e))
               | (db', Inr _) \<Rightarrow>
                   (Some (r_sadd canonicalWalletHoldUsersKey (PlatformUserID lease) db'), Inr ())))"

text \<open>
  The end of the protection. \<open>now_ms\<close> is the gateway's clock, \<open>rnow\<close> Redis'; \<open>PEXPIRE\<close> on a
  missing key does nothing.
\<close>

definition UnprotectMediaLease ::
  "(string \<Rightarrow> string) \<Rightarrow> string \<Rightarrow> string \<Rightarrow> string \<Rightarrow> string \<Rightarrow> bool \<Rightarrow> int \<Rightarrow> int \<Rightarrow> redis_db \<Rightarrow> redis_db"
where
  "UnprotectMediaLease H user lease auth event remaining now_ms rnow db =
     (let k1 = canonicalWalletLeaseKey H user lease;
          k2 = canonicalWalletHoldKey H user auth;
          k3 = canonicalWalletReservationKey H user event;
          db1 = (case leases db k1 of
                   None \<Rightarrow> db
                 | Some l \<Rightarrow>
                     if remaining then db
                     else r_pexpireat k1 (max (l_expires_at_ms l) now_ms + 1800000)
                            (r_hset_lease k1 (l\<lparr>l_durable_media := None\<rparr>) db));
          db2 = (if holds db1 k2 = None then db1 else r_pexpireat k2 (rnow + 1800000) db1)
      in if strs db2 k3 = None then db2 else r_pexpireat k3 (rnow + 1800000) db2)"

section \<open>The raw read\<close>

record MediaWalletRawLease =
  raw_FundedUnits :: int
  raw_ReturnedUnits :: int
  raw_ReturnRevision :: int
  raw_BudgetRevision :: int
  raw_FundingFrozen :: bool
  raw_LeaseID :: string
  raw_BudgetUnits :: int
  raw_ConsumedUnits :: int
  raw_ReleasedUnits :: int
  raw_ExpiresAtMS :: int
  raw_Sealed :: bool
  raw_Recovered :: bool
  raw_Present :: bool

record MediaWalletRawState =
  raw_Leases :: "MediaWalletRawLease list"
  raw_Holds :: "CanonicalWalletHold list"
  raw_Reservations :: "string \<rightharpoonup> string"

definition lua_num :: "int option \<Rightarrow> go_any" where
  "lua_num x = (case x of None \<Rightarrow> ANil | Some n \<Rightarrow> AStr (show_int n))"

definition read_number :: "go_any \<Rightarrow> int wallet_result" where
  "read_number v = (if v = ANil then Inr 0 else redisResultInt64 v)"

definition absent_raw :: "string \<Rightarrow> MediaWalletRawLease" where
  "absent_raw leaseID = \<lparr>raw_FundedUnits = 0, raw_ReturnedUnits = 0, raw_ReturnRevision = 0,
     raw_BudgetRevision = 0, raw_FundingFrozen = False, raw_LeaseID = leaseID, raw_BudgetUnits = 0,
     raw_ConsumedUnits = 0, raw_ReleasedUnits = 0, raw_ExpiresAtMS = 0, raw_Sealed = False,
     raw_Recovered = False, raw_Present = False\<rparr>"

definition read_raw_lease :: "string \<Rightarrow> lease_hash option \<Rightarrow> MediaWalletRawLease wallet_result" where
  "read_raw_lease leaseID L =
     (case L of
        None \<Rightarrow> Inr (absent_raw leaseID)
      | Some l \<Rightarrow>
          bind_res (read_number (lua_num (Some (l_budget_units l)))) (\<lambda>budget.
          bind_res (read_number (lua_num (Some (l_consumed_units l)))) (\<lambda>consumed.
          bind_res (read_number (lua_num (l_released_units l))) (\<lambda>released.
          bind_res (read_number (lua_num (Some (l_expires_at_ms l)))) (\<lambda>expires.
          bind_res (read_number (lua_num (l_funded_units l))) (\<lambda>funded.
          bind_res (read_number (lua_num (l_returned_units l))) (\<lambda>returned.
          bind_res (read_number (lua_num (l_return_revision l))) (\<lambda>revision.
          bind_res (read_number (lua_num (l_budget_revision l))) (\<lambda>budget_revision.
            Inr \<lparr>raw_FundedUnits = funded, raw_ReturnedUnits = returned, raw_ReturnRevision = revision,
                 raw_BudgetRevision = budget_revision,
                 raw_FundingFrozen = (Sprint (lua_opt (l_funding_frozen l)) = ''1''),
                 raw_LeaseID = leaseID, raw_BudgetUnits = budget, raw_ConsumedUnits = consumed,
                 raw_ReleasedUnits = released, raw_ExpiresAtMS = expires,
                 raw_Sealed = (Sprint (lua_opt (l_sealed l)) = ''1''),
                 raw_Recovered = (Sprint (lua_opt (l_media_recovered l)) = ''1''),
                 raw_Present = True\<rparr>)))))))))"

fun read_raw_holds ::
  "(string \<Rightarrow> string) \<Rightarrow> string \<Rightarrow> redis_db \<Rightarrow> string list \<Rightarrow> CanonicalWalletHold list wallet_result" where
  "read_raw_holds H user db [] = Inr []"
| "read_raw_holds H user db (i # rest) =
     (case holds db (canonicalWalletHoldKey H user [] @ i) of
        None \<Rightarrow> Inl (ErrNew ''hold set has an absent record'')
      | Some h \<Rightarrow>
          bind_res (read_number (AStr (show_int (h_held_units h)))) (\<lambda>units.
          bind_res (read_number (AStr (show_int (h_armed_at_ms h)))) (\<lambda>armed.
          bind_res (read_raw_holds H user db rest) (\<lambda>hs.
            Inr (\<lparr>hold_AuthorizationID = i, hold_LeaseID = h_lease_id h, hold_HeldUnits = units,
                  hold_ArmedAt = Some (of_UnixMilli armed), hold_Class = h_class h,
                  hold_State = h_state h, hold_EventID = h_event_id h\<rparr> # hs)))))"

fun read_raw_leases ::
  "(string \<Rightarrow> string) \<Rightarrow> string \<Rightarrow> redis_db \<Rightarrow> string list \<Rightarrow> MediaWalletRawLease list wallet_result" where
  "read_raw_leases H user db [] = Inr []"
| "read_raw_leases H user db (i # rest) =
     bind_res (read_raw_lease i (leases db (canonicalWalletLeaseKey H user i))) (\<lambda>r.
     bind_res (read_raw_leases H user db rest) (\<lambda>rs. Inr (r # rs)))"

text \<open>\<open>ReadMediaWalletState\<close> without the SHA-256 fingerprint of the result.\<close>

definition ReadMediaWalletState ::
  "(string \<Rightarrow> string) \<Rightarrow> string \<Rightarrow> string list \<Rightarrow> string list \<Rightarrow> redis_db \<Rightarrow> MediaWalletRawState wallet_result"
where
  "ReadMediaWalletState H user ids events db =
     (let members = sets db (canonicalWalletHoldSetKey H user)
      in if length members > 1000 then Inl (ErrRedisReply ''too many holds'')
         else bind_res (read_raw_leases H user db ids) (\<lambda>ls.
              bind_res (read_raw_holds H user db (sort_strs members)) (\<lambda>hs.
                Inr \<lparr>raw_Leases = ls, raw_Holds = hs,
                     raw_Reservations = map_of (rev
                       [(e, m). e \<leftarrow> events,
                          m \<leftarrow> (case strs db (canonicalWalletReservationKey H user e) of
                                  None \<Rightarrow> [] | Some m \<Rightarrow> [m])])\<rparr>)))"

end
