(* ===== verification/Wallet_Ledger.thy ===== *)
theory Wallet_Ledger
  imports Wallet_Funding
begin

text \<open>
  The money invariant of a user's wallet: on every open (unsealed) lease the units of its armed
  holds are covered by what the lease has outstanding (consumed minus released), and what is
  outstanding never exceeds the budget. The theory defines the invariant and the step relation of
  the store (each operation of the store, and Redis expiring a key), and proves the ways in which
  a change of holds and leases keeps the invariant; \<open>Wallet_Safety\<close> applies them to every operation
  and lifts the invariant to the reachable states.
\<close>

section \<open>Invariant\<close>

text \<open>What a hold adds to the armed units of lease \<open>l\<close>.\<close>

definition contrib :: "string \<Rightarrow> hold_hash option \<Rightarrow> int" where
  "contrib l ho = (case ho of None \<Rightarrow> 0 | Some h \<Rightarrow> if armed_on l ho then h_held_units h else 0)"

definition armed_total :: "(string \<Rightarrow> string) \<Rightarrow> string \<Rightarrow> string \<Rightarrow> redis_db \<Rightarrow> int" where
  "armed_total H u l db =
     (\<Sum>a | holds db (canonicalWalletHoldKey H u a) \<noteq> None.
        contrib l (holds db (canonicalWalletHoldKey H u a)))"

definition lease_ok :: "(string \<Rightarrow> string) \<Rightarrow> string \<Rightarrow> redis_db \<Rightarrow> string \<Rightarrow> lease_hash \<Rightarrow> bool" where
  "lease_ok H u db l L \<longleftrightarrow>
     l_lease_id L = l \<and>
     (l_sealed L \<noteq> Some ''1'' \<longrightarrow>
        0 \<le> num0 (l_released_units L) \<and> armed_total H u l db \<le> outstanding L
        \<and> outstanding L \<le> l_budget_units L)"

definition ledger_inv :: "(string \<Rightarrow> string) \<Rightarrow> string \<Rightarrow> redis_db \<Rightarrow> bool" where
  "ledger_inv H u db \<longleftrightarrow>
     finite {a. holds db (canonicalWalletHoldKey H u a) \<noteq> None} \<and>
     (\<forall>a h. holds db (canonicalWalletHoldKey H u a) = Some h \<longrightarrow> 0 < h_held_units h) \<and>
     (\<forall>l L. leases db (canonicalWalletLeaseKey H u l) = Some L \<longrightarrow> lease_ok H u db l L)"

section \<open>Steps\<close>

text \<open>
  An operation of the wallet of user \<open>u\<close>, with the gateway's and Redis' clocks arbitrary. Two operations trust their caller, and the trust is the premise of
  their rule: an install does not report consumption beyond what Redis holds for a stored lease
  (and at least the armed units for an unknown one), and a reservation is released by no more
  than what the lease has outstanding beside its armed holds. A step is an operation, or Redis
  expiring a key (\<open>evict_lease\<close>, \<open>evict_hold\<close>, \<open>evict_string\<close>).
\<close>

definition install_trusted :: "(string \<Rightarrow> string) \<Rightarrow> CanonicalWalletLease \<Rightarrow> redis_db \<Rightarrow> bool" where
  "install_trusted H lease db =
     (case leases db (canonicalWalletLeaseKey H (PlatformUserID lease) (LeaseID lease)) of
        None \<Rightarrow> armed_total H (PlatformUserID lease) (LeaseID lease) db \<le> ConsumedUnits lease
      | Some L \<Rightarrow> ConsumedUnits lease \<le> l_consumed_units L)"

definition release_trusted ::
  "(string \<Rightarrow> string) \<Rightarrow> string \<Rightarrow> string \<Rightarrow> int \<Rightarrow> redis_db \<Rightarrow> bool" where
  "release_trusted H u leaseID units db =
     (case leases db (canonicalWalletLeaseKey H u leaseID) of
        None \<Rightarrow> True
      | Some L \<Rightarrow> units \<le> outstanding L - armed_total H u leaseID db)"

inductive wallet_op :: "(string \<Rightarrow> string) \<Rightarrow> string \<Rightarrow> redis_db \<Rightarrow> redis_db \<Rightarrow> bool"
  for H :: "string \<Rightarrow> string" and u :: string
where
  install: "install_trusted H lease db \<Longrightarrow> PlatformUserID lease = u \<Longrightarrow>
     InstallCanonicalWalletLease H lease (Some db) = (Some db', r) \<Longrightarrow> wallet_op H u db db'"
| reserve: "ReserveCanonicalWalletLease H u l cur ev n now (Some db) = (Some db', r) \<Longrightarrow>
     wallet_op H u db db'"
| seal: "SealCanonicalWalletLease H u l (Some db) = (Some db', r) \<Longrightarrow> wallet_op H u db db'"
| arm: "ArmCanonicalWalletHold H u l cur a n grace now (Some db) = (Some db', r) \<Longrightarrow>
     wallet_op H u db db'"
| release: "ReleaseCanonicalWalletHold H u a st cl (Some db) = (Some db', r) \<Longrightarrow> wallet_op H u db db'"
| convert: "ConvertCanonicalWalletHold H u a ev n now rnow (Some db) = (Some db', r) \<Longrightarrow>
     wallet_op H u db db'"
| mark: "MarkCanonicalWalletHoldClass H u a cl (Some db) = (Some db', r) \<Longrightarrow> wallet_op H u db db'"
| release_reservation: "release_trusted H u l n db \<Longrightarrow>
     ReleaseCanonicalWalletReservation H u l ev n drp rnow (Some db) = (Some db', r) \<Longrightarrow>
     wallet_op H u db db'"
| arm_pool: "ArmCanonicalWalletPool H u segs grace now db = (db', r) \<Longrightarrow> wallet_op H u db db'"
| freeze: "FreezeCanonicalWalletFunding H u l db = (db', r) \<Longrightarrow> wallet_op H u db db'"
| apply_return: "rcpt_PlatformUserID rc = u \<Longrightarrow> ApplyCanonicalWalletFundingReturn H rc db = (db', r) \<Longrightarrow>
     wallet_op H u db db'"
| protect: "PlatformUserID lease = u \<Longrightarrow> ProtectMediaHold H lease hold (Some db) = (Some db', r) \<Longrightarrow>
     wallet_op H u db db'"
| unprotect: "wallet_op H u db (UnprotectMediaLease H u l a ev rem now_ms rnow db)"

inductive wallet_step :: "(string \<Rightarrow> string) \<Rightarrow> string \<Rightarrow> redis_db \<Rightarrow> redis_db \<Rightarrow> bool"
  for H :: "string \<Rightarrow> string" and u :: string
where
  operation: "wallet_op H u db db' \<Longrightarrow> wallet_step H u db db'"
| evict_lease: "ttl db k = Some d \<Longrightarrow> wallet_step H u db
     (db\<lparr>leases := (leases db)(k := None), ttl := (ttl db)(k := None)\<rparr>)"
| evict_hold: "ttl db k = Some d \<Longrightarrow> wallet_step H u db
     (db\<lparr>holds := (holds db)(k := None), ttl := (ttl db)(k := None)\<rparr>)"
| evict_string: "ttl db k = Some d \<Longrightarrow> wallet_step H u db (r_del k db)"

inductive wallet_reachable :: "(string \<Rightarrow> string) \<Rightarrow> string \<Rightarrow> redis_db \<Rightarrow> bool"
  for H :: "string \<Rightarrow> string" and u :: string
where
  start: "wallet_reachable H u empty_db"
| step: "wallet_reachable H u db \<Longrightarrow> wallet_step H u db db' \<Longrightarrow> wallet_reachable H u db'"

section \<open>Key lemmas\<close>

lemma hold_key_inj [simp]:
  "canonicalWalletHoldKey H u a = canonicalWalletHoldKey H u b \<longleftrightarrow> a = b"
  by (simp add: canonicalWalletHoldKey_def)

lemma lease_key_inj [simp]:
  "canonicalWalletLeaseKey H u a = canonicalWalletLeaseKey H u b \<longleftrightarrow> a = b"
  by (simp add: canonicalWalletLeaseKey_def)

lemma num0_simps [simp]: "num0 None = 0" "num0 (Some n) = n"
  by (simp_all add: num0_def)

section \<open>The three ways an operation changes the ledger\<close>

lemma contrib_nonneg:
  "ledger_inv H u db \<Longrightarrow> 0 \<le> contrib l (holds db (canonicalWalletHoldKey H u a))"
  by (cases "holds db (canonicalWalletHoldKey H u a)")
     (auto simp: ledger_inv_def contrib_def intro: less_imp_le)

lemma armed_total_nonneg: "ledger_inv H u db \<Longrightarrow> 0 \<le> armed_total H u l db"
  unfolding armed_total_def by (intro sum_nonneg) (rule contrib_nonneg)

lemma armed_total_cong: "holds db' = holds db \<Longrightarrow> armed_total H u l db' = armed_total H u l db"
  by (simp add: armed_total_def)

lemma armed_total_upd:
  assumes fin: "finite {b. holds db (canonicalWalletHoldKey H u b) \<noteq> None}"
    and upd: "holds db' = (holds db)(canonicalWalletHoldKey H u a := ho)"
  shows "armed_total H u l db' =
    armed_total H u l db - contrib l (holds db (canonicalWalletHoldKey H u a)) + contrib l ho"
proof -
  let ?k = "canonicalWalletHoldKey H u"
  let ?B = "{b. holds db (?k b) \<noteq> None} - {a}"
  have finB: "finite ?B" using fin by simp
  have old: "armed_total H u l db = (\<Sum>b\<in>?B. contrib l (holds db (?k b))) + contrib l (holds db (?k a))"
  proof (cases "holds db (?k a) = None")
    case True
    then have "?B = {b. holds db (?k b) \<noteq> None}" by auto
    with True show ?thesis by (simp add: armed_total_def contrib_def)
  next
    case False
    then have "a \<in> {b. holds db (?k b) \<noteq> None}" by simp
    from sum.remove [OF fin this] show ?thesis
      by (simp add: armed_total_def add.commute)
  qed
  have new: "armed_total H u l db' = (\<Sum>b\<in>?B. contrib l (holds db (?k b))) + contrib l ho"
  proof (cases ho)
    case None
    then have "{b. holds db' (?k b) \<noteq> None} = ?B" by (auto simp: upd)
    with None show ?thesis by (simp add: armed_total_def contrib_def upd)
  next
    case (Some h)
    then have A: "{b. holds db' (?k b) \<noteq> None} = insert a ?B" by (auto simp: upd)
    have "armed_total H u l db' = (\<Sum>b\<in>insert a ?B. contrib l (holds db' (?k b)))"
      unfolding armed_total_def by (subst A) (rule refl)
    also have "\<dots> = contrib l (holds db' (?k a)) + (\<Sum>b\<in>?B. contrib l (holds db' (?k b)))"
      by (rule sum.insert) (use finB in auto)
    also have "(\<Sum>b\<in>?B. contrib l (holds db' (?k b))) = (\<Sum>b\<in>?B. contrib l (holds db (?k b)))"
      by (rule sum.cong) (auto simp: upd)
    finally show ?thesis by (simp add: upd)
  qed
  show ?thesis using old new by simp
qed

text \<open>A hold changes and, with it, the lease it is on.\<close>

lemma ledger_inv_hold_lease:
  assumes inv: "ledger_inv H u db"
    and L: "leases db (canonicalWalletLeaseKey H u l) = Some L"
    and leases': "leases db' = (leases db)(canonicalWalletLeaseKey H u l := Some L')"
    and holds': "holds db' = (holds db)(canonicalWalletHoldKey H u a := Some h)"
    and pos: "0 < h_held_units h"
    and ident: "l_lease_id L' = l_lease_id L"
    and other: "\<And>m. m \<noteq> l \<Longrightarrow>
        contrib m (Some h) \<le> contrib m (holds db (canonicalWalletHoldKey H u a))"
    and ok: "l_sealed L' \<noteq> Some ''1'' \<Longrightarrow> l_sealed L \<noteq> Some ''1'' \<and>
        (0 \<le> num0 (l_released_units L) \<longrightarrow> 0 \<le> num0 (l_released_units L')) \<and>
        contrib l (Some h) - contrib l (holds db (canonicalWalletHoldKey H u a))
          \<le> outstanding L' - outstanding L \<and>
        (outstanding L \<le> l_budget_units L \<longrightarrow> outstanding L' \<le> l_budget_units L')"
  shows "ledger_inv H u db'"
proof -
  let ?k = "canonicalWalletHoldKey H u"
  have fin: "finite {b. holds db (?k b) \<noteq> None}"
    using inv by (simp add: ledger_inv_def)
  have "{b. holds db' (?k b) \<noteq> None} \<subseteq> insert a {b. holds db (?k b) \<noteq> None}"
    by (auto simp: holds' split: if_splits)
  then have fin': "finite {b. holds db' (?k b) \<noteq> None}"
    using fin by (meson finite.insertI finite_subset)
  have tot: "armed_total H u m db' =
      armed_total H u m db - contrib m (holds db (?k a)) + contrib m (Some h)" for m
    by (rule armed_total_upd [OF fin holds'])
  have "lease_ok H u db' m M" if "leases db' (canonicalWalletLeaseKey H u m) = Some M" for m M
  proof (cases "m = l")
    case True
    have "lease_ok H u db l L" using inv L by (simp add: ledger_inv_def)
    with True that ok ident tot [of l] show ?thesis
      by (auto simp: leases' lease_ok_def)
  next
    case False
    then have "leases db (canonicalWalletLeaseKey H u m) = Some M"
      using that by (simp add: leases')
    then have "lease_ok H u db m M" using inv by (simp add: ledger_inv_def)
    with other [OF False] tot [of m] show ?thesis by (auto simp: lease_ok_def)
  qed
  moreover have "\<forall>b g. holds db' (?k b) = Some g \<longrightarrow> 0 < h_held_units g"
    using inv pos by (auto simp: ledger_inv_def holds')
  ultimately show ?thesis using fin' by (auto simp: ledger_inv_def)
qed

text \<open>A hold changes alone, and its share of every lease does not grow.\<close>

lemma ledger_inv_hold:
  assumes inv: "ledger_inv H u db"
    and leases': "leases db' = leases db"
    and holds': "holds db' = (holds db)(canonicalWalletHoldKey H u a := ho)"
    and pos: "\<And>h. ho = Some h \<Longrightarrow> 0 < h_held_units h"
    and le: "\<And>m. contrib m ho \<le> contrib m (holds db (canonicalWalletHoldKey H u a))"
  shows "ledger_inv H u db'"
proof -
  let ?k = "canonicalWalletHoldKey H u"
  have fin: "finite {b. holds db (?k b) \<noteq> None}"
    using inv by (simp add: ledger_inv_def)
  have "{b. holds db' (?k b) \<noteq> None} \<subseteq> insert a {b. holds db (?k b) \<noteq> None}"
    by (auto simp: holds' split: if_splits)
  then have fin': "finite {b. holds db' (?k b) \<noteq> None}"
    using fin by (meson finite.insertI finite_subset)
  have tot: "armed_total H u m db' \<le> armed_total H u m db" for m
    using armed_total_upd [OF fin holds', of m] le [of m] by simp
  have "lease_ok H u db' m M" if "leases db' (canonicalWalletLeaseKey H u m) = Some M" for m M
  proof -
    have "lease_ok H u db m M" using inv that by (simp add: ledger_inv_def leases')
    with tot [of m] show ?thesis by (auto simp: lease_ok_def)
  qed
  moreover have "\<forall>b g. holds db' (?k b) = Some g \<longrightarrow> 0 < h_held_units g"
    using inv pos by (auto simp: ledger_inv_def holds')
  ultimately show ?thesis using fin' by (auto simp: ledger_inv_def)
qed

text \<open>A lease hash is written, the holds stay.\<close>

lemma ledger_inv_lease:
  assumes inv: "ledger_inv H u db"
    and leases': "leases db' = (leases db)(canonicalWalletLeaseKey H u l := Some L')"
    and holds': "holds db' = holds db"
    and ok: "lease_ok H u db l L'"
  shows "ledger_inv H u db'"
proof -
  have "lease_ok H u db' m M" if "leases db' (canonicalWalletLeaseKey H u m) = Some M" for m M
    using that inv ok armed_total_cong [OF holds']
    by (cases "m = l") (auto simp: leases' ledger_inv_def lease_ok_def)
  then show ?thesis using inv by (auto simp: ledger_inv_def holds')
qed

lemma ledger_inv_cong:
  assumes "ledger_inv H u db" "leases db' = leases db" "holds db' = holds db"
  shows "ledger_inv H u db'"
  using assms armed_total_cong [OF assms(3)] by (auto simp: ledger_inv_def lease_ok_def)

lemma ledger_inv_empty: "ledger_inv H u empty_db"
  by (simp add: ledger_inv_def empty_db_def)

lemma ledger_invD:
  assumes "ledger_inv H u db" "leases db (canonicalWalletLeaseKey H u l) = Some L"
  shows "lease_ok H u db l L" and "l_lease_id L = l"
  using assms by (auto simp: ledger_inv_def lease_ok_def)

end
