(* ===== verification/Wallet_Safety.thy ===== *)
theory Wallet_Safety
  imports Wallet_Ledger
begin

text \<open>
  Every operation of the canonical wallet store keeps the ledger invariant, hence every reachable
  wallet satisfies it.
\<close>

section \<open>Shares of a pool\<close>

definition seg_share :: "(string \<Rightarrow> string) \<Rightarrow> string \<Rightarrow> AuthorizationSegment \<Rightarrow> pool_share" where
  "seg_share H u s = (canonicalWalletLeaseKey H u (seg_LeaseID s),
     canonicalWalletHoldKey H u (seg_AuthorizationID s), seg_AuthorizationID s, seg_HeldUnits s)"

text \<open>The lease of a share admits its units.\<close>

definition share_fits :: "(string \<Rightarrow> string) \<Rightarrow> string \<Rightarrow> redis_db \<Rightarrow> AuthorizationSegment \<Rightarrow> bool" where
  "share_fits H u db s =
     (case leases db (canonicalWalletLeaseKey H u (seg_LeaseID s)) of
        None \<Rightarrow> False
      | Some L \<Rightarrow> 0 < seg_HeldUnits s \<and> outstanding L + seg_HeldUnits s \<le> l_budget_units L)"

section \<open>Scripts\<close>

text \<open>
  The script calls of user \<open>u\<close>'s wallet: the store's operations as Redis sees them, with the keys
  the Go code computes and the argument bounds its guards leave. Every operation is at most two
  of these calls (\<open>wallet_op_scripts\<close>), so an effect on the database is shown once per script.
\<close>

inductive wallet_script :: "(string \<Rightarrow> string) \<Rightarrow> string \<Rightarrow> redis_db \<Rightarrow> redis_db \<Rightarrow> bool"
  for H :: "string \<Rightarrow> string" and u :: string
where
  s_idle: "wallet_script H u db db"
| s_users: "wallet_script H u db (r_sadd canonicalWalletHoldUsersKey x db)"
| s_install: "a_prefix a = canonicalWalletLeaseKeyPrefix H u \<Longrightarrow> k1 = canonicalWalletLeaseKey H u (a_lease_id a) \<Longrightarrow>
    (leases db k1 = None \<Longrightarrow> a_require_cached a \<noteq> ''1'' \<Longrightarrow>
       armed_total H u (a_lease_id a) db \<le> a_consumed a \<and> a_consumed a \<le> a_budget a) \<Longrightarrow>
    (\<And>M. leases db k1 = Some M \<Longrightarrow> a_consumed a \<le> l_consumed_units M) \<Longrightarrow>
    wallet_script H u db (fst (installCanonicalWalletLeaseScript k1 (canonicalWalletCurrentKey H u)
      (canonicalWalletFundingTombstoneKey H u (a_lease_id a)) a db))"
| s_reserve: "wallet_script H u db (fst (reserveCanonicalWalletLeaseScript (canonicalWalletLeaseKey H u l)
    (canonicalWalletReservationKey H u ev) cur n now db))"
| s_seal: "wallet_script H u db (fst (sealCanonicalWalletLeaseScript (canonicalWalletLeaseKey H u l)
    (canonicalWalletCurrentKey H u) l db))"
| s_arm: "wallet_script H u db (fst (armCanonicalWalletHoldScript (canonicalWalletLeaseKey H u l)
    (canonicalWalletHoldKey H u a) (canonicalWalletHoldSetKey H u) cur n now a grace db))"
| s_release: "st \<noteq> ''armed'' \<Longrightarrow> holds db (canonicalWalletHoldKey H u a) = Some h \<Longrightarrow>
    wallet_script H u db (fst (releaseCanonicalWalletHoldScript (canonicalWalletHoldKey H u a)
      (canonicalWalletHoldSetKey H u) (canonicalWalletLeaseKey H u (h_lease_id h)) a st cl db))"
| s_convert: "0 \<le> n \<Longrightarrow> holds db (canonicalWalletHoldKey H u a) = Some h \<Longrightarrow>
    wallet_script H u db (fst (convertCanonicalWalletHoldScript (canonicalWalletHoldKey H u a)
      (canonicalWalletHoldSetKey H u) (canonicalWalletLeaseKey H u (h_lease_id h))
      (canonicalWalletReservationKey H u ev) a ev n now rnow db))"
| s_mark: "wallet_script H u db (fst (markCanonicalWalletHoldClassScript (canonicalWalletHoldKey H u a) cl db))"
| s_release_reservation: "0 < n \<Longrightarrow> release_trusted H u l n db \<Longrightarrow>
    wallet_script H u db (fst (releaseCanonicalWalletReservationScript (canonicalWalletLeaseKey H u l)
      (canonicalWalletReservationKey H u ev) (canonicalWalletReleaseMarkerKey H u ev) l n d rnow db))"
| s_pool: "distinct (map seg_LeaseID segs) \<Longrightarrow> wallet_script H u db (fst (armCanonicalWalletPoolScript
    (map (seg_share H u) segs) (canonicalWalletHoldSetKey H u) now grace db))"
| s_freeze: "wallet_script H u db (fst (freezeCanonicalWalletFundingScript (canonicalWalletLeaseKey H u l)
    (canonicalWalletCurrentKey H u) (canonicalWalletFundingTombstoneKey H u l)
    (canonicalWalletHoldSetKey H u) u l (canonicalWalletHoldKey H u []) db))"
| s_apply_return: "wallet_script H u db (fst (applyCanonicalWalletFundingReturnScript (canonicalWalletLeaseKey H u l)
    (canonicalWalletFundingTombstoneKey H u l) rv before after funded mode sig db))"
| s_protect: "0 < p_held a \<Longrightarrow> wallet_script H u db (fst (protectMediaHoldScript
    (canonicalWalletLeaseKey H u (p_lease_id a)) (canonicalWalletHoldKey H u (p_auth a))
    (canonicalWalletHoldSetKey H u) (canonicalWalletFundingTombstoneKey H u (p_lease_id a)) a db))"
| s_unprotect: "wallet_script H u db (UnprotectMediaLease H u l a ev rem now_ms rnow db)"

section \<open>Scripts on leases\<close>

lemmas lease_field_simps = lease_ok_def outstanding_def lease_release_def

lemma reserve_script_inv:
  assumes inv: "ledger_inv H u db"
  shows "ledger_inv H u (fst (reserveCanonicalWalletLeaseScript (canonicalWalletLeaseKey H u l) k2 cur n now db))"
proof (cases "leases db (canonicalWalletLeaseKey H u l)")
  case None
  then show ?thesis using inv by (simp add: reserveCanonicalWalletLeaseScript_def)
next
  case (Some L)
  have ok: "lease_ok H u db l L" using ledger_invD(1) [OF inv Some] .
  let ?L' = "L\<lparr>l_consumed_units := l_consumed_units L + n\<rparr>"
  have "ledger_inv H u (r_pexpireat k2 (l_expires_at_ms L) (r_set k2 (l_lease_id L)
          (r_hset_lease (canonicalWalletLeaseKey H u l) ?L' db)))"
    if "0 < n" "outstanding L + n \<le> l_budget_units L"
    by (rule ledger_inv_lease [OF inv, where L' = ?L' and l = l])
       (use ok that in \<open>auto simp: redis_cmd_defs lease_field_simps\<close>)
  with Some inv show ?thesis
    by (auto simp: reserveCanonicalWalletLeaseScript_def Let_def split: option.split)
qed

lemma seal_script_inv:
  assumes inv: "ledger_inv H u db"
  shows "ledger_inv H u (fst (sealCanonicalWalletLeaseScript (canonicalWalletLeaseKey H u l) k2 x db))"
proof (cases "leases db (canonicalWalletLeaseKey H u l)")
  case None
  then show ?thesis using inv by (simp add: sealCanonicalWalletLeaseScript_def)
next
  case (Some L)
  let ?L' = "if l_funding_frozen L = Some ''1'' then L\<lparr>l_sealed := Some ''1''\<rparr>
             else L\<lparr>l_consumed_units := l_budget_units L, l_sealed := Some ''1''\<rparr>"
  let ?db1 = "r_hset_lease (canonicalWalletLeaseKey H u l) ?L' db"
  have 1: "ledger_inv H u ?db1"
    by (rule ledger_inv_lease [OF inv, where L' = ?L' and l = l])
       (use ledger_invD(2) [OF inv Some] in \<open>auto simp: redis_cmd_defs lease_ok_def\<close>)
  then have "ledger_inv H u (r_del k2 ?db1)"
    by (rule ledger_inv_cong) (simp_all add: r_del_def)
  with 1 Some show ?thesis
    by (simp add: sealCanonicalWalletLeaseScript_def Let_def)
qed

lemma install_merge_ok:
  assumes inv: "ledger_inv H u db"
    and L: "L = leases db (canonicalWalletLeaseKey H u (a_lease_id a))"
    and ref: "install_refusal L T a = None"
    and fresh: "L = None \<Longrightarrow> a_require_cached a \<noteq> ''1'' \<Longrightarrow> armed_total H u (a_lease_id a) db \<le> a_consumed a \<and> a_consumed a \<le> a_budget a"
    and known: "\<And>M. L = Some M \<Longrightarrow> a_consumed a \<le> l_consumed_units M"
  shows "lease_ok H u db (a_lease_id a) (install_merge L a)"
proof (cases L)
  case None
  with ref have "a_require_cached a \<noteq> ''1''"
    by (auto simp: install_refusal_def Let_def split: if_splits)
  with fresh None show ?thesis
    by (simp add: install_merge_def lease_field_simps Let_def)
next
  case (Some M)
  have ok: "lease_ok H u db (a_lease_id a) M"
    using ledger_invD(1) [OF inv] L Some by simp
  have c: "a_consumed a \<le> l_consumed_units M" using known Some by simp
  have "a_frozen a = ''1'' \<Longrightarrow> outstanding M \<le> a_budget a"
    using ref Some c by (auto simp: install_refusal_def Let_def outstanding_def max_def split: if_splits)
  with ok c Some show ?thesis
    by (auto simp: install_merge_def lease_field_simps Let_def max_def)
qed

lemma install_script_inv:
  assumes inv: "ledger_inv H u db"
    and k1: "k1 = canonicalWalletLeaseKey H u (a_lease_id a)"
    and fresh: "leases db k1 = None \<Longrightarrow> a_require_cached a \<noteq> ''1'' \<Longrightarrow>
      armed_total H u (a_lease_id a) db \<le> a_consumed a \<and> a_consumed a \<le> a_budget a"
    and known: "\<And>M. leases db k1 = Some M \<Longrightarrow> a_consumed a \<le> l_consumed_units M"
  shows "ledger_inv H u (fst (installCanonicalWalletLeaseScript k1 k2 k3 a db))"
proof (cases "install_refusal (leases db k1) (tombs db k3) a")
  case (Some e)
  then show ?thesis using inv by (simp add: installCanonicalWalletLeaseScript_def)
next
  case None
  let ?l = "install_merge (leases db k1) a"
  let ?db' = "fst (installCanonicalWalletLeaseScript k1 k2 k3 a db)"
  have "leases ?db' = (leases db)(k1 := Some ?l)" "holds ?db' = holds db"
    using None by (simp_all add: installCanonicalWalletLeaseScript_def Let_def redis_cmd_defs)
  moreover have "lease_ok H u db (a_lease_id a) ?l"
    by (rule install_merge_ok [OF inv _ None]) (use k1 fresh known in auto)
  ultimately show ?thesis
    using ledger_inv_lease [OF inv, of ?db' "a_lease_id a" ?l] k1 by simp
qed

lemma lease_release_inv:
  assumes inv: "ledger_inv H u db" and L: "leases db (canonicalWalletLeaseKey H u l) = Some L"
    and n: "0 \<le> n" "n \<le> outstanding L - armed_total H u l db"
    and "leases db' = (leases db)(canonicalWalletLeaseKey H u l := Some (lease_release n L))"
    and "holds db' = holds db"
  shows "ledger_inv H u db'"
  by (rule ledger_inv_lease [OF inv, where L' = "lease_release n L" and l = l])
     (use assms ledger_invD(1) [OF inv L] in \<open>auto simp: lease_field_simps\<close>)

lemma release_reservation_script_inv:
  assumes inv: "ledger_inv H u db" and "0 < n" "release_trusted H u l n db"
  shows "ledger_inv H u (fst (releaseCanonicalWalletReservationScript
           (canonicalWalletLeaseKey H u l) k2 k3 x n d rnow db))"
proof (cases "leases db (canonicalWalletLeaseKey H u l)")
  case None
  then show ?thesis
    using inv by (auto simp: releaseCanonicalWalletReservationScript_def Let_def redis_cmd_defs
        split: option.split intro: ledger_inv_cong)
next
  case (Some L)
  have 1: "ledger_inv H u (r_hset_lease (canonicalWalletLeaseKey H u l) (lease_release n L) db)"
    by (rule lease_release_inv [OF inv Some, of n])
       (use assms Some in \<open>auto simp: release_trusted_def redis_cmd_defs\<close>)
  then show ?thesis
    using inv Some by (auto simp: releaseCanonicalWalletReservationScript_def Let_def redis_cmd_defs
        split: option.split intro: ledger_inv_cong)
qed

section \<open>Scripts on holds\<close>

lemma contrib_not_armed [simp]: "h_state h \<noteq> ''armed'' \<Longrightarrow> contrib l (Some h) = 0"
  by (simp add: contrib_def armed_on_def)

lemma contrib_armed:
  "h_state h = ''armed'' \<Longrightarrow> contrib l (Some h) = (if h_lease_id h = l then h_held_units h else 0)"
  by (simp add: contrib_def armed_on_def)

lemma contrib_None [simp]: "contrib l None = 0"
  by (simp add: contrib_def)

lemma arm_inv:
  assumes inv: "ledger_inv H u db" and L: "leases db (canonicalWalletLeaseKey H u l) = Some L"
    and n: "0 < n" "outstanding L + n \<le> l_budget_units L"
    and h: "h_lease_id h = l_lease_id L" "h_held_units h = n" "h_state h = ''armed''"
    and leases': "leases db' = (leases db)(canonicalWalletLeaseKey H u l :=
            Some (L\<lparr>l_consumed_units := l_consumed_units L + n\<rparr>))"
    and holds': "holds db' = (holds db)(canonicalWalletHoldKey H u a := Some h)"
  shows "ledger_inv H u db'"
  by (rule ledger_inv_hold_lease [OF inv L leases' holds'])
     (use n h ledger_invD(2) [OF inv L] contrib_nonneg [OF inv, of _ a] in
       \<open>auto simp: contrib_armed outstanding_def\<close>)

lemma arm_script_inv:
  assumes inv: "ledger_inv H u db"
  shows "ledger_inv H u (fst (armCanonicalWalletHoldScript (canonicalWalletLeaseKey H u l)
           (canonicalWalletHoldKey H u a) k3 cur n now auth grace db))"
proof (cases "leases db (canonicalWalletLeaseKey H u l)")
  case None
  then show ?thesis using inv by (simp add: armCanonicalWalletHoldScript_def)
next
  case (Some L)
  let ?h = "\<lparr>h_lease_id = l_lease_id L, h_held_units = n, h_armed_at_ms = now, h_class = [],
             h_state = ''armed'', h_event_id = []\<rparr>"
  have "ledger_inv H u (r_sadd k3 auth (r_pexpireat (canonicalWalletHoldKey H u a) (l_expires_at_ms L + grace)
          (r_hset_hold (canonicalWalletHoldKey H u a) ?h
            (r_hset_lease (canonicalWalletLeaseKey H u l)
              (L\<lparr>l_consumed_units := l_consumed_units L + n\<rparr>) db))))"
    if "0 < n" "outstanding L + n \<le> l_budget_units L"
    by (rule arm_inv [OF inv Some that, of ?h _ a]) (use that in \<open>auto simp: redis_cmd_defs\<close>)
  with Some inv show ?thesis
    by (auto simp: armCanonicalWalletHoldScript_def split: option.split)
qed

text \<open>
  An armed hold leaves the armed state: its lease gives back at most its units, or takes more
  within the budget.
\<close>

lemma disarm_inv:
  assumes inv: "ledger_inv H u db"
    and h: "holds db (canonicalWalletHoldKey H u a) = Some h" "h_state h = ''armed''"
    and h': "h_held_units h' = h_held_units h" "h_state h' \<noteq> ''armed''"
    and L: "leases db (canonicalWalletLeaseKey H u (h_lease_id h)) = Some L"
    and leases': "leases db' = (leases db)(canonicalWalletLeaseKey H u (h_lease_id h) := Some L')"
    and holds': "holds db' = (holds db)(canonicalWalletHoldKey H u a := Some h')"
    and L': "l_lease_id L' = l_lease_id L" "l_sealed L' = l_sealed L" "l_budget_units L' = l_budget_units L"
      "num0 (l_released_units L) \<le> num0 (l_released_units L')"
      "outstanding L - h_held_units h \<le> outstanding L'"
      "outstanding L' \<le> max (outstanding L) (l_budget_units L)"
  shows "ledger_inv H u db'"
proof (rule ledger_inv_hold_lease [OF inv L leases' holds'])
  show "0 < h_held_units h'" using inv h h' by (auto simp: ledger_inv_def)
  show "contrib m (Some h') \<le> contrib m (holds db (canonicalWalletHoldKey H u a))" for m
    using contrib_nonneg [OF inv] h' by simp
qed (use assms in \<open>auto simp: contrib_armed\<close>)

lemma disarm_orphan_inv:
  assumes inv: "ledger_inv H u db"
    and h: "holds db (canonicalWalletHoldKey H u a) = Some h"
    and h': "h_held_units h' = h_held_units h" "h_state h' \<noteq> ''armed''"
    and "leases db' = leases db"
    and "holds db' = (holds db)(canonicalWalletHoldKey H u a := Some h')"
  shows "ledger_inv H u db'"
proof (rule ledger_inv_hold [OF inv assms(5,6)])
  show "0 < h_held_units g" if "Some h' = Some g" for g
    using that inv h h' by (auto simp: ledger_inv_def)
  show "contrib m (Some h') \<le> contrib m (holds db (canonicalWalletHoldKey H u a))" for m
    using contrib_nonneg [OF inv] h' by simp
qed

lemma held_pos: "ledger_inv H u db \<Longrightarrow> holds db (canonicalWalletHoldKey H u a) = Some h \<Longrightarrow> 0 < h_held_units h"
  by (auto simp: ledger_inv_def)

lemma release_script_inv:
  assumes inv: "ledger_inv H u db" and st: "st \<noteq> ''armed''"
    and h: "holds db (canonicalWalletHoldKey H u a) = Some h"
  shows "ledger_inv H u (fst (releaseCanonicalWalletHoldScript (canonicalWalletHoldKey H u a) k2
           (canonicalWalletLeaseKey H u (h_lease_id h)) auth st cl db))"
proof (cases "h_state h = ''armed''")
  case False
  then show ?thesis using inv h by (simp add: releaseCanonicalWalletHoldScript_def)
next
  case True
  let ?h' = "h\<lparr>h_state := st, h_class := (if cl = [] then h_class h else cl)\<rparr>"
  let ?db' = "fst (releaseCanonicalWalletHoldScript (canonicalWalletHoldKey H u a) k2
           (canonicalWalletLeaseKey H u (h_lease_id h)) auth st cl db)"
  have holds': "holds ?db' = (holds db)(canonicalWalletHoldKey H u a := Some ?h')"
    using True h by (simp add: releaseCanonicalWalletHoldScript_def Let_def redis_cmd_defs split: option.split)
  show ?thesis
  proof (cases "leases db (canonicalWalletLeaseKey H u (h_lease_id h))")
    case None
    then have "leases ?db' = leases db"
      using True h by (simp add: releaseCanonicalWalletHoldScript_def Let_def redis_cmd_defs)
    from disarm_orphan_inv [OF inv h _ _ this holds'] st show ?thesis by simp
  next
    case (Some L)
    then have "leases ?db' = (leases db)(canonicalWalletLeaseKey H u (h_lease_id h) :=
                 Some (lease_release (h_held_units h) L))"
      using True h by (simp add: releaseCanonicalWalletHoldScript_def Let_def redis_cmd_defs)
    from disarm_inv [OF inv h True _ _ Some this holds'] st held_pos [OF inv h] show ?thesis
      by (simp add: lease_release_def outstanding_def)
  qed
qed

lemma convert_script_hold:
  assumes "holds db k1 = Some h" "h_state h = ''armed''"
  shows "\<exists>h'. holds (fst (convertCanonicalWalletHoldScript k1 k2 k3 k4 auth ev n now rnow db))
                = (holds db)(k1 := Some h') \<and> h_held_units h' = h_held_units h \<and> h_state h' \<noteq> ''armed''"
proof -
  note defs = convertCanonicalWalletHoldScript_def settle_hold_def mark_with_lease_life_def Let_def
    redis_cmd_defs
  let ?s = "h\<lparr>h_state := ''settled'', h_event_id := ev\<rparr>" and ?r = "h\<lparr>h_state := ''released''\<rparr>"
  have "holds (fst (convertCanonicalWalletHoldScript k1 k2 k3 k4 auth ev n now rnow db)) = (holds db)(k1 := Some ?s)
      \<or> holds (fst (convertCanonicalWalletHoldScript k1 k2 k3 k4 auth ev n now rnow db)) = (holds db)(k1 := Some ?r)"
    using assms by (simp add: defs split: option.split)
  then show ?thesis by (elim disjE) (rule exI, erule conjI, simp)+
qed

lemma convert_script_inv:
  assumes inv: "ledger_inv H u db" and n: "0 \<le> n"
    and h: "holds db (canonicalWalletHoldKey H u a) = Some h"
  shows "ledger_inv H u (fst (convertCanonicalWalletHoldScript (canonicalWalletHoldKey H u a) k2
           (canonicalWalletLeaseKey H u (h_lease_id h)) k4 auth ev n now rnow db))"
    (is "ledger_inv H u ?db'")
proof (cases "h_state h = ''armed''")
  case False
  then show ?thesis using inv h by (simp add: convertCanonicalWalletHoldScript_def)
next
  case True
  note defs = convertCanonicalWalletHoldScript_def settle_hold_def mark_with_lease_life_def Let_def
    redis_cmd_defs
  have pos: "0 < h_held_units h" by (rule held_pos [OF inv h])
  obtain h' where holds': "holds ?db' = (holds db)(canonicalWalletHoldKey H u a := Some h')"
    and h': "h_held_units h' = h_held_units h" "h_state h' \<noteq> ''armed''"
    using convert_script_hold [OF h True] by metis
  show ?thesis
  proof (cases "leases db (canonicalWalletLeaseKey H u (h_lease_id h))")
    case None
    then have "leases ?db' = leases db"
      using True h by (simp add: defs)
    from disarm_orphan_inv [OF inv h h' this holds'] show ?thesis .
  next
    case (Some L)
    obtain L' where leases': "leases ?db' = (leases db)(canonicalWalletLeaseKey H u (h_lease_id h) := Some L')"
      and "l_lease_id L' = l_lease_id L" "l_sealed L' = l_sealed L" "l_budget_units L' = l_budget_units L"
        "num0 (l_released_units L) \<le> num0 (l_released_units L')"
        "outstanding L - h_held_units h \<le> outstanding L'"
        "outstanding L' \<le> max (outstanding L) (l_budget_units L)"
    proof (cases "n \<le> h_held_units h")
      case le: True
      show thesis
        by (rule that [of "lease_release (h_held_units h - n) L"])
           (use True h Some le n pos in \<open>auto simp: defs lease_release_def outstanding_def split: option.split\<close>)
    next
      case gt: False
      show thesis
      proof (cases "l_funding_frozen L \<noteq> Some ''1'' \<and> l_expires_at_ms L > now
                     \<and> outstanding L + (n - h_held_units h) \<le> l_budget_units L")
        case fits: True
        show thesis
          by (rule that [of "L\<lparr>l_consumed_units := l_consumed_units L + (n - h_held_units h)\<rparr>"])
             (use True h Some gt fits pos in \<open>auto simp: defs outstanding_def\<close>)
      next
        case nofit: False
        show thesis
          by (rule that [of "lease_release (h_held_units h) L"])
             (use True h Some gt nofit pos in \<open>auto simp: defs lease_release_def outstanding_def\<close>)
      qed
    qed
    with disarm_inv [OF inv h True h' Some leases' holds'] show ?thesis by simp
  qed
qed

lemma mark_script_inv:
  assumes inv: "ledger_inv H u db"
  shows "ledger_inv H u (fst (markCanonicalWalletHoldClassScript (canonicalWalletHoldKey H u a) cl db))"
proof (cases "holds db (canonicalWalletHoldKey H u a)")
  case None
  then show ?thesis using inv by (simp add: markCanonicalWalletHoldClassScript_def)
next
  case (Some h)
  have "ledger_inv H u (r_hset_hold (canonicalWalletHoldKey H u a) (h\<lparr>h_class := cl\<rparr>) db)"
    by (rule ledger_inv_hold [OF inv, where a = a and ho = "Some (h\<lparr>h_class := cl\<rparr>)"])
       (use Some held_pos [OF inv Some] in \<open>auto simp: redis_cmd_defs contrib_def armed_on_def\<close>)
  then show ?thesis using inv Some by (simp add: markCanonicalWalletHoldClassScript_def)
qed

section \<open>The pool\<close>

lemma pool_shares_ok:
  "pool_shares H u seen segs = Inr shares \<Longrightarrow>
     shares = map (seg_share H u) segs \<and> distinct (map seg_LeaseID segs)
     \<and> set seen \<inter> seg_LeaseID ` set segs = {}"
proof (induction segs arbitrary: seen shares)
  case (Cons s segs)
  from Cons.prems obtain rest where "pool_shares H u (seg_LeaseID s # seen) segs = Inr rest"
    and "seg_LeaseID s \<notin> set seen" and "shares = seg_share H u s # rest"
    by (auto simp: bind_res_def seg_share_def split: if_splits option.splits sum.splits)
  with Cons.IH [of "seg_LeaseID s # seen" rest] show ?case by auto
qed simp

lemma pool_check_dup_mono: "pool_check now db shares d = Inr n \<Longrightarrow> d \<le> n"
proof (induction now db shares d rule: pool_check.induct)
  case (2 now db lease hold auth units rest d)
  then show ?case
    by (auto split: option.splits if_splits dest: Suc_leD)
qed simp

lemma pool_check_fits:
  "pool_check now db (map (seg_share H u) segs) d = Inr d \<Longrightarrow> s \<in> set segs \<Longrightarrow>
     share_fits H u db s \<and> holds db (canonicalWalletHoldKey H u (seg_AuthorizationID s)) = None"
proof (induction segs)
  case (Cons t segs)
  have none: "holds db (canonicalWalletHoldKey H u (seg_AuthorizationID t)) = None"
    using Cons.prems(1) pool_check_dup_mono [of now db "map (seg_share H u) segs" "Suc d" d]
    by (auto simp: seg_share_def [of H u t] split: option.splits if_splits)
  with Cons.prems(1) have "pool_check now db (map (seg_share H u) segs) d = Inr d" and "share_fits H u db t"
    by (auto simp: seg_share_def [of H u t] share_fits_def split: option.splits if_splits)
  with Cons none show ?case by auto
qed simp

lemma pool_arm_one_inv:
  assumes inv: "ledger_inv H u db" and fits: "share_fits H u db s"
  shows "ledger_inv H u (pool_arm_one now grace k (seg_share H u s) db)"
proof -
  from fits obtain L where L: "leases db (canonicalWalletLeaseKey H u (seg_LeaseID s)) = Some L"
    and n: "0 < seg_HeldUnits s" "outstanding L + seg_HeldUnits s \<le> l_budget_units L"
    by (auto simp: share_fits_def split: option.splits)
  let ?h = "\<lparr>h_lease_id = l_lease_id L, h_held_units = seg_HeldUnits s, h_armed_at_ms = now, h_class = [],
             h_state = ''armed'', h_event_id = []\<rparr>"
  show ?thesis
    by (rule arm_inv [OF inv L n, of ?h _ "seg_AuthorizationID s"])
       (simp_all add: pool_arm_one_def seg_share_def L redis_cmd_defs)
qed

lemma pool_arm_one_other:
  "seg_LeaseID s \<noteq> seg_LeaseID t \<Longrightarrow>
   share_fits H u (pool_arm_one now grace k (seg_share H u s) db) t = share_fits H u db t"
  by (simp add: share_fits_def pool_arm_one_def seg_share_def redis_cmd_defs split: option.split)

lemma pool_fold_inv:
  "ledger_inv H u db \<Longrightarrow> distinct (map seg_LeaseID segs) \<Longrightarrow> \<forall>s\<in>set segs. share_fits H u db s \<Longrightarrow>
     ledger_inv H u (fold (pool_arm_one now grace k) (map (seg_share H u) segs) db)"
proof (induction segs arbitrary: db)
  case (Cons s segs)
  let ?db1 = "pool_arm_one now grace k (seg_share H u s) db"
  have "ledger_inv H u ?db1" using Cons.prems by (intro pool_arm_one_inv) auto
  moreover have "\<forall>t\<in>set segs. share_fits H u ?db1 t"
    using Cons.prems by (auto simp: pool_arm_one_other image_iff)
  ultimately show ?case using Cons.IH [of ?db1] Cons.prems(2) by simp
qed simp

lemma pool_script_inv:
  assumes "ledger_inv H u db" and "distinct (map seg_LeaseID segs)"
  shows "ledger_inv H u (fst (armCanonicalWalletPoolScript (map (seg_share H u) segs) k now grace db))"
  using assms pool_fold_inv [OF assms] pool_check_fits [of now db H u segs 0]
  by (auto simp: armCanonicalWalletPoolScript_def split: sum.split)

section \<open>Funding and media protection\<close>

lemma freeze_script_inv:
  assumes inv: "ledger_inv H u db"
  shows "ledger_inv H u (fst (freezeCanonicalWalletFundingScript (canonicalWalletLeaseKey H u l)
           k2 k3 k4 usr lid hp db))"
proof (cases "leases db (canonicalWalletLeaseKey H u l)")
  case None
  then show ?thesis using inv by (simp add: freezeCanonicalWalletFundingScript_def)
next
  case (Some L)
  let ?L' = "L\<lparr>l_funding_frozen := Some ''1''\<rparr>"
  have "lease_ok H u db l ?L'"
    using ledger_invD(1) [OF inv Some] by (simp add: lease_field_simps)
  from ledger_inv_lease [OF inv _ _ this]
  have upd: "ledger_inv H u db'" if "leases db' = (leases db)(canonicalWalletLeaseKey H u l := Some ?L')"
    "holds db' = holds db" for db' using that .
  show ?thesis
    using Some inv by (auto simp: freezeCanonicalWalletFundingScript_def Let_def redis_cmd_defs intro!: upd)
qed

lemma apply_return_script_inv:
  assumes inv: "ledger_inv H u db"
  shows "ledger_inv H u (fst (applyCanonicalWalletFundingReturnScript (canonicalWalletLeaseKey H u l)
           k2 rv before after funded mode sig db))" (is "ledger_inv H u (fst ?r)")
proof (cases "return_refusal (leases db (canonicalWalletLeaseKey H u l)) (tombs db k2) rv before after funded sig")
  case (Some e)
  then show ?thesis using inv by (simp add: applyCanonicalWalletFundingReturnScript_def)
next
  case None
  show ?thesis
  proof (cases "leases db (canonicalWalletLeaseKey H u l)")
    case noL: None
    then show ?thesis
      using inv None by (auto simp: applyCanonicalWalletFundingReturnScript_def Let_def redis_cmd_defs
          intro!: ledger_inv_cong [OF inv])
  next
    case (Some L)
    have cap: "outstanding L \<le> funded - after"
      using None Some by (auto simp: return_refusal_def Let_def split: if_splits option.splits)
    define L' where "L' = (let l1 = L\<lparr>l_budget_units := funded - after, l_funded_units := Some funded,
                               l_returned_units := Some after, l_return_revision := Some rv,
                               l_funding_frozen := Some ''1''\<rparr>
                    in if mode = ''close'' then l1\<lparr>l_sealed := Some ''1'', l_funding_closed := Some ''1''\<rparr> else l1)"
    have "leases (fst ?r) = (leases db)(canonicalWalletLeaseKey H u l := Some L')" "holds (fst ?r) = holds db"
      using None Some by (simp_all add: applyCanonicalWalletFundingReturnScript_def Let_def redis_cmd_defs L'_def)
    moreover have "lease_ok H u db l L'"
      using ledger_invD(1) [OF inv Some] cap by (auto simp: lease_field_simps L'_def Let_def)
    ultimately show ?thesis by (rule ledger_inv_lease [OF inv])
  qed
qed

text \<open>A lease hash that is sealed owes the invariant its identity only.\<close>

lemma lease_ok_sealed: "l_sealed L = Some ''1'' \<Longrightarrow> l_lease_id L = l \<Longrightarrow> lease_ok H u db l L"
  by (simp add: lease_ok_def)

lemma protect_hold_inv:
  assumes inv: "ledger_inv H u db" and pos: "0 < p_held a"
    and L: "leases db (canonicalWalletLeaseKey H u (p_lease_id a)) = Some L"
    and restored: "restored \<Longrightarrow> l_sealed L = Some ''1''"
  shows "ledger_inv H u (fst (protect_hold (canonicalWalletLeaseKey H u (p_lease_id a))
           (canonicalWalletHoldKey H u auth) k3 a restored L db))" (is "ledger_inv H u (fst ?r)")
proof (cases "holds db (canonicalWalletHoldKey H u auth)")
  case None
  let ?h = "\<lparr>h_lease_id = p_lease_id a, h_held_units = p_held a, h_armed_at_ms = p_armed_at a,
             h_class = ''indeterminate'', h_state = ''armed'', h_event_id = []\<rparr>"
  let ?L' = "(if restored then L else L\<lparr>l_sealed := Some ''1'', l_media_recovered := Some ''1'',
        l_consumed_units := max (l_consumed_units L) (p_consumed a)\<rparr>)\<lparr>l_durable_media := Some ''1''\<rparr>"
  have "leases (fst ?r) = (leases db)(canonicalWalletLeaseKey H u (p_lease_id a) := Some ?L')"
    "holds (fst ?r) = (holds db)(canonicalWalletHoldKey H u auth := Some ?h)"
    using None by (simp_all add: protect_hold_def Let_def redis_cmd_defs)
  then show ?thesis
    by (rule ledger_inv_hold_lease [OF inv L])
       (use None pos restored in \<open>auto simp: contrib_armed\<close>)
next
  case (Some h)
  have ok: "lease_ok H u db (p_lease_id a) L" "lease_ok H u db (p_lease_id a) (L\<lparr>l_durable_media := Some ''1''\<rparr>)"
    using ledger_invD(1) [OF inv L] by (simp_all add: lease_field_simps)
  have "holds (fst ?r) = holds db"
    and "leases (fst ?r) = (leases db)(canonicalWalletLeaseKey H u (p_lease_id a) := Some L) \<or>
         leases (fst ?r) = (leases db)(canonicalWalletLeaseKey H u (p_lease_id a) :=
                              Some (L\<lparr>l_durable_media := Some ''1''\<rparr>))"
    using Some by (simp_all add: protect_hold_def Let_def redis_cmd_defs)
  with ok show ?thesis by (auto intro: ledger_inv_lease [OF inv])
qed

lemma protect_script_inv:
  assumes inv: "ledger_inv H u db" and pos: "0 < p_held a"
  shows "ledger_inv H u (fst (protectMediaHoldScript (canonicalWalletLeaseKey H u (p_lease_id a))
           (canonicalWalletHoldKey H u auth) k3 k4 a db))"
proof -
  let ?k = "canonicalWalletLeaseKey H u (p_lease_id a)"
  define l where "l = (case leases db ?k of None \<Rightarrow> restored_lease a | Some l \<Rightarrow> l)"
  have lok: "lease_ok H u db (p_lease_id a) l"
    using ledger_invD(1) [OF inv] unfolding l_def
    by (auto simp: lease_ok_def restored_lease_def split: option.split)
  have base: "ledger_inv H u d" if "leases d = (leases db)(?k := Some l)" "holds d = holds db" for d
    using ledger_inv_lease [OF inv that lok] .
  define l' where "l' = (if p_frozen a = ''1''
      then l\<lparr>l_budget_units := p_budget a, l_return_revision := Some (p_revision a),
             l_returned_units := Some (p_returned a), l_funded_units := Some (p_funded a),
             l_funding_frozen := Some ''1'', l_budget_revision := Some (p_budget_revision a)\<rparr> else l)"
  have final: "ledger_inv H u (fst (protect_hold ?k (canonicalWalletHoldKey H u auth) k3 a
                  (leases db ?k = None) l' (r_hset_lease ?k l' d)))"
    if d: "leases d = (leases db)(?k := Some l)" "holds d = holds db"
      and cap: "\<not> (p_frozen a = ''1'' \<and> max (l_consumed_units l) (p_consumed a) - num0 (l_released_units l) > p_budget a)"
    for d
  proof (rule protect_hold_inv [OF _ pos])
    have "lease_ok H u db (p_lease_id a) l'"
      using lok cap by (auto simp: l'_def lease_field_simps max_def split: if_splits)
    then show "ledger_inv H u (r_hset_lease ?k l' d)"
      using d by (intro ledger_inv_lease [OF inv]) (auto simp: r_hset_lease_def)
    show "l_sealed l' = Some ''1''" if "leases db ?k = None"
      using that by (simp add: l'_def l_def restored_lease_def)
  qed (simp add: r_hset_lease_def)
  let ?t = "(case tombs db k4 of None \<Rightarrow> no_tomb | Some t \<Rightarrow> t)"
  let ?prev = "num0 (lua_or (Option.bind (tombs db k4) t_return_revision) (Option.bind (leases db ?k) l_return_revision))"
  define d where "d = (if p_frozen a = ''1'' then r_persist k4 (r_hset_tomb k4
      (?t\<lparr>t_receipt_signature := (if p_revision a > ?prev then None else t_receipt_signature ?t),
          t_funding_frozen := Some ''1'', t_return_revision := Some (p_revision a),
          t_returned_units := Some (p_returned a), t_funded_units := Some (p_funded a)\<rparr>) (r_hset_lease ?k l db))
      else r_hset_lease ?k l db)"
  have d: "leases d = (leases db)(?k := Some l)" "holds d = holds db"
    by (simp_all add: d_def redis_cmd_defs)
  show ?thesis
    unfolding protectMediaHoldScript_def Let_def l_def [symmetric] l'_def [symmetric] d_def [symmetric]
    using inv base [OF d] final [OF d] by (simp split del: if_split add: if_split_asm if_distrib [of fst])
       (metis (full_types))
qed

lemma unprotect_inv:
  assumes inv: "ledger_inv H u db"
  shows "ledger_inv H u (UnprotectMediaLease H u l a ev remaining now_ms rnow db)" (is "ledger_inv H u ?r")
proof (cases "leases db (canonicalWalletLeaseKey H u l)")
  case None
  then show ?thesis
    by (intro ledger_inv_cong [OF inv]) (simp_all add: UnprotectMediaLease_def Let_def redis_cmd_defs)
next
  case (Some L)
  show ?thesis
  proof (cases remaining)
    case True
    then show ?thesis
      by (intro ledger_inv_cong [OF inv])
         (simp_all add: UnprotectMediaLease_def Let_def redis_cmd_defs split: option.split)
  next
    case False
    have "lease_ok H u db l (L\<lparr>l_durable_media := None\<rparr>)"
      using ledger_invD(1) [OF inv Some] by (simp add: lease_field_simps)
    then show ?thesis
      by (intro ledger_inv_lease [OF inv])
         (use Some False in \<open>simp_all add: UnprotectMediaLease_def Let_def redis_cmd_defs\<close>)
  qed
qed

section \<open>Expiry\<close>

lemma evict_lease_inv:
  assumes inv: "ledger_inv H u db" and "leases db' = (leases db)(k := None)" "holds db' = holds db"
  shows "ledger_inv H u db'"
  using inv assms(2) armed_total_cong [OF assms(3)] unfolding ledger_inv_def lease_ok_def assms(3)
  by (auto split: if_splits)

lemma evict_hold_inv:
  assumes inv: "ledger_inv H u db" and leases': "leases db' = leases db" and holds': "holds db' = (holds db)(k := None)"
  shows "ledger_inv H u db'"
proof (cases "\<exists>a. k = canonicalWalletHoldKey H u a")
  case True
  then obtain a where "k = canonicalWalletHoldKey H u a" ..
  with holds' show ?thesis
    by (intro ledger_inv_hold [OF inv leases', of a None]) (simp_all add: contrib_nonneg [OF inv])
next
  case False
  then have "holds db' (canonicalWalletHoldKey H u a) = holds db (canonicalWalletHoldKey H u a)" for a
    using holds' by auto
  then show ?thesis
    using inv by (simp add: ledger_inv_def lease_ok_def armed_total_def leases')
qed

section \<open>The operations of the store are script calls\<close>

lemma install_argv_simps [simp]:
  "a_lease_id (install_argv H lease cur) = LeaseID lease"
  "a_consumed (install_argv H lease cur) = ConsumedUnits lease"
  "a_budget (install_argv H lease cur) = BudgetUnits lease"
  by (simp_all add: install_argv_def Let_def)

lemma ensure_NoneD: "ensureRedisLuaSafeInt64 vs = None \<Longrightarrow> v \<in> set vs \<Longrightarrow> 0 \<le> v \<and> v \<le> redisLuaMaxSafeInt64"
  by (induction vs) (auto split: if_splits)

lemma install_guard_consumed:
  assumes "install_guard lease = Inr cur"
  shows "0 \<le> ReleasedUnits lease \<and> ReleasedUnits lease \<le> ConsumedUnits lease
    \<and> ConsumedUnits lease - ReleasedUnits lease \<le> BudgetUnits lease"
proof -
  from assms have r: "0 \<le> ReleasedUnits lease" "ReleasedUnits lease \<le> ConsumedUnits lease"
    and w: "wrap64 (ConsumedUnits lease - ReleasedUnits lease) \<le> BudgetUnits lease"
    and e: "ensureRedisLuaSafeInt64 [BudgetUnits lease, ConsumedUnits lease, ReleasedUnits lease,
              FundingPrincipalUnits lease, ReturnedUnits lease, ReturnRevision lease, BudgetRevision lease] = None"
    by (auto simp: install_guard_def split: if_splits option.splits)
  have "in_int64 (ConsumedUnits lease - ReleasedUnits lease)"
    using r ensure_NoneD [OF e, of "ConsumedUnits lease"]
    by (intro in_int64_nonneg) (auto simp: redisLuaMaxSafeInt64_def int64_max_def)
  with r w show ?thesis by simp
qed

lemma InstallCanonicalWalletLease_script:
  assumes trust: "install_trusted H lease db" and u: "PlatformUserID lease = u"
    and run: "InstallCanonicalWalletLease H lease (Some db) = (Some db', r)"
  shows "wallet_script H u db db'"
proof (cases "install_guard lease")
  case (Inl e)
  with run show ?thesis by (simp add: InstallCanonicalWalletLease_def s_idle)
next
  case (Inr cur)
  let ?k = "canonicalWalletLeaseKey H u (LeaseID lease)"
  let ?a = "install_argv H lease cur"
  have "wallet_script H u db (fst (installCanonicalWalletLeaseScript ?k (canonicalWalletCurrentKey H u)
          (canonicalWalletFundingTombstoneKey H u (a_lease_id ?a)) ?a db))"
  proof (rule s_install)
    assume none: "leases db ?k = None" and req: "a_require_cached ?a \<noteq> ''1''"
    have "ReleasedUnits lease \<le> 0" using req by (auto simp: install_argv_def Let_def split: if_splits)
    with install_guard_consumed [OF Inr] none trust u
    show "armed_total H u (a_lease_id ?a) db \<le> a_consumed ?a \<and> a_consumed ?a \<le> a_budget ?a"
      by (simp add: install_trusted_def)
  qed (use trust u in \<open>simp_all add: install_trusted_def install_argv_def Let_def\<close>)
  with run Inr u show ?thesis
    by (auto simp: InstallCanonicalWalletLease_def split: prod.splits sum.splits)
qed

lemma ReserveCanonicalWalletLease_script:
  assumes "ReserveCanonicalWalletLease H u l cur ev n now (Some db) = (Some db', r)"
  shows "wallet_script H u db db'"
  using assms s_reserve [of H u db l ev _ n "UnixMilli now"]
  by (auto simp: ReserveCanonicalWalletLease_def s_idle split: if_splits option.splits sum.splits prod.splits)
     (metis fst_conv)

lemma SealCanonicalWalletLease_script:
  assumes "SealCanonicalWalletLease H u l (Some db) = (Some db', r)"
  shows "wallet_script H u db db'"
  using assms s_seal [of H u db l]
  by (simp add: SealCanonicalWalletLease_def s_idle split: if_splits prod.splits)

lemma ArmCanonicalWalletHold_script:
  assumes run: "ArmCanonicalWalletHold H u l cur a n grace now (Some db) = (Some db', r)"
  shows "\<exists>d. wallet_script H u db d \<and> wallet_script H u d db'"
proof (cases "RequireUSDBillingCurrency cur")
  case (Inl e)
  with run show ?thesis
    by (auto simp: ArmCanonicalWalletHold_def split: if_splits option.splits intro: s_idle)
next
  case (Inr cur')
  obtain d res where s: "armCanonicalWalletHoldScript (canonicalWalletLeaseKey H u l)
      (canonicalWalletHoldKey H u a) (canonicalWalletHoldSetKey H u) cur' n (UnixMilli now) a grace db = (d, res)"
    by (metis surj_pair)
  have "wallet_script H u db d" using s_arm s by (metis fst_conv)
  moreover have "fst (ArmCanonicalWalletHold H u l cur a n grace now (Some db))
      \<in> {Some db, Some d, Some (r_sadd canonicalWalletHoldUsersKey (TrimSpace u) d)}"
    using Inr s by (simp add: ArmCanonicalWalletHold_def split: option.split list.split sum.split)
  ultimately show ?thesis using run by (auto intro: s_idle s_users)
qed

lemma ReleaseCanonicalWalletHold_script:
  assumes "ReleaseCanonicalWalletHold H u a st cl (Some db) = (Some db', r)"
  shows "wallet_script H u db db'"
  using assms s_release [of st db H u a _ cl]
  by (auto simp: ReleaseCanonicalWalletHold_def s_idle split: if_splits option.splits prod.splits)

lemma ConvertCanonicalWalletHold_script:
  assumes "ConvertCanonicalWalletHold H u a ev n now rnow (Some db) = (Some db', r)"
  shows "wallet_script H u db db'"
  using assms s_convert [of n db H u a _ ev "UnixMilli now" rnow]
  by (auto simp: ConvertCanonicalWalletHold_def Let_def s_idle split: if_splits option.splits prod.splits)

lemma MarkCanonicalWalletHoldClass_script:
  assumes "MarkCanonicalWalletHoldClass H u a cl (Some db) = (Some db', r)"
  shows "wallet_script H u db db'"
  using assms s_mark [of H u db a cl]
  by (auto simp: MarkCanonicalWalletHoldClass_def s_idle split: if_splits prod.splits)

lemma ReleaseCanonicalWalletReservation_script:
  assumes "release_trusted H u l n db"
    "ReleaseCanonicalWalletReservation H u l ev n drp rnow (Some db) = (Some db', r)"
  shows "wallet_script H u db db'"
  using assms(2) s_release_reservation [OF _ assms(1), of ev _ rnow]
  by (auto simp: ReleaseCanonicalWalletReservation_def Let_def s_idle split: if_splits option.splits prod.splits)
     (metis fst_conv not_le)+

lemma ArmCanonicalWalletPool_script:
  assumes run: "ArmCanonicalWalletPool H u segs grace now db = (db', r)"
  shows "\<exists>d. wallet_script H u db d \<and> wallet_script H u d db'"
proof (cases "pool_shares H u [] segs")
  case (Inl e)
  with run show ?thesis by (auto simp: ArmCanonicalWalletPool_def split: if_splits intro: s_idle)
next
  case (Inr shares)
  from pool_shares_ok [OF Inr] have sh: "shares = map (seg_share H u) segs" "distinct (map seg_LeaseID segs)"
    by auto
  obtain d code where script: "armCanonicalWalletPoolScript shares (canonicalWalletHoldSetKey H u)
      (UnixMilli now) grace db = (d, code)" by (metis surj_pair)
  with s_pool [OF sh(2)] sh(1) have "wallet_script H u db d" by (metis fst_conv)
  moreover have "db' = db \<or> db' = d \<or> db' = r_sadd canonicalWalletHoldUsersKey u d"
    using run Inr script by (auto simp: ArmCanonicalWalletPool_def split: if_splits)
  ultimately show ?thesis by (auto intro: s_idle s_users)
qed

lemma FreezeCanonicalWalletFunding_script:
  assumes "FreezeCanonicalWalletFunding H u l db = (db', r)"
  shows "wallet_script H u db db'"
  using assms s_freeze [of H u db l]
  by (auto simp: FreezeCanonicalWalletFunding_def split: prod.splits sum.splits)

lemma ApplyCanonicalWalletFundingReturn_script:
  assumes "rcpt_PlatformUserID rc = u" "ApplyCanonicalWalletFundingReturn H rc db = (db', r)"
  shows "wallet_script H u db db'"
proof -
  have "db' = db \<or> (\<exists>before after funded. db' = fst (applyCanonicalWalletFundingReturnScript
      (canonicalWalletLeaseKey H u (rcpt_LeaseID rc)) (canonicalWalletFundingTombstoneKey H u (rcpt_LeaseID rc))
      (rcpt_ReturnRevision rc) before after funded (rcpt_Mode rc) (rcpt_Signature rc) db))"
    using assms by (auto simp: ApplyCanonicalWalletFundingReturn_def split: prod.splits sum.splits)
      (metis fst_conv)+
  then show ?thesis by (auto intro: s_idle s_apply_return)
qed

lemma ProtectMediaHold_script:
  assumes u: "PlatformUserID lease = u"
    and run: "ProtectMediaHold H lease hold (Some db) = (Some db', r)"
  shows "\<exists>d. wallet_script H u db d \<and> wallet_script H u d db'"
proof -
  let ?s = "protectMediaHoldScript (canonicalWalletLeaseKey H u (LeaseID lease))
    (canonicalWalletHoldKey H u (hold_AuthorizationID hold)) (canonicalWalletHoldSetKey H u)
    (canonicalWalletFundingTombstoneKey H u (LeaseID lease)) (protect_argv lease hold) db"
  have "db' = db \<or> 0 < hold_HeldUnits hold \<and>
      (db' = fst ?s \<or> db' = r_sadd canonicalWalletHoldUsersKey u (fst ?s))"
    using run u by (auto simp: ProtectMediaHold_def split: if_splits option.splits prod.splits sum.splits)
  moreover have "wallet_script H u db (fst ?s)" if "0 < hold_HeldUnits hold"
    using s_protect [of "protect_argv lease hold" H u db] that by (simp add: protect_argv_def)
  ultimately show ?thesis by (auto intro: s_idle s_users)
qed

lemma wallet_op_scripts:
  assumes "wallet_op H u db db'"
  shows "\<exists>d. wallet_script H u db d \<and> wallet_script H u d db'"
  using assms
proof cases
  case arm then show ?thesis by (rule ArmCanonicalWalletHold_script)
next
  case arm_pool then show ?thesis by (rule ArmCanonicalWalletPool_script)
next
  case protect then show ?thesis by (rule ProtectMediaHold_script)
qed (blast intro: s_idle s_unprotect InstallCanonicalWalletLease_script ReserveCanonicalWalletLease_script
      SealCanonicalWalletLease_script ReleaseCanonicalWalletHold_script ConvertCanonicalWalletHold_script
      MarkCanonicalWalletHoldClass_script ReleaseCanonicalWalletReservation_script
      FreezeCanonicalWalletFunding_script ApplyCanonicalWalletFundingReturn_script)+

section \<open>Reachable wallets\<close>

lemma ledger_inv_sadd [simp]: "ledger_inv H u (r_sadd k x db) = ledger_inv H u db"
  by (auto intro: ledger_inv_cong simp: r_sadd_def)

lemma ledger_inv_del [simp]: "ledger_inv H u (r_del k db) = ledger_inv H u db"
  by (auto intro: ledger_inv_cong simp: r_del_def)

lemma wallet_script_inv:
  assumes "wallet_script H u db db'" "ledger_inv H u db"
  shows "ledger_inv H u db'"
  using assms
  by cases (simp_all add: install_script_inv reserve_script_inv seal_script_inv arm_script_inv
      release_script_inv convert_script_inv mark_script_inv release_reservation_script_inv
      pool_script_inv freeze_script_inv apply_return_script_inv protect_script_inv unprotect_inv)

lemma wallet_step_inv:
  assumes "wallet_step H u db db'" "ledger_inv H u db"
  shows "ledger_inv H u db'"
  using assms
proof cases
  case operation
  with assms(2) show ?thesis by (blast dest: wallet_op_scripts intro: wallet_script_inv)
next
  case evict_lease
  then show ?thesis by (intro evict_lease_inv [OF assms(2)]) simp_all
next
  case evict_hold
  then show ?thesis by (intro evict_hold_inv [OF assms(2)]) simp_all
next
  case evict_string
  with assms(2) show ?thesis by simp
qed

lemma reachable_inv: "wallet_reachable H u db \<Longrightarrow> ledger_inv H u db"
  by (induction rule: wallet_reachable.induct) (auto intro: ledger_inv_empty wallet_step_inv)

end
