(* ===== verification/Wallet_Contracts.thy ===== *)
theory Wallet_Contracts
  imports Wallet_Safety
begin

text \<open>
  The contracts the wallet's clients rely on, as interfaces: a hold that has ended never changes
  again, a tick has one leader, signed returns only move forward, and a wallet operation stays
  within the Redis hash tag of its user. Each interface is a locale whose laws the store's model
  discharges.
\<close>

section \<open>Definitions\<close>

definition ended :: "hold_hash \<Rightarrow> bool" where
  "ended h \<longleftrightarrow> h_state h \<noteq> ''armed''"

text \<open>
  The hash tag of a key: what stands between its first opening brace and the next closing one.
  Redis Cluster places a key by it, and the store builds every user key around the user's hash.
\<close>

definition hash_tag :: "string \<Rightarrow> string" where
  "hash_tag k = takeWhile (\<lambda>c. c \<noteq> CHR 0x7D) (tl (dropWhile (\<lambda>c. c \<noteq> CHR 0x7B) k))"

text \<open>Two databases agree on every key outside \<open>P\<close>.\<close>

definition frame :: "(string \<Rightarrow> bool) \<Rightarrow> redis_db \<Rightarrow> redis_db \<Rightarrow> bool" where
  "frame P db db' \<longleftrightarrow> (\<forall>k. \<not> P k \<longrightarrow>
     leases db' k = leases db k \<and> holds db' k = holds db k \<and> tombs db' k = tombs db k
     \<and> strs db' k = strs db k \<and> sets db' k = sets db k \<and> ttl db' k = ttl db k)"

definition wallet_key :: "(string \<Rightarrow> string) \<Rightarrow> string \<Rightarrow> string \<Rightarrow> bool" where
  "wallet_key H u k \<longleftrightarrow> k = canonicalWalletHoldUsersKey \<or> hash_tag k = canonicalWalletUserHash H u"

text \<open>The signed returns of one lease, with whether the store accepted them.\<close>

definition apply_return_for ::
  "(string \<Rightarrow> string) \<Rightarrow> string \<Rightarrow> string \<Rightarrow> WalletFundingReturnReceipt \<Rightarrow> redis_db \<Rightarrow> redis_db \<times> bool" where
  "apply_return_for H u l r db =
     (case ApplyCanonicalWalletFundingReturn H (r\<lparr>rcpt_PlatformUserID := u, rcpt_LeaseID := l\<rparr>) db of
        (db', Inl e) \<Rightarrow> (db', False) | (db', Inr _) \<Rightarrow> (db', True))"

definition returned_units :: "WalletFundingReturnReceipt \<Rightarrow> int" where
  "returned_units r = num0 (ParseInt (rcpt_ReturnedAfterUnits r))"

definition return_record :: "(string \<Rightarrow> string) \<Rightarrow> string \<Rightarrow> string \<Rightarrow> redis_db \<Rightarrow> int \<times> int" where
  "return_record H u l db =
     (let T = tombs db (canonicalWalletFundingTombstoneKey H u l)
      in (num0 (Option.bind T t_return_revision), num0 (Option.bind T t_returned_units)))"

text \<open>
  An attempt to lead a tick, with whether it leads; whether a tick is taken (a missing store counts
  as taken); and a sequence of attempts, each with its time to live and its clock.
\<close>

definition tick_attempt ::
  "(int \<Rightarrow> int \<Rightarrow> wallet_store \<Rightarrow> wallet_store \<times> bool wallet_result) \<Rightarrow> int \<Rightarrow> int \<Rightarrow> wallet_store
     \<Rightarrow> wallet_store \<times> bool" where
  "tick_attempt try life now c = (case try life now c of (c', r) \<Rightarrow> (c', r = Inr True))"

definition tick_taken :: "string \<Rightarrow> wallet_store \<Rightarrow> bool" where
  "tick_taken k c = (case c of None \<Rightarrow> True | Some db \<Rightarrow> strs db k \<noteq> None)"

primrec attempts :: "(int \<Rightarrow> int \<Rightarrow> 'd \<Rightarrow> 'd \<times> bool) \<Rightarrow> (int \<times> int) list \<Rightarrow> 'd \<Rightarrow> 'd \<times> bool list" where
  "attempts attempt [] d = (d, [])"
| "attempts attempt (x # xs) d =
     (case attempt (fst x) (snd x) d of (d1, b) \<Rightarrow>
        (case attempts attempt xs d1 of (d2, bs) \<Rightarrow> (d2, b # bs)))"

section \<open>Finality of holds\<close>

locale hold_finality =
  fixes hold_of :: "'d \<Rightarrow> 'k \<Rightarrow> 'h option"
    and final :: "'h \<Rightarrow> bool"
    and operation :: "'d \<Rightarrow> 'd \<Rightarrow> bool"
  assumes keeps: "operation d d' \<Longrightarrow> hold_of d k = Some h \<Longrightarrow> final h \<Longrightarrow> hold_of d' k = Some h"
begin

lemma keeps_run:
  "operation\<^sup>*\<^sup>* d d' \<Longrightarrow> hold_of d k = Some h \<Longrightarrow> final h \<Longrightarrow> hold_of d' k = Some h"
  by (induction rule: rtranclp_induct) (auto intro: keeps)

end

lemma pool_arm_one_holds:
  "canonicalWalletHoldKey H u (seg_AuthorizationID s) \<noteq> k \<Longrightarrow>
   holds (pool_arm_one now grace ks (seg_share H u s) db) k = holds db k"
  by (simp add: pool_arm_one_def seg_share_def redis_cmd_defs split: option.split)

lemma pool_fold_holds:
  "\<forall>s\<in>set segs. canonicalWalletHoldKey H u (seg_AuthorizationID s) \<noteq> k \<Longrightarrow>
     holds (fold (pool_arm_one now grace ks) (map (seg_share H u) segs) db) k = holds db k"
  by (induction segs arbitrary: db) (simp_all add: pool_arm_one_holds)

lemma pool_script_final:
  assumes "holds db k = Some h"
  shows "holds (fst (armCanonicalWalletPoolScript (map (seg_share H u) segs) ks now grace db)) k = Some h"
proof -
  have "holds (fold (pool_arm_one now grace ks) (map (seg_share H u) segs) db) k = Some h"
    if "pool_check now db (map (seg_share H u) segs) 0 = Inr 0"
    using assms pool_check_fits [OF that] by (subst pool_fold_holds) auto
  with assms show ?thesis
    by (auto simp: armCanonicalWalletPoolScript_def split: sum.split)
qed

lemma convert_script_other:
  "k \<noteq> k1 \<or> (\<exists>h. holds db k1 = Some h \<and> ended h) \<Longrightarrow>
   holds (fst (convertCanonicalWalletHoldScript k1 k2 k3 k4 auth ev n now rnow db)) k = holds db k"
  by (auto simp: convertCanonicalWalletHoldScript_def settle_hold_def mark_with_lease_life_def Let_def
      redis_cmd_defs ended_def split: option.split)

lemma protect_script_final:
  assumes "holds db k = Some h"
  shows "holds (fst (protectMediaHoldScript k1 k2 k3 k4 a db)) k = Some h"
proof -
  have "holds (fst (protect_hold k1 k2 k3 a restored l d)) k = Some h" if "holds d = holds db" for d restored l
    using assms that by (auto simp: protect_hold_def Let_def redis_cmd_defs)
  then show ?thesis
    using assms by (simp add: protectMediaHoldScript_def Let_def redis_cmd_defs)
qed

lemma wallet_script_final:
  assumes "wallet_script H u db db'" "holds db k = Some h" "ended h"
  shows "holds db' k = Some h"
  using assms
proof cases
  case s_install
  then show ?thesis
    using assms(2) by (simp add: installCanonicalWalletLeaseScript_def Let_def redis_cmd_defs split: option.split)
next
  case s_release
  with assms(2,3) show ?thesis
    by (auto simp: releaseCanonicalWalletHoldScript_def Let_def redis_cmd_defs ended_def split: option.split)
next
  case s_convert
  with assms(2,3) show ?thesis by (subst s_convert(1), subst convert_script_other) auto
next
  case s_mark
  with assms(2,3) show ?thesis
    by (auto simp: markCanonicalWalletHoldClassScript_def redis_cmd_defs ended_def split: option.split)
next
  case s_pool
  with assms(2) show ?thesis by (simp add: pool_script_final)
next
  case s_protect
  with assms(2) show ?thesis by (simp add: protect_script_final)
next
  case s_arm
  with assms(2) show ?thesis
    by (auto simp: armCanonicalWalletHoldScript_def redis_cmd_defs split: option.split)
qed (use assms(2) in \<open>auto simp: reserveCanonicalWalletLeaseScript_def sealCanonicalWalletLeaseScript_def
      releaseCanonicalWalletReservationScript_def freezeCanonicalWalletFundingScript_def
      applyCanonicalWalletFundingReturnScript_def UnprotectMediaLease_def Let_def redis_cmd_defs
      split: option.split\<close>)

interpretation wallet_holds: hold_finality "\<lambda>db a. holds db (canonicalWalletHoldKey H u a)" ended "wallet_op H u"
  for H u
  by unfold_locales (blast dest: wallet_op_scripts intro: wallet_script_final)

section \<open>Hash tags\<close>

lemma frame_refl [simp, intro]: "frame P db db"
  by (simp add: frame_def)

lemma frame_trans: "frame P a b \<Longrightarrow> frame P b c \<Longrightarrow> frame P a c"
  by (simp add: frame_def)

lemma frame_cmds:
  assumes "frame P db d" "P k"
  shows "frame P db (r_hset_lease k L d)" "frame P db (r_hset_hold k h d)" "frame P db (r_hset_tomb k t d)"
    "frame P db (r_set k v d)" "frame P db (r_del k d)" "frame P db (r_pexpireat k n d)"
    "frame P db (r_persist k d)" "frame P db (r_sadd k x d)" "frame P db (r_srem k x d)"
  using assms by (auto simp: frame_def redis_cmd_defs)

lemma pool_fold_frame:
  "frame P d0 db \<Longrightarrow> P ks \<Longrightarrow> \<forall>(k1, k2, a, n)\<in>set shares. P k1 \<and> P k2 \<Longrightarrow>
     frame P d0 (fold (pool_arm_one now grace ks) shares db)"
  by (induction shares arbitrary: db)
     (auto simp: pool_arm_one_def frame_cmds split: option.split)

lemma protect_frame:
  "P k1 \<Longrightarrow> P k2 \<Longrightarrow> P k3 \<Longrightarrow> P k4 \<Longrightarrow> frame P db (fst (protectMediaHoldScript k1 k2 k3 k4 a db))"
proof -
  assume P: "P k1" "P k2" "P k3" "P k4"
  have "frame P db (fst (protect_hold k1 k2 k3 a restored l d))" if "frame P db d" for d restored l
    using that P by (simp add: protect_hold_def Let_def frame_cmds)
  with P show ?thesis by (simp add: protectMediaHoldScript_def Let_def frame_cmds)
qed

lemma hash_tag_app:
  assumes "CHR 0x7B \<notin> set p" "CHR 0x7D \<notin> set h"
  shows "hash_tag (p @ CHR 0x7B # h @ CHR 0x7D # s) = h"
proof -
  have "dropWhile (\<lambda>c. c \<noteq> CHR 0x7B) (p @ CHR 0x7B # h @ CHR 0x7D # s) = CHR 0x7B # h @ CHR 0x7D # s"
    using assms(1) by (subst dropWhile_append2) auto
  moreover have "takeWhile (\<lambda>c. c \<noteq> CHR 0x7D) (h @ CHR 0x7D # s) = h"
    using assms(2) by (subst takeWhile_append2) auto
  ultimately show ?thesis by (simp add: hash_tag_def)
qed

lemma wallet_keys:
  assumes hex: "\<And>x. CHR 0x7D \<notin> set (H x)"
  shows "wallet_key H u (canonicalWalletLeaseKey H u l)" "wallet_key H u (canonicalWalletCurrentKey H u)"
    "wallet_key H u (canonicalWalletReservationKey H u ev)" "wallet_key H u (canonicalWalletReleaseMarkerKey H u ev)"
    "wallet_key H u (canonicalWalletHoldKey H u a)" "wallet_key H u (canonicalWalletHoldSetKey H u)"
    "wallet_key H u (canonicalWalletFundingTombstoneKey H u l)" "wallet_key H u canonicalWalletHoldUsersKey"
proof -
  have tag: "CHR 0x7B \<notin> set p \<Longrightarrow> wallet_key H u (p @ CHR 0x7B # canonicalWalletUserHash H u @ CHR 0x7D # s)" for p s
    using hash_tag_app [OF _ hex] by (simp add: wallet_key_def canonicalWalletUserHash_def)
  show "wallet_key H u (canonicalWalletLeaseKey H u l)"
    using tag [of "''canonical_wallet:lease:''" "CHR '':'' # l"]
    by (simp add: canonicalWalletLeaseKey_def canonicalWalletLeaseKeyPrefix_def)
  show "wallet_key H u (canonicalWalletCurrentKey H u)"
    using tag [of "''canonical_wallet:current:''" "[]"] by (simp add: canonicalWalletCurrentKey_def)
  show "wallet_key H u (canonicalWalletReservationKey H u ev)"
    using tag [of "''canonical_wallet:reservation:''" "CHR '':'' # H (TrimSpace ev)"]
    by (simp add: canonicalWalletReservationKey_def)
  show "wallet_key H u (canonicalWalletReleaseMarkerKey H u ev)"
    using tag [of "''canonical_wallet:released:''" "CHR '':'' # H (TrimSpace ev)"]
    by (simp add: canonicalWalletReleaseMarkerKey_def)
  show "wallet_key H u (canonicalWalletHoldKey H u a)"
    using tag [of "''canonical_wallet:hold:''" "CHR '':'' # a"] by (simp add: canonicalWalletHoldKey_def)
  show "wallet_key H u (canonicalWalletHoldSetKey H u)"
    using tag [of "''canonical_wallet:holds:''" "[]"] by (simp add: canonicalWalletHoldSetKey_def)
  show "wallet_key H u (canonicalWalletFundingTombstoneKey H u l)"
    using tag [of "''canonical_wallet:lease:''" "CHR '':'' # l @ '':funding''"]
    by (simp add: canonicalWalletFundingTombstoneKey_def canonicalWalletLeaseKey_def canonicalWalletLeaseKeyPrefix_def)
qed (simp add: wallet_key_def)

lemma wallet_script_frame:
  assumes hex: "\<And>x. CHR 0x7D \<notin> set (H x)" and "wallet_script H u db db'"
  shows "frame (wallet_key H u) db db'"
  using assms(2)
proof cases
  case s_protect
  then show ?thesis by (simp add: protect_frame wallet_keys [OF hex])
next
  case s_pool
  then show ?thesis
    by (auto simp: armCanonicalWalletPoolScript_def seg_share_def wallet_keys [OF hex]
        intro!: pool_fold_frame split: sum.split)
qed (auto simp: installCanonicalWalletLeaseScript_def reserveCanonicalWalletLeaseScript_def
      sealCanonicalWalletLeaseScript_def armCanonicalWalletHoldScript_def releaseCanonicalWalletHoldScript_def
      convertCanonicalWalletHoldScript_def settle_hold_def mark_with_lease_life_def
      markCanonicalWalletHoldClassScript_def releaseCanonicalWalletReservationScript_def
      freezeCanonicalWalletFundingScript_def applyCanonicalWalletFundingReturnScript_def
      UnprotectMediaLease_def Let_def frame_cmds wallet_keys [OF hex] split: option.split)

section \<open>Tick leaders\<close>

text \<open>
  A deployment-wide tick: whoever sets the mark first leads, everybody else finds it set. The
  arguments of an attempt are the mark's life and the clock.
\<close>

locale tick_leader =
  fixes attempt :: "int \<Rightarrow> int \<Rightarrow> 'd \<Rightarrow> 'd \<times> bool"
    and taken :: "'d \<Rightarrow> bool"
  assumes free: "\<not> taken d \<Longrightarrow> snd (attempt life now d) \<and> taken (fst (attempt life now d))"
    and busy: "taken d \<Longrightarrow> attempt life now d = (d, False)"
begin

lemma busy_all: "taken d \<Longrightarrow> attempts attempt xs d = (d, replicate (length xs) False)"
  by (induction xs) (simp_all add: busy)

lemma one_leader:
  "\<not> taken d \<Longrightarrow> xs \<noteq> [] \<Longrightarrow> snd (attempts attempt xs d) = True # replicate (length xs - 1) False"
proof (cases xs)
  case (Cons x ys)
  assume "\<not> taken d"
  from free [OF this, of "fst x" "snd x"] obtain d1 where "attempt (fst x) (snd x) d = (d1, True)" "taken d1"
    by (metis (full_types) prod.collapse)
  with Cons show ?thesis by (simp add: busy_all)
qed simp

end

interpretation reaper_tick: tick_leader "tick_attempt TryCanonicalWalletReaperLease"
  "tick_taken ''canonical_wallet:reaper:tick''"
  by unfold_locales (auto simp: tick_attempt_def tick_taken_def TryCanonicalWalletReaperLease_def r_setnx_def redis_cmd_defs
      split: option.splits)

interpretation collector_tick: tick_leader "tick_attempt TryCanonicalWalletReceivableCollectorLease"
  "tick_taken ''canonical_wallet:receivable_collector:tick''"
  by unfold_locales (auto simp: tick_attempt_def tick_taken_def TryCanonicalWalletReceivableCollectorLease_def r_setnx_def
      redis_cmd_defs split: option.splits)

section \<open>Signed returns\<close>

text \<open>
  Receipts carry a revision and an amount returned so far; the store records the last applied
  pair. An accepted receipt is not older than the record and becomes it, a refused one changes
  nothing, so over any run of receipts the record only grows.
\<close>

locale return_log =
  fixes apply_receipt :: "'r \<Rightarrow> 'd \<Rightarrow> 'd \<times> bool"
    and revision :: "'r \<Rightarrow> int" and returned :: "'r \<Rightarrow> int"
    and record_of :: "'d \<Rightarrow> int \<times> int"
  assumes accepted: "apply_receipt r d = (d', True) \<Longrightarrow>
      fst (record_of d) \<le> revision r \<and> snd (record_of d) \<le> returned r \<and> record_of d' = (revision r, returned r)"
    and refused: "apply_receipt r d = (d', False) \<Longrightarrow> d' = d"
begin

lemma record_grows:
  "fst (record_of d) \<le> fst (record_of (fst (apply_receipt r d)))
   \<and> snd (record_of d) \<le> snd (record_of (fst (apply_receipt r d)))"
  using accepted refused by (cases "apply_receipt r d"; cases "snd (apply_receipt r d)") fastforce+

lemma record_grows_run:
  "fst (record_of d) \<le> fst (record_of (fold (\<lambda>r d. fst (apply_receipt r d)) rs d))
   \<and> snd (record_of d) \<le> snd (record_of (fold (\<lambda>r d. fst (apply_receipt r d)) rs d))"
proof (induction rs arbitrary: d)
  case (Cons r rs)
  from Cons [of "fst (apply_receipt r d)"] record_grows [of d r] show ?case by auto
qed simp

end

lemma apply_return_for_script:
  "apply_return_for H u l r db = (db', ok) \<Longrightarrow>
     (\<not> ok \<and> db' = db) \<or>
     (\<exists>before funded. ok \<and> ParseInt (rcpt_ReturnedAfterUnits r) \<noteq> None \<and>
        applyCanonicalWalletFundingReturnScript (canonicalWalletLeaseKey H u l)
          (canonicalWalletFundingTombstoneKey H u l) (rcpt_ReturnRevision r) before (returned_units r) funded
          (rcpt_Mode r) (rcpt_Signature r) db = (db', Inr 1))"
  by (auto simp: apply_return_for_def ApplyCanonicalWalletFundingReturn_def returned_units_def parse_or_def bind_res_def
      applyCanonicalWalletFundingReturnScript_def Let_def
      split: prod.splits sum.splits if_splits option.splits)

lemma apply_script_record:
  assumes "applyCanonicalWalletFundingReturnScript (canonicalWalletLeaseKey H u l)
      (canonicalWalletFundingTombstoneKey H u l) rv before after funded mode sig db = (db', Inr 1)"
  shows "fst (return_record H u l db) \<le> rv \<and> snd (return_record H u l db) \<le> after
    \<and> return_record H u l db' = (rv, after)"
proof -
  let ?L = "leases db (canonicalWalletLeaseKey H u l)" and ?T = "tombs db (canonicalWalletFundingTombstoneKey H u l)"
  have ref: "return_refusal ?L ?T rv before after funded sig = None"
    using assms by (auto simp: applyCanonicalWalletFundingReturnScript_def split: option.splits)
  then have "num0 (Option.bind ?T t_return_revision) \<le> rv" "num0 (Option.bind ?T t_returned_units) \<le> after"
    by (auto simp: return_refusal_def Let_def split: if_splits)
  moreover have "return_record H u l db' = (rv, after)"
    using assms ref by (auto simp: applyCanonicalWalletFundingReturnScript_def Let_def return_record_def redis_cmd_defs)
  ultimately show ?thesis by (simp add: return_record_def Let_def)
qed

interpretation funding_returns: return_log "apply_return_for H u l" rcpt_ReturnRevision returned_units "return_record H u l"
  for H u l
  by unfold_locales (use apply_return_for_script apply_script_record in blast)+

end
