(* ===== verification/Wallet_Behaviour.thy ===== *)
theory Wallet_Behaviour
  imports Wallet_Contracts
begin

text \<open>
  What the store's operations do to a lease, stated on an abstract view of it (budget, units
  outstanding, frozen, deadline): taking units, giving them back, and settling a hold at its actual
  cost. The lemmas read stored hashes back through the Go decoder and follow an install, an armed
  hold, a pool and a signed return through the script that performs it.
\<close>

section \<open>The abstract lease\<close>

record ledger_view =
  v_budget :: int
  v_outstanding :: int
  v_frozen :: bool
  v_expires_ms :: int

definition view :: "lease_hash \<Rightarrow> ledger_view" where
  "view L = \<lparr>v_budget = l_budget_units L, v_outstanding = outstanding L,
     v_frozen = (l_funding_frozen L = Some ''1''), v_expires_ms = l_expires_at_ms L\<rparr>"

definition take_units :: "int \<Rightarrow> int \<Rightarrow> ledger_view \<Rightarrow> ledger_view option" where
  "take_units now_ms n v =
     (if v_frozen v \<or> v_expires_ms v \<le> now_ms \<or> n \<le> 0 \<or> v_outstanding v + n > v_budget v then None
      else Some (v\<lparr>v_outstanding := v_outstanding v + n\<rparr>))"

definition give_units :: "int \<Rightarrow> ledger_view \<Rightarrow> ledger_view" where
  "give_units n v = v\<lparr>v_outstanding := v_outstanding v - n\<rparr>"

text \<open>Settling a hold of \<open>held\<close> units at an actual cost of \<open>n\<close>: the code and the lease after it.\<close>

definition settle_units :: "int \<Rightarrow> int \<Rightarrow> int \<Rightarrow> ledger_view \<Rightarrow> int \<times> ledger_view" where
  "settle_units now_ms held n v =
     (if n \<le> held then (0, give_units (held - n) v)
      else case take_units now_ms (n - held) v of
          Some v' \<Rightarrow> (0, v')
        | None \<Rightarrow> (4, give_units held v))"

definition armed_hold :: "lease_hash \<Rightarrow> int \<Rightarrow> int \<Rightarrow> hold_hash" where
  "armed_hold L n now_ms = \<lparr>h_lease_id = l_lease_id L, h_held_units = n, h_armed_at_ms = now_ms,
     h_class = [], h_state = ''armed'', h_event_id = []\<rparr>"

definition stored_form :: "CanonicalWalletLease \<Rightarrow> CanonicalWalletLease" where
  "stored_form lease = lease\<lparr>PlatformUserID := TrimSpace (PlatformUserID lease), Currency := ''USD'',
     FundedUnits := FundingPrincipalUnits lease, RequireCachedLease := False, RetainUntil := None, Sealed := False,
     ExpiresAt := map_option (\<lambda>e. of_UnixMilli (UnixMilli e)) (ExpiresAt lease)\<rparr>"

section \<open>Reading stored hashes back\<close>

lemma map_get_lease_fields:
  "map_get (lease_fields L) ''lease_id'' = l_lease_id L"
  "map_get (lease_fields L) ''platform_user_id'' = l_platform_user_id L"
  "map_get (lease_fields L) ''currency'' = l_currency L"
  "map_get (lease_fields L) ''budget_units'' = show_int (l_budget_units L)"
  "map_get (lease_fields L) ''consumed_units'' = show_int (l_consumed_units L)"
  "map_get (lease_fields L) ''expires_at_ms'' = show_int (l_expires_at_ms L)"
  "map_get (lease_fields L) ''released_units'' = str0 (map_option show_int (l_released_units L))"
  "map_get (lease_fields L) ''funded_units'' = str0 (map_option show_int (l_funded_units L))"
  "map_get (lease_fields L) ''returned_units'' = str0 (map_option show_int (l_returned_units L))"
  "map_get (lease_fields L) ''return_revision'' = str0 (map_option show_int (l_return_revision L))"
  "map_get (lease_fields L) ''budget_revision'' = str0 (map_option show_int (l_budget_revision L))"
  "map_get (lease_fields L) ''funding_frozen'' = str0 (l_funding_frozen L)"
  "map_get (lease_fields L) ''funding_scope'' = str0 (l_funding_scope L)"
  "map_get (lease_fields L) ''funding_owner_id'' = str0 (l_funding_owner_id L)"
  "map_get (lease_fields L) ''funding_issuance_key'' = str0 (l_funding_issuance_key L)"
  "map_get (lease_fields L) ''sealed'' = str0 (l_sealed L)"
  by (simp_all add: map_get_def lease_fields_def str0_def)

lemma parse_or_show [simp]: "parse_or e (show_int x) = (if in_int64 x then Inr x else Inl e)"
  by (simp add: parse_or_def ParseInt_show_int_iff)

lemma bind_res_simps [simp]: "bind_res (Inl e) f = Inl e" "bind_res (Inr x) f = f x"
  by (simp_all add: bind_res_def)

lemma bind_res_Inr: "bind_res r f = Inr y \<longleftrightarrow> (\<exists>x. r = Inr x \<and> f x = Inr y)"
  by (auto simp: bind_res_def split: sum.split)

lemma str0_simps [simp]: "str0 None = []" "str0 (Some s) = s"
  by (simp_all add: str0_def)

lemma parse_funding_stored:
  "parse_funding (str0 (map_option show_int x)) =
     (if x = None then Inr 0
      else if in_int64 (num0 x) \<and> 0 \<le> num0 x then Inr (num0 x)
      else Inl (ErrNew ''invalid canonical funding metadata''))"
  by (cases x) (auto simp: parse_funding_def ParseInt_show_int_iff)

lemma parse_stored_lease:
  assumes "parseCanonicalWalletLease (lease_fields L) = Inr lease"
  shows "BudgetUnits lease = l_budget_units L" "ConsumedUnits lease = l_consumed_units L"
    "ReleasedUnits lease = num0 (l_released_units L)" "Currency lease = l_currency L"
    "LeaseID lease = l_lease_id L" "Sealed lease = (l_sealed L = Some ''1'')"
    "FundingFrozen lease = (l_funding_frozen L = Some ''1'')"
    "ExpiresAt lease = Some (of_UnixMilli (l_expires_at_ms L))"
    "in_int64 (l_budget_units L)" "in_int64 (l_consumed_units L)" "in_int64 (num0 (l_released_units L))"
proof -
  have str1: "str0 x = ''1'' \<longleftrightarrow> x = Some ''1''" for x by (cases x) auto
  have rel: "(if str0 (map_option show_int x) \<noteq> [] then parse_or e (str0 (map_option show_int x)) else Inr 0)
      = (if in_int64 (num0 x) then Inr (num0 x) else Inl e)" for x e
    by (cases x) (auto simp: in_int64_def int64_min_def int64_max_def)
  note p = assms [unfolded parseCanonicalWalletLease_def Let_def map_get_lease_fields rel bind_res_Inr parse_or_show]
  from p show "BudgetUnits lease = l_budget_units L" "ConsumedUnits lease = l_consumed_units L"
    "ReleasedUnits lease = num0 (l_released_units L)" "Currency lease = l_currency L"
    "LeaseID lease = l_lease_id L" "Sealed lease = (l_sealed L = Some ''1'')"
    "FundingFrozen lease = (l_funding_frozen L = Some ''1'')"
    "ExpiresAt lease = Some (of_UnixMilli (l_expires_at_ms L))"
    "in_int64 (l_budget_units L)" "in_int64 (l_consumed_units L)" "in_int64 (num0 (l_released_units L))"
    by (auto simp: str1 zeroLease_def split: if_splits)
qed

lemma parse_stored_lease_consumed:
  assumes "parseCanonicalWalletLease (lease_fields L) = Inr lease" "in_int64 c"
  shows "parseCanonicalWalletLease (lease_fields (L\<lparr>l_consumed_units := c\<rparr>)) = Inr (lease\<lparr>ConsumedUnits := c\<rparr>)"
  using assms unfolding parseCanonicalWalletLease_def Let_def map_get_lease_fields bind_res_Inr
  by (auto simp: zeroLease_def split: if_splits)

section \<open>Arming\<close>

lemma USD_required [simp]: "RequireUSDBillingCurrency ''USD'' = Inr ''USD''"
  by code_simp

lemma ensure_single: "0 \<le> n \<Longrightarrow> n \<le> redisLuaMaxSafeInt64 \<Longrightarrow> ensureRedisLuaSafeInt64 [n] = None"
  by simp

lemma of_UnixMilli_less: "now < of_UnixMilli ms \<Longrightarrow> UnixMilli now < ms"
  by (simp add: of_UnixMilli_def UnixMilli_def)

lemma arm_success:
  assumes "TrimSpace u \<noteq> []" "TrimSpace l \<noteq> []" "TrimSpace a \<noteq> []" "0 < n" "n \<le> redisLuaMaxSafeInt64" "0 \<le> grace"
    and L: "leases db (canonicalWalletLeaseKey H u l) = Some L" "l_currency L = ''USD''"
      "l_sealed L \<noteq> Some ''1''" "l_funding_frozen L \<noteq> Some ''1''" "UnixMilli now < l_expires_at_ms L"
      "outstanding L + n \<le> l_budget_units L"
    and new: "holds db (canonicalWalletHoldKey H u a) = None"
  shows "\<exists>db'. ArmCanonicalWalletHold H u l ''USD'' a n grace now (Some db) = (Some db', Inr (l_lease_id L, n, False))
    \<and> holds db' = (holds db)(canonicalWalletHoldKey H u a \<mapsto> armed_hold L n (UnixMilli now))
    \<and> leases db' = (leases db)(canonicalWalletLeaseKey H u l \<mapsto> L\<lparr>l_consumed_units := l_consumed_units L + n\<rparr>)
    \<and> a \<in> set (sets db' (canonicalWalletHoldSetKey H u))
    \<and> TrimSpace u \<in> set (sets db' canonicalWalletHoldUsersKey)"
  using assms
  by (simp add: ArmCanonicalWalletHold_def armCanonicalWalletHoldScript_def redisResultInt64_def
      redis_cmd_defs armed_hold_def canonicalWalletHoldUsersKey_def canonicalWalletHoldSetKey_def)

lemmas view_defs = view_def take_units_def give_units_def settle_units_def outstanding_def lease_release_def

lemmas convert_script_defs = convertCanonicalWalletHoldScript_def settle_hold_def mark_with_lease_life_def

lemma marker_keys_distinct [simp]:
  "canonicalWalletReservationKey H u ev \<noteq> canonicalWalletReleaseMarkerKey H u' ev'"
  "canonicalWalletReservationKey H u ev \<noteq> canonicalWalletCurrentKey H u'"
  "canonicalWalletCurrentKey H u' \<noteq> canonicalWalletReservationKey H u ev"
  by (simp_all add: canonicalWalletReservationKey_def canonicalWalletReleaseMarkerKey_def canonicalWalletCurrentKey_def)

lemma guard_range:
  assumes "install_guard lease = Inr cur"
  shows "cur = ''USD''" "ExpiresAt lease \<noteq> None"
    "v \<in> {BudgetUnits lease, ConsumedUnits lease, ReleasedUnits lease, FundingPrincipalUnits lease,
          ReturnedUnits lease, ReturnRevision lease, BudgetRevision lease} \<Longrightarrow> 0 \<le> v \<and> in_int64 v"
proof -
  from assms have e: "ensureRedisLuaSafeInt64 [BudgetUnits lease, ConsumedUnits lease, ReleasedUnits lease,
              FundingPrincipalUnits lease, ReturnedUnits lease, ReturnRevision lease, BudgetRevision lease] = None"
    and "RequireUSDBillingCurrency (Currency lease) = Inr cur" and "ExpiresAt lease \<noteq> None"
    by (auto simp: install_guard_def split: if_splits option.splits)
  then show "cur = ''USD''" "ExpiresAt lease \<noteq> None"
    by (auto simp: RequireUSDBillingCurrency_def Let_def split: if_splits)
  show "0 \<le> v \<and> in_int64 v"
    if "v \<in> {BudgetUnits lease, ConsumedUnits lease, ReleasedUnits lease, FundingPrincipalUnits lease,
          ReturnedUnits lease, ReturnRevision lease, BudgetRevision lease}"
    using that ensure_NoneD [OF e, of v]
    by (auto simp: redisLuaMaxSafeInt64_def intro: in_int64_nonneg simp: int64_max_def)
qed

lemma install_ok:
  assumes "InstallCanonicalWalletLease H lease (Some db) = (Some db', Inr ())"
  shows "install_guard lease = Inr ''USD''
    \<and> install_refusal (leases db (canonicalWalletLeaseKey H (PlatformUserID lease) (LeaseID lease)))
          (tombs db (canonicalWalletFundingTombstoneKey H (PlatformUserID lease) (LeaseID lease)))
          (install_argv H lease ''USD'') = None
    \<and> db' = fst (installCanonicalWalletLeaseScript
          (canonicalWalletLeaseKey H (PlatformUserID lease) (LeaseID lease))
          (canonicalWalletCurrentKey H (PlatformUserID lease))
          (canonicalWalletFundingTombstoneKey H (PlatformUserID lease) (LeaseID lease))
          (install_argv H lease ''USD'') db)" (is "_ \<and> ?ref = None \<and> _")
proof -
  from assms obtain cur where g: "install_guard lease = Inr cur"
    by (auto simp: InstallCanonicalWalletLease_def split: sum.splits)
  with guard_range(1) have g: "install_guard lease = Inr ''USD''" by metis
  with assms have "?ref = None"
    by (cases ?ref) (simp_all add: InstallCanonicalWalletLease_def installCanonicalWalletLeaseScript_def)
  with assms g show ?thesis
    by (auto simp: InstallCanonicalWalletLease_def split: prod.splits sum.splits)
qed

lemma install_fresh:
  assumes run: "InstallCanonicalWalletLease H lease (Some db) = (Some db', Inr ())"
    and new: "leases db (canonicalWalletLeaseKey H (PlatformUserID lease) (LeaseID lease)) = None"
  shows "install_guard lease = Inr ''USD'' \<and> ReleasedUnits lease = 0
    \<and> FundingPrincipalUnits lease - ReturnedUnits lease = BudgetUnits lease
    \<and> leases db' (canonicalWalletLeaseKey H (PlatformUserID lease) (LeaseID lease)) =
        Some (install_merge None (install_argv H lease ''USD''))"
proof -
  note ok = install_ok [OF run]
  then have g: "install_guard lease = Inr ''USD''" by simp
  let ?a = "install_argv H lease ''USD''"
  have ref: "install_refusal None (tombs db (canonicalWalletFundingTombstoneKey H (PlatformUserID lease) (LeaseID lease))) ?a = None"
    using ok new by simp
  then have "a_funded ?a - a_returned ?a = a_budget ?a" "a_require_cached ?a \<noteq> ''1''"
    by (auto simp: install_refusal_def Let_def split: if_splits)
  then have "FundingPrincipalUnits lease - ReturnedUnits lease = BudgetUnits lease" "ReleasedUnits lease \<le> 0"
    by (auto simp: install_argv_def Let_def split: if_splits)
  moreover have "0 \<le> ReleasedUnits lease" using install_guard_consumed [OF g] by simp
  moreover have "leases db' (canonicalWalletLeaseKey H (PlatformUserID lease) (LeaseID lease)) = Some (install_merge None ?a)"
    using ok new by (simp add: installCanonicalWalletLeaseScript_def Let_def redis_cmd_defs)
  ultimately show ?thesis using g by simp
qed

lemma bool_flag [simp]: "boolWalletFlag b = ''1'' \<longleftrightarrow> b"
  by (simp add: boolWalletFlag_def)

lemma install_readback:
  assumes run: "InstallCanonicalWalletLease H lease (Some db) = (Some db', Inr ())"
    and new: "leases db (canonicalWalletLeaseKey H (PlatformUserID lease) (LeaseID lease)) = None"
    and time: "\<And>e. ExpiresAt lease = Some e \<Longrightarrow> in_int64 (UnixMilli e)"
  shows "GetCanonicalWalletLeaseByID H (PlatformUserID lease) (LeaseID lease) (Some db') = Inr (stored_form lease)"
proof -
  note f = install_fresh [OF run new]
  then have g: "install_guard lease = Inr ''USD''" and rel: "ReleasedUnits lease = 0"
    and cons: "FundingPrincipalUnits lease - ReturnedUnits lease = BudgetUnits lease"
    and st: "leases db' (canonicalWalletLeaseKey H (PlatformUserID lease) (LeaseID lease)) =
        Some (install_merge None (install_argv H lease ''USD''))" by auto
  obtain e where e: "ExpiresAt lease = Some e" using guard_range(2) [OF g] by auto
  note r = guard_range(3) [OF g]
  have "parseCanonicalWalletLease (lease_fields (install_merge None (install_argv H lease ''USD''))) = Inr (stored_form lease)"
    unfolding parseCanonicalWalletLease_def Let_def map_get_lease_fields
    using r [of "BudgetUnits lease"] r [of "ConsumedUnits lease"] r [of "FundingPrincipalUnits lease"]
      r [of "ReturnedUnits lease"] r [of "ReturnRevision lease"] r [of "BudgetRevision lease"] time [OF e] cons rel
    by (simp add: install_merge_def install_argv_def Let_def e parse_funding_stored parse_funding_def ParseInt_show_int_iff
        stored_form_def zeroLease_def)
  with st show ?thesis by (simp add: GetCanonicalWalletLeaseByID_def)
qed

lemma return_ok:
  assumes "ApplyCanonicalWalletFundingReturn H r db = (db', Inr ())"
  shows "\<exists>before after funded. ParseInt (rcpt_ReturnedBeforeUnits r) = Some before
    \<and> ParseInt (rcpt_ReturnedAfterUnits r) = Some after \<and> ParseInt (rcpt_FundedUnits r) = Some funded
    \<and> before \<le> after \<and> after \<le> funded
    \<and> applyCanonicalWalletFundingReturnScript
        (canonicalWalletLeaseKey H (rcpt_PlatformUserID r) (rcpt_LeaseID r))
        (canonicalWalletFundingTombstoneKey H (rcpt_PlatformUserID r) (rcpt_LeaseID r))
        (rcpt_ReturnRevision r) before after funded (rcpt_Mode r) (rcpt_Signature r) db = (db', Inr 1)"
  using assms
  by (auto simp: ApplyCanonicalWalletFundingReturn_def parse_or_def bind_res_def
      applyCanonicalWalletFundingReturnScript_def Let_def
      split: sum.splits if_splits option.splits prod.splits)

lemma apply_script_replay:
  assumes "applyCanonicalWalletFundingReturnScript k1 k2 rv before after funded mode sig db = (db', Inr 1)"
  shows "applyCanonicalWalletFundingReturnScript k1 k2 rv before after funded mode sig db' = (db', Inr 1)"
proof -
  have ref: "return_refusal (leases db k1) (tombs db k2) rv before after funded sig = None"
    using assms by (auto simp: applyCanonicalWalletFundingReturnScript_def split: option.splits)
  then have cap: "\<And>L. leases db k1 = Some L \<Longrightarrow> outstanding L \<le> funded - after"
    by (auto simp: return_refusal_def Let_def split: if_splits)
  show ?thesis
  proof (cases "leases db k1")
    case None
    with assms ref show ?thesis
      by (auto simp: applyCanonicalWalletFundingReturnScript_def return_refusal_def Let_def redis_cmd_defs)
  next
    case (Some L)
    with assms ref cap [OF Some] show ?thesis
      by (auto simp: applyCanonicalWalletFundingReturnScript_def return_refusal_def Let_def redis_cmd_defs outstanding_def)
  qed
qed

section \<open>Pool\<close>

lemma pool_fold_armed:
  assumes "distinct (map seg_AuthorizationID segs)" "distinct (map seg_LeaseID segs)"
    "\<forall>s\<in>set segs. share_fits H u db s" "s \<in> set segs"
    "leases db (canonicalWalletLeaseKey H u (seg_LeaseID s)) = Some L"
  shows "holds (fold (pool_arm_one now grace k) (map (seg_share H u) segs) db)
           (canonicalWalletHoldKey H u (seg_AuthorizationID s)) = Some (armed_hold L (seg_HeldUnits s) now)"
  using assms
proof (induction segs arbitrary: db)
  case (Cons t segs)
  let ?db1 = "pool_arm_one now grace k (seg_share H u t) db"
  show ?case
  proof (cases "s = t")
    case True
    then have "holds ?db1 (canonicalWalletHoldKey H u (seg_AuthorizationID s)) = Some (armed_hold L (seg_HeldUnits s) now)"
      using Cons.prems by (simp add: pool_arm_one_def seg_share_def redis_cmd_defs armed_hold_def)
    with True Cons.prems(1) show ?thesis
      by (simp, subst pool_fold_holds) (auto simp: image_iff)
  next
    case False
    then have ne: "seg_LeaseID s \<noteq> seg_LeaseID t" using Cons.prems by (auto simp: image_iff)
    then have "leases ?db1 (canonicalWalletLeaseKey H u (seg_LeaseID s)) = Some L"
      using Cons.prems by (simp add: pool_arm_one_def seg_share_def redis_cmd_defs split: option.split)
    moreover have "\<forall>s\<in>set segs. share_fits H u ?db1 s"
      using Cons.prems by (auto simp: pool_arm_one_other image_iff)
    ultimately show ?thesis using Cons.IH [of ?db1] Cons.prems False by simp
  qed
qed simp

lemma pool_check_bound: "pool_check now db shares d = Inr n \<Longrightarrow> n \<le> d + length shares"
proof (induction now db shares d rule: pool_check.induct)
  case (2 now db lease hold auth units rest d)
  show ?case
  proof (cases "holds db hold")
    case None
    with "2.prems" "2.IH"(1) [OF None] show ?thesis by (auto split: option.splits if_splits)
  next
    case (Some h)
    with "2.prems" "2.IH"(2) [OF Some] show ?thesis by (auto split: if_splits)
  qed
qed simp

lemma pool_check_code: "pool_check now db shares d = Inl c \<Longrightarrow> c \<noteq> 0"
  by (induction now db shares d rule: pool_check.induct) (auto split: option.splits if_splits)

lemma pool_check_dups:
  "pool_check now db (map (seg_share H u) segs) d = Inr (d + length segs) \<Longrightarrow> s \<in> set segs \<Longrightarrow>
     \<exists>h. holds db (canonicalWalletHoldKey H u (seg_AuthorizationID s)) = Some h
       \<and> map_option l_lease_id (leases db (canonicalWalletLeaseKey H u (seg_LeaseID s))) = Some (h_lease_id h) \<and> h_held_units h = seg_HeldUnits s \<and> h_state h = ''armed''"
proof (induction segs arbitrary: d)
  case (Cons t segs)
  from Cons.prems(1) obtain h where h: "holds db (canonicalWalletHoldKey H u (seg_AuthorizationID t)) = Some h"
    using pool_check_bound [of now db "map (seg_share H u) segs" d "d + length (t # segs)"]
    by (fastforce simp: seg_share_def [of H u t] split: option.splits if_splits)
  with Cons.prems(1) have "pool_check now db (map (seg_share H u) segs) (Suc d) = Inr (Suc d + length segs)"
    and "map_option l_lease_id (leases db (canonicalWalletLeaseKey H u (seg_LeaseID t))) = Some (h_lease_id h)"
    and "h_held_units h = seg_HeldUnits t" "h_state h = ''armed''"
    by (auto simp: seg_share_def [of H u t] eq_commute [of "Some (h_lease_id h)"] split: if_splits)
  with Cons.IH [of "Suc d"] Cons.prems(2) h show ?case by auto
qed simp

end
