(* ===== verification/Wallet_Properties.thy ===== *)
theory Wallet_Properties
  imports Wallet_Behaviour
begin

text \<open>
  The properties of the canonical wallet, each with a concrete run of the store that satisfies its
  hypotheses. The runs use a small demonstration wallet: user \<open>u1\<close>, lease \<open>L1\<close> of 100 units, hold
  \<open>a1\<close> of 40 units, and a hash function that drops closing braces.
\<close>

section \<open>The demonstration wallet\<close>

definition demo_hash :: "string \<Rightarrow> string" where
  "demo_hash s = filter (\<lambda>c. c \<noteq> CHR 0x7D) s"

definition demo_lease :: CanonicalWalletLease where
  "demo_lease = zeroLease\<lparr>LeaseID := ''L1'', PlatformUserID := ''u1'', Currency := ''usd'',
     BudgetUnits := 100, ExpiresAt := Some 5000000000\<rparr>"

definition demo_installed :: redis_db where
  "demo_installed = the (fst (InstallCanonicalWalletLease demo_hash demo_lease (Some empty_db)))"

definition demo_armed :: redis_db where
  "demo_armed = the (fst (ArmCanonicalWalletHold demo_hash ''u1'' ''L1'' ''USD'' ''a1'' 40 1000 1000000 (Some demo_installed)))"

definition demo_settled :: redis_db where
  "demo_settled = the (fst (ConvertCanonicalWalletHold demo_hash ''u1'' ''a1'' ''e1'' 30 2000000 2 (Some demo_armed)))"

definition demo_receipt :: WalletFundingReturnReceipt where
  "demo_receipt = \<lparr>rcpt_PlatformUserID = ''u1'', rcpt_LeaseID = ''L1'', rcpt_ReturnRevision = 1,
     rcpt_ReturnedBeforeUnits = ''0'', rcpt_ReturnedAfterUnits = ''60'', rcpt_FundedUnits = ''100'',
     rcpt_Mode = ''partial'', rcpt_Signature = ''s''\<rparr>"

text \<open>A lease of 100 units with 40 outstanding, frozen and open, and an armed hold on each.\<close>

definition demo_hash_of :: "string \<Rightarrow> string option \<Rightarrow> lease_hash" where
  "demo_hash_of l frozen = \<lparr>l_lease_id = l, l_platform_user_id = ''u1'', l_currency = ''USD'',
     l_budget_units = 100, l_consumed_units = 120, l_expires_at_ms = 5000, l_released_units = Some 80,
     l_funded_units = Some 100, l_returned_units = Some 0, l_return_revision = Some 0,
     l_budget_revision = Some 0, l_funding_frozen = frozen, l_funding_scope = Some [],
     l_funding_owner_id = Some [], l_funding_issuance_key = Some [], l_sealed = None,
     l_durable_media = None, l_media_recovered = None, l_funding_closed = None\<rparr>"

definition demo_frozen :: redis_db where
  "demo_frozen = empty_db\<lparr>leases := [canonicalWalletLeaseKey demo_hash ''u1'' ''L1'' \<mapsto> demo_hash_of ''L1'' (Some ''1'')]\<rparr>"

definition demo_returned :: redis_db where
  "demo_returned = fst (ApplyCanonicalWalletFundingReturn demo_hash demo_receipt demo_frozen)"


definition demo_lease2 :: CanonicalWalletLease where
  "demo_lease2 = demo_lease\<lparr>LeaseID := ''L2'', ExpiresAt := Some 6000000000\<rparr>"

definition demo_installed2 :: redis_db where
  "demo_installed2 = the (fst (InstallCanonicalWalletLease demo_hash demo_lease2 (Some demo_installed)))"


lemma pair_Some: "fst p \<noteq> None \<Longrightarrow> snd p = r \<Longrightarrow> p = (Some (the (fst p)), r)"
  by (cases p) auto

lemma store_kept:
  "fst (InstallCanonicalWalletLease H lease (Some db)) \<noteq> None"
  "fst (ArmCanonicalWalletHold H u l cur a n grace now (Some db)) \<noteq> None"
  "fst (ConvertCanonicalWalletHold H u a ev n now rnow (Some db)) \<noteq> None"
  "fst (ReserveCanonicalWalletLease H u l cur ev n now (Some db)) \<noteq> None"
  "fst (ReleaseCanonicalWalletReservation H u l ev n drp rnow (Some db)) \<noteq> None"
  "fst (SealCanonicalWalletLease H u l (Some db)) \<noteq> None"
  by (simp_all add: wallet_defs split: option.split sum.split prod.split list.split)

lemma demo_install: "InstallCanonicalWalletLease demo_hash demo_lease (Some empty_db) = (Some demo_installed, Inr ())"
  unfolding demo_installed_def by (rule pair_Some [OF store_kept(1)]) code_simp

lemma demo_arm: "ArmCanonicalWalletHold demo_hash ''u1'' ''L1'' ''USD'' ''a1'' 40 1000 1000000 (Some demo_installed)
    = (Some demo_armed, Inr (''L1'', 40, False))"
  unfolding demo_armed_def by (rule pair_Some [OF store_kept(2)]) code_simp

lemma demo_settle: "ConvertCanonicalWalletHold demo_hash ''u1'' ''a1'' ''e1'' 30 2000000 2 (Some demo_armed)
    = (Some demo_settled, Inr ((conversion 0)\<lparr>conv_LeaseID := ''L1''\<rparr>))"
  unfolding demo_settled_def by (rule pair_Some [OF store_kept(3)]) code_simp

lemma pair_snd: "snd p = r \<Longrightarrow> p = (fst p, r)"
  by (cases p) auto

lemma demo_return: "ApplyCanonicalWalletFundingReturn demo_hash demo_receipt demo_frozen = (demo_returned, Inr ())"
  unfolding demo_returned_def by (rule pair_snd) code_simp


lemma demo_lease_stored:
  "leases demo_armed (canonicalWalletLeaseKey demo_hash ''u1'' ''L1'') = Some (the (leases demo_armed (canonicalWalletLeaseKey demo_hash ''u1'' ''L1'')))"
  "l_sealed (the (leases demo_armed (canonicalWalletLeaseKey demo_hash ''u1'' ''L1''))) = None"
  "outstanding (the (leases demo_armed (canonicalWalletLeaseKey demo_hash ''u1'' ''L1''))) = 40"
  by code_simp+

lemma ticks_independent:
  "tick_taken ''canonical_wallet:receivable_collector:tick'' (fst (attempts (tick_attempt TryCanonicalWalletReaperLease) xs c))
     = tick_taken ''canonical_wallet:receivable_collector:tick'' c"
  "tick_taken ''canonical_wallet:reaper:tick'' (fst (attempts (tick_attempt TryCanonicalWalletReceivableCollectorLease) xs c))
     = tick_taken ''canonical_wallet:reaper:tick'' c"
proof -
  have "tick_taken ''canonical_wallet:receivable_collector:tick'' (fst (tick_attempt TryCanonicalWalletReaperLease life now c))
      = tick_taken ''canonical_wallet:receivable_collector:tick'' c"
    "tick_taken ''canonical_wallet:reaper:tick'' (fst (tick_attempt TryCanonicalWalletReceivableCollectorLease life now c))
      = tick_taken ''canonical_wallet:reaper:tick'' c" for life now c
    by (auto simp: tick_attempt_def tick_taken_def TryCanonicalWalletReaperLease_def
        TryCanonicalWalletReceivableCollectorLease_def r_setnx_def redis_cmd_defs split: option.splits)
  note step = this
  show "tick_taken ''canonical_wallet:receivable_collector:tick'' (fst (attempts (tick_attempt TryCanonicalWalletReaperLease) xs c))
     = tick_taken ''canonical_wallet:receivable_collector:tick'' c"
    by (induction xs arbitrary: c) (simp_all add: case_prod_beta step(1))
  show "tick_taken ''canonical_wallet:reaper:tick'' (fst (attempts (tick_attempt TryCanonicalWalletReceivableCollectorLease) xs c))
     = tick_taken ''canonical_wallet:reaper:tick'' c"
    by (induction xs arbitrary: c) (simp_all add: case_prod_beta step(2))
qed

section \<open>Properties\<close>



text \<open>
  C2 (ended hold is inert). A hold ends once: after it was settled, released or abandoned, no sequence of wallet operations
  changes it, and every later conversion, release or class mark reports the recorded outcome and
  leaves the store as it is, so its units are charged or given back exactly once.
\<close>

theorem ended_hold_is_inert:
  assumes args: "TrimSpace u \<noteq> []" "TrimSpace a \<noteq> []" "TrimSpace ev \<noteq> []" "0 \<le> n" "n \<le> redisLuaMaxSafeInt64"
      "st \<in> {''released'', ''abandoned''}" "TrimSpace cl \<noteq> []"
    and h: "holds db (canonicalWalletHoldKey H u a) = Some h" "ended h"
    and run: "(wallet_op H u)\<^sup>*\<^sup>* db db'"
  shows "ConvertCanonicalWalletHold H u a ev n now rnow (Some db') =
        (Some db', Inr \<lparr>conv_Code = 7, conv_LeaseID = h_lease_id h, conv_State = h_state h, conv_EventID = h_event_id h\<rparr>)
    \<and> ReleaseCanonicalWalletHold H u a st cl (Some db') =
        (Some db', Inl (CanonicalWalletHoldNotArmedError (h_state h) (h_event_id h)))
    \<and> MarkCanonicalWalletHoldClass H u a cl (Some db') =
        (Some db', Inl (CanonicalWalletHoldNotArmedError (h_state h) (h_event_id h)))"
proof -
  have "holds db' (canonicalWalletHoldKey H u a) = Some h"
    by (rule wallet_holds.keeps_run [OF run h])
  with args h(2) show ?thesis
    by (auto simp: ConvertCanonicalWalletHold_def ReleaseCanonicalWalletHold_def MarkCanonicalWalletHoldClass_def
        convertCanonicalWalletHoldScript_def releaseCanonicalWalletHoldScript_def
        markCanonicalWalletHoldClassScript_def redisResultInt64_def ended_def)
qed

theorem ended_hold_is_inert_witness:
  "ReleaseCanonicalWalletHold demo_hash ''u1'' ''a1'' ''released'' ''c'' (Some demo_settled) =
     (Some demo_settled, Inl (CanonicalWalletHoldNotArmedError ''settled'' ''e1''))"
proof -
  let ?h = "the (holds demo_settled (canonicalWalletHoldKey demo_hash ''u1'' ''a1''))"
  have h: "holds demo_settled (canonicalWalletHoldKey demo_hash ''u1'' ''a1'') = Some ?h"
    "h_state ?h = ''settled''" "h_event_id ?h = ''e1''" by code_simp+
  then have e: "ended ?h" by (simp add: ended_def)
  have trims: "TrimSpace ''u1'' \<noteq> []" "TrimSpace ''a1'' \<noteq> []" "TrimSpace ''e1'' \<noteq> []" "TrimSpace ''c'' \<noteq> []"
    by code_simp+
  show ?thesis
    using ended_hold_is_inert [OF trims(1-3) _ _ _ trims(4) h(1) e, of 0 "''released''" demo_settled] h
    by (simp add: redisLuaMaxSafeInt64_def)
qed

text \<open>
  C3 (convert refines settle). Converting an armed hold implements the abstract settlement of its lease: a cost within the
  hold gives the difference back, an overrun takes the excess if the lease admits it, and
  otherwise the whole hold is given back and the conversion reports code 4. A settled hold is
  bound to its event, on the hold and in the event's reservation marker.
\<close>

theorem convert_refines_settle:
  assumes args: "TrimSpace u \<noteq> []" "TrimSpace a \<noteq> []" "TrimSpace ev \<noteq> []" "0 \<le> n" "n \<le> redisLuaMaxSafeInt64"
    and h: "holds db (canonicalWalletHoldKey H u a) = Some h" "h_state h = ''armed''"
    and L: "leases db (canonicalWalletLeaseKey H u (h_lease_id h)) = Some L"
    and s: "settle_units (UnixMilli now) (h_held_units h) n (view L) = (code, v)"
  shows "\<exists>db' L' h'. ConvertCanonicalWalletHold H u a ev n now rnow (Some db) =
      (Some db', Inr ((conversion code)\<lparr>conv_LeaseID := (if code = 0 then h_lease_id h else [])\<rparr>))
    \<and> leases db' = (leases db)(canonicalWalletLeaseKey H u (h_lease_id h) \<mapsto> L') \<and> view L' = v
    \<and> holds db' = (holds db)(canonicalWalletHoldKey H u a \<mapsto> h')
    \<and> (code = 0 \<longrightarrow> h_state h' = ''settled'' \<and> h_event_id h' = ev
         \<and> strs db' (canonicalWalletReservationKey H u ev) = Some (h_lease_id h))
    \<and> (code = 4 \<longrightarrow> h_state h' = ''released'' \<and> strs db' = strs db)"
proof -
  note defs = ConvertCanonicalWalletHold_def convert_script_defs redisResultInt64_def conversion_def Let_def
    redis_cmd_defs
  consider (within) "n \<le> h_held_units h"
    | (over) "n > h_held_units h" "take_units (UnixMilli now) (n - h_held_units h) (view L) \<noteq> None"
    | (refused) "n > h_held_units h" "take_units (UnixMilli now) (n - h_held_units h) (view L) = None"
    by fastforce
  then show ?thesis
  proof cases
    case within
    then show ?thesis
      using s by (intro exI conjI) (use args h L in \<open>auto simp: defs view_defs split: option.splits\<close>)
  next
    case over
    then show ?thesis
      using s by (intro exI conjI) (use args h L in \<open>auto simp: defs view_defs split: if_splits\<close>)
  next
    case refused
    then show ?thesis
      using s by (intro exI conjI) (use args h L in \<open>auto simp: defs view_defs split: if_splits\<close>)
  qed
qed

theorem convert_refines_settle_witness:
  "\<exists>db' L'. ConvertCanonicalWalletHold demo_hash ''u1'' ''a1'' ''e1'' 70 2000000 2 (Some demo_armed)
      = (Some db', Inr ((conversion 0)\<lparr>conv_LeaseID := ''L1''\<rparr>))
    \<and> leases db' (canonicalWalletLeaseKey demo_hash ''u1'' ''L1'') = Some L' \<and> v_outstanding (view L') = 70"
proof -
  let ?h = "the (holds demo_armed (canonicalWalletHoldKey demo_hash ''u1'' ''a1''))"
  let ?L = "the (leases demo_armed (canonicalWalletLeaseKey demo_hash ''u1'' ''L1''))"
  have h: "holds demo_armed (canonicalWalletHoldKey demo_hash ''u1'' ''a1'') = Some ?h" "h_state ?h = ''armed''"
    "h_lease_id ?h = ''L1''" by code_simp+
  have L: "leases demo_armed (canonicalWalletLeaseKey demo_hash ''u1'' (h_lease_id ?h)) = Some ?L"
    using demo_lease_stored(1) h(3) by simp
  have s: "settle_units (UnixMilli 2000000) (h_held_units ?h) 70 (view ?L)
      = (0, \<lparr>v_budget = 100, v_outstanding = 70, v_frozen = False, v_expires_ms = 5000\<rparr>)" by code_simp
  have trims: "TrimSpace ''u1'' \<noteq> []" "TrimSpace ''a1'' \<noteq> []" "TrimSpace ''e1'' \<noteq> []" by code_simp+
  show ?thesis
    using convert_refines_settle [OF trims _ _ h(1,2) L s, of 2] h(3) by (auto simp: redisLuaMaxSafeInt64_def)
qed

text \<open>
  C26 (covered hold is armed). The gateway's pre-check is sound: when the lease read back from the store covers an amount
  (currency, skew margin, remaining units), arming a fresh hold for that amount succeeds, and the
  lease read back afterwards has exactly that much less remaining.
\<close>

theorem covered_hold_is_armed:
  assumes get: "GetCanonicalWalletLeaseByID H u l (Some db) = Inr lease"
    and covers: "leaseCovers margin (Some lease) ''USD'' n now" and "0 \<le> margin"
    and args: "TrimSpace u \<noteq> []" "TrimSpace l \<noteq> []" "TrimSpace a \<noteq> []" "0 < n" "n \<le> redisLuaMaxSafeInt64" "0 \<le> grace"
    and new: "holds db (canonicalWalletHoldKey H u a) = None"
  shows "\<exists>db'. ArmCanonicalWalletHold H u l ''USD'' a n grace now (Some db) = (Some db', Inr (LeaseID lease, n, False))
    \<and> GetCanonicalWalletLeaseByID H u l (Some db') = Inr (lease\<lparr>ConsumedUnits := ConsumedUnits lease + n\<rparr>)
    \<and> RemainingUnits (lease\<lparr>ConsumedUnits := ConsumedUnits lease + n\<rparr>) = RemainingUnits lease - n"
proof -
  from get obtain L where L: "leases db (canonicalWalletLeaseKey H u l) = Some L"
    and parse: "parseCanonicalWalletLease (lease_fields L) = Inr lease"
    by (auto simp: GetCanonicalWalletLeaseByID_def split: option.splits)
  note stored = parse_stored_lease [OF parse]
  from covers have cov: "Currency lease = ''USD''" "n \<le> RemainingUnits lease"
      "now + margin * 1000000 < of_UnixMilli (l_expires_at_ms L)"
    by (auto simp: leaseCovers_def leaseExpiredAt_def stored)
  then have open_lease: "\<not> Sealed lease" "\<not> FundingFrozen lease" and pos: "0 < RemainingUnits lease"
    using \<open>0 < n\<close> by (auto simp: RemainingUnits_def)
  have rem: "RemainingUnits lease = BudgetUnits lease + ReleasedUnits lease - ConsumedUnits lease"
    "0 \<le> ReleasedUnits lease" "0 \<le> ConsumedUnits lease"
    using RemainingUnits_open [OF open_lease _ _ _ pos] stored by auto
  have exp: "UnixMilli now < l_expires_at_ms L"
    using cov(3) \<open>0 \<le> margin\<close> by (intro of_UnixMilli_less) simp
  have fits: "outstanding L + n \<le> l_budget_units L"
    using cov(2) rem stored by (simp add: outstanding_def)
  have max: "0 \<le> BudgetUnits lease" "BudgetUnits lease + ReleasedUnits lease \<le> int64_max"
    using pos open_lease stored(9-11) unfolding RemainingUnits_def stored(1-3)
    by (auto simp: AddUnits_exact split: if_splits sum.splits)
  have c64: "in_int64 (l_consumed_units L + n)"
    using max cov(2) rem stored \<open>0 < n\<close> by (intro in_int64_nonneg) auto
  have cur: "l_currency L = ''USD''" and flags: "l_sealed L \<noteq> Some ''1''" "l_funding_frozen L \<noteq> Some ''1''"
    using cov(1) open_lease stored by auto
  from arm_success [OF args L cur flags exp fits new] obtain db' where
    arm: "ArmCanonicalWalletHold H u l ''USD'' a n grace now (Some db) = (Some db', Inr (l_lease_id L, n, False))"
    and leases': "leases db' = (leases db)(canonicalWalletLeaseKey H u l \<mapsto> L\<lparr>l_consumed_units := l_consumed_units L + n\<rparr>)"
    by blast
  have "GetCanonicalWalletLeaseByID H u l (Some db') = Inr (lease\<lparr>ConsumedUnits := ConsumedUnits lease + n\<rparr>)"
    using parse_stored_lease_consumed [OF parse c64] stored(2) by (simp add: GetCanonicalWalletLeaseByID_def leases')
  moreover have "RemainingUnits (lease\<lparr>ConsumedUnits := ConsumedUnits lease + n\<rparr>) = RemainingUnits lease - n"
    using open_lease stored c64 cov(2) rem max \<open>0 < n\<close>
    by (auto simp: RemainingUnits_def AddUnits_exact SubUnits_exact in_int64_nonneg)
  ultimately show ?thesis using arm stored(5) by auto
qed

theorem covered_hold_is_armed_witness:
  "\<exists>db'. ArmCanonicalWalletHold demo_hash ''u1'' ''L1'' ''USD'' ''a2'' 60 1000 1000000 (Some demo_installed)
      = (Some db', Inr (''L1'', 60, False))"
proof -
  have g: "GetCanonicalWalletLeaseByID demo_hash ''u1'' ''L1'' (Some demo_installed) = Inr (stored_form demo_lease)"
    using install_readback [OF demo_install]
    by (simp add: empty_db_def demo_lease_def zeroLease_def UnixMilli_def in_int64_def int64_min_def int64_max_def)
  have c: "leaseCovers 500 (Some (stored_form demo_lease)) ''USD'' 60 1000000" by code_simp
  have n: "holds demo_installed (canonicalWalletHoldKey demo_hash ''u1'' ''a2'') = None" by code_simp
  have trims: "TrimSpace ''u1'' \<noteq> []" "TrimSpace ''L1'' \<noteq> []" "TrimSpace ''a2'' \<noteq> []" by code_simp+
  have "LeaseID (stored_form demo_lease) = ''L1''" by code_simp
  with covered_hold_is_armed [OF g c _ trims _ _ _ n, of 1000] show ?thesis
    by (auto simp: redisLuaMaxSafeInt64_def)
qed



text \<open>
  Isolation: for a hash without closing braces (SHA-256 in hex has none), an operation of one user
  changes no key of the lease, hold, tombstone, string, set or expiry space outside that user's
  Redis hash tag, except the shared set of users with holds. Another user's keys carry another tag
  unless the hashes collide.
\<close>

theorem wallet_ops_stay_in_hash_tag:
  assumes hex: "\<And>x. CHR 0x7D \<notin> set (H x)" and op: "wallet_op H u db db'"
    and other: "canonicalWalletUserHash H v \<noteq> canonicalWalletUserHash H u"
  shows "frame (wallet_key H u) db db'
    \<and> leases db' (canonicalWalletLeaseKey H v l) = leases db (canonicalWalletLeaseKey H v l)
    \<and> holds db' (canonicalWalletHoldKey H v a) = holds db (canonicalWalletHoldKey H v a)"
proof -
  obtain d where s: "wallet_script H u db d" "wallet_script H u d db'" using wallet_op_scripts [OF op] by auto
  have fr: "frame (wallet_key H u) db db'"
    by (rule frame_trans [OF wallet_script_frame [OF hex s(1)] wallet_script_frame [OF hex s(2)]])
  have "hash_tag (canonicalWalletLeaseKey H v l) = canonicalWalletUserHash H v"
    "hash_tag (canonicalWalletHoldKey H v a) = canonicalWalletUserHash H v"
    using wallet_keys(1,5) [of H v, OF hex]
    by (simp_all add: wallet_key_def canonicalWalletHoldUsersKey_def canonicalWalletLeaseKey_def
        canonicalWalletLeaseKeyPrefix_def canonicalWalletHoldKey_def)
  then have "\<not> wallet_key H u (canonicalWalletLeaseKey H v l)" "\<not> wallet_key H u (canonicalWalletHoldKey H v a)"
    using other
    by (simp_all add: wallet_key_def canonicalWalletHoldUsersKey_def canonicalWalletLeaseKey_def
        canonicalWalletLeaseKeyPrefix_def canonicalWalletHoldKey_def)
  with fr show ?thesis by (simp add: frame_def)
qed

theorem wallet_ops_stay_in_hash_tag_witness:
  "leases demo_armed (canonicalWalletLeaseKey demo_hash ''u2'' ''L1'') =
   leases demo_installed (canonicalWalletLeaseKey demo_hash ''u2'' ''L1'')"
proof -
  have op: "wallet_op demo_hash ''u1'' demo_installed demo_armed"
    using demo_arm by (rule wallet_op.arm)
  have hex: "CHR 0x7D \<notin> set (demo_hash x)" for x by (simp add: demo_hash_def)
  have "canonicalWalletUserHash demo_hash ''u2'' \<noteq> canonicalWalletUserHash demo_hash ''u1''" by code_simp
  from wallet_ops_stay_in_hash_tag [OF hex op this] show ?thesis by simp
qed

text \<open>
  A reservation is idempotent on its event: repeating a successful one, at any amount and time,
  answers with the same lease snapshot marked as a duplicate and changes nothing.
\<close>

theorem reserve_replay:
  assumes first: "ReserveCanonicalWalletLease H u l cur ev n now (Some db) = (Some db', Inr r)" "\<not> res_Duplicate r"
    and again: "0 < n2" "n2 \<le> redisLuaMaxSafeInt64"
  shows "ReserveCanonicalWalletLease H u l cur ev n2 now2 (Some db') = (Some db', Inr (r\<lparr>res_Duplicate := True\<rparr>))"
proof -
  from first obtain cur' L where g: "TrimSpace ev \<noteq> []" "TrimSpace l \<noteq> []" "RequireUSDBillingCurrency cur = Inr cur'"
    and L: "leases db (canonicalWalletLeaseKey H u l) = Some L" "l_currency L = cur'"
    and fresh: "strs db (canonicalWalletReservationKey H u ev) = None"
    by (auto simp: ReserveCanonicalWalletLease_def reserveCanonicalWalletLeaseScript_def
        decodeCanonicalWalletReservationResult_def redisResultInt64_def
        split: if_splits option.splits sum.splits prod.splits)
  with first again show ?thesis
    by (auto simp: ReserveCanonicalWalletLease_def reserveCanonicalWalletLeaseScript_def Let_def
        decodeCanonicalWalletReservationResult_def redisResultInt64_def redis_cmd_defs
        split: if_splits)
qed

theorem reserve_replay_witness:
  "snd (ReserveCanonicalWalletLease demo_hash ''u1'' ''L1'' ''USD'' ''e9'' 7 9000000000
      (fst (ReserveCanonicalWalletLease demo_hash ''u1'' ''L1'' ''USD'' ''e9'' 25 1000000 (Some demo_installed))))
   = Inr \<lparr>res_Lease = zeroLease\<lparr>LeaseID := ''L1'', PlatformUserID := ''u1'', Currency := ''USD'', BudgetUnits := 100,
       ConsumedUnits := 25, ExpiresAt := Some 5000000000\<rparr>, res_Duplicate = True\<rparr>"
proof -
  let ?p = "ReserveCanonicalWalletLease demo_hash ''u1'' ''L1'' ''USD'' ''e9'' 25 1000000 (Some demo_installed)"
  let ?r = "\<lparr>res_Lease = zeroLease\<lparr>LeaseID := ''L1'', PlatformUserID := ''u1'', Currency := ''USD'', BudgetUnits := 100,
       ConsumedUnits := 25, ExpiresAt := Some 5000000000\<rparr>, res_Duplicate = False\<rparr>"
  have "snd ?p = Inr ?r" by code_simp
  then have first: "?p = (Some (the (fst ?p)), Inr ?r)" by (rule pair_Some [OF store_kept(4)])
  from reserve_replay [OF first, of 7 9000000000] show ?thesis
    by (subst first) (simp add: redisLuaMaxSafeInt64_def)
qed

text \<open>
  An event settled through a hold cannot be charged again by a direct reservation: on the same
  lease the reservation is answered as a duplicate and the store is unchanged.
\<close>

theorem convert_blocks_reserve:
  assumes conv: "ConvertCanonicalWalletHold H u a ev n now rnow (Some db) = (Some db', Inr c)" "conv_Code c = 0"
    and L: "leases db' (canonicalWalletLeaseKey H u (conv_LeaseID c)) = Some L" "l_currency L = ''USD''"
       "l_lease_id L = conv_LeaseID c"
    and again: "0 < n2" "n2 \<le> redisLuaMaxSafeInt64" "TrimSpace (conv_LeaseID c) \<noteq> []"
  shows "\<exists>r. ReserveCanonicalWalletLease H u (conv_LeaseID c) ''USD'' ev n2 now2 (Some db') = (Some db', Inr r) \<and> res_Duplicate r"
proof -
  from conv have "TrimSpace ev \<noteq> []"
    by (auto simp: ConvertCanonicalWalletHold_def split: if_splits)
  moreover have "strs db' (canonicalWalletReservationKey H u ev) = Some (conv_LeaseID c)"
    using conv
    by (auto simp: ConvertCanonicalWalletHold_def convert_script_defs redisResultInt64_def conversion_def Let_def redis_cmd_defs
        split: if_splits option.splits)
  ultimately show ?thesis
    using L again
    by (auto simp: ReserveCanonicalWalletLease_def reserveCanonicalWalletLeaseScript_def
        decodeCanonicalWalletReservationResult_def redisResultInt64_def)
qed

theorem convert_blocks_reserve_witness:
  "\<exists>r. ReserveCanonicalWalletLease demo_hash ''u1'' ''L1'' ''USD'' ''e1'' 30 3000000 (Some demo_settled)
     = (Some demo_settled, Inr r) \<and> res_Duplicate r"
proof -
  let ?c = "(conversion 0)\<lparr>conv_LeaseID := ''L1''\<rparr>"
  let ?L = "the (leases demo_settled (canonicalWalletLeaseKey demo_hash ''u1'' ''L1''))"
  have L: "leases demo_settled (canonicalWalletLeaseKey demo_hash ''u1'' ''L1'') = Some ?L"
    "l_currency ?L = ''USD''" "l_lease_id ?L = ''L1''" by code_simp+
  have "TrimSpace ''L1'' \<noteq> []" by code_simp
  with convert_blocks_reserve [OF demo_settle, of ?L 30 3000000] L show ?thesis
    by (simp add: redisLuaMaxSafeInt64_def conversion_def)
qed

text \<open>
  The full release of a reservation happens once: a second release of the event, full or partial,
  reports that nothing was owed and changes nothing.
\<close>

theorem release_reservation_once:
  assumes "ReleaseCanonicalWalletReservation H u l ev n True rnow (Some db) = (Some db', Inr True)"
    and "0 < n2" "n2 \<le> redisLuaMaxSafeInt64"
  shows "ReleaseCanonicalWalletReservation H u l ev n2 d rnow2 (Some db') = (Some db', Inr False)"
  using assms
  by (auto simp: ReleaseCanonicalWalletReservation_def releaseCanonicalWalletReservationScript_def Let_def
      redisResultInt64_def redis_cmd_defs split: if_splits option.splits)

theorem release_reservation_once_witness:
  "ReleaseCanonicalWalletReservation demo_hash ''u1'' ''L1'' ''e1'' 30 False 4
     (fst (ReleaseCanonicalWalletReservation demo_hash ''u1'' ''L1'' ''e1'' 30 True 3 (Some demo_settled)))
   = (fst (ReleaseCanonicalWalletReservation demo_hash ''u1'' ''L1'' ''e1'' 30 True 3 (Some demo_settled)), Inr False)"
proof -
  let ?p = "ReleaseCanonicalWalletReservation demo_hash ''u1'' ''L1'' ''e1'' 30 True 3 (Some demo_settled)"
  have "snd ?p = Inr True" by code_simp
  then have p: "?p = (Some (the (fst ?p)), Inr True)" by (rule pair_Some [OF store_kept(5)])
  then have f: "fst ?p = Some (the (fst ?p))" by (metis fst_conv)
  show ?thesis
    using release_reservation_once [OF p, of 30 False 4] by (simp add: redisLuaMaxSafeInt64_def f [symmetric])
qed

text \<open>
  The partial release of a reservation happens once: the release marker turns its redelivery
  into a refusal that changes nothing, so \<open>released_units\<close> is never raised twice.
\<close>

theorem release_partial_once:
  assumes "ReleaseCanonicalWalletReservation H u l ev n False rnow (Some db) = (Some db', Inr True)"
    and "0 < n2" "n2 \<le> redisLuaMaxSafeInt64"
  shows "ReleaseCanonicalWalletReservation H u l ev n2 False rnow2 (Some db') = (Some db', Inr False)"
  using assms
  by (auto simp: ReleaseCanonicalWalletReservation_def releaseCanonicalWalletReservationScript_def Let_def
      redisResultInt64_def redis_cmd_defs split: if_splits option.splits)

theorem release_partial_once_witness:
  "ReleaseCanonicalWalletReservation demo_hash ''u1'' ''L1'' ''e1'' 30 False 4
     (fst (ReleaseCanonicalWalletReservation demo_hash ''u1'' ''L1'' ''e1'' 30 False 3 (Some demo_settled)))
   = (fst (ReleaseCanonicalWalletReservation demo_hash ''u1'' ''L1'' ''e1'' 30 False 3 (Some demo_settled)), Inr False)"
proof -
  let ?p = "ReleaseCanonicalWalletReservation demo_hash ''u1'' ''L1'' ''e1'' 30 False 3 (Some demo_settled)"
  have "snd ?p = Inr True" by code_simp
  then have p: "?p = (Some (the (fst ?p)), Inr True)" by (rule pair_Some [OF store_kept(5)])
  then have f: "fst ?p = Some (the (fst ?p))" by (metis fst_conv)
  show ?thesis
    using release_partial_once [OF p, of 30 4] by (simp add: redisLuaMaxSafeInt64_def f [symmetric])
qed

text \<open>
  C28 (return conserves). An accepted return conserves money: the lease's budget becomes what was funded minus what was
  returned in total, what it has outstanding is untouched and still within the budget, and only a
  frozen lease is ever reduced.
\<close>

theorem return_conserves:
  assumes run: "ApplyCanonicalWalletFundingReturn H r db = (db', Inr ())"
    and L: "leases db (canonicalWalletLeaseKey H (rcpt_PlatformUserID r) (rcpt_LeaseID r)) = Some L"
  shows "\<exists>L' after funded. leases db' (canonicalWalletLeaseKey H (rcpt_PlatformUserID r) (rcpt_LeaseID r)) = Some L'
    \<and> ParseInt (rcpt_ReturnedAfterUnits r) = Some after \<and> ParseInt (rcpt_FundedUnits r) = Some funded
    \<and> l_budget_units L' + after = funded \<and> outstanding L' = outstanding L
    \<and> outstanding L' \<le> l_budget_units L' \<and> l_funding_frozen L' = Some ''1''
    \<and> l_funding_frozen L = Some ''1''"
proof -
  from return_ok [OF run] obtain before after funded where
    p: "ParseInt (rcpt_ReturnedAfterUnits r) = Some after" "ParseInt (rcpt_FundedUnits r) = Some funded"
    and s: "applyCanonicalWalletFundingReturnScript
        (canonicalWalletLeaseKey H (rcpt_PlatformUserID r) (rcpt_LeaseID r))
        (canonicalWalletFundingTombstoneKey H (rcpt_PlatformUserID r) (rcpt_LeaseID r))
        (rcpt_ReturnRevision r) before after funded (rcpt_Mode r) (rcpt_Signature r) db = (db', Inr 1)"
    by blast
  from s have ref: "return_refusal (Some L)
      (tombs db (canonicalWalletFundingTombstoneKey H (rcpt_PlatformUserID r) (rcpt_LeaseID r)))
      (rcpt_ReturnRevision r) before after funded (rcpt_Signature r) = None"
    using L by (auto simp: applyCanonicalWalletFundingReturnScript_def split: option.splits)
  then have "outstanding L \<le> funded - after" "l_funding_frozen L = Some ''1''"
    by (auto simp: return_refusal_def Let_def split: if_splits)
  with s p ref L show ?thesis
    by (auto simp: applyCanonicalWalletFundingReturnScript_def Let_def redis_cmd_defs outstanding_def)
qed

theorem return_conserves_witness:
  "\<exists>L'. leases demo_returned (canonicalWalletLeaseKey demo_hash ''u1'' ''L1'') = Some L'
     \<and> l_budget_units L' + 60 = 100 \<and> outstanding L' = 40"
proof -
  have L: "leases demo_frozen (canonicalWalletLeaseKey demo_hash (rcpt_PlatformUserID demo_receipt) (rcpt_LeaseID demo_receipt))
      = Some (demo_hash_of ''L1'' (Some ''1''))"
    by (simp add: demo_frozen_def demo_receipt_def)
  have "ParseInt ''60'' = Some 60" "ParseInt ''100'' = Some 100" by code_simp+
  with return_conserves [OF demo_return L] show ?thesis
    by (auto simp: demo_receipt_def outstanding_def demo_hash_of_def)
qed

text \<open>
  Applying a signed return again, after it was accepted, is accepted and changes nothing.
\<close>

theorem return_replay_idempotent:
  assumes "ApplyCanonicalWalletFundingReturn H r db = (db', Inr ())"
  shows "ApplyCanonicalWalletFundingReturn H r db' = (db', Inr ())"
proof -
  from return_ok [OF assms] obtain before after funded where
    p: "ParseInt (rcpt_ReturnedBeforeUnits r) = Some before" "ParseInt (rcpt_ReturnedAfterUnits r) = Some after"
      "ParseInt (rcpt_FundedUnits r) = Some funded"
    and s: "applyCanonicalWalletFundingReturnScript
        (canonicalWalletLeaseKey H (rcpt_PlatformUserID r) (rcpt_LeaseID r))
        (canonicalWalletFundingTombstoneKey H (rcpt_PlatformUserID r) (rcpt_LeaseID r))
        (rcpt_ReturnRevision r) before after funded (rcpt_Mode r) (rcpt_Signature r) db = (db', Inr 1)"
    by blast
  from apply_script_replay [OF s] p assms show ?thesis
    by (auto simp: ApplyCanonicalWalletFundingReturn_def parse_or_def split: if_splits option.splits)
qed

theorem return_replay_idempotent_witness:
  "ApplyCanonicalWalletFundingReturn demo_hash demo_receipt demo_returned = (demo_returned, Inr ())"
  using return_replay_idempotent [OF demo_return] .

text \<open>
  Over any run of signed returns of a lease, accepted or refused, the recorded revision and the
  recorded amount returned never decrease.
\<close>

theorem returns_only_grow:
  "fst (return_record H u l db) \<le> fst (return_record H u l (fold (\<lambda>r d. fst (apply_return_for H u l r d)) rs db))
   \<and> snd (return_record H u l db) \<le> snd (return_record H u l (fold (\<lambda>r d. fst (apply_return_for H u l r d)) rs db))"
  by (rule funding_returns.record_grows_run)

text \<open>
  C29 (install get roundtrip). A freshly installed lease reads back as it was written: every field survives the Redis hash
  and the decoder, with the user id trimmed, the currency normalised, the principal filled in and
  the deadline at millisecond resolution.
\<close>

theorem install_get_roundtrip:
  assumes run: "InstallCanonicalWalletLease H lease (Some db) = (Some db', Inr ())"
    and new: "leases db (canonicalWalletLeaseKey H (PlatformUserID lease) (LeaseID lease)) = None"
    and time: "\<And>e. ExpiresAt lease = Some e \<Longrightarrow> in_int64 (UnixMilli e)"
  shows "GetCanonicalWalletLeaseByID H (PlatformUserID lease) (LeaseID lease) (Some db') = Inr (stored_form lease)"
  using install_readback [OF run new time] .

theorem install_get_roundtrip_witness:
  "GetCanonicalWalletLeaseByID demo_hash ''u1'' ''L1'' (Some demo_installed) = Inr (stored_form demo_lease)"
  using install_get_roundtrip [OF demo_install]
  by (simp add: empty_db_def demo_lease_def zeroLease_def UnixMilli_def in_int64_def int64_min_def int64_max_def)

text \<open>
  An install moves the current-lease pointer only forward: if it leaves the lease it named, it
  moves to the installed lease, and that one expires later, or at the same time with a larger id.
\<close>

theorem pointer_never_regresses:
  assumes run: "InstallCanonicalWalletLease H lease (Some db) = (Some db', Inr ())"
    and ptr: "strs db (canonicalWalletCurrentKey H (PlatformUserID lease)) = Some p"
    and stored: "leases db (canonicalWalletLeaseKey H (PlatformUserID lease) p) = Some P"
    and ptr': "strs db' (canonicalWalletCurrentKey H (PlatformUserID lease)) = Some q"
    and stored': "leases db' (canonicalWalletLeaseKey H (PlatformUserID lease) q) = Some Q"
  shows "q = p \<or> q = LeaseID lease \<and> (l_expires_at_ms P < l_expires_at_ms Q
            \<or> l_expires_at_ms P = l_expires_at_ms Q \<and> str_less p q)"
proof -
  let ?a = "install_argv H lease ''USD''"
  have pre: "a_prefix ?a @ l = canonicalWalletLeaseKey H (PlatformUserID lease) l" for l
    by (simp add: install_argv_def Let_def canonicalWalletLeaseKey_def)
  show ?thesis
    using install_ok [OF run] ptr stored ptr' stored' str_less_total [of p q]
    by (auto simp: installCanonicalWalletLeaseScript_def Let_def redis_cmd_defs
        should_advance_pointer_def pre split: if_splits)
qed

theorem pointer_never_regresses_witness:
  "strs demo_installed2 (canonicalWalletCurrentKey demo_hash ''u1'') = Some ''L2'' \<and>
   l_expires_at_ms (the (leases demo_installed (canonicalWalletLeaseKey demo_hash ''u1'' ''L1'')))
     < l_expires_at_ms (the (leases demo_installed2 (canonicalWalletLeaseKey demo_hash ''u1'' ''L2'')))"
proof -
  have run: "InstallCanonicalWalletLease demo_hash demo_lease2 (Some demo_installed) = (Some demo_installed2, Inr ())"
    unfolding demo_installed2_def by (rule pair_Some [OF store_kept(1)]) code_simp
  have u: "PlatformUserID demo_lease2 = ''u1''" "LeaseID demo_lease2 = ''L2''" by (simp_all add: demo_lease2_def demo_lease_def)
  have p: "strs demo_installed (canonicalWalletCurrentKey demo_hash ''u1'') = Some ''L1''"
    "leases demo_installed (canonicalWalletLeaseKey demo_hash ''u1'' ''L1'') =
       Some (the (leases demo_installed (canonicalWalletLeaseKey demo_hash ''u1'' ''L1'')))"
    "l_expires_at_ms (the (leases demo_installed (canonicalWalletLeaseKey demo_hash ''u1'' ''L1''))) = 5000"
    by code_simp+
  have q: "strs demo_installed2 (canonicalWalletCurrentKey demo_hash ''u1'') = Some ''L2''"
    "leases demo_installed2 (canonicalWalletLeaseKey demo_hash ''u1'' ''L2'') =
       Some (the (leases demo_installed2 (canonicalWalletLeaseKey demo_hash ''u1'' ''L2'')))"
    "l_expires_at_ms (the (leases demo_installed2 (canonicalWalletLeaseKey demo_hash ''u1'' ''L2''))) \<noteq> 5000"
    by code_simp+
  show ?thesis
    using pointer_never_regresses [OF run, unfolded u, OF p(1,2) q(1,2)] p(3) q(1,3) by simp
qed

text \<open>
  Of any sequence of attempts to lead the reaper's tick while its mark lives, exactly the first one
  leads, and the attempts do not touch the mark of the receivable collector; and the other way round.
\<close>

theorem one_tick_leader:
  assumes "xs \<noteq> []"
  shows "(strs db ''canonical_wallet:reaper:tick'' = None \<longrightarrow>
      snd (attempts (tick_attempt TryCanonicalWalletReaperLease) xs (Some db)) = True # replicate (length xs - 1) False)
    \<and> (strs db ''canonical_wallet:receivable_collector:tick'' = None \<longrightarrow>
      snd (attempts (tick_attempt TryCanonicalWalletReceivableCollectorLease) xs (Some db)) = True # replicate (length xs - 1) False)
    \<and> tick_taken ''canonical_wallet:receivable_collector:tick'' (fst (attempts (tick_attempt TryCanonicalWalletReaperLease) xs (Some db)))
        = tick_taken ''canonical_wallet:receivable_collector:tick'' (Some db)
    \<and> tick_taken ''canonical_wallet:reaper:tick'' (fst (attempts (tick_attempt TryCanonicalWalletReceivableCollectorLease) xs (Some db)))
        = tick_taken ''canonical_wallet:reaper:tick'' (Some db)"
  using assms ticks_independent reaper_tick.one_leader collector_tick.one_leader by (simp add: tick_taken_def)

theorem one_tick_leader_witness:
  "snd (attempts (tick_attempt TryCanonicalWalletReaperLease) [(1000, 5), (1000, 6), (2000, 6)] (Some demo_armed)) = [True, False, False]"
proof -
  have "strs demo_armed ''canonical_wallet:reaper:tick'' = None" by code_simp
  with one_tick_leader [of "[(1000, 5), (1000, 6), (2000, 6)]" demo_armed] show ?thesis by (simp add: numeral_2_eq_2)
qed

text \<open>
  Sealing reports the figures before the seal, drops the current pointer to the lease, and closes
  it: every later arm and every reservation of a fresh event is refused as expired, whatever was
  released before.
\<close>

theorem seal_closes:
  assumes args: "TrimSpace u \<noteq> []" "TrimSpace l \<noteq> []" and L: "leases db (canonicalWalletLeaseKey H u l) = Some L"
      "l_currency L = ''USD''"
  shows "\<exists>db'. SealCanonicalWalletLease H u l (Some db) =
      (Some db', Inr (l_consumed_units L, num0 (l_released_units L)))
    \<and> strs db' (canonicalWalletCurrentKey H u) \<noteq> Some l
    \<and> (\<forall>a n grace now. TrimSpace a \<noteq> [] \<and> 0 < n \<and> n \<le> redisLuaMaxSafeInt64 \<and> 0 \<le> grace \<longrightarrow>
         ArmCanonicalWalletHold H u l ''USD'' a n grace now (Some db') = (Some db', Inl ErrCanonicalWalletLeaseExpired))
    \<and> (\<forall>ev n now. TrimSpace ev \<noteq> [] \<and> 0 < n \<and> n \<le> redisLuaMaxSafeInt64
         \<and> strs db (canonicalWalletReservationKey H u ev) = None \<longrightarrow>
         ReserveCanonicalWalletLease H u l ''USD'' ev n now (Some db') = (Some db', Inl ErrCanonicalWalletLeaseExpired))"
  using assms
  by (auto simp: SealCanonicalWalletLease_def sealCanonicalWalletLeaseScript_def Let_def redis_cmd_defs
       redisResultInt64_def ArmCanonicalWalletHold_def armCanonicalWalletHoldScript_def
       ReserveCanonicalWalletLease_def reserveCanonicalWalletLeaseScript_def decodeCanonicalWalletReservationResult_def)

theorem seal_closes_witness:
  "\<exists>db'. SealCanonicalWalletLease demo_hash ''u1'' ''L1'' (Some demo_settled) = (Some db', Inr (40, 10))
     \<and> ArmCanonicalWalletHold demo_hash ''u1'' ''L1'' ''USD'' ''a7'' 1 0 0 (Some db')
         = (Some db', Inl ErrCanonicalWalletLeaseExpired)"
proof -
  let ?L = "the (leases demo_settled (canonicalWalletLeaseKey demo_hash ''u1'' ''L1''))"
  have L: "leases demo_settled (canonicalWalletLeaseKey demo_hash ''u1'' ''L1'') = Some ?L"
    "l_currency ?L = ''USD''" "l_consumed_units ?L = 40" "num0 (l_released_units ?L) = 10" by code_simp+
  have trims: "TrimSpace ''u1'' \<noteq> []" "TrimSpace ''L1'' \<noteq> []" "TrimSpace ''a7'' \<noteq> []" by code_simp+
  from seal_closes [OF trims(1,2) L(1,2)] L(3,4) trims(3) show ?thesis
    by (fastforce simp: redisLuaMaxSafeInt64_def)
qed



text \<open>
  The checked unit arithmetic on 64-bit amounts returns the exact integer result when the
  arguments are non-negative and the result is representable, and the matching error otherwise.
\<close>

theorem units_exact:
  assumes "in_int64 a" "in_int64 b"
  shows "AddUnits a b = (if a < 0 \<or> b < 0 then Inl ErrCanonicalWalletUnitsNegative
           else if a + b > int64_max then Inl ErrCanonicalWalletUnitsOverflow else Inr (a + b))
    \<and> SubUnits a b = (if a < 0 \<or> b < 0 \<or> b > a then Inl ErrCanonicalWalletUnitsNegative else Inr (a - b))
    \<and> MulUnits a b = (if a < 0 \<or> b < 0 then Inl ErrCanonicalWalletUnitsNegative
           else if a * b > int64_max then Inl ErrCanonicalWalletUnitsOverflow else Inr (a * b))"
  using AddUnits_exact [OF assms] SubUnits_exact [OF assms] MulUnits_exact [OF assms] by simp

theorem units_exact_witness:
  "AddUnits 9223372036854775807 1 = Inl ErrCanonicalWalletUnitsOverflow
   \<and> MulUnits 3037000500 3037000500 = Inl ErrCanonicalWalletUnitsOverflow"
  using units_exact [of 9223372036854775807 1] units_exact [of 3037000500 3037000500]
  by (simp add: in_int64_def int64_min_def int64_max_def)

end
