(* ===== verification/Wallet_Outbox.thy ===== *)
theory Wallet_Outbox
  imports Wallet_Units
begin

text \<open>
  The settlement outbox (\<open>repository/wallet_outbox.go\<close>): the table \<open>wallet_settlement_outbox\<close> as the list
  of its rows with the id sequence, and every method of \<open>WalletOutboxStore\<close> as a function on it. A NULL
  column is \<open>None\<close>; times are nanoseconds, and \<open>now\<close> is the clock of the statement (the database's
  \<open>now()\<close>, or the time the method is passed). SHA-256 over the JSON of the hashed fields is the
  parameter \<open>digest\<close>. A statement that fails changes nothing; where a caller sees the failure, it is
  modelled with the caller.
\<close>

section \<open>Events and rows\<close>

record CanonicalWalletSettlementEvent =
  se_EventID :: string
  se_GatewayRequestID :: string
  se_PlatformUserID :: string
  se_LeaseID :: string
  se_Currency :: string
  se_AmountUnits :: int
  se_LocalBalanceAfterUnits :: "int option"
  se_OccurredAt :: go_time
  se_AuthorizationToken :: string
  se_AuthorizationID :: string
  se_BillingSnapshotID :: string

text \<open>The instant of a \<open>time.Time\<close>; the zero value is the first of January of year 1.\<close>

definition instant :: "go_time \<Rightarrow> int" where
  "instant t = (case t of None \<Rightarrow> -62135596800000000000 | Some e \<Rightarrow> e)"

record outbox_row =
  ow_id :: int
  ow_event_id :: string
  ow_platform_user_id :: string
  ow_lease_id :: "string option"
  ow_gateway_request_id :: string
  ow_currency :: string
  ow_amount_units :: int
  ow_local_balance :: "int option"
  ow_payload_hash :: string
  ow_status :: string
  ow_attempt_count :: int
  ow_next_attempt_at :: int
  ow_claimed_at :: "int option"
  ow_claimed_by :: "string option"
  ow_occurred_at :: int
  ow_delivered_at :: "int option"
  ow_dead_letter_reason :: "string option"
  ow_parent_event_id :: "string option"
  ow_split_depth :: int
  ow_pending_release_units :: "int option"
  ow_authorization_id :: "string option"
  ow_billing_snapshot_id :: "string option"
  ow_redrive_count :: int

record outbox =
  ox_rows :: "outbox_row list"
  ox_next :: int

record CanonicalWalletOutboxEvent =
  oe_ID :: int
  oe_EventID :: string
  oe_PlatformUserID :: string
  oe_LeaseID :: string
  oe_GatewayRequestID :: string
  oe_Currency :: string
  oe_AmountUnits :: int
  oe_LocalBalanceAfterUnits :: "int option"
  oe_OccurredAt :: int
  oe_AttemptCount :: int
  oe_ParentEventID :: string
  oe_SplitDepth :: int
  oe_PendingReleaseUnits :: "int option"
  oe_AuthorizationID :: string
  oe_BillingSnapshotID :: string
  oe_RedriveCount :: int

text \<open>A NULL text column scans into the empty string.\<close>

definition null_string :: "string option \<Rightarrow> string" where
  "null_string s = (case s of None \<Rightarrow> [] | Some x \<Rightarrow> x)"

definition text_or_null :: "string \<Rightarrow> string option" where
  "text_or_null s = (if s = [] then None else Some s)"

section \<open>The payload hash\<close>

record walletOutboxHashPayload =
  hp_PlatformUserID :: string
  hp_LeaseID :: string
  hp_Currency :: string
  hp_GatewayRequestID :: string
  hp_AmountUnits :: int
  hp_LocalBalanceAfterUnits :: "int option"
  hp_OccurredAt :: int

definition walletOutboxPayloadHash ::
  "(walletOutboxHashPayload \<Rightarrow> string) \<Rightarrow> CanonicalWalletSettlementEvent \<Rightarrow> string" where
  "walletOutboxPayloadHash digest e = digest \<lparr>hp_PlatformUserID = se_PlatformUserID e, hp_LeaseID = se_LeaseID e,
     hp_Currency = se_Currency e, hp_GatewayRequestID = se_GatewayRequestID e, hp_AmountUnits = se_AmountUnits e,
     hp_LocalBalanceAfterUnits = se_LocalBalanceAfterUnits e, hp_OccurredAt = instant (se_OccurredAt e)\<rparr>"

section \<open>Statements\<close>

definition walletOutboxMaxAttempts :: int where
  "walletOutboxMaxAttempts = 8"

definition find_event :: "string \<Rightarrow> outbox \<Rightarrow> outbox_row option" where
  "find_event ev t = find (\<lambda>r. ow_event_id r = ev) (ox_rows t)"

definition find_row :: "int \<Rightarrow> outbox \<Rightarrow> outbox_row option" where
  "find_row i t = find (\<lambda>r. ow_id r = i) (ox_rows t)"

text \<open>An UPDATE of the rows a condition selects, with their number.\<close>

definition update_where :: "(outbox_row \<Rightarrow> bool) \<Rightarrow> (outbox_row \<Rightarrow> outbox_row) \<Rightarrow> outbox \<Rightarrow> outbox" where
  "update_where P f t = t\<lparr>ox_rows := map (\<lambda>r. if P r then f r else r) (ox_rows t)\<rparr>"

definition rows_affected :: "(outbox_row \<Rightarrow> bool) \<Rightarrow> outbox \<Rightarrow> nat" where
  "rows_affected P t = length (filter P (ox_rows t))"

definition insert_row :: "outbox_row \<Rightarrow> outbox \<Rightarrow> outbox" where
  "insert_row r t = t\<lparr>ox_rows := ox_rows t @ [r\<lparr>ow_id := ox_next t\<rparr>], ox_next := ox_next t + 1\<rparr>"

text \<open>The row of an INSERT that leaves the columns it does not name at their defaults.\<close>

definition new_row :: "int \<Rightarrow> string \<Rightarrow> CanonicalWalletSettlementEvent \<Rightarrow> outbox_row" where
  "new_row now hash e = \<lparr>ow_id = 0, ow_event_id = se_EventID e, ow_platform_user_id = se_PlatformUserID e,
     ow_lease_id = Some (se_LeaseID e), ow_gateway_request_id = se_GatewayRequestID e, ow_currency = se_Currency e,
     ow_amount_units = se_AmountUnits e, ow_local_balance = se_LocalBalanceAfterUnits e, ow_payload_hash = hash,
     ow_status = ''pending'', ow_attempt_count = 0, ow_next_attempt_at = now, ow_claimed_at = None, ow_claimed_by = None,
     ow_occurred_at = instant (se_OccurredAt e), ow_delivered_at = None, ow_dead_letter_reason = None,
     ow_parent_event_id = None, ow_split_depth = 0, ow_pending_release_units = None,
     ow_authorization_id = text_or_null (se_AuthorizationID e),
     ow_billing_snapshot_id = text_or_null (se_BillingSnapshotID e), ow_redrive_count = 0\<rparr>"

datatype outbox_error =
    ErrCanonicalWalletOutboxPayloadConflict
  | ErrCanonicalWalletOutboxClaimLost
  | ErrSplitOutOfRange

text \<open>The INSERT under its savepoint: on a unique violation the stored hash decides.\<close>

definition InsertOutboxEventTx ::
  "(walletOutboxHashPayload \<Rightarrow> string) \<Rightarrow> int \<Rightarrow> CanonicalWalletSettlementEvent \<Rightarrow> outbox \<Rightarrow> outbox \<times> outbox_error option" where
  "InsertOutboxEventTx digest now e t =
     (let hash = walletOutboxPayloadHash digest e
      in case find_event (se_EventID e) t of
           None \<Rightarrow> (insert_row (new_row now hash e) t, None)
         | Some existing \<Rightarrow>
             if ow_payload_hash existing \<noteq> hash then (t, Some ErrCanonicalWalletOutboxPayloadConflict) else (t, None))"

text \<open>The columns a claim returns.\<close>

definition outbox_event :: "outbox_row \<Rightarrow> CanonicalWalletOutboxEvent" where
  "outbox_event r = \<lparr>oe_ID = ow_id r, oe_EventID = ow_event_id r, oe_PlatformUserID = ow_platform_user_id r,
     oe_LeaseID = null_string (ow_lease_id r), oe_GatewayRequestID = ow_gateway_request_id r, oe_Currency = ow_currency r,
     oe_AmountUnits = ow_amount_units r, oe_LocalBalanceAfterUnits = ow_local_balance r, oe_OccurredAt = ow_occurred_at r,
     oe_AttemptCount = ow_attempt_count r, oe_ParentEventID = null_string (ow_parent_event_id r),
     oe_SplitDepth = ow_split_depth r, oe_PendingReleaseUnits = ow_pending_release_units r,
     oe_AuthorizationID = null_string (ow_authorization_id r),
     oe_BillingSnapshotID = null_string (ow_billing_snapshot_id r), oe_RedriveCount = 0\<rparr>"

text \<open>
  The due rows a claim locks, oldest first; rows another transaction has locked (\<open>locked\<close>) are skipped.
\<close>

definition claimable :: "(int \<Rightarrow> bool) \<Rightarrow> nat \<Rightarrow> int \<Rightarrow> outbox \<Rightarrow> int list" where
  "claimable locked limit now t = map ow_id (take limit (sort_key ow_next_attempt_at
     (filter (\<lambda>r. ow_status r = ''pending'' \<and> ow_next_attempt_at r \<le> now \<and> \<not> locked (ow_id r)) (ox_rows t))))"

definition claim_row :: "int \<Rightarrow> string \<Rightarrow> outbox_row \<Rightarrow> outbox_row" where
  "claim_row now workerID r = r\<lparr>ow_status := ''in_flight'', ow_claimed_at := Some now, ow_claimed_by := Some workerID\<rparr>"

definition ClaimPendingOutboxEvents ::
  "(int \<Rightarrow> bool) \<Rightarrow> string \<Rightarrow> nat \<Rightarrow> int \<Rightarrow> outbox \<Rightarrow> outbox \<times> CanonicalWalletOutboxEvent list" where
  "ClaimPendingOutboxEvents locked workerID limit now t =
     (let ids = claimable locked limit now t;
          t1 = update_where (\<lambda>r. ow_id r \<in> set ids) (claim_row now workerID) t
      in (t1, map outbox_event (filter (\<lambda>r. ow_id r \<in> set ids) (ox_rows t1))))"

definition unclaim :: "outbox_row \<Rightarrow> outbox_row" where
  "unclaim r = r\<lparr>ow_claimed_at := None, ow_claimed_by := None\<rparr>"

definition stale_at :: "int \<Rightarrow> outbox_row \<Rightarrow> bool" where
  "stale_at cutoff r \<longleftrightarrow> ow_status r = ''in_flight'' \<and> (case ow_claimed_at r of None \<Rightarrow> False | Some c \<Rightarrow> c < cutoff)"

definition ReclaimStaleInFlightEvents :: "int \<Rightarrow> int \<Rightarrow> outbox \<Rightarrow> outbox \<times> nat" where
  "ReclaimStaleInFlightEvents staleAfter now t =
     (update_where (stale_at (now - staleAfter)) (\<lambda>r. (unclaim r)\<lparr>ow_status := ''pending''\<rparr>) t,
      rows_affected (stale_at (now - staleAfter)) t)"

text \<open>The guard of every statement that resolves a claimed row.\<close>

definition owned_by :: "int \<Rightarrow> string \<Rightarrow> outbox_row \<Rightarrow> bool" where
  "owned_by i workerID r \<longleftrightarrow> ow_id r = i \<and> ow_status r = ''in_flight'' \<and> ow_claimed_by r = Some workerID"

definition MarkOutboxEventDelivered :: "int \<Rightarrow> string \<Rightarrow> int \<Rightarrow> outbox \<Rightarrow> outbox" where
  "MarkOutboxEventDelivered i workerID now t =
     update_where (owned_by i workerID) (\<lambda>r. (unclaim r)\<lparr>ow_status := ''delivered'', ow_delivered_at := Some now\<rparr>) t"

text \<open>A failure is two statements: the count, then what the count comes to.\<close>

definition count_attempt :: "int \<Rightarrow> string \<Rightarrow> outbox \<Rightarrow> outbox" where
  "count_attempt i workerID t =
     update_where (owned_by i workerID) (\<lambda>r. r\<lparr>ow_attempt_count := ow_attempt_count r + 1\<rparr>) t"

definition resolve_attempt :: "int \<Rightarrow> string \<Rightarrow> int \<Rightarrow> int \<Rightarrow> outbox \<Rightarrow> outbox" where
  "resolve_attempt i workerID attempts simulatedNow t =
     (if attempts \<ge> walletOutboxMaxAttempts then
        update_where (owned_by i workerID)
          (\<lambda>r. (unclaim r)\<lparr>ow_status := ''dead_letter'', ow_dead_letter_reason := Some ''attempts_exhausted''\<rparr>) t
      else
        update_where (owned_by i workerID)
          (\<lambda>r. (unclaim r)\<lparr>ow_status := ''pending'', ow_next_attempt_at := simulatedNow + 2 ^ nat attempts * 1000000000\<rparr>) t)"

definition MarkOutboxEventFailed :: "int \<Rightarrow> string \<Rightarrow> int \<Rightarrow> outbox \<Rightarrow> outbox" where
  "MarkOutboxEventFailed i workerID simulatedNow t =
     (let t1 = count_attempt i workerID t
      in case find (owned_by i workerID) (ox_rows t1) of
           None \<Rightarrow> t1
         | Some r \<Rightarrow> resolve_attempt i workerID (ow_attempt_count r) simulatedNow t1)"

definition MarkOutboxEventDeadLetter :: "int \<Rightarrow> string \<Rightarrow> string \<Rightarrow> outbox \<Rightarrow> outbox" where
  "MarkOutboxEventDeadLetter i workerID reason t =
     update_where (owned_by i workerID)
       (\<lambda>r. (unclaim r)\<lparr>ow_status := ''dead_letter'', ow_dead_letter_reason := Some reason,
              ow_attempt_count := ow_attempt_count r + 1\<rparr>) t"

definition BindOutboxEventLease :: "int \<Rightarrow> string \<Rightarrow> string \<Rightarrow> outbox \<Rightarrow> outbox \<times> outbox_error option" where
  "BindOutboxEventLease i workerID leaseID t =
     (update_where (owned_by i workerID) (\<lambda>r. r\<lparr>ow_lease_id := Some leaseID\<rparr>) t,
      if rows_affected (owned_by i workerID) t = 0 then Some ErrCanonicalWalletOutboxClaimLost else None)"

text \<open>The remainder of a split: an unbound row of its own, one level deeper.\<close>

definition remainder_event :: "outbox_row \<Rightarrow> string \<Rightarrow> int \<Rightarrow> CanonicalWalletSettlementEvent" where
  "remainder_event r remainderEventID units = \<lparr>se_EventID = remainderEventID,
     se_GatewayRequestID = ow_gateway_request_id r, se_PlatformUserID = ow_platform_user_id r, se_LeaseID = [],
     se_Currency = ow_currency r, se_AmountUnits = units, se_LocalBalanceAfterUnits = ow_local_balance r,
     se_OccurredAt = Some (ow_occurred_at r), se_AuthorizationToken = [],
     se_AuthorizationID = null_string (ow_authorization_id r),
     se_BillingSnapshotID = null_string (ow_billing_snapshot_id r)\<rparr>"

definition remainder_row ::
  "(walletOutboxHashPayload \<Rightarrow> string) \<Rightarrow> int \<Rightarrow> outbox_row \<Rightarrow> string \<Rightarrow> int \<Rightarrow> outbox_row" where
  "remainder_row digest now r remainderEventID units =
     (let e = remainder_event r remainderEventID units
      in (new_row now (walletOutboxPayloadHash digest e) e)\<lparr>ow_lease_id := None,
           ow_parent_event_id := Some (ow_event_id r), ow_split_depth := ow_split_depth r + 1\<rparr>)"

text \<open>The parent keeps what was captured: back to pending, or delivered when that is nothing.\<close>

definition split_parent :: "int \<Rightarrow> int \<Rightarrow> int option \<Rightarrow> outbox_row \<Rightarrow> outbox_row" where
  "split_parent now capturedUnits pendingRelease r =
     (if capturedUnits = 0
      then (unclaim r)\<lparr>ow_amount_units := 0, ow_pending_release_units := pendingRelease, ow_status := ''delivered'',
              ow_delivered_at := Some now, ow_dead_letter_reason := None\<rparr>
      else (unclaim r)\<lparr>ow_amount_units := capturedUnits, ow_pending_release_units := pendingRelease,
              ow_status := ''pending'', ow_next_attempt_at := now\<rparr>)"

definition SplitOutboxEvent ::
  "(walletOutboxHashPayload \<Rightarrow> string) \<Rightarrow> int \<Rightarrow> int \<Rightarrow> string \<Rightarrow> int \<Rightarrow> string \<Rightarrow> bool \<Rightarrow> outbox
     \<Rightarrow> outbox \<times> (outbox_error + int)" where
  "SplitOutboxEvent digest now i workerID capturedUnits remainderEventID reserved t =
     (case find (owned_by i workerID) (ox_rows t) of
        None \<Rightarrow> (t, Inl ErrCanonicalWalletOutboxClaimLost)
      | Some r \<Rightarrow>
          if capturedUnits < 0 \<or> capturedUnits > ow_amount_units r then (t, Inl ErrSplitOutOfRange)
          else
            (let remainderUnits = ow_amount_units r - capturedUnits
             in case find_event remainderEventID t of
                  Some existing \<Rightarrow> (t, Inr (ow_amount_units existing))
                | None \<Rightarrow>
                    (update_where (\<lambda>x. ow_id x = i)
                       (split_parent now capturedUnits (if reserved then Some remainderUnits else None))
                       (insert_row (remainder_row digest now r remainderEventID remainderUnits) t),
                     Inr remainderUnits)))"

definition ClearPendingRelease :: "int \<Rightarrow> outbox \<Rightarrow> outbox" where
  "ClearPendingRelease i t = update_where (\<lambda>r. ow_id r = i) (\<lambda>r. r\<lparr>ow_pending_release_units := None\<rparr>) t"

definition is_dead_letter :: "string \<Rightarrow> outbox_row \<Rightarrow> bool" where
  "is_dead_letter reason r \<longleftrightarrow> ow_status r = ''dead_letter'' \<and> ow_dead_letter_reason r = Some reason"

definition SumDeadLetterUnits :: "string \<Rightarrow> outbox \<Rightarrow> int" where
  "SumDeadLetterUnits reason t = sum_list (map ow_amount_units (filter (is_dead_letter reason) (ox_rows t)))"

definition OutboxEventStatus :: "int \<Rightarrow> outbox \<Rightarrow> string option" where
  "OutboxEventStatus i t = map_option ow_status (find_row i t)"

definition ListReceivableRedriveCandidates ::
  "int \<Rightarrow> int \<Rightarrow> int \<Rightarrow> outbox \<Rightarrow> CanonicalWalletOutboxEvent list" where
  "ListReceivableRedriveCandidates notBefore maxRedrives0 limit0 t =
     (let limit = max 1 limit0; maxRedrives = max 1 maxRedrives0
      in map (\<lambda>r. (outbox_event r)\<lparr>oe_RedriveCount := ow_redrive_count r, oe_PendingReleaseUnits := None,
                 oe_BillingSnapshotID := []\<rparr>)
           (take (nat limit) (sort_key ow_id (filter (\<lambda>r. is_dead_letter ''balance_shortfall'' r
              \<and> ow_occurred_at r \<ge> notBefore \<and> ow_redrive_count r \<le> maxRedrives) (ox_rows t)))))"

definition RequeueDeadLetter :: "int \<Rightarrow> int \<Rightarrow> outbox \<Rightarrow> outbox" where
  "RequeueDeadLetter i now t =
     update_where (\<lambda>r. ow_id r = i \<and> is_dead_letter ''balance_shortfall'' r)
       (\<lambda>r. (unclaim r)\<lparr>ow_status := ''pending'', ow_attempt_count := 0, ow_redrive_count := ow_redrive_count r + 1,
              ow_next_attempt_at := now, ow_dead_letter_reason := None\<rparr>) t"

text \<open>
  Pruning keeps rows another transaction has locked and rows whose event has an open authorization
  segment (\<open>open_segment\<close>, a table of its own).
\<close>

definition PruneDeliveredOlderThan ::
  "(string \<Rightarrow> bool) \<Rightarrow> (int \<Rightarrow> bool) \<Rightarrow> int \<Rightarrow> int \<Rightarrow> outbox \<Rightarrow> outbox \<times> nat" where
  "PruneDeliveredOlderThan open_segment locked cutoff batch0 t =
     (let batch = (if batch0 \<le> 0 then 5000 else batch0);
          victims = map ow_id (take (nat batch) (sort_key ow_id (filter (\<lambda>r. ow_status r = ''delivered''
            \<and> ow_occurred_at r < cutoff \<and> \<not> open_segment (ow_event_id r) \<and> \<not> locked (ow_id r)) (ox_rows t))))
      in (t\<lparr>ox_rows := filter (\<lambda>r. ow_id r \<notin> set victims) (ox_rows t)\<rparr>, length victims))"

text \<open>One page of a user's rows, by id, with whether it was cut.\<close>

definition ListOutboxEventsByUser ::
  "string \<Rightarrow> int \<Rightarrow> int \<Rightarrow> int \<Rightarrow> int \<Rightarrow> outbox \<Rightarrow> outbox_row list \<times> bool" where
  "ListOutboxEventsByUser platformUserID since until afterID limit0 t =
     (let limit = nat (max 1 limit0);
          page = take (limit + 1) (sort_key ow_id (filter (\<lambda>r. ow_platform_user_id r = platformUserID
            \<and> ow_occurred_at r \<ge> since \<and> ow_occurred_at r < until \<and> ow_id r > afterID) (ox_rows t)))
      in (take limit page, length page > limit))"

text \<open>The reconciliation's high-water mark.\<close>

record OutboxWatermark =
  wm_DeliveredAtMax :: "int option"
  wm_OutboxIDMax :: int
  wm_Pending :: nat
  wm_InFlight :: nat
  wm_DeadLetter :: nat

definition column_max :: "int list \<Rightarrow> int option" where
  "column_max xs = (case xs of [] \<Rightarrow> None | x # ys \<Rightarrow> Some (fold max ys x))"

definition DeliveredWatermark :: "outbox \<Rightarrow> OutboxWatermark" where
  "DeliveredWatermark t = \<lparr>wm_DeliveredAtMax = column_max (List.map_filter ow_delivered_at (ox_rows t)),
     wm_OutboxIDMax = (case column_max (map ow_id (ox_rows t)) of None \<Rightarrow> 0 | Some i \<Rightarrow> i),
     wm_Pending = rows_affected (\<lambda>r. ow_status r = ''pending'') t,
     wm_InFlight = rows_affected (\<lambda>r. ow_status r = ''in_flight'') t,
     wm_DeadLetter = rows_affected (\<lambda>r. ow_status r = ''dead_letter'') t\<rparr>"

end
