(* ===== verification/Wallet_Control.thy ===== *)
theory Wallet_Control
  imports Wallet_Store Wallet_Outbox
begin

text \<open>
  The control plane of the canonical wallet as the bridge sees it
  (\<open>service/canonical_wallet_bridge.go\<close>): amount objects of the wire, the lease request and the
  settlement request, what the HTTP client makes of a reply, and the classification of refusals.
  The reply itself is a parameter: \<open>None\<close> is a call that failed on the way, \<open>Some r\<close> a reply with
  its status and what decoding its body gave.
\<close>

section \<open>Errors of the bridge\<close>

record canonicalWalletStatusError =
  ste_Status :: int
  ste_Path :: string
  ste_Reason :: string
  ste_HeadroomUnits :: "int option"
  ste_incompatible :: bool    \<comment> \<open>\<open>wrapped\<close> is \<open>ErrCanonicalWalletControlPlaneIncompatible\<close>\<close>

datatype bridge_error =
    BTransport                            \<comment> \<open>the call failed on the way, or its answer was lost\<close>
  | BNew string                           \<comment> \<open>\<open>errors.New(text)\<close>\<close>
  | BStore wallet_error
  | BOutbox outbox_error
  | BUnits units_error
  | BStatus canonicalWalletStatusError
  | ErrCanonicalWalletBalanceShortfall
  | ErrCanonicalWalletLeaseCapReached
  | ErrCanonicalWalletLeaseContention
  | ErrCanonicalWalletLeaseGrantBelowAmount
  | ErrCanonicalUSDWalletPolicy

text \<open>The terminal rows of the classification table.\<close>

definition classifyControlPlaneError :: "bridge_error \<Rightarrow> string option" where
  "classifyControlPlaneError err =
     (case err of
        BStatus se \<Rightarrow>
          if ste_Status se = 400 \<or> ste_Reason se = ''lease_owner_mismatch'' \<or> ste_Reason se = ''lease_not_found''
          then Some ''contract_violation''
          else if ste_Reason se = ''settlement_payload_conflict'' then Some ''payload_conflict''
          else None
      | _ \<Rightarrow> None)"

definition canonicalWalletLeaseBindingIsStale :: "bridge_error \<Rightarrow> bool" where
  "canonicalWalletLeaseBindingIsStale err \<longleftrightarrow> err = BStore ErrCanonicalWalletLeaseMissing
     \<or> err = BStore ErrCanonicalWalletLeaseExpired \<or> err = BStore ErrCanonicalWalletLeaseExhausted"

section \<open>Amount objects\<close>

record canonicalWalletAmountObject =
  ao_AmountUnits :: string
  ao_Currency :: string
  ao_Scale :: int
  ao_UnitVersion :: string

definition newCanonicalWalletAmountObject :: "int \<Rightarrow> canonicalWalletAmountObject" where
  "newCanonicalWalletAmountObject units =
     \<lparr>ao_AmountUnits = show_int units, ao_Currency = ''USD'', ao_Scale = 8, ao_UnitVersion = ''usd-e8-v1''\<rparr>"

text \<open>The pattern \<open>(0|[1-9][0-9]{0,18})\<close> over the whole string.\<close>

definition canonicalWalletDecimalUnitsPattern :: "string \<Rightarrow> bool" where
  "canonicalWalletDecimalUnitsPattern s \<longleftrightarrow> s = ''0'' \<or>
     (s \<noteq> [] \<and> length s \<le> 19 \<and> list_all (\<lambda>c. digit_of c \<noteq> None) s \<and> hd s \<noteq> CHR ''0'')"

definition parseCanonicalWalletAmountObject ::
  "string \<Rightarrow> canonicalWalletAmountObject \<Rightarrow> bridge_error + int" where
  "parseCanonicalWalletAmountObject field a =
     (if ao_Currency a \<noteq> ''USD'' \<or> ao_Scale a \<noteq> 8 \<or> ao_UnitVersion a \<noteq> ''usd-e8-v1''
      then Inl (BNew (field @ '': not a usd-e8-v1 amount object''))
      else if \<not> canonicalWalletDecimalUnitsPattern (ao_AmountUnits a)
      then Inl (BNew (field @ ''.amount_units: not a decimal integer string''))
      else case ParseInt (ao_AmountUnits a) of
          None \<Rightarrow> Inl (BNew (field @ ''.amount_units: exceeds int64''))
        | Some v \<Rightarrow> Inr v)"

section \<open>The lease request\<close>

text \<open>
  \<open>GatewayAttemptID\<close>, which the bridge never sets, is left out, and of the reply the fields that
  nothing reads.
\<close>

record canonicalWalletDrainEntry =
  dr_LeaseID :: string
  dr_GatewayConsumed :: canonicalWalletAmountObject
  dr_GatewayReleased :: "canonicalWalletAmountObject option"

record canonicalWalletEnsureRequest =
  rq_FundingScope :: string
  rq_FundingOwnerID :: string
  rq_FundingIssuanceKey :: string
  rq_ExcludeLeaseIDs :: "string list"
  rq_TopUpLeaseID :: string
  rq_MinimumBudgetUnits :: string
  rq_USDWalletPolicyVersion :: string
  rq_PlatformUserID :: string
  rq_Currency :: string
  rq_Purpose :: string
  rq_MinHeadroom :: canonicalWalletAmountObject
  rq_RequestedBudget :: canonicalWalletAmountObject
  rq_RequestedTTLSeconds :: int
  rq_PreferLeaseID :: string
  rq_Drained :: "canonicalWalletDrainEntry list"
  rq_CallerSlotTTLSeconds :: int

record canonicalWalletEnsureWireResponse =
  wr_FundingScope :: string
  wr_FundingOwnerID :: string
  wr_FundingIssuanceKey :: string
  wr_FundingFrozenAt :: "int option"
  wr_ReturnRevision :: int
  wr_BudgetRevision :: int
  wr_USDWalletPolicyVersion :: string
  wr_LeaseID :: string
  wr_PlatformUserID :: string
  wr_Currency :: string
  wr_Budget :: canonicalWalletAmountObject
  wr_Reserved :: canonicalWalletAmountObject
  wr_Captured :: canonicalWalletAmountObject
  wr_Released :: canonicalWalletAmountObject
  wr_Headroom :: canonicalWalletAmountObject
  wr_Status :: string
  wr_ExpiresAt :: go_time
  wr_Outcome :: string
  wr_ClampedBy :: string

record canonicalWalletEnsureResult =
  er_USDWalletPolicyVersion :: string
  er_Lease :: CanonicalWalletLease
  er_Outcome :: string
  er_ClampedBy :: string

definition CanonicalUSDWalletPolicyVersion :: string where
  "CanonicalUSDWalletPolicyVersion = ''usd-wallet-v1''"

definition walletFundingMatches :: "string \<Rightarrow> string \<Rightarrow> string \<Rightarrow> canonicalWalletEnsureRequest \<Rightarrow> bool" where
  "walletFundingMatches scope owner key request =
     (if rq_FundingScope request = [] then scope = [] \<or> scope = ''legacy''
      else if rq_FundingScope request = ''llm'' \<and> (scope = [] \<or> scope = ''legacy'') then True
      else if rq_FundingScope request = ''settle'' \<and> (scope = [] \<or> scope = ''legacy'')
      then owner = [] \<and> key = [] \<and> rq_FundingOwnerID request = [] \<and> rq_FundingIssuanceKey request = []
      else scope = rq_FundingScope request \<and> owner = rq_FundingOwnerID request \<and> key = rq_FundingIssuanceKey request)"

section \<open>Replies\<close>

text \<open>
  A reply: its status, whether its body is over the limit or could not be read, whether it is empty,
  the refusal fields (\<open>None\<close> when the body is no JSON object) and the decoded value (\<open>None\<close> when it
  does not decode).
\<close>

record 'w http_reply =
  hr_status :: int
  hr_oversize :: bool
  hr_unread :: bool
  hr_empty :: bool
  hr_refusal :: "(string \<times> canonicalWalletAmountObject option) option"
  hr_value :: "'w option"

definition canonicalWalletEnsurePath :: string where
  "canonicalWalletEnsurePath = ''/api/internal/v2/wallet/leases/ensure''"

definition canonicalWalletSettlementsPath :: string where
  "canonicalWalletSettlementsPath = ''/api/internal/v2/wallet/settlements''"

definition status_error :: "string \<Rightarrow> 'w http_reply \<Rightarrow> canonicalWalletStatusError" where
  "status_error path r =
     (let incompatible = (path = canonicalWalletEnsurePath \<and> (hr_status r = 404 \<or> hr_status r = 405))
      in case hr_refusal r of
           None \<Rightarrow> \<lparr>ste_Status = hr_status r, ste_Path = path, ste_Reason = [], ste_HeadroomUnits = None,
                    ste_incompatible = incompatible\<rparr>
         | Some (reason, headroom) \<Rightarrow>
             \<lparr>ste_Status = hr_status r, ste_Path = path, ste_Reason = reason,
              ste_HeadroomUnits = (case headroom of
                  None \<Rightarrow> None
                | Some a \<Rightarrow> (case parseCanonicalWalletAmountObject ''data.headroom'' a of Inl _ \<Rightarrow> None | Inr u \<Rightarrow> Some u)),
              ste_incompatible = incompatible\<rparr>)"

text \<open>\<open>zero\<close> is the response variable before decoding.\<close>

definition doJSON :: "'w \<Rightarrow> string \<Rightarrow> 'w http_reply option \<Rightarrow> bridge_error + 'w" where
  "doJSON zero path reply =
     (case reply of
        None \<Rightarrow> Inl BTransport
      | Some r \<Rightarrow>
          if hr_oversize r then Inl (BNew ''canonical wallet response exceeds bounded protocol body'')
          else if hr_unread r then Inl BTransport
          else if hr_status r < 200 \<or> hr_status r \<ge> 300 then Inl (BStatus (status_error path r))
          else if hr_empty r then Inr zero
          else case hr_value r of None \<Rightarrow> Inl BTransport | Some v \<Rightarrow> Inr v)"

definition bind_err :: "bridge_error + 'a \<Rightarrow> ('a \<Rightarrow> bridge_error + 'b) \<Rightarrow> bridge_error + 'b" where
  "bind_err r f = (case r of Inl e \<Rightarrow> Inl e | Inr x \<Rightarrow> f x)"

text \<open>The refusals of the lease route that have an error of their own.\<close>

definition ensure_refusal :: "bridge_error \<Rightarrow> bridge_error" where
  "ensure_refusal err =
     (case err of
        BStatus se \<Rightarrow>
          if ste_Reason se = ''lease_cap_reached'' then ErrCanonicalWalletLeaseCapReached
          else if ste_Reason se = ''insufficient_balance'' then ErrCanonicalWalletBalanceShortfall
          else if ste_Reason se = ''lease_contention'' then ErrCanonicalWalletLeaseContention
          else err
      | _ \<Rightarrow> err)"

definition zeroAmount :: canonicalWalletAmountObject where
  "zeroAmount = \<lparr>ao_AmountUnits = [], ao_Currency = [], ao_Scale = 0, ao_UnitVersion = []\<rparr>"

definition zeroEnsureWire :: canonicalWalletEnsureWireResponse where
  "zeroEnsureWire = \<lparr>wr_FundingScope = [], wr_FundingOwnerID = [], wr_FundingIssuanceKey = [], wr_FundingFrozenAt = None,
     wr_ReturnRevision = 0, wr_BudgetRevision = 0, wr_USDWalletPolicyVersion = [], wr_LeaseID = [], wr_PlatformUserID = [],
     wr_Currency = [], wr_Budget = zeroAmount, wr_Reserved = zeroAmount, wr_Captured = zeroAmount, wr_Released = zeroAmount,
     wr_Headroom = zeroAmount, wr_Status = [], wr_ExpiresAt = None, wr_Outcome = [], wr_ClampedBy = []\<rparr>"

definition valid_outcome :: "canonicalWalletEnsureRequest \<Rightarrow> canonicalWalletEnsureWireResponse \<Rightarrow> int \<Rightarrow> bool" where
  "valid_outcome request wire budget =
     (if wr_Outcome wire = ''topped_up'' then
        (case parseCanonicalWalletAmountObject ''minimum_budget_units''
                (zeroAmount\<lparr>ao_AmountUnits := rq_MinimumBudgetUnits request, ao_Currency := ''USD'', ao_Scale := 8,
                   ao_UnitVersion := ''usd-e8-v1''\<rparr>) of
           Inl _ \<Rightarrow> False
         | Inr minimum \<Rightarrow> minimum > 0 \<and> budget \<ge> minimum \<and> rq_Purpose request = ''authorize''
             \<and> rq_USDWalletPolicyVersion request = CanonicalUSDWalletPolicyVersion
             \<and> TrimSpace (rq_TopUpLeaseID request) \<noteq> [] \<and> wr_LeaseID wire = rq_TopUpLeaseID request)
      else wr_Outcome wire = ''reused'' \<or> wr_Outcome wire = ''issued'')"

definition EnsureLease ::
  "canonicalWalletEnsureRequest \<Rightarrow> canonicalWalletEnsureWireResponse http_reply option
     \<Rightarrow> bridge_error + canonicalWalletEnsureResult" where
  "EnsureLease request reply =
     (case RequireUSDBillingCurrency (rq_Currency request) of Inl e \<Rightarrow> Inl (BStore e) | Inr _ \<Rightarrow>
      (case doJSON zeroEnsureWire canonicalWalletEnsurePath reply of Inl e \<Rightarrow> Inl (ensure_refusal e) | Inr wire \<Rightarrow>
       if rq_USDWalletPolicyVersion request \<noteq> [] \<and> (rq_USDWalletPolicyVersion request \<noteq> CanonicalUSDWalletPolicyVersion
            \<or> wr_USDWalletPolicyVersion wire \<noteq> rq_USDWalletPolicyVersion request)
       then Inl ErrCanonicalUSDWalletPolicy
       else
         bind_err (parseCanonicalWalletAmountObject ''budget'' (wr_Budget wire)) (\<lambda>budget.
         bind_err (parseCanonicalWalletAmountObject ''reserved'' (wr_Reserved wire)) (\<lambda>_.
         bind_err (parseCanonicalWalletAmountObject ''captured'' (wr_Captured wire)) (\<lambda>captured.
         bind_err (parseCanonicalWalletAmountObject ''released'' (wr_Released wire)) (\<lambda>returned.
         if returned > budget \<or> captured > wrap64 (budget - returned) \<or> wr_ReturnRevision wire < 0 \<or> wr_BudgetRevision wire < 0
         then Inl (BNew ''invalid funding return basis'')
         else
         bind_err (parseCanonicalWalletAmountObject ''headroom'' (wr_Headroom wire)) (\<lambda>headroom.
         if TrimSpace (wr_LeaseID wire) = [] \<or> TrimSpace (wr_PlatformUserID wire) \<noteq> TrimSpace (rq_PlatformUserID request)
            \<or> budget \<le> 0 \<or> headroom > budget \<or> wr_ExpiresAt wire = None \<or> wr_Status wire \<noteq> ''active''
            \<or> \<not> valid_outcome request wire budget
         then Inl (BNew ''control plane returned an invalid canonical wallet lease'')
         else case RequireUSDBillingCurrency (wr_Currency wire) of
             Inl e \<Rightarrow> Inl (BStore e)
           | Inr currency \<Rightarrow>
               if currency \<noteq> ToUpper (TrimSpace (rq_Currency request)) then Inl (BStore ErrCanonicalWalletLeaseCurrencyMismatch)
               else if \<not> walletFundingMatches (wr_FundingScope wire) (wr_FundingOwnerID wire) (wr_FundingIssuanceKey wire) request
               then Inl (BNew ''control plane changed immutable funding identity'')
               else if wr_LeaseID wire \<in> set (rq_ExcludeLeaseIDs request)
               then Inl (BNew ''control plane reused excluded original funding'')
               else case SubUnits (wrap64 (budget - returned)) headroom of
                   Inl e \<Rightarrow> Inl (BUnits e)
                 | Inr consumed \<Rightarrow>
                     Inr \<lparr>er_USDWalletPolicyVersion = wr_USDWalletPolicyVersion wire,
                          er_Lease = zeroLease\<lparr>LeaseID := wr_LeaseID wire, PlatformUserID := TrimSpace (rq_PlatformUserID request),
                            Currency := currency, BudgetUnits := wrap64 (budget - returned), FundedUnits := budget,
                            ReturnedUnits := returned, ReturnRevision := wr_ReturnRevision wire,
                            BudgetRevision := wr_BudgetRevision wire, FundingScope := wr_FundingScope wire,
                            FundingOwnerID := wr_FundingOwnerID wire, FundingIssuanceKey := wr_FundingIssuanceKey wire,
                            FundingFrozen := (wr_FundingFrozenAt wire \<noteq> None), ConsumedUnits := consumed,
                            ExpiresAt := wr_ExpiresAt wire\<rparr>,
                          er_Outcome = wr_Outcome wire, er_ClampedBy = wr_ClampedBy wire\<rparr>)))))))"

section \<open>The settlement request\<close>

record canonicalWalletSettlementWireResponse =
  sw_Accepted :: bool
  sw_Duplicate :: bool
  sw_NamedLeaseID :: "string option"
  sw_EventLeaseID :: string
  sw_EventAmount :: canonicalWalletAmountObject
  sw_EventLeaseCaptureSeq :: int
  sw_CanonicalBalance :: canonicalWalletAmountObject

record CanonicalWalletSettlementResult =
  sr_Accepted :: bool
  sr_Duplicate :: bool
  sr_CanonicalBalanceUnits :: "int option"
  sr_NamedLeaseID :: string
  sr_EventLeaseID :: string
  sr_CapturedUnits :: int
  sr_LeaseCaptureSeq :: int

definition zeroSettlementWire :: canonicalWalletSettlementWireResponse where
  "zeroSettlementWire = \<lparr>sw_Accepted = False, sw_Duplicate = False, sw_NamedLeaseID = None, sw_EventLeaseID = [],
     sw_EventAmount = zeroAmount, sw_EventLeaseCaptureSeq = 0, sw_CanonicalBalance = zeroAmount\<rparr>"

definition SubmitSettlement ::
  "canonicalWalletSettlementWireResponse http_reply option \<Rightarrow> bridge_error + CanonicalWalletSettlementResult" where
  "SubmitSettlement reply =
     bind_err (doJSON zeroSettlementWire canonicalWalletSettlementsPath reply) (\<lambda>wire.
       if \<not> sw_Accepted wire \<and> \<not> sw_Duplicate wire
       then Inl (BNew ''control plane rejected canonical wallet settlement'')
       else
         bind_err (parseCanonicalWalletAmountObject ''event.amount'' (sw_EventAmount wire)) (\<lambda>capturedUnits.
         bind_err (parseCanonicalWalletAmountObject ''canonical_balance'' (sw_CanonicalBalance wire)) (\<lambda>balanceUnits.
           Inr \<lparr>sr_Accepted = sw_Accepted wire, sr_Duplicate = sw_Duplicate wire,
                sr_CanonicalBalanceUnits = Some balanceUnits,
                sr_NamedLeaseID = (case sw_NamedLeaseID wire of None \<Rightarrow> [] | Some l \<Rightarrow> l),
                sr_EventLeaseID = sw_EventLeaseID wire, sr_CapturedUnits = capturedUnits,
                sr_LeaseCaptureSeq = sw_EventLeaseCaptureSeq wire\<rparr>)))"

section \<open>Lemmas\<close>

lemma show_nat_digits: "list_all (\<lambda>c. digit_of c \<noteq> None) (show_nat n)"
proof (induction n rule: show_nat.induct)
  case (1 n)
  then show ?case by (subst show_nat.simps) (auto simp: Let_def)
qed

lemma show_nat_head: "0 < n \<Longrightarrow> hd (show_nat n) \<noteq> CHR ''0''"
proof (induction n rule: show_nat.induct)
  case (1 n)
  have "char_of (48 + n :: nat) \<noteq> CHR ''0''" if "n < 10"
  proof
    assume "char_of (48 + n :: nat) = CHR ''0''"
    then have "digit_of (char_of (48 + n :: nat)) = digit_of CHR ''0''" by simp
    with that 1(2) show False by (simp add: digit_of_def)
  qed
  moreover have "hd (show_nat (n div 10) @ xs) = hd (show_nat (n div 10))" for xs
    using show_nat_Cons [of "n div 10"] by auto
  ultimately show ?case using 1 by (subst show_nat.simps) (auto simp: Let_def)
qed

lemma show_nat_length: "n < 10 ^ k \<Longrightarrow> 0 < k \<Longrightarrow> length (show_nat n) \<le> k"
proof (induction n arbitrary: k rule: show_nat.induct)
  case (1 n)
  show ?case
  proof (cases "n < 10")
    case True
    then show ?thesis using 1 by (subst show_nat.simps) (auto simp: Let_def)
  next
    case False
    then obtain j where k: "k = Suc j" "0 < j" using 1(2,3) by (cases k; cases "k - 1") auto
    have "n div 10 < 10 ^ j" using 1(2) k by (simp add: less_mult_imp_div_less)
    then have "length (show_nat (n div 10)) \<le> j" using 1(1) [of j] False k by (auto simp: Let_def)
    then show ?thesis using False k by (subst show_nat.simps) (auto simp: Let_def)
  qed
qed

lemma decimal_pattern_show:
  assumes "0 \<le> u" "u \<le> int64_max"
  shows "canonicalWalletDecimalUnitsPattern (show_int u)"
proof (cases "u = 0")
  case True
  have "char_of (48 :: nat) = CHR ''0''" by (simp add: char_of_def bit_iff_odd)
  with True show ?thesis by (simp add: canonicalWalletDecimalUnitsPattern_def show_int_def show_nat.simps)
next
  case False
  have "nat u < 10 ^ 19" using assms by (simp add: int64_max_def)
  then have "length (show_nat (nat u)) \<le> 19" by (rule show_nat_length) simp
  moreover have "show_nat (nat u) \<noteq> []" using show_nat_Cons [of "nat u"] by auto
  ultimately show ?thesis using False assms show_nat_head [of "nat u"] show_nat_digits
    by (simp add: canonicalWalletDecimalUnitsPattern_def show_int_def)
qed

lemma amount_roundtrip:
  assumes "0 \<le> u" "u \<le> int64_max"
  shows "parseCanonicalWalletAmountObject field (newCanonicalWalletAmountObject u) = Inr u"
  using decimal_pattern_show [OF assms] assms
  by (simp add: parseCanonicalWalletAmountObject_def newCanonicalWalletAmountObject_def ParseInt_show_int in_int64_nonneg)

lemma zero_digit: "digit_of CHR ''0'' = Some 0"
  by (simp add: digit_of_def)

lemma digits_nonneg: "list_all (\<lambda>c. digit_of c \<noteq> None) s \<Longrightarrow> ParseInt s = Some v \<Longrightarrow> 0 \<le> v"
  by (cases s) (auto simp: ParseInt_def digit_of_def Let_def split: option.splits if_splits)

text \<open>A parsed amount is a natural number of 64 bits.\<close>

lemma parse_amount_range:
  assumes "parseCanonicalWalletAmountObject field a = Inr v"
  shows "0 \<le> v \<and> v \<le> int64_max"
proof -
  have p: "canonicalWalletDecimalUnitsPattern (ao_AmountUnits a)" "ParseInt (ao_AmountUnits a) = Some v"
    using assms by (auto simp: parseCanonicalWalletAmountObject_def split: if_splits option.splits)
  have "list_all (\<lambda>c. digit_of c \<noteq> None) (ao_AmountUnits a)"
    using p(1) zero_digit by (auto simp: canonicalWalletDecimalUnitsPattern_def)
  then have "0 \<le> v" using p(2) by (rule digits_nonneg)
  moreover have "v \<le> int64_max" using p(2) by (auto simp: ParseInt_def in_int64_def Let_def split: option.splits list.splits if_splits)
  ultimately show ?thesis ..
qed

text \<open>The lease of a successful request, from the figures of the reply.\<close>

lemma EnsureLease_cases:
  assumes "EnsureLease request reply = Inr result"
  obtains wire budget returned headroom where
    "doJSON zeroEnsureWire canonicalWalletEnsurePath reply = Inr wire"
    "parseCanonicalWalletAmountObject ''budget'' (wr_Budget wire) = Inr budget"
    "parseCanonicalWalletAmountObject ''released'' (wr_Released wire) = Inr returned"
    "parseCanonicalWalletAmountObject ''headroom'' (wr_Headroom wire) = Inr headroom"
    "returned \<le> budget" "0 < budget" "headroom \<le> budget - returned"
    "wr_LeaseID wire \<notin> set (rq_ExcludeLeaseIDs request)" "wr_Status wire = ''active''"
    "LeaseID (er_Lease result) = wr_LeaseID wire" "PlatformUserID (er_Lease result) = TrimSpace (rq_PlatformUserID request)"
    "Currency (er_Lease result) = ''USD''" "BudgetUnits (er_Lease result) = budget - returned"
    "FundedUnits (er_Lease result) = budget" "ReturnedUnits (er_Lease result) = returned"
    "ConsumedUnits (er_Lease result) = budget - returned - headroom" "ReleasedUnits (er_Lease result) = 0"
    "Sealed (er_Lease result) = False" "ExpiresAt (er_Lease result) \<noteq> None"
    "TrimSpace (LeaseID (er_Lease result)) \<noteq> []"
proof -
  obtain wire where wire: "doJSON zeroEnsureWire canonicalWalletEnsurePath reply = Inr wire"
    using assms by (auto simp: EnsureLease_def split: sum.splits)
  obtain budget where b: "parseCanonicalWalletAmountObject ''budget'' (wr_Budget wire) = Inr budget"
    using assms wire by (auto simp: EnsureLease_def bind_err_def split: sum.splits if_splits)
  obtain returned where r: "parseCanonicalWalletAmountObject ''released'' (wr_Released wire) = Inr returned" "returned \<le> budget"
    using assms wire b by (auto simp: EnsureLease_def bind_err_def split: sum.splits if_splits)
  obtain headroom where h: "parseCanonicalWalletAmountObject ''headroom'' (wr_Headroom wire) = Inr headroom"
    using assms wire b r by (auto simp: EnsureLease_def bind_err_def split: sum.splits if_splits)
  note ranges = parse_amount_range [OF b] parse_amount_range [OF r(1)] parse_amount_range [OF h]
  have wrap: "wrap64 (budget - returned) = budget - returned" and in64: "in_int64 (budget - returned)" "in_int64 headroom"
    using ranges r(2) by (auto intro!: wrap64_id in_int64_nonneg)
  have "0 < budget \<and> headroom \<le> budget - returned \<and> wr_LeaseID wire \<notin> set (rq_ExcludeLeaseIDs request)
      \<and> wr_Status wire = ''active'' \<and> wr_ExpiresAt wire \<noteq> None \<and> TrimSpace (wr_LeaseID wire) \<noteq> []
      \<and> er_Lease result = zeroLease\<lparr>LeaseID := wr_LeaseID wire, PlatformUserID := TrimSpace (rq_PlatformUserID request),
           Currency := ''USD'', BudgetUnits := budget - returned, FundedUnits := budget, ReturnedUnits := returned,
           ReturnRevision := wr_ReturnRevision wire, BudgetRevision := wr_BudgetRevision wire,
           FundingScope := wr_FundingScope wire, FundingOwnerID := wr_FundingOwnerID wire,
           FundingIssuanceKey := wr_FundingIssuanceKey wire, FundingFrozen := (wr_FundingFrozenAt wire \<noteq> None),
           ConsumedUnits := budget - returned - headroom, ExpiresAt := wr_ExpiresAt wire\<rparr>"
    using assms wire b r h wrap in64 ranges
    by (auto simp: EnsureLease_def bind_err_def SubUnits_exact RequireUSDBillingCurrency_def Let_def
        split: sum.splits if_splits)
  then show thesis by (intro that [OF wire b r(1) h r(2)]) (simp_all add: zeroLease_def)
qed

end
