(* ===== verification/Go_Json.thy ===== *)
theory Go_Json
  imports Go_Prelude
begin

text \<open>
  The parts of Go's \<open>encoding/json\<close> that the protocol converters call, on byte strings:
  \<open>json.Valid\<close> (the byte-at-a-time scanner with its stack of open composites and its nesting
  limit), \<open>json.Unmarshal\<close> into a \<open>map[string]json.RawMessage\<close>, and \<open>json.Marshal\<close> of strings,
  of such a map and of string maps, with the HTML escaping that \<open>Marshal\<close> applies.
\<close>

section \<open>The scanner\<close>

datatype jparse = ParseObjectKey | ParseObjectValue | ParseArrayValue

text \<open>\<open>JLit s\<close> is inside a literal with \<open>s\<close> still to come, \<open>JEscU n\<close> after \<open>n\<close> hex digits.\<close>

datatype jstate =
    JBeginValue | JBeginValueOrEmpty | JBeginStringOrEmpty | JBeginString
  | JEndValue | JEndTop | JInString | JInStringEsc | JEscU nat
  | JNeg | J1 | J0 | JDot | JDot0 | JE | JESign | JE0 | JLit string | JError

type_synonym scanner = "jstate \<times> jparse list"

definition maxNestingDepth :: nat where
  "maxNestingDepth = 10000"

definition isSpace :: "char \<Rightarrow> bool" where
  "isSpace c \<longleftrightarrow> c = CHR '' '' \<or> c = CHR 0x09 \<or> c = CHR 0x0D \<or> c = CHR 0x0A"

definition isDigit :: "char \<Rightarrow> bool" where
  "isDigit c \<longleftrightarrow> 48 \<le> (of_char c :: nat) \<and> (of_char c :: nat) \<le> 57"

definition isHex :: "char \<Rightarrow> bool" where
  "isHex c \<longleftrightarrow> isDigit c \<or> 97 \<le> (of_char c :: nat) \<and> (of_char c :: nat) \<le> 102
     \<or> 65 \<le> (of_char c :: nat) \<and> (of_char c :: nat) \<le> 70"

definition push_parse :: "jparse \<Rightarrow> jstate \<Rightarrow> jparse list \<Rightarrow> scanner" where
  "push_parse p st ps = (if length (p # ps) \<le> maxNestingDepth then (st, p # ps) else (JError, p # ps))"

definition pop_parse :: "jparse list \<Rightarrow> scanner" where
  "pop_parse ps = (if tl ps = [] then (JEndTop, []) else (JEndValue, tl ps))"

definition step_end_value :: "jparse list \<Rightarrow> char \<Rightarrow> scanner" where
  "step_end_value ps c =
     (case ps of
        [] \<Rightarrow> if isSpace c then (JEndTop, []) else (JError, [])
      | p # rest \<Rightarrow>
          if isSpace c then (JEndValue, ps)
          else case p of
            ParseObjectKey \<Rightarrow>
              if c = CHR '':'' then (JBeginValue, ParseObjectValue # rest) else (JError, ps)
          | ParseObjectValue \<Rightarrow>
              if c = CHR '','' then (JBeginString, ParseObjectKey # rest)
              else if c = CHR 0x7D then pop_parse ps else (JError, ps)
          | ParseArrayValue \<Rightarrow>
              if c = CHR '','' then (JBeginValue, ps)
              else if c = CHR '']'' then pop_parse ps else (JError, ps))"

definition step_begin_value :: "jparse list \<Rightarrow> char \<Rightarrow> scanner" where
  "step_begin_value ps c =
     (if isSpace c then (JBeginValue, ps)
      else if c = CHR 0x7B then push_parse ParseObjectKey JBeginStringOrEmpty ps
      else if c = CHR ''['' then push_parse ParseArrayValue JBeginValueOrEmpty ps
      else if c = CHR 0x22 then (JInString, ps)
      else if c = CHR ''-'' then (JNeg, ps)
      else if c = CHR ''0'' then (J0, ps)
      else if c = CHR ''t'' then (JLit ''rue'', ps)
      else if c = CHR ''f'' then (JLit ''alse'', ps)
      else if c = CHR ''n'' then (JLit ''ull'', ps)
      else if isDigit c then (J1, ps)
      else (JError, ps))"

definition step_begin_string :: "jparse list \<Rightarrow> char \<Rightarrow> scanner" where
  "step_begin_string ps c =
     (if isSpace c then (JBeginString, ps)
      else if c = CHR 0x22 then (JInString, ps) else (JError, ps))"

definition step_0 :: "jparse list \<Rightarrow> char \<Rightarrow> scanner" where
  "step_0 ps c =
     (if c = CHR ''.'' then (JDot, ps)
      else if c = CHR ''e'' \<or> c = CHR ''E'' then (JE, ps) else step_end_value ps c)"

definition step_e_sign :: "jparse list \<Rightarrow> char \<Rightarrow> scanner" where
  "step_e_sign ps c = (if isDigit c then (JE0, ps) else (JError, ps))"

fun scan_step :: "scanner \<Rightarrow> char \<Rightarrow> scanner" where
  "scan_step (JBeginValue, ps) c = step_begin_value ps c"
| "scan_step (JBeginValueOrEmpty, ps) c =
     (if isSpace c then (JBeginValueOrEmpty, ps)
      else if c = CHR '']'' then step_end_value ps c else step_begin_value ps c)"
| "scan_step (JBeginStringOrEmpty, ps) c =
     (if isSpace c then (JBeginStringOrEmpty, ps)
      else if c = CHR 0x7D then step_end_value (ParseObjectValue # tl ps) c
      else step_begin_string ps c)"
| "scan_step (JBeginString, ps) c = step_begin_string ps c"
| "scan_step (JEndValue, ps) c = step_end_value ps c"
| "scan_step (JEndTop, ps) c = (if isSpace c then (JEndTop, ps) else (JError, ps))"
| "scan_step (JInString, ps) c =
     (if c = CHR 0x22 then (JEndValue, ps)
      else if c = CHR 0x5C then (JInStringEsc, ps)
      else if (of_char c :: nat) < 32 then (JError, ps) else (JInString, ps))"
| "scan_step (JInStringEsc, ps) c =
     (if c \<in> set [CHR ''b'', CHR ''f'', CHR ''n'', CHR ''r'', CHR ''t'', CHR 0x5C, CHR ''/'', CHR 0x22]
      then (JInString, ps)
      else if c = CHR ''u'' then (JEscU 0, ps) else (JError, ps))"
| "scan_step (JEscU n, ps) c =
     (if isHex c then (if n = 3 then JInString else JEscU (Suc n), ps) else (JError, ps))"
| "scan_step (JNeg, ps) c =
     (if c = CHR ''0'' then (J0, ps) else if isDigit c then (J1, ps) else (JError, ps))"
| "scan_step (J1, ps) c = (if isDigit c then (J1, ps) else step_0 ps c)"
| "scan_step (J0, ps) c = step_0 ps c"
| "scan_step (JDot, ps) c = (if isDigit c then (JDot0, ps) else (JError, ps))"
| "scan_step (JDot0, ps) c =
     (if isDigit c then (JDot0, ps)
      else if c = CHR ''e'' \<or> c = CHR ''E'' then (JE, ps) else step_end_value ps c)"
| "scan_step (JE, ps) c =
     (if c = CHR ''+'' \<or> c = CHR ''-'' then (JESign, ps) else step_e_sign ps c)"
| "scan_step (JESign, ps) c = step_e_sign ps c"
| "scan_step (JE0, ps) c = (if isDigit c then (JE0, ps) else step_end_value ps c)"
| "scan_step (JLit s, ps) c =
     (case s of
        [] \<Rightarrow> (JError, ps)
      | d # rest \<Rightarrow> if c = d then (if rest = [] then JEndValue else JLit rest, ps) else (JError, ps))"
| "scan_step (JError, ps) c = (JError, ps)"

text \<open>\<open>json.Valid\<close>: scan every byte, then the end of input, which acts like a space.\<close>

definition json_Valid :: "string \<Rightarrow> bool" where
  "json_Valid data = (fst (scan_step (foldl scan_step (JBeginValue, []) data) (CHR '' '')) = JEndTop)"

section \<open>UTF-8 and string literals\<close>

text \<open>The length of the valid multi-byte sequence a string starts with, if it starts with one.\<close>

definition cont_in :: "nat \<Rightarrow> nat \<Rightarrow> char \<Rightarrow> bool" where
  "cont_in lo hi c \<longleftrightarrow> lo \<le> (of_char c :: nat) \<and> (of_char c :: nat) \<le> hi"

definition utf8_len :: "string \<Rightarrow> nat option" where
  "utf8_len s =
     (case s of
        a # b # rest \<Rightarrow>
          (let n = (of_char a :: nat);
               c3 = (case rest of c # _ \<Rightarrow> cont_in 128 191 c | [] \<Rightarrow> False);
               c4 = (case rest of c # d # _ \<Rightarrow> cont_in 128 191 c \<and> cont_in 128 191 d | _ \<Rightarrow> False)
           in if 194 \<le> n \<and> n \<le> 223 \<and> cont_in 128 191 b then Some 2
              else if n = 224 \<and> cont_in 160 191 b \<and> c3 then Some 3
              else if n = 237 \<and> cont_in 128 159 b \<and> c3 then Some 3
              else if 225 \<le> n \<and> n \<le> 239 \<and> n \<noteq> 237 \<and> cont_in 128 191 b \<and> c3 then Some 3
              else if n = 240 \<and> cont_in 144 191 b \<and> c4 then Some 4
              else if 241 \<le> n \<and> n \<le> 243 \<and> cont_in 128 191 b \<and> c4 then Some 4
              else if n = 244 \<and> cont_in 128 143 b \<and> c4 then Some 4
              else None)
      | _ \<Rightarrow> None)"

definition encode_rune :: "nat \<Rightarrow> string" where
  "encode_rune r =
     (if r < 128 then [char_of r]
      else if r < 2048 then [char_of (192 + r div 64), char_of (128 + r mod 64)]
      else if r < 65536 then
        [char_of (224 + r div 4096), char_of (128 + r div 64 mod 64), char_of (128 + r mod 64)]
      else [char_of (240 + r div 262144), char_of (128 + r div 4096 mod 64),
            char_of (128 + r div 64 mod 64), char_of (128 + r mod 64)])"

definition hex_val :: "char \<Rightarrow> nat" where
  "hex_val c =
     (let n = (of_char c :: nat)
      in if isDigit c then n - 48 else if 97 \<le> n then n - 87 else n - 55)"

definition hex_digit :: "nat \<Rightarrow> char" where
  "hex_digit n = (if n < 10 then char_of (48 + n) else char_of (87 + n))"

text \<open>\<open>getu4\<close>: the value of a leading \<open>\uXXXX\<close>, if there is one.\<close>

fun getu4 :: "string \<Rightarrow> nat option" where
  "getu4 (a # b # c # d # e # f # _) =
     (if a = CHR 0x5C \<and> b = CHR ''u'' \<and> isHex c \<and> isHex d \<and> isHex e \<and> isHex f
      then Some (4096 * hex_val c + 256 * hex_val d + 16 * hex_val e + hex_val f) else None)"
| "getu4 _ = None"

definition replacement :: string where
  "replacement = [CHR 0xEF, CHR 0xBF, CHR 0xBD]"

definition escape_char :: "char \<Rightarrow> char" where
  "escape_char c =
     (if c = CHR ''b'' then CHR 0x08 else if c = CHR ''f'' then CHR 0x0C
      else if c = CHR ''n'' then CHR 0x0A else if c = CHR ''r'' then CHR 0x0D
      else if c = CHR ''t'' then CHR 0x09 else c)"

text \<open>One unit of a literal's body: what it denotes and how many bytes it takes.\<close>

definition unquote_one :: "string \<Rightarrow> string \<times> nat" where
  "unquote_one s =
     (case s of
        [] \<Rightarrow> ([], 1)
      | c # rest \<Rightarrow>
          if c = CHR 0x5C then
            (case getu4 s of
               Some rr \<Rightarrow>
                 if 55296 \<le> rr \<and> rr < 57344 then
                   (case getu4 (drop 6 s) of
                      Some r1 \<Rightarrow>
                        if rr < 56320 \<and> 56320 \<le> r1 \<and> r1 < 57344
                        then (encode_rune ((rr - 55296) * 1024 + (r1 - 56320) + 65536), 12)
                        else (replacement, 6)
                    | None \<Rightarrow> (replacement, 6))
                 else (encode_rune rr, 6)
             | None \<Rightarrow> (case rest of [] \<Rightarrow> ([], 1) | e # _ \<Rightarrow> ([escape_char e], 2)))
          else if (of_char c :: nat) < 128 then ([c], 1)
          else case utf8_len s of Some n \<Rightarrow> (take n s, n) | None \<Rightarrow> (replacement, 1))"

function unquote_body :: "string \<Rightarrow> string" where
  "unquote_body s =
     (if s = [] then [] else fst (unquote_one s) @ unquote_body (drop (max 1 (snd (unquote_one s))) s))"
  by pat_completeness auto
termination by (relation "measure length") auto

declare unquote_body.simps [simp del]

text \<open>A literal with its quotes.\<close>

definition unquote :: "string \<Rightarrow> string" where
  "unquote lit = unquote_body (butlast (tl lit))"

text \<open>\<open>appendString\<close> with HTML escaping.\<close>

definition quote_one :: "string \<Rightarrow> string \<times> nat" where
  "quote_one s =
     (case s of
        [] \<Rightarrow> ([], 1)
      | c # _ \<Rightarrow>
          (let n = (of_char c :: nat)
           in if c = CHR 0x22 \<or> c = CHR 0x5C then ([CHR 0x5C, c], 1)
              else if n = 8 then ([CHR 0x5C, CHR ''b''], 1)
              else if n = 12 then ([CHR 0x5C, CHR ''f''], 1)
              else if n = 10 then ([CHR 0x5C, CHR ''n''], 1)
              else if n = 13 then ([CHR 0x5C, CHR ''r''], 1)
              else if n = 9 then ([CHR 0x5C, CHR ''t''], 1)
              else if n < 32 \<or> c = CHR ''<'' \<or> c = CHR ''>'' \<or> c = CHR ''&'' then
                (CHR 0x5C # ''u00'' @ [hex_digit (n div 16), hex_digit (n mod 16)], 1)
              else if n < 128 then ([c], 1)
              else case utf8_len s of
                  None \<Rightarrow> (CHR 0x5C # ''ufffd'', 1)
                | Some k \<Rightarrow>
                    if take k s = [CHR 0xE2, CHR 0x80, CHR 0xA8] then (CHR 0x5C # ''u2028'', k)
                    else if take k s = [CHR 0xE2, CHR 0x80, CHR 0xA9] then (CHR 0x5C # ''u2029'', k)
                    else (take k s, k)))"

function quote_body :: "string \<Rightarrow> string" where
  "quote_body s =
     (if s = [] then [] else fst (quote_one s) @ quote_body (drop (max 1 (snd (quote_one s))) s))"
  by pat_completeness auto
termination by (relation "measure length") auto

declare quote_body.simps [simp del]

text \<open>\<open>json.Marshal\<close> of a string.\<close>

definition marshal_string :: "string \<Rightarrow> string" where
  "marshal_string s = CHR 0x22 # quote_body s @ [CHR 0x22]"

section \<open>Raw maps\<close>

text \<open>
  The members of a valid object, as written: literal key and raw value. The walk keeps the depth,
  whether it is inside a string or right after a backslash, and the bytes of the current token.
\<close>

fun members :: "nat \<Rightarrow> bool \<Rightarrow> bool \<Rightarrow> bool \<Rightarrow> string \<Rightarrow> string \<Rightarrow> string \<Rightarrow> (string \<times> string) list" where
  "members depth instr esc isval key cur [] = []"
| "members depth instr esc isval key cur (c # s) =
     (if instr then
        members depth (esc \<or> c \<noteq> CHR 0x22) (\<not> esc \<and> c = CHR 0x5C) isval key (cur @ [c]) s
      else if depth = 0 then
        (if c = CHR 0x7B then members 1 False False False [] [] s
         else members 0 False False False [] [] s)
      else if c = CHR 0x22 then members depth True False isval key (cur @ [c]) s
      else if c = CHR 0x7B \<or> c = CHR ''['' then members (Suc depth) False False isval key (cur @ [c]) s
      else if depth > 1 then
        members (if c = CHR 0x7D \<or> c = CHR '']'' then depth - 1 else depth) False False isval key (cur @ [c]) s
      else if isSpace c then members depth False False isval key cur s
      else if c = CHR '':'' then members depth False False True cur [] s
      else if c = CHR '','' then (key, cur) # members depth False False False [] [] s
      else if c = CHR 0x7D then (if isval then [(key, cur)] else [])
      else members depth False False isval key (cur @ [c]) s)"

text \<open>
  \<open>json.Unmarshal(data, &m)\<close> for \<open>m map[string]json.RawMessage\<close>, as the list of key and raw
  value in order of writing; \<open>None\<close> is an error. \<open>null\<close> leaves the map nil.
\<close>

definition unmarshal_raw_map :: "string \<Rightarrow> (string \<times> string) list option" where
  "unmarshal_raw_map data =
     (if \<not> json_Valid data then None
      else case dropWhile isSpace data of
          c # _ \<Rightarrow>
            if c = CHR 0x7B then
              Some (map (\<lambda>(k, v). (unquote k, v)) (members 0 False False False [] [] data))
            else if c = CHR ''n'' then Some [] else None
        | [] \<Rightarrow> None)"

text \<open>Reading the map: a later member of the same key wins.\<close>

definition raw_lookup :: "(string \<times> string) list \<Rightarrow> string \<Rightarrow> string option" where
  "raw_lookup m k = map_of (rev m) k"

definition raw_delete :: "string \<Rightarrow> (string \<times> string) list \<Rightarrow> (string \<times> string) list" where
  "raw_delete k m = filter (\<lambda>(k', _). k' \<noteq> k) m"

text \<open>\<open>json.Compact\<close> with HTML escaping, as \<open>Marshal\<close> applies it to a \<open>RawMessage\<close>.\<close>

fun compact :: "bool \<Rightarrow> bool \<Rightarrow> string \<Rightarrow> string" where
  "compact instr esc [] = []"
| "compact instr esc (c # s) =
     (let instr' = (if instr then esc \<or> c \<noteq> CHR 0x22 else c = CHR 0x22);
          esc' = (instr \<and> \<not> esc \<and> c = CHR 0x5C);
          n = (of_char c :: nat)
      in if c = CHR ''<'' \<or> c = CHR ''>'' \<or> c = CHR ''&'' then
           (CHR 0x5C # ''u00'' @ [hex_digit (n div 16), hex_digit (n mod 16)]) @ compact instr' esc' s
         else (case s of
             x # y # t \<Rightarrow>
               if c = CHR 0xE2 \<and> x = CHR 0x80 \<and> (y = CHR 0xA8 \<or> y = CHR 0xA9)
               then (CHR 0x5C # ''u202'' @ [if y = CHR 0xA8 then CHR ''8'' else CHR ''9'']) @ compact instr' esc' t
               else if \<not> instr \<and> isSpace c then compact instr' esc' s
               else c # compact instr' esc' s
           | _ \<Rightarrow> if \<not> instr \<and> isSpace c then compact instr' esc' s else c # compact instr' esc' s))"

fun join_members :: "string list \<Rightarrow> string" where
  "join_members [] = []"
| "join_members [x] = x"
| "join_members (x # y # xs) = x @ '','' @ join_members (y # xs)"

text \<open>\<open>json.Marshal\<close> of the map: keys sorted, values compacted.\<close>

definition marshal_raw_map :: "(string \<times> string) list \<Rightarrow> string" where
  "marshal_raw_map m =
     [CHR 0x7B]
     @ join_members (map (\<lambda>k. marshal_string k @ '':'' @
         compact False False (case raw_lookup m k of None \<Rightarrow> [] | Some v \<Rightarrow> v)) (sort_strs (remdups (map fst m))))
     @ [CHR 0x7D]"

text \<open>\<open>json.Marshal(map[string]string{k: v})\<close>.\<close>

definition marshal_pair :: "string \<Rightarrow> string \<Rightarrow> string" where
  "marshal_pair k v = [CHR 0x7B] @ marshal_string k @ '':'' @ marshal_string v @ [CHR 0x7D]"

section \<open>Strings and arrays\<close>

text \<open>The elements of a valid array, as written; the walk is that of \<open>members\<close>.\<close>

fun elements :: "nat \<Rightarrow> bool \<Rightarrow> bool \<Rightarrow> string \<Rightarrow> string \<Rightarrow> string list" where
  "elements depth instr esc cur [] = []"
| "elements depth instr esc cur (c # s) =
     (if instr then elements depth (esc \<or> c \<noteq> CHR 0x22) (\<not> esc \<and> c = CHR 0x5C) (cur @ [c]) s
      else if depth = 0 then (if c = CHR ''['' then elements 1 False False [] s else elements 0 False False [] s)
      else if c = CHR 0x22 then elements depth True False (cur @ [c]) s
      else if c = CHR 0x7B \<or> c = CHR ''['' then elements (Suc depth) False False (cur @ [c]) s
      else if depth > 1 then
        elements (if c = CHR 0x7D \<or> c = CHR '']'' then depth - 1 else depth) False False (cur @ [c]) s
      else if isSpace c then elements depth False False cur s
      else if c = CHR '','' then cur # elements depth False False [] s
      else if c = CHR '']'' then (if cur = [] then [] else [cur])
      else elements depth False False (cur @ [c]) s)"

definition trim_json :: "string \<Rightarrow> string" where
  "trim_json s = rev (dropWhile isSpace (rev (dropWhile isSpace s)))"

text \<open>
  A raw value decoded into a string that holds \<open>old\<close>: \<open>null\<close> leaves it, a literal replaces it,
  everything else is an error.
\<close>

definition decode_string :: "string \<Rightarrow> string \<Rightarrow> string option" where
  "decode_string old v =
     (case trim_json v of
        c # _ \<Rightarrow> if c = CHR 0x22 then Some (unquote (trim_json v)) else if c = CHR ''n'' then Some old else None
      | [] \<Rightarrow> None)"

text \<open>\<open>json.Unmarshal(data, &s)\<close> for a fresh string, and for a slice of which the raw elements are returned.\<close>

definition unmarshal_string :: "string \<Rightarrow> string option" where
  "unmarshal_string data = (if json_Valid data then decode_string [] data else None)"

definition unmarshal_raw_list :: "string \<Rightarrow> string list option" where
  "unmarshal_raw_list data =
     (if \<not> json_Valid data then None
      else case trim_json data of
          c # _ \<Rightarrow> if c = CHR ''['' then Some (elements 0 False False [] data)
                   else if c = CHR ''n'' then Some [] else None
        | [] \<Rightarrow> None)"

text \<open>Field names match a key up to ASCII case (no field decoded here has a letter with a wider fold).\<close>

definition lower_char :: "char \<Rightarrow> char" where
  "lower_char c = (if 65 \<le> (of_char c :: nat) \<and> (of_char c :: nat) \<le> 90 then char_of ((of_char c :: nat) + 32) else c)"

definition is_field :: "string \<Rightarrow> string \<Rightarrow> bool" where
  "is_field name key \<longleftrightarrow> map lower_char key = name"

section \<open>Lemmas\<close>

lemma raw_delete_gone [simp]: "raw_lookup (raw_delete k m) k = None"
  by (auto simp: raw_lookup_def raw_delete_def map_of_eq_None_iff)

lemma raw_delete_other: "j \<noteq> k \<Longrightarrow> raw_lookup (raw_delete k m) j = raw_lookup m j"
proof -
  assume "j \<noteq> k"
  then have "map_of (filter (\<lambda>(k', _). k' \<noteq> k) n) j = map_of n j" for n :: "(string \<times> string) list"
    by (induction n) auto
  then show ?thesis by (simp add: raw_lookup_def raw_delete_def rev_filter)
qed

end
