(* ===== verification/Wallet_Receipts.thy ===== *)
theory Wallet_Receipts
  imports Wallet_Funding Wallet_Control Go_Json
begin

text \<open>
  The control plane's signed receipts for returned and for frozen funding
  (\<open>service/canonical_wallet_funding.go\<close>): the bytes that are signed, and the checks a receipt passes
  before its amounts are believed. The MAC and the parsing of a time are parameters.
\<close>

section \<open>Receipts\<close>

record WalletFundingReturnSource =
  fs_AllocationID :: string
  fs_CreditID :: string
  fs_ReturnedUnits :: string
  fs_CreditedUnits :: string
  fs_WriteOffReason :: string

text \<open>The whole receipt; the store reads the fields of \<open>WalletFundingReturnReceipt\<close> alone.\<close>

record signed_return = WalletFundingReturnReceipt +
  rcpt_Protocol :: string
  rcpt_ReceiptID :: string
  rcpt_FundingScope :: string
  rcpt_FundingOwnerID :: string
  rcpt_FundingIssuanceKey :: string
  rcpt_BudgetRevision :: int
  rcpt_CaptureSeq :: int
  rcpt_CapturedUnits :: string
  rcpt_ReturnedUnits :: string
  rcpt_CreditedUnits :: string
  rcpt_WriteOffUnits :: string
  rcpt_HeldUnits :: string
  rcpt_GatewayConsumedUnits :: string
  rcpt_GatewayReleasedUnits :: string
  rcpt_CommittedAt :: string
  rcpt_Sources :: "WalletFundingReturnSource list option"    \<comment> \<open>a nil slice is \<open>None\<close>\<close>

record WalletFundingSource =
  so_AllocationID :: string
  so_CreditID :: string
  so_AllocatedUnits :: string

record WalletFundingSourceReceipt =
  sf_Protocol :: string
  sf_FreezeID :: string
  sf_PlatformUserID :: string
  sf_LeaseID :: string
  sf_FundingScope :: string
  sf_FundingOwnerID :: string
  sf_FundingIssuanceKey :: string
  sf_FundedUnits :: string
  sf_BudgetRevision :: int
  sf_CommittedAt :: string
  sf_Sources :: "WalletFundingSource list"
  sf_Signature :: string

record walletFundingSourceRequest =
  fq_PlatformUserID :: string
  fq_LeaseID :: string
  fq_FreezeID :: string
  fq_ExpectedFunded :: canonicalWalletAmountObject
  fq_ExpectedBudgetRevision :: int
  fq_FundingScope :: string
  fq_FundingOwnerID :: string
  fq_FundingIssuanceKey :: string

section \<open>Their JSON\<close>

definition json_array :: "string list \<Rightarrow> string" where
  "json_array xs = ''['' @ join_members xs @ '']''"

definition json_object :: "(string \<times> string) list \<Rightarrow> string" where
  "json_object kvs = [CHR 0x7B] @ join_members (map (\<lambda>(k, v). marshal_string k @ '':'' @ v) kvs) @ [CHR 0x7D]"

definition marshal_return_source :: "WalletFundingReturnSource \<Rightarrow> string" where
  "marshal_return_source s = json_object [(''allocation_id'', marshal_string (fs_AllocationID s)),
     (''credit_id'', marshal_string (fs_CreditID s)), (''returned_units'', marshal_string (fs_ReturnedUnits s)),
     (''credited_units'', marshal_string (fs_CreditedUnits s)), (''write_off_reason'', marshal_string (fs_WriteOffReason s))]"

definition slice :: "'a list option \<Rightarrow> 'a list" where
  "slice xs = (case xs of None \<Rightarrow> [] | Some ys \<Rightarrow> ys)"

definition marshal_return_sources :: "WalletFundingReturnSource list option \<Rightarrow> string" where
  "marshal_return_sources xs = (case xs of None \<Rightarrow> ''null'' | Some ys \<Rightarrow> json_array (map marshal_return_source ys))"

text \<open>The payload that is signed: one array of strings.\<close>

definition fundingReturnSigningPayload :: "signed_return \<Rightarrow> string" where
  "fundingReturnSigningPayload r = json_array (map marshal_string
     [rcpt_Protocol r, rcpt_ReceiptID r, rcpt_PlatformUserID r, rcpt_LeaseID r, rcpt_FundingScope r, rcpt_FundingOwnerID r,
      rcpt_FundingIssuanceKey r, show_int (rcpt_ReturnRevision r), show_int (rcpt_BudgetRevision r),
      show_int (rcpt_CaptureSeq r), rcpt_FundedUnits r, rcpt_CapturedUnits r, rcpt_ReturnedBeforeUnits r,
      rcpt_ReturnedUnits r, rcpt_ReturnedAfterUnits r, rcpt_CreditedUnits r, rcpt_WriteOffUnits r, rcpt_HeldUnits r,
      rcpt_GatewayConsumedUnits r, rcpt_GatewayReleasedUnits r, rcpt_Mode r, rcpt_CommittedAt r,
      marshal_return_sources (rcpt_Sources r)])"

definition marshal_return_receipt :: "signed_return \<Rightarrow> string" where
  "marshal_return_receipt r = json_object [(''protocol'', marshal_string (rcpt_Protocol r)),
     (''receipt_id'', marshal_string (rcpt_ReceiptID r)), (''platform_user_id'', marshal_string (rcpt_PlatformUserID r)),
     (''lease_id'', marshal_string (rcpt_LeaseID r)), (''funding_scope'', marshal_string (rcpt_FundingScope r)),
     (''funding_owner_id'', marshal_string (rcpt_FundingOwnerID r)),
     (''funding_issuance_key'', marshal_string (rcpt_FundingIssuanceKey r)),
     (''return_revision'', show_int (rcpt_ReturnRevision r)), (''budget_revision'', show_int (rcpt_BudgetRevision r)),
     (''capture_seq'', show_int (rcpt_CaptureSeq r)), (''funded_units'', marshal_string (rcpt_FundedUnits r)),
     (''captured_units'', marshal_string (rcpt_CapturedUnits r)),
     (''returned_before_units'', marshal_string (rcpt_ReturnedBeforeUnits r)),
     (''returned_units'', marshal_string (rcpt_ReturnedUnits r)),
     (''returned_after_units'', marshal_string (rcpt_ReturnedAfterUnits r)),
     (''credited_units'', marshal_string (rcpt_CreditedUnits r)), (''write_off_units'', marshal_string (rcpt_WriteOffUnits r)),
     (''held_units'', marshal_string (rcpt_HeldUnits r)),
     (''gateway_consumed_units'', marshal_string (rcpt_GatewayConsumedUnits r)),
     (''gateway_released_units'', marshal_string (rcpt_GatewayReleasedUnits r)), (''mode'', marshal_string (rcpt_Mode r)),
     (''committed_at'', marshal_string (rcpt_CommittedAt r)),
     (''sources'', marshal_return_sources (rcpt_Sources r)),
     (''signature'', marshal_string (rcpt_Signature r))]"

definition marshal_source :: "WalletFundingSource \<Rightarrow> string" where
  "marshal_source s = json_object [(''allocation_id'', marshal_string (so_AllocationID s)),
     (''credit_id'', marshal_string (so_CreditID s)), (''allocated_units'', marshal_string (so_AllocatedUnits s))]"

definition fundingSourceSigningPayload :: "WalletFundingSourceReceipt \<Rightarrow> string" where
  "fundingSourceSigningPayload r = json_array (map marshal_string
     [sf_Protocol r, sf_FreezeID r, sf_PlatformUserID r, sf_LeaseID r, sf_FundingScope r, sf_FundingOwnerID r,
      sf_FundingIssuanceKey r, sf_FundedUnits r, show_int (sf_BudgetRevision r), sf_CommittedAt r,
      json_array (map marshal_source (sf_Sources r))])"

definition marshal_source_receipt :: "WalletFundingSourceReceipt \<Rightarrow> string" where
  "marshal_source_receipt r = json_object [(''protocol'', marshal_string (sf_Protocol r)),
     (''freeze_id'', marshal_string (sf_FreezeID r)), (''platform_user_id'', marshal_string (sf_PlatformUserID r)),
     (''lease_id'', marshal_string (sf_LeaseID r)), (''funding_scope'', marshal_string (sf_FundingScope r)),
     (''funding_owner_id'', marshal_string (sf_FundingOwnerID r)),
     (''funding_issuance_key'', marshal_string (sf_FundingIssuanceKey r)),
     (''funded_units'', marshal_string (sf_FundedUnits r)), (''budget_revision'', show_int (sf_BudgetRevision r)),
     (''committed_at'', marshal_string (sf_CommittedAt r)), (''sources'', json_array (map marshal_source (sf_Sources r))),
     (''signature'', marshal_string (sf_Signature r))]"

section \<open>Checks\<close>

definition walletFundingMaxSources :: int where
  "walletFundingMaxSources = 10000"

definition walletFundingResponseLimit :: int where
  "walletFundingResponseLimit = 8388608"

text \<open>\<open>hex.DecodeString\<close>.\<close>

fun hex_decode :: "string \<Rightarrow> string option" where
  "hex_decode [] = Some []"
| "hex_decode [_] = None"
| "hex_decode (a # b # rest) =
     (if isHex a \<and> isHex b
      then map_option ((#) (char_of (16 * hex_val a + hex_val b))) (hex_decode rest) else None)"

text \<open>The shared secret, HMAC-SHA256 and \<open>time.Parse(time.RFC3339Nano, _)\<close>.\<close>

record receipt_key =
  rk_secret :: string
  rk_mac :: "string \<Rightarrow> string \<Rightarrow> string"
  rk_time :: "string \<Rightarrow> go_time option"

definition newCanonicalWalletAmountObjectString :: "string \<Rightarrow> canonicalWalletAmountObject" where
  "newCanonicalWalletAmountObjectString units =
     \<lparr>ao_AmountUnits = units, ao_Currency = ''USD'', ao_Scale = 8, ao_UnitVersion = ''usd-e8-v1''\<rparr>"

fun parse_all :: "string \<Rightarrow> string list \<Rightarrow> bridge_error + int list" where
  "parse_all field [] = Inr []"
| "parse_all field (v # vs) =
     bind_err (parseCanonicalWalletAmountObject field (newCanonicalWalletAmountObjectString v)) (\<lambda>u.
     bind_err (parse_all field vs) (\<lambda>us. Inr (u # us)))"

definition bad_allocation :: "string \<Rightarrow> string \<Rightarrow> string list \<Rightarrow> bool" where
  "bad_allocation allocation credit seen \<longleftrightarrow> allocation = [] \<or> length allocation > 128 \<or> credit = [] \<or> length credit > 128
     \<or> allocation \<in> set seen"

definition lift_units :: "units_error + int \<Rightarrow> bridge_error + int" where
  "lift_units r = map_sum BUnits id r"

fun sum_sources :: "WalletFundingReturnSource list \<Rightarrow> string list \<Rightarrow> int \<Rightarrow> int \<Rightarrow> bridge_error + int \<times> int" where
  "sum_sources [] seen returned credited = Inr (returned, credited)"
| "sum_sources (s # ss) seen returned credited =
     (if bad_allocation (fs_AllocationID s) (fs_CreditID s) seen then Inl (BNew ''invalid original funding allocation'')
      else
        bind_err (parseCanonicalWalletAmountObject ''source returned'' (newCanonicalWalletAmountObjectString (fs_ReturnedUnits s))) (\<lambda>amount.
        bind_err (parseCanonicalWalletAmountObject ''source credited'' (newCanonicalWalletAmountObjectString (fs_CreditedUnits s))) (\<lambda>credit.
        if amount \<le> 0 \<or> credit > amount \<or> (fs_WriteOffReason s = [] \<and> credit \<noteq> amount)
           \<or> (fs_WriteOffReason s \<noteq> [] \<and> (credit \<noteq> 0
               \<or> (fs_WriteOffReason s \<noteq> ''source_grant_expired'' \<and> fs_WriteOffReason s \<noteq> ''source_grant_revoked'')))
        then Inl (BNew ''invalid source return'')
        else
          bind_err (lift_units (AddUnits returned amount)) (\<lambda>returned1.
          bind_err (lift_units (AddUnits credited credit)) (\<lambda>credited1.
          sum_sources ss (fs_AllocationID s # seen) returned1 credited1)))))"

text \<open>
  The amounts of a return: funded, captured, returned before, now and after, credited, written off, held,
  consumed and released. The parsed values are not negative and below \<open>2^63\<close>, so the differences are
  exact, and the one sum is reached only when it is at most the principal.
\<close>

definition return_conserved :: "string \<Rightarrow> int list \<Rightarrow> bool" where
  "return_conserved mode u \<longleftrightarrow> u ! 2 \<le> u ! 0 \<and> u ! 3 \<le> u ! 0 - u ! 2 \<and> u ! 4 = u ! 2 + u ! 3
     \<and> u ! 5 \<le> u ! 3 \<and> u ! 6 = u ! 3 - u ! 5 \<and> u ! 8 \<ge> u ! 9
     \<and> u ! 1 \<le> u ! 0 - u ! 4 \<and> u ! 7 = u ! 0 - u ! 4 - u ! 1 \<and> u ! 8 - u ! 9 = u ! 0 - u ! 4
     \<and> (mode = ''close'' \<longrightarrow> u ! 7 = 0)"

definition return_values :: "signed_return \<Rightarrow> string list" where
  "return_values r = [rcpt_FundedUnits r, rcpt_CapturedUnits r, rcpt_ReturnedBeforeUnits r, rcpt_ReturnedUnits r,
     rcpt_ReturnedAfterUnits r, rcpt_CreditedUnits r, rcpt_WriteOffUnits r, rcpt_HeldUnits r,
     rcpt_GatewayConsumedUnits r, rcpt_GatewayReleasedUnits r]"

definition validateFundingReturnReceipt :: "receipt_key \<Rightarrow> signed_return \<Rightarrow> bridge_error + int list" where
  "validateFundingReturnReceipt key r =
     (if int (length (marshal_return_receipt r)) > walletFundingResponseLimit - 16384
      then Inl (BNew ''funding return receipt exceeds bounded protocol body'')
      else if length (rk_secret key) < 32 \<or> rcpt_Protocol r \<noteq> ''wallet-funding-return-v1'' \<or> rcpt_PlatformUserID r = []
        \<or> rcpt_LeaseID r = [] \<or> rcpt_ReceiptID r = [] \<or> rcpt_ReturnRevision r \<le> 0 \<or> rcpt_BudgetRevision r < 0
        \<or> rcpt_CaptureSeq r < 0 \<or> (rcpt_Mode r \<noteq> ''partial'' \<and> rcpt_Mode r \<noteq> ''close'')
        \<or> int (length (slice (rcpt_Sources r))) > walletFundingMaxSources
      then Inl (BNew ''invalid signed funding return identity'')
      else (case hex_decode (rcpt_Signature r) of
          None \<Rightarrow> Inl (BNew ''invalid funding signature'')
        | Some signature \<Rightarrow>
            if length signature \<noteq> 32 \<or> signature \<noteq> rk_mac key (rk_secret key) (fundingReturnSigningPayload r)
            then Inl (BNew ''invalid funding signature'')
            else
              bind_err (parse_all ''funding receipt'' (return_values r)) (\<lambda>units.
              if \<not> return_conserved (rcpt_Mode r) units
              then Inl (BNew ''signed funding return does not conserve exact obligations'')
              else
              bind_err (sum_sources (slice (rcpt_Sources r)) [] 0 0) (\<lambda>(returned, credited).
              if returned \<noteq> units ! 3 \<or> credited \<noteq> units ! 5 then Inl (BNew ''source returns differ from signed total'')
              else (case rk_time key (rcpt_CommittedAt r) of
                  None \<Rightarrow> Inl (BNew ''invalid committed funding time'')
                | Some None \<Rightarrow> Inl (BNew ''invalid committed funding time'')
                | Some (Some _) \<Rightarrow> Inr units)))))"

fun sum_held :: "CanonicalWalletHold list \<Rightarrow> int \<Rightarrow> bridge_error + int" where
  "sum_held [] held = Inr held"
| "sum_held (h # hs) held = bind_err (lift_units (AddUnits held (hold_HeldUnits h))) (sum_held hs)"

definition verifyFundingReturnReceipt ::
  "receipt_key \<Rightarrow> CanonicalWalletFundingBasis \<Rightarrow> string \<Rightarrow> signed_return \<Rightarrow> bridge_error + unit" where
  "verifyFundingReturnReceipt key basis mode r =
     bind_err (validateFundingReturnReceipt key r) (\<lambda>units.
     (let l = basis_Lease basis
      in if rcpt_PlatformUserID r \<noteq> PlatformUserID l \<or> rcpt_LeaseID r \<noteq> LeaseID l \<or> rcpt_Mode r \<noteq> mode
            \<or> rcpt_ReturnRevision r \<noteq> wrap64 (ReturnRevision l + 1) \<or> rcpt_BudgetRevision r \<noteq> BudgetRevision l
            \<or> rcpt_FundingScope r \<noteq> FundingScope l \<or> rcpt_FundingOwnerID r \<noteq> FundingOwnerID l
            \<or> rcpt_FundingIssuanceKey r \<noteq> FundingIssuanceKey l
         then Inl (BNew ''signed funding return identity mismatch'')
         else
           bind_err (sum_held (basis_Holds basis) 0) (\<lambda>held.
           if units ! 0 \<noteq> FundingPrincipalUnits l \<or> units ! 2 \<noteq> ReturnedUnits l \<or> units ! 8 \<noteq> ConsumedUnits l
              \<or> units ! 9 \<noteq> ReleasedUnits l \<or> units ! 7 \<noteq> held
           then Inl (BNew ''signed funding return differs from frozen obligations'')
           else Inr ())))"

fun sum_allocations :: "WalletFundingSource list \<Rightarrow> string list \<Rightarrow> int \<Rightarrow> int \<Rightarrow> bridge_error + int" where
  "sum_allocations [] seen funded allocated = Inr allocated"
| "sum_allocations (s # ss) seen funded allocated =
     (if bad_allocation (so_AllocationID s) (so_CreditID s) seen then Inl (BNew ''invalid funding source identity'')
      else (case parseCanonicalWalletAmountObject ''allocated source'' (newCanonicalWalletAmountObjectString (so_AllocatedUnits s)) of
          Inl _ \<Rightarrow> Inl (BNew ''invalid funding source allocation'')
        | Inr units \<Rightarrow>
            if units \<le> 0 \<or> units > funded - allocated then Inl (BNew ''invalid funding source allocation'')
            else sum_allocations ss (so_AllocationID s # seen) funded (allocated + units)))"

definition verifyFundingSourceReceipt ::
  "receipt_key \<Rightarrow> walletFundingSourceRequest \<Rightarrow> WalletFundingSourceReceipt \<Rightarrow> bridge_error + unit" where
  "verifyFundingSourceReceipt key request r =
     (if int (length (marshal_source_receipt r)) > walletFundingResponseLimit - 16384
      then Inl (BNew ''funding source receipt exceeds bounded protocol body'')
      else if length (rk_secret key) < 32 \<or> sf_Protocol r \<noteq> ''wallet-funding-source-v1'' \<or> sf_FreezeID r \<noteq> fq_FreezeID request
        \<or> sf_PlatformUserID r \<noteq> fq_PlatformUserID request \<or> sf_LeaseID r \<noteq> fq_LeaseID request
        \<or> sf_FundingScope r \<noteq> fq_FundingScope request \<or> sf_FundingOwnerID r \<noteq> fq_FundingOwnerID request
        \<or> sf_FundingIssuanceKey r \<noteq> fq_FundingIssuanceKey request
        \<or> sf_FundedUnits r \<noteq> ao_AmountUnits (fq_ExpectedFunded request)
        \<or> sf_BudgetRevision r \<noteq> fq_ExpectedBudgetRevision request \<or> sf_BudgetRevision r < 0 \<or> sf_Sources r = []
        \<or> int (length (sf_Sources r)) > walletFundingMaxSources
      then Inl (BNew ''funding source ACK differs from immutable request'')
      else (case parseCanonicalWalletAmountObject ''source funded'' (fq_ExpectedFunded request) of
          Inl _ \<Rightarrow> Inl (BNew ''invalid funded source'')
        | Inr funded \<Rightarrow>
            if funded \<le> 0 then Inl (BNew ''invalid funded source'')
            else
              bind_err (sum_allocations (sf_Sources r) [] funded 0) (\<lambda>allocated.
              if allocated \<noteq> funded then Inl (BNew ''funding source allocations do not conserve'')
              else if rk_time key (sf_CommittedAt r) = None then Inl (BNew ''parsing time'')
              else (case hex_decode (sf_Signature r) of
                  None \<Rightarrow> Inl (BNew ''encoding/hex: invalid byte'')
                | Some signature \<Rightarrow>
                    if signature \<noteq> rk_mac key (rk_secret key) (fundingSourceSigningPayload r)
                    then Inl (BNew ''invalid funding source signature'')
                    else Inr ()))))"

end
