(* ===== verification/Wallet_World.thy ===== *)
theory Wallet_World
  imports Wallet_Receipts "HOL-Library.AList"
begin

text \<open>
  The surroundings of the wallet bridge (\<open>service/canonical_wallet_bridge.go\<close>,
  \<open>canonical_wallet_funding.go\<close>). The bridge works on three remote parties: Redis (the wallet store),
  Postgres (the outbox and the funding tables) and the control plane. Every call to one of them meets a
  fault mode: it runs, its request is lost, its reply is lost after it took effect, or the process dies
  before it. What the bridge asks of tables outside the model is the record \<open>bridge_env\<close>; the control
  plane's replies may depend on all that happened before. Counters and log lines are left out.
\<close>

section \<open>The funding tables\<close>

record walletFundingReturnHold =
  fh_AuthorizationID :: string
  fh_Held :: canonicalWalletAmountObject

record walletFundingReturnRequest =
  frq_PlatformUserID :: string
  frq_LeaseID :: string
  frq_Mode :: string
  frq_BaseReturnRevision :: int
  frq_SourceFreezeID :: string
  frq_ExpectedFunded :: canonicalWalletAmountObject
  frq_ExpectedBudgetRevision :: int
  frq_GatewayConsumed :: canonicalWalletAmountObject
  frq_GatewayReleased :: canonicalWalletAmountObject
  frq_Holds :: "walletFundingReturnHold list"

record walletFundingPendingRequest =
  fp_DispatchStarted :: "bool option"
  fp_Protocol :: string
  fp_Basis :: CanonicalWalletFundingBasis
  fp_Request :: walletFundingReturnRequest

record canonicalWalletLeaseWireView =
  lv_ActivePinCount :: "int option"
  lv_ActiveLivePinCount :: "int option"
  lv_FundingScope :: string
  lv_FundingOwnerID :: string
  lv_FundingIssuanceKey :: string
  lv_FundingFrozenAt :: "int option"
  lv_ReturnRevision :: int
  lv_BudgetRevision :: int
  lv_LeaseID :: string
  lv_PlatformUserID :: string
  lv_Currency :: string
  lv_UnitVersion :: string
  lv_Scale :: int
  lv_Budget :: canonicalWalletAmountObject
  lv_Reserved :: canonicalWalletAmountObject
  lv_Captured :: canonicalWalletAmountObject
  lv_Released :: canonicalWalletAmountObject
  lv_CaptureSeq :: int
  lv_Status :: string
  lv_ExpiresAt :: go_time

text \<open>
  Rows by user and lease (their primary key). JSON columns are held decoded, a NULL as \<open>None\<close>;
  \<open>updated_at\<close>, which only orders the recovery's work, is left out.
\<close>

record funding_freeze =
  ff_funding_scope :: string
  ff_funding_owner_id :: string
  ff_funding_issuance_key :: string
  ff_funded_units :: int
  ff_returned_units :: int
  ff_return_revision :: int
  ff_receipt :: "signed_return option"
  ff_closed :: bool
  ff_pending :: "walletFundingPendingRequest option"
  ff_redis_applied_revision :: int
  ff_requested_mode :: string

record source_intent =
  si_requested_mode :: string
  si_expected_request :: "walletFundingSourceRequest option"
  si_source_receipt :: "WalletFundingSourceReceipt option"

type_synonym freeze_table = "((string \<times> string) \<times> funding_freeze) list"
type_synonym intent_table = "((string \<times> string) \<times> source_intent) list"

section \<open>Remote calls\<close>

datatype fault = Fine | LostRequest | LostReply | Crash

text \<open>The control plane's answers; a settlement, a freeze and a return with the store and the tables as they were.\<close>

datatype control_call =
    CEnsure canonicalWalletEnsureRequest "bridge_error + canonicalWalletEnsureResult"
  | CSubmit CanonicalWalletSettlementEvent wallet_store outbox "bridge_error + CanonicalWalletSettlementResult"
  | CPool string string "bridge_error + canonicalWalletLeaseWireView list"
  | CFreezeSource walletFundingSourceRequest intent_table "bridge_error + WalletFundingSourceReceipt"
  | CReturn walletFundingReturnRequest freeze_table "bridge_error + signed_return"

record world =
  w_store :: wallet_store
  w_outbox :: outbox
  w_freeze :: freeze_table
  w_intents :: intent_table
  w_faults :: "fault list"
  w_log :: "control_call list"

text \<open>An action of the process; \<open>None\<close> is a process that died.\<close>

type_synonym 'a act = "world \<Rightarrow> world \<times> 'a option"
type_synonym 'a call = "(bridge_error + 'a) act"

definition ret :: "'a \<Rightarrow> 'a act" where
  "ret x w = (w, Some x)"

definition act_bind :: "'a act \<Rightarrow> ('a \<Rightarrow> 'b act) \<Rightarrow> 'b act" where
  "act_bind m f w = (case m w of (w1, None) \<Rightarrow> (w1, None) | (w1, Some x) \<Rightarrow> f x w1)"

text \<open>\<open>x, err := m; if err != nil { return err }\<close>.\<close>

definition try_call :: "'a call \<Rightarrow> ('a \<Rightarrow> 'b call) \<Rightarrow> 'b call" where
  "try_call m f = act_bind m (\<lambda>r. case r of Inl e \<Rightarrow> ret (Inl e) | Inr x \<Rightarrow> f x)"

definition remote :: "(world \<Rightarrow> world \<times> (bridge_error + 'a)) \<Rightarrow> 'a call" where
  "remote f w =
     (case w_faults w of
        [] \<Rightarrow> (let (w1, r) = f w in (w1, Some r))
      | m # ms \<Rightarrow>
          (let w0 = w\<lparr>w_faults := ms\<rparr>
           in case m of
                Fine \<Rightarrow> (let (w1, r) = f w0 in (w1, Some r))
              | LostRequest \<Rightarrow> (w0, Some (Inl BTransport))
              | LostReply \<Rightarrow> (fst (f w0), Some (Inl BTransport))
              | Crash \<Rightarrow> (w0, None)))"

definition on_store :: "(world \<Rightarrow> wallet_store \<Rightarrow> wallet_store \<times> 'a wallet_result) \<Rightarrow> 'a call" where
  "on_store g = remote (\<lambda>w. case g w (w_store w) of (c, r) \<Rightarrow> (w\<lparr>w_store := c\<rparr>, map_sum BStore id r))"

definition on_outbox :: "(world \<Rightarrow> outbox \<Rightarrow> outbox \<times> (outbox_error + 'a)) \<Rightarrow> 'a call" where
  "on_outbox g = remote (\<lambda>w. case g w (w_outbox w) of (t, r) \<Rightarrow> (w\<lparr>w_outbox := t\<rparr>, map_sum BOutbox id r))"

text \<open>A query that changes nothing.\<close>

definition query :: "(world \<Rightarrow> 'a) \<Rightarrow> 'a call" where
  "query q = remote (\<lambda>w. (w, Inr (q w)))"

section \<open>The environment\<close>

text \<open>
  Configuration; the clocks of the process, of Postgres and of Redis (milliseconds); the answers of the
  tables outside the model; the order of the recovery's work; the control plane.
\<close>

record bridge_env =
  be_H :: "string \<Rightarrow> string"
  be_digest :: "walletOutboxHashPayload \<Rightarrow> string"
  be_key :: receipt_key
  be_worker :: string
  be_margin :: int
  be_LeaseBudgetUnits :: int
  be_LeaseTTLSeconds :: int
  be_slot :: int
  be_RequestTimeoutMS :: int
  be_RedriveIntervalSeconds :: int
  be_RedriveMaxAttempts :: int
  be_RetentionDays :: int
  be_wired :: bool
  be_db :: bool
  be_fundingStore :: bool    \<comment> \<open>the store implements \<open>CanonicalWalletFundingStore\<close>\<close>
  be_signed :: bool          \<comment> \<open>the control plane is the HTTP client\<close>
  be_clock :: "world \<Rightarrow> int"
  be_dbnow :: "world \<Rightarrow> int"
  be_rnow :: "world \<Rightarrow> int"
  be_locked :: "world \<Rightarrow> int \<Rightarrow> bool"
  be_late_pinned :: "world \<Rightarrow> CanonicalWalletOutboxEvent \<Rightarrow> bool"
  be_exclusions :: "world \<Rightarrow> CanonicalWalletOutboxEvent \<Rightarrow> (string \<times> string) list"
  be_protected :: "world \<Rightarrow> CanonicalWalletOutboxEvent \<Rightarrow> bool"
  be_pinned :: "world \<Rightarrow> string \<Rightarrow> string \<Rightarrow> bool"
  be_terminal_ready :: "world \<Rightarrow> string \<Rightarrow> string \<Rightarrow> bool"
  be_media_acked :: "world \<Rightarrow> string \<Rightarrow> string \<Rightarrow> bool"
  be_oldest :: "world \<Rightarrow> (string \<times> string \<times> string \<times> bool) list \<Rightarrow> (string \<times> string \<times> string \<times> bool) list"
  be_ensure :: "world \<Rightarrow> canonicalWalletEnsureRequest \<Rightarrow> canonicalWalletEnsureWireResponse http_reply option"
  be_submit :: "world \<Rightarrow> CanonicalWalletSettlementEvent \<Rightarrow> canonicalWalletSettlementWireResponse http_reply option"
  be_pool :: "world \<Rightarrow> string \<Rightarrow> string \<Rightarrow> canonicalWalletLeaseWireView list http_reply option"
  be_freeze_source :: "world \<Rightarrow> walletFundingSourceRequest \<Rightarrow> WalletFundingSourceReceipt http_reply option"
  be_return :: "world \<Rightarrow> walletFundingReturnRequest \<Rightarrow> signed_return http_reply option"

definition read_clock :: "bridge_env \<Rightarrow> int act" where
  "read_clock env w = (w, Some (be_clock env w))"

section \<open>Calls of the control plane\<close>

definition control_ensure :: "bridge_env \<Rightarrow> canonicalWalletEnsureRequest \<Rightarrow> canonicalWalletEnsureResult call" where
  "control_ensure env request = remote (\<lambda>w.
     (let answer = EnsureLease request (be_ensure env w request)
      in (w\<lparr>w_log := w_log w @ [CEnsure request answer]\<rparr>, answer)))"

definition control_submit :: "bridge_env \<Rightarrow> CanonicalWalletSettlementEvent \<Rightarrow> CanonicalWalletSettlementResult call" where
  "control_submit env event = remote (\<lambda>w.
     (let answer = SubmitSettlement (be_submit env w event)
      in (w\<lparr>w_log := w_log w @ [CSubmit event (w_store w) (w_outbox w) answer]\<rparr>, answer)))"

definition control_pool :: "bridge_env \<Rightarrow> string \<Rightarrow> string \<Rightarrow> canonicalWalletLeaseWireView list call" where
  "control_pool env user scope = remote (\<lambda>w.
     (let answer = doJSON [] ''/api/internal/v2/wallet/leases/pool'' (be_pool env w user scope)
      in (w\<lparr>w_log := w_log w @ [CPool user scope answer]\<rparr>, answer)))"

text \<open>The receipts before decoding.\<close>

definition zeroSourceReceipt :: WalletFundingSourceReceipt where
  "zeroSourceReceipt = \<lparr>sf_Protocol = [], sf_FreezeID = [], sf_PlatformUserID = [], sf_LeaseID = [], sf_FundingScope = [],
     sf_FundingOwnerID = [], sf_FundingIssuanceKey = [], sf_FundedUnits = [], sf_BudgetRevision = 0, sf_CommittedAt = [],
     sf_Sources = [], sf_Signature = []\<rparr>"

definition zeroReturnReceipt :: signed_return where
  "zeroReturnReceipt = \<lparr>rcpt_PlatformUserID = [], rcpt_LeaseID = [], rcpt_ReturnRevision = 0, rcpt_ReturnedBeforeUnits = [],
     rcpt_ReturnedAfterUnits = [], rcpt_FundedUnits = [], rcpt_Mode = [], rcpt_Signature = [], rcpt_Protocol = [],
     rcpt_ReceiptID = [], rcpt_FundingScope = [], rcpt_FundingOwnerID = [], rcpt_FundingIssuanceKey = [],
     rcpt_BudgetRevision = 0, rcpt_CaptureSeq = 0, rcpt_CapturedUnits = [], rcpt_ReturnedUnits = [], rcpt_CreditedUnits = [],
     rcpt_WriteOffUnits = [], rcpt_HeldUnits = [], rcpt_GatewayConsumedUnits = [], rcpt_GatewayReleasedUnits = [],
     rcpt_CommittedAt = [], rcpt_Sources = None\<rparr>"

definition control_freeze_source :: "bridge_env \<Rightarrow> walletFundingSourceRequest \<Rightarrow> WalletFundingSourceReceipt call" where
  "control_freeze_source env request = remote (\<lambda>w.
     (let answer = doJSON zeroSourceReceipt ''/api/internal/v2/wallet/leases/freeze-source'' (be_freeze_source env w request)
      in (w\<lparr>w_log := w_log w @ [CFreezeSource request (w_intents w) answer]\<rparr>, answer)))"

definition control_return :: "bridge_env \<Rightarrow> walletFundingReturnRequest \<Rightarrow> signed_return call" where
  "control_return env request = remote (\<lambda>w.
     (let answer = doJSON zeroReturnReceipt ''/api/internal/v2/wallet/leases/return'' (be_return env w request)
      in (w\<lparr>w_log := w_log w @ [CReturn request (w_freeze w) answer]\<rparr>, answer)))"

section \<open>Calls of the store\<close>

definition get_lease :: "bridge_env \<Rightarrow> string \<Rightarrow> string \<Rightarrow> CanonicalWalletLease call" where
  "get_lease env user leaseID = on_store (\<lambda>_ c. (c, GetCanonicalWalletLeaseByID (be_H env) user leaseID c))"

definition install_lease :: "bridge_env \<Rightarrow> CanonicalWalletLease \<Rightarrow> unit call" where
  "install_lease env lease = on_store (\<lambda>_. InstallCanonicalWalletLease (be_H env) lease)"

text \<open>The funding operations; a nil store, which has none, is refused before.\<close>

definition on_redis :: "(redis_db \<Rightarrow> redis_db \<times> 'a wallet_result) \<Rightarrow> 'a call" where
  "on_redis f = on_store (\<lambda>_ c. case c of
       None \<Rightarrow> (None, Inl errUnavailable)
     | Some db \<Rightarrow> (case f db of (db', r) \<Rightarrow> (Some db', r)))"

end
