(* ===== verification/Wallet_Return.thy ===== *)
theory Wallet_Return
  imports Wallet_World
begin

text \<open>
  Returning unused funding to the control plane (\<open>service/canonical_wallet_funding.go\<close>,
  \<open>canonical_wallet_funding_terminal.go\<close>). A return is prepared under the lifecycle gate: the source is
  fenced by a signed freeze, its principal registered, the lease frozen in Redis, and the exact request
  written to the registry. The request is then sent; its receipt is verified against the frozen basis,
  recorded, and applied to Redis. Every step can be the last of its process; recovery resumes from the
  registry. Statements are functions on the tables with the guards of their triggers
  (\<open>migrations/228\<close>, \<open>230\<close>, \<open>231\<close>, \<open>232\<close>).
\<close>

section \<open>The guards of the tables\<close>

text \<open>The columns a row keeps, and what may only grow.\<close>

definition freeze_guard :: "funding_freeze \<Rightarrow> funding_freeze \<Rightarrow> bool" where
  "freeze_guard old new \<longleftrightarrow> ff_funding_scope new = ff_funding_scope old \<and> ff_funding_owner_id new = ff_funding_owner_id old
     \<and> ff_funding_issuance_key new = ff_funding_issuance_key old \<and> ff_funded_units new = ff_funded_units old
     \<and> ff_return_revision new \<ge> ff_return_revision old \<and> ff_returned_units new \<ge> ff_returned_units old
     \<and> (ff_closed old \<longrightarrow> ff_closed new)
     \<and> (ff_return_revision new = ff_return_revision old \<longrightarrow>
          ff_returned_units new = ff_returned_units old \<and> ff_receipt new = ff_receipt old \<and> ff_closed new = ff_closed old)"

definition freeze_checks :: "funding_freeze \<Rightarrow> bool" where
  "freeze_checks r \<longleftrightarrow> ff_funded_units r > 0 \<and> ff_returned_units r \<ge> 0 \<and> ff_returned_units r \<le> ff_funded_units r
     \<and> ff_return_revision r \<ge> 0 \<and> ff_redis_applied_revision r \<ge> 0 \<and> ff_redis_applied_revision r \<le> ff_return_revision r
     \<and> (ff_requested_mode r = ''partial'' \<or> ff_requested_mode r = ''close'')"

text \<open>A pending request names its row; a zero field is absent from its JSON.\<close>

definition pending_names :: "string \<times> string \<Rightarrow> funding_freeze \<Rightarrow> walletFundingPendingRequest \<Rightarrow> bool" where
  "pending_names k new p \<longleftrightarrow> (let l = basis_Lease (fp_Basis p); q = fp_Request p in
     \<not> ff_closed new \<and> fp_Protocol p = ''wallet-funding-request-v1'' \<and> PlatformUserID l = fst k \<and> LeaseID l = snd k
     \<and> FundingScope l = ff_funding_scope new \<and> FundingScope l \<noteq> [] \<and> FundingOwnerID l = ff_funding_owner_id new
     \<and> FundingIssuanceKey l = ff_funding_issuance_key new \<and> FundingFrozen l
     \<and> FundedUnits l \<noteq> 0 \<and> FundedUnits l = ff_funded_units new \<and> ReturnedUnits l = ff_returned_units new
     \<and> ReturnRevision l = ff_return_revision new \<and> BudgetUnits l + ReturnedUnits l = ff_funded_units new
     \<and> frq_PlatformUserID q = fst k \<and> frq_LeaseID q = snd k \<and> frq_BaseReturnRevision q = ff_return_revision new
     \<and> (frq_Mode q = ''partial'' \<or> frq_Mode q = ''close''))"

text \<open>A revision advances by one, out of a pending request, with the receipt for that request.\<close>

definition ack_names :: "string \<times> string \<Rightarrow> funding_freeze \<Rightarrow> funding_freeze \<Rightarrow> bool" where
  "ack_names k old new \<longleftrightarrow> (case (ff_pending old, ff_receipt new) of
       (Some p, Some r) \<Rightarrow> ff_pending new = None \<and> ff_return_revision new = ff_return_revision old + 1
         \<and> rcpt_Protocol r = ''wallet-funding-return-v1'' \<and> rcpt_PlatformUserID r = fst k \<and> rcpt_LeaseID r = snd k
         \<and> rcpt_ReturnRevision r = ff_return_revision new
         \<and> ParseInt (rcpt_ReturnedBeforeUnits r) = Some (ff_returned_units old)
         \<and> ParseInt (rcpt_ReturnedAfterUnits r) = Some (ff_returned_units new)
         \<and> rcpt_Mode r = frq_Mode (fp_Request p)
         \<and> rcpt_GatewayConsumedUnits r = ao_AmountUnits (frq_GatewayConsumed (fp_Request p))
         \<and> rcpt_GatewayReleasedUnits r = ao_AmountUnits (frq_GatewayReleased (fp_Request p))
     | _ \<Rightarrow> False)"

definition pending_guard :: "string \<times> string \<Rightarrow> funding_freeze option \<Rightarrow> funding_freeze \<Rightarrow> bool" where
  "pending_guard k old new \<longleftrightarrow> (case ff_pending new of None \<Rightarrow> True | Some p \<Rightarrow> pending_names k new p)
     \<and> (case old of None \<Rightarrow> True | Some prev \<Rightarrow>
          ff_redis_applied_revision new \<ge> ff_redis_applied_revision prev
          \<and> (ff_pending prev \<noteq> None \<and> ff_pending new \<noteq> None \<longrightarrow> ff_pending new = ff_pending prev)
          \<and> (ff_return_revision new > ff_return_revision prev \<longrightarrow> ack_names k prev new))"

definition requested_mode_guard :: "funding_freeze option \<Rightarrow> funding_freeze \<Rightarrow> bool" where
  "requested_mode_guard old new \<longleftrightarrow>
     (case old of None \<Rightarrow> True | Some prev \<Rightarrow> ff_requested_mode prev = ''close'' \<longrightarrow> ff_requested_mode new = ''close'')
     \<and> (ff_closed new \<longrightarrow> ff_requested_mode new = ''close'')
     \<and> (case ff_pending new of None \<Rightarrow> True | Some p \<Rightarrow> frq_Mode (fp_Request p) = ''close'' \<longrightarrow> ff_requested_mode new = ''close'')"

text \<open>A principal is accepted only after its source was fenced.\<close>

definition source_principal_guard :: "string \<times> string \<Rightarrow> intent_table \<Rightarrow> funding_freeze \<Rightarrow> bool" where
  "source_principal_guard k intents new \<longleftrightarrow>
     (case map_of intents k of None \<Rightarrow> False | Some i \<Rightarrow>
       (case si_source_receipt i of None \<Rightarrow> False | Some r \<Rightarrow>
          sf_FundedUnits r = show_int (ff_funded_units new) \<and> sf_FundingScope r = ff_funding_scope new
          \<and> sf_FundingOwnerID r = ff_funding_owner_id new \<and> sf_FundingIssuanceKey r = ff_funding_issuance_key new))"

definition freeze_update_ok :: "string \<times> string \<Rightarrow> funding_freeze \<Rightarrow> funding_freeze \<Rightarrow> bool" where
  "freeze_update_ok k old new \<longleftrightarrow> freeze_guard old new \<and> freeze_checks new \<and> pending_guard k (Some old) new
     \<and> requested_mode_guard (Some old) new"

definition intent_guard :: "string \<times> string \<Rightarrow> source_intent \<Rightarrow> source_intent \<Rightarrow> bool" where
  "intent_guard k old new \<longleftrightarrow> (si_requested_mode old = ''close'' \<longrightarrow> si_requested_mode new = ''close'')
     \<and> (si_source_receipt old \<noteq> None \<longrightarrow> si_source_receipt new = si_source_receipt old \<and> si_expected_request new = si_expected_request old)
     \<and> (si_expected_request old \<noteq> None \<and> si_expected_request new \<noteq> None \<longrightarrow> si_expected_request new = si_expected_request old)
     \<and> (case si_expected_request new of None \<Rightarrow> si_source_receipt new = None | Some q \<Rightarrow>
          fq_PlatformUserID q = fst k \<and> fq_LeaseID q = snd k \<and> fq_FreezeID q = snd k @ ''.source-freeze.v1''
          \<and> (case si_source_receipt new of None \<Rightarrow> True | Some r \<Rightarrow>
               sf_Protocol r = ''wallet-funding-source-v1'' \<and> sf_PlatformUserID r = fst k \<and> sf_LeaseID r = snd k
               \<and> sf_FreezeID r = snd k @ ''.source-freeze.v1'' \<and> sf_FundedUnits r = ao_AmountUnits (fq_ExpectedFunded q)
               \<and> sf_BudgetRevision r = fq_ExpectedBudgetRevision q))"

section \<open>Statements\<close>

text \<open>
  An UPDATE of the row of a lease under a condition: whether it changed the row, or the exception of a
  trigger. A transaction is its statements as queries and its effect at the commit, so a fault before
  the commit rolls it back.
\<close>

definition update_freeze ::
  "string \<Rightarrow> string \<Rightarrow> (funding_freeze \<Rightarrow> bool) \<Rightarrow> (funding_freeze \<Rightarrow> funding_freeze) \<Rightarrow> bool call" where
  "update_freeze user leaseID cond f = remote (\<lambda>w.
     case map_of (w_freeze w) (user, leaseID) of
       None \<Rightarrow> (w, Inr False)
     | Some r \<Rightarrow>
         if \<not> cond r then (w, Inr False)
         else if \<not> freeze_update_ok (user, leaseID) r (f r) then (w, Inl (BNew ''wallet funding identity/revision conflict''))
         else (w\<lparr>w_freeze := AList.update (user, leaseID) (f r) (w_freeze w)\<rparr>, Inr True))"

definition update_intent ::
  "string \<Rightarrow> string \<Rightarrow> (source_intent \<Rightarrow> bool) \<Rightarrow> (source_intent \<Rightarrow> source_intent) \<Rightarrow> bool call" where
  "update_intent user leaseID cond f = remote (\<lambda>w.
     case map_of (w_intents w) (user, leaseID) of
       None \<Rightarrow> (w, Inr False)
     | Some r \<Rightarrow>
         if \<not> cond r then (w, Inr False)
         else if \<not> intent_guard (user, leaseID) r (f r) then (w, Inl (BNew ''wallet funding source fence identity conflict''))
         else (w\<lparr>w_intents := AList.update (user, leaseID) (f r) (w_intents w)\<rparr>, Inr True))"

definition later_mode :: "string \<Rightarrow> string \<Rightarrow> string" where
  "later_mode stored requested = (if stored = ''close'' then ''close'' else requested)"

text \<open>The freeze id is unique and derived from the lease id, so one lease has one intent.\<close>

definition insert_intent :: "string \<Rightarrow> string \<Rightarrow> string \<Rightarrow> unit call" where
  "insert_intent user leaseID mode = remote (\<lambda>w.
     case map_of (w_intents w) (user, leaseID) of
       None \<Rightarrow>
         if list_ex (\<lambda>((_, l), _). l = leaseID) (w_intents w) \<or> (mode \<noteq> ''partial'' \<and> mode \<noteq> ''close'')
         then (w, Inl (BNew ''wallet_funding_source_intent constraint''))
         else (w\<lparr>w_intents := AList.update (user, leaseID)
                  \<lparr>si_requested_mode = mode, si_expected_request = None, si_source_receipt = None\<rparr> (w_intents w)\<rparr>, Inr ())
     | Some i \<Rightarrow>
         let i' = i\<lparr>si_requested_mode := later_mode (si_requested_mode i) mode\<rparr>
         in if \<not> intent_guard (user, leaseID) i i' \<or> (si_requested_mode i' \<noteq> ''partial'' \<and> si_requested_mode i' \<noteq> ''close'')
            then (w, Inl (BNew ''wallet_funding_source_intent constraint''))
            else (w\<lparr>w_intents := AList.update (user, leaseID) i' (w_intents w)\<rparr>, Inr ()))"

definition new_freeze :: "CanonicalWalletLease \<Rightarrow> string \<Rightarrow> funding_freeze" where
  "new_freeze lease mode = \<lparr>ff_funding_scope = FundingScope lease, ff_funding_owner_id = FundingOwnerID lease,
     ff_funding_issuance_key = FundingIssuanceKey lease, ff_funded_units = FundingPrincipalUnits lease,
     ff_returned_units = ReturnedUnits lease, ff_return_revision = ReturnRevision lease, ff_receipt = None, ff_closed = False,
     ff_pending = None, ff_redis_applied_revision = 0, ff_requested_mode = mode\<rparr>"

definition insert_freeze :: "string \<Rightarrow> string \<Rightarrow> CanonicalWalletLease \<Rightarrow> string \<Rightarrow> unit call" where
  "insert_freeze user leaseID lease mode = remote (\<lambda>w.
     let k = (user, leaseID); new = new_freeze lease mode; conflict = (w, Inl (BNew ''wallet funding identity/revision conflict''))
     in if \<not> source_principal_guard k (w_intents w) new then conflict
        else case map_of (w_freeze w) k of
            None \<Rightarrow>
              if \<not> freeze_checks new \<or> \<not> pending_guard k None new \<or> \<not> requested_mode_guard None new then conflict
              else (w\<lparr>w_freeze := AList.update k new (w_freeze w)\<rparr>, Inr ())
          | Some r \<Rightarrow>
              let r' = r\<lparr>ff_requested_mode := later_mode (ff_requested_mode r) mode\<rparr>
              in if \<not> freeze_update_ok k r r' then conflict
                 else (w\<lparr>w_freeze := AList.update k r' (w_freeze w)\<rparr>, Inr ()))"

definition find_freeze :: "string \<Rightarrow> string \<Rightarrow> funding_freeze option call" where
  "find_freeze user leaseID = query (\<lambda>w. map_of (w_freeze w) (user, leaseID))"

definition no_rows :: bridge_error where
  "no_rows = BNew ''sql: no rows in result set''"

section \<open>The registry\<close>

definition applyFundingRegistry :: "bridge_env \<Rightarrow> CanonicalWalletLease \<Rightarrow> CanonicalWalletLease call" where
  "applyFundingRegistry env lease =
     (if be_db env then
        try_call (find_freeze (PlatformUserID lease) (LeaseID lease)) (\<lambda>row.
          case row of
            None \<Rightarrow> ret (Inr lease)
          | Some r \<Rightarrow>
              if ReturnRevision lease \<noteq> ff_return_revision r \<or> ReturnedUnits lease \<noteq> ff_returned_units r
                 \<or> FundingPrincipalUnits lease \<noteq> ff_funded_units r \<or> FundingScope lease \<noteq> ff_funding_scope r
                 \<or> FundingOwnerID lease \<noteq> ff_funding_owner_id r \<or> FundingIssuanceKey lease \<noteq> ff_funding_issuance_key r
              then ret (Inl (BNew ''stale lease funding snapshot''))
              else ret (Inr (lease\<lparr>FundingFrozen := True\<rparr>)))
      else ret (Inr lease))"

definition installFundingLease :: "bridge_env \<Rightarrow> CanonicalWalletLease \<Rightarrow> unit call" where
  "installFundingLease env lease = try_call (applyFundingRegistry env lease) (install_lease env)"

section \<open>Fencing the source\<close>

fun source_view :: "string \<Rightarrow> string \<Rightarrow> canonicalWalletLeaseWireView list \<Rightarrow> canonicalWalletLeaseWireView option
    \<Rightarrow> bridge_error + canonicalWalletLeaseWireView" where
  "source_view user leaseID [] source =
     (case source of None \<Rightarrow> Inl (BStore ErrCanonicalWalletLeaseMissing) | Some v \<Rightarrow> Inr v)"
| "source_view user leaseID (v # vs) source =
     (if lv_LeaseID v \<noteq> leaseID then source_view user leaseID vs source
      else if source \<noteq> None \<or> lv_PlatformUserID v \<noteq> user \<or> lv_Status v \<noteq> ''active'' \<or> lv_Currency v \<noteq> ''USD''
        \<or> lv_UnitVersion v \<noteq> ''usd-e8-v1'' \<or> lv_Scale v \<noteq> 8 \<or> lv_ExpiresAt v = None \<or> lv_ReturnRevision v < 0
        \<or> lv_BudgetRevision v < 0 \<or> lv_CaptureSeq v < 0
      then Inl (BNew ''invalid canonical funding source'')
      else source_view user leaseID vs (Some v))"

definition fundingSourceWire :: "bridge_env \<Rightarrow> string \<Rightarrow> string \<Rightarrow> canonicalWalletLeaseWireView call" where
  "fundingSourceWire env user leaseID =
     (if \<not> be_signed env then ret (Inl (BNew ''signed wallet funding control unavailable''))
      else try_call (control_pool env user ''all'') (\<lambda>views.
        if length views > 128 then ret (Inl (BNew ''funding source pool exceeds bound''))
        else ret (source_view user leaseID views None)))"

definition refreshed_source ::
  "canonicalWalletLeaseWireView \<Rightarrow> int \<Rightarrow> int \<Rightarrow> CanonicalWalletLease \<Rightarrow> CanonicalWalletLease" where
  "refreshed_source v funded returned l = l\<lparr>FundedUnits := funded, ReturnedUnits := returned,
     BudgetUnits := wrap64 (funded - returned), ReturnRevision := lv_ReturnRevision v, BudgetRevision := lv_BudgetRevision v,
     FundingFrozen := (FundingFrozen l \<or> lv_FundingFrozenAt v \<noteq> None), RequireCachedLease := True\<rparr>"

definition freshFundingSource :: "bridge_env \<Rightarrow> string \<Rightarrow> string \<Rightarrow> CanonicalWalletLease call" where
  "freshFundingSource env user leaseID =
     try_call (fundingSourceWire env user leaseID) (\<lambda>v.
     try_call (ret (parseCanonicalWalletAmountObject ''source funded'' (lv_Budget v))) (\<lambda>funded.
     try_call (ret (parseCanonicalWalletAmountObject ''source returned'' (lv_Released v))) (\<lambda>returned.
     try_call (ret (parseCanonicalWalletAmountObject ''source captured'' (lv_Captured v))) (\<lambda>captured.
     if funded \<le> 0 \<or> returned > funded \<or> captured > funded - returned
     then ret (Inl (BNew ''invalid canonical funding conservation''))
     else
     try_call (get_lease env user leaseID) (\<lambda>l.
     if Sealed l \<and> \<not> FundingFrozen l then ret (Inl ErrCanonicalWalletLeaseContention)
     else if FundingScope l \<noteq> lv_FundingScope v \<or> FundingOwnerID l \<noteq> lv_FundingOwnerID v
       \<or> FundingIssuanceKey l \<noteq> lv_FundingIssuanceKey v \<or> FundingPrincipalUnits l > funded \<or> ReturnedUnits l > returned
       \<or> ReturnRevision l > lv_ReturnRevision v \<or> BudgetRevision l > lv_BudgetRevision v
       \<or> wrap64 (ConsumedUnits l - ReleasedUnits l) < captured
     then ret (Inl (BNew ''canonical funding source identity or revision changed''))
     else
     try_call (installFundingLease env (refreshed_source v funded returned l)) (\<lambda>_.
     get_lease env user leaseID))))))"

definition freeze_id :: "string \<Rightarrow> string" where
  "freeze_id leaseID = leaseID @ ''.source-freeze.v1''"

definition source_request :: "string \<Rightarrow> string \<Rightarrow> CanonicalWalletLease \<Rightarrow> walletFundingSourceRequest" where
  "source_request user leaseID l = \<lparr>fq_PlatformUserID = user, fq_LeaseID = leaseID, fq_FreezeID = freeze_id leaseID,
     fq_ExpectedFunded = newCanonicalWalletAmountObject (FundingPrincipalUnits l), fq_ExpectedBudgetRevision = BudgetRevision l,
     fq_FundingScope = FundingScope l, fq_FundingOwnerID = FundingOwnerID l, fq_FundingIssuanceKey = FundingIssuanceKey l\<rparr>"

text \<open>The request of the intent: the one on record, or a fresh one written before it is sent.\<close>

definition expected_request :: "bridge_env \<Rightarrow> string \<Rightarrow> string \<Rightarrow> source_intent \<Rightarrow> walletFundingSourceRequest call" where
  "expected_request env user leaseID i =
     (case si_expected_request i of
        Some q \<Rightarrow> ret (Inr q)
      | None \<Rightarrow>
          try_call (freshFundingSource env user leaseID) (\<lambda>l.
          (let q = source_request user leaseID l
           in try_call (update_intent user leaseID (\<lambda>i. si_expected_request i = None \<and> si_source_receipt i = None)
                   (\<lambda>i. i\<lparr>si_expected_request := Some q\<rparr>)) (\<lambda>ok.
                if ok then ret (Inr q) else ret (Inl (BNew ''funding source expectation checkpoint conflict''))))))"

definition is_funding_conflict :: "bridge_error \<Rightarrow> bool" where
  "is_funding_conflict e = (case e of BStatus se \<Rightarrow> ste_Status se = 409 \<and> ste_Reason se = ''funding_conflict'' | _ \<Rightarrow> False)"

text \<open>With the fence on record: the source as it now stands must be the one that was fenced.\<close>

definition fenced_source ::
  "bridge_env \<Rightarrow> string \<Rightarrow> string \<Rightarrow> walletFundingSourceRequest \<Rightarrow> WalletFundingSourceReceipt \<Rightarrow> CanonicalWalletLease call" where
  "fenced_source env user leaseID q receipt =
     try_call (freshFundingSource env user leaseID) (\<lambda>l.
       if FundingPrincipalUnits l \<noteq> (case parseCanonicalWalletAmountObject ''funded'' (fq_ExpectedFunded q) of Inl _ \<Rightarrow> 0 | Inr f \<Rightarrow> f)
          \<or> BudgetRevision l \<noteq> sf_BudgetRevision receipt \<or> \<not> FundingFrozen l
       then ret (Inl (BNew ''canonical source differs from signed fence''))
       else ret (Inr l))"

fun freeze_source_attempts :: "bridge_env \<Rightarrow> nat \<Rightarrow> string \<Rightarrow> string \<Rightarrow> CanonicalWalletLease call" where
  "freeze_source_attempts env 0 user leaseID = ret (Inl (BNew ''funding source freeze requires fresh canonical observation''))"
| "freeze_source_attempts env (Suc n) user leaseID =
     try_call (query (\<lambda>w. map_of (w_intents w) (user, leaseID))) (\<lambda>row.
     case row of
       None \<Rightarrow> ret (Inl no_rows)
     | Some i \<Rightarrow>
         try_call (expected_request env user leaseID i) (\<lambda>q.
         if fq_PlatformUserID q \<noteq> user \<or> fq_LeaseID q \<noteq> leaseID \<or> fq_FreezeID q \<noteq> freeze_id leaseID
         then ret (Inl (BNew ''durable funding source request identity mismatch''))
         else case si_source_receipt i of
             Some receipt \<Rightarrow>
               (case verifyFundingSourceReceipt (be_key env) q receipt of
                  Inl e \<Rightarrow> ret (Inl e)
                | Inr _ \<Rightarrow> fenced_source env user leaseID q receipt)
           | None \<Rightarrow>
               act_bind (control_freeze_source env q) (\<lambda>answer.
               case answer of
                 Inl e \<Rightarrow>
                   if is_funding_conflict e
                   then try_call (update_intent user leaseID
                            (\<lambda>i. si_expected_request i = Some q \<and> si_source_receipt i = None)
                            (\<lambda>i. i\<lparr>si_expected_request := None\<rparr>)) (\<lambda>_. freeze_source_attempts env n user leaseID)
                   else ret (Inl e)
               | Inr receipt \<Rightarrow>
                   (case verifyFundingSourceReceipt (be_key env) q receipt of
                      Inl e \<Rightarrow> ret (Inl e)
                    | Inr _ \<Rightarrow>
                        try_call (update_intent user leaseID
                          (\<lambda>i. si_expected_request i = Some q \<and> (si_source_receipt i = None \<or> si_source_receipt i = Some receipt))
                          (\<lambda>i. i\<lparr>si_source_receipt := Some receipt\<rparr>)) (\<lambda>ok.
                        if ok then fenced_source env user leaseID q receipt
                        else ret (Inl (BNew ''funding source ACK checkpoint conflict'')))))))"

definition freezeFundingSource :: "bridge_env \<Rightarrow> string \<Rightarrow> string \<Rightarrow> CanonicalWalletLease call" where
  "freezeFundingSource env user leaseID =
     (if \<not> be_signed env then ret (Inl (BNew ''signed wallet funding control unavailable''))
      else freeze_source_attempts env 2 user leaseID)"

section \<open>Closing\<close>

definition errFundingTerminalPending :: bridge_error where
  "errFundingTerminalPending = BNew ''original funding terminal cleanup or capture is pending''"

definition fundingPoolPinCounts :: "canonicalWalletLeaseWireView \<Rightarrow> bridge_error + int \<times> int" where
  "fundingPoolPinCounts v = (case (lv_ActivePinCount v, lv_ActiveLivePinCount v) of
       (Some pins, Some live) \<Rightarrow>
         if pins < 0 \<or> live < 0 \<or> live > pins \<or> pins > 9007199254740991
         then Inl (BNew ''canonical funding pool pin counts are missing or invalid'') else Inr (pins, live)
     | _ \<Rightarrow> Inl (BNew ''canonical funding pool pin counts are missing or invalid''))"

definition terminal_cache_ok :: "CanonicalWalletLease \<Rightarrow> MediaWalletRawState \<Rightarrow> bool" where
  "terminal_cache_ok l raw = (case raw_Leases raw of
       [x] \<Rightarrow> raw_Present x \<and> raw_ConsumedUnits x = ConsumedUnits l \<and> raw_ReleasedUnits x = ReleasedUnits l
         \<and> raw_FundedUnits x = FundingPrincipalUnits l \<and> raw_ReturnedUnits x = ReturnedUnits l
         \<and> raw_ReturnRevision x = ReturnRevision l \<and> raw_BudgetRevision x = BudgetRevision l \<and> FundingFrozen l
         \<and> raw_FundingFrozen x \<and> ConsumedUnits l \<ge> ReleasedUnits l
     | _ \<Rightarrow> False)"

text \<open>The segments' part of the test is a query outside the model.\<close>

definition fundingTerminalCloseReady :: "bridge_env \<Rightarrow> string \<Rightarrow> string \<Rightarrow> unit call" where
  "fundingTerminalCloseReady env user leaseID =
     try_call (query (\<lambda>w. be_terminal_ready env w user leaseID)) (\<lambda>ready.
     if \<not> ready then ret (Inl errFundingTerminalPending)
     else
     try_call (get_lease env user leaseID) (\<lambda>l.
     if \<not> be_fundingStore env then ret (Inl (BNew ''original funding terminal Redis state unavailable''))
     else
     try_call (on_redis (\<lambda>db. (db, ReadMediaWalletState (be_H env) user [leaseID] [] db))) (\<lambda>raw.
     if \<not> terminal_cache_ok l raw then ret (Inl (BNew ''original funding terminal cache changed or missing''))
     else if list_ex (\<lambda>h. hold_LeaseID h = leaseID \<and> hold_State h = ''armed'') (raw_Holds raw) then ret (Inl errFundingTerminalPending)
     else
     try_call (fundingSourceWire env user leaseID) (\<lambda>v.
     try_call (ret (fundingPoolPinCounts v)) (\<lambda>(pins, live).
     try_call (ret (parseCanonicalWalletAmountObject ''terminal reserved'' (lv_Reserved v))) (\<lambda>reserved.
     try_call (ret (parseCanonicalWalletAmountObject ''terminal captured'' (lv_Captured v))) (\<lambda>captured.
     try_call (ret (parseCanonicalWalletAmountObject ''terminal funded'' (lv_Budget v))) (\<lambda>funded.
     try_call (ret (parseCanonicalWalletAmountObject ''terminal returned'' (lv_Released v))) (\<lambda>returned.
     if pins \<noteq> 0 \<or> live \<noteq> 0 \<or> reserved \<noteq> 0 \<or> lv_FundingFrozenAt v = None
        \<or> captured \<noteq> wrap64 (ConsumedUnits l - ReleasedUnits l) \<or> funded \<noteq> FundingPrincipalUnits l
        \<or> returned \<noteq> ReturnedUnits l \<or> lv_ReturnRevision v \<noteq> ReturnRevision l \<or> lv_BudgetRevision v \<noteq> BudgetRevision l
        \<or> lv_FundingScope v \<noteq> FundingScope l \<or> lv_FundingOwnerID v \<noteq> FundingOwnerID l
        \<or> lv_FundingIssuanceKey v \<noteq> FundingIssuanceKey l
     then ret (Inl errFundingTerminalPending)
     else ret (Inr ()))))))))))"

section \<open>Preparing a return\<close>

definition return_request :: "string \<Rightarrow> string \<Rightarrow> string \<Rightarrow> CanonicalWalletFundingBasis \<Rightarrow> walletFundingReturnRequest" where
  "return_request user leaseID mode basis =
     (let l = basis_Lease basis
      in \<lparr>frq_PlatformUserID = user, frq_LeaseID = leaseID, frq_Mode = mode, frq_BaseReturnRevision = ReturnRevision l,
          frq_SourceFreezeID = freeze_id leaseID, frq_ExpectedFunded = newCanonicalWalletAmountObject (FundingPrincipalUnits l),
          frq_ExpectedBudgetRevision = BudgetRevision l, frq_GatewayConsumed = newCanonicalWalletAmountObject (ConsumedUnits l),
          frq_GatewayReleased = newCanonicalWalletAmountObject (ReleasedUnits l),
          frq_Holds = map (\<lambda>h. \<lparr>fh_AuthorizationID = hold_AuthorizationID h,
            fh_Held = newCanonicalWalletAmountObject (hold_HeldUnits h)\<rparr>) (basis_Holds basis)\<rparr>)"

definition pending_request :: "string \<Rightarrow> string \<Rightarrow> string \<Rightarrow> CanonicalWalletFundingBasis \<Rightarrow> walletFundingPendingRequest" where
  "pending_request user leaseID mode basis = \<lparr>fp_DispatchStarted = Some False, fp_Protocol = ''wallet-funding-request-v1'',
     fp_Basis = basis, fp_Request = return_request user leaseID mode basis\<rparr>"

text \<open>A close of shared funding is written down only once nothing is open on it.\<close>

definition close_ready :: "bridge_env \<Rightarrow> string \<Rightarrow> string \<Rightarrow> string \<Rightarrow> unit call" where
  "close_ready env user leaseID mode =
     (if mode \<noteq> ''close'' then ret (Inr ())
      else try_call (get_lease env user leaseID) (\<lambda>l.
        if FundingScope l = ''legacy'' \<or> FundingScope l = ''llm'' then fundingTerminalCloseReady env user leaseID
        else ret (Inr ())))"

text \<open>The gate's begin and commit are statements of their own: \<open>query (\<lambda>_. ())\<close>.\<close>

definition prepareFundingReturn :: "bridge_env \<Rightarrow> string \<Rightarrow> string \<Rightarrow> string \<Rightarrow> unit call" where
  "prepareFundingReturn env user leaseID mode0 =
     try_call (query (\<lambda>_. ())) (\<lambda>_.
     try_call (close_ready env user leaseID mode0) (\<lambda>_.
     try_call (insert_intent user leaseID mode0) (\<lambda>_.
     try_call (query (\<lambda>w. map_option si_requested_mode (map_of (w_intents w) (user, leaseID)))) (\<lambda>m.
     case m of None \<Rightarrow> ret (Inl no_rows) | Some mode \<Rightarrow>
     try_call (freezeFundingSource env user leaseID) (\<lambda>l0.
     try_call (insert_freeze user leaseID l0 mode) (\<lambda>_.
     try_call (applyFundingRegistry env l0) (\<lambda>l.
     try_call (on_redis (FreezeCanonicalWalletFunding (be_H env) user leaseID)) (\<lambda>basis.
     (let p = pending_request user leaseID mode basis
      in try_call (update_freeze user leaseID
             (\<lambda>r. (ff_funded_units r = FundingPrincipalUnits l \<and> ff_returned_units r = ReturnedUnits l
                \<and> ff_return_revision r = ReturnRevision l \<and> \<not> ff_closed r) \<and> (ff_pending r = None \<or> ff_pending r = Some p))
             (\<lambda>r. r\<lparr>ff_pending := Some p\<rparr>)) (\<lambda>ok.
         if \<not> ok then ret (Inl (BNew ''funding pending request checkpoint conflict''))
         else query (\<lambda>_. ())))))))))))"

section \<open>Sending it\<close>

text \<open>The holds of the request are those of its basis, each once.\<close>

fun holds_match :: "walletFundingReturnHold list \<Rightarrow> CanonicalWalletHold list \<Rightarrow> string list \<Rightarrow> bridge_error option" where
  "holds_match (h # hs) (b # bs) seen =
     (case parseCanonicalWalletAmountObject ''saved funding held'' (fh_Held h) of
        Inl e \<Rightarrow> Some e
      | Inr units \<Rightarrow>
          if fh_AuthorizationID h = [] \<or> fh_AuthorizationID h \<in> set seen \<or> fh_AuthorizationID h \<noteq> hold_AuthorizationID b
             \<or> units \<le> 0 \<or> units \<noteq> hold_HeldUnits b
          then Some (BNew ''durable funding request hold mismatch'')
          else holds_match hs bs (fh_AuthorizationID h # seen))"
| "holds_match _ _ seen = None"

text \<open>A request on record is believed only if it fits its row and its own basis.\<close>

definition pending_fits :: "string \<Rightarrow> string \<Rightarrow> funding_freeze \<Rightarrow> walletFundingPendingRequest \<Rightarrow> bool" where
  "pending_fits user leaseID r p \<longleftrightarrow> (let l = basis_Lease (fp_Basis p); q = fp_Request p in
     fp_Protocol p = ''wallet-funding-request-v1'' \<and> PlatformUserID l = user \<and> LeaseID l = leaseID \<and> FundingFrozen l
     \<and> FundingPrincipalUnits l = ff_funded_units r \<and> ReturnedUnits l = ff_returned_units r
     \<and> ReturnRevision l = ff_return_revision r \<and> FundingScope l = ff_funding_scope r
     \<and> FundingOwnerID l = ff_funding_owner_id r \<and> FundingIssuanceKey l = ff_funding_issuance_key r
     \<and> frq_PlatformUserID q = user \<and> frq_LeaseID q = leaseID \<and> frq_BaseReturnRevision q = ff_return_revision r
     \<and> frq_SourceFreezeID q = freeze_id leaseID \<and> ao_AmountUnits (frq_ExpectedFunded q) = show_int (ff_funded_units r)
     \<and> frq_ExpectedBudgetRevision q = BudgetRevision l \<and> (frq_Mode q = ''partial'' \<or> frq_Mode q = ''close'')
     \<and> length (frq_Holds q) \<le> 128 \<and> length (frq_Holds q) = length (basis_Holds (fp_Basis p)))"

definition check_pending :: "string \<Rightarrow> string \<Rightarrow> funding_freeze \<Rightarrow> walletFundingPendingRequest \<Rightarrow> bridge_error + unit" where
  "check_pending user leaseID r p =
     (let l = basis_Lease (fp_Basis p); q = fp_Request p
      in if \<not> pending_fits user leaseID r p then Inl (BNew ''durable funding request identity mismatch'')
         else if parseCanonicalWalletAmountObject ''saved funding principal'' (frq_ExpectedFunded q) \<noteq> Inr (ff_funded_units r)
         then Inl (BNew ''durable funding request principal mismatch'')
         else
           bind_err (parseCanonicalWalletAmountObject ''saved funding consumed'' (frq_GatewayConsumed q)) (\<lambda>consumed.
           bind_err (parseCanonicalWalletAmountObject ''saved funding released'' (frq_GatewayReleased q)) (\<lambda>released.
           if consumed \<noteq> ConsumedUnits l \<or> released \<noteq> ReleasedUnits l \<or> released > consumed
           then Inl (BNew ''durable funding request obligation mismatch'')
           else (case holds_match (frq_Holds q) (basis_Holds (fp_Basis p)) [] of Some e \<Rightarrow> Inl e | None \<Rightarrow> Inr ()))))"

text \<open>
  That the request is about to be sent is committed before it is sent: the transaction clears and
  rewrites the column, since a trigger forbids replacing it.
\<close>

definition marked :: "walletFundingPendingRequest \<Rightarrow> walletFundingPendingRequest" where
  "marked p = p\<lparr>fp_DispatchStarted := Some True\<rparr>"

definition mark_dispatched :: "string \<Rightarrow> string \<Rightarrow> funding_freeze \<Rightarrow> walletFundingPendingRequest \<Rightarrow> unit call" where
  "mark_dispatched user leaseID r p =
     (let mid = r\<lparr>ff_pending := None\<rparr>; new = r\<lparr>ff_pending := Some (marked p)\<rparr>
      in try_call (query (\<lambda>_. ())) (\<lambda>_.
         if \<not> freeze_update_ok (user, leaseID) r mid \<or> \<not> freeze_update_ok (user, leaseID) mid new
         then ret (Inl (BNew ''wallet funding identity/revision conflict''))
         else try_call (query (\<lambda>w. map_of (w_freeze w) (user, leaseID) = Some r)) (\<lambda>held.
           if \<not> held then ret (Inl (BNew ''funding dispatch checkpoint conflict''))
           else
             try_call (remote (\<lambda>w. (w\<lparr>w_freeze := AList.update (user, leaseID) new (w_freeze w)\<rparr>, Inr ()))) (\<lambda>_.
             try_call (query (\<lambda>_. ())) (\<lambda>_.
             try_call (query (\<lambda>w. case map_of (w_freeze w) (user, leaseID) of
                 None \<Rightarrow> False
               | Some x \<Rightarrow> ff_return_revision x = ff_return_revision r \<and> ff_pending x = Some (marked p))) (\<lambda>same.
               if same then ret (Inr ()) else ret (Inl (BNew ''funding dispatch checkpoint changed''))))))))"

definition applyFundingReturnACK :: "bridge_env \<Rightarrow> signed_return \<Rightarrow> unit call" where
  "applyFundingReturnACK env receipt =
     (if \<not> be_fundingStore env then ret (Inl (BNew ''funding recovery store unavailable''))
      else
        try_call (on_redis (ApplyCanonicalWalletFundingReturn (be_H env) (WalletFundingReturnReceipt.truncate receipt))) (\<lambda>_.
        try_call (update_freeze (rcpt_PlatformUserID receipt) (rcpt_LeaseID receipt)
            (\<lambda>r. ff_return_revision r = rcpt_ReturnRevision receipt)
            (\<lambda>r. r\<lparr>ff_redis_applied_revision := max (ff_redis_applied_revision r) (rcpt_ReturnRevision receipt)\<rparr>)) (\<lambda>_.
        ret (Inr ()))))"

text \<open>The receipt is recorded before it is applied.\<close>

definition record_receipt :: "string \<Rightarrow> string \<Rightarrow> int \<Rightarrow> walletFundingPendingRequest \<Rightarrow> signed_return \<Rightarrow> unit call" where
  "record_receipt user leaseID revision p receipt =
     try_call (update_freeze user leaseID
         (\<lambda>r. Some (ff_funded_units r) = ParseInt (rcpt_FundedUnits receipt)
            \<and> Some (ff_returned_units r) = ParseInt (rcpt_ReturnedBeforeUnits receipt)
            \<and> ff_return_revision r = revision \<and> ff_pending r = Some p)
         (\<lambda>r. r\<lparr>ff_returned_units := num0 (ParseInt (rcpt_ReturnedAfterUnits receipt)),
              ff_return_revision := rcpt_ReturnRevision receipt, ff_receipt := Some receipt,
              ff_closed := (frq_Mode (fp_Request p) = ''close''), ff_pending := None\<rparr>)) (\<lambda>ok.
       if ok then ret (Inr ()) else ret (Inl (BNew ''funding ACK conflict'')))"

text \<open>
  A definite refusal of a request sent for the first time withdraws it; any other failure keeps it.
\<close>

definition send_return ::
  "bridge_env \<Rightarrow> string \<Rightarrow> string \<Rightarrow> int \<Rightarrow> bool \<Rightarrow> walletFundingPendingRequest \<Rightarrow> unit call" where
  "send_return env user leaseID revision fresh p =
     act_bind (control_return env (fp_Request p)) (\<lambda>answer.
     case answer of
       Inl e \<Rightarrow>
         if is_funding_conflict e \<and> fresh
         then try_call (update_freeze user leaseID (\<lambda>r. ff_return_revision r = revision \<and> ff_pending r = Some p)
                  (\<lambda>r. r\<lparr>ff_pending := None\<rparr>)) (\<lambda>_. ret (Inl e))
         else ret (Inl e)
     | Inr receipt \<Rightarrow>
         (case verifyFundingReturnReceipt (be_key env) (fp_Basis p) (frq_Mode (fp_Request p)) receipt of
            Inl e \<Rightarrow> ret (Inl e)
          | Inr _ \<Rightarrow>
              try_call (record_receipt user leaseID revision p receipt) (\<lambda>_.
              try_call (query (\<lambda>_. ())) (\<lambda>_.
              applyFundingReturnACK env receipt))))"

definition replayPendingFundingReturn :: "bridge_env \<Rightarrow> string \<Rightarrow> string \<Rightarrow> unit call" where
  "replayPendingFundingReturn env user leaseID =
     (if \<not> be_signed env then ret (Inl (BNew ''signed funding recovery control unavailable''))
      else if \<not> be_fundingStore env then ret (Inl (BNew ''funding recovery store unavailable''))
      else
        try_call (query (\<lambda>_. ())) (\<lambda>_.
        try_call (find_freeze user leaseID) (\<lambda>row.
        case row of
          None \<Rightarrow> ret (Inl no_rows)
        | Some r \<Rightarrow>
            (case ff_pending r of
               None \<Rightarrow> query (\<lambda>_. ())
             | Some p \<Rightarrow>
                 (case check_pending user leaseID r p of
                    Inl e \<Rightarrow> ret (Inl e)
                  | Inr _ \<Rightarrow>
                      (if fp_DispatchStarted p = Some True
                       then send_return env user leaseID (ff_return_revision r) False p
                       else
                         try_call (mark_dispatched user leaseID r p) (\<lambda>_.
                         send_return env user leaseID (ff_return_revision r) (fp_DispatchStarted p = Some False) (marked p))))))))"

section \<open>Recovering it\<close>

definition receipt_agrees :: "string \<Rightarrow> string \<Rightarrow> funding_freeze \<Rightarrow> signed_return \<Rightarrow> int list \<Rightarrow> bool" where
  "receipt_agrees user leaseID r receipt units \<longleftrightarrow> rcpt_PlatformUserID receipt = user \<and> rcpt_LeaseID receipt = leaseID
     \<and> rcpt_ReturnRevision receipt = ff_return_revision r \<and> units ! 0 = ff_funded_units r \<and> units ! 4 = ff_returned_units r
     \<and> rcpt_FundingScope receipt = ff_funding_scope r \<and> rcpt_FundingOwnerID receipt = ff_funding_owner_id r
     \<and> rcpt_FundingIssuanceKey receipt = ff_funding_issuance_key r"

fun recover_attempts :: "bridge_env \<Rightarrow> nat \<Rightarrow> string \<Rightarrow> string \<Rightarrow> unit call" where
  "recover_attempts env 0 user leaseID = ret (Inl (BNew ''funding recovery requires another observation''))"
| "recover_attempts env (Suc n) user leaseID =
     try_call (find_freeze user leaseID) (\<lambda>row.
     case row of
       None \<Rightarrow> ret (Inr ())
     | Some r \<Rightarrow>
         if ff_pending r \<noteq> None
         then try_call (replayPendingFundingReturn env user leaseID) (\<lambda>_. recover_attempts env n user leaseID)
         else (case ff_receipt r of
             None \<Rightarrow> ret (Inr ())
           | Some receipt \<Rightarrow>
               if \<not> be_signed env then ret (Inl (BNew ''signed funding recovery control unavailable''))
               else (case validateFundingReturnReceipt (be_key env) receipt of
                   Inl e \<Rightarrow> ret (Inl e)
                 | Inr units \<Rightarrow>
                     if \<not> receipt_agrees user leaseID r receipt units then ret (Inl (BNew ''funding recovery differs from primary ACK''))
                     else applyFundingReturnACK env receipt)))"

definition recoverFundingReturn :: "bridge_env \<Rightarrow> string \<Rightarrow> string \<Rightarrow> unit call" where
  "recoverFundingReturn env user leaseID = (if \<not> be_db env then ret (Inr ()) else recover_attempts env 2 user leaseID)"

definition funding_closed :: "string \<Rightarrow> string \<Rightarrow> bool option call" where
  "funding_closed user leaseID = query (\<lambda>w. map_option ff_closed (map_of (w_freeze w) (user, leaseID)))"

text \<open>One observation of the source; a close may need a second one.\<close>

fun return_observations :: "bridge_env \<Rightarrow> nat \<Rightarrow> string \<Rightarrow> string \<Rightarrow> string \<Rightarrow> unit call" where
  "return_observations env 0 user leaseID mode = ret (Inl (BNew ''funding close requires another canonical observation''))"
| "return_observations env (Suc n) user leaseID mode =
     try_call (recoverFundingReturn env user leaseID) (\<lambda>_.
     try_call (funding_closed user leaseID) (\<lambda>closed.
     if closed = Some True
     then (if mode = ''close'' then ret (Inr ()) else ret (Inl (BNew ''funding lease already closed'')))
     else
     try_call (prepareFundingReturn env user leaseID mode) (\<lambda>_.
     try_call (recoverFundingReturn env user leaseID) (\<lambda>_.
     if mode = ''partial'' then ret (Inr ())
     else
     try_call (funding_closed user leaseID) (\<lambda>closed1.
     case closed1 of
       None \<Rightarrow> ret (Inl no_rows)
     | Some True \<Rightarrow> ret (Inr ())
     | Some False \<Rightarrow> return_observations env n user leaseID mode)))))"

definition returnFrozenFunding :: "bridge_env \<Rightarrow> string \<Rightarrow> string \<Rightarrow> string \<Rightarrow> unit call" where
  "returnFrozenFunding env user leaseID mode =
     (if \<not> be_fundingStore env then ret (Inl (BNew ''atomic wallet funding store unavailable''))
      else if \<not> be_signed env then ret (Inl (BNew ''signed wallet funding control unavailable''))
      else if \<not> be_db env then ret (Inl (BNew ''durable funding registry unavailable''))
      else return_observations env 2 user leaseID mode)"

section \<open>Who returns funding\<close>

text \<open>A user short of funds: the free principal of every shared lease; one failure does not stop the others.\<close>

fun reclaim_each ::
  "bridge_env \<Rightarrow> string \<Rightarrow> canonicalWalletLeaseWireView list \<Rightarrow> bool \<Rightarrow> bridge_error option \<Rightarrow> unit call" where
  "reclaim_each env user [] returned firstErr =
     (if returned then ret (Inr ())
      else case firstErr of Some e \<Rightarrow> ret (Inl e) | None \<Rightarrow> ret (Inl ErrCanonicalWalletBalanceShortfall))"
| "reclaim_each env user (v # vs) returned firstErr =
     (let note = (\<lambda>e. if firstErr = None then Some e else firstErr)
      in if lv_FundingScope v = ''media'' \<or> lv_PlatformUserID v \<noteq> user \<or> lv_Status v \<noteq> ''active''
         then reclaim_each env user vs returned firstErr
         else act_bind (recoverFundingReturn env user (lv_LeaseID v)) (\<lambda>r. case r of
           Inl e \<Rightarrow> reclaim_each env user vs returned (note e)
         | Inr _ \<Rightarrow> act_bind (get_lease env user (lv_LeaseID v)) (\<lambda>g. case g of
             Inl e \<Rightarrow> reclaim_each env user vs returned (note e)
           | Inr l \<Rightarrow>
               if (Sealed l \<and> \<not> FundingFrozen l) \<or> BudgetUnits l \<le> wrap64 (ConsumedUnits l - ReleasedUnits l)
               then reclaim_each env user vs returned firstErr
               else act_bind (returnFrozenFunding env user (LeaseID l) ''partial'') (\<lambda>f. case f of
                 Inl e \<Rightarrow> reclaim_each env user vs returned (note e)
               | Inr _ \<Rightarrow> reclaim_each env user vs True firstErr))))"

definition reclaimSharedFreeFunding :: "bridge_env \<Rightarrow> string \<Rightarrow> unit call" where
  "reclaimSharedFreeFunding env user =
     (if \<not> be_signed env then ret (Inl (BNew ''shared funding control unavailable''))
      else try_call (control_pool env user ''llm'') (\<lambda>views.
        if length views > 128 then ret (Inl (BNew ''shared funding pool exceeds return bound''))
        else reclaim_each env user views False None))"

text \<open>A media share whose pin was never made; \<open>basis\<close> is the segment's lease as written down.\<close>

definition closePinlessMediaLease :: "bridge_env \<Rightarrow> string \<Rightarrow> string \<Rightarrow> CanonicalWalletLease \<Rightarrow> unit call" where
  "closePinlessMediaLease env user leaseID basis =
     act_bind (fundingSourceWire env user leaseID) (\<lambda>s.
     case s of
       Inl e \<Rightarrow> if e = BStore ErrCanonicalWalletLeaseMissing then ret (Inr ()) else ret (Inl e)
     | Inr _ \<Rightarrow>
         act_bind (get_lease env user leaseID) (\<lambda>g.
         case g of
           Inr l \<Rightarrow> returnFrozenFunding env user (LeaseID l) ''close''
         | Inl e \<Rightarrow>
             if e \<noteq> BStore ErrCanonicalWalletLeaseMissing then ret (Inl e)
             else if LeaseID basis \<noteq> leaseID \<or> FundingScope basis \<noteq> ''media''
             then ret (Inl (BNew ''pinless media lease basis mismatch''))
             else
               try_call (installFundingLease env (basis\<lparr>ConsumedUnits := 0, ReleasedUnits := 0\<rparr>)) (\<lambda>_.
               returnFrozenFunding env user (LeaseID basis) ''close'')))"

fun close_media_each :: "bridge_env \<Rightarrow> string \<Rightarrow> string \<Rightarrow> string list \<Rightarrow> string list \<Rightarrow> unit call" where
  "close_media_each env user taskID [] seen = ret (Inr ())"
| "close_media_each env user taskID (i # ids) seen =
     (if i = [] \<or> i \<in> set seen then close_media_each env user taskID ids seen
      else
        try_call (recoverFundingReturn env user i) (\<lambda>_.
        try_call (find_freeze user i) (\<lambda>row.
        if (case row of None \<Rightarrow> False | Some r \<Rightarrow> ff_closed r)
        then (if (case row of None \<Rightarrow> False | Some r \<Rightarrow> ff_funding_owner_id r \<noteq> taskID)
              then ret (Inl (BNew ''closed media funding owner mismatch''))
              else close_media_each env user taskID ids (i # seen))
        else
        try_call (get_lease env user i) (\<lambda>l.
        if FundingScope l \<noteq> ''media'' then close_media_each env user taskID ids (i # seen)
        else if FundingOwnerID l \<noteq> taskID then ret (Inl (BNew ''media funding close owner mismatch''))
        else
        try_call (returnFrozenFunding env user (LeaseID l) ''close'') (\<lambda>_.
        close_media_each env user taskID ids (i # seen))))))"

definition closeMediaFundingLeases :: "bridge_env \<Rightarrow> string \<Rightarrow> string \<Rightarrow> string list \<Rightarrow> unit call" where
  "closeMediaFundingLeases env user taskID ids =
     (if \<not> be_db env then ret (Inl (BNew ''media finance acknowledgement unavailable''))
      else try_call (query (\<lambda>w. be_media_acked env w taskID user)) (\<lambda>acknowledged.
        if \<not> acknowledged then ret (Inl (BNew ''media funding awaits complete financial ACK and cleanup''))
        else close_media_each env user taskID ids []))"

text \<open>
  The recovery's work: registrations that wait for their request, their receipt or its application, and
  intents whose registration is missing. Which 16 are taken is \<open>be_oldest\<close>.
\<close>

definition freeze_work :: "funding_freeze \<Rightarrow> bool" where
  "freeze_work r \<longleftrightarrow> ff_pending r \<noteq> None \<or> (ff_receipt r \<noteq> None \<and> ff_redis_applied_revision r < ff_return_revision r)
     \<or> (\<not> ff_closed r \<and> (ff_receipt r = None \<or> ff_requested_mode r = ''close''))"

definition recovery_work :: "world \<Rightarrow> (string \<times> string \<times> string \<times> bool) list" where
  "recovery_work w =
     [(u, l, ff_requested_mode r, ff_pending r = None \<and> \<not> ff_closed r \<and> (ff_receipt r = None \<or> ff_requested_mode r = ''close'')).
        ((u, l), r) \<leftarrow> w_freeze w, freeze_work r]
     @ [(u, l, si_requested_mode i, True). ((u, l), i) \<leftarrow> w_intents w,
          \<not> (case map_of (w_freeze w) (u, l) of None \<Rightarrow> False
               | Some r \<Rightarrow> ff_requested_mode r = si_requested_mode i \<or> ff_closed r)]"

text \<open>A failure only moves its row to the end of the order.\<close>

fun recover_each :: "bridge_env \<Rightarrow> (string \<times> string \<times> string \<times> bool) list \<Rightarrow> unit act" where
  "recover_each env [] = ret ()"
| "recover_each env ((u, l, mode, intent) # work) =
     act_bind (if intent then returnFrozenFunding env u l mode else recoverFundingReturn env u l) (\<lambda>r.
     act_bind (case r of Inl _ \<Rightarrow> act_bind (query (\<lambda>_. ())) (\<lambda>_. query (\<lambda>_. ())) | Inr _ \<Rightarrow> ret (Inr ())) (\<lambda>_.
     recover_each env work))"

definition runFundingRecovery_tick :: "bridge_env \<Rightarrow> unit act" where
  "runFundingRecovery_tick env =
     act_bind (query (\<lambda>w. be_oldest env w (recovery_work w))) (\<lambda>r.
     case r of Inl _ \<Rightarrow> ret () | Inr work \<Rightarrow> recover_each env (take 16 work))"

end
