(* ===== verification/Wallet_Dispatcher.thy ===== *)
theory Wallet_Dispatcher
  imports Wallet_Return
begin

text \<open>
  The outbox dispatcher and the receivable collector of the wallet bridge
  (\<open>service/canonical_wallet_bridge.go\<close>, \<open>canonical_wallet_funding.go\<close>): acquiring a lease, resolving the
  lease of an outbox row, delivering it, and the bodies of the two loops.
\<close>

section \<open>Outbox calls\<close>

definition mark_failed :: "bridge_env \<Rightarrow> int \<Rightarrow> unit act" where
  "mark_failed env i =
     act_bind (read_clock env) (\<lambda>now.
     act_bind (on_outbox (\<lambda>_ t. let t1 = count_attempt i (be_worker env) t
                              in (t1, Inr (map_option ow_attempt_count (find (owned_by i (be_worker env)) (ox_rows t1)))))) (\<lambda>r.
     case r of
       Inr (Some attempts) \<Rightarrow>
         act_bind (on_outbox (\<lambda>_ t. (resolve_attempt i (be_worker env) attempts now t, Inr ()))) (\<lambda>_. ret ())
     | _ \<Rightarrow> ret ()))"

definition mark_dead_letter :: "bridge_env \<Rightarrow> int \<Rightarrow> string \<Rightarrow> unit act" where
  "mark_dead_letter env i reason =
     act_bind (on_outbox (\<lambda>_ t. (MarkOutboxEventDeadLetter i (be_worker env) reason t, Inr ()))) (\<lambda>_. ret ())"

definition mark_delivered :: "bridge_env \<Rightarrow> int \<Rightarrow> unit act" where
  "mark_delivered env i =
     act_bind (on_outbox (\<lambda>w t. (MarkOutboxEventDelivered i (be_worker env) (be_dbnow env w) t, Inr ()))) (\<lambda>_. ret ())"

definition bind_lease :: "bridge_env \<Rightarrow> int \<Rightarrow> string \<Rightarrow> unit call" where
  "bind_lease env i leaseID = on_outbox (\<lambda>_ t.
     case BindOutboxEventLease i (be_worker env) leaseID t of (t1, None) \<Rightarrow> (t1, Inr ()) | (t1, Some e) \<Rightarrow> (t1, Inl e))"

definition clear_release :: "int \<Rightarrow> unit call" where
  "clear_release i = on_outbox (\<lambda>_ t. (ClearPendingRelease i t, Inr ()))"

definition release_reservation ::
  "bridge_env \<Rightarrow> string \<Rightarrow> string \<Rightarrow> string \<Rightarrow> int \<Rightarrow> bool \<Rightarrow> bool call" where
  "release_reservation env user leaseID eventID units dropMarker =
     on_store (\<lambda>w. ReleaseCanonicalWalletReservation (be_H env) user leaseID eventID units dropMarker (be_rnow env w))"

definition seal_lease :: "bridge_env \<Rightarrow> string \<Rightarrow> string \<Rightarrow> (int \<times> int) call" where
  "seal_lease env user leaseID = on_store (\<lambda>_. SealCanonicalWalletLease (be_H env) user leaseID)"

section \<open>Funding gate and exclusions\<close>

definition source_frozen :: "world \<Rightarrow> string \<Rightarrow> string \<Rightarrow> bool" where
  "source_frozen w user leaseID \<longleftrightarrow> map_of (w_freeze w) (user, leaseID) \<noteq> None \<or> map_of (w_intents w) (user, leaseID) \<noteq> None"

text \<open>The frozen sources among the ids of a request.\<close>

fun frozen_sources :: "bridge_env \<Rightarrow> canonicalWalletEnsureRequest \<Rightarrow> string list \<Rightarrow> canonicalWalletEnsureRequest call" where
  "frozen_sources env request [] = ret (Inr request)"
| "frozen_sources env request (i # ids) =
     (if i = [] then frozen_sources env request ids
      else try_call (query (\<lambda>w. source_frozen w (rq_PlatformUserID request) i)) (\<lambda>frozen.
        if \<not> frozen then frozen_sources env request ids
        else if i = rq_TopUpLeaseID request then ret (Inl ErrCanonicalWalletLeaseContention)
        else if i \<in> dr_LeaseID ` set (rq_Drained request) then ret (Inl ErrCanonicalWalletLeaseContention)
        else frozen_sources env (if i = rq_PreferLeaseID request then request\<lparr>rq_PreferLeaseID := []\<rparr> else request) ids))"

text \<open>The gate's begin and commit are statements of their own: \<open>query (\<lambda>_. ())\<close>.\<close>

definition ensureFundingLifecycle ::
  "bridge_env \<Rightarrow> canonicalWalletEnsureRequest \<Rightarrow> canonicalWalletEnsureResult call" where
  "ensureFundingLifecycle env request =
     (if \<not> be_signed env \<or> \<not> be_db env \<or> \<not> be_fundingStore env then control_ensure env request
      else
        try_call (query (\<lambda>_. ())) (\<lambda>_.
        try_call (frozen_sources env request
          (rq_TopUpLeaseID request # rq_PreferLeaseID request # map dr_LeaseID (rq_Drained request))) (\<lambda>request1.
        try_call (control_ensure env request1) (\<lambda>result.
        try_call (query (\<lambda>_. ())) (\<lambda>_. ret (Inr result))))))"

fun late_rows :: "(string \<times> string) list \<Rightarrow> string list \<Rightarrow> string \<Rightarrow> bridge_error + string list \<times> string" where
  "late_rows [] ids token = Inr (ids, token)"
| "late_rows ((i, current) # rest) ids token =
     (if length ids \<ge> 128 then Inl (BNew ''late original funding exceeds exclusion bound'')
      else if token \<noteq> [] \<and> current \<noteq> [] \<and> token \<noteq> current
      then Inl (BNew ''late original authorization token conflict'')
      else late_rows rest (ids @ [i]) (if current \<noteq> [] then current else token))"

definition lateFundingExclusions ::
  "bridge_env \<Rightarrow> CanonicalWalletOutboxEvent \<Rightarrow> (string list \<times> string) call" where
  "lateFundingExclusions env e =
     (if \<not> be_db env then ret (Inr ([], []))
      else try_call (query (\<lambda>w. be_exclusions env w e)) (\<lambda>rows. ret (late_rows rows [] [])))"

definition grant_lease :: "bridge_env \<Rightarrow> CanonicalWalletLease \<Rightarrow> CanonicalWalletLease" where
  "grant_lease env lease = lease\<lparr>RetainUntil := Some (instant (ExpiresAt lease) + be_slot env * 1000000000)\<rparr>"

definition ensureExcludedSettlementFunding ::
  "bridge_env \<Rightarrow> CanonicalWalletOutboxEvent \<Rightarrow> string list \<Rightarrow> CanonicalWalletLease call" where
  "ensureExcludedSettlementFunding env e excluded =
     (let amount = newCanonicalWalletAmountObject (oe_AmountUnits e);
          request = \<lparr>rq_FundingScope = ''settle'', rq_FundingOwnerID = [], rq_FundingIssuanceKey = [],
            rq_ExcludeLeaseIDs = excluded, rq_TopUpLeaseID = [], rq_MinimumBudgetUnits = [], rq_USDWalletPolicyVersion = [],
            rq_PlatformUserID = oe_PlatformUserID e, rq_Currency = oe_Currency e, rq_Purpose = ''settle'',
            rq_MinHeadroom = amount, rq_RequestedBudget = amount, rq_RequestedTTLSeconds = be_LeaseTTLSeconds env,
            rq_PreferLeaseID = [], rq_Drained = [], rq_CallerSlotTTLSeconds = be_slot env\<rparr>
      in try_call
           (act_bind (ensureFundingLifecycle env request) (\<lambda>r.
              if r = Inl ErrCanonicalWalletBalanceShortfall
              then try_call (reclaimSharedFreeFunding env (oe_PlatformUserID e)) (\<lambda>_. ensureFundingLifecycle env request)
              else ret r)) (\<lambda>result.
         if LeaseID (er_Lease result) \<in> set excluded
         then ret (Inl (BNew ''late funding reactivated original released lease''))
         else let lease = grant_lease env (er_Lease result)
              in try_call (installFundingLease env lease) (\<lambda>_. ret (Inr lease))))"

section \<open>Leases\<close>

datatype lease_purpose = Authorize | Settle

definition purpose_name :: "lease_purpose \<Rightarrow> string" where
  "purpose_name p = (case p of Authorize \<Rightarrow> ''authorize'' | Settle \<Rightarrow> ''settle'')"

definition walletFundingScopeForPurpose :: "lease_purpose \<Rightarrow> string" where
  "walletFundingScopeForPurpose p = (if p = Settle then ''settle'' else ''llm'')"

text \<open>
  What becomes of the cached lease before the request: the settle purpose never reuses or seals the
  current source of fresh authorizations but excludes it; media, frozen and, for authorizations,
  settlement leases are not used.
\<close>

definition cached_choice ::
  "lease_purpose \<Rightarrow> CanonicalWalletLease option \<Rightarrow> string \<Rightarrow> CanonicalWalletLease option \<times> string \<times> string list" where
  "cached_choice purpose cached prefer =
     (case cached of
        None \<Rightarrow> (None, prefer, [])
      | Some l \<Rightarrow>
          if purpose = Settle \<and> FundingScope l \<noteq> ''settle'' then (None, [], [LeaseID l])
          else if FundingScope l = ''media'' \<or> FundingFrozen l \<or> (purpose = Authorize \<and> FundingScope l = ''settle'')
          then (None, [], [])
          else (Some l, prefer, []))"

definition ensure_request ::
  "bridge_env \<Rightarrow> string \<Rightarrow> string \<Rightarrow> int \<Rightarrow> lease_purpose \<Rightarrow> string \<Rightarrow> string list \<Rightarrow> string \<Rightarrow> canonicalWalletEnsureRequest" where
  "ensure_request env user currency amountUnits purpose prefer excluded policyVersion =
     \<lparr>rq_FundingScope = walletFundingScopeForPurpose purpose, rq_FundingOwnerID = [], rq_FundingIssuanceKey = [],
      rq_ExcludeLeaseIDs = excluded, rq_TopUpLeaseID = [], rq_MinimumBudgetUnits = [],
      rq_USDWalletPolicyVersion = policyVersion, rq_PlatformUserID = TrimSpace user, rq_Currency = currency,
      rq_Purpose = purpose_name purpose, rq_MinHeadroom = newCanonicalWalletAmountObject amountUnits,
      rq_RequestedBudget = newCanonicalWalletAmountObject
        (if purpose = Settle \<or> amountUnits > be_LeaseBudgetUnits env then amountUnits else be_LeaseBudgetUnits env),
      rq_RequestedTTLSeconds = be_LeaseTTLSeconds env, rq_PreferLeaseID = prefer, rq_Drained = [],
      rq_CallerSlotTTLSeconds = be_slot env\<rparr>"

text \<open>A lease in hand that does not cover: topped up when pinned, otherwise sealed and drained.\<close>

definition drain_or_top_up ::
  "bridge_env \<Rightarrow> string \<Rightarrow> int \<Rightarrow> lease_purpose \<Rightarrow> string \<Rightarrow> int \<Rightarrow> CanonicalWalletLease \<Rightarrow> canonicalWalletEnsureRequest
     \<Rightarrow> canonicalWalletEnsureRequest call" where
  "drain_or_top_up env user amountUnits purpose policyVersion now l request =
     try_call (if be_db env then query (\<lambda>w. be_pinned env w user (LeaseID l)) else ret (Inr False)) (\<lambda>pinned0.
       let expired = leaseExpiredAt (be_margin env) (Some l) now;
           pinned = (pinned0 \<or> (policyVersion \<noteq> [] \<and> purpose = Authorize \<and> \<not> expired \<and> \<not> Sealed l))
       in if pinned then
            (if expired \<or> Sealed l then ret (Inl (BStore ErrCanonicalWalletLeaseExpired))
             else case AddUnits (BudgetUnits l) (wrap64 (amountUnits - RemainingUnits l)) of
                 Inl e \<Rightarrow> ret (Inl (BUnits e))
               | Inr target \<Rightarrow> ret (Inr (request\<lparr>rq_TopUpLeaseID := LeaseID l, rq_MinimumBudgetUnits := show_int target,
                                  rq_PreferLeaseID := LeaseID l\<rparr>)))
          else act_bind (seal_lease env user (LeaseID l)) (\<lambda>r. case r of
              Inl e \<Rightarrow> if e = BStore ErrCanonicalWalletLeaseMissing then ret (Inr request) else ret (Inl e)
            | Inr (preSealConsumed, preSealReleased) \<Rightarrow>
                ret (Inr (request\<lparr>rq_Drained := [\<lparr>dr_LeaseID = LeaseID l,
                   dr_GatewayConsumed = newCanonicalWalletAmountObject preSealConsumed,
                   dr_GatewayReleased = (if preSealReleased > 0 then Some (newCanonicalWalletAmountObject preSealReleased) else None)\<rparr>]\<rparr>))))"

text \<open>The grant: asked for (again after shared funding was reclaimed), checked and installed.\<close>

definition obtain_grant ::
  "bridge_env \<Rightarrow> string \<Rightarrow> int \<Rightarrow> lease_purpose \<Rightarrow> string \<Rightarrow> int \<Rightarrow> CanonicalWalletLease option \<Rightarrow> canonicalWalletEnsureRequest
     \<Rightarrow> CanonicalWalletLease call" where
  "obtain_grant env user amountUnits purpose policyVersion now cached request =
     try_call
       (act_bind (ensureFundingLifecycle env request) (\<lambda>r.
          if purpose = Settle \<and> r = Inl ErrCanonicalWalletBalanceShortfall \<and> be_db env \<and> be_fundingStore env \<and> be_signed env
          then try_call (reclaimSharedFreeFunding env user) (\<lambda>_. ensureFundingLifecycle env request)
          else ret r)) (\<lambda>result.
     let lease = er_Lease result
     in if policyVersion \<noteq> [] \<and> er_USDWalletPolicyVersion result \<noteq> policyVersion then ret (Inl ErrCanonicalUSDWalletPolicy)
        else if rq_TopUpLeaseID request \<noteq> [] \<and> (case cached of None \<Rightarrow> True | Some l \<Rightarrow>
                  LeaseID lease \<noteq> LeaseID l \<or> BudgetUnits lease < BudgetUnits l
                  \<or> UnixMilli (instant (ExpiresAt lease)) > UnixMilli (instant (ExpiresAt l)))
        then ret (Inl (BNew ''canonical wallet top-up changed lease identity or extended expiry''))
        else if leaseExpiredAt (be_margin env) (Some lease) now then ret (Inl (BStore ErrCanonicalWalletLeaseExpired))
        else if purpose = Authorize \<and> RemainingUnits lease < amountUnits then ret (Inl ErrCanonicalWalletLeaseGrantBelowAmount)
        else let granted = grant_lease env lease
             in try_call (installFundingLease env granted) (\<lambda>_. ret (Inr granted)))"

definition ensure_from_cache ::
  "bridge_env \<Rightarrow> string \<Rightarrow> string \<Rightarrow> int \<Rightarrow> lease_purpose \<Rightarrow> string \<Rightarrow> string \<Rightarrow> int \<Rightarrow> CanonicalWalletLease option
     \<Rightarrow> CanonicalWalletLease call" where
  "ensure_from_cache env user currency amountUnits purpose prefer policyVersion now cached0 =
     (case cached_choice purpose cached0 prefer of (cached, prefer1, excluded) \<Rightarrow>
        let covering = leaseCovers (be_margin env) cached currency amountUnits now
        in case cached of
             None \<Rightarrow>
               obtain_grant env user amountUnits purpose policyVersion now None
                 (ensure_request env user currency amountUnits purpose prefer1 excluded policyVersion)
           | Some l \<Rightarrow>
               if covering \<and> policyVersion = [] then ret (Inr l)
               else let prefer2 = (if covering \<and> prefer1 = [] then LeaseID l else prefer1);
                        request = ensure_request env user currency amountUnits purpose prefer2 excluded policyVersion
                    in if covering then obtain_grant env user amountUnits purpose policyVersion now cached request
                       else try_call (drain_or_top_up env user amountUnits purpose policyVersion now l request)
                              (obtain_grant env user amountUnits purpose policyVersion now cached))"

definition get_current_lease :: "bridge_env \<Rightarrow> string \<Rightarrow> CanonicalWalletLease call" where
  "get_current_lease env user = on_store (\<lambda>_ c. (c, GetCanonicalWalletLease (be_H env) user c))"

definition ensureLeaseWithPolicy ::
  "bridge_env \<Rightarrow> string \<Rightarrow> string \<Rightarrow> int \<Rightarrow> lease_purpose \<Rightarrow> string \<Rightarrow> string \<Rightarrow> CanonicalWalletLease call" where
  "ensureLeaseWithPolicy env user currency amountUnits purpose prefer policyVersion =
     (if policyVersion \<noteq> [] \<and> policyVersion \<noteq> CanonicalUSDWalletPolicyVersion then ret (Inl ErrCanonicalUSDWalletPolicy)
      else if \<not> be_wired env then ret (Inl (BNew ''canonical wallet bridge dependencies unavailable''))
      else
        act_bind (read_clock env) (\<lambda>now.
        act_bind (if prefer \<noteq> [] then get_lease env user prefer else get_current_lease env user) (\<lambda>r.
          case r of
            Inl e \<Rightarrow>
              if e = BStore ErrCanonicalWalletLeaseMissing
              then ensure_from_cache env user currency amountUnits purpose prefer policyVersion now None
              else ret (Inl e)
          | Inr l0 \<Rightarrow>
              try_call (applyFundingRegistry env l0) (\<lambda>l.
                if prefer \<noteq> [] \<and> policyVersion = [] \<and> (purpose \<noteq> Authorize
                     \<or> (FundingScope l \<noteq> ''media'' \<and> FundingScope l \<noteq> ''settle'' \<and> \<not> FundingFrozen l))
                then ret (Inr l)
                else ensure_from_cache env user currency amountUnits purpose prefer policyVersion now (Some l)))))"

definition ensureLease ::
  "bridge_env \<Rightarrow> string \<Rightarrow> string \<Rightarrow> int \<Rightarrow> lease_purpose \<Rightarrow> string \<Rightarrow> CanonicalWalletLease call" where
  "ensureLease env user currency amountUnits purpose prefer =
     ensureLeaseWithPolicy env user currency amountUnits purpose prefer []"

section \<open>The lease of an outbox row\<close>

text \<open>The bound lease was found: refreshed when frozen, and used when it can still take the event.\<close>

definition resolve_bound ::
  "bridge_env \<Rightarrow> CanonicalWalletOutboxEvent \<Rightarrow> CanonicalWalletLease \<Rightarrow> CanonicalWalletLease call" where
  "resolve_bound env e lease0 =
     try_call (applyFundingRegistry env lease0) (\<lambda>lease1.
     let lease = (if FundingFrozen lease1 then lease1\<lparr>RequireCachedLease := True\<rparr> else lease1)
     in try_call (if FundingFrozen lease1 then install_lease env lease else ret (Inr ())) (\<lambda>_.
        act_bind (read_clock env) (\<lambda>now.
        try_call (if Currency lease = oe_Currency e \<and> (Sealed lease \<or> leaseExpiredAt (be_margin env) (Some lease) now)
                     \<and> oe_AuthorizationID e \<noteq> [] \<and> be_db env
                  then query (\<lambda>w. be_protected env w e) else ret (Inr False)) (\<lambda>protected.
        if protected then ret (Inr lease)
        else act_bind (read_clock env) (\<lambda>now2.
          if Currency lease = oe_Currency e \<and> \<not> leaseExpiredAt (be_margin env) (Some lease) now2 then ret (Inr lease)
          else ensureLease env (oe_PlatformUserID e) (oe_Currency e) (oe_AmountUnits e) Settle [])))))"

definition resolve_kept ::
  "bridge_env \<Rightarrow> CanonicalWalletOutboxEvent \<Rightarrow> CanonicalWalletLease call" where
  "resolve_kept env e =
     (if \<not> be_wired env then ret (Inl (BNew ''canonical wallet bridge dependencies unavailable''))
      else
        try_call (recoverFundingReturn env (oe_PlatformUserID e) (oe_LeaseID e)) (\<lambda>_.
        act_bind (get_lease env (oe_PlatformUserID e) (oe_LeaseID e)) (\<lambda>r.
          case r of
            Inr lease \<Rightarrow> resolve_bound env e lease
          | Inl err \<Rightarrow>
              if err \<noteq> BStore ErrCanonicalWalletLeaseMissing then ret (Inl err)
              else
                try_call (if oe_AuthorizationID e \<noteq> [] \<and> be_db env then query (\<lambda>w. be_protected env w e) else ret (Inr False))
                  (\<lambda>protected.
                     if protected then ret (Inl (BNew ''protected settlement awaits original lease recovery''))
                     else ensureLease env (oe_PlatformUserID e) (oe_Currency e) (oe_AmountUnits e) Settle (oe_LeaseID e)))))"

definition resolveOutboxEventLease ::
  "bridge_env \<Rightarrow> CanonicalWalletOutboxEvent \<Rightarrow> CanonicalWalletLease call" where
  "resolveOutboxEventLease env e =
     try_call (lateFundingExclusions env e) (\<lambda>(excluded, _).
     try_call (if excluded \<noteq> [] \<and> oe_LeaseID e \<noteq> [] \<and> oe_LeaseID e \<in> set excluded
               then try_call (bind_lease env (oe_ID e) []) (\<lambda>_. ret (Inr [])) else ret (Inr (oe_LeaseID e))) (\<lambda>leaseID.
       if excluded \<noteq> [] \<and> leaseID = [] then ensureExcludedSettlementFunding env (e\<lparr>oe_LeaseID := leaseID\<rparr>) excluded
       else if leaseID = [] then ensureLease env (oe_PlatformUserID e) (oe_Currency e) (oe_AmountUnits e) Settle []
       else resolve_kept env e))"

section \<open>Delivery\<close>

definition settlement_event :: "CanonicalWalletOutboxEvent \<Rightarrow> CanonicalWalletSettlementEvent" where
  "settlement_event e = \<lparr>se_EventID = oe_EventID e, se_GatewayRequestID = oe_GatewayRequestID e,
     se_PlatformUserID = oe_PlatformUserID e, se_LeaseID = oe_LeaseID e, se_Currency = oe_Currency e,
     se_AmountUnits = oe_AmountUnits e, se_LocalBalanceAfterUnits = oe_LocalBalanceAfterUnits e,
     se_OccurredAt = Some (oe_OccurredAt e), se_AuthorizationToken = [], se_AuthorizationID = oe_AuthorizationID e,
     se_BillingSnapshotID = oe_BillingSnapshotID e\<rparr>"

definition remainder_id :: "CanonicalWalletOutboxEvent \<Rightarrow> string" where
  "remainder_id e = oe_EventID e @ '':r'' @ show_int (oe_SplitDepth e + 1)"

definition splitOutboxEvent ::
  "bridge_env \<Rightarrow> CanonicalWalletOutboxEvent \<Rightarrow> string \<Rightarrow> int \<Rightarrow> bool \<Rightarrow> unit act" where
  "splitOutboxEvent env e leaseID headroomUnits reserved =
     (if oe_SplitDepth e \<ge> 8 then mark_dead_letter env (oe_ID e) ''split_exhausted''
      else
        act_bind (on_outbox (\<lambda>w. SplitOutboxEvent (be_digest env) (be_dbnow env w) (oe_ID e) (be_worker env)
                             headroomUnits (remainder_id e) reserved)) (\<lambda>r.
          case r of
            Inl _ \<Rightarrow> mark_failed env (oe_ID e)
          | Inr remainderUnits \<Rightarrow>
              if \<not> reserved then ret ()
              else
                act_bind (release_reservation env (oe_PlatformUserID e) leaseID (oe_EventID e) remainderUnits False) (\<lambda>rel.
                  case rel of
                    Inl _ \<Rightarrow> ret ()
                  | Inr _ \<Rightarrow>
                      act_bind (clear_release (oe_ID e)) (\<lambda>clr.
                        case clr of
                          Inl _ \<Rightarrow> ret ()
                        | Inr _ \<Rightarrow> act_bind (seal_lease env (oe_PlatformUserID e) leaseID) (\<lambda>_. ret ())))))"

text \<open>The control plane closed the lease: give the reservation back, unbind, seal, and count the attempt.\<close>

definition late_capture :: "bridge_env \<Rightarrow> CanonicalWalletOutboxEvent \<Rightarrow> string \<Rightarrow> unit act" where
  "late_capture env e leaseID =
     act_bind (release_reservation env (oe_PlatformUserID e) leaseID (oe_EventID e) (oe_AmountUnits e) True) (\<lambda>_.
     act_bind (bind_lease env (oe_ID e) []) (\<lambda>_.
     act_bind (seal_lease env (oe_PlatformUserID e) leaseID) (\<lambda>_.
     mark_failed env (oe_ID e))))"

text \<open>A pinned root is never split: it is given back whole and becomes the receivable.\<close>

definition pinned_over_capture :: "bridge_env \<Rightarrow> CanonicalWalletOutboxEvent \<Rightarrow> string \<Rightarrow> unit act" where
  "pinned_over_capture env e leaseID =
     act_bind (release_reservation env (oe_PlatformUserID e) leaseID (oe_EventID e) (oe_AmountUnits e) True) (\<lambda>rel.
       case rel of
         Inl _ \<Rightarrow> mark_failed env (oe_ID e)
       | Inr _ \<Rightarrow>
           act_bind (bind_lease env (oe_ID e) []) (\<lambda>b.
             case b of
               Inl _ \<Rightarrow> ret ()
             | Inr _ \<Rightarrow>
                 act_bind (seal_lease env (oe_PlatformUserID e) leaseID) (\<lambda>s.
                   case s of
                     Inl err \<Rightarrow>
                       if err = BStore ErrCanonicalWalletLeaseMissing
                       then mark_dead_letter env (oe_ID e) ''balance_shortfall'' else mark_failed env (oe_ID e)
                   | Inr _ \<Rightarrow> mark_dead_letter env (oe_ID e) ''balance_shortfall'')))"

definition settlement_refused ::
  "bridge_env \<Rightarrow> CanonicalWalletOutboxEvent \<Rightarrow> bool \<Rightarrow> string \<Rightarrow> string \<Rightarrow> bridge_error \<Rightarrow> unit act" where
  "settlement_refused env e latePinned leaseID reservedOn err =
     (case err of
        BStatus se \<Rightarrow>
          if ste_Reason se = ''lease_over_capture'' then
            (if latePinned then pinned_over_capture env e reservedOn
             else splitOutboxEvent env e leaseID (case ste_HeadroomUnits se of None \<Rightarrow> 0 | Some h \<Rightarrow> h) True)
          else if ste_Reason se = ''lease_not_capturable'' then late_capture env e reservedOn
          else (case classifyControlPlaneError err of
                  Some reason \<Rightarrow> mark_dead_letter env (oe_ID e) reason
                | None \<Rightarrow> mark_failed env (oe_ID e))
      | _ \<Rightarrow> mark_failed env (oe_ID e))"

definition settlement_accepted ::
  "bridge_env \<Rightarrow> CanonicalWalletOutboxEvent \<Rightarrow> CanonicalWalletSettlementResult \<Rightarrow> unit act" where
  "settlement_accepted env e result =
     act_bind
       (if sr_Duplicate result \<and> sr_NamedLeaseID result \<noteq> [] \<and> sr_NamedLeaseID result \<noteq> sr_EventLeaseID result
        then release_reservation env (oe_PlatformUserID e) (sr_NamedLeaseID result) (oe_EventID e) (oe_AmountUnits e) True
        else ret (Inr False))
       (\<lambda>_. mark_delivered env (oe_ID e))"

definition reserve_and_submit ::
  "bridge_env \<Rightarrow> CanonicalWalletOutboxEvent \<Rightarrow> bool \<Rightarrow> string \<Rightarrow> string \<Rightarrow> unit act" where
  "reserve_and_submit env e latePinned originalToken leaseID =
     act_bind (on_store (\<lambda>w. ReserveCanonicalWalletLease (be_H env) (oe_PlatformUserID e) leaseID (oe_Currency e)
                 (oe_EventID e) (oe_AmountUnits e) (be_clock env w))) (\<lambda>r.
       case r of
         Inl err \<Rightarrow>
           act_bind (if canonicalWalletLeaseBindingIsStale err then bind_lease env (oe_ID e) [] else ret (Inr ())) (\<lambda>_.
           mark_failed env (oe_ID e))
       | Inr reservation \<Rightarrow>
           (let reservedOn = LeaseID (res_Lease reservation)
            in act_bind (control_submit env ((settlement_event e)\<lparr>se_LeaseID := reservedOn, se_AuthorizationToken := originalToken\<rparr>)) (\<lambda>s.
                 case s of
                   Inl err \<Rightarrow> settlement_refused env e latePinned leaseID reservedOn err
                 | Inr result \<Rightarrow> settlement_accepted env e result)))"

text \<open>With the lease in hand: the shortfall of a pinned root, the proactive split, or bind and reserve.\<close>

definition deliver_on ::
  "bridge_env \<Rightarrow> CanonicalWalletOutboxEvent \<Rightarrow> bool \<Rightarrow> string \<Rightarrow> CanonicalWalletLease \<Rightarrow> unit act" where
  "deliver_on env e latePinned originalToken lease =
     (if latePinned \<and> (oe_LeaseID e = [] \<or> oe_LeaseID e \<noteq> LeaseID lease) \<and> RemainingUnits lease < oe_AmountUnits e
      then mark_dead_letter env (oe_ID e) ''balance_shortfall''
      else if oe_LeaseID e = [] \<and> RemainingUnits lease > 0 \<and> RemainingUnits lease < oe_AmountUnits e
      then splitOutboxEvent env e (LeaseID lease) (RemainingUnits lease) False
      else if LeaseID lease \<noteq> oe_LeaseID e
      then act_bind (bind_lease env (oe_ID e) (LeaseID lease)) (\<lambda>b.
             case b of
               Inl err \<Rightarrow> if err = BOutbox ErrCanonicalWalletOutboxClaimLost then ret () else mark_failed env (oe_ID e)
             | Inr _ \<Rightarrow> reserve_and_submit env e latePinned originalToken (LeaseID lease))
      else reserve_and_submit env e latePinned originalToken (LeaseID lease))"

definition deliver_resolved ::
  "bridge_env \<Rightarrow> CanonicalWalletOutboxEvent \<Rightarrow> bool \<Rightarrow> string \<Rightarrow> unit act" where
  "deliver_resolved env e latePinned originalToken =
     act_bind (resolveOutboxEventLease env e) (\<lambda>r.
       case r of
         Inl err \<Rightarrow>
           if err = ErrCanonicalWalletBalanceShortfall then mark_dead_letter env (oe_ID e) ''balance_shortfall''
           else (case classifyControlPlaneError err of
                   Some reason \<Rightarrow> mark_dead_letter env (oe_ID e) reason
                 | None \<Rightarrow> mark_failed env (oe_ID e))
       | Inr lease \<Rightarrow> deliver_on env e latePinned originalToken lease)"

text \<open>The release owed to the bound lease is paid before anything else.\<close>

definition pay_release :: "bridge_env \<Rightarrow> CanonicalWalletOutboxEvent \<Rightarrow> unit call" where
  "pay_release env e =
     (case oe_PendingReleaseUnits e of
        None \<Rightarrow> ret (Inr ())
      | Some units \<Rightarrow>
          try_call (release_reservation env (oe_PlatformUserID e) (oe_LeaseID e) (oe_EventID e) units False) (\<lambda>_.
          clear_release (oe_ID e)))"

definition deliverOutboxEvent :: "bridge_env \<Rightarrow> CanonicalWalletOutboxEvent \<Rightarrow> unit act" where
  "deliverOutboxEvent env e =
     act_bind (if oe_AuthorizationID e \<noteq> [] \<and> oe_BillingSnapshotID e \<noteq> [] \<and> be_db env
               then query (\<lambda>w. be_late_pinned env w e) else ret (Inr False)) (\<lambda>p.
       case p of Inl _ \<Rightarrow> mark_failed env (oe_ID e) | Inr pinned \<Rightarrow>
     act_bind (lateFundingExclusions env e) (\<lambda>x.
       case x of Inl _ \<Rightarrow> mark_failed env (oe_ID e) | Inr (excluded, originalToken) \<Rightarrow>
     act_bind (pay_release env e) (\<lambda>d.
       case d of Inl _ \<Rightarrow> mark_failed env (oe_ID e) | Inr _ \<Rightarrow>
     deliver_resolved env e (pinned \<or> excluded \<noteq> []) originalToken)))"

section \<open>The loops' bodies\<close>

fun deliver_all :: "bridge_env \<Rightarrow> CanonicalWalletOutboxEvent list \<Rightarrow> unit act" where
  "deliver_all env [] = ret ()"
| "deliver_all env (e # es) = act_bind (deliverOutboxEvent env e) (\<lambda>_. deliver_all env es)"

definition walletOutboxDispatchBatch :: nat where
  "walletOutboxDispatchBatch = 10"

text \<open>One tick of the dispatcher.\<close>

definition runOutboxDispatcher_tick :: "bridge_env \<Rightarrow> unit act" where
  "runOutboxDispatcher_tick env =
     (let staleAfter = 2 * int walletOutboxDispatchBatch * (be_RequestTimeoutMS env * 1000000)
      in act_bind (on_outbox (\<lambda>w t. (fst (ReclaimStaleInFlightEvents staleAfter (be_clock env w) t), Inr ()))) (\<lambda>_.
         act_bind (on_outbox (\<lambda>w t. case ClaimPendingOutboxEvents (be_locked env w) (be_worker env) walletOutboxDispatchBatch
                                (be_dbnow env w) t of (t1, es) \<Rightarrow> (t1, Inr es))) (\<lambda>r.
           case r of Inl _ \<Rightarrow> ret () | Inr es \<Rightarrow> deliver_all env es)))"

definition receivableRedriveIntervalSeconds :: "bridge_env \<Rightarrow> int" where
  "receivableRedriveIntervalSeconds env = (if be_RedriveIntervalSeconds env \<le> 0 then 300 else be_RedriveIntervalSeconds env)"

definition receivableRedriveMaxAttempts :: "bridge_env \<Rightarrow> int" where
  "receivableRedriveMaxAttempts env = (if be_RedriveMaxAttempts env \<le> 0 then 30 else be_RedriveMaxAttempts env)"

definition retentionDays :: "bridge_env \<Rightarrow> int" where
  "retentionDays env = (if be_RetentionDays env \<le> 0 then 45 else be_RetentionDays env)"

definition walletReceivableRedriveBatch :: int where
  "walletReceivableRedriveBatch = 100"

fun requeue_all :: "bridge_env \<Rightarrow> CanonicalWalletOutboxEvent list \<Rightarrow> unit act" where
  "requeue_all env [] = ret ()"
| "requeue_all env (c # cs) =
     (if oe_RedriveCount c \<ge> receivableRedriveMaxAttempts env then requeue_all env cs
      else act_bind (on_outbox (\<lambda>w t. (RequeueDeadLetter (oe_ID c) (be_dbnow env w) t, Inr ()))) (\<lambda>_. requeue_all env cs))"

definition collectReceivableOnce :: "bridge_env \<Rightarrow> unit act" where
  "collectReceivableOnce env =
     (if \<not> be_db env then ret ()
      else
        act_bind (on_store (\<lambda>w. TryCanonicalWalletReceivableCollectorLease
                    (2 * (receivableRedriveIntervalSeconds env * 1000)) (be_rnow env w))) (\<lambda>held.
          if held \<noteq> Inr True then ret ()
          else
            act_bind (read_clock env) (\<lambda>now.
            act_bind (on_outbox (\<lambda>_ t. (t, Inr (ListReceivableRedriveCandidates
                        (now - retentionDays env * 86400000000000) (receivableRedriveMaxAttempts env)
                        walletReceivableRedriveBatch t)))) (\<lambda>r.
              case r of Inl _ \<Rightarrow> ret () | Inr candidates \<Rightarrow> requeue_all env candidates))))"

end
