(* ===== verification/Wallet_Actions.thy ===== *)
theory Wallet_Actions
  imports Wallet_World
begin

text \<open>
  Reasoning about the bridge's actions: relations between worlds that an action keeps, whatever faults
  it meets and wherever its process dies.
\<close>

section \<open>What an action keeps\<close>

definition keeps :: "(world \<Rightarrow> world \<Rightarrow> bool) \<Rightarrow> 'a act \<Rightarrow> bool" where
  "keeps R m \<longleftrightarrow> (\<forall>w. R w (fst (m w)))"

lemma keepsD: "keeps R m \<Longrightarrow> R w (fst (m w))"
  by (simp add: keeps_def)

locale world_order =
  fixes R :: "world \<Rightarrow> world \<Rightarrow> bool"
  assumes R_refl: "R w w"
    and R_trans: "R u v \<Longrightarrow> R v w \<Longrightarrow> R u w"
    and R_faults: "R w (w\<lparr>w_faults := fs\<rparr>)"
begin

lemma keeps_ret: "keeps R (ret x)"
  by (simp add: keeps_def ret_def R_refl)

lemma keeps_clock: "keeps R (read_clock env)"
  by (simp add: keeps_def read_clock_def R_refl)

lemma keeps_bind:
  assumes "keeps R m" "\<And>x. keeps R (f x)"
  shows "keeps R (act_bind m f)"
  unfolding keeps_def
proof
  fix w
  show "R w (fst (act_bind m f w))"
  proof (cases "m w")
    case (Pair w1 r)
    then have 1: "R w w1" using keepsD [OF assms(1), of w] by simp
    show ?thesis
    proof (cases r)
      case None
      then show ?thesis using Pair 1 by (simp add: act_bind_def)
    next
      case (Some x)
      then show ?thesis using Pair R_trans [OF 1 keepsD [OF assms(2)]] by (simp add: act_bind_def)
    qed
  qed
qed

lemma keeps_try: "keeps R m \<Longrightarrow> (\<And>x. keeps R (f x)) \<Longrightarrow> keeps R (try_call m f)"
  unfolding try_call_def by (intro keeps_bind) (auto split: sum.split intro: keeps_ret)

lemma keeps_remote:
  assumes "\<And>w. R w (fst (f w))"
  shows "keeps R (remote f)"
  unfolding keeps_def
proof
  fix w
  show "R w (fst (remote f w))"
  proof (cases "w_faults w")
    case Nil
    then show ?thesis using assms by (simp add: remote_def case_prod_beta Let_def)
  next
    case (Cons m ms)
    have "R w (fst (f (w\<lparr>w_faults := ms\<rparr>)))" using R_trans [OF R_faults assms] .
    then show ?thesis using Cons by (cases m) (simp_all add: remote_def case_prod_beta Let_def R_faults)
  qed
qed

lemma keeps_query: "keeps R (query q)"
  unfolding query_def by (rule keeps_remote) (simp add: R_refl)

lemma keeps_if: "(b \<Longrightarrow> keeps R m) \<Longrightarrow> (\<not> b \<Longrightarrow> keeps R n) \<Longrightarrow> keeps R (if b then m else n)"
  by simp

lemma keeps_case_option:
  "keeps R m \<Longrightarrow> (\<And>x. keeps R (f x)) \<Longrightarrow> keeps R (case v of None \<Rightarrow> m | Some x \<Rightarrow> f x)"
  by (simp split: option.split)

lemma keeps_case_sum:
  "(\<And>x. keeps R (f x)) \<Longrightarrow> (\<And>x. keeps R (g x)) \<Longrightarrow> keeps R (case v of Inl x \<Rightarrow> f x | Inr x \<Rightarrow> g x)"
  by (simp split: sum.split)

lemma keeps_case_prod: "(\<And>x y. keeps R (f x y)) \<Longrightarrow> keeps R (case v of (x, y) \<Rightarrow> f x y)"
  by (simp split: prod.split)

lemma keeps_case_bool: "keeps R m \<Longrightarrow> keeps R n \<Longrightarrow> keeps R (case v of True \<Rightarrow> m | False \<Rightarrow> n)"
  by (simp split: bool.split)

lemmas keeps_rules = keeps_ret keeps_clock keeps_bind keeps_try keeps_query keeps_if
  keeps_case_option keeps_case_sum keeps_case_prod keeps_case_bool

end

end
