(* ===== verification/Wallet_Outbox_Ledger.thy ===== *)
theory Wallet_Outbox_Ledger
  imports Wallet_Outbox
begin

text \<open>
  Runs of the settlement outbox: the operations of any number of dispatchers, collectors and pruners
  in any order. The table stays well formed, a claimed row belongs to its claimant, the units of a
  request are conserved, and the attempts of a row are bounded.
\<close>

section \<open>Operations and their runs\<close>

text \<open>\<open>OCount\<close> is a failure whose process died between its two statements.\<close>

datatype outbox_op =
    OInsert int CanonicalWalletSettlementEvent
  | OClaim "int \<Rightarrow> bool" string nat int
  | OReclaim int int
  | ODelivered int string int
  | OFailed int string int
  | OCount int string
  | ODead int string string
  | OBind int string string
  | OSplit int int string int string bool
  | OClear int
  | ORequeue int int
  | OPrune "string \<Rightarrow> bool" "int \<Rightarrow> bool" int int

fun outbox_step :: "(walletOutboxHashPayload \<Rightarrow> string) \<Rightarrow> outbox_op \<Rightarrow> outbox \<Rightarrow> outbox" where
  "outbox_step digest (OInsert now e) t = fst (InsertOutboxEventTx digest now e t)"
| "outbox_step digest (OClaim locked w limit now) t = fst (ClaimPendingOutboxEvents locked w limit now t)"
| "outbox_step digest (OReclaim staleAfter now) t = fst (ReclaimStaleInFlightEvents staleAfter now t)"
| "outbox_step digest (ODelivered i w now) t = MarkOutboxEventDelivered i w now t"
| "outbox_step digest (OFailed i w now) t = MarkOutboxEventFailed i w now t"
| "outbox_step digest (OCount i w) t = count_attempt i w t"
| "outbox_step digest (ODead i w reason) t = MarkOutboxEventDeadLetter i w reason t"
| "outbox_step digest (OBind i w l) t = fst (BindOutboxEventLease i w l t)"
| "outbox_step digest (OSplit now i w captured ev reserved) t = fst (SplitOutboxEvent digest now i w captured ev reserved t)"
| "outbox_step digest (OClear i) t = ClearPendingRelease i t"
| "outbox_step digest (ORequeue i now) t = RequeueDeadLetter i now t"
| "outbox_step digest (OPrune open_segment locked cutoff batch) t = fst (PruneDeliveredOlderThan open_segment locked cutoff batch t)"

abbreviation outbox_run :: "(walletOutboxHashPayload \<Rightarrow> string) \<Rightarrow> outbox_op list \<Rightarrow> outbox \<Rightarrow> outbox" where
  "outbox_run digest \<equiv> fold (outbox_step digest)"

text \<open>Settlements are observed with a non-negative amount.\<close>

definition op_ok :: "outbox_op \<Rightarrow> bool" where
  "op_ok op = (case op of OInsert now e \<Rightarrow> 0 \<le> se_AmountUnits e | _ \<Rightarrow> True)"

text \<open>A row agrees with its status.\<close>

definition row_ok :: "outbox_row \<Rightarrow> bool" where
  "row_ok r \<longleftrightarrow> ow_status r \<in> {''pending'', ''in_flight'', ''delivered'', ''dead_letter''}
     \<and> (ow_status r = ''in_flight'' \<longleftrightarrow> ow_claimed_by r \<noteq> None)
     \<and> (ow_status r = ''in_flight'' \<longleftrightarrow> ow_claimed_at r \<noteq> None)
     \<and> (ow_status r = ''delivered'' \<longleftrightarrow> ow_delivered_at r \<noteq> None)
     \<and> (ow_status r = ''dead_letter'' \<longleftrightarrow> ow_dead_letter_reason r \<noteq> None)
     \<and> (ow_split_depth r = 0 \<longleftrightarrow> ow_parent_event_id r = None)
     \<and> 0 \<le> ow_split_depth r \<and> 0 \<le> ow_amount_units r \<and> 0 \<le> ow_attempt_count r \<and> 0 \<le> ow_redrive_count r
     \<and> (case ow_pending_release_units r of None \<Rightarrow> True | Some u \<Rightarrow> 0 \<le> u)"

definition outbox_inv :: "outbox \<Rightarrow> bool" where
  "outbox_inv t \<longleftrightarrow> distinct (map ow_id (ox_rows t)) \<and> distinct (map ow_event_id (ox_rows t))
     \<and> (\<forall>r\<in>set (ox_rows t). ow_id r < ox_next t \<and> row_ok r)"

text \<open>What is recorded for a request, and the part of it that is delivered.\<close>

definition units_where :: "(outbox_row \<Rightarrow> bool) \<Rightarrow> outbox \<Rightarrow> int" where
  "units_where P t = sum_list (map ow_amount_units (filter P (ox_rows t)))"

abbreviation request_units :: "string \<Rightarrow> outbox \<Rightarrow> int" where
  "request_units req \<equiv> units_where (\<lambda>r. ow_gateway_request_id r = req)"

abbreviation delivered_units :: "string \<Rightarrow> outbox \<Rightarrow> int" where
  "delivered_units req \<equiv> units_where (\<lambda>r. ow_gateway_request_id r = req \<and> ow_status r = ''delivered'')"

section \<open>Updates\<close>

text \<open>The columns no update may touch.\<close>

definition same_identity :: "outbox_row \<Rightarrow> outbox_row \<Rightarrow> bool" where
  "same_identity r r' \<longleftrightarrow> ow_id r' = ow_id r \<and> ow_event_id r' = ow_event_id r \<and> ow_payload_hash r' = ow_payload_hash r
     \<and> ow_gateway_request_id r' = ow_gateway_request_id r"

lemma update_where_simps [simp]:
  "ox_rows (update_where P f t) = map (\<lambda>r. if P r then f r else r) (ox_rows t)"
  "ox_next (update_where P f t) = ox_next t"
  by (simp_all add: update_where_def)

lemma update_where_inv:
  assumes "outbox_inv t" "\<And>r. r \<in> set (ox_rows t) \<Longrightarrow> P r \<Longrightarrow> row_ok r \<Longrightarrow> row_ok (f r) \<and> same_identity r (f r)"
  shows "outbox_inv (update_where P f t)"
proof -
  have ids: "map ow_id (ox_rows (update_where P f t)) = map ow_id (ox_rows t)"
    "map ow_event_id (ox_rows (update_where P f t)) = map ow_event_id (ox_rows t)"
    using assms by (auto simp: outbox_inv_def same_identity_def)
  have "\<forall>r\<in>set (ox_rows (update_where P f t)). ow_id r < ox_next t \<and> row_ok r"
    using assms by (auto simp: outbox_inv_def same_identity_def)
  then show ?thesis using assms(1) by (simp only: outbox_inv_def ids update_where_simps(2))
qed

lemma update_where_units:
  assumes "\<And>r. r \<in> set (ox_rows t) \<Longrightarrow> P r \<Longrightarrow> ow_amount_units (f r) = ow_amount_units r \<and> (Q (f r) \<longleftrightarrow> Q r)"
  shows "units_where Q (update_where P f t) = units_where Q t"
proof -
  have "sum_list (map ow_amount_units (filter Q (map (\<lambda>r. if P r then f r else r) rs)))
      = sum_list (map ow_amount_units (filter Q rs))" if "set rs \<subseteq> set (ox_rows t)" for rs
    using that assms by (induction rs) auto
  then show ?thesis by (simp add: units_where_def)
qed

lemma inv_row: "outbox_inv t \<Longrightarrow> r \<in> set (ox_rows t) \<Longrightarrow> row_ok r"
  by (simp add: outbox_inv_def)

lemma same_row: "outbox_inv t \<Longrightarrow> r \<in> set (ox_rows t) \<Longrightarrow> r' \<in> set (ox_rows t) \<Longrightarrow> ow_id r = ow_id r' \<Longrightarrow> r = r'"
  by (auto simp: outbox_inv_def distinct_map inj_on_def)

lemma same_event:
  "outbox_inv t \<Longrightarrow> r \<in> set (ox_rows t) \<Longrightarrow> r' \<in> set (ox_rows t) \<Longrightarrow> ow_event_id r = ow_event_id r' \<Longrightarrow> r = r'"
  by (auto simp: outbox_inv_def distinct_map inj_on_def)

lemma find_event_None: "find_event ev t = None \<longleftrightarrow> ev \<notin> ow_event_id ` set (ox_rows t)"
  by (auto simp: find_event_def find_None_iff)

lemma find_Some_in: "find P xs = Some x \<Longrightarrow> x \<in> set xs \<and> P x"
  by (auto simp: find_Some_iff)

lemma find_eventD: "find_event ev t = Some r \<Longrightarrow> r \<in> set (ox_rows t) \<and> ow_event_id r = ev"
  using find_Some_in by (fastforce simp: find_event_def)

lemma find_eventI:
  assumes "outbox_inv t" "r \<in> set (ox_rows t)"
  shows "find_event (ow_event_id r) t = Some r"
proof -
  have "find_event (ow_event_id r) t \<noteq> None" using assms(2) by (simp add: find_event_None)
  then obtain r' where r': "find_event (ow_event_id r) t = Some r'" by blast
  from find_eventD [OF this] same_event [OF assms(1) _ assms(2)] have "r' = r" by blast
  with r' show ?thesis by simp
qed

lemma row_ok_id [simp]: "row_ok (r\<lparr>ow_id := n\<rparr>) \<longleftrightarrow> row_ok r"
  by (simp add: row_ok_def)

lemma insert_row_inv:
  assumes "outbox_inv t" "row_ok r" "find_event (ow_event_id r) t = None"
  shows "outbox_inv (insert_row r t)"
proof -
  have "ox_next t \<notin> ow_id ` set (ox_rows t)" using assms(1) by (auto simp: outbox_inv_def)
  then show ?thesis
    using assms by (auto simp: outbox_inv_def insert_row_def find_event_None)
qed

lemma new_row_ok: "0 \<le> se_AmountUnits e \<Longrightarrow> row_ok (new_row now hash e)"
  by (simp add: row_ok_def new_row_def)

lemma remainder_row_ok:
  "row_ok r \<Longrightarrow> 0 \<le> units \<Longrightarrow> row_ok (remainder_row digest now r ev units)"
  by (auto simp: row_ok_def new_row_def remainder_row_def remainder_event_def Let_def)

section \<open>Every operation keeps the table well formed\<close>

lemma claimable_pending:
  assumes "outbox_inv t" "r \<in> set (ox_rows t)" "ow_id r \<in> set (claimable locked limit now t)"
  shows "ow_status r = ''pending'' \<and> ow_next_attempt_at r \<le> now"
proof -
  obtain r' where "r' \<in> set (ox_rows t)" "ow_id r' = ow_id r" "ow_status r' = ''pending'' \<and> ow_next_attempt_at r' \<le> now"
    using assms(3) by (auto simp: claimable_def dest!: in_set_takeD)
  with same_row [OF assms(1) _ assms(2)] show ?thesis by metis
qed

lemma claim_inv:
  assumes inv: "outbox_inv t"
  shows "outbox_inv (fst (ClaimPendingOutboxEvents locked w limit now t))"
proof -
  have "ow_status r = ''pending''" if "r \<in> set (ox_rows t)" "ow_id r \<in> set (claimable locked limit now t)" for r
    using claimable_pending [OF inv that] by simp
  with inv show ?thesis
    by (auto simp: ClaimPendingOutboxEvents_def Let_def claim_row_def row_ok_def same_identity_def
        intro!: update_where_inv)
qed

lemma resolve_inv: "outbox_inv t \<Longrightarrow> outbox_inv (resolve_attempt i w n now t)"
  by (auto simp: resolve_attempt_def owned_by_def unclaim_def row_ok_def same_identity_def intro!: update_where_inv)

lemma count_inv: "outbox_inv t \<Longrightarrow> outbox_inv (count_attempt i w t)"
  by (auto simp: count_attempt_def row_ok_def same_identity_def intro!: update_where_inv)

lemma failed_inv: "outbox_inv t \<Longrightarrow> outbox_inv (MarkOutboxEventFailed i w now t)"
  by (auto simp: MarkOutboxEventFailed_def Let_def count_inv resolve_inv split: option.split)

lemma split_cases:
  assumes "SplitOutboxEvent digest now i w captured ev reserved t = (t', res)" "outbox_inv t"
  obtains (unchanged) "t' = t"
  | (split) r where "r \<in> set (ox_rows t)" "owned_by i w r" "0 \<le> captured" "captured \<le> ow_amount_units r"
      "find_event ev t = None" "res = Inr (ow_amount_units r - captured)"
      "t' = update_where (\<lambda>x. ow_id x = i)
              (split_parent now captured (if reserved then Some (ow_amount_units r - captured) else None))
              (insert_row (remainder_row digest now r ev (ow_amount_units r - captured)) t)"
proof (cases "find (owned_by i w) (ox_rows t)")
  case None
  with assms(1) unchanged show thesis by (simp add: SplitOutboxEvent_def)
next
  case (Some r)
  then have r: "r \<in> set (ox_rows t)" "owned_by i w r" using find_Some_in by fastforce+
  show thesis
  proof (cases "(captured < 0 \<or> captured > ow_amount_units r) \<or> find_event ev t \<noteq> None")
    case True
    with assms(1) Some unchanged show thesis by (auto simp: SplitOutboxEvent_def Let_def split: if_splits)
  next
    case False
    with assms(1) Some split [OF r] show thesis by (auto simp: SplitOutboxEvent_def Let_def)
  qed
qed

lemma split_inv:
  assumes "outbox_inv t"
  shows "outbox_inv (fst (SplitOutboxEvent digest now i w captured ev reserved t))"
proof -
  obtain t' res where s: "SplitOutboxEvent digest now i w captured ev reserved t = (t', res)" by fastforce
  from this assms have "outbox_inv t'"
  proof (cases rule: split_cases)
    case (split r)
    have ok: "row_ok r" using inv_row [OF assms split(1)] .
    have i: "ow_id r = i" using split(2) by (simp add: owned_by_def)
    let ?rem = "remainder_row digest now r ev (ow_amount_units r - captured)"
    have "outbox_inv (insert_row ?rem t)"
      using split ok assms by (intro insert_row_inv remainder_row_ok) (auto simp: remainder_row_def Let_def new_row_def remainder_event_def)
    then show ?thesis unfolding split(7)
    proof (rule update_where_inv)
      fix x assume x: "x \<in> set (ox_rows (insert_row ?rem t))" "ow_id x = i" "row_ok x"
      have "ow_id x \<noteq> ox_next t" using split(1) i x(2) assms by (auto simp: outbox_inv_def)
      with x(1) have "x \<in> set (ox_rows t)" by (auto simp: insert_row_def)
      then have "x = r" using same_row [OF assms _ split(1)] x(2) i by simp
      then show "row_ok (split_parent now captured (if reserved then Some (ow_amount_units r - captured) else None) x)
          \<and> same_identity x (split_parent now captured (if reserved then Some (ow_amount_units r - captured) else None) x)"
        using ok split(2-4) by (auto simp: split_parent_def unclaim_def row_ok_def same_identity_def owned_by_def)
    qed
  qed (use assms in simp)
  then show ?thesis by (simp add: s)
qed

lemma prune_inv:
  assumes "outbox_inv t" shows "outbox_inv (fst (PruneDeliveredOlderThan open_segment locked cutoff batch t))"
  using assms by (auto simp: PruneDeliveredOlderThan_def Let_def outbox_inv_def intro: distinct_map_filter)

lemma outbox_step_inv:
  assumes "outbox_inv t" "op_ok op"
  shows "outbox_inv (outbox_step digest op t)"
proof (cases op)
  case (OInsert now e)
  then show ?thesis using assms
    by (auto simp: InsertOutboxEventTx_def Let_def op_ok_def new_row_def [symmetric] split: option.split
        intro!: insert_row_inv new_row_ok) (simp add: new_row_def)
next
  case (OReclaim staleAfter now)
  then show ?thesis using assms
    by (auto simp: ReclaimStaleInFlightEvents_def stale_at_def unclaim_def row_ok_def same_identity_def intro!: update_where_inv)
next
  case (ODelivered i w now)
  then show ?thesis using assms
    by (auto simp: MarkOutboxEventDelivered_def owned_by_def unclaim_def row_ok_def same_identity_def intro!: update_where_inv)
next
  case (ODead i w reason)
  then show ?thesis using assms
    by (auto simp: MarkOutboxEventDeadLetter_def owned_by_def unclaim_def row_ok_def same_identity_def intro!: update_where_inv)
next
  case (OBind i w l)
  then show ?thesis using assms
    by (auto simp: BindOutboxEventLease_def row_ok_def same_identity_def intro!: update_where_inv)
next
  case (OClear i)
  then show ?thesis using assms by (auto simp: ClearPendingRelease_def row_ok_def same_identity_def intro!: update_where_inv)
next
  case (ORequeue i now)
  then show ?thesis using assms
    by (auto simp: RequeueDeadLetter_def is_dead_letter_def unclaim_def row_ok_def same_identity_def intro!: update_where_inv)
qed (use assms in \<open>simp_all add: claim_inv failed_inv count_inv split_inv prune_inv\<close>)

lemma outbox_run_inv: "outbox_inv t \<Longrightarrow> list_all op_ok ops \<Longrightarrow> outbox_inv (outbox_run digest ops t)"
  by (induction ops arbitrary: t) (simp_all add: outbox_step_inv)

section \<open>Conservation\<close>

text \<open>What an operation adds to the units of a request: a fresh event, less the delivered rows pruned.\<close>

definition op_flow :: "(walletOutboxHashPayload \<Rightarrow> string) \<Rightarrow> string \<Rightarrow> outbox_op \<Rightarrow> outbox \<Rightarrow> int" where
  "op_flow digest req op t =
     (case op of
        OInsert now e \<Rightarrow>
          if find_event (se_EventID e) t = None \<and> se_GatewayRequestID e = req then se_AmountUnits e else 0
      | OPrune _ _ _ _ \<Rightarrow> delivered_units req (outbox_step digest op t) - delivered_units req t
      | _ \<Rightarrow> 0)"

fun flow :: "(walletOutboxHashPayload \<Rightarrow> string) \<Rightarrow> string \<Rightarrow> outbox_op list \<Rightarrow> outbox \<Rightarrow> int" where
  "flow digest req [] t = 0"
| "flow digest req (op # ops) t = op_flow digest req op t + flow digest req ops (outbox_step digest op t)"

lemma units_insert: "units_where P (insert_row r t) = units_where P t + (if P (r\<lparr>ow_id := ox_next t\<rparr>) then ow_amount_units r else 0)"
  by (simp add: units_where_def insert_row_def)

lemma units_partition: "units_where P t = units_where (\<lambda>r. P r \<and> Q r) t + units_where (\<lambda>r. P r \<and> \<not> Q r) t"
proof -
  have "sum_list (map ow_amount_units (filter P rs)) = sum_list (map ow_amount_units (filter (\<lambda>r. P r \<and> Q r) rs))
      + sum_list (map ow_amount_units (filter (\<lambda>r. P r \<and> \<not> Q r) rs))" for rs
    by (induction rs) auto
  then show ?thesis by (simp add: units_where_def)
qed

lemma units_update_row:
  assumes "outbox_inv t" "r \<in> set (ox_rows t)"
  shows "units_where Q (update_where (\<lambda>x. ow_id x = ow_id r) f t)
    = units_where Q t - (if Q r then ow_amount_units r else 0) + (if Q (f r) then ow_amount_units (f r) else 0)"
proof -
  obtain xs ys where rows: "ox_rows t = xs @ r # ys" using assms(2) by (meson split_list)
  have "map (\<lambda>x. if ow_id x = ow_id r then f x else x) zs = zs" if "ow_id r \<notin> ow_id ` set zs" for zs
    using that by (induction zs) auto
  moreover have "ow_id r \<notin> ow_id ` set xs" "ow_id r \<notin> ow_id ` set ys"
    using assms(1) rows by (auto simp: outbox_inv_def)
  ultimately show ?thesis by (simp add: units_where_def rows)
qed

lemma split_units:
  assumes "outbox_inv t"
  shows "request_units req (fst (SplitOutboxEvent digest now i w captured ev reserved t)) = request_units req t"
proof -
  obtain t' res where s: "SplitOutboxEvent digest now i w captured ev reserved t = (t', res)" by fastforce
  from this assms have "request_units req t' = request_units req t"
  proof (cases rule: split_cases)
    case (split r)
    let ?rem = "remainder_row digest now r ev (ow_amount_units r - captured)"
    have i: "ow_id r = i" using split(2) by (simp add: owned_by_def)
    have rem: "ow_event_id ?rem = ev" "ow_gateway_request_id ?rem = ow_gateway_request_id r"
      "ow_amount_units ?rem = ow_amount_units r - captured"
      by (simp_all add: remainder_row_def Let_def new_row_def remainder_event_def)
    have inv: "outbox_inv (insert_row ?rem t)"
      using split inv_row [OF assms split(1)] assms rem by (intro insert_row_inv remainder_row_ok) auto
    have r: "r \<in> set (ox_rows (insert_row ?rem t))" using split(1) by (simp add: insert_row_def)
    show ?thesis unfolding split(7)
      using units_update_row [OF inv r, of "\<lambda>x. ow_gateway_request_id x = req"
          "split_parent now captured (if reserved then Some (ow_amount_units r - captured) else None)"] i
      by (simp add: units_insert rem split_parent_def unclaim_def)
  qed simp
  then show ?thesis by (simp add: s)
qed

lemma prune_keeps:
  assumes "outbox_inv t" "r \<in> set (ox_rows t)" "ow_status r \<noteq> ''delivered''"
  shows "r \<in> set (ox_rows (fst (PruneDeliveredOlderThan open_segment locked cutoff batch t)))"
proof -
  have *: False if "v \<in> set (ox_rows t)" "ow_status v = ''delivered''" "ow_id r = ow_id v" for v
    using same_row [OF assms(1,2) that(1,3)] assms(3) that(2) by auto
  show ?thesis using assms(2)
    by (auto simp: PruneDeliveredOlderThan_def Let_def dest!: in_set_takeD intro: *)
qed

lemma prune_units:
  assumes "outbox_inv t"
  shows "units_where (\<lambda>r. P r \<and> ow_status r \<noteq> ''delivered'') (fst (PruneDeliveredOlderThan open_segment locked cutoff batch t))
    = units_where (\<lambda>r. P r \<and> ow_status r \<noteq> ''delivered'') t"
proof -
  let ?t = "fst (PruneDeliveredOlderThan open_segment locked cutoff batch t)"
  obtain K where K: "ox_rows ?t = filter K (ox_rows t)" by (auto simp: PruneDeliveredOlderThan_def Let_def)
  have "K r" if "r \<in> set (ox_rows t)" "ow_status r \<noteq> ''delivered''" for r
    using prune_keeps [OF assms that, of open_segment locked cutoff batch] unfolding K by simp
  then have "filter (\<lambda>r. P r \<and> ow_status r \<noteq> ''delivered'') (filter K (ox_rows t))
      = filter (\<lambda>r. P r \<and> ow_status r \<noteq> ''delivered'') (ox_rows t)"
    unfolding filter_filter by (intro filter_cong) auto
  then show ?thesis by (simp add: units_where_def K)
qed

lemma step_units:
  assumes "outbox_inv t"
  shows "request_units req (outbox_step digest op t) = request_units req t + op_flow digest req op t"
proof (cases op)
  case (OInsert now e)
  then show ?thesis
    by (simp add: InsertOutboxEventTx_def Let_def op_flow_def units_insert new_row_def split: option.split)
next
  case (OPrune open_segment locked cutoff batch)
  let ?P = "\<lambda>r. ow_gateway_request_id r = req" and ?D = "\<lambda>r. ow_status r = ''delivered''"
  show ?thesis
    using units_partition [of ?P t ?D] units_partition [of ?P "outbox_step digest op t" ?D] prune_units [OF assms] OPrune
    by (simp add: op_flow_def)
next
  case (OFailed i w now)
  then show ?thesis
    by (auto simp: op_flow_def MarkOutboxEventFailed_def Let_def count_attempt_def resolve_attempt_def unclaim_def
        update_where_units split: option.split)
qed (use assms in \<open>simp_all add: op_flow_def split_units ClaimPendingOutboxEvents_def Let_def claim_row_def
    ReclaimStaleInFlightEvents_def MarkOutboxEventDelivered_def count_attempt_def MarkOutboxEventDeadLetter_def
    BindOutboxEventLease_def ClearPendingRelease_def RequeueDeadLetter_def unclaim_def update_where_units\<close>)

lemma run_units:
  "outbox_inv t \<Longrightarrow> list_all op_ok ops \<Longrightarrow> request_units req (outbox_run digest ops t) = request_units req t + flow digest req ops t"
  by (induction ops arbitrary: t) (simp_all add: outbox_step_inv step_units)

section \<open>Ownership\<close>

text \<open>What the owner of a row, claimed at \<open>c\<close>, does not do itself: anything but its own resolutions, and no reclaim of it.\<close>

definition foreign :: "int \<Rightarrow> string \<Rightarrow> int \<Rightarrow> outbox_op \<Rightarrow> bool" where
  "foreign i w c op =
     (case op of
        ODelivered j v _ \<Rightarrow> j \<noteq> i \<or> v \<noteq> w
      | OFailed j v _ \<Rightarrow> j \<noteq> i \<or> v \<noteq> w
      | OCount j v \<Rightarrow> j \<noteq> i \<or> v \<noteq> w
      | ODead j v _ \<Rightarrow> j \<noteq> i \<or> v \<noteq> w
      | OBind j v _ \<Rightarrow> j \<noteq> i \<or> v \<noteq> w
      | OSplit _ j v _ _ _ \<Rightarrow> j \<noteq> i \<or> v \<noteq> w
      | OReclaim staleAfter now \<Rightarrow> now - staleAfter \<le> c
      | OClear j \<Rightarrow> j \<noteq> i
      | _ \<Rightarrow> True)"

lemma update_where_other: "r \<in> set (ox_rows t) \<Longrightarrow> \<not> P r \<Longrightarrow> r \<in> set (ox_rows (update_where P f t))"
  by force

lemma insert_row_other: "r \<in> set (ox_rows t) \<Longrightarrow> r \<in> set (ox_rows (insert_row x t))"
  by (simp add: insert_row_def)

lemma resolve_other:
  assumes "r \<in> set (ox_rows t)" "\<not> owned_by j v r"
  shows "r \<in> set (ox_rows (resolve_attempt j v n now t))" "r \<in> set (ox_rows (count_attempt j v t))"
  using assms by (simp_all add: resolve_attempt_def count_attempt_def update_where_other del: update_where_simps)

lemma failed_other:
  assumes "r \<in> set (ox_rows t)" "\<not> owned_by j v r"
  shows "r \<in> set (ox_rows (MarkOutboxEventFailed j v now t))"
  using assms resolve_other by (auto simp: MarkOutboxEventFailed_def Let_def simp del: update_where_simps split: option.split)

lemma split_other:
  assumes "outbox_inv t" "r \<in> set (ox_rows t)" "\<not> owned_by j v r"
  shows "r \<in> set (ox_rows (fst (SplitOutboxEvent digest now j v captured ev reserved t)))"
proof -
  obtain t' res where s: "SplitOutboxEvent digest now j v captured ev reserved t = (t', res)" by fastforce
  from this assms(1) have "r \<in> set (ox_rows t')"
  proof (cases rule: split_cases)
    case (split r')
    have "ow_id r \<noteq> j" using split(1,2) assms same_row [OF assms(1,2) split(1)] by (auto simp: owned_by_def)
    then show ?thesis unfolding split(7) by (intro update_where_other insert_row_other assms(2)) simp
  qed (use assms in simp)
  then show ?thesis by (simp add: s)
qed

lemma foreign_step_keeps:
  assumes inv: "outbox_inv t" and r: "r \<in> set (ox_rows t)" "owned_by i w r" "ow_claimed_at r = Some c" and op: "foreign i w c op"
  shows "r \<in> set (ox_rows (outbox_step digest op t))"
proof -
  have other: "\<not> owned_by j v r" if "j \<noteq> i \<or> v \<noteq> w" for j v using r(2) that by (auto simp: owned_by_def)
  have status: "ow_status r = ''in_flight''" "ow_id r = i" using r(2) by (simp_all add: owned_by_def)
  show ?thesis
  proof (cases op)
    case (OInsert now e)
    then show ?thesis using r(1) by (auto simp: InsertOutboxEventTx_def Let_def insert_row_other split: option.split)
  next
    case (OClaim locked v limit now)
    have "ow_id r \<notin> set (claimable locked limit now t)" using claimable_pending [OF inv r(1)] status by auto
    then show ?thesis using OClaim r(1)
      by (simp add: ClaimPendingOutboxEvents_def Let_def update_where_other del: update_where_simps)
  next
    case (OReclaim staleAfter now)
    then have "\<not> stale_at (now - staleAfter) r" using op r(3) by (simp add: foreign_def stale_at_def)
    then show ?thesis using OReclaim r(1)
      by (simp add: ReclaimStaleInFlightEvents_def update_where_other del: update_where_simps)
  next
    case (ORequeue j now)
    then show ?thesis using r(1) status
      by (simp add: RequeueDeadLetter_def is_dead_letter_def update_where_other del: update_where_simps)
  next
    case (OPrune open_segment locked cutoff batch)
    then show ?thesis using prune_keeps [OF inv r(1)] status by simp
  qed (use op r(1) status in \<open>simp_all add: foreign_def other failed_other resolve_other split_other [OF inv]
      MarkOutboxEventDelivered_def MarkOutboxEventDeadLetter_def BindOutboxEventLease_def ClearPendingRelease_def
      update_where_other del: update_where_simps\<close>)
qed

lemma foreign_run_keeps:
  assumes "outbox_inv t" "r \<in> set (ox_rows t)" "owned_by i w r" "ow_claimed_at r = Some c"
    and "list_all (foreign i w c) ops" "list_all op_ok ops"
  shows "r \<in> set (ox_rows (outbox_run digest ops t))"
  using assms(1,2,5,6)
proof (induction ops arbitrary: t)
  case (Cons op ops)
  then show ?case using foreign_step_keeps [OF _ _ assms(3,4)] outbox_step_inv by simp
qed simp

lemma claim_returns_pending:
  assumes "outbox_inv t" "e \<in> set (snd (ClaimPendingOutboxEvents locked w limit now t))"
  shows "\<exists>r\<in>set (ox_rows t). ow_id r = oe_ID e \<and> ow_status r = ''pending''"
  using assms claimable_pending [OF assms(1)]
  by (auto simp: ClaimPendingOutboxEvents_def Let_def outbox_event_def claim_row_def split: if_splits)

section \<open>Attempts\<close>

definition attempt_of :: "int \<Rightarrow> outbox \<Rightarrow> int" where
  "attempt_of i t = (case find_row i t of None \<Rightarrow> 0 | Some r \<Rightarrow> ow_attempt_count r)"

text \<open>The operation records a failure of the row, or sends it round again.\<close>

definition fails :: "int \<Rightarrow> outbox_op \<Rightarrow> outbox \<Rightarrow> bool" where
  "fails i op t = (case op of OFailed j w _ \<Rightarrow> j = i \<and> list_ex (owned_by i w) (ox_rows t) | _ \<Rightarrow> False)"

definition redrives :: "int \<Rightarrow> outbox_op \<Rightarrow> outbox \<Rightarrow> bool" where
  "redrives i op t = (case op of
      ORequeue j _ \<Rightarrow> j = i \<and> list_ex (\<lambda>r. ow_id r = i \<and> is_dead_letter ''balance_shortfall'' r) (ox_rows t) | _ \<Rightarrow> False)"

fun count_ops ::
  "(walletOutboxHashPayload \<Rightarrow> string) \<Rightarrow> (outbox_op \<Rightarrow> outbox \<Rightarrow> bool) \<Rightarrow> outbox_op list \<Rightarrow> outbox \<Rightarrow> nat" where
  "count_ops digest P [] t = 0"
| "count_ops digest P (op # ops) t = (if P op t then 1 else 0) + count_ops digest P ops (outbox_step digest op t)"

definition attempts_ok :: "outbox \<Rightarrow> bool" where
  "attempts_ok t \<longleftrightarrow> (\<forall>r\<in>set (ox_rows t). ow_attempt_count r \<le> walletOutboxMaxAttempts
     \<and> (ow_status r = ''pending'' \<or> ow_status r = ''in_flight'' \<longrightarrow> ow_attempt_count r < walletOutboxMaxAttempts))"

definition whole :: "outbox_op \<Rightarrow> bool" where
  "whole op \<longleftrightarrow> op_ok op \<and> (case op of OCount _ _ \<Rightarrow> False | _ \<Rightarrow> True)"

lemma find_row_update:
  "(\<And>r. ow_id (f r) = ow_id r) \<Longrightarrow> find_row i (update_where P f t) = map_option (\<lambda>r. if P r then f r else r) (find_row i t)"
proof -
  assume id: "\<And>r. ow_id (f r) = ow_id r"
  have "find (\<lambda>r. ow_id r = i) (map (\<lambda>r. if P r then f r else r) rs)
      = map_option (\<lambda>r. if P r then f r else r) (find (\<lambda>r. ow_id r = i) rs)" for rs
    by (induction rs) (auto simp: id)
  then show ?thesis by (simp add: find_row_def)
qed

lemma find_rowD: "find_row i t = Some r \<Longrightarrow> r \<in> set (ox_rows t) \<and> ow_id r = i"
  using find_Some_in by (fastforce simp: find_row_def)

lemma find_row_None: "find_row i t = None \<longleftrightarrow> i \<notin> ow_id ` set (ox_rows t)"
  by (auto simp: find_row_def find_None_iff)

lemma find_rowI:
  assumes "outbox_inv t" "r \<in> set (ox_rows t)"
  shows "find_row (ow_id r) t = Some r"
proof -
  have "find_row (ow_id r) t \<noteq> None" using assms(2) by (simp add: find_row_None)
  then obtain r' where r': "find_row (ow_id r) t = Some r'" by blast
  from find_rowD [OF this] same_row [OF assms(1) _ assms(2)] have "r' = r" by blast
  with r' show ?thesis by simp
qed

lemma find_snoc: "find P (xs @ [y]) = (case find P xs of None \<Rightarrow> if P y then Some y else None | Some x \<Rightarrow> Some x)"
  by (induction xs) auto

lemma find_row_insert:
  assumes "outbox_inv t"
  shows "find_row i (insert_row x t) = (if i = ox_next t then Some (x\<lparr>ow_id := i\<rparr>) else find_row i t)"
proof -
  have "find_row i t = None" if "i = ox_next t" using assms that by (auto simp: outbox_inv_def find_row_None)
  then show ?thesis by (auto simp: find_row_def insert_row_def find_snoc split: option.split)
qed

lemma update_where_none: "(\<And>r. r \<in> set (ox_rows t) \<Longrightarrow> \<not> P r) \<Longrightarrow> update_where P f t = t"
  by (simp add: update_where_def map_idI)

text \<open>What a recorded failure makes of the row.\<close>

definition failed_row :: "int \<Rightarrow> outbox_row \<Rightarrow> outbox_row" where
  "failed_row now r =
     (let n = ow_attempt_count r + 1
      in if n \<ge> walletOutboxMaxAttempts
         then (unclaim r)\<lparr>ow_attempt_count := n, ow_status := ''dead_letter'', ow_dead_letter_reason := Some ''attempts_exhausted''\<rparr>
         else (unclaim r)\<lparr>ow_attempt_count := n, ow_status := ''pending'', ow_next_attempt_at := now + 2 ^ nat n * 1000000000\<rparr>)"

lemma failed_is:
  assumes inv: "outbox_inv t"
  shows "MarkOutboxEventFailed i w now t = update_where (owned_by i w) (failed_row now) t"
proof -
  let ?t1 = "count_attempt i w t"
  have owned: "owned_by i w (r\<lparr>ow_attempt_count := n\<rparr>) = owned_by i w r" for r n by (simp add: owned_by_def)
  show ?thesis
  proof (cases "find (owned_by i w) (ox_rows ?t1)")
    case None
    have "\<not> owned_by i w r" if "r \<in> set (ox_rows t)" for r
    proof
      assume r: "owned_by i w r"
      then have "r\<lparr>ow_attempt_count := ow_attempt_count r + 1\<rparr> \<in> set (ox_rows ?t1)"
        using that by (force simp: count_attempt_def)
      moreover have "owned_by i w (r\<lparr>ow_attempt_count := ow_attempt_count r + 1\<rparr>)" using r by (simp add: owned)
      ultimately show False using None unfolding find_None_iff by blast
    qed
    then show ?thesis using None by (simp add: MarkOutboxEventFailed_def Let_def count_attempt_def update_where_none)
  next
    case (Some r1)
    then have "r1 \<in> set (ox_rows ?t1)" "owned_by i w r1" using find_Some_in by fastforce+
    then obtain r where r: "r \<in> set (ox_rows t)" "owned_by i w r" "r1 = r\<lparr>ow_attempt_count := ow_attempt_count r + 1\<rparr>"
      by (auto simp: count_attempt_def owned split: if_splits)
    have only: "x = r" if "x \<in> set (ox_rows t)" "owned_by i w x" for x
      using same_row [OF inv that(1) r(1)] that(2) r(2) by (simp add: owned_by_def)
    have "ox_rows (resolve_attempt i w (ow_attempt_count r1) now ?t1) = map (\<lambda>x. if owned_by i w x then failed_row now x else x) (ox_rows t)"
      unfolding resolve_attempt_def count_attempt_def
      by (auto simp: owned r(3) failed_row_def unclaim_def Let_def dest!: only)
    moreover have "ox_next (resolve_attempt i w n now ?t1) = ox_next t" for n
      by (simp add: resolve_attempt_def count_attempt_def update_where_def)
    ultimately have "resolve_attempt i w (ow_attempt_count r1) now ?t1
        = update_where (owned_by i w) (failed_row now) t"
      by (intro outbox.equality) (simp_all add: update_where_def)
    then show ?thesis using Some by (simp add: MarkOutboxEventFailed_def Let_def)
  qed
qed

lemma attempt_update:
  assumes "\<And>r. ow_id (f r) = ow_id r" "\<And>r. ow_attempt_count r \<le> ow_attempt_count (f r)"
  shows "attempt_of i t \<le> attempt_of i (update_where P f t)"
  using assms by (auto simp: attempt_of_def find_row_update split: option.split)

definition attempt_fine :: "outbox_row \<Rightarrow> bool" where
  "attempt_fine r \<longleftrightarrow> ow_attempt_count r \<le> walletOutboxMaxAttempts
     \<and> (ow_status r = ''pending'' \<or> ow_status r = ''in_flight'' \<longrightarrow> ow_attempt_count r < walletOutboxMaxAttempts)"

lemma attempts_update:
  assumes "attempts_ok t" "\<And>r. r \<in> set (ox_rows t) \<Longrightarrow> P r \<Longrightarrow> attempt_fine r \<Longrightarrow> attempt_fine (f r)"
  shows "attempts_ok (update_where P f t)"
proof -
  have "attempts_ok t' \<longleftrightarrow> (\<forall>r\<in>set (ox_rows t'). attempt_fine r)" for t' by (simp add: attempts_ok_def attempt_fine_def)
  with assms show ?thesis by auto
qed

lemma attempts_insert: "attempts_ok t \<Longrightarrow> attempt_fine r \<Longrightarrow> attempts_ok (insert_row r t)"
  by (auto simp: attempts_ok_def insert_row_def attempt_fine_def)

lemmas attempt_defs = attempt_fine_def walletOutboxMaxAttempts_def unclaim_def owned_by_def

lemma attempts_step:
  assumes inv: "outbox_inv t" and a: "attempts_ok t" and op: "whole op"
  shows "attempts_ok (outbox_step digest op t)"
proof (cases op)
  case (OInsert now e)
  then show ?thesis using a
    by (auto simp: InsertOutboxEventTx_def Let_def attempts_insert attempt_defs new_row_def split: option.split)
next
  case (OClaim locked w limit now)
  then show ?thesis using a claimable_pending [OF inv]
    by (auto simp: ClaimPendingOutboxEvents_def Let_def claim_row_def attempt_defs intro!: attempts_update)
next
  case (OReclaim staleAfter now)
  then show ?thesis using a by (auto simp: ReclaimStaleInFlightEvents_def stale_at_def attempt_defs intro!: attempts_update)
next
  case (ODelivered i w now)
  then show ?thesis using a by (auto simp: MarkOutboxEventDelivered_def attempt_defs intro!: attempts_update)
next
  case (OFailed i w now)
  then show ?thesis using a by (auto simp: failed_is [OF inv] failed_row_def Let_def attempt_defs intro!: attempts_update)
next
  case (ODead i w reason)
  then show ?thesis using a by (auto simp: MarkOutboxEventDeadLetter_def attempt_defs intro!: attempts_update)
next
  case (OBind i w l)
  then show ?thesis using a by (auto simp: BindOutboxEventLease_def attempt_defs intro!: attempts_update)
next
  case (OSplit now i w captured ev reserved)
  obtain t' res where s: "SplitOutboxEvent digest now i w captured ev reserved t = (t', res)" by fastforce
  from this inv have "attempts_ok t'"
  proof (cases rule: split_cases)
    case (split r)
    let ?rem = "remainder_row digest now r ev (ow_amount_units r - captured)"
    have "attempts_ok (insert_row ?rem t)"
      by (rule attempts_insert [OF a]) (simp add: attempt_defs remainder_row_def Let_def new_row_def)
    moreover have "attempt_fine x" if "x \<in> set (ox_rows t)" for x using a that by (simp add: attempts_ok_def attempt_fine_def)
    moreover have "ow_status x = ''in_flight''" if "x \<in> set (ox_rows (insert_row ?rem t))" "ow_id x = i" for x
    proof -
      have "ow_id x \<noteq> ox_next t" using split(1,2) that(2) inv by (auto simp: outbox_inv_def owned_by_def)
      then have "x \<in> set (ox_rows t)" using that(1) by (auto simp: insert_row_def)
      then have "x = r" by (rule same_row [OF inv _ split(1)]) (use that(2) split(2) in \<open>simp add: owned_by_def\<close>)
      then show ?thesis using split(2) by (simp add: owned_by_def)
    qed
    ultimately show ?thesis unfolding split(7)
      by (intro attempts_update) (auto simp: split_parent_def attempt_defs)
  qed (use a in simp)
  then show ?thesis using OSplit s by simp
next
  case (OClear i)
  then show ?thesis using a by (auto simp: ClearPendingRelease_def attempt_defs intro!: attempts_update)
next
  case (ORequeue i now)
  then show ?thesis using a by (auto simp: RequeueDeadLetter_def attempt_defs intro!: attempts_update)
next
  case (OPrune open_segment locked cutoff batch)
  then show ?thesis using a by (simp add: PruneDeliveredOlderThan_def Let_def attempts_ok_def)
qed (use op in \<open>simp add: whole_def\<close>)

lemma step_next: "ox_next t \<le> ox_next (outbox_step digest op t)"
  by (cases op) (auto simp: InsertOutboxEventTx_def ClaimPendingOutboxEvents_def ReclaimStaleInFlightEvents_def
      MarkOutboxEventDelivered_def MarkOutboxEventFailed_def count_attempt_def resolve_attempt_def MarkOutboxEventDeadLetter_def
      BindOutboxEventLease_def SplitOutboxEvent_def ClearPendingRelease_def RequeueDeadLetter_def PruneDeliveredOlderThan_def
      Let_def insert_row_def split: option.split)

text \<open>Only an insertion or a split adds a row, and only under the next id.\<close>

lemma step_new_rows:
  assumes "outbox_inv t"
  shows "ow_id ` set (ox_rows (outbox_step digest op t)) \<subseteq> insert (ox_next t) (ow_id ` set (ox_rows t))"
proof -
  have upd: "ow_id ` set (ox_rows (update_where P f t')) \<subseteq> ow_id ` set (ox_rows t')" if "\<And>r. ow_id (f r) = ow_id r" for P f t'
    using that by auto
  show ?thesis
  proof (cases op)
    case (OSplit now i w captured ev reserved)
    obtain t' res where s: "SplitOutboxEvent digest now i w captured ev reserved t = (t', res)" by fastforce
    from this assms have "ow_id ` set (ox_rows t') \<subseteq> insert (ox_next t) (ow_id ` set (ox_rows t))"
      by (cases rule: split_cases) (auto simp: insert_row_def split_parent_def unclaim_def)
    then show ?thesis using OSplit s by simp
  next
    case (OFailed i w now)
    then show ?thesis using upd [of "failed_row now" "owned_by i w" t]
      by (auto simp: failed_is [OF assms] failed_row_def Let_def unclaim_def)
  qed (auto simp: InsertOutboxEventTx_def insert_row_def ClaimPendingOutboxEvents_def ReclaimStaleInFlightEvents_def claim_row_def
      MarkOutboxEventDelivered_def count_attempt_def MarkOutboxEventDeadLetter_def unclaim_def
      BindOutboxEventLease_def ClearPendingRelease_def RequeueDeadLetter_def PruneDeliveredOlderThan_def
      Let_def split: option.splits)
qed

lemma gone_never_fails:
  assumes "outbox_inv t" "list_all whole ops" "find_row i t = None" "i < ox_next t"
  shows "count_ops digest (fails i) ops t = 0"
  using assms
proof (induction ops arbitrary: t)
  case (Cons op ops)
  have "find_row i (outbox_step digest op t) = None"
    using step_new_rows [OF Cons.prems(1), of digest op] Cons.prems(3,4) by (auto simp: find_row_None)
  moreover have "\<not> fails i op t"
    using Cons.prems(3) by (auto simp: fails_def find_row_None list_ex_iff owned_by_def split: outbox_op.split)
  moreover have "outbox_inv (outbox_step digest op t)" using Cons.prems by (simp add: whole_def outbox_step_inv)
  ultimately show ?case using Cons.IH [of "outbox_step digest op t"] Cons.prems step_next [of t digest op] by simp
qed simp

lemma attempt_bounds:
  assumes "outbox_inv t" "attempts_ok t"
  shows "0 \<le> attempt_of i t" "attempt_of i t \<le> walletOutboxMaxAttempts"
  using assms by (auto simp: attempt_of_def attempts_ok_def outbox_inv_def row_ok_def walletOutboxMaxAttempts_def
      dest!: find_rowD split: option.split)

lemma fails_owned:
  assumes "outbox_inv t" "fails i op t" "find_row i t = Some r"
  obtains w now where "op = OFailed i w now" "owned_by i w r"
proof -
  obtain w now x where op: "op = OFailed i w now" "x \<in> set (ox_rows t)" "owned_by i w x"
    using assms(2) by (auto simp: fails_def list_ex_iff split: outbox_op.splits)
  have "x = r" using same_row [OF assms(1) op(2)] find_rowD [OF assms(3)] op(3) by (simp add: owned_by_def)
  with op that show thesis by blast
qed

lemma split_keeps_attempts:
  assumes inv: "outbox_inv t" and r: "find_row i t = Some r"
  shows "attempt_of i t \<le> attempt_of i (fst (SplitOutboxEvent digest now j w captured ev reserved t))"
proof -
  obtain t' res where s: "SplitOutboxEvent digest now j w captured ev reserved t = (t', res)" by fastforce
  have "i \<noteq> ox_next t" using inv find_rowD [OF r] by (auto simp: outbox_inv_def)
  then have ins: "attempt_of i (insert_row x t) = attempt_of i t" for x
    by (simp add: attempt_of_def find_row_insert [OF inv])
  from s inv have "attempt_of i t \<le> attempt_of i t'"
  proof (cases rule: split_cases)
    case (split r)
    show ?thesis unfolding split(7)
      by (rule order_trans [OF eq_refl [OF ins [symmetric]] attempt_update]) (simp_all add: split_parent_def unclaim_def)
  qed simp
  with s show ?thesis by simp
qed

text \<open>A step counts a failure of the row, or sends it round again, or removes it, or leaves the count be.\<close>

lemma attempts_advance:
  assumes inv: "outbox_inv t" and a: "attempts_ok t" and op: "whole op" and r: "find_row i t = Some r"
    and there: "find_row i (outbox_step digest op t) \<noteq> None"
  shows "attempt_of i t + of_bool (fails i op t)
     \<le> attempt_of i (outbox_step digest op t) + walletOutboxMaxAttempts * of_bool (redrives i op t)"
proof (cases "fails i op t")
  case True
  then obtain w now where f: "op = OFailed i w now" "owned_by i w r" using fails_owned [OF inv _ r] by blast
  have "ow_id (failed_row now x) = ow_id x" "ow_attempt_count (failed_row now x) = ow_attempt_count x + 1" for x
    by (simp_all add: failed_row_def Let_def unclaim_def)
  with f True r show ?thesis
    by (simp add: failed_is [OF inv] attempt_of_def find_row_update walletOutboxMaxAttempts_def del: update_where_simps)
next
  case False
  show ?thesis
  proof (cases "redrives i op t")
    case True
    have "0 \<le> attempt_of i (outbox_step digest op t)"
      using attempt_bounds(1) [OF outbox_step_inv attempts_step] inv a op by (simp add: whole_def)
    with attempt_bounds(2) [OF inv a, of i] True False show ?thesis by simp
  next
    case calm: False
    have "attempt_of i t \<le> attempt_of i (outbox_step digest op t)"
    proof (cases op)
      case (OInsert now e)
      have "i \<noteq> ox_next t" using inv find_rowD [OF r] by (auto simp: outbox_inv_def)
      with OInsert show ?thesis
        by (auto simp: InsertOutboxEventTx_def Let_def attempt_of_def find_row_insert [OF inv] split: option.split)
    next
      case (OSplit now j w captured ev reserved)
      with split_keeps_attempts [OF inv r] show ?thesis by simp
    next
      case (OFailed j w now)
      then show ?thesis
        by (auto simp: failed_is [OF inv] failed_row_def Let_def unclaim_def intro!: attempt_update simp del: update_where_simps)
    next
      case (ORequeue j now)
      have "\<not> (ow_id r = j \<and> is_dead_letter ''balance_shortfall'' r)"
        using calm ORequeue find_rowD [OF r] by (auto simp: redrives_def list_ex_iff)
      with ORequeue r show ?thesis
        by (auto simp: RequeueDeadLetter_def attempt_of_def find_row_update unclaim_def simp del: update_where_simps)
    next
      case (OPrune open_segment locked cutoff batch)
      have "outbox_inv (outbox_step digest op t)" using inv op by (simp add: whole_def outbox_step_inv)
      moreover obtain r' where r': "find_row i (outbox_step digest op t) = Some r'" using there by blast
      moreover have "r' \<in> set (ox_rows t)"
        using find_rowD [OF r'] OPrune by (auto simp: PruneDeliveredOlderThan_def Let_def)
      then have "r' = r" using same_row [OF inv] find_rowD [OF r] find_rowD [OF r'] by simp
      ultimately show ?thesis using r by (simp add: attempt_of_def)
    qed (use op in \<open>auto simp: whole_def ClaimPendingOutboxEvents_def ReclaimStaleInFlightEvents_def claim_row_def unclaim_def
        MarkOutboxEventDelivered_def MarkOutboxEventDeadLetter_def BindOutboxEventLease_def ClearPendingRelease_def
        Let_def intro!: attempt_update simp del: update_where_simps\<close>)
    with False calm show ?thesis by simp
  qed
qed

lemma attempts_run:
  assumes "outbox_inv t" "attempts_ok t" "list_all whole ops"
  shows "int (count_ops digest (fails i) ops t) + attempt_of i t
     \<le> walletOutboxMaxAttempts * (1 + int (count_ops digest (redrives i) ops t))"
  using assms
proof (induction ops arbitrary: t)
  case Nil
  then show ?case using attempt_bounds(2) by simp
next
  case (Cons op ops)
  let ?t = "outbox_step digest op t"
  have op: "whole op" and ops: "list_all whole ops" using Cons.prems by simp_all
  have inv: "outbox_inv ?t" using Cons.prems(1) op by (simp add: whole_def outbox_step_inv)
  have a: "attempts_ok ?t" using attempts_step Cons.prems(1,2) op by blast
  note IH = Cons.IH [OF inv a ops]
  show ?case
  proof (cases "find_row i t")
    case None
    then have "\<not> fails i op t" "attempt_of i t = 0"
      by (auto simp: fails_def find_row_None list_ex_iff owned_by_def split: outbox_op.split) (simp add: attempt_of_def None)
    with IH attempt_bounds(1) [OF inv a, of i] show ?thesis by (simp add: walletOutboxMaxAttempts_def)
  next
    case (Some r)
    have i: "i < ox_next ?t"
      using step_next [of t digest op] find_rowD [OF Some] Cons.prems(1) by (auto simp: outbox_inv_def)
    show ?thesis
    proof (cases "find_row i ?t")
      case None
      have "\<not> fails i op t"
      proof
        assume "fails i op t"
        then obtain w now where "op = OFailed i w now" using fails_owned [OF Cons.prems(1) _ Some] by blast
        with None Some show False
          by (simp add: failed_is [OF Cons.prems(1)] find_row_update failed_row_def Let_def unclaim_def del: update_where_simps)
      qed
      moreover have "count_ops digest (fails i) ops ?t = 0" using gone_never_fails [OF inv ops None i] .
      ultimately show ?thesis using attempt_bounds(2) [OF Cons.prems(1,2), of i] by (simp add: walletOutboxMaxAttempts_def)
    next
      case (Some r')
      with attempts_advance [OF Cons.prems(1,2) op \<open>find_row i t = Some r\<close>, of digest] IH
      show ?thesis by (auto simp: walletOutboxMaxAttempts_def split: if_splits)
    qed
  qed
qed

section \<open>Settled rows\<close>

text \<open>A row that is delivered, or written off for any reason but a shortfall, stays as it is.\<close>

definition settled :: "outbox_row \<Rightarrow> bool" where
  "settled r \<longleftrightarrow> ow_status r = ''delivered'' \<or> (ow_status r = ''dead_letter'' \<and> ow_dead_letter_reason r \<noteq> Some ''balance_shortfall'')"

text \<open>What every update keeps of a row.\<close>

definition kept :: "outbox_row \<Rightarrow> outbox_row \<Rightarrow> bool" where
  "kept r r' \<longleftrightarrow> same_identity r r' \<and> (settled r \<longrightarrow> ow_status r' = ow_status r \<and> ow_amount_units r' = ow_amount_units r
     \<and> ow_dead_letter_reason r' = ow_dead_letter_reason r \<and> ow_attempt_count r' = ow_attempt_count r)"

lemma kept_refl: "kept r r"
  by (simp add: kept_def same_identity_def)

lemma kept_trans: "kept a b \<Longrightarrow> kept b c \<Longrightarrow> kept a c"
  by (simp add: kept_def same_identity_def settled_def)

lemma recorded_update:
  assumes "r \<in> set (ox_rows t)" "P r \<Longrightarrow> kept r (f r)"
  shows "\<exists>r'\<in>set (ox_rows (update_where P f t)). kept r r'"
proof -
  have "(if P r then f r else r) \<in> set (ox_rows (update_where P f t))" using assms(1) by simp
  moreover have "kept r (if P r then f r else r)" using assms(2) kept_refl by simp
  ultimately show ?thesis by blast
qed

text \<open>Every operation but pruning keeps an event recorded, with the hash it was recorded under.\<close>

definition prunes :: "outbox_op \<Rightarrow> bool" where
  "prunes op = (case op of OPrune _ _ _ _ \<Rightarrow> True | _ \<Rightarrow> False)"

lemma recorded_step:
  assumes inv: "outbox_inv t" and r: "r \<in> set (ox_rows t)" and op: "\<not> prunes op"
  shows "\<exists>r'\<in>set (ox_rows (outbox_step digest op t)). kept r r'"
proof (cases op)
  case (OInsert now e)
  then show ?thesis using r kept_refl by (auto simp: InsertOutboxEventTx_def Let_def insert_row_def split: option.split)
next
  case (OClaim locked w limit now)
  have "kept r (claim_row now w r)" if "ow_id r \<in> set (claimable locked limit now t)"
    using claimable_pending [OF inv r that] by (simp add: kept_def settled_def claim_row_def same_identity_def)
  with OClaim show ?thesis using recorded_update [OF r, of "\<lambda>x. ow_id x \<in> set (claimable locked limit now t)" "claim_row now w"]
    by (simp add: ClaimPendingOutboxEvents_def Let_def)
next
  case (OSplit now i w captured ev reserved)
  obtain t' res where s: "SplitOutboxEvent digest now i w captured ev reserved t = (t', res)" by fastforce
  from this inv have "\<exists>r'\<in>set (ox_rows t'). kept r r'"
  proof (cases rule: split_cases)
    case (split p)
    have "r \<in> set (ox_rows (insert_row x t))" for x using r by (simp add: insert_row_def)
    moreover have "\<not> settled r" if "ow_id r = i"
      using same_row [OF inv r split(1)] that split(2) by (auto simp: owned_by_def settled_def)
    ultimately show ?thesis unfolding split(7)
      by (intro recorded_update) (auto simp: split_parent_def unclaim_def kept_def same_identity_def)
  qed (use r kept_refl in blast)
  then show ?thesis using OSplit s by simp
next
  case (OFailed i w now)
  have "outbox_step digest op t = update_where (owned_by i w) (failed_row now) t" using OFailed failed_is [OF inv] by simp
  moreover have "kept r (failed_row now r)" if "owned_by i w r"
    using that by (simp add: kept_def settled_def owned_by_def failed_row_def Let_def unclaim_def same_identity_def)
  ultimately show ?thesis using recorded_update [OF r] by simp
next
  case (OPrune open_segment locked cutoff batch)
  then show ?thesis using op by (simp add: prunes_def)
qed (simp_all add: ReclaimStaleInFlightEvents_def count_attempt_def MarkOutboxEventDelivered_def MarkOutboxEventDeadLetter_def
        BindOutboxEventLease_def ClearPendingRelease_def RequeueDeadLetter_def del: update_where_simps,
      (rule recorded_update [OF r], simp add: kept_def settled_def same_identity_def unclaim_def owned_by_def stale_at_def is_dead_letter_def)+)

lemma recorded_run:
  assumes "outbox_inv t" "r \<in> set (ox_rows t)" "list_all op_ok ops" "\<not> list_ex prunes ops"
  shows "\<exists>r'\<in>set (ox_rows (outbox_run digest ops t)). kept r r'"
  using assms
proof (induction ops arbitrary: t r)
  case (Cons op ops)
  obtain r' where r': "r' \<in> set (ox_rows (outbox_step digest op t))" "kept r r'"
    using recorded_step [OF Cons.prems(1,2), of op digest] Cons.prems(4) by auto
  have "outbox_inv (outbox_step digest op t)" using outbox_step_inv Cons.prems(1,3) by simp
  then obtain r'' where "r'' \<in> set (ox_rows (outbox_run digest (op # ops) t))" "kept r' r''"
    using Cons.IH [OF _ r'(1)] Cons.prems(3,4) by auto
  with kept_trans [OF r'(2)] show ?case by blast
qed (use kept_refl in auto)

text \<open>Observing an event again: nothing happens, or the two payloads are told apart.\<close>

lemma insert_recorded:
  assumes "outbox_inv t" "r \<in> set (ox_rows t)" "ow_event_id r = se_EventID e"
  shows "InsertOutboxEventTx digest now e t =
     (t, if ow_payload_hash r = walletOutboxPayloadHash digest e then None else Some ErrCanonicalWalletOutboxPayloadConflict)"
  using find_eventI [OF assms(1,2)] assms(3) by (simp add: InsertOutboxEventTx_def Let_def)

lemma insert_records:
  assumes "outbox_inv t" "snd (InsertOutboxEventTx digest now e t) = None"
  shows "\<exists>r\<in>set (ox_rows (fst (InsertOutboxEventTx digest now e t))).
     ow_event_id r = se_EventID e \<and> ow_payload_hash r = walletOutboxPayloadHash digest e"
  using assms(2) by (auto simp: InsertOutboxEventTx_def Let_def insert_row_def new_row_def
      dest!: find_eventD split: option.splits if_splits)

lemma reobserved_run:
  assumes inv: "outbox_inv t" and ok: "0 \<le> se_AmountUnits e" "list_all op_ok ops" "\<not> list_ex prunes ops"
    and first: "InsertOutboxEventTx digest now e t = (t1, None)"
    and later: "t2 = outbox_run digest ops t1"
    and same: "se_EventID e' = se_EventID e"
  shows "InsertOutboxEventTx digest now' e' t2 =
     (t2, if walletOutboxPayloadHash digest e' = walletOutboxPayloadHash digest e then None
          else Some ErrCanonicalWalletOutboxPayloadConflict)"
proof -
  obtain r where r: "r \<in> set (ox_rows t1)" "ow_event_id r = se_EventID e" "ow_payload_hash r = walletOutboxPayloadHash digest e"
    using insert_records [OF inv, of digest now e] first by auto
  have inv1: "outbox_inv t1" using outbox_step_inv [OF inv, of "OInsert now e" digest] ok(1) first by (simp add: op_ok_def)
  obtain r' where r': "r' \<in> set (ox_rows t2)" "kept r r'" using recorded_run [OF inv1 r(1) ok(2,3)] later by blast
  have "outbox_inv t2" using outbox_run_inv [OF inv1 ok(2)] later by simp
  from insert_recorded [OF this r'(1)] r r' same show ?thesis by (auto simp: kept_def same_identity_def)
qed

text \<open>Nothing but a prune and the clearing of its release touches a settled row.\<close>

lemma settled_step:
  assumes inv: "outbox_inv t" and r: "r \<in> set (ox_rows t)" "settled r" and op: "\<not> prunes op" "op \<noteq> OClear (ow_id r)"
  shows "r \<in> set (ox_rows (outbox_step digest op t))"
proof -
  have other: "\<not> owned_by j v r" for j v using r(2) by (auto simp: owned_by_def settled_def)
  show ?thesis
  proof (cases op)
    case (OInsert now e)
    then show ?thesis using r(1) by (auto simp: InsertOutboxEventTx_def Let_def insert_row_other split: option.split)
  next
    case (OClaim locked v limit now)
    have "ow_id r \<notin> set (claimable locked limit now t)" using claimable_pending [OF inv r(1)] r(2) by (auto simp: settled_def)
    then show ?thesis using OClaim r(1)
      by (simp add: ClaimPendingOutboxEvents_def Let_def update_where_other del: update_where_simps)
  next
    case (OReclaim staleAfter now)
    have "\<not> stale_at (now - staleAfter) r" using r(2) by (auto simp: stale_at_def settled_def)
    then show ?thesis using OReclaim r(1)
      by (simp add: ReclaimStaleInFlightEvents_def update_where_other del: update_where_simps)
  next
    case (ORequeue j now)
    have "\<not> is_dead_letter ''balance_shortfall'' r" using r(2) by (auto simp: is_dead_letter_def settled_def)
    then show ?thesis using ORequeue r(1) by (simp add: RequeueDeadLetter_def update_where_other del: update_where_simps)
  qed (use op r(1) in \<open>simp_all add: prunes_def other failed_other resolve_other split_other [OF inv]
      MarkOutboxEventDelivered_def MarkOutboxEventDeadLetter_def BindOutboxEventLease_def ClearPendingRelease_def
      update_where_other del: update_where_simps\<close>)
qed

lemma settled_run:
  assumes "outbox_inv t" "r \<in> set (ox_rows t)" "settled r" "list_all op_ok ops" "\<not> list_ex prunes ops" "OClear (ow_id r) \<notin> set ops"
  shows "r \<in> set (ox_rows (outbox_run digest ops t))"
  using assms(1,2,4-6)
proof (induction ops arbitrary: t)
  case (Cons op ops)
  have "op \<noteq> OClear (ow_id r)" "\<not> prunes op" "op_ok op" using Cons.prems by auto
  then show ?case using Cons settled_step [OF Cons.prems(1,2) assms(3)] outbox_step_inv [OF Cons.prems(1)] by simp
qed simp

lemma settled_not_claimed:
  assumes "outbox_inv t" "r \<in> set (ox_rows t)" "settled r" "e \<in> set (snd (ClaimPendingOutboxEvents locked w limit now t))"
  shows "oe_ID e \<noteq> ow_id r"
proof
  assume same: "oe_ID e = ow_id r"
  obtain r' where "r' \<in> set (ox_rows t)" "ow_id r' = oe_ID e" "ow_status r' = ''pending''"
    using claim_returns_pending [OF assms(1,4)] by blast
  then have "ow_status r = ''pending''" using same_row [OF assms(1) _ assms(2)] same by metis
  with assms(3) show False by (simp add: settled_def)
qed

text \<open>A split that keeps nothing delivers the parent together with its debt.\<close>

lemma full_split:
  assumes inv: "outbox_inv t" and r: "r \<in> set (ox_rows t)" "owned_by i w r" and new: "find_event ev t = None"
  obtains d where "d \<in> set (ox_rows (fst (SplitOutboxEvent digest now i w 0 ev True t)))" "ow_id d = i"
    "ow_status d = ''delivered''" "ow_pending_release_units d = Some (ow_amount_units r)"
proof -
  obtain y where y: "find (owned_by i w) (ox_rows t) = Some y"
    using r by (cases "find (owned_by i w) (ox_rows t)") (auto simp: find_None_iff)
  have "y = r" using find_Some_in [OF y] same_row [OF inv _ r(1)] r(2) by (simp add: owned_by_def)
  moreover have "0 \<le> ow_amount_units r" using inv_row [OF inv r(1)] by (simp add: row_ok_def)
  ultimately have s: "fst (SplitOutboxEvent digest now i w 0 ev True t) = update_where (\<lambda>x. ow_id x = i)
      (split_parent now 0 (Some (ow_amount_units r))) (insert_row (remainder_row digest now r ev (ow_amount_units r)) t)"
    using y new by (simp add: SplitOutboxEvent_def Let_def del: update_where_simps)
  have i: "ow_id r = i" using r(2) by (simp add: owned_by_def)
  show thesis
  proof (rule that [of "split_parent now 0 (Some (ow_amount_units r)) r"])
    show "split_parent now 0 (Some (ow_amount_units r)) r \<in> set (ox_rows (fst (SplitOutboxEvent digest now i w 0 ev True t)))"
      unfolding s using r(1) i by (force simp: insert_row_def)
  qed (simp_all add: split_parent_def unclaim_def i)
qed

end
