(* ===== verification/Wallet_Dispatch_Logic.thy ===== *)
theory Wallet_Dispatch_Logic
  imports Wallet_Dispatcher Wallet_Actions Wallet_Outbox_Ledger
begin

text \<open>
  What the bridge's actions keep, proved once for every relation of a kind: \<open>funding_order\<close> walks the
  funding return and the acquisition of leases, \<open>delivery_order\<close> the delivery of the outbox. The lease side
  of a delivery leaves the outbox alone and submits nothing; the whole of it is a run of the outbox's
  operations.
\<close>

section \<open>Relations the funding side keeps\<close>

fun is_submit :: "control_call \<Rightarrow> bool" where
  "is_submit (CSubmit _ _ _ _) = True"
| "is_submit _ = False"

fun is_return :: "control_call \<Rightarrow> bool" where
  "is_return (CReturn _ _ _) = True"
| "is_return _ = False"

locale funding_order = world_order R for R :: "world \<Rightarrow> world \<Rightarrow> bool" +
  fixes env :: bridge_env
  assumes R_store: "R w (w\<lparr>w_store := c\<rparr>)"
    and R_log: "\<not> is_submit call \<Longrightarrow> \<not> is_return call \<Longrightarrow> R w (w\<lparr>w_log := w_log w @ [call]\<rparr>)"
    and R_intents: "R w (w\<lparr>w_intents := i\<rparr>)"
    and R_register: "keeps R (insert_freeze user leaseID lease mode)"
    and R_pending: "keeps R (update_freeze user leaseID (\<lambda>r. C r \<and> (ff_pending r = None \<or> ff_pending r = Some p))
        (\<lambda>r. r\<lparr>ff_pending := Some p\<rparr>))"
    and R_replay: "keeps R (replayPendingFundingReturn env user leaseID)"
    and R_apply: "keeps R (applyFundingReturnACK env receipt)"
begin

lemma store_keeps: "keeps R (on_store g)"
  unfolding on_store_def by (rule keeps_remote) (simp add: R_store split: prod.split)

lemma control_keeps:
  "keeps R (control_ensure env request)" "keeps R (control_pool env user scope)" "keeps R (control_freeze_source env q)"
  unfolding control_ensure_def control_pool_def control_freeze_source_def
  by (rule keeps_remote, simp add: R_log Let_def)+

lemma intent_keeps: "keeps R (update_intent user leaseID cond f)" "keeps R (insert_intent user leaseID mode)"
  unfolding update_intent_def insert_intent_def
  by (rule keeps_remote, simp add: R_intents R_refl Let_def split: option.split)+

lemmas call_keeps = store_keeps control_keeps intent_keeps R_register R_pending R_replay R_apply

lemma registry_keeps: "keeps R (applyFundingRegistry env lease)"
  unfolding applyFundingRegistry_def find_freeze_def by (intro keeps_rules)

lemma install_keeps: "keeps R (installFundingLease env lease)"
  unfolding installFundingLease_def install_lease_def by (intro keeps_rules registry_keeps call_keeps)

lemma source_wire_keeps: "keeps R (fundingSourceWire env user leaseID)"
  unfolding fundingSourceWire_def by (intro keeps_rules call_keeps)

lemma fresh_source_keeps: "keeps R (freshFundingSource env user leaseID)"
  unfolding freshFundingSource_def get_lease_def by (intro keeps_rules call_keeps source_wire_keeps install_keeps)

lemma freeze_attempts_keeps: "keeps R (freeze_source_attempts env n user leaseID)"
proof (induction n)
  case (Suc n)
  have "keeps R (expected_request env user leaseID i)" "keeps R (fenced_source env user leaseID q receipt)" for i q receipt
    unfolding expected_request_def fenced_source_def Let_def by (intro keeps_rules call_keeps fresh_source_keeps)+
  with Suc show ?case unfolding freeze_source_attempts.simps by (intro keeps_rules call_keeps)
qed (simp add: keeps_ret)

lemma terminal_keeps: "keeps R (fundingTerminalCloseReady env user leaseID)"
  unfolding fundingTerminalCloseReady_def get_lease_def on_redis_def by (intro keeps_rules call_keeps source_wire_keeps)

lemma prepare_keeps: "keeps R (prepareFundingReturn env user leaseID mode)"
proof -
  have "keeps R (close_ready env user leaseID mode)" "keeps R (freezeFundingSource env user leaseID)"
    unfolding close_ready_def get_lease_def freezeFundingSource_def
    by (intro keeps_rules call_keeps terminal_keeps freeze_attempts_keeps)+
  then show ?thesis
    unfolding prepareFundingReturn_def on_redis_def Let_def by (intro keeps_rules call_keeps registry_keeps)
qed

lemma recover_keeps: "keeps R (recoverFundingReturn env user leaseID)"
proof -
  have "keeps R (recover_attempts env n user leaseID)" for n
  proof (induction n)
    case (Suc n)
    then show ?case unfolding recover_attempts.simps find_freeze_def by (intro keeps_rules call_keeps)
  qed (simp add: keeps_ret)
  then show ?thesis by (simp add: recoverFundingReturn_def keeps_ret)
qed

lemma return_keeps: "keeps R (returnFrozenFunding env user leaseID mode)"
proof -
  have "keeps R (return_observations env n user leaseID mode)" for n
  proof (induction n)
    case (Suc n)
    then show ?case
      unfolding return_observations.simps funding_closed_def by (intro keeps_rules recover_keeps prepare_keeps)
  qed (simp add: keeps_ret)
  then show ?thesis by (simp add: returnFrozenFunding_def keeps_ret)
qed

lemma reclaim_keeps: "keeps R (reclaimSharedFreeFunding env user)"
proof -
  have "keeps R (reclaim_each env user views returned firstErr)" for views returned firstErr
  proof (induction views arbitrary: returned firstErr)
    case (Cons v vs)
    then show ?case
      unfolding reclaim_each.simps get_lease_def Let_def by (intro keeps_rules call_keeps recover_keeps return_keeps)
  qed (auto intro!: keeps_rules)
  then show ?thesis unfolding reclaimSharedFreeFunding_def by (intro keeps_rules call_keeps)
qed

lemma close_pinless_keeps: "keeps R (closePinlessMediaLease env user leaseID basis)"
  unfolding closePinlessMediaLease_def get_lease_def
  by (intro keeps_rules call_keeps source_wire_keeps install_keeps return_keeps)

lemma close_media_keeps: "keeps R (closeMediaFundingLeases env user taskID ids)"
proof -
  have "keeps R (close_media_each env user taskID ids seen)" for seen
  proof (induction ids arbitrary: seen)
    case (Cons i ids)
    then show ?case
      unfolding close_media_each.simps find_freeze_def get_lease_def
      by (intro keeps_rules call_keeps recover_keeps return_keeps)
  qed (simp add: keeps_ret)
  then show ?thesis unfolding closeMediaFundingLeases_def by (intro keeps_rules)
qed

lemma recovery_tick_keeps: "keeps R (runFundingRecovery_tick env)"
proof -
  have "keeps R (recover_each env work)" for work
  proof (induction work)
    case (Cons x work)
    then show ?case by (cases x) (auto intro!: keeps_rules recover_keeps return_keeps)
  qed (simp add: keeps_ret)
  then show ?thesis unfolding runFundingRecovery_tick_def by (intro keeps_rules)
qed

subsection \<open>Leases\<close>

lemma lifecycle_keeps: "keeps R (ensureFundingLifecycle env request)"
proof -
  have "keeps R (frozen_sources env request ids)" for request ids
    by (induction ids arbitrary: request) (auto intro!: keeps_rules)
  then show ?thesis unfolding ensureFundingLifecycle_def by (intro keeps_rules call_keeps)
qed

lemma late_exclusions_keeps: "keeps R (lateFundingExclusions env e)"
  unfolding lateFundingExclusions_def by (intro keeps_rules)

lemma excluded_keeps: "keeps R (ensureExcludedSettlementFunding env e ids)"
  unfolding ensureExcludedSettlementFunding_def Let_def by (intro keeps_rules lifecycle_keeps install_keeps reclaim_keeps)

lemma ensureLease_keeps: "keeps R (ensureLease env user currency amount purpose prefer)"
proof -
  have grant: "keeps R (obtain_grant env user amount purpose policy now cached request)" for policy now cached request
    unfolding obtain_grant_def Let_def by (intro keeps_rules lifecycle_keeps install_keeps reclaim_keeps)
  have "keeps R (drain_or_top_up env user amount purpose policy now l request)" for policy now l request
    unfolding drain_or_top_up_def Let_def seal_lease_def by (intro keeps_rules call_keeps)
  then have "keeps R (ensure_from_cache env user currency amount purpose prefer policy now cached)" for policy now cached
    unfolding ensure_from_cache_def Let_def by (intro keeps_rules grant)
  then show ?thesis
    unfolding ensureLease_def ensureLeaseWithPolicy_def get_lease_def get_current_lease_def
    by (intro keeps_rules call_keeps registry_keeps)
qed

lemma resolve_kept_keeps: "keeps R (resolve_kept env e)"
proof -
  have "keeps R (resolve_bound env e lease)" for lease
    unfolding resolve_bound_def install_lease_def Let_def by (intro keeps_rules call_keeps registry_keeps ensureLease_keeps)
  then show ?thesis
    unfolding resolve_kept_def get_lease_def by (intro keeps_rules call_keeps recover_keeps ensureLease_keeps)
qed

end

section \<open>Relations a delivery keeps\<close>

locale delivery_order = funding_order +
  assumes R_outbox: "R w (w\<lparr>w_outbox := t\<rparr>)"
    and R_submit: "R w (w\<lparr>w_log := w_log w @ [CSubmit event st tb answer]\<rparr>)"
begin

lemma outbox_keeps: "keeps R (on_outbox g)"
  unfolding on_outbox_def by (rule keeps_remote) (simp add: R_outbox split: prod.split)

lemma submit_keeps: "keeps R (control_submit env event)"
  unfolding control_submit_def by (rule keeps_remote) (simp add: R_submit Let_def)

lemma mark_keeps:
  "keeps R (mark_failed env i)" "keeps R (mark_dead_letter env i reason)" "keeps R (mark_delivered env i)"
  "keeps R (bind_lease env i leaseID)" "keeps R (clear_release i)"
  "keeps R (release_reservation env user leaseID eventID units dropMarker)" "keeps R (seal_lease env user leaseID)"
  unfolding mark_failed_def mark_dead_letter_def mark_delivered_def bind_lease_def clear_release_def
    release_reservation_def seal_lease_def
  by (intro keeps_rules outbox_keeps store_keeps)+

lemma split_keeps: "keeps R (splitOutboxEvent env e leaseID headroom reserved)"
  unfolding splitOutboxEvent_def by (intro keeps_rules outbox_keeps mark_keeps)

lemma refused_keeps: "keeps R (settlement_refused env e pinned leaseID reservedOn err)"
proof -
  have "keeps R (late_capture env e reservedOn)" "keeps R (pinned_over_capture env e reservedOn)"
    unfolding late_capture_def pinned_over_capture_def by (intro keeps_rules mark_keeps)+
  then show ?thesis
    unfolding settlement_refused_def by (cases err) (simp_all add: mark_keeps split_keeps split: option.split)
qed

lemma deliver_on_keeps: "keeps R (deliver_on env e pinned token lease)"
proof -
  have "keeps R (settlement_accepted env e result)" for result
    unfolding settlement_accepted_def by (intro keeps_rules mark_keeps)
  then have "keeps R (reserve_and_submit env e pinned token leaseID)" for leaseID
    unfolding reserve_and_submit_def Let_def by (intro keeps_rules store_keeps mark_keeps submit_keeps refused_keeps)
  then show ?thesis unfolding deliver_on_def by (intro keeps_rules mark_keeps split_keeps)
qed

lemma resolve_keeps: "keeps R (resolveOutboxEventLease env e)"
  unfolding resolveOutboxEventLease_def
  by (intro keeps_rules mark_keeps late_exclusions_keeps excluded_keeps ensureLease_keeps resolve_kept_keeps)

lemma deliver_keeps: "keeps R (deliverOutboxEvent env e)"
  unfolding deliverOutboxEvent_def deliver_resolved_def pay_release_def
  by (intro keeps_rules mark_keeps late_exclusions_keeps resolve_keeps deliver_on_keeps)

lemma tick_keeps: "keeps R (runOutboxDispatcher_tick env)"
proof -
  have "keeps R (deliver_all env es)" for es
    by (induction es) (auto intro!: keeps_rules deliver_keeps)
  then show ?thesis unfolding runOutboxDispatcher_tick_def Let_def by (intro keeps_rules outbox_keeps)
qed

lemma collect_keeps: "keeps R (collectReceivableOnce env)"
proof -
  have "keeps R (requeue_all env cs)" for cs
    by (induction cs) (auto intro!: keeps_rules outbox_keeps)
  then show ?thesis unfolding collectReceivableOnce_def by (intro keeps_rules store_keeps outbox_keeps)
qed

end

section \<open>The lease side\<close>

text \<open>The outbox is as it was, and nothing was submitted.\<close>

definition lease_side :: "world \<Rightarrow> world \<Rightarrow> bool" where
  "lease_side w w' \<longleftrightarrow> w_outbox w' = w_outbox w
     \<and> (\<exists>new. w_log w' = w_log w @ new \<and> list_all (\<lambda>c. \<not> is_submit c) new)"

lemma lease_side_same: "w_outbox w' = w_outbox w \<Longrightarrow> w_log w' = w_log w \<Longrightarrow> lease_side w w'"
  by (simp add: lease_side_def)

interpretation lease_frame: world_order lease_side
proof
  fix u v w :: world and fs
  show "lease_side w w" by (simp add: lease_side_def)
  show "lease_side w (w\<lparr>w_faults := fs\<rparr>)" by (simp add: lease_side_def)
  show "lease_side u w" if "lease_side u v" "lease_side v w"
    using that by (force simp: lease_side_def)
qed

lemma store_side: "keeps lease_side (on_store g)"
  unfolding on_store_def
  by (rule lease_frame.keeps_remote) (simp add: lease_side_def split: prod.split)

lemma freeze_side: "keeps lease_side (update_freeze user leaseID cond f)" "keeps lease_side (insert_freeze user leaseID lease mode)"
  unfolding update_freeze_def insert_freeze_def Let_def
  by (rule lease_frame.keeps_remote, simp add: lease_side_same split: option.split)+

lemma return_side: "keeps lease_side (control_return env q)"
  unfolding control_return_def by (rule lease_frame.keeps_remote) (simp add: lease_side_def Let_def)

lemma apply_side: "keeps lease_side (applyFundingReturnACK env receipt)"
  unfolding applyFundingReturnACK_def on_redis_def by (intro lease_frame.keeps_rules store_side freeze_side)

lemma replay_side: "keeps lease_side (replayPendingFundingReturn env user leaseID)"
proof -
  have "keeps lease_side (mark_dispatched user leaseID r p)" for r p
    unfolding mark_dispatched_def Let_def
    by (intro lease_frame.keeps_rules lease_frame.keeps_remote) (simp add: lease_side_same)
  moreover have "keeps lease_side (send_return env user leaseID revision fresh p)" for revision fresh p
    unfolding send_return_def record_receipt_def by (intro lease_frame.keeps_rules return_side freeze_side apply_side)
  ultimately show ?thesis
    unfolding replayPendingFundingReturn_def find_freeze_def by (intro lease_frame.keeps_rules)
qed

interpretation lease_funding: funding_order lease_side env for env
  by unfold_locales (simp_all add: lease_side_def freeze_side replay_side apply_side)

lemmas late_exclusions_side = lease_funding.late_exclusions_keeps
lemmas excluded_side = lease_funding.excluded_keeps
lemmas ensureLease_side = lease_funding.ensureLease_keeps
lemmas resolve_kept_side = lease_funding.resolve_kept_keeps

section \<open>A delivery is a run of the outbox\<close>

text \<open>The operations a bridge makes on the outbox: its own claims and resolutions, never an insertion.\<close>

definition bridge_op :: "string \<Rightarrow> outbox_op \<Rightarrow> bool" where
  "bridge_op worker op = (case op of
      OInsert _ _ \<Rightarrow> False
    | OClaim _ w _ _ \<Rightarrow> w = worker
    | OReclaim _ _ \<Rightarrow> True
    | ODelivered _ w _ \<Rightarrow> w = worker
    | OFailed _ w _ \<Rightarrow> w = worker
    | OCount _ w \<Rightarrow> w = worker
    | ODead _ w _ \<Rightarrow> w = worker
    | OBind _ w _ \<Rightarrow> w = worker
    | OSplit _ _ w _ _ _ \<Rightarrow> w = worker
    | OClear _ \<Rightarrow> True
    | ORequeue _ _ \<Rightarrow> True
    | OPrune _ _ _ _ \<Rightarrow> False)"

definition outbox_side :: "bridge_env \<Rightarrow> world \<Rightarrow> world \<Rightarrow> bool" where
  "outbox_side env w w' \<longleftrightarrow> (\<exists>ops. list_all (bridge_op (be_worker env)) ops
     \<and> w_outbox w' = outbox_run (be_digest env) ops (w_outbox w))"

lemma outbox_sideI:
  "list_all (bridge_op (be_worker env)) ops \<Longrightarrow> w_outbox w' = outbox_run (be_digest env) ops (w_outbox w) \<Longrightarrow> outbox_side env w w'"
  by (auto simp: outbox_side_def)

lemma outbox_side_same: "w_outbox w' = w_outbox w \<Longrightarrow> outbox_side env w w'"
  by (rule outbox_sideI [of _ "[]"]) simp_all

lemma outbox_side_step:
  "bridge_op (be_worker env) op \<Longrightarrow> w_outbox w' = outbox_step (be_digest env) op (w_outbox w) \<Longrightarrow> outbox_side env w w'"
  by (rule outbox_sideI [of _ "[op]"]) simp_all

interpretation outbox_frame: world_order "outbox_side env" for env
proof
  fix u v w :: world and fs
  show "outbox_side env w w" by (simp add: outbox_side_same)
  show "outbox_side env w (w\<lparr>w_faults := fs\<rparr>)" by (simp add: outbox_side_same)
  show "outbox_side env u w" if uv: "outbox_side env u v" and vw: "outbox_side env v w"
  proof -
    obtain ops ops' where "list_all (bridge_op (be_worker env)) ops" "w_outbox v = outbox_run (be_digest env) ops (w_outbox u)"
      "list_all (bridge_op (be_worker env)) ops'" "w_outbox w = outbox_run (be_digest env) ops' (w_outbox v)"
      using uv vw by (auto simp: outbox_side_def)
    then show ?thesis by (intro outbox_sideI [of _ "ops @ ops'"]) simp_all
  qed
qed

lemma lease_outbox_side: "keeps lease_side m \<Longrightarrow> keeps (outbox_side env) m"
  by (auto simp: keeps_def lease_side_def intro: outbox_side_same)

lemma outbox_call:
  assumes "\<And>w t. \<exists>op. bridge_op (be_worker env) op \<and> fst (g w t) = outbox_step (be_digest env) op t"
  shows "keeps (outbox_side env) (on_outbox g)"
  unfolding on_outbox_def
proof (rule outbox_frame.keeps_remote)
  fix w
  obtain op where "bridge_op (be_worker env) op" "fst (g w (w_outbox w)) = outbox_step (be_digest env) op (w_outbox w)"
    using assms by blast
  then show "outbox_side env w (fst (case g w (w_outbox w) of (t, r) \<Rightarrow> (w\<lparr>w_outbox := t\<rparr>, map_sum BOutbox id r)))"
    by (intro outbox_side_step [of env op]) (simp_all add: case_prod_beta)
qed

text \<open>A failed mark is the whole failure, its count alone, or nothing.\<close>

lemma mark_failed_side: "keeps (outbox_side env) (mark_failed env i)"
  unfolding keeps_def
proof
  fix w
  let ?k = "be_worker env" and ?d = "be_digest env" and ?now = "be_clock env w"
  let ?count = "on_outbox (\<lambda>_ t. let t1 = count_attempt i ?k t
     in (t1, Inr (map_option ow_attempt_count (find (owned_by i ?k) (ox_rows t1)))))"
  obtain w1 r where c: "?count w = (w1, r)" by fastforce
  have counted: "w_outbox w1 = w_outbox w \<or> w_outbox w1 = count_attempt i ?k (w_outbox w)"
    using c by (auto simp: on_outbox_def remote_def Let_def split: list.splits fault.splits)
  have read: "w_outbox w1 = count_attempt i ?k (w_outbox w) \<and>
        map_option ow_attempt_count (find (owned_by i ?k) (ox_rows (count_attempt i ?k (w_outbox w)))) = Some n"
      if "r = Some (Inr (Some n))" for n
    using c that by (auto simp: on_outbox_def remote_def Let_def split: list.splits fault.splits)
  have once: "outbox_side env w w1"
    using counted by (auto intro: outbox_side_same outbox_side_step [of env "OCount i ?k"] simp: bridge_op_def)
  have m: "fst (mark_failed env i w) = (case r of Some (Inr (Some n)) \<Rightarrow>
      fst (on_outbox (\<lambda>_ t. (resolve_attempt i ?k n ?now t, Inr ())) w1) | _ \<Rightarrow> w1)"
    using c by (auto simp: mark_failed_def act_bind_def read_clock_def ret_def split: option.split sum.split prod.split)
  show "outbox_side env w (fst (mark_failed env i w))"
  proof (cases "\<exists>n. r = Some (Inr (Some n))")
    case False
    then have "fst (mark_failed env i w) = w1" using m by (auto split: option.split sum.split)
    with once show ?thesis by simp
  next
    case True
    then obtain n where n: "r = Some (Inr (Some n))" by blast
    let ?w2 = "fst (on_outbox (\<lambda>_ t. (resolve_attempt i ?k n ?now t, Inr ())) w1)"
    have "w_outbox ?w2 = w_outbox w1 \<or> w_outbox ?w2 = resolve_attempt i ?k n ?now (w_outbox w1)"
      by (auto simp: on_outbox_def remote_def Let_def split: list.splits fault.splits)
    moreover have "resolve_attempt i ?k n ?now (count_attempt i ?k (w_outbox w)) = MarkOutboxEventFailed i ?k ?now (w_outbox w)"
      using read [OF n] by (auto simp: MarkOutboxEventFailed_def Let_def)
    ultimately have "outbox_side env w ?w2"
      using read [OF n] once by (auto intro: outbox_side_same outbox_side_step [of env "OFailed i ?k ?now"]
          outbox_side_step [of env "OCount i ?k"] simp: bridge_op_def)
    then show ?thesis using m n by simp
  qed
qed

lemma dead_letter_side: "keeps (outbox_side env) (mark_dead_letter env i reason)"
  unfolding mark_dead_letter_def
  by (intro outbox_frame.keeps_rules outbox_call exI [of _ "ODead i (be_worker env) reason"]) (simp add: bridge_op_def)

lemma delivered_side: "keeps (outbox_side env) (mark_delivered env i)"
  unfolding mark_delivered_def
  by (intro outbox_frame.keeps_rules outbox_call exI [of _ "ODelivered i (be_worker env) (be_dbnow env _)"]) (simp add: bridge_op_def)

lemma bind_side: "keeps (outbox_side env) (bind_lease env i l)"
  unfolding bind_lease_def
  by (intro outbox_call exI [of _ "OBind i (be_worker env) l"]) (simp add: bridge_op_def split: prod.split option.split)

lemma clear_side: "keeps (outbox_side env) (clear_release i)"
  unfolding clear_release_def by (intro outbox_call exI [of _ "OClear i"]) (simp add: bridge_op_def)

lemmas marks_side = mark_failed_side dead_letter_side delivered_side bind_side clear_side lease_outbox_side [OF store_side]

lemma split_side: "keeps (outbox_side env) (splitOutboxEvent env e l h reserved)"
  unfolding splitOutboxEvent_def release_reservation_def seal_lease_def
proof (intro outbox_frame.keeps_rules marks_side outbox_call)
  fix w t
  show "\<exists>op. bridge_op (be_worker env) op \<and> fst (SplitOutboxEvent (be_digest env) (be_dbnow env w) (oe_ID e) (be_worker env) h
      (remainder_id e) reserved t) = outbox_step (be_digest env) op t"
    by (rule exI [of _ "OSplit (be_dbnow env w) (oe_ID e) (be_worker env) h (remainder_id e) reserved"]) (simp add: bridge_op_def)
qed

lemma submit_side: "keeps (outbox_side env) (control_submit env ev)"
  unfolding control_submit_def
  by (rule outbox_frame.keeps_remote) (simp add: outbox_side_same Let_def)

lemma late_capture_side: "keeps (outbox_side env) (late_capture env e l)"
  unfolding late_capture_def release_reservation_def seal_lease_def
  by (intro outbox_frame.keeps_rules marks_side)

lemma pinned_side: "keeps (outbox_side env) (pinned_over_capture env e l)"
  unfolding pinned_over_capture_def release_reservation_def seal_lease_def
  by (intro outbox_frame.keeps_rules marks_side)

lemma refused_side: "keeps (outbox_side env) (settlement_refused env e pinned l l' err)"
  unfolding settlement_refused_def
  by (cases err) (simp_all add: marks_side pinned_side late_capture_side split_side split: option.split)

lemma accepted_side: "keeps (outbox_side env) (settlement_accepted env e result)"
  unfolding settlement_accepted_def release_reservation_def
  by (intro outbox_frame.keeps_rules marks_side)

lemma reserve_side: "keeps (outbox_side env) (reserve_and_submit env e pinned token l)"
  unfolding reserve_and_submit_def Let_def
  by (intro outbox_frame.keeps_rules marks_side submit_side refused_side accepted_side)

lemma deliver_on_side: "keeps (outbox_side env) (deliver_on env e pinned token lease)"
  unfolding deliver_on_def
  by (intro outbox_frame.keeps_rules marks_side split_side reserve_side)

lemma resolve_side: "keeps (outbox_side env) (resolveOutboxEventLease env e)"
  unfolding resolveOutboxEventLease_def
  by (intro outbox_frame.keeps_rules marks_side lease_outbox_side [OF late_exclusions_side]
      lease_outbox_side [OF excluded_side] lease_outbox_side [OF ensureLease_side] lease_outbox_side [OF resolve_kept_side])

lemma pay_side: "keeps (outbox_side env) (pay_release env e)"
  unfolding pay_release_def release_reservation_def
  by (intro outbox_frame.keeps_rules marks_side)

lemma deliver_side: "keeps (outbox_side env) (deliverOutboxEvent env e)"
  unfolding deliverOutboxEvent_def deliver_resolved_def
  by (intro outbox_frame.keeps_rules marks_side lease_outbox_side [OF late_exclusions_side] pay_side resolve_side deliver_on_side)

lemma tick_side: "keeps (outbox_side env) (runOutboxDispatcher_tick env)"
proof -
  have all: "keeps (outbox_side env) (deliver_all env es)" for es
    by (induction es) (auto intro!: outbox_frame.keeps_rules deliver_side)
  show ?thesis
    unfolding runOutboxDispatcher_tick_def Let_def
  proof (intro outbox_frame.keeps_rules all outbox_call)
    fix w t and staleAfter :: int
    show "\<exists>op. bridge_op (be_worker env) op \<and> fst (fst (ReclaimStaleInFlightEvents staleAfter (be_clock env w) t), Inr ())
        = outbox_step (be_digest env) op t"
      by (rule exI [of _ "OReclaim staleAfter (be_clock env w)"]) (simp add: bridge_op_def)
    show "\<exists>op. bridge_op (be_worker env) op \<and> fst (case ClaimPendingOutboxEvents (be_locked env w) (be_worker env)
        walletOutboxDispatchBatch (be_dbnow env w) t of (t1, es) \<Rightarrow> (t1, Inr es)) = outbox_step (be_digest env) op t"
      by (rule exI [of _ "OClaim (be_locked env w) (be_worker env) walletOutboxDispatchBatch (be_dbnow env w)"])
         (simp add: bridge_op_def case_prod_beta)
  qed
qed

lemma collect_side: "keeps (outbox_side env) (collectReceivableOnce env)"
proof -
  have "keeps (outbox_side env) (requeue_all env cs)" for cs
  proof (induction cs)
    case (Cons c cs)
    have "keeps (outbox_side env) (on_outbox (\<lambda>w t. (RequeueDeadLetter (oe_ID c) (be_dbnow env w) t, Inr ())))"
      by (rule outbox_call) (auto simp: bridge_op_def intro!: exI [of _ "ORequeue (oe_ID c) (be_dbnow env _)"])
    with Cons show ?case by (auto intro!: outbox_frame.keeps_rules)
  qed (simp add: outbox_frame.keeps_ret)
  moreover have "keeps (outbox_side env) (on_outbox (\<lambda>_ t. (t, Inr (f t))))" for f
    unfolding on_outbox_def by (rule outbox_frame.keeps_remote) (simp add: outbox_side_same)
  ultimately show ?thesis
    unfolding collectReceivableOnce_def by (intro outbox_frame.keeps_rules marks_side)
qed

end
