(* ===== verification/Wallet_Dispatch_Safety.thy ===== *)
theory Wallet_Dispatch_Safety
  imports Wallet_Dispatch_Logic
begin

text \<open>
  What one delivery guarantees at every point the process may die and for every answer of the control
  plane: a settlement is submitted only for a claimed row that is bound to the lease the event is
  reserved on and owes no release, and a row is marked delivered only when its amount was accepted.
\<close>

section \<open>Assertions\<close>

text \<open>\<open>I\<close> holds at every point, \<open>Q\<close> of the result when the process lives.\<close>

definition triple :: "(world \<Rightarrow> bool) \<Rightarrow> (world \<Rightarrow> bool) \<Rightarrow> 'a act \<Rightarrow> ('a \<Rightarrow> world \<Rightarrow> bool) \<Rightarrow> bool" where
  "triple I P m Q \<longleftrightarrow> (\<forall>w. I w \<longrightarrow> P w \<longrightarrow> I (fst (m w)) \<and> (\<forall>x. snd (m w) = Some x \<longrightarrow> Q x (fst (m w))))"

lemma tripleI:
  "(\<And>w. I w \<Longrightarrow> P w \<Longrightarrow> I (fst (m w)) \<and> (\<forall>x. snd (m w) = Some x \<longrightarrow> Q x (fst (m w)))) \<Longrightarrow> triple I P m Q"
  by (simp add: triple_def)

lemma tripleD: "triple I P m Q \<Longrightarrow> I w \<Longrightarrow> P w \<Longrightarrow> I (fst (m w))"
  by (simp add: triple_def)

lemma triple_ret: "(\<And>w. P w \<Longrightarrow> Q x w) \<Longrightarrow> triple I P (ret x) Q"
  by (simp add: triple_def ret_def)

lemma triple_clock: "(\<And>x w. P w \<Longrightarrow> Q x w) \<Longrightarrow> triple I P (read_clock env) Q"
  by (simp add: triple_def read_clock_def)

lemma triple_bind:
  assumes "triple I P m R" "\<And>x. triple I (R x) (f x) Q"
  shows "triple I P (act_bind m f) Q"
proof (rule tripleI)
  fix w assume I: "I w" and P: "P w"
  obtain w1 r where m: "m w = (w1, r)" by fastforce
  have 1: "I w1" "\<And>x. r = Some x \<Longrightarrow> R x w1" using assms(1) I P m by (auto simp: triple_def dest!: spec [of _ w])
  show "I (fst (act_bind m f w)) \<and> (\<forall>x. snd (act_bind m f w) = Some x \<longrightarrow> Q x (fst (act_bind m f w)))"
  proof (cases r)
    case None
    then show ?thesis using m 1 by (simp add: act_bind_def)
  next
    case (Some x)
    then show ?thesis using m assms(2) [of x] 1 by (simp add: act_bind_def triple_def)
  qed
qed

lemma triple_try:
  assumes "triple I P m (\<lambda>r w. case r of Inl e \<Rightarrow> Q (Inl e) w | Inr x \<Rightarrow> R x w)" "\<And>x. triple I (R x) (f x) Q"
  shows "triple I P (try_call m f) Q"
  unfolding try_call_def
proof (rule triple_bind [OF assms(1)])
  fix r
  show "triple I (\<lambda>w. case r of Inl e \<Rightarrow> Q (Inl e) w | Inr x \<Rightarrow> R x w) (case r of Inl e \<Rightarrow> ret (Inl e) | Inr x \<Rightarrow> f x) Q"
    by (cases r) (simp_all add: assms(2) triple_ret)
qed

lemma triple_if: "(b \<Longrightarrow> triple I P m Q) \<Longrightarrow> (\<not> b \<Longrightarrow> triple I P n Q) \<Longrightarrow> triple I P (if b then m else n) Q"
  by simp

lemma triple_pre: "triple I P m Q \<Longrightarrow> (\<And>w. P' w \<Longrightarrow> P w) \<Longrightarrow> triple I P' m Q"
  by (simp add: triple_def)

lemma triple_post: "triple I P m Q \<Longrightarrow> (\<And>x w. Q x w \<Longrightarrow> Q' x w) \<Longrightarrow> triple I P m Q'"
  by (simp add: triple_def)

lemma triple_keeps:
  assumes "keeps R m" "\<And>w w'. R w w' \<Longrightarrow> I w \<Longrightarrow> P w \<Longrightarrow> I w'" "\<And>w w'. R w w' \<Longrightarrow> P w \<Longrightarrow> P w'"
  shows "triple I P m (\<lambda>_. P)"
proof (rule tripleI)
  fix w assume "I w" "P w"
  then show "I (fst (m w)) \<and> (\<forall>x. snd (m w) = Some x \<longrightarrow> P (fst (m w)))"
    using keepsD [OF assms(1)] assms(2,3) by blast
qed

text \<open>An assertion that does not look at the faults to come.\<close>

definition blind :: "(world \<Rightarrow> bool) \<Rightarrow> bool" where
  "blind P \<longleftrightarrow> (\<forall>w fs. P (w\<lparr>w_faults := fs\<rparr>) = P w)"

lemma triple_remote:
  assumes blind: "blind I" "blind P" "\<And>r. blind (Q r)"
    and run: "\<And>w. I w \<Longrightarrow> P w \<Longrightarrow> I (fst (f w)) \<and> Q (snd (f w)) (fst (f w)) \<and> Q (Inl BTransport) (fst (f w))"
    and lost: "\<And>w. I w \<Longrightarrow> P w \<Longrightarrow> Q (Inl BTransport) w"
  shows "triple I P (remote f) Q"
proof (rule tripleI)
  fix w assume I: "I w" and P: "P w"
  have I': "I (w\<lparr>w_faults := fs\<rparr>)" and P': "P (w\<lparr>w_faults := fs\<rparr>)" for fs
    using I P blind by (simp_all add: blind_def)
  show "I (fst (remote f w)) \<and> (\<forall>x. snd (remote f w) = Some x \<longrightarrow> Q x (fst (remote f w)))"
  proof (cases "w_faults w")
    case Nil
    then show ?thesis using run [OF I P] by (simp add: remote_def case_prod_beta Let_def)
  next
    case (Cons m ms)
    then show ?thesis using run [OF I' P', of ms] lost [OF I' P', of ms] I' [of ms]
      by (cases m) (simp_all add: remote_def case_prod_beta Let_def)
  qed
qed

lemma triple_store:
  assumes "blind I" "blind P" "\<And>r. blind (Q r)"
    and "\<And>w c r. I w \<Longrightarrow> P w \<Longrightarrow> g w (w_store w) = (c, r) \<Longrightarrow>
      I (w\<lparr>w_store := c\<rparr>) \<and> Q (map_sum BStore id r) (w\<lparr>w_store := c\<rparr>) \<and> Q (Inl BTransport) (w\<lparr>w_store := c\<rparr>)"
    and "\<And>w. I w \<Longrightarrow> P w \<Longrightarrow> Q (Inl BTransport) w"
  shows "triple I P (on_store g) Q"
  unfolding on_store_def by (rule triple_remote [OF assms(1-3)]) (use assms(4,5) in \<open>auto split: prod.split\<close>)

lemma triple_outbox:
  assumes "blind I" "blind P" "\<And>r. blind (Q r)"
    and "\<And>w t r. I w \<Longrightarrow> P w \<Longrightarrow> g w (w_outbox w) = (t, r) \<Longrightarrow>
      I (w\<lparr>w_outbox := t\<rparr>) \<and> Q (map_sum BOutbox id r) (w\<lparr>w_outbox := t\<rparr>) \<and> Q (Inl BTransport) (w\<lparr>w_outbox := t\<rparr>)"
    and "\<And>w. I w \<Longrightarrow> P w \<Longrightarrow> Q (Inl BTransport) w"
  shows "triple I P (on_outbox g) Q"
  unfolding on_outbox_def by (rule triple_remote [OF assms(1-3)]) (use assms(4,5) in \<open>auto split: prod.split\<close>)

section \<open>The row in delivery\<close>

text \<open>The claimed row, with the release it owes and the lease it is bound to.\<close>

definition row_at :: "bridge_env \<Rightarrow> CanonicalWalletOutboxEvent \<Rightarrow> int option \<Rightarrow> (string \<Rightarrow> bool) \<Rightarrow> world \<Rightarrow> bool" where
  "row_at env e p L w \<longleftrightarrow> (\<exists>r. find_row (oe_ID e) (w_outbox w) = Some r \<and> owned_by (oe_ID e) (be_worker env) r
     \<and> ow_amount_units r = oe_AmountUnits e \<and> ow_pending_release_units r = p \<and> L (null_string (ow_lease_id r)))"

lemma row_at_mono: "row_at env e p L w \<Longrightarrow> (\<And>l. L l \<Longrightarrow> L' l) \<Longrightarrow> row_at env e p L' w"
  by (auto simp: row_at_def)

text \<open>What holds of every submission made for the row.\<close>

definition submission_ok :: "bridge_env \<Rightarrow> CanonicalWalletOutboxEvent \<Rightarrow> control_call \<Rightarrow> bool" where
  "submission_ok env e c = (case c of
      CSubmit ev st t _ \<Rightarrow>
        se_EventID ev = oe_EventID e \<and> se_PlatformUserID ev = oe_PlatformUserID e \<and> se_AmountUnits ev = oe_AmountUnits e
        \<and> se_Currency ev = oe_Currency e \<and> 0 < se_AmountUnits ev
        \<and> (\<exists>r L l db. find_row (oe_ID e) t = Some r \<and> owned_by (oe_ID e) (be_worker env) r
             \<and> ow_amount_units r = se_AmountUnits ev \<and> ow_pending_release_units r = None \<and> ow_lease_id r = Some L
             \<and> st = Some db \<and> leases db (canonicalWalletLeaseKey (be_H env) (oe_PlatformUserID e) L) = Some l
             \<and> l_lease_id l = se_LeaseID ev
             \<and> strs db (canonicalWalletReservationKey (be_H env) (oe_PlatformUserID e) (oe_EventID e)) = Some (se_LeaseID ev))
    | _ \<Rightarrow> True)"

definition log_ok :: "bridge_env \<Rightarrow> CanonicalWalletOutboxEvent \<Rightarrow> control_call list \<Rightarrow> world \<Rightarrow> bool" where
  "log_ok env e log0 w \<longleftrightarrow> (\<exists>new. w_log w = log0 @ new \<and> list_all (submission_ok env e) new)"

lemma blind_log: "blind (log_ok env e log0)"
  by (simp add: blind_def log_ok_def)

lemma blind_row: "blind (row_at env e p L)"
  by (simp add: blind_def row_at_def)

lemma log_lease_side:
  assumes "lease_side w w'" "log_ok env e log0 w"
  shows "log_ok env e log0 w'"
proof -
  obtain a b where "w_log w = log0 @ a" "list_all (submission_ok env e) a" "w_log w' = w_log w @ b" "list_all (\<lambda>c. \<not> is_submit c) b"
    using assms by (auto simp: lease_side_def log_ok_def)
  moreover have "submission_ok env e c" if "\<not> is_submit c" for c using that by (cases c) (simp_all add: submission_ok_def)
  ultimately show ?thesis by (auto simp: log_ok_def list_all_iff intro!: exI [of _ "a @ b"])
qed

text \<open>An outbox call says nothing in the log.\<close>

lemma log_same: "w_log w' = w_log w \<Longrightarrow> log_ok env e log0 w \<Longrightarrow> log_ok env e log0 w'"
  by (simp add: log_ok_def)

definition quiet :: "world \<Rightarrow> world \<Rightarrow> bool" where
  "quiet w w' \<longleftrightarrow> w_log w' = w_log w"

interpretation quiet_frame: world_order quiet
  by unfold_locales (simp_all add: quiet_def)

lemma outbox_quiet: "keeps quiet (on_outbox g)"
  unfolding on_outbox_def by (rule quiet_frame.keeps_remote) (simp add: quiet_def split: prod.split)

lemma store_quiet: "keeps quiet (on_store g)"
  unfolding on_store_def by (rule quiet_frame.keeps_remote) (simp add: quiet_def split: prod.split)

lemma mark_failed_quiet: "keeps quiet (mark_failed env i)"
  unfolding mark_failed_def by (intro quiet_frame.keeps_rules outbox_quiet)

lemma calls_quiet:
  "keeps quiet (mark_dead_letter env i reason)" "keeps quiet (mark_delivered env i)" "keeps quiet (bind_lease env i l)"
  "keeps quiet (clear_release i)" "keeps quiet (release_reservation env u l ev n d)" "keeps quiet (seal_lease env u l)"
  unfolding mark_dead_letter_def mark_delivered_def bind_lease_def clear_release_def release_reservation_def seal_lease_def
  by (intro quiet_frame.keeps_rules outbox_quiet store_quiet)+

lemmas quiet_calls = mark_failed_quiet calls_quiet outbox_quiet store_quiet

lemma split_quiet: "keeps quiet (splitOutboxEvent env e l h reserved)"
  unfolding splitOutboxEvent_def by (intro quiet_frame.keeps_rules quiet_calls)

lemma refused_quiet: "keeps quiet (settlement_refused env e pinned l l' err)"
proof -
  have "keeps quiet (late_capture env e l')" "keeps quiet (pinned_over_capture env e l')"
    unfolding late_capture_def pinned_over_capture_def by (intro quiet_frame.keeps_rules quiet_calls)+
  then show ?thesis unfolding settlement_refused_def
    by (cases err) (simp_all add: quiet_calls split_quiet split: option.split)
qed

lemma accepted_quiet: "keeps quiet (settlement_accepted env e result)"
  unfolding settlement_accepted_def by (intro quiet_frame.keeps_rules quiet_calls)

lemma triple_quiet: "keeps quiet m \<Longrightarrow> triple (log_ok env e log0) P m (\<lambda>_ _. True)"
  unfolding triple_def keeps_def quiet_def using log_same by simp

lemma triple_lease_side:
  assumes "keeps lease_side m"
  shows "triple (log_ok env e log0) (row_at env e p L) m (\<lambda>_. row_at env e p L)"
  by (rule triple_keeps [OF assms]) (auto simp: log_lease_side, simp add: lease_side_def row_at_def)

section \<open>Submissions\<close>

lemma row_outbox:
  assumes "row_at env e p L w" "find_row (oe_ID e) t = map_option f (find_row (oe_ID e) (w_outbox w))"
    and "\<And>r. owned_by (oe_ID e) (be_worker env) r \<Longrightarrow> owned_by (oe_ID e) (be_worker env) (f r) \<and> ow_amount_units (f r) = ow_amount_units r
           \<and> (ow_pending_release_units r = p \<longrightarrow> ow_pending_release_units (f r) = p')
           \<and> (L (null_string (ow_lease_id r)) \<longrightarrow> L' (null_string (ow_lease_id (f r))))"
  shows "row_at env e p' L' (w\<lparr>w_outbox := t\<rparr>)"
  using assms by (fastforce simp: row_at_def)

lemma bind_row:
  "triple (log_ok env e log0) (row_at env e p L) (bind_lease env (oe_ID e) l)
     (\<lambda>r w. r = Inr () \<longrightarrow> row_at env e p (\<lambda>x. x = l) w)"
  unfolding bind_lease_def
proof (rule triple_outbox)
  fix w t r
  assume I: "log_ok env e log0 w" and P: "row_at env e p L w"
    and g: "(case BindOutboxEventLease (oe_ID e) (be_worker env) l (w_outbox w) of
       (t1, None) \<Rightarrow> (t1, Inr ()) | (t1, Some e) \<Rightarrow> (t1, Inl e)) = (t, r)"
  let ?f = "\<lambda>r. if owned_by (oe_ID e) (be_worker env) r then r\<lparr>ow_lease_id := Some l\<rparr> else r"
  have "find_row (oe_ID e) t = map_option ?f (find_row (oe_ID e) (w_outbox w))"
    using g by (auto simp: BindOutboxEventLease_def find_row_update simp del: update_where_simps split: if_splits)
  from row_outbox [OF P this] have "row_at env e p (\<lambda>x. x = l) (w\<lparr>w_outbox := t\<rparr>)"
    by (simp add: owned_by_def null_string_def)
  with I show "log_ok env e log0 (w\<lparr>w_outbox := t\<rparr>)
     \<and> (map_sum BOutbox id r = Inr () \<longrightarrow> row_at env e p (\<lambda>x. x = l) (w\<lparr>w_outbox := t\<rparr>))
     \<and> (Inl BTransport = Inr () \<longrightarrow> row_at env e p (\<lambda>x. x = l) (w\<lparr>w_outbox := t\<rparr>))"
    by (simp add: log_ok_def)
qed (simp_all add: blind_def log_ok_def row_at_def)

lemma clear_row:
  "triple (log_ok env e log0) (row_at env e p L) (clear_release (oe_ID e)) (\<lambda>r w. r = Inr () \<longrightarrow> row_at env e None L w)"
  unfolding clear_release_def
proof (rule triple_outbox)
  fix w t and r :: "outbox_error + unit"
  assume I: "log_ok env e log0 w" and P: "row_at env e p L w" and g: "(ClearPendingRelease (oe_ID e) (w_outbox w), Inr ()) = (t, r)"
  let ?f = "\<lambda>r. if ow_id r = oe_ID e then r\<lparr>ow_pending_release_units := None\<rparr> else r"
  have "find_row (oe_ID e) t = map_option ?f (find_row (oe_ID e) (w_outbox w))"
    using g by (auto simp: ClearPendingRelease_def find_row_update simp del: update_where_simps)
  from row_outbox [OF P this] have "row_at env e None L (w\<lparr>w_outbox := t\<rparr>)" by (simp add: owned_by_def)
  with I show "log_ok env e log0 (w\<lparr>w_outbox := t\<rparr>)
     \<and> (map_sum BOutbox id r = Inr () \<longrightarrow> row_at env e None L (w\<lparr>w_outbox := t\<rparr>))
     \<and> (Inl BTransport = Inr () \<longrightarrow> row_at env e None L (w\<lparr>w_outbox := t\<rparr>))"
    by (simp add: log_ok_def)
qed (simp_all add: blind_def log_ok_def row_at_def)

lemma pay_row:
  "triple (log_ok env e log0) (row_at env e (oe_PendingReleaseUnits e) L) (pay_release env e)
     (\<lambda>r w. r = Inr () \<longrightarrow> row_at env e None L w)"
proof (cases "oe_PendingReleaseUnits e")
  case None
  then show ?thesis by (simp add: pay_release_def triple_ret)
next
  case (Some units)
  have "triple (log_ok env e log0) (row_at env e (Some units) L)
      (release_reservation env (oe_PlatformUserID e) (oe_LeaseID e) (oe_EventID e) units False) (\<lambda>_. row_at env e (Some units) L)"
    unfolding release_reservation_def by (rule triple_lease_side [OF store_side])
  then show ?thesis using Some
    by (auto simp: pay_release_def intro!: triple_try [OF triple_post clear_row] split: sum.split)
qed

lemma trim_nil: "TrimSpace [] = []"
proof -
  have "find (\<lambda>w. w \<noteq> [] \<and> prefix w []) ws = None" for ws :: "string list" by (induction ws) auto
  then have "trim_left_by ws [] = []" for ws by (simp add: trim_left_by.simps)
  then show ?thesis by (simp add: TrimSpace_def Let_def)
qed

text \<open>A successful reservation leaves its marker on the lease it reports.\<close>

lemma reserve_marks:
  assumes "ReserveCanonicalWalletLease H u leaseID currency ev amount now c = (c', Inr reservation)"
  obtains db l where "c' = Some db" "leases db (canonicalWalletLeaseKey H u leaseID) = Some l"
    "l_lease_id l = LeaseID (res_Lease reservation)"
    "strs db (canonicalWalletReservationKey H u ev) = Some (LeaseID (res_Lease reservation))" "0 < amount" "leaseID \<noteq> []"
proof -
  obtain db0 where c: "c = Some db0" and a: "0 < amount" "TrimSpace leaseID \<noteq> []"
    using assms by (cases c) (auto simp: ReserveCanonicalWalletLease_def split: if_splits option.splits sum.splits prod.splits)
  obtain cur db result where s: "reserveCanonicalWalletLeaseScript (canonicalWalletLeaseKey H u leaseID)
      (canonicalWalletReservationKey H u ev) cur amount (UnixMilli now) db0 = (db, result)"
    and d: "c' = Some db" "decodeCanonicalWalletReservationResult result u = Inr reservation"
    using assms c by (auto simp: ReserveCanonicalWalletLease_def split: if_splits option.splits sum.splits prod.splits)
  obtain l0 where l0: "leases db0 (canonicalWalletLeaseKey H u leaseID) = Some l0"
    using s d(2) by (cases "leases db0 (canonicalWalletLeaseKey H u leaseID)")
      (auto simp: reserveCanonicalWalletLeaseScript_def decodeCanonicalWalletReservationResult_def bind_res_def redisResultInt64_def)
  have "leaseID \<noteq> []" using a(2) trim_nil by blast
  moreover have "\<exists>l. leases db (canonicalWalletLeaseKey H u leaseID) = Some l \<and> l_lease_id l = LeaseID (res_Lease reservation)
      \<and> strs db (canonicalWalletReservationKey H u ev) = Some (LeaseID (res_Lease reservation))"
    using s d(2) l0
    by (auto simp: reserveCanonicalWalletLeaseScript_def decodeCanonicalWalletReservationResult_def bind_res_def redisResultInt64_def
        redis_cmd_defs zeroLease_def Let_def split: if_splits option.splits)
  ultimately show thesis using that d(1) a(1) by blast
qed

text \<open>The reservation, then the submission of exactly what it reserved.\<close>

lemma reserve_row:
  "triple (log_ok env e log0) (row_at env e None (\<lambda>x. x = l))
     (on_store (\<lambda>w. ReserveCanonicalWalletLease (be_H env) (oe_PlatformUserID e) l (oe_Currency e) (oe_EventID e)
        (oe_AmountUnits e) (be_clock env w)))
     (\<lambda>r w. case r of Inl _ \<Rightarrow> True | Inr reservation \<Rightarrow>
        submission_ok env e (CSubmit ((settlement_event e)\<lparr>se_LeaseID := LeaseID (res_Lease reservation), se_AuthorizationToken := token\<rparr>)
          (w_store w) (w_outbox w) answer))"
proof (rule triple_store)
  fix w c and r :: "CanonicalWalletReservation wallet_result"
  assume I: "log_ok env e log0 w" and P: "row_at env e None (\<lambda>x. x = l) w"
    and g: "ReserveCanonicalWalletLease (be_H env) (oe_PlatformUserID e) l (oe_Currency e) (oe_EventID e)
        (oe_AmountUnits e) (be_clock env w) (w_store w) = (c, r)"
  let ?w = "w\<lparr>w_store := c\<rparr>"
  have ok: "submission_ok env e (CSubmit ((settlement_event e)\<lparr>se_LeaseID := LeaseID (res_Lease reservation),
      se_AuthorizationToken := token\<rparr>) (w_store ?w) (w_outbox ?w) answer)" if r: "r = Inr reservation" for reservation
  proof -
    obtain db h where m: "c = Some db" "leases db (canonicalWalletLeaseKey (be_H env) (oe_PlatformUserID e) l) = Some h"
      "l_lease_id h = LeaseID (res_Lease reservation)"
      "strs db (canonicalWalletReservationKey (be_H env) (oe_PlatformUserID e) (oe_EventID e)) = Some (LeaseID (res_Lease reservation))"
      "0 < oe_AmountUnits e" "l \<noteq> []"
      using reserve_marks g r by metis
    obtain row where row: "find_row (oe_ID e) (w_outbox w) = Some row" "owned_by (oe_ID e) (be_worker env) row"
      "ow_amount_units row = oe_AmountUnits e" "ow_pending_release_units row = None" "null_string (ow_lease_id row) = l"
      using P by (auto simp: row_at_def)
    have "ow_lease_id row = Some l" using row(5) m(6) by (auto simp: null_string_def split: option.splits)
    with m row show ?thesis by (simp add: submission_ok_def settlement_event_def)
  qed
  then show "log_ok env e log0 ?w
     \<and> (case map_sum BStore id r of Inl _ \<Rightarrow> True | Inr reservation \<Rightarrow>
          submission_ok env e (CSubmit ((settlement_event e)\<lparr>se_LeaseID := LeaseID (res_Lease reservation),
            se_AuthorizationToken := token\<rparr>) (w_store ?w) (w_outbox ?w) answer))
     \<and> (case Inl BTransport of Inl _ \<Rightarrow> True | Inr reservation \<Rightarrow>
          submission_ok env e (CSubmit ((settlement_event e)\<lparr>se_LeaseID := LeaseID (res_Lease reservation),
            se_AuthorizationToken := token\<rparr>) (w_store ?w) (w_outbox ?w) answer))"
    using I by (cases r) (simp_all add: log_ok_def)
qed (simp_all add: blind_def log_ok_def row_at_def split: sum.split)

lemma submit_logged:
  "triple (log_ok env e log0) (\<lambda>w. \<forall>answer. submission_ok env e (CSubmit ev (w_store w) (w_outbox w) answer))
     (control_submit env ev) (\<lambda>_ _. True)"
  unfolding control_submit_def
  by (rule triple_remote) (auto simp: blind_def log_ok_def Let_def)

lemma submission_any_answer:
  "submission_ok env e (CSubmit ev st t answer) \<Longrightarrow> submission_ok env e (CSubmit ev st t answer')"
proof -
  have "submission_ok env e (CSubmit ev st t answer) = submission_ok env e (CSubmit ev st t answer')"
    by (simp only: submission_ok_def control_call.case)
  then show "submission_ok env e (CSubmit ev st t answer) \<Longrightarrow> ?thesis" by blast
qed

lemma reserve_and_submit_row:
  "triple (log_ok env e log0) (row_at env e None (\<lambda>x. x = l)) (reserve_and_submit env e pinned token l) (\<lambda>_ _. True)"
  unfolding reserve_and_submit_def Let_def
proof (rule triple_bind [OF reserve_row [where token = token and answer = "Inl BTransport"]])
  fix r :: "bridge_error + CanonicalWalletReservation"
  show "triple (log_ok env e log0)
     (\<lambda>w. case r of Inl _ \<Rightarrow> True | Inr reservation \<Rightarrow> submission_ok env e
        (CSubmit ((settlement_event e)\<lparr>se_LeaseID := LeaseID (res_Lease reservation), se_AuthorizationToken := token\<rparr>)
          (w_store w) (w_outbox w) (Inl BTransport)))
     (case r of
        Inl err \<Rightarrow> act_bind (if canonicalWalletLeaseBindingIsStale err then bind_lease env (oe_ID e) [] else ret (Inr ()))
          (\<lambda>_. mark_failed env (oe_ID e))
      | Inr reservation \<Rightarrow> act_bind (control_submit env
          ((settlement_event e)\<lparr>se_LeaseID := LeaseID (res_Lease reservation), se_AuthorizationToken := token\<rparr>))
          (\<lambda>s. case s of Inl err \<Rightarrow> settlement_refused env e pinned l (LeaseID (res_Lease reservation)) err
             | Inr result \<Rightarrow> settlement_accepted env e result)) (\<lambda>_ _. True)"
  proof (cases r)
    case (Inl err)
    then show ?thesis by (auto intro!: triple_quiet quiet_frame.keeps_rules quiet_calls)
  next
    case (Inr reservation)
    have after: "triple (log_ok env e log0) (\<lambda>_. True) (case s of
        Inl err \<Rightarrow> settlement_refused env e pinned l (LeaseID (res_Lease reservation)) err
      | Inr result \<Rightarrow> settlement_accepted env e result) (\<lambda>_ _. True)" for s
      by (rule triple_quiet) (simp add: refused_quiet accepted_quiet split: sum.split)
    have submit: "triple (log_ok env e log0) (\<lambda>w. submission_ok env e (CSubmit ev (w_store w) (w_outbox w) (Inl BTransport)))
        (control_submit env ev) (\<lambda>_ _. True)" for ev
      by (rule triple_pre [OF submit_logged]) (blast intro: submission_any_answer)
    show ?thesis unfolding Inr sum.case by (rule triple_bind [OF submit after])
  qed
qed

text \<open>Resolving the lease keeps the row, unless it hands out another lease.\<close>

lemma excluded_result:
  assumes "ensureExcludedSettlementFunding env e excluded w = (w', Some (Inr lease))"
  shows "LeaseID lease \<notin> set excluded"
proof -
  have "triple (\<lambda>_. True) (\<lambda>_. True) (ensureExcludedSettlementFunding env e excluded)
      (\<lambda>r _. case r of Inl _ \<Rightarrow> True | Inr lease \<Rightarrow> LeaseID lease \<notin> set excluded)"
    unfolding ensureExcludedSettlementFunding_def Let_def
  proof (rule triple_try [where R = "\<lambda>_ _. True"])
    fix x
    have "triple (\<lambda>_. True) (\<lambda>_. True) (try_call (installFundingLease env (grant_lease env (er_Lease x)))
        (\<lambda>_. ret (Inr (grant_lease env (er_Lease x))))) (\<lambda>r _. case r of Inl _ \<Rightarrow> True | Inr lease \<Rightarrow> LeaseID lease \<notin> set excluded)"
      if "LeaseID (er_Lease x) \<notin> set excluded"
      by (rule triple_try [where R = "\<lambda>_ _. True"]) (auto simp: triple_def grant_lease_def ret_def that split: sum.split)
    then show "triple (\<lambda>_. True) (\<lambda>_. True) (if LeaseID (er_Lease x) \<in> set excluded
        then ret (Inl (BNew ''late funding reactivated original released lease''))
        else try_call (installFundingLease env (grant_lease env (er_Lease x))) (\<lambda>_. ret (Inr (grant_lease env (er_Lease x)))))
      (\<lambda>r _. case r of Inl _ \<Rightarrow> True | Inr lease \<Rightarrow> LeaseID lease \<notin> set excluded)"
      by (simp add: triple_ret)
  qed (auto simp: triple_def split: sum.split)
  then show ?thesis using assms by (auto simp: triple_def dest!: spec [of _ w])
qed

lemma resolve_row:
  "triple (log_ok env e log0) (row_at env e p (\<lambda>x. x = oe_LeaseID e)) (resolveOutboxEventLease env e)
     (\<lambda>r w. case r of Inl _ \<Rightarrow> True | Inr lease \<Rightarrow> row_at env e p (\<lambda>x. LeaseID lease = oe_LeaseID e \<longrightarrow> x = oe_LeaseID e) w)"
  unfolding resolveOutboxEventLease_def
proof (rule triple_try)
  let ?J = "row_at env e p (\<lambda>x. x = oe_LeaseID e)"
  show "triple (log_ok env e log0) ?J (lateFundingExclusions env e) (\<lambda>r w. case r of
      Inl err \<Rightarrow> (case Inl err of Inl _ \<Rightarrow> True | Inr lease \<Rightarrow> row_at env e p (\<lambda>x. LeaseID lease = oe_LeaseID e \<longrightarrow> x = oe_LeaseID e) w)
    | Inr _ \<Rightarrow> ?J w)"
    by (rule triple_post [OF triple_lease_side [OF late_exclusions_side]]) (simp split: sum.split)
  fix x :: "string list \<times> string"
  obtain excluded tok where x: "x = (excluded, tok)" by fastforce
  let ?R = "\<lambda>leaseID w. (excluded \<noteq> [] \<and> leaseID = [] \<and> oe_LeaseID e \<in> set excluded \<and> row_at env e p (\<lambda>_. True) w)
     \<or> (leaseID = oe_LeaseID e \<and> ?J w)"
  let ?Q = "\<lambda>r w. case r of Inl _ \<Rightarrow> True | Inr lease \<Rightarrow> row_at env e p (\<lambda>x. LeaseID lease = oe_LeaseID e \<longrightarrow> x = oe_LeaseID e) w"
  have bind: "triple (log_ok env e log0) ?J
      (if excluded \<noteq> [] \<and> oe_LeaseID e \<noteq> [] \<and> oe_LeaseID e \<in> set excluded
       then try_call (bind_lease env (oe_ID e) []) (\<lambda>_. ret (Inr [])) else ret (Inr (oe_LeaseID e)))
      (\<lambda>r w. case r of Inl err \<Rightarrow> ?Q (Inl err) w | Inr leaseID \<Rightarrow> ?R leaseID w)"
  proof (cases "excluded \<noteq> [] \<and> oe_LeaseID e \<noteq> [] \<and> oe_LeaseID e \<in> set excluded")
    case True
    have "triple (log_ok env e log0) ?J (try_call (bind_lease env (oe_ID e) []) (\<lambda>_. ret (Inr [])))
        (\<lambda>r w. case r of Inl err \<Rightarrow> ?Q (Inl err) w | Inr leaseID \<Rightarrow> ?R leaseID w)"
      by (rule triple_try [OF triple_post [OF bind_row [where l = "[]"]], where R = "\<lambda>_. row_at env e p (\<lambda>x. x = [])"])
         (auto intro!: triple_ret split: sum.split elim: row_at_mono simp: True)
    then show ?thesis using True by simp
  next
    case False
    then show ?thesis by (subst if_not_P) (auto intro!: triple_ret)
  qed
  have next_step: "triple (log_ok env e log0) (?R leaseID)
      (if excluded \<noteq> [] \<and> leaseID = [] then ensureExcludedSettlementFunding env (e\<lparr>oe_LeaseID := leaseID\<rparr>) excluded
       else if leaseID = [] then ensureLease env (oe_PlatformUserID e) (oe_Currency e) (oe_AmountUnits e) Settle []
       else resolve_kept env e) ?Q" for leaseID
  proof (cases "excluded \<noteq> [] \<and> leaseID = []")
    case True
    let ?m = "ensureExcludedSettlementFunding env (e\<lparr>oe_LeaseID := leaseID\<rparr>) excluded"
    have "triple (log_ok env e log0) (?R leaseID) ?m (\<lambda>_. ?R leaseID)"
      by (rule triple_keeps [OF excluded_side]) (auto simp: log_lease_side, auto simp: lease_side_def row_at_def)
    then have "triple (log_ok env e log0) (?R leaseID) ?m (\<lambda>r w. ?R leaseID w \<and> (\<forall>lease. r = Inr lease \<longrightarrow> LeaseID lease \<notin> set excluded))"
      unfolding triple_def by (metis excluded_result prod.collapse)
    then have "triple (log_ok env e log0) (?R leaseID) ?m ?Q"
      by (rule triple_post) (auto split: sum.split elim!: row_at_mono)
    with True show ?thesis by simp
  next
    case False
    let ?m = "if leaseID = [] then ensureLease env (oe_PlatformUserID e) (oe_Currency e) (oe_AmountUnits e) Settle []
        else resolve_kept env e"
    have "keeps lease_side ?m" by (simp add: ensureLease_side resolve_kept_side)
    then have "triple (log_ok env e log0) ?J ?m ?Q"
      by (rule triple_post [OF triple_lease_side]) (auto split: sum.split elim: row_at_mono)
    then have "triple (log_ok env e log0) (?R leaseID) ?m ?Q"
      by (rule triple_pre) (use False in auto)
    then show ?thesis unfolding if_not_P [OF False] .
  qed
  show "triple (log_ok env e log0) ?J (case x of (excluded, _) \<Rightarrow>
      try_call (if excluded \<noteq> [] \<and> oe_LeaseID e \<noteq> [] \<and> oe_LeaseID e \<in> set excluded
          then try_call (bind_lease env (oe_ID e) []) (\<lambda>_. ret (Inr [])) else ret (Inr (oe_LeaseID e)))
        (\<lambda>leaseID. if excluded \<noteq> [] \<and> leaseID = [] then ensureExcludedSettlementFunding env (e\<lparr>oe_LeaseID := leaseID\<rparr>) excluded
           else if leaseID = [] then ensureLease env (oe_PlatformUserID e) (oe_Currency e) (oe_AmountUnits e) Settle []
           else resolve_kept env e)) ?Q"
    unfolding x prod.case by (rule triple_try [OF bind next_step])
qed

lemma deliver_on_row:
  "triple (log_ok env e log0) (row_at env e None (\<lambda>x. LeaseID lease = oe_LeaseID e \<longrightarrow> x = oe_LeaseID e))
     (deliver_on env e pinned token lease) (\<lambda>_ _. True)" (is "triple ?I ?P _ _")
proof -
  have bound: "triple ?I ?P (reserve_and_submit env e pinned token (LeaseID lease)) (\<lambda>_ _. True)" if "LeaseID lease = oe_LeaseID e"
    by (rule triple_pre [OF reserve_and_submit_row]) (use that in \<open>auto elim: row_at_mono\<close>)
  have rebound: "triple ?I ?P (act_bind (bind_lease env (oe_ID e) (LeaseID lease)) (\<lambda>b. case b of
      Inl err \<Rightarrow> if err = BOutbox ErrCanonicalWalletOutboxClaimLost then ret () else mark_failed env (oe_ID e)
    | Inr _ \<Rightarrow> reserve_and_submit env e pinned token (LeaseID lease))) (\<lambda>_ _. True)"
  proof (rule triple_bind [OF bind_row])
    fix b :: "bridge_error + unit"
    show "triple ?I (\<lambda>w. b = Inr () \<longrightarrow> row_at env e None (\<lambda>x. x = LeaseID lease) w) (case b of
      Inl err \<Rightarrow> if err = BOutbox ErrCanonicalWalletOutboxClaimLost then ret () else mark_failed env (oe_ID e)
    | Inr _ \<Rightarrow> reserve_and_submit env e pinned token (LeaseID lease)) (\<lambda>_ _. True)"
    proof (cases b)
      case (Inl err)
      then show ?thesis by (simp add: triple_quiet quiet_frame.keeps_ret mark_failed_quiet)
    next
      case (Inr u)
      then show ?thesis by (auto intro: triple_pre [OF reserve_and_submit_row])
    qed
  qed
  show ?thesis
    unfolding deliver_on_def by (intro triple_if rebound bound) (simp_all add: triple_quiet quiet_calls split_quiet)
qed

lemma deliver_row:
  "triple (log_ok env e log0) (row_at env e (oe_PendingReleaseUnits e) (\<lambda>x. x = oe_LeaseID e)) (deliverOutboxEvent env e) (\<lambda>_ _. True)"
proof -
  let ?I = "log_ok env e log0" and ?J = "row_at env e (oe_PendingReleaseUnits e) (\<lambda>x. x = oe_LeaseID e)"
  let ?K = "row_at env e None (\<lambda>x. x = oe_LeaseID e)"
  have failed: "triple ?I P (mark_failed env (oe_ID e)) (\<lambda>_ _. True)" for P by (rule triple_quiet [OF mark_failed_quiet])
  have dead: "triple ?I P (mark_dead_letter env (oe_ID e) reason) (\<lambda>_ _. True)" for P reason
    by (rule triple_quiet [OF calls_quiet(1)])
  have resolved: "triple ?I ?K (deliver_resolved env e pinned token) (\<lambda>_ _. True)" for pinned token
    unfolding deliver_resolved_def
  proof (rule triple_bind [OF resolve_row])
    fix r :: "bridge_error + CanonicalWalletLease"
    show "triple ?I (\<lambda>w. case r of Inl _ \<Rightarrow> True | Inr lease \<Rightarrow>
        row_at env e None (\<lambda>x. LeaseID lease = oe_LeaseID e \<longrightarrow> x = oe_LeaseID e) w) (case r of
          Inl err \<Rightarrow> if err = ErrCanonicalWalletBalanceShortfall then mark_dead_letter env (oe_ID e) ''balance_shortfall''
            else (case classifyControlPlaneError err of Some reason \<Rightarrow> mark_dead_letter env (oe_ID e) reason
                  | None \<Rightarrow> mark_failed env (oe_ID e))
        | Inr lease \<Rightarrow> deliver_on env e pinned token lease) (\<lambda>_ _. True)"
      by (cases r) (simp_all add: failed dead deliver_on_row split: option.split)
  qed
  have paid: "triple ?I (\<lambda>w. d = Inr () \<longrightarrow> ?K w) (case d of Inl _ \<Rightarrow> mark_failed env (oe_ID e)
      | Inr _ \<Rightarrow> deliver_resolved env e pinned token) (\<lambda>_ _. True)" for d :: "bridge_error + unit" and pinned token
    by (cases d) (simp_all add: failed resolved)
  have looked: "triple ?I ?J (case x of Inl _ \<Rightarrow> mark_failed env (oe_ID e) | Inr (excluded, originalToken) \<Rightarrow>
      act_bind (pay_release env e) (\<lambda>d. case d of Inl _ \<Rightarrow> mark_failed env (oe_ID e)
        | Inr _ \<Rightarrow> deliver_resolved env e (pinned \<or> excluded \<noteq> []) originalToken)) (\<lambda>_ _. True)"
    for x :: "bridge_error + string list \<times> string" and pinned
  proof (cases x)
    case (Inr y)
    then show ?thesis by (cases y) (simp only: sum.case prod.case, rule triple_bind [OF pay_row paid])
  qed (simp add: failed)
  have pinned: "triple ?I ?J (case p of Inl _ \<Rightarrow> mark_failed env (oe_ID e) | Inr pinned \<Rightarrow>
      act_bind (lateFundingExclusions env e) (\<lambda>x. case x of Inl _ \<Rightarrow> mark_failed env (oe_ID e) | Inr (excluded, originalToken) \<Rightarrow>
        act_bind (pay_release env e) (\<lambda>d. case d of Inl _ \<Rightarrow> mark_failed env (oe_ID e)
          | Inr _ \<Rightarrow> deliver_resolved env e (pinned \<or> excluded \<noteq> []) originalToken))) (\<lambda>_ _. True)" for p :: "bridge_error + bool"
  proof (cases p)
    case (Inr b)
    show ?thesis unfolding Inr sum.case by (rule triple_bind [OF triple_lease_side [OF late_exclusions_side] looked])
  qed (simp add: failed)
  have "keeps lease_side (if oe_AuthorizationID e \<noteq> [] \<and> oe_BillingSnapshotID e \<noteq> [] \<and> be_db env
      then query (\<lambda>w. be_late_pinned env w e) else ret (Inr False))"
    by (intro lease_frame.keeps_rules)
  from triple_bind [OF triple_lease_side [OF this] pinned] show ?thesis unfolding deliverOutboxEvent_def .
qed

section \<open>Deliveries\<close>

text \<open>The control plane accepted the event at an amount.\<close>

definition accepted :: "CanonicalWalletOutboxEvent \<Rightarrow> int \<Rightarrow> world \<Rightarrow> bool" where
  "accepted e units w \<longleftrightarrow> (\<exists>ev st t result. CSubmit ev st t (Inr result) \<in> set (w_log w)
     \<and> se_EventID ev = oe_EventID e \<and> se_AmountUnits ev = units)"

text \<open>A delivered row was accepted at its amount, or has none left.\<close>

definition honest :: "CanonicalWalletOutboxEvent \<Rightarrow> world \<Rightarrow> bool" where
  "honest e w \<longleftrightarrow> (\<forall>r. find_row (oe_ID e) (w_outbox w) = Some r \<longrightarrow> ow_status r = ''delivered''
     \<longrightarrow> ow_amount_units r = 0 \<or> accepted e (ow_amount_units r) w)"

definition undelivered :: "CanonicalWalletOutboxEvent \<Rightarrow> world \<Rightarrow> bool" where
  "undelivered e w \<longleftrightarrow> (\<forall>r. find_row (oe_ID e) (w_outbox w) = Some r \<longrightarrow> ow_status r \<noteq> ''delivered''
     \<and> ow_amount_units r = oe_AmountUnits e)"

text \<open>A step that neither delivers the row nor changes its amount nor forgets an answer.\<close>

definition holding :: "CanonicalWalletOutboxEvent \<Rightarrow> world \<Rightarrow> world \<Rightarrow> bool" where
  "holding e w w' \<longleftrightarrow> set (w_log w) \<subseteq> set (w_log w')
     \<and> (\<forall>r'. find_row (oe_ID e) (w_outbox w') = Some r' \<longrightarrow>
          (\<exists>r. find_row (oe_ID e) (w_outbox w) = Some r \<and> ow_amount_units r' = ow_amount_units r
             \<and> (ow_status r' = ''delivered'' \<longrightarrow> ow_status r = ''delivered'')))"

interpretation holding_frame: world_order "holding e" for e
proof
  fix u v w :: world and fs
  show "holding e w w" by (simp add: holding_def)
  show "holding e w (w\<lparr>w_faults := fs\<rparr>)" by (simp add: holding_def)
  show "holding e u w" if uv: "holding e u v" and vw: "holding e v w"
    unfolding holding_def
  proof (intro conjI allI impI)
    show "set (w_log u) \<subseteq> set (w_log w)" using uv vw by (auto simp: holding_def)
    fix r'' assume "find_row (oe_ID e) (w_outbox w) = Some r''"
    then obtain r' where r': "find_row (oe_ID e) (w_outbox v) = Some r'" "ow_amount_units r'' = ow_amount_units r'"
      "ow_status r'' = ''delivered'' \<longrightarrow> ow_status r' = ''delivered''" using vw by (auto simp: holding_def)
    then obtain r where "find_row (oe_ID e) (w_outbox u) = Some r" "ow_amount_units r' = ow_amount_units r"
      "ow_status r' = ''delivered'' \<longrightarrow> ow_status r = ''delivered''" using uv by (auto simp: holding_def)
    with r' show "\<exists>r. find_row (oe_ID e) (w_outbox u) = Some r \<and> ow_amount_units r'' = ow_amount_units r
        \<and> (ow_status r'' = ''delivered'' \<longrightarrow> ow_status r = ''delivered'')" by simp
  qed
qed

lemma holding_honest: "holding e w w' \<Longrightarrow> honest e w \<Longrightarrow> honest e w'"
  unfolding holding_def honest_def accepted_def by (metis subset_iff)

lemma holding_undelivered: "holding e w w' \<Longrightarrow> undelivered e w \<Longrightarrow> undelivered e w'"
  unfolding holding_def undelivered_def by metis

lemma undelivered_honest: "undelivered e w \<Longrightarrow> honest e w"
  by (simp add: undelivered_def honest_def)

lemma lease_side_holding: "keeps lease_side m \<Longrightarrow> keeps (holding e) m"
proof -
  have "lease_side w w' \<Longrightarrow> holding e w w'" for w w' by (auto simp: lease_side_def holding_def)
  then show "keeps lease_side m \<Longrightarrow> keeps (holding e) m" by (simp add: keeps_def)
qed

lemma outbox_holding:
  assumes "\<And>w t. \<exists>P f. fst (g w t) = update_where P f t \<and> (\<forall>r. ow_id (f r) = ow_id r \<and> ow_amount_units (f r) = ow_amount_units r
     \<and> (ow_status (f r) = ''delivered'' \<longrightarrow> ow_status r = ''delivered''))"
  shows "keeps (holding e) (on_outbox g)"
  unfolding on_outbox_def
proof (rule holding_frame.keeps_remote)
  fix w
  obtain P f where g: "fst (g w (w_outbox w)) = update_where P f (w_outbox w)"
    and f: "\<And>r. ow_id (f r) = ow_id r \<and> ow_amount_units (f r) = ow_amount_units r \<and> (ow_status (f r) = ''delivered'' \<longrightarrow> ow_status r = ''delivered'')"
    using assms [of w "w_outbox w"] by blast
  then show "holding e w (fst (case g w (w_outbox w) of (t, r) \<Rightarrow> (w\<lparr>w_outbox := t\<rparr>, map_sum BOutbox id r)))"
    by (auto simp: holding_def case_prod_beta find_row_update simp del: update_where_simps)
qed

lemma bind_holding: "keeps (holding e) (bind_lease env i l)"
  unfolding bind_lease_def
  by (rule outbox_holding)
     (auto simp: BindOutboxEventLease_def simp del: update_where_simps
       intro!: exI [of _ "owned_by i (be_worker env)"] exI [of _ "\<lambda>r. r\<lparr>ow_lease_id := Some l\<rparr>"])

lemma clear_holding: "keeps (holding e) (clear_release i)"
  unfolding clear_release_def
  by (rule outbox_holding)
     (auto simp: ClearPendingRelease_def simp del: update_where_simps
       intro!: exI [of _ "\<lambda>r. ow_id r = i"] exI [of _ "\<lambda>r. r\<lparr>ow_pending_release_units := None\<rparr>"])

lemma dead_holding: "keeps (holding e) (mark_dead_letter env i reason)"
  unfolding mark_dead_letter_def MarkOutboxEventDeadLetter_def
  by (intro holding_frame.keeps_bind holding_frame.keeps_ret outbox_holding exI conjI, rule fst_conv) (simp add: unclaim_def)

lemma failed_holding: "keeps (holding e) (mark_failed env i)"
proof -
  have "\<exists>P f. resolve_attempt i w n now t = update_where P f t \<and> (\<forall>r. ow_id (f r) = ow_id r \<and> ow_amount_units (f r) = ow_amount_units r
     \<and> (ow_status (f r) = ''delivered'' \<longrightarrow> ow_status r = ''delivered''))" for w n now t
    unfolding resolve_attempt_def by (cases "walletOutboxMaxAttempts \<le> n") (simp only: if_True if_False, intro exI conjI, rule refl, simp add: unclaim_def)+
  then have resolve: "keeps (holding e) (on_outbox (\<lambda>_ t. (resolve_attempt i w n now t, Inr ())))" for w n now
    by (intro outbox_holding) simp
  have count: "keeps (holding e) (on_outbox (\<lambda>_ t. let t1 = count_attempt i w t in (t1, Inr (F t1))))" for w and F :: "outbox \<Rightarrow> 'x"
    unfolding Let_def count_attempt_def by (intro outbox_holding exI conjI, rule fst_conv) simp
  show ?thesis unfolding mark_failed_def
    by (intro holding_frame.keeps_rules resolve count)
qed

lemmas holding_calls = bind_holding clear_holding dead_holding failed_holding lease_side_holding [OF store_side]

lemma triple_holding:
  assumes "keeps (holding e) m"
  shows "triple (honest e) (\<lambda>_. True) m (\<lambda>_ _. True)"
    "triple (honest e) (undelivered e) m (\<lambda>_. undelivered e)"
    "triple (honest e) (\<lambda>w. undelivered e w \<and> accepted e n w) m (\<lambda>_ w. undelivered e w \<and> accepted e n w)"
proof -
  have h: "holding e w (fst (m w))" for w using assms by (simp add: keeps_def)
  show "triple (honest e) (\<lambda>_. True) m (\<lambda>_ _. True)" "triple (honest e) (undelivered e) m (\<lambda>_. undelivered e)"
    using holding_honest [OF h] holding_undelivered [OF h] by (simp_all add: triple_def)
  have "accepted e n w \<Longrightarrow> accepted e n (fst (m w))" for w using h [of w] unfolding holding_def accepted_def by blast
  then show "triple (honest e) (\<lambda>w. undelivered e w \<and> accepted e n w) m (\<lambda>_ w. undelivered e w \<and> accepted e n w)"
    using holding_honest [OF h] holding_undelivered [OF h] by (simp add: triple_def)
qed

lemma triple_forget: "triple I P m Q \<Longrightarrow> triple I P m (\<lambda>_ _. True)"
  by (simp add: triple_def)

lemma split_row_honest:
  assumes "undelivered e w"
  shows "honest e (w\<lparr>w_outbox := fst (SplitOutboxEvent digest now (oe_ID e) k captured ev reserved (w_outbox w))\<rparr>)"
proof -
  let ?t = "w_outbox w"
  consider (same) "fst (SplitOutboxEvent digest now (oe_ID e) k captured ev reserved ?t) = ?t"
    | (split) x p r where "fst (SplitOutboxEvent digest now (oe_ID e) k captured ev reserved ?t)
        = update_where (\<lambda>y. ow_id y = oe_ID e) (split_parent now captured p) (insert_row x ?t)" "r \<in> set (ox_rows ?t)" "ow_id r = oe_ID e"
  proof (cases "find (owned_by (oe_ID e) k) (ox_rows ?t)")
    case None
    then show thesis using same by (simp add: SplitOutboxEvent_def)
  next
    case (Some r)
    then have r: "r \<in> set (ox_rows ?t)" "ow_id r = oe_ID e" using find_Some_in [OF Some] by (auto simp: owned_by_def)
    show thesis
    proof (cases "captured < 0 \<or> captured > ow_amount_units r \<or> find_event ev ?t \<noteq> None")
      case True
      then show thesis using Some by (intro same) (auto simp: SplitOutboxEvent_def Let_def)
    next
      case False
      then show thesis using Some by (intro split [OF _ r]) (simp add: SplitOutboxEvent_def Let_def del: update_where_simps)
    qed
  qed
  then show ?thesis
  proof cases
    case same
    then show ?thesis using undelivered_honest [OF assms] by (simp add: honest_def accepted_def)
  next
    case split
    have "find_row (oe_ID e) (insert_row x ?t) = find_row (oe_ID e) ?t"
    proof -
      have "oe_ID e \<in> ow_id ` set (ox_rows ?t)" using split(2,3) by force
      then obtain y where "find_row (oe_ID e) ?t = Some y" using find_row_None [of "oe_ID e" ?t] by blast
      then show ?thesis by (simp add: find_row_def insert_row_def find_snoc)
    qed
    then have found: "find_row (oe_ID e) (update_where (\<lambda>y. ow_id y = oe_ID e) (split_parent now captured p) (insert_row x ?t))
        = map_option (split_parent now captured p) (find_row (oe_ID e) ?t)"
      using find_rowD [of "oe_ID e" ?t]
      by (cases "find_row (oe_ID e) ?t") (simp_all add: find_row_update split_parent_def unclaim_def del: update_where_simps)
    have "ow_amount_units (split_parent now captured p y) = 0 \<or> ow_status (split_parent now captured p y) \<noteq> ''delivered''" for y
      by (simp add: split_parent_def unclaim_def)
    then have "honest e (w\<lparr>w_outbox := update_where (\<lambda>y. ow_id y = oe_ID e) (split_parent now captured p) (insert_row x ?t)\<rparr>)"
      using found by (auto simp: honest_def simp del: update_where_simps)
    then show ?thesis by (simp only: split(1))
  qed
qed

lemma split_honest: "triple (honest e) (undelivered e) (splitOutboxEvent env e l h reserved) (\<lambda>_ _. True)"
proof -
  have split: "triple (honest e) (undelivered e) (on_outbox (\<lambda>w. SplitOutboxEvent (be_digest env) (be_dbnow env w) (oe_ID e)
      (be_worker env) h (remainder_id e) reserved)) (\<lambda>_ _. True)"
  proof (rule triple_outbox)
    fix w t and r :: "outbox_error + int"
    assume "undelivered e w" "SplitOutboxEvent (be_digest env) (be_dbnow env w) (oe_ID e) (be_worker env) h (remainder_id e) reserved
        (w_outbox w) = (t, r)"
    then show "honest e (w\<lparr>w_outbox := t\<rparr>) \<and> True \<and> True" using split_row_honest [of e w] by (metis fst_conv)
  qed (simp_all add: blind_def honest_def accepted_def undelivered_def)
  show ?thesis
    unfolding splitOutboxEvent_def
  proof (rule triple_if)
    show "triple (honest e) (undelivered e) (mark_dead_letter env (oe_ID e) ''split_exhausted'') (\<lambda>_ _. True)"
      by (rule triple_forget [OF triple_holding(2) [OF dead_holding]])
  qed (rule triple_bind [OF split triple_holding(1)],
      unfold release_reservation_def seal_lease_def, intro holding_frame.keeps_rules holding_calls)
qed

lemma settlement_event_fields:
  "se_EventID (settlement_event e) = oe_EventID e" "se_AmountUnits (settlement_event e) = oe_AmountUnits e"
  by (simp_all add: settlement_event_def)

lemma submit_answer:
  "triple (honest e) (undelivered e)
     (control_submit env ((settlement_event e)\<lparr>se_LeaseID := l, se_AuthorizationToken := token\<rparr>))
     (\<lambda>r w. undelivered e w \<and> (\<forall>result. r = Inr result \<longrightarrow> accepted e (oe_AmountUnits e) w))"
  unfolding control_submit_def
proof (rule triple_remote)
  fix w :: world
  let ?ev = "(settlement_event e)\<lparr>se_LeaseID := l, se_AuthorizationToken := token\<rparr>"
  let ?a = "SubmitSettlement (be_submit env w ?ev)"
  let ?w = "w\<lparr>w_log := w_log w @ [CSubmit ?ev (w_store w) (w_outbox w) ?a]\<rparr>"
  assume u: "undelivered e w"
  have "undelivered e ?w" using u by (simp add: undelivered_def)
  moreover have "accepted e (oe_AmountUnits e) ?w" if "?a = Inr result" for result
    unfolding accepted_def
    by (rule exI [of _ ?ev], rule exI [of _ "w_store w"], rule exI [of _ "w_outbox w"], rule exI [of _ result])
       (use that in \<open>simp add: settlement_event_fields\<close>)
  ultimately show "honest e (fst (let answer = ?a in (w\<lparr>w_log := w_log w @ [CSubmit ?ev (w_store w) (w_outbox w) answer]\<rparr>, answer)))
     \<and> (undelivered e (fst (let answer = ?a in (w\<lparr>w_log := w_log w @ [CSubmit ?ev (w_store w) (w_outbox w) answer]\<rparr>, answer)))
        \<and> (\<forall>result. snd (let answer = ?a in (w\<lparr>w_log := w_log w @ [CSubmit ?ev (w_store w) (w_outbox w) answer]\<rparr>, answer)) = Inr result
             \<longrightarrow> accepted e (oe_AmountUnits e) (fst (let answer = ?a in (w\<lparr>w_log := w_log w @ [CSubmit ?ev (w_store w) (w_outbox w) answer]\<rparr>, answer)))))
     \<and> (undelivered e (fst (let answer = ?a in (w\<lparr>w_log := w_log w @ [CSubmit ?ev (w_store w) (w_outbox w) answer]\<rparr>, answer)))
        \<and> (\<forall>result. Inl BTransport = Inr result
             \<longrightarrow> accepted e (oe_AmountUnits e) (fst (let answer = ?a in (w\<lparr>w_log := w_log w @ [CSubmit ?ev (w_store w) (w_outbox w) answer]\<rparr>, answer)))))"
    using undelivered_honest by (simp add: Let_def)
qed (simp_all add: blind_def honest_def accepted_def undelivered_def)

lemma deliver_mark_honest:
  "triple (honest e) (\<lambda>w. undelivered e w \<and> accepted e (oe_AmountUnits e) w) (mark_delivered env (oe_ID e)) (\<lambda>_ _. True)"
  unfolding mark_delivered_def
proof (rule triple_bind [OF triple_outbox triple_ret])
  fix w t and r :: "outbox_error + unit"
  assume p: "undelivered e w \<and> accepted e (oe_AmountUnits e) w"
    and g: "(MarkOutboxEventDelivered (oe_ID e) (be_worker env) (be_dbnow env w) (w_outbox w), Inr ()) = (t, r)"
  have "ow_amount_units x = oe_AmountUnits e" if "find_row (oe_ID e) t = Some x" for x
    using that p g by (auto simp: MarkOutboxEventDelivered_def find_row_update unclaim_def undelivered_def simp del: update_where_simps)
  then show "honest e (w\<lparr>w_outbox := t\<rparr>) \<and> True \<and> True" using p by (simp add: honest_def accepted_def)
qed (simp_all add: blind_def honest_def accepted_def undelivered_def)

lemma accepted_honest:
  "triple (honest e) (\<lambda>w. undelivered e w \<and> accepted e (oe_AmountUnits e) w) (settlement_accepted env e result) (\<lambda>_ _. True)"
proof -
  have "keeps (holding e) (if sr_Duplicate result \<and> sr_NamedLeaseID result \<noteq> [] \<and> sr_NamedLeaseID result \<noteq> sr_EventLeaseID result
      then release_reservation env (oe_PlatformUserID e) (sr_NamedLeaseID result) (oe_EventID e) (oe_AmountUnits e) True
      else ret (Inr False))"
    unfolding release_reservation_def by (intro holding_frame.keeps_rules holding_calls)
  from triple_bind [OF triple_holding(3) [OF this] deliver_mark_honest] show ?thesis unfolding settlement_accepted_def .
qed

lemma refused_honest: "triple (honest e) (undelivered e) (settlement_refused env e pinned l l' err) (\<lambda>_ _. True)"
proof -
  have "keeps (holding e) (late_capture env e l')" "keeps (holding e) (pinned_over_capture env e l')"
    unfolding late_capture_def pinned_over_capture_def release_reservation_def seal_lease_def
    by (intro holding_frame.keeps_rules holding_calls)+
  then have marks: "triple (honest e) (undelivered e) (late_capture env e l') (\<lambda>_ _. True)"
    "triple (honest e) (undelivered e) (pinned_over_capture env e l') (\<lambda>_ _. True)"
    "triple (honest e) (undelivered e) (mark_failed env (oe_ID e)) (\<lambda>_ _. True)"
    "triple (honest e) (undelivered e) (mark_dead_letter env (oe_ID e) reason) (\<lambda>_ _. True)" for reason
    by (auto intro: triple_forget [OF triple_holding(2)] holding_calls)
  then show ?thesis unfolding settlement_refused_def
    by (cases err) (simp_all add: marks split_honest split: option.split)
qed

lemma reserve_honest: "triple (honest e) (undelivered e) (reserve_and_submit env e pinned token l) (\<lambda>_ _. True)"
  unfolding reserve_and_submit_def Let_def
proof (rule triple_bind [OF triple_holding(2) [OF lease_side_holding [OF store_side]]])
  fix r :: "bridge_error + CanonicalWalletReservation"
  show "triple (honest e) (undelivered e)
     (case r of
        Inl err \<Rightarrow> act_bind (if canonicalWalletLeaseBindingIsStale err then bind_lease env (oe_ID e) [] else ret (Inr ()))
          (\<lambda>_. mark_failed env (oe_ID e))
      | Inr reservation \<Rightarrow> act_bind (control_submit env
          ((settlement_event e)\<lparr>se_LeaseID := LeaseID (res_Lease reservation), se_AuthorizationToken := token\<rparr>))
          (\<lambda>s. case s of Inl err \<Rightarrow> settlement_refused env e pinned l (LeaseID (res_Lease reservation)) err
             | Inr result \<Rightarrow> settlement_accepted env e result)) (\<lambda>_ _. True)"
  proof (cases r)
    case (Inl err)
    then show ?thesis
      by (simp only: sum.case) (intro triple_forget [OF triple_holding(2)] holding_frame.keeps_rules holding_calls)
  next
    case (Inr reservation)
    have "triple (honest e) (\<lambda>w. undelivered e w \<and> (\<forall>result. s = Inr result \<longrightarrow> accepted e (oe_AmountUnits e) w))
        (case s of Inl err \<Rightarrow> settlement_refused env e pinned l (LeaseID (res_Lease reservation)) err
         | Inr result \<Rightarrow> settlement_accepted env e result) (\<lambda>_ _. True)" for s
      by (cases s) (auto intro: triple_pre [OF refused_honest] triple_pre [OF accepted_honest])
    from triple_bind [OF submit_answer this] show ?thesis unfolding Inr sum.case .
  qed
qed

lemma deliver_on_honest: "triple (honest e) (undelivered e) (deliver_on env e pinned token lease) (\<lambda>_ _. True)"
proof -
  have "triple (honest e) (undelivered e) (case b of
      Inl err \<Rightarrow> if err = BOutbox ErrCanonicalWalletOutboxClaimLost then ret () else mark_failed env (oe_ID e)
    | Inr _ \<Rightarrow> reserve_and_submit env e pinned token (LeaseID lease)) (\<lambda>_ _. True)" for b :: "bridge_error + unit"
    by (cases b) (auto simp: reserve_honest intro!: triple_forget [OF triple_holding(2)] holding_calls holding_frame.keeps_ret)
  from triple_bind [OF triple_holding(2) [OF bind_holding] this]
  show ?thesis unfolding deliver_on_def
    by (intro triple_if reserve_honest split_honest) (auto intro!: triple_forget [OF triple_holding(2)] holding_calls)
qed

lemma resolve_holding: "keeps (holding e) (resolveOutboxEventLease env e')"
  unfolding resolveOutboxEventLease_def
  by (intro holding_frame.keeps_rules holding_calls lease_side_holding [OF late_exclusions_side]
      lease_side_holding [OF excluded_side] lease_side_holding [OF ensureLease_side] lease_side_holding [OF resolve_kept_side])

lemma deliver_honest:
  "triple (honest e) (undelivered e) (deliverOutboxEvent env e) (\<lambda>_ _. True)"
proof -
  let ?I = "honest e" and ?U = "undelivered e"
  have done_with: "triple ?I ?U m (\<lambda>_ _. True)" if "keeps (holding e) m" for m :: "unit act"
    by (rule triple_forget [OF triple_holding(2) [OF that]])
  have resolved: "triple ?I ?U (deliver_resolved env e pinned token) (\<lambda>_ _. True)" for pinned token
    unfolding deliver_resolved_def
  proof (rule triple_bind [OF triple_holding(2) [OF resolve_holding]])
    fix r :: "bridge_error + CanonicalWalletLease"
    show "triple ?I ?U (case r of
          Inl err \<Rightarrow> if err = ErrCanonicalWalletBalanceShortfall then mark_dead_letter env (oe_ID e) ''balance_shortfall''
            else (case classifyControlPlaneError err of Some reason \<Rightarrow> mark_dead_letter env (oe_ID e) reason
                  | None \<Rightarrow> mark_failed env (oe_ID e))
        | Inr lease \<Rightarrow> deliver_on env e pinned token lease) (\<lambda>_ _. True)"
      by (cases r) (auto simp: deliver_on_honest intro!: done_with holding_calls split: option.split)
  qed
  have paying: "keeps (holding e) (pay_release env e)"
    unfolding pay_release_def release_reservation_def by (intro holding_frame.keeps_rules holding_calls)
  have paid: "triple ?I ?U (case d of Inl _ \<Rightarrow> mark_failed env (oe_ID e)
      | Inr _ \<Rightarrow> deliver_resolved env e pinned token) (\<lambda>_ _. True)" for d :: "bridge_error + unit" and pinned token
    by (cases d) (auto simp: resolved intro!: done_with holding_calls)
  have looked: "triple ?I ?U (case x of Inl _ \<Rightarrow> mark_failed env (oe_ID e) | Inr (excluded, originalToken) \<Rightarrow>
      act_bind (pay_release env e) (\<lambda>d. case d of Inl _ \<Rightarrow> mark_failed env (oe_ID e)
        | Inr _ \<Rightarrow> deliver_resolved env e (pinned \<or> excluded \<noteq> []) originalToken)) (\<lambda>_ _. True)"
    for x :: "bridge_error + string list \<times> string" and pinned
  proof (cases x)
    case (Inr y)
    then show ?thesis by (cases y) (simp only: sum.case prod.case, rule triple_bind [OF triple_holding(2) [OF paying] paid])
  qed (auto intro!: done_with holding_calls)
  have pinned: "triple ?I ?U (case p of Inl _ \<Rightarrow> mark_failed env (oe_ID e) | Inr pinned \<Rightarrow>
      act_bind (lateFundingExclusions env e) (\<lambda>x. case x of Inl _ \<Rightarrow> mark_failed env (oe_ID e) | Inr (excluded, originalToken) \<Rightarrow>
        act_bind (pay_release env e) (\<lambda>d. case d of Inl _ \<Rightarrow> mark_failed env (oe_ID e)
          | Inr _ \<Rightarrow> deliver_resolved env e (pinned \<or> excluded \<noteq> []) originalToken))) (\<lambda>_ _. True)" for p :: "bridge_error + bool"
  proof (cases p)
    case (Inr b)
    show ?thesis unfolding Inr sum.case
      by (rule triple_bind [OF triple_holding(2) [OF lease_side_holding [OF late_exclusions_side]] looked])
  qed (auto intro!: done_with holding_calls)
  have "keeps (holding e) (if oe_AuthorizationID e \<noteq> [] \<and> oe_BillingSnapshotID e \<noteq> [] \<and> be_db env
      then query (\<lambda>w. be_late_pinned env w e) else ret (Inr False))"
    by (intro holding_frame.keeps_rules)
  from triple_bind [OF triple_holding(2) [OF this] pinned] show ?thesis unfolding deliverOutboxEvent_def .
qed

end
