(* ===== verification/Wallet_Dispatch_Progress.thy ===== *)
theory Wallet_Dispatch_Progress
  imports Wallet_Dispatch_Safety
begin

text \<open>
  Without faults a delivery comes to an end and leaves its row in no one's claim: delivered, written off
  or pending again. The exception is a row that is split a second time.
\<close>

section \<open>Actions that return\<close>

definition returns :: "'a act \<Rightarrow> bool" where
  "returns m \<longleftrightarrow> (\<forall>w. w_faults w = [] \<longrightarrow> snd (m w) \<noteq> None \<and> w_faults (fst (m w)) = [])"

lemma returnsE:
  assumes "returns m" "w_faults w = []"
  obtains w1 x where "m w = (w1, Some x)" "w_faults w1 = []"
  using assms by (cases "m w") (auto simp: returns_def dest!: spec [of _ w])

lemma returns_ret: "returns (ret x)"
  by (simp add: returns_def ret_def)

lemma returns_clock: "returns (read_clock env)"
  by (simp add: returns_def read_clock_def)

lemma returns_bind:
  assumes "returns m" "\<And>x. returns (f x)"
  shows "returns (act_bind m f)"
  unfolding returns_def
proof (intro allI impI)
  fix w :: world assume "w_faults w = []"
  then obtain w1 x where m: "m w = (w1, Some x)" "w_faults w1 = []" using returnsE [OF assms(1)] by blast
  with assms(2) [of x] show "snd (act_bind m f w) \<noteq> None \<and> w_faults (fst (act_bind m f w)) = []"
    by (simp add: act_bind_def returns_def)
qed

lemma returns_try: "returns m \<Longrightarrow> (\<And>x. returns (f x)) \<Longrightarrow> returns (try_call m f)"
  unfolding try_call_def by (intro returns_bind) (auto split: sum.split intro: returns_ret)

lemma returns_remote: "(\<And>w. w_faults (fst (f w)) = w_faults w) \<Longrightarrow> returns (remote f)"
  by (simp add: returns_def remote_def case_prod_beta Let_def)

lemma returns_calls:
  "returns (query q)" "returns (on_store g)" "returns (on_outbox h)" "returns (control_ensure env request)"
  "returns (control_submit env ev)"
  unfolding query_def on_store_def on_outbox_def control_ensure_def control_submit_def
  by (intro returns_remote, simp add: case_prod_beta Let_def)+

lemma returns_if: "(b \<Longrightarrow> returns m) \<Longrightarrow> (\<not> b \<Longrightarrow> returns n) \<Longrightarrow> returns (if b then m else n)"
  by simp

lemma returns_option: "returns m \<Longrightarrow> (\<And>x. returns (f x)) \<Longrightarrow> returns (case v of None \<Rightarrow> m | Some x \<Rightarrow> f x)"
  by (simp split: option.split)

lemma returns_sum: "(\<And>x. returns (f x)) \<Longrightarrow> (\<And>x. returns (g x)) \<Longrightarrow> returns (case v of Inl x \<Rightarrow> f x | Inr x \<Rightarrow> g x)"
  by (simp split: sum.split)

lemma returns_prod: "(\<And>x y. returns (f x y)) \<Longrightarrow> returns (case v of (x, y) \<Rightarrow> f x y)"
  by (simp split: prod.split)

lemmas returns_rules = returns_ret returns_clock returns_bind returns_try returns_calls returns_if returns_option
  returns_sum returns_prod

lemma returns_bool: "returns m \<Longrightarrow> returns n \<Longrightarrow> returns (case v of True \<Rightarrow> m | False \<Rightarrow> n)"
  by (simp split: bool.split)

text \<open>Statements on the funding tables and the calls of the funding return.\<close>

lemma returns_funding_calls:
  "returns (control_pool env user scope)" "returns (control_freeze_source env q)" "returns (control_return env rq)"
  "returns (update_intent user leaseID ci fi)" "returns (insert_intent user leaseID mode)"
  "returns (update_freeze user leaseID cf ff)" "returns (insert_freeze user leaseID lease mode)"
  unfolding control_pool_def control_freeze_source_def control_return_def update_intent_def insert_intent_def
    update_freeze_def insert_freeze_def Let_def
  by (intro returns_remote, simp split: option.split)+

lemma returns_get: "returns (get_lease env user leaseID)" "returns (find_freeze user leaseID)" "returns (on_redis f)"
  unfolding get_lease_def find_freeze_def on_redis_def by (intro returns_calls)+

lemmas returns_more = returns_rules returns_bool returns_funding_calls returns_get

lemma install_returns: "returns (installFundingLease env lease)" "returns (applyFundingRegistry env lease)"
  unfolding installFundingLease_def applyFundingRegistry_def install_lease_def by (intro returns_more)+

lemma fresh_returns: "returns (freshFundingSource env user leaseID)" "returns (fundingSourceWire env user leaseID)"
  unfolding freshFundingSource_def fundingSourceWire_def by (intro returns_more install_returns)+

lemma freeze_attempts_returns: "returns (freeze_source_attempts env n user leaseID)"
proof (induction n)
  case (Suc n)
  have "returns (expected_request env user leaseID i)" "returns (fenced_source env user leaseID q receipt)" for i q receipt
    unfolding expected_request_def fenced_source_def Let_def by (intro returns_more fresh_returns)+
  with Suc show ?case unfolding freeze_source_attempts.simps by (intro returns_more)
qed (simp add: returns_ret)

lemma prepare_returns: "returns (prepareFundingReturn env user leaseID mode)"
proof -
  have "returns (close_ready env user leaseID mode)" "returns (freezeFundingSource env user leaseID)"
    unfolding close_ready_def fundingTerminalCloseReady_def freezeFundingSource_def
    by (intro returns_more fresh_returns freeze_attempts_returns)+
  then show ?thesis unfolding prepareFundingReturn_def Let_def by (intro returns_more install_returns)
qed

lemma recover_returns: "returns (recoverFundingReturn env user leaseID)"
proof -
  have ack: "returns (applyFundingReturnACK env receipt)" for receipt
    unfolding applyFundingReturnACK_def by (intro returns_more)
  have "returns (mark_dispatched user leaseID r p)" for r p
    unfolding mark_dispatched_def Let_def by (intro returns_more returns_remote) simp
  moreover have "returns (send_return env user leaseID revision fresh p)" for revision fresh p
    unfolding send_return_def record_receipt_def by (intro returns_more ack)
  ultimately have "returns (replayPendingFundingReturn env user leaseID)"
    unfolding replayPendingFundingReturn_def by (intro returns_more)
  then have "returns (recover_attempts env n user leaseID)" for n
    by (induction n) (unfold recover_attempts.simps, (intro returns_more ack)+)
  then show ?thesis unfolding recoverFundingReturn_def by (intro returns_more)
qed

lemma return_returns: "returns (returnFrozenFunding env user leaseID mode)"
proof -
  have "returns (return_observations env n user leaseID mode)" for n
    by (induction n) (unfold return_observations.simps funding_closed_def, (intro returns_more recover_returns prepare_returns)+)
  then show ?thesis unfolding returnFrozenFunding_def by (intro returns_more)
qed

lemma reclaim_returns: "returns (reclaimSharedFreeFunding env user)"
proof -
  have "returns (reclaim_each env user views returned firstErr)" for views returned firstErr
  proof (induction views arbitrary: returned firstErr)
    case (Cons v vs)
    then show ?case unfolding reclaim_each.simps Let_def by (intro returns_more recover_returns return_returns)
  qed (auto intro!: returns_more)
  then show ?thesis unfolding reclaimSharedFreeFunding_def by (intro returns_more)
qed

lemma frozen_returns: "returns (frozen_sources env request ids)"
  by (induction env request ids rule: frozen_sources.induct) (auto intro!: returns_rules)

lemma lifecycle_returns: "returns (ensureFundingLifecycle env request)"
  unfolding ensureFundingLifecycle_def by (intro returns_rules frozen_returns)

lemma excluded_returns: "returns (ensureExcludedSettlementFunding env e ids)"
  unfolding ensureExcludedSettlementFunding_def Let_def
  by (intro returns_more lifecycle_returns install_returns reclaim_returns)

lemma ensureLease_returns: "returns (ensureLease env user currency amount purpose prefer)"
  unfolding ensureLease_def ensureLeaseWithPolicy_def ensure_from_cache_def obtain_grant_def drain_or_top_up_def Let_def
    get_current_lease_def seal_lease_def
  by (intro returns_more lifecycle_returns install_returns reclaim_returns)

lemma resolve_returns: "returns (resolveOutboxEventLease env e)"
  unfolding resolveOutboxEventLease_def resolve_kept_def resolve_bound_def Let_def lateFundingExclusions_def
    install_lease_def bind_lease_def
  by (intro returns_more excluded_returns ensureLease_returns install_returns recover_returns)

section \<open>Assertions on actions that return\<close>

definition lives :: "(world \<Rightarrow> bool) \<Rightarrow> 'a act \<Rightarrow> ('a \<Rightarrow> world \<Rightarrow> bool) \<Rightarrow> bool" where
  "lives P m Q \<longleftrightarrow> (\<forall>w. w_faults w = [] \<longrightarrow> P w \<longrightarrow> (\<exists>w1 x. m w = (w1, Some x) \<and> w_faults w1 = [] \<and> Q x w1))"

lemma lives_ret: "(\<And>w. P w \<Longrightarrow> Q x w) \<Longrightarrow> lives P (ret x) Q"
  by (simp add: lives_def ret_def)

lemma lives_clock: "lives P (read_clock env) (\<lambda>_. P)"
  by (simp add: lives_def read_clock_def)

lemma lives_bind:
  assumes "lives P m R" "\<And>x. lives (R x) (f x) Q"
  shows "lives P (act_bind m f) Q"
  unfolding lives_def
proof (intro allI impI)
  fix w assume "w_faults w = []" "P w"
  then obtain w1 x where m: "m w = (w1, Some x)" "w_faults w1 = []" "R x w1" using assms(1) by (auto simp: lives_def)
  then obtain w2 y where "f x w1 = (w2, Some y)" "w_faults w2 = []" "Q y w2" using assms(2) [of x] by (auto simp: lives_def)
  with m show "\<exists>w1 x. act_bind m f w = (w1, Some x) \<and> w_faults w1 = [] \<and> Q x w1" by (simp add: act_bind_def)
qed

lemma lives_if: "(b \<Longrightarrow> lives P m Q) \<Longrightarrow> (\<not> b \<Longrightarrow> lives P n Q) \<Longrightarrow> lives P (if b then m else n) Q"
  by simp

lemma lives_post: "lives P m Q \<Longrightarrow> (\<And>x w. Q x w \<Longrightarrow> Q' x w) \<Longrightarrow> lives P m Q'"
  unfolding lives_def by blast

lemma lives_pre: "lives P m Q \<Longrightarrow> (\<And>w. P' w \<Longrightarrow> P w) \<Longrightarrow> lives P' m Q"
  unfolding lives_def by blast

lemma lives_frame:
  assumes "returns m" "keeps R m" "\<And>w w'. R w w' \<Longrightarrow> P w \<Longrightarrow> P w'"
  shows "lives P m (\<lambda>_. P)"
  unfolding lives_def
proof (intro allI impI)
  fix w assume w: "w_faults w = []" "P w"
  then obtain w1 x where m: "m w = (w1, Some x)" "w_faults w1 = []" using returnsE [OF assms(1)] by blast
  then have "P w1" using keepsD [OF assms(2), of w] assms(3) w(2) by simp
  with m show "\<exists>w1 x. m w = (w1, Some x) \<and> w_faults w1 = [] \<and> P w1" by blast
qed

lemma lives_outbox:
  assumes "\<And>w t r. P w \<Longrightarrow> g w (w_outbox w) = (t, r) \<Longrightarrow> Q (map_sum BOutbox id r) (w\<lparr>w_outbox := t\<rparr>)"
  shows "lives P (on_outbox g) Q"
  using assms by (auto simp: lives_def on_outbox_def remote_def split: prod.split)

section \<open>The row comes out of the claim\<close>

definition claimed :: "bridge_env \<Rightarrow> CanonicalWalletOutboxEvent \<Rightarrow> world \<Rightarrow> bool" where
  "claimed env e w \<longleftrightarrow> (\<exists>r. find_row (oe_ID e) (w_outbox w) = Some r \<and> owned_by (oe_ID e) (be_worker env) r)
     \<and> find_event (remainder_id e) (w_outbox w) = None"

definition released :: "CanonicalWalletOutboxEvent \<Rightarrow> world \<Rightarrow> bool" where
  "released e w \<longleftrightarrow> (\<exists>r. find_row (oe_ID e) (w_outbox w) = Some r \<and> ow_status r \<noteq> ''in_flight'')"

lemma lease_side_claimed: "lease_side w w' \<Longrightarrow> claimed env e w \<Longrightarrow> claimed env e w'"
  by (simp add: lease_side_def claimed_def)

lemma lease_side_released: "lease_side w w' \<Longrightarrow> released e w \<Longrightarrow> released e w'"
  by (simp add: lease_side_def released_def)

lemma store_released: "lives (released e) (on_store g) (\<lambda>_. released e)"
  by (rule lives_frame [OF returns_calls(2) store_side lease_side_released])

lemma store_claimed: "lives (claimed env e) (on_store g) (\<lambda>_. claimed env e)"
  by (rule lives_frame [OF returns_calls(2) store_side lease_side_claimed])

lemma find_event_update:
  "(\<And>r. ow_event_id (f r) = ow_event_id r) \<Longrightarrow> find_event ev (update_where P f t) = map_option (\<lambda>r. if P r then f r else r) (find_event ev t)"
proof -
  assume id: "\<And>r. ow_event_id (f r) = ow_event_id r"
  have "find (\<lambda>r. ow_event_id r = ev) (map (\<lambda>r. if P r then f r else r) rs)
      = map_option (\<lambda>r. if P r then f r else r) (find (\<lambda>r. ow_event_id r = ev) rs)" for rs
    by (induction rs) (auto simp: id)
  then show ?thesis by (simp add: find_event_def)
qed

text \<open>A mark on a claimed row that takes it out of the claim.\<close>

lemma mark_releases:
  assumes "claimed env e w" "\<And>r. ow_id (f r) = ow_id r \<and> ow_status (f r) \<noteq> ''in_flight''"
  shows "released e (w\<lparr>w_outbox := update_where (owned_by (oe_ID e) (be_worker env)) f (w_outbox w)\<rparr>)"
  using assms by (auto simp: claimed_def released_def find_row_update simp del: update_where_simps)

lemma dead_releases: "lives (claimed env e) (mark_dead_letter env (oe_ID e) reason) (\<lambda>_. released e)"
  unfolding mark_dead_letter_def
  by (rule lives_bind [OF lives_outbox lives_ret])
     (auto simp: MarkOutboxEventDeadLetter_def unclaim_def simp del: update_where_simps intro!: mark_releases)

lemma delivered_releases: "lives (claimed env e) (mark_delivered env (oe_ID e)) (\<lambda>_. released e)"
  unfolding mark_delivered_def
  by (rule lives_bind [OF lives_outbox lives_ret])
     (auto simp: MarkOutboxEventDelivered_def unclaim_def simp del: update_where_simps intro!: mark_releases)

lemma resolve_releases:
  "claimed env e w \<Longrightarrow> released e (w\<lparr>w_outbox := resolve_attempt (oe_ID e) (be_worker env) n now (w_outbox w)\<rparr>)"
  by (cases "walletOutboxMaxAttempts \<le> n")
     (auto simp: resolve_attempt_def unclaim_def simp del: update_where_simps intro!: mark_releases)

lemma failed_releases: "lives (claimed env e) (mark_failed env (oe_ID e)) (\<lambda>_. released e)"
  unfolding mark_failed_def
proof (rule lives_bind [OF lives_clock])
  fix now
  let ?k = "be_worker env" and ?i = "oe_ID e"
  have count: "lives (claimed env e) (on_outbox (\<lambda>_ t. let t1 = count_attempt ?i ?k t
      in (t1, Inr (map_option ow_attempt_count (find (owned_by ?i ?k) (ox_rows t1))))))
      (\<lambda>r w. claimed env e w \<and> (\<exists>n. r = Inr (Some n)))"
  proof (rule lives_outbox)
    fix w t and r :: "outbox_error + int option"
    assume c: "claimed env e w" and g: "(let t1 = count_attempt ?i ?k (w_outbox w)
      in (t1, Inr (map_option ow_attempt_count (find (owned_by ?i ?k) (ox_rows t1))))) = (t, r)"
    have t: "t = count_attempt ?i ?k (w_outbox w)" using g by (simp add: Let_def)
    obtain x where x: "find_row ?i t = Some x" "owned_by ?i ?k x"
      using c t by (auto simp: claimed_def count_attempt_def find_row_update owned_by_def simp del: update_where_simps)
    moreover have "find_event (remainder_id e) t = None"
      using c t by (auto simp: claimed_def count_attempt_def find_event_update simp del: update_where_simps)
    moreover have "find (owned_by ?i ?k) (ox_rows t) \<noteq> None" using x find_rowD [OF x(1)] by (auto simp: find_None_iff)
    ultimately show "claimed env e (w\<lparr>w_outbox := t\<rparr>) \<and> (\<exists>n. map_sum BOutbox id r = Inr (Some n))"
      using g by (auto simp: Let_def claimed_def t)
  qed
  have resolve: "lives (claimed env e) (act_bind (on_outbox (\<lambda>_ t. (resolve_attempt ?i ?k n now t, Inr ()))) (\<lambda>_. ret ()))
      (\<lambda>_. released e)" for n
    by (rule lives_bind [OF lives_outbox lives_ret]) (auto intro: resolve_releases)
  have "lives (\<lambda>w. claimed env e w \<and> (\<exists>n. r = Inr (Some n))) (case r of
      Inr (Some attempts) \<Rightarrow> act_bind (on_outbox (\<lambda>_ t. (resolve_attempt ?i ?k attempts now t, Inr ()))) (\<lambda>_. ret ())
    | _ \<Rightarrow> ret ()) (\<lambda>_. released e)" for r :: "bridge_error + int option"
    using resolve by (cases "\<exists>n. r = Inr (Some n)") (auto intro: lives_pre simp: lives_def)
  then show "lives (claimed env e) (act_bind (on_outbox (\<lambda>_ t. let t1 = count_attempt ?i ?k t
      in (t1, Inr (map_option ow_attempt_count (find (owned_by ?i ?k) (ox_rows t1)))))) (\<lambda>r. case r of
      Inr (Some attempts) \<Rightarrow> act_bind (on_outbox (\<lambda>_ t. (resolve_attempt ?i ?k attempts now t, Inr ()))) (\<lambda>_. ret ())
    | _ \<Rightarrow> ret ())) (\<lambda>_. released e)"
    by (rule lives_bind [OF count])
qed

lemma bind_keeps_claim:
  "lives (claimed env e) (bind_lease env (oe_ID e) l) (\<lambda>r w. r = Inr () \<and> claimed env e w)"
  unfolding bind_lease_def
proof (rule lives_outbox)
  fix w t and r :: "outbox_error + unit"
  assume c: "claimed env e w" and g: "(case BindOutboxEventLease (oe_ID e) (be_worker env) l (w_outbox w) of
       (t1, None) \<Rightarrow> (t1, Inr ()) | (t1, Some e) \<Rightarrow> (t1, Inl e)) = (t, r)"
  obtain x where x: "find_row (oe_ID e) (w_outbox w) = Some x" "owned_by (oe_ID e) (be_worker env) x"
    using c by (auto simp: claimed_def)
  then have "filter (owned_by (oe_ID e) (be_worker env)) (ox_rows (w_outbox w)) \<noteq> []"
    using find_rowD [OF x(1)] by (auto simp: filter_empty_conv)
  then have "rows_affected (owned_by (oe_ID e) (be_worker env)) (w_outbox w) \<noteq> 0" by (simp add: rows_affected_def)
  then have "t = update_where (owned_by (oe_ID e) (be_worker env)) (\<lambda>r. r\<lparr>ow_lease_id := Some l\<rparr>) (w_outbox w)" "r = Inr ()"
    using g by (auto simp: BindOutboxEventLease_def)
  with x c show "map_sum BOutbox id r = Inr () \<and> claimed env e (w\<lparr>w_outbox := t\<rparr>)"
    by (auto simp: claimed_def find_row_update find_event_update owned_by_def simp del: update_where_simps)
qed

lemma split_releases: "lives (claimed env e) (splitOutboxEvent env e l h reserved) (\<lambda>_. released e)"
proof -
  let ?split = "on_outbox (\<lambda>w. SplitOutboxEvent (be_digest env) (be_dbnow env w) (oe_ID e) (be_worker env) h (remainder_id e) reserved)"
  have split: "lives (claimed env e) ?split (\<lambda>r w. case r of Inl _ \<Rightarrow> claimed env e w | Inr _ \<Rightarrow> released e w)"
  proof (rule lives_outbox)
    fix w t and r :: "outbox_error + int"
    assume c: "claimed env e w" and g: "SplitOutboxEvent (be_digest env) (be_dbnow env w) (oe_ID e) (be_worker env) h
        (remainder_id e) reserved (w_outbox w) = (t, r)"
    obtain x where x: "find_row (oe_ID e) (w_outbox w) = Some x" "owned_by (oe_ID e) (be_worker env) x"
      "find_event (remainder_id e) (w_outbox w) = None" using c by (auto simp: claimed_def)
    then obtain y where y: "find (owned_by (oe_ID e) (be_worker env)) (ox_rows (w_outbox w)) = Some y"
      using find_rowD [OF x(1)] by (cases "find (owned_by (oe_ID e) (be_worker env)) (ox_rows (w_outbox w))") (auto simp: find_None_iff)
    show "case map_sum BOutbox id r of Inl _ \<Rightarrow> claimed env e (w\<lparr>w_outbox := t\<rparr>) | Inr _ \<Rightarrow> released e (w\<lparr>w_outbox := t\<rparr>)"
    proof (cases "h < 0 \<or> h > ow_amount_units y")
      case True
      then show ?thesis using g y c by (auto simp: SplitOutboxEvent_def claimed_def)
    next
      case False
      then obtain u p where t: "t = update_where (\<lambda>x. ow_id x = oe_ID e) (split_parent (be_dbnow env w) h p)
          (insert_row u (w_outbox w))" and r: "\<exists>n. r = Inr n"
        using g y x(3) by (auto simp: SplitOutboxEvent_def Let_def simp del: update_where_simps)
      have "find_row (oe_ID e) (insert_row u (w_outbox w)) = Some x"
        using x(1) by (simp add: find_row_def insert_row_def find_snoc)
      then have "find_row (oe_ID e) t = Some (split_parent (be_dbnow env w) h p x)"
        using find_rowD [OF x(1)] unfolding t
        by (subst find_row_update) (simp_all add: split_parent_def unclaim_def)
      then have "released e (w\<lparr>w_outbox := t\<rparr>)" by (simp add: released_def split_parent_def)
      then show ?thesis using r by auto
    qed
  qed
  have clear: "lives (released e) (clear_release (oe_ID e)) (\<lambda>_. released e)"
    unfolding clear_release_def
    by (rule lives_outbox) (auto simp: released_def ClearPendingRelease_def find_row_update simp del: update_where_simps)
  have sealed: "lives (released e) (act_bind (seal_lease env (oe_PlatformUserID e) l) (\<lambda>_. ret ())) (\<lambda>_. released e)"
    unfolding seal_lease_def by (rule lives_bind [OF store_released lives_ret])
  have cleared: "lives (released e) (act_bind (clear_release (oe_ID e)) (\<lambda>clr. case clr of Inl _ \<Rightarrow> ret ()
      | Inr _ \<Rightarrow> act_bind (seal_lease env (oe_PlatformUserID e) l) (\<lambda>_. ret ()))) (\<lambda>_. released e)"
    by (rule lives_bind [OF clear]) (auto split: sum.split intro: sealed lives_ret)
  have rel: "lives (released e) (act_bind (release_reservation env (oe_PlatformUserID e) l (oe_EventID e) n False) (\<lambda>rel. case rel of Inl _ \<Rightarrow> ret ()
      | Inr _ \<Rightarrow> act_bind (clear_release (oe_ID e)) (\<lambda>clr. case clr of Inl _ \<Rightarrow> ret ()
          | Inr _ \<Rightarrow> act_bind (seal_lease env (oe_PlatformUserID e) l) (\<lambda>_. ret ())))) (\<lambda>_. released e)" for n
    unfolding release_reservation_def
    by (rule lives_bind [OF store_released]) (auto split: sum.split intro: cleared lives_ret)
  have after: "lives (\<lambda>w. case r of Inl _ \<Rightarrow> claimed env e w | Inr _ \<Rightarrow> released e w) (case r of
      Inl _ \<Rightarrow> mark_failed env (oe_ID e)
    | Inr remainderUnits \<Rightarrow> if \<not> reserved then ret () else
        act_bind (release_reservation env (oe_PlatformUserID e) l (oe_EventID e) remainderUnits False) (\<lambda>rel. case rel of Inl _ \<Rightarrow> ret ()
      | Inr _ \<Rightarrow> act_bind (clear_release (oe_ID e)) (\<lambda>clr. case clr of Inl _ \<Rightarrow> ret ()
          | Inr _ \<Rightarrow> act_bind (seal_lease env (oe_PlatformUserID e) l) (\<lambda>_. ret ())))) (\<lambda>_. released e)" for r :: "bridge_error + int"
    by (cases r) (auto intro: failed_releases rel lives_ret)
  show ?thesis
    unfolding splitOutboxEvent_def by (intro lives_if dead_releases) (rule lives_bind [OF split after])
qed

lemma pinned_releases: "lives (claimed env e) (pinned_over_capture env e l) (\<lambda>_. released e)"
proof -
  have sealed: "lives (claimed env e) (act_bind (seal_lease env (oe_PlatformUserID e) l) (\<lambda>s. case s of
      Inl err \<Rightarrow> if err = BStore ErrCanonicalWalletLeaseMissing then mark_dead_letter env (oe_ID e) ''balance_shortfall''
        else mark_failed env (oe_ID e)
    | Inr _ \<Rightarrow> mark_dead_letter env (oe_ID e) ''balance_shortfall'')) (\<lambda>_. released e)"
    unfolding seal_lease_def
    by (rule lives_bind [OF store_claimed]) (auto split: sum.split intro: failed_releases dead_releases)
  have bound: "lives (\<lambda>w. b = Inr () \<and> claimed env e w) (case b of Inl _ \<Rightarrow> ret () | Inr _ \<Rightarrow>
     act_bind (seal_lease env (oe_PlatformUserID e) l) (\<lambda>s. case s of
      Inl err \<Rightarrow> if err = BStore ErrCanonicalWalletLeaseMissing then mark_dead_letter env (oe_ID e) ''balance_shortfall''
        else mark_failed env (oe_ID e)
    | Inr _ \<Rightarrow> mark_dead_letter env (oe_ID e) ''balance_shortfall'')) (\<lambda>_. released e)" for b :: "bridge_error + unit"
    by (cases b) (auto simp: lives_def [of "\<lambda>_. False"] intro: lives_pre [OF sealed])
  show ?thesis
    unfolding pinned_over_capture_def release_reservation_def
    by (rule lives_bind [OF store_claimed]) (auto split: sum.split intro: failed_releases lives_bind [OF bind_keeps_claim bound])
qed

lemma late_capture_releases: "lives (claimed env e) (late_capture env e l) (\<lambda>_. released e)"
proof -
  have "lives (\<lambda>w. b = Inr () \<and> claimed env e w) (act_bind (seal_lease env (oe_PlatformUserID e) l) (\<lambda>_. mark_failed env (oe_ID e)))
      (\<lambda>_. released e)" for b :: "bridge_error + unit"
    unfolding seal_lease_def by (rule lives_pre [OF lives_bind [OF store_claimed failed_releases]]) simp
  from lives_bind [OF bind_keeps_claim this] show ?thesis
    unfolding late_capture_def release_reservation_def by (rule lives_bind [OF store_claimed])
qed

lemma refused_releases: "lives (claimed env e) (settlement_refused env e pinned l l' err) (\<lambda>_. released e)"
  unfolding settlement_refused_def
  by (cases err) (simp_all add: failed_releases pinned_releases late_capture_releases split_releases dead_releases split: option.split)

lemma accepted_releases: "lives (claimed env e) (settlement_accepted env e result) (\<lambda>_. released e)"
  unfolding settlement_accepted_def release_reservation_def
  by (rule lives_bind [OF lives_if delivered_releases]) (auto intro: store_claimed lives_ret)

lemma reserve_releases: "lives (claimed env e) (reserve_and_submit env e pinned token l) (\<lambda>_. released e)"
proof -
  have submit: "lives (claimed env e) (control_submit env ev) (\<lambda>_. claimed env e)" for ev
    by (simp add: lives_def control_submit_def remote_def Let_def claimed_def)
  have sent: "lives (claimed env e) (act_bind (control_submit env ev) (\<lambda>s. case s of
      Inl err \<Rightarrow> settlement_refused env e pinned l l' err | Inr result \<Rightarrow> settlement_accepted env e result)) (\<lambda>_. released e)" for ev l'
    by (rule lives_bind [OF submit]) (auto split: sum.split intro: refused_releases accepted_releases)
  have stale: "lives (claimed env e) (act_bind (if stale then bind_lease env (oe_ID e) [] else ret (Inr ()))
      (\<lambda>_. mark_failed env (oe_ID e))) (\<lambda>_. released e)" for stale
    by (rule lives_bind [OF lives_if failed_releases]) (auto intro: lives_post [OF bind_keeps_claim] lives_ret)
  show ?thesis
    unfolding reserve_and_submit_def Let_def
    by (rule lives_bind [OF store_claimed]) (simp only: split: sum.split, intro conjI allI impI stale sent)
qed

lemma deliver_on_releases: "lives (claimed env e) (deliver_on env e pinned token lease) (\<lambda>_. released e)"
proof -
  have "lives (\<lambda>w. b = Inr () \<and> claimed env e w) (case b of
      Inl err \<Rightarrow> if err = BOutbox ErrCanonicalWalletOutboxClaimLost then ret () else mark_failed env (oe_ID e)
    | Inr _ \<Rightarrow> reserve_and_submit env e pinned token (LeaseID lease)) (\<lambda>_. released e)" for b :: "bridge_error + unit"
    by (cases b) (auto simp: lives_def [of "\<lambda>_. False"] intro: lives_pre [OF reserve_releases])
  from lives_bind [OF bind_keeps_claim this] show ?thesis
    unfolding deliver_on_def by (intro lives_if dead_releases split_releases reserve_releases)
qed

definition keeps_claim :: "bridge_env \<Rightarrow> CanonicalWalletOutboxEvent \<Rightarrow> world \<Rightarrow> world \<Rightarrow> bool" where
  "keeps_claim env e w w' \<longleftrightarrow> (claimed env e w \<longrightarrow> claimed env e w')"

interpretation claim_frame: world_order "keeps_claim env e" for env e
  by unfold_locales (simp_all add: keeps_claim_def claimed_def)

lemma lease_side_claim: "keeps lease_side m \<Longrightarrow> keeps (keeps_claim env e) m"
  unfolding keeps_def keeps_claim_def by (blast intro: lease_side_claimed)

lemma outbox_claim:
  assumes "\<And>w t. \<exists>P f. fst (g w t) = update_where P f t \<and> (\<forall>r. ow_id (f r) = ow_id r \<and> ow_event_id (f r) = ow_event_id r
     \<and> ow_status (f r) = ow_status r \<and> ow_claimed_by (f r) = ow_claimed_by r)"
  shows "keeps (keeps_claim env e) (on_outbox g)"
  unfolding on_outbox_def
proof (rule claim_frame.keeps_remote)
  fix w
  obtain P f where g: "fst (g w (w_outbox w)) = update_where P f (w_outbox w)"
    and f: "\<And>r. ow_id (f r) = ow_id r \<and> ow_event_id (f r) = ow_event_id r \<and> ow_status (f r) = ow_status r \<and> ow_claimed_by (f r) = ow_claimed_by r"
    using assms [of w "w_outbox w"] by blast
  have "claimed env e (w\<lparr>w_outbox := update_where P f (w_outbox w)\<rparr>)" if c: "claimed env e w"
  proof -
    obtain r where r: "find_row (oe_ID e) (w_outbox w) = Some r" "owned_by (oe_ID e) (be_worker env) r"
      "find_event (remainder_id e) (w_outbox w) = None" using c by (auto simp: claimed_def)
    have "owned_by (oe_ID e) (be_worker env) (if P r then f r else r)" using f r(2) by (simp add: owned_by_def)
    then show ?thesis using f r by (simp add: claimed_def find_row_update find_event_update del: update_where_simps)
  qed
  then show "keeps_claim env e w (fst (case g w (w_outbox w) of (t, r) \<Rightarrow> (w\<lparr>w_outbox := t\<rparr>, map_sum BOutbox id r)))"
    by (simp add: keeps_claim_def case_prod_beta g)
qed

lemma bind_claim: "keeps (keeps_claim env e) (bind_lease env' i l)"
  unfolding bind_lease_def
  by (rule outbox_claim)
     (auto simp: BindOutboxEventLease_def simp del: update_where_simps
       intro!: exI [of _ "owned_by i (be_worker env')"] exI [of _ "\<lambda>r. r\<lparr>ow_lease_id := Some l\<rparr>"])

lemma clear_claim: "keeps (keeps_claim env e) (clear_release i)"
  unfolding clear_release_def
  by (rule outbox_claim)
     (auto simp: ClearPendingRelease_def simp del: update_where_simps
       intro!: exI [of _ "\<lambda>r. ow_id r = i"] exI [of _ "\<lambda>r. r\<lparr>ow_pending_release_units := None\<rparr>"])

lemma lives_claim: "returns m \<Longrightarrow> keeps (keeps_claim env e) m \<Longrightarrow> lives (claimed env e) m (\<lambda>_. claimed env e)"
  by (erule (1) lives_frame) (simp add: keeps_claim_def)

lemma resolve_claim: "keeps (keeps_claim env e) (resolveOutboxEventLease env e')"
  unfolding resolveOutboxEventLease_def
  by (intro claim_frame.keeps_rules bind_claim lease_side_claim [OF late_exclusions_side] lease_side_claim [OF excluded_side]
      lease_side_claim [OF ensureLease_side] lease_side_claim [OF resolve_kept_side])

lemma deliver_releases:
  "lives (claimed env e) (deliverOutboxEvent env e) (\<lambda>_. released e)"
proof -
  let ?C = "claimed env e" and ?D = "\<lambda>_. released e"
  have resolved: "lives ?C (deliver_resolved env e pinned token) ?D" for pinned token
    unfolding deliver_resolved_def
    by (rule lives_bind [OF lives_claim [OF resolve_returns resolve_claim]])
       (auto split: sum.split option.split intro: failed_releases dead_releases deliver_on_releases)
  have "returns (pay_release env e)" "keeps (keeps_claim env e) (pay_release env e)"
    unfolding pay_release_def release_reservation_def
    by (intro returns_rules, simp add: clear_release_def returns_calls)
       (intro claim_frame.keeps_rules clear_claim lease_side_claim [OF store_side])
  note paying = lives_claim [OF this]
  have paid: "lives ?C (act_bind (pay_release env e) (\<lambda>d. case d of Inl _ \<Rightarrow> mark_failed env (oe_ID e)
      | Inr _ \<Rightarrow> deliver_resolved env e pinned token)) ?D" for pinned token
    by (rule lives_bind [OF paying]) (auto split: sum.split intro: failed_releases resolved)
  have late: "lives ?C (lateFundingExclusions env e) (\<lambda>_. ?C)"
    by (rule lives_claim [OF _ lease_side_claim [OF late_exclusions_side]])
       (unfold lateFundingExclusions_def, intro returns_rules)
  have looked: "lives ?C (act_bind (lateFundingExclusions env e) (\<lambda>x. case x of Inl _ \<Rightarrow> mark_failed env (oe_ID e)
      | Inr (excluded, originalToken) \<Rightarrow> act_bind (pay_release env e) (\<lambda>d. case d of Inl _ \<Rightarrow> mark_failed env (oe_ID e)
        | Inr _ \<Rightarrow> deliver_resolved env e (pinned \<or> excluded \<noteq> []) originalToken))) ?D" for pinned
    by (rule lives_bind [OF late]) (auto split: sum.split intro: failed_releases paid)
  have "returns (if oe_AuthorizationID e \<noteq> [] \<and> oe_BillingSnapshotID e \<noteq> [] \<and> be_db env
      then query (\<lambda>w. be_late_pinned env w e) else ret (Inr False))"
    "keeps (keeps_claim env e) (if oe_AuthorizationID e \<noteq> [] \<and> oe_BillingSnapshotID e \<noteq> [] \<and> be_db env
      then query (\<lambda>w. be_late_pinned env w e) else ret (Inr False))"
    by (intro returns_rules) (intro claim_frame.keeps_rules)
  from lives_claim [OF this] show ?thesis
    unfolding deliverOutboxEvent_def
    by (rule lives_bind) (auto split: sum.split intro: failed_releases looked)
qed

section \<open>The collector\<close>

text \<open>The bound on re-drives, and what a pass still knows of the candidates it has yet to see.\<close>

definition redrives_within :: "int \<Rightarrow> world \<Rightarrow> bool" where
  "redrives_within m w \<longleftrightarrow> (\<forall>r\<in>set (ox_rows (w_outbox w)). ow_redrive_count r \<le> m)"

definition listed :: "CanonicalWalletOutboxEvent list \<Rightarrow> world \<Rightarrow> bool" where
  "listed cs w \<longleftrightarrow> (\<forall>c\<in>set cs. \<forall>r\<in>set (ox_rows (w_outbox w)).
     ow_id r = oe_ID c \<longrightarrow> is_dead_letter ''balance_shortfall'' r \<longrightarrow> ow_redrive_count r \<le> oe_RedriveCount c)"

lemma requeue_within:
  assumes "redrives_within m w" "listed (c # cs) w" "oe_RedriveCount c < m"
  shows "redrives_within m (w\<lparr>w_outbox := RequeueDeadLetter (oe_ID c) now (w_outbox w)\<rparr>)"
    and "listed cs (w\<lparr>w_outbox := RequeueDeadLetter (oe_ID c) now (w_outbox w)\<rparr>)"
  using assms by (auto simp: redrives_within_def listed_def RequeueDeadLetter_def unclaim_def is_dead_letter_def)

lemma requeue_all_within:
  "triple (redrives_within (receivableRedriveMaxAttempts env)) (listed cs) (requeue_all env cs) (\<lambda>_ _. True)"
proof (induction cs)
  case (Cons c cs)
  let ?m = "receivableRedriveMaxAttempts env"
  have skip: "triple (redrives_within ?m) (listed (c # cs)) (requeue_all env cs) (\<lambda>_ _. True)"
    by (rule triple_pre [OF Cons]) (simp add: listed_def)
  have "triple (redrives_within ?m) (listed (c # cs))
      (on_outbox (\<lambda>w t. (RequeueDeadLetter (oe_ID c) (be_dbnow env w) t, Inr ()))) (\<lambda>_. listed cs)" if "oe_RedriveCount c < ?m"
  proof (rule triple_outbox)
    fix w t and r :: "outbox_error + unit"
    assume "redrives_within ?m w" "listed (c # cs) w" "(RequeueDeadLetter (oe_ID c) (be_dbnow env w) (w_outbox w), Inr ()) = (t, r)"
    with requeue_within [OF _ _ that] show "redrives_within ?m (w\<lparr>w_outbox := t\<rparr>) \<and> listed cs (w\<lparr>w_outbox := t\<rparr>) \<and> listed cs (w\<lparr>w_outbox := t\<rparr>)"
      by blast
  qed (simp_all add: blind_def redrives_within_def listed_def)
  then have "triple (redrives_within ?m) (listed (c # cs))
      (act_bind (on_outbox (\<lambda>w t. (RequeueDeadLetter (oe_ID c) (be_dbnow env w) t, Inr ()))) (\<lambda>_. requeue_all env cs)) (\<lambda>_ _. True)"
    if "oe_RedriveCount c < ?m" using that Cons by (blast intro: triple_bind)
  with skip show ?case by (simp add: not_le)
qed (simp add: triple_ret)

lemma listing:
  assumes "outbox_inv (w_outbox w)"
  shows "listed (ListReceivableRedriveCandidates notBefore m limit (w_outbox w)) w"
  unfolding listed_def
proof (intro ballI impI)
  fix c r
  assume c: "c \<in> set (ListReceivableRedriveCandidates notBefore m limit (w_outbox w))"
    and r: "r \<in> set (ox_rows (w_outbox w))" "ow_id r = oe_ID c"
  obtain x where x: "x \<in> set (ox_rows (w_outbox w))" "oe_ID c = ow_id x" "oe_RedriveCount c = ow_redrive_count x"
    using c by (auto simp: ListReceivableRedriveCandidates_def Let_def outbox_event_def dest!: in_set_takeD)
  then show "ow_redrive_count r \<le> oe_RedriveCount c" using same_row [OF assms r(1) x(1)] r(2) by simp
qed

lemma collect_within:
  "triple (redrives_within (receivableRedriveMaxAttempts env)) (\<lambda>w. outbox_inv (w_outbox w)) (collectReceivableOnce env) (\<lambda>_ _. True)"
proof -
  let ?I = "redrives_within (receivableRedriveMaxAttempts env)" and ?P = "\<lambda>w. outbox_inv (w_outbox w)"
  have blind: "blind ?I" "blind ?P" "blind (listed cs)" for cs by (simp_all add: blind_def redrives_within_def listed_def)
  have lead: "triple ?I ?P (on_store g) (\<lambda>_. ?P)" for g
    by (rule triple_store [OF blind(1,2,2)]) (simp_all add: redrives_within_def)
  have list: "triple ?I ?P (on_outbox (\<lambda>_ t. (t, Inr (ListReceivableRedriveCandidates nb m lim t))))
      (\<lambda>r w. \<forall>cs. r = Inr cs \<longrightarrow> listed cs w)" for nb m lim
    by (rule triple_outbox) (auto simp: blind blind_def listed_def redrives_within_def dest: listing [unfolded listed_def])
  have requeue: "triple ?I (\<lambda>w. \<forall>cs. r = Inr cs \<longrightarrow> listed cs w)
      (case r of Inl _ \<Rightarrow> ret () | Inr candidates \<Rightarrow> requeue_all env candidates) (\<lambda>_ _. True)"
    for r :: "bridge_error + CanonicalWalletOutboxEvent list"
    by (cases r) (auto intro: triple_ret triple_pre [OF requeue_all_within])
  have collect: "triple ?I ?P (act_bind (read_clock env) (\<lambda>now. act_bind (on_outbox (\<lambda>_ t. (t, Inr (ListReceivableRedriveCandidates
        (now - retentionDays env * 86400000000000) (receivableRedriveMaxAttempts env) walletReceivableRedriveBatch t)))) (\<lambda>r.
        case r of Inl _ \<Rightarrow> ret () | Inr candidates \<Rightarrow> requeue_all env candidates))) (\<lambda>_ _. True)"
    by (rule triple_bind [OF triple_clock triple_bind [OF list requeue]])
  show ?thesis
    unfolding collectReceivableOnce_def
    by (intro triple_if triple_bind [OF lead] collect) (auto intro: triple_ret)
qed

end
