(* ===== verification/Bridge_Properties.thy ===== *)
theory Bridge_Properties
  imports Wallet_Dispatch_Progress
begin

text \<open>
  The properties of the settlement outbox and of the bridge that delivers it, with a demonstration
  bridge for the runs that show their hypotheses hold: worker \<open>w1\<close>, one settlement of 60 units for
  request \<open>req1\<close>, a control plane that grants leases of 100 units and accepts what is submitted, and no
  funding returns.
\<close>

section \<open>The demonstration bridge\<close>

definition demo_due :: CanonicalWalletSettlementEvent where
  "demo_due = \<lparr>se_EventID = ''e1'', se_GatewayRequestID = ''req1'', se_PlatformUserID = ''u1'', se_LeaseID = [],
     se_Currency = ''USD'', se_AmountUnits = 60, se_LocalBalanceAfterUnits = None, se_OccurredAt = Some 5,
     se_AuthorizationToken = [], se_AuthorizationID = [], se_BillingSnapshotID = []\<rparr>"

definition empty_outbox :: outbox where
  "empty_outbox = \<lparr>ox_rows = [], ox_next = 1\<rparr>"

definition demo_digest :: "walletOutboxHashPayload \<Rightarrow> string" where
  "demo_digest p = hp_LeaseID p @ show_int (hp_AmountUnits p)"

definition demo_outbox :: outbox where
  "demo_outbox = outbox_run demo_digest [OInsert 10 demo_due, OClaim (\<lambda>_. False) ''w1'' 10 20] empty_outbox"

definition demo_grants :: "canonicalWalletEnsureWireResponse http_reply" where
  "demo_grants = \<lparr>hr_status = 200, hr_oversize = False, hr_unread = False, hr_empty = False, hr_refusal = None,
     hr_value = Some (zeroEnsureWire\<lparr>wr_LeaseID := ''L1'', wr_PlatformUserID := ''u1'', wr_Currency := ''USD'',
       wr_Budget := newCanonicalWalletAmountObject 100, wr_Reserved := newCanonicalWalletAmountObject 0, wr_Captured := newCanonicalWalletAmountObject 0, wr_Released := newCanonicalWalletAmountObject 0,
       wr_Headroom := newCanonicalWalletAmountObject 100, wr_Status := ''active'', wr_ExpiresAt := Some 9000000000, wr_Outcome := ''issued'',
       wr_FundingScope := ''settle''\<rparr>)\<rparr>"

definition demo_accepts :: "canonicalWalletSettlementWireResponse http_reply" where
  "demo_accepts = \<lparr>hr_status = 200, hr_oversize = False, hr_unread = False, hr_empty = False, hr_refusal = None,
     hr_value = Some (zeroSettlementWire\<lparr>sw_Accepted := True, sw_EventLeaseID := ''L1'', sw_EventAmount := newCanonicalWalletAmountObject 60,
       sw_CanonicalBalance := newCanonicalWalletAmountObject 40\<rparr>)\<rparr>"

definition demo_key :: receipt_key where
  "demo_key = \<lparr>rk_secret = [], rk_mac = (\<lambda>_ _. []), rk_time = (\<lambda>_. None)\<rparr>"

definition demo_env :: bridge_env where
  "demo_env = \<lparr>be_H = (\<lambda>s. s), be_digest = demo_digest, be_key = demo_key, be_worker = ''w1'', be_margin = 0, be_LeaseBudgetUnits = 100,
     be_LeaseTTLSeconds = 60, be_slot = 30, be_RequestTimeoutMS = 300, be_RedriveIntervalSeconds = 0, be_RedriveMaxAttempts = 0,
     be_RetentionDays = 0, be_wired = True, be_db = False, be_fundingStore = False, be_signed = False, be_clock = (\<lambda>_. 1000000000), be_dbnow = (\<lambda>_. 30),
     be_rnow = (\<lambda>_. 1000), be_locked = (\<lambda>_ _. False), be_late_pinned = (\<lambda>_ _. False), be_exclusions = (\<lambda>_ _. []),
     be_protected = (\<lambda>_ _. False), be_pinned = (\<lambda>_ _ _. False), be_terminal_ready = (\<lambda>_ _ _. False),
     be_media_acked = (\<lambda>_ _ _. False), be_oldest = (\<lambda>_ work. work),
     be_ensure = (\<lambda>_ _. Some demo_grants), be_submit = (\<lambda>_ _. Some demo_accepts), be_pool = (\<lambda>_ _ _. None),
     be_freeze_source = (\<lambda>_ _. None), be_return = (\<lambda>_ _. None)\<rparr>"

definition demo_world :: world where
  "demo_world = \<lparr>w_store = Some empty_db, w_outbox = demo_outbox, w_freeze = [], w_intents = [], w_faults = [], w_log = []\<rparr>"

definition demo_event :: CanonicalWalletOutboxEvent where
  "demo_event = outbox_event (hd (ox_rows demo_outbox))"

definition demo_claimed :: outbox_row where
  "demo_claimed = hd (ox_rows demo_outbox)"


definition demo_receivable :: world where
  "demo_receivable = demo_world\<lparr>w_outbox := outbox_step demo_digest (ODead 1 ''w1'' ''balance_shortfall'') demo_outbox\<rparr>"

definition demo_collector :: bridge_env where
  "demo_collector = demo_env\<lparr>be_db := True\<rparr>"

lemma empty_outbox_inv: "outbox_inv empty_outbox"
  by (simp add: outbox_inv_def empty_outbox_def)

lemma demo_outbox_inv: "outbox_inv demo_outbox"
  unfolding demo_outbox_def by (rule outbox_run_inv [OF empty_outbox_inv]) (simp add: op_ok_def demo_due_def)

lemma demo_row: "find_row 1 demo_outbox = Some demo_claimed" "owned_by 1 ''w1'' demo_claimed" "ow_amount_units demo_claimed = 60"
  "ow_pending_release_units demo_claimed = None" "ow_lease_id demo_claimed = Some []" "oe_ID demo_event = 1"
  "ow_claimed_at demo_claimed = Some 20" "ow_status demo_claimed = ''in_flight''"
  by code_simp+

lemma demo_row_in: "demo_claimed \<in> set (ox_rows demo_outbox)"
  using find_rowD [OF demo_row(1)] by simp

lemma demo_event_fields: "oe_EventID demo_event = ''e1''" "oe_AmountUnits demo_event = 60" "oe_LeaseID demo_event = []"
  "oe_PendingReleaseUnits demo_event = None" "oe_PlatformUserID demo_event = ''u1''"
  by code_simp+


lemma demo_id: "ow_id demo_claimed = 1" "ow_event_id demo_claimed = ''e1''" "oe_ID (outbox_event demo_claimed) = 1"
  by code_simp+

lemma demo_in_world: "find_row (oe_ID demo_event) (w_outbox demo_world) = Some demo_claimed"
  "owned_by (oe_ID demo_event) (be_worker demo_env) demo_claimed" "demo_event = outbox_event demo_claimed"
  using demo_row by (simp_all add: demo_world_def demo_env_def) (simp add: demo_event_def demo_claimed_def)

text \<open>The demonstration delivery, run to its end.\<close>

fun answered :: "control_call \<Rightarrow> bool" where
  "answered (CSubmit _ _ _ (Inr _)) = True"
| "answered _ = False"

definition demo_outcome :: "outbox_row option \<times> bool" where
  "demo_outcome = (let w = fst (deliverOutboxEvent demo_env demo_event demo_world)
     in (find_row 1 (w_outbox w), list_ex answered (w_log w)))"

lemma demo_run: "map_option (\<lambda>r. (ow_status r, ow_amount_units r)) (fst demo_outcome) = Some (''delivered'', 60) \<and> snd demo_outcome"
  by code_simp

lemma answeredE: "answered c \<Longrightarrow> (\<And>ev st t result. c = CSubmit ev st t (Inr result) \<Longrightarrow> thesis) \<Longrightarrow> thesis"
  by (cases c rule: answered.cases) auto


lemma demo_submission: "\<exists>ev st t result. CSubmit ev st t (Inr result) \<in> set (w_log (fst (deliverOutboxEvent demo_env demo_event demo_world)))"
  using demo_run by (auto simp: demo_outcome_def Let_def list_ex_iff elim!: answeredE)

text \<open>A step that keeps the store and leaves an unbound row unbound.\<close>

definition unbound_at :: "CanonicalWalletOutboxEvent \<Rightarrow> world \<Rightarrow> world \<Rightarrow> bool" where
  "unbound_at e w w' \<longleftrightarrow> w_store w' = w_store w
     \<and> ((\<exists>r. find_row (oe_ID e) (w_outbox w) = Some r \<and> null_string (ow_lease_id r) = [])
        \<longrightarrow> (\<exists>r. find_row (oe_ID e) (w_outbox w') = Some r \<and> null_string (ow_lease_id r) = []))"

interpretation unbound_frame: world_order "unbound_at e" for e
  by unfold_locales (auto simp: unbound_at_def)

lemma mark_failed_unbound: "keeps (unbound_at e) (mark_failed env i)"
proof -
  have upd: "keeps (unbound_at e) (on_outbox g)"
    if g0: "\<And>w t. \<exists>P f. fst (g w t) = update_where P f t \<and> (\<forall>r. ow_id (f r) = ow_id r \<and> ow_lease_id (f r) = ow_lease_id r)"
    for g :: "world \<Rightarrow> outbox \<Rightarrow> outbox \<times> (outbox_error + 'x)"
    unfolding on_outbox_def
  proof (rule unbound_frame.keeps_remote)
    fix w
    obtain P f where g: "fst (g w (w_outbox w)) = update_where P f (w_outbox w)"
      and f: "\<And>r. ow_id (f r) = ow_id r \<and> ow_lease_id (f r) = ow_lease_id r" using g0 [of w "w_outbox w"] by blast
    have "find_row (oe_ID e) (update_where P f (w_outbox w)) = map_option (\<lambda>r. if P r then f r else r) (find_row (oe_ID e) (w_outbox w))"
      using f by (simp add: find_row_update del: update_where_simps)
    then have "unbound_at e w (w\<lparr>w_outbox := update_where P f (w_outbox w)\<rparr>)"
      using f by (cases "find_row (oe_ID e) (w_outbox w)") (auto simp: unbound_at_def simp del: update_where_simps map_option_eq_Some)
    then show "unbound_at e w (fst (case g w (w_outbox w) of (t, r) \<Rightarrow> (w\<lparr>w_outbox := t\<rparr>, map_sum BOutbox id r)))"
      by (simp add: case_prod_beta g)
  qed
  have "\<exists>P f. resolve_attempt i k n now t = update_where P f t \<and> (\<forall>r. ow_id (f r) = ow_id r \<and> ow_lease_id (f r) = ow_lease_id r)"
    for k n now t
    unfolding resolve_attempt_def by (cases "walletOutboxMaxAttempts \<le> n") (simp only: if_True if_False, intro exI conjI, rule refl, simp add: unclaim_def)+
  then have resolve: "keeps (unbound_at e) (on_outbox (\<lambda>_ t. (resolve_attempt i k n now t, Inr ())))" for k n now
    by (intro upd) simp
  have count: "keeps (unbound_at e) (on_outbox (\<lambda>_ t. let t1 = count_attempt i k t in (t1, Inr (F t1))))" for k and F :: "outbox \<Rightarrow> 'x"
    unfolding Let_def count_attempt_def by (intro upd exI conjI, rule fst_conv) simp
  show ?thesis unfolding mark_failed_def by (intro unbound_frame.keeps_rules resolve count)
qed

section \<open>The outbox\<close>

text \<open>
  C11 (outbox rows well formed). Whatever dispatchers, collectors and pruners do to the outbox and in
  whatever order, ids and event ids stay unique and below the sequence, and every row agrees with its
  status: one of the four, with a claimant exactly when in flight, a delivery time exactly when
  delivered, a reason exactly when dead-lettered, a parent exactly when split off, and no negative
  amount, count or debt.
\<close>

theorem outbox_rows_well_formed:
  assumes "outbox_inv t" "list_all op_ok ops"
  shows "outbox_inv (outbox_run digest ops t)"
  using outbox_run_inv [OF assms] .

theorem outbox_rows_well_formed_witness:
  "outbox_inv (outbox_run demo_digest [OInsert 10 demo_due, OClaim (\<lambda>_. False) ''w1'' 10 20,
     OSplit 30 1 ''w1'' 40 ''e1:r1'' True, OClaim (\<lambda>_. False) ''w2'' 1 40, OFailed 1 ''w2'' 50] empty_outbox)"
  by (rule outbox_rows_well_formed [OF empty_outbox_inv]) (simp add: op_ok_def demo_due_def)

text \<open>
  C7 (request units conserved). What the outbox records for a request changes only when a settlement of
  it is observed for the first time, by its amount, and when delivered rows are pruned, by theirs:
  claims, failures, splits, dead letters and re-drives conserve it.
\<close>

theorem request_units_conserved:
  assumes "outbox_inv t" "list_all op_ok ops"
  shows "request_units req (outbox_run digest ops t) = request_units req t + flow digest req ops t"
  using run_units [OF assms] .

theorem request_units_conserved_witness:
  "request_units ''req1'' (outbox_run demo_digest [OSplit 30 1 ''w1'' 40 ''e1:r1'' True, OReclaim 5 50, ODead 1 ''w1'' ''x''] demo_outbox)
     = request_units ''req1'' demo_outbox \<and> request_units ''req1'' demo_outbox = 60"
proof -
  have "flow demo_digest ''req1'' [OSplit 30 1 ''w1'' 40 ''e1:r1'' True, OReclaim 5 50, ODead 1 ''w1'' ''x''] demo_outbox = 0"
    by (simp add: op_flow_def)
  moreover have "request_units ''req1'' demo_outbox = 60" by code_simp
  ultimately show ?thesis
    using request_units_conserved [OF demo_outbox_inv, of "[OSplit 30 1 ''w1'' 40 ''e1:r1'' True, OReclaim 5 50, ODead 1 ''w1'' ''x'']"
        "''req1''" demo_digest]
    by (simp add: op_ok_def)
qed





text \<open>
  Observing a settlement again, after whatever happened to its row short of pruning, changes nothing:
  the same payload is accepted, another one refused as a conflict.
\<close>

theorem observing_again_changes_nothing:
  assumes "outbox_inv t" "0 \<le> se_AmountUnits e" "list_all op_ok ops" "\<not> list_ex prunes ops"
    and "InsertOutboxEventTx digest now e t = (t1, None)" "se_EventID e' = se_EventID e"
  shows "InsertOutboxEventTx digest now' e' (outbox_run digest ops t1) = (outbox_run digest ops t1,
     if walletOutboxPayloadHash digest e' = walletOutboxPayloadHash digest e then None
     else Some ErrCanonicalWalletOutboxPayloadConflict)"
  using reobserved_run [OF assms(1-5) refl assms(6)] .

section \<open>The dispatcher\<close>

text \<open>
  C8 (dispatcher tick refines outbox). Whatever a tick of the dispatcher meets - lost requests, lost
  replies, the death of the process at any call, any answer of the control plane - its effect on the
  outbox is a run of the outbox's operations under its own worker name, with no insertion and no
  deletion; so the table stays well formed and the units of every request are conserved.
\<close>

theorem dispatcher_tick_refines_outbox:
  assumes "outbox_inv (w_outbox w)"
  shows "\<exists>ops. list_all (bridge_op (be_worker env)) ops
     \<and> w_outbox (fst (runOutboxDispatcher_tick env w)) = outbox_run (be_digest env) ops (w_outbox w)
     \<and> outbox_inv (w_outbox (fst (runOutboxDispatcher_tick env w)))
     \<and> (\<forall>req. request_units req (w_outbox (fst (runOutboxDispatcher_tick env w))) = request_units req (w_outbox w))"
proof -
  obtain ops where ops: "list_all (bridge_op (be_worker env)) ops"
    "w_outbox (fst (runOutboxDispatcher_tick env w)) = outbox_run (be_digest env) ops (w_outbox w)"
    using keepsD [OF tick_side, of env w] by (auto simp: outbox_side_def)
  have ok: "list_all op_ok ops" using ops(1) by (auto simp: list_all_iff bridge_op_def op_ok_def split: outbox_op.splits)
  have no_flow: "flow (be_digest env) req ops t = 0" for req t
    using ops(1) by (induction ops arbitrary: t) (auto simp: bridge_op_def op_flow_def split: outbox_op.splits)
  show ?thesis
    using ops outbox_run_inv [OF assms ok] run_units [OF assms ok] no_flow by auto
qed

theorem dispatcher_tick_refines_outbox_witness:
  "outbox_inv (w_outbox (fst (runOutboxDispatcher_tick demo_env demo_world)))
   \<and> request_units ''req1'' (w_outbox (fst (runOutboxDispatcher_tick demo_env demo_world))) = request_units ''req1'' demo_outbox"
proof -
  have "w_outbox demo_world = demo_outbox" by (simp add: demo_world_def)
  then show ?thesis
    using dispatcher_tick_refines_outbox [of demo_world] demo_outbox_inv by metis
qed

text \<open>
  C4 (submissions are reserved). At every settlement a delivery submits, in every run and up to every
  point where the process may die: the row is still claimed by this worker, carries the submitted amount,
  owes no release and is bound to a lease, and on that lease the event's reservation stands, under the
  lease id that is submitted. So no crash leaves a submitted reservation that the row does not know, and
  nothing is submitted while a release is owed.
\<close>

theorem submissions_are_reserved:
  assumes row: "find_row (oe_ID e) (w_outbox w) = Some r" "owned_by (oe_ID e) (be_worker env) r" "e = outbox_event r"
    and sub: "CSubmit ev st t answer \<in> set (drop (length (w_log w)) (w_log (fst (deliverOutboxEvent env e w))))"
  shows "se_EventID ev = ow_event_id r \<and> se_AmountUnits ev = ow_amount_units r \<and> 0 < se_AmountUnits ev
     \<and> (\<exists>r' L l db. find_row (ow_id r) t = Some r' \<and> owned_by (ow_id r) (be_worker env) r'
          \<and> ow_amount_units r' = se_AmountUnits ev \<and> ow_pending_release_units r' = None \<and> ow_lease_id r' = Some L
          \<and> st = Some db \<and> leases db (canonicalWalletLeaseKey (be_H env) (ow_platform_user_id r) L) = Some l
          \<and> l_lease_id l = se_LeaseID ev
          \<and> strs db (canonicalWalletReservationKey (be_H env) (ow_platform_user_id r) (ow_event_id r)) = Some (se_LeaseID ev))"
proof -
  have "row_at env e (oe_PendingReleaseUnits e) (\<lambda>x. x = oe_LeaseID e) w"
    using row by (auto simp: row_at_def outbox_event_def)
  then have "log_ok env e (w_log w) (fst (deliverOutboxEvent env e w))"
    by (rule tripleD [OF deliver_row, rotated]) (simp add: log_ok_def)
  then obtain new where "w_log (fst (deliverOutboxEvent env e w)) = w_log w @ new" "list_all (submission_ok env e) new"
    by (auto simp: log_ok_def)
  then have "submission_ok env e (CSubmit ev st t answer)" using sub by (simp add: list_all_iff)
  moreover have f: "oe_ID e = ow_id r" "oe_EventID e = ow_event_id r" "oe_PlatformUserID e = ow_platform_user_id r"
    "oe_AmountUnits e = ow_amount_units r" by (simp_all add: row(3) outbox_event_def)
  ultimately show ?thesis unfolding submission_ok_def control_call.case f by blast
qed

theorem submissions_are_reserved_witness:
  "\<exists>ev st t answer r'. CSubmit ev st t answer \<in> set (w_log (fst (deliverOutboxEvent demo_env demo_event demo_world)))
     \<and> se_AmountUnits ev = 60 \<and> find_row 1 t = Some r' \<and> ow_pending_release_units r' = None \<and> ow_lease_id r' \<noteq> None"
proof -
  obtain ev st t result where sub: "CSubmit ev st t (Inr result) \<in> set (w_log (fst (deliverOutboxEvent demo_env demo_event demo_world)))"
    using demo_submission by blast
  then have "CSubmit ev st t (Inr result) \<in> set (drop (length (w_log demo_world)) (w_log (fst (deliverOutboxEvent demo_env demo_event demo_world))))"
    by (simp add: demo_world_def)
  from submissions_are_reserved [OF demo_in_world this] sub
  show ?thesis unfolding demo_id demo_row(3) by blast
qed







text \<open>
  The late capture unbinds its row even when the release of the reservation was lost: the marker then
  stays on the lease the row no longer knows, and while it stands every reservation of the event on
  another lease is refused as a conflict.
\<close>

theorem late_capture_strands_the_reservation:
  assumes faults: "w_faults w = [LostRequest]" and store: "w_store w = Some db"
    and row: "find_row (oe_ID e) (w_outbox w) = Some r" "owned_by (oe_ID e) (be_worker env) r"
    and marker: "strs db (canonicalWalletReservationKey (be_H env) (oe_PlatformUserID e) (oe_EventID e)) = Some l"
  shows "\<exists>db' r'. w_store (fst (late_capture env e l w)) = Some db'
     \<and> strs db' (canonicalWalletReservationKey (be_H env) (oe_PlatformUserID e) (oe_EventID e)) = Some l
     \<and> find_row (oe_ID e) (w_outbox (fst (late_capture env e l w))) = Some r' \<and> null_string (ow_lease_id r') = []"
proof -
  let ?k = "be_worker env" and ?i = "oe_ID e" and ?m = "canonicalWalletReservationKey (be_H env) (oe_PlatformUserID e) (oe_EventID e)"
  let ?w1 = "w\<lparr>w_faults := [], w_outbox := update_where (owned_by ?i ?k) (\<lambda>r. r\<lparr>ow_lease_id := Some []\<rparr>) (w_outbox w)\<rparr>"
  obtain c s where seal: "SealCanonicalWalletLease (be_H env) (oe_PlatformUserID e) l (Some db) = (c, s)" by fastforce
  let ?w2 = "?w1\<lparr>w_store := c\<rparr>"
  have run: "late_capture env e l w = mark_failed env ?i ?w2"
    using faults seal store
    by (simp add: late_capture_def act_bind_def release_reservation_def on_store_def remote_def bind_lease_def on_outbox_def
        BindOutboxEventLease_def seal_lease_def del: update_where_simps)
  have key: "canonicalWalletCurrentKey (be_H env) (oe_PlatformUserID e) \<noteq> ?m"
    by (simp add: canonicalWalletCurrentKey_def canonicalWalletReservationKey_def)
  have sealed: "\<exists>db'. c = Some db' \<and> strs db' ?m = Some l"
    using seal marker key
    by (auto simp: SealCanonicalWalletLease_def sealCanonicalWalletLeaseScript_def Let_def redis_cmd_defs
        split: if_splits option.splits)
  have unbound: "\<exists>r'. find_row ?i (w_outbox ?w2) = Some r' \<and> null_string (ow_lease_id r') = []"
    using row by (simp add: find_row_update null_string_def del: update_where_simps)
  have "unbound_at e ?w2 (fst (mark_failed env ?i ?w2))" using keepsD [OF mark_failed_unbound] .
  then show ?thesis using sealed unbound by (simp add: unbound_at_def run)
qed

text \<open>
  C38 (full split debt is never paid). A split at headroom 0 after the reservation marks the parent
  delivered together with the release it owes. If that release fails, no delivery ever pays it: whatever
  happens to the outbox short of a prune, the row stays delivered with its debt and no claim hands it
  out, so the units stay reserved on the lease.
\<close>

theorem full_split_debt_is_never_paid:
  assumes inv: "outbox_inv t" and r: "r \<in> set (ox_rows t)" "owned_by i w r" and new: "find_event ev t = None"
    and ops: "list_all op_ok ops" "\<not> list_ex prunes ops" "OClear i \<notin> set ops"
    and later: "t' = outbox_run digest ops (fst (SplitOutboxEvent digest now i w 0 ev True t))"
  shows "(\<exists>d\<in>set (ox_rows t'). ow_id d = i \<and> ow_status d = ''delivered'' \<and> ow_pending_release_units d = Some (ow_amount_units r))
    \<and> (\<forall>e\<in>set (snd (ClaimPendingOutboxEvents locked w' limit now' t')). oe_ID e \<noteq> i)"
proof -
  let ?s = "fst (SplitOutboxEvent digest now i w 0 ev True t)"
  obtain d where d: "d \<in> set (ox_rows ?s)" "ow_id d = i" "ow_status d = ''delivered''" "ow_pending_release_units d = Some (ow_amount_units r)"
    using full_split [OF inv r new] by blast
  have settled: "settled d" using d(3) by (simp add: settled_def)
  have inv1: "outbox_inv ?s" using split_inv [OF inv] .
  have kept: "d \<in> set (ox_rows t')" using settled_run [OF inv1 d(1) settled ops(1,2)] ops(3) d(2) later by simp
  have "outbox_inv t'" using outbox_run_inv [OF inv1 ops(1)] later by simp
  from settled_not_claimed [OF this kept settled] d kept show ?thesis by auto
qed

theorem full_split_debt_is_never_paid_witness:
  "\<exists>d\<in>set (ox_rows (outbox_run demo_digest [OReclaim 5 1000, OClaim (\<lambda>_. False) ''w1'' 10 2000]
      (fst (SplitOutboxEvent demo_digest 30 1 ''w1'' 0 ''e1:r1'' True demo_outbox)))). ow_id d = 1 \<and> ow_pending_release_units d = Some 60"
proof -
  have "find_event ''e1:r1'' demo_outbox = None" by code_simp
  from full_split_debt_is_never_paid [OF demo_outbox_inv demo_row_in demo_row(2) this,
      of "[OReclaim 5 1000, OClaim (\<lambda>_. False) ''w1'' 10 2000]" _ demo_digest 30]
  show ?thesis by (simp add: op_ok_def prunes_def demo_row(3)) blast
qed

section \<open>The collector\<close>

text \<open>
  C36 (collector respects its bound). A pass of the receivable collector, whatever fails in it and
  wherever its process dies, sends no row round more often than the configured bound (30 when none is set).
\<close>

theorem collector_respects_its_bound:
  assumes "outbox_inv (w_outbox w)" "\<forall>r\<in>set (ox_rows (w_outbox w)). ow_redrive_count r \<le> receivableRedriveMaxAttempts env"
  shows "\<forall>r\<in>set (ox_rows (w_outbox (fst (collectReceivableOnce env w)))). ow_redrive_count r \<le> receivableRedriveMaxAttempts env"
  using tripleD [OF collect_within, of env w] assms by (simp add: redrives_within_def)

theorem collector_respects_its_bound_witness:
  "list_all (\<lambda>r. ow_redrive_count r \<le> receivableRedriveMaxAttempts demo_collector) (ox_rows (w_outbox (fst (collectReceivableOnce demo_collector demo_receivable))))
   \<and> map ow_redrive_count (ox_rows (w_outbox (fst (collectReceivableOnce demo_collector demo_receivable)))) = [1]"
proof
  have "outbox_inv (w_outbox demo_receivable)"
    using outbox_step_inv [OF demo_outbox_inv, of "ODead 1 ''w1'' ''balance_shortfall''" demo_digest]
    by (simp add: demo_receivable_def op_ok_def)
  moreover have "\<forall>r\<in>set (ox_rows (w_outbox demo_receivable)). ow_redrive_count r \<le> receivableRedriveMaxAttempts demo_collector"
    by code_simp
  ultimately show "list_all (\<lambda>r. ow_redrive_count r \<le> receivableRedriveMaxAttempts demo_collector)
      (ox_rows (w_outbox (fst (collectReceivableOnce demo_collector demo_receivable))))"
    unfolding list_all_iff by (rule collector_respects_its_bound)
  show "map ow_redrive_count (ox_rows (w_outbox (fst (collectReceivableOnce demo_collector demo_receivable)))) = [1]"
    by code_simp
qed

end
