(* ===== verification/Wallet_Return_Safety.thy ===== *)
theory Wallet_Return_Safety
  imports Wallet_Dispatch_Safety
begin

text \<open>
  What the whole bridge guarantees of the funding registry, at every point its process may die: a return
  is sent only while its exact request is on record and marked as sent, a request that may have reached
  the control plane leaves the record only for its receipt, and a recorded receipt agrees with its row.
\<close>

section \<open>The relation\<close>

definition refused :: "walletFundingReturnRequest \<Rightarrow> control_call list \<Rightarrow> bool" where
  "refused q new \<longleftrightarrow> (\<exists>t e. CReturn q t (Inl e) \<in> set new \<and> is_funding_conflict e)"

text \<open>A request leaves its row for a higher revision, or, if it was never sent before, when it is refused.\<close>

definition pending_kept :: "control_call list \<Rightarrow> funding_freeze \<Rightarrow> funding_freeze \<Rightarrow> bool" where
  "pending_kept new r r' \<longleftrightarrow> ff_return_revision r \<le> ff_return_revision r' \<and> (\<forall>p. ff_pending r = Some p \<longrightarrow>
     ff_pending r' = Some p \<or> ff_pending r' = Some (marked p) \<or> ff_return_revision r < ff_return_revision r'
     \<or> (fp_DispatchStarted p = Some False \<and> refused (fp_Request p) new))"

definition return_ok :: "control_call \<Rightarrow> bool" where
  "return_ok c = (case c of
      CReturn q t _ \<Rightarrow> (\<exists>r p. map_of t (frq_PlatformUserID q, frq_LeaseID q) = Some r \<and> ff_pending r = Some p
        \<and> fp_Request p = q \<and> fp_DispatchStarted p = Some True \<and> ff_return_revision r = frq_BaseReturnRevision q)
    | _ \<Rightarrow> True)"

text \<open>A row in order: its pending request names it, and a recorded receipt is genuine and speaks of it.\<close>

definition registered :: "receipt_key \<Rightarrow> string \<times> string \<Rightarrow> funding_freeze \<Rightarrow> bool" where
  "registered key k r \<longleftrightarrow> freeze_checks r \<and> (\<forall>p. ff_pending r = Some p \<longrightarrow> pending_names k r p)
     \<and> (\<forall>receipt. ff_receipt r = Some receipt \<longrightarrow>
     (\<exists>units. validateFundingReturnReceipt key receipt = Inr units \<and> receipt_agrees (fst k) (snd k) r receipt units))"

definition freeze_inv :: "receipt_key \<Rightarrow> freeze_table \<Rightarrow> bool" where
  "freeze_inv key t \<longleftrightarrow> (\<forall>k r. map_of t k = Some r \<longrightarrow> registered key k r)"

definition return_safe :: "bridge_env \<Rightarrow> world \<Rightarrow> world \<Rightarrow> bool" where
  "return_safe env w w' \<longleftrightarrow> (\<exists>new. w_log w' = w_log w @ new \<and> list_all return_ok new
       \<and> (\<forall>k r. map_of (w_freeze w) k = Some r \<longrightarrow> (\<exists>r'. map_of (w_freeze w') k = Some r' \<and> pending_kept new r r')))
     \<and> (freeze_inv (be_key env) (w_freeze w) \<longrightarrow> freeze_inv (be_key env) (w_freeze w'))"

lemma marked_simps [simp]:
  "marked (marked p) = marked p" "fp_Request (marked p) = fp_Request p" "fp_DispatchStarted (marked p) = Some True"
  "fp_Basis (marked p) = fp_Basis p" "fp_Protocol (marked p) = fp_Protocol p"
  by (simp_all add: marked_def)

lemma pending_kept_refl: "pending_kept new r r"
  by (simp add: pending_kept_def)

lemma pending_kept_trans:
  assumes "pending_kept n1 r r1" "pending_kept n2 r1 r2"
  shows "pending_kept (n1 @ n2) r r2"
proof -
  have 1: "refused q n1 \<Longrightarrow> refused q (n1 @ n2)" "refused q n2 \<Longrightarrow> refused q (n1 @ n2)" for q by (auto simp: refused_def)
  show ?thesis using assms unfolding pending_kept_def by (fastforce dest: 1)
qed

lemma return_safe_same: "w_freeze w' = w_freeze w \<Longrightarrow> w_log w' = w_log w \<Longrightarrow> return_safe env w w'"
  by (auto simp: return_safe_def pending_kept_refl intro!: exI [of _ "[]"])

interpretation safe_frame: world_order "return_safe env" for env
proof
  fix u v w :: world and fs
  show "return_safe env w w" "return_safe env w (w\<lparr>w_faults := fs\<rparr>)" by (simp_all add: return_safe_same)
  show "return_safe env u w" if uv: "return_safe env u v" and vw: "return_safe env v w"
  proof -
    obtain n1 where 1: "w_log v = w_log u @ n1" "list_all return_ok n1"
      "\<And>k r. map_of (w_freeze u) k = Some r \<Longrightarrow> \<exists>r'. map_of (w_freeze v) k = Some r' \<and> pending_kept n1 r r'"
      using uv by (auto simp: return_safe_def)
    obtain n2 where 2: "w_log w = w_log v @ n2" "list_all return_ok n2"
      "\<And>k r. map_of (w_freeze v) k = Some r \<Longrightarrow> \<exists>r'. map_of (w_freeze w) k = Some r' \<and> pending_kept n2 r r'"
      using vw by (auto simp: return_safe_def)
    have "\<exists>r'. map_of (w_freeze w) k = Some r' \<and> pending_kept (n1 @ n2) r r'" if r: "map_of (w_freeze u) k = Some r" for k r
      using 1(3) [OF r] 2(3) pending_kept_trans by blast
    then show ?thesis using 1 2 uv vw by (auto simp: return_safe_def intro!: exI [of _ "n1 @ n2"])
  qed
qed

text \<open>A change of one row, with what is said to the control plane meanwhile.\<close>

lemma return_safe_row:
  assumes "w_log w' = w_log w @ new" "list_all return_ok new" "map_of (w_freeze w') = (map_of (w_freeze w))(k \<mapsto> r')"
    and "\<And>r. map_of (w_freeze w) k = Some r \<Longrightarrow> pending_kept new r r'"
    and "freeze_inv (be_key env) (w_freeze w) \<Longrightarrow> registered (be_key env) k r'"
  shows "return_safe env w w'"
proof -
  have "\<exists>x. map_of (w_freeze w') k0 = Some x \<and> pending_kept new r x" if "map_of (w_freeze w) k0 = Some r" for k0 r
    using that assms(4) by (cases "k0 = k") (auto simp: assms(3) pending_kept_refl)
  moreover have "freeze_inv (be_key env) (w_freeze w')" if "freeze_inv (be_key env) (w_freeze w)"
    using that assms(5) by (auto simp: freeze_inv_def assms(3))
  ultimately show ?thesis using assms(1,2) by (auto simp: return_safe_def)
qed

lemma freeze_invD: "freeze_inv key t \<Longrightarrow> map_of t k = Some r \<Longrightarrow> registered key k r"
  unfolding freeze_inv_def by blast

lemma update_okD:
  assumes "freeze_update_ok k r r'"
  shows "freeze_checks r'" "\<And>p. ff_pending r' = Some p \<Longrightarrow> pending_names k r' p" "freeze_guard r r'"
  using assms by (auto simp: freeze_update_ok_def pending_guard_def)

lemma registered_update:
  assumes "registered key k r" "freeze_update_ok k r r'" "ff_return_revision r' = ff_return_revision r"
  shows "registered key k r'"
proof -
  have "ff_receipt r' = ff_receipt r" "\<And>a b. receipt_agrees (fst k) (snd k) r' a b = receipt_agrees (fst k) (snd k) r a b"
    using update_okD(3) [OF assms(2)] assms(3) by (simp_all add: freeze_guard_def receipt_agrees_def)
  then show ?thesis using assms(1) update_okD [OF assms(2)] by (simp add: registered_def)
qed

text \<open>An UPDATE of a row.\<close>

lemma update_freeze_keeps:
  assumes "\<And>w r. map_of (w_freeze w) (user, leaseID) = Some r \<Longrightarrow> cond r \<Longrightarrow> freeze_update_ok (user, leaseID) r (f r) \<Longrightarrow>
      return_safe env w (w\<lparr>w_freeze := AList.update (user, leaseID) (f r) (w_freeze w)\<rparr>)"
  shows "keeps (return_safe env) (update_freeze user leaseID cond f)"
  unfolding update_freeze_def
  by (rule safe_frame.keeps_remote) (simp add: safe_frame.R_refl assms split: option.split)

lemma update_freeze_safe:
  assumes "\<And>r. cond r \<Longrightarrow> pending_kept [] r (f r)" "\<And>r. ff_return_revision (f r) = ff_return_revision r"
  shows "keeps (return_safe env) (update_freeze user leaseID cond f)"
proof (rule update_freeze_keeps)
  fix w :: world and r
  assume r: "map_of (w_freeze w) (user, leaseID) = Some r" "cond r" "freeze_update_ok (user, leaseID) r (f r)"
  show "return_safe env w (w\<lparr>w_freeze := AList.update (user, leaseID) (f r) (w_freeze w)\<rparr>)"
  proof (rule return_safe_row [of _ _ "[]"])
    show "registered (be_key env) (user, leaseID) (f r)" if "freeze_inv (be_key env) (w_freeze w)"
      using registered_update [OF freeze_invD [OF that r(1)] r(3) assms(2)] .
  qed (use r assms(1) in \<open>simp_all add: update_conv'\<close>)
qed

lemma new_freeze_simps: "ff_pending (new_freeze lease mode) = None" "ff_receipt (new_freeze lease mode) = None"
  by (simp_all add: new_freeze_def)

lemma insert_freeze_safe: "keeps (return_safe env) (insert_freeze user leaseID lease mode)"
  unfolding insert_freeze_def Let_def
proof (rule safe_frame.keeps_remote)
  fix w :: world
  let ?k = "(user, leaseID)" and ?new = "new_freeze lease mode"
  have new: "return_safe env w (w\<lparr>w_freeze := AList.update ?k ?new (w_freeze w)\<rparr>)"
    if "map_of (w_freeze w) ?k = None" "freeze_checks ?new"
  proof (rule return_safe_row [of _ _ "[]"])
    show "registered (be_key env) ?k ?new" using that(2) by (simp add: registered_def new_freeze_simps)
  qed (use that(1) in \<open>simp_all add: update_conv'\<close>)
  have old: "return_safe env w (w\<lparr>w_freeze := AList.update ?k (r\<lparr>ff_requested_mode := m\<rparr>) (w_freeze w)\<rparr>)"
    if r: "map_of (w_freeze w) ?k = Some r" "freeze_update_ok ?k r (r\<lparr>ff_requested_mode := m\<rparr>)" for r m
  proof (rule return_safe_row [of _ _ "[]"])
    show "registered (be_key env) ?k (r\<lparr>ff_requested_mode := m\<rparr>)" if "freeze_inv (be_key env) (w_freeze w)"
      using registered_update [OF freeze_invD [OF that r(1)] r(2)] by simp
  qed (use r in \<open>simp_all add: update_conv' pending_kept_def\<close>)
  show "return_safe env w (fst (if \<not> source_principal_guard ?k (w_intents w) ?new
      then (w, Inl (BNew ''wallet funding identity/revision conflict''))
      else case map_of (w_freeze w) ?k of
          None \<Rightarrow> if \<not> freeze_checks ?new \<or> \<not> pending_guard ?k None ?new \<or> \<not> requested_mode_guard None ?new
            then (w, Inl (BNew ''wallet funding identity/revision conflict''))
            else (w\<lparr>w_freeze := AList.update ?k ?new (w_freeze w)\<rparr>, Inr ())
        | Some r \<Rightarrow> if \<not> freeze_update_ok ?k r (r\<lparr>ff_requested_mode := later_mode (ff_requested_mode r) mode\<rparr>)
            then (w, Inl (BNew ''wallet funding identity/revision conflict''))
            else (w\<lparr>w_freeze := AList.update ?k (r\<lparr>ff_requested_mode := later_mode (ff_requested_mode r) mode\<rparr>) (w_freeze w)\<rparr>, Inr ())))"
    by (simp add: safe_frame.R_refl new old split: option.split)
qed

lemma store_safe: "keeps (return_safe env) (on_store g)"
  unfolding on_store_def by (rule safe_frame.keeps_remote) (simp add: return_safe_same split: prod.split)

lemma apply_safe: "keeps (return_safe env) (applyFundingReturnACK env receipt)"
  unfolding applyFundingReturnACK_def on_redis_def
  by (intro safe_frame.keeps_rules store_safe update_freeze_safe) (simp_all add: pending_kept_def)

section \<open>Sending a return\<close>

text \<open>The receipt's amounts are the ones the statement reads from it.\<close>

lemma parse_all_nth:
  "parse_all field vs = Inr us \<Longrightarrow> length us = length vs \<and> (\<forall>i < length vs. ParseInt (vs ! i) = Some (us ! i))"
proof (induction vs arbitrary: us)
  case (Cons v vs)
  then obtain u us' where "us = u # us'" "parse_all field vs = Inr us'" "ParseInt v = Some u"
    by (auto simp: newCanonicalWalletAmountObjectString_def parseCanonicalWalletAmountObject_def bind_err_def
        split: sum.splits if_splits option.splits)
  then show ?case using Cons.IH [of us'] by (auto simp: nth_Cons split: nat.split)
qed simp

lemma validate_parsed:
  assumes "validateFundingReturnReceipt key r = Inr units"
  shows "ParseInt (rcpt_FundedUnits r) = Some (units ! 0)" "ParseInt (rcpt_ReturnedAfterUnits r) = Some (units ! 4)"
proof -
  have "parse_all ''funding receipt'' (return_values r) = Inr units"
    using assms by (auto simp: validateFundingReturnReceipt_def bind_err_def split: if_splits option.splits sum.splits)
  from parse_all_nth [OF this] have "\<forall>i < 10. ParseInt (return_values r ! i) = Some (units ! i)" by (simp add: return_values_def)
  then show "ParseInt (rcpt_FundedUnits r) = Some (units ! 0)" "ParseInt (rcpt_ReturnedAfterUnits r) = Some (units ! 4)"
    by (auto simp: return_values_def dest: spec [of _ 0] spec [of _ 4])
qed

lemma verify_identity:
  assumes "verifyFundingReturnReceipt key basis mode receipt = Inr ()"
  obtains units where "validateFundingReturnReceipt key receipt = Inr units"
    "rcpt_PlatformUserID receipt = PlatformUserID (basis_Lease basis)" "rcpt_LeaseID receipt = LeaseID (basis_Lease basis)"
    "rcpt_ReturnRevision receipt = wrap64 (ReturnRevision (basis_Lease basis) + 1)"
    "rcpt_FundingScope receipt = FundingScope (basis_Lease basis)"
    "rcpt_FundingOwnerID receipt = FundingOwnerID (basis_Lease basis)"
    "rcpt_FundingIssuanceKey receipt = FundingIssuanceKey (basis_Lease basis)"
  using assms by (auto simp: verifyFundingReturnReceipt_def bind_err_def Let_def split: sum.splits if_splits)

lemma wrap64_Suc: "wrap64 (x + 1) \<noteq> x"
proof
  assume "wrap64 (x + 1) = x"
  moreover have "wrap64 (x + 1) mod 2 ^ 64 = (x + 1) mod 2 ^ 64" by (simp add: wrap64_def mod_simps add.commute)
  ultimately have "(x + 1 - x) mod 2 ^ 64 = 0" by (metis cancel_comm_monoid_add_class.diff_cancel mod_0 mod_diff_cong)
  then show False by simp
qed

lemma record_safe:
  assumes "verifyFundingReturnReceipt (be_key env) (fp_Basis p) (frq_Mode (fp_Request p)) receipt = Inr ()"
    and "ReturnRevision (basis_Lease (fp_Basis p)) = revision"
  shows "keeps (return_safe env) (record_receipt user leaseID revision p receipt)"
  unfolding record_receipt_def
proof (intro safe_frame.keeps_rules update_freeze_keeps)
  fix w :: world and r :: funding_freeze
  let ?k = "(user, leaseID)" and ?r = "r\<lparr>ff_returned_units := num0 (ParseInt (rcpt_ReturnedAfterUnits receipt)),
      ff_return_revision := rcpt_ReturnRevision receipt, ff_receipt := Some receipt,
      ff_closed := (frq_Mode (fp_Request p) = ''close''), ff_pending := None\<rparr>"
  assume r: "map_of (w_freeze w) ?k = Some r" "freeze_update_ok ?k r ?r"
    and c: "Some (ff_funded_units r) = ParseInt (rcpt_FundedUnits receipt) \<and>
      Some (ff_returned_units r) = ParseInt (rcpt_ReturnedBeforeUnits receipt) \<and> ff_return_revision r = revision \<and> ff_pending r = Some p"
  obtain units where v: "validateFundingReturnReceipt (be_key env) receipt = Inr units"
    "rcpt_PlatformUserID receipt = PlatformUserID (basis_Lease (fp_Basis p))" "rcpt_LeaseID receipt = LeaseID (basis_Lease (fp_Basis p))"
    "rcpt_ReturnRevision receipt = wrap64 (revision + 1)"
    "rcpt_FundingScope receipt = FundingScope (basis_Lease (fp_Basis p))"
    "rcpt_FundingOwnerID receipt = FundingOwnerID (basis_Lease (fp_Basis p))"
    "rcpt_FundingIssuanceKey receipt = FundingIssuanceKey (basis_Lease (fp_Basis p))"
    using verify_identity [OF assms(1)] assms(2) by metis
  have up: "ff_return_revision r < rcpt_ReturnRevision receipt"
    using update_okD(3) [OF r(2)] c wrap64_Suc [of revision] by (simp add: freeze_guard_def v(4))
  show "return_safe env w (w\<lparr>w_freeze := AList.update ?k ?r (w_freeze w)\<rparr>)"
  proof (rule return_safe_row [of _ _ "[]"])
    show "registered (be_key env) ?k ?r" if "freeze_inv (be_key env) (w_freeze w)"
    proof -
      have "pending_names ?k r p" using freeze_invD [OF that r(1)] c by (simp add: registered_def)
      then have "receipt_agrees user leaseID ?r receipt units"
        using validate_parsed [OF v(1)] c by (simp add: pending_names_def receipt_agrees_def Let_def num0_def v)
      then show ?thesis using update_okD(1) [OF r(2)] v(1) by (simp add: registered_def)
    qed
  qed (use r up in \<open>simp_all add: update_conv' pending_kept_def\<close>)
qed

text \<open>
  Replaying a request, seen from the world it starts in: until the control plane is asked, only the
  request's mark changes.
\<close>

definition unmoved :: "world \<Rightarrow> world \<Rightarrow> bool" where
  "unmoved w0 w \<longleftrightarrow> w_freeze w = w_freeze w0 \<and> w_log w = w_log w0"

definition sending :: "string \<times> string \<Rightarrow> funding_freeze \<Rightarrow> walletFundingPendingRequest \<Rightarrow> world \<Rightarrow> world \<Rightarrow> bool" where
  "sending k r p w0 w \<longleftrightarrow> w_log w = w_log w0 \<and> map_of (w_freeze w0) k = Some r
     \<and> map_of (w_freeze w) = (map_of (w_freeze w0))(k \<mapsto> r\<lparr>ff_pending := Some p\<rparr>)"

lemma blind_return:
  "blind (return_safe env w0)" "blind (unmoved w0)" "blind (sending k r p w0)" "blind (\<lambda>_. c)"
  by (simp_all add: blind_def return_safe_def unmoved_def sending_def)

lemma triple_query:
  assumes "blind I" "blind P" "\<And>r. blind (Q r)" "\<And>w. P w \<Longrightarrow> Q (Inr (q w)) w \<and> Q (Inl BTransport) w"
  shows "triple I P (query q) Q"
  unfolding query_def by (rule triple_remote [OF assms(1-3)]) (use assms(4) in simp_all)

lemma triple_silent: "blind I \<Longrightarrow> blind P \<Longrightarrow> triple I P (query q) (\<lambda>_. P)"
  by (rule triple_query) (simp_all add: blind_def)

lemma triple_safe: "keeps (return_safe env) m \<Longrightarrow> triple (return_safe env w0) P m (\<lambda>_ _. True)"
  by (rule tripleI) (blast intro: safe_frame.R_trans keepsD)

text \<open>The refusal, as it stands when the request is withdrawn.\<close>

definition refusing ::
  "string \<times> string \<Rightarrow> funding_freeze \<Rightarrow> walletFundingPendingRequest \<Rightarrow> world \<Rightarrow> bridge_error \<Rightarrow> world \<Rightarrow> bool" where
  "refusing k r p w0 e w \<longleftrightarrow> (\<exists>t. w_log w = w_log w0 @ [CReturn (fp_Request p) t (Inl e)] \<and> return_ok (CReturn (fp_Request p) t (Inl e)))
     \<and> map_of (w_freeze w) = (map_of (w_freeze w0))(k \<mapsto> r\<lparr>ff_pending := Some p\<rparr>)"

lemma is_funding_conflict_transport [simp]: "\<not> is_funding_conflict BTransport"
  by (simp add: is_funding_conflict_def)

lemma control_return_safe:
  assumes "frq_PlatformUserID (fp_Request p) = user" "frq_LeaseID (fp_Request p) = leaseID"
    "frq_BaseReturnRevision (fp_Request p) = ff_return_revision r" "fp_DispatchStarted p = Some True"
  shows "triple (return_safe env w0) (sending (user, leaseID) r p w0) (control_return env (fp_Request p))
    (\<lambda>answer w. case answer of Inl e \<Rightarrow> is_funding_conflict e \<longrightarrow> refusing (user, leaseID) r p w0 e w | Inr _ \<Rightarrow> True)"
  unfolding control_return_def
proof (rule triple_remote)
  fix w assume I: "return_safe env w0 w" and s: "sending (user, leaseID) r p w0 w"
  let ?answer = "doJSON zeroReturnReceipt ''/api/internal/v2/wallet/leases/return'' (be_return env w (fp_Request p))"
  have ok: "return_ok (CReturn (fp_Request p) (w_freeze w) a)" for a
    using s assms by (simp add: return_ok_def sending_def)
  have "return_safe env w (w\<lparr>w_log := w_log w @ [CReturn (fp_Request p) (w_freeze w) a]\<rparr>)" for a
    using ok by (auto simp: return_safe_def pending_kept_refl)
  with I show "return_safe env w0 (fst (let answer = ?answer
      in (w\<lparr>w_log := w_log w @ [CReturn (fp_Request p) (w_freeze w) answer]\<rparr>, answer)))
    \<and> (case snd (let answer = ?answer in (w\<lparr>w_log := w_log w @ [CReturn (fp_Request p) (w_freeze w) answer]\<rparr>, answer)) of
        Inl e \<Rightarrow> is_funding_conflict e \<longrightarrow> refusing (user, leaseID) r p w0 e
          (fst (let answer = ?answer in (w\<lparr>w_log := w_log w @ [CReturn (fp_Request p) (w_freeze w) answer]\<rparr>, answer)))
      | Inr _ \<Rightarrow> True)
    \<and> (case Inl BTransport of Inl e \<Rightarrow> is_funding_conflict e \<longrightarrow> refusing (user, leaseID) r p w0 e
          (fst (let answer = ?answer in (w\<lparr>w_log := w_log w @ [CReturn (fp_Request p) (w_freeze w) answer]\<rparr>, answer)))
      | Inr _ \<Rightarrow> True)"
    using s ok by (auto simp: Let_def refusing_def sending_def intro: safe_frame.R_trans split: sum.split)
qed (simp_all add: blind_return, simp add: blind_def refusing_def split: sum.split)

lemma withdraw_safe:
  assumes row: "map_of (w_freeze w0) (user, leaseID) = Some r" "ff_pending r = Some p0"
    and p0: "fp_DispatchStarted p0 = Some False" "fp_Request p0 = fp_Request p" and e: "is_funding_conflict e"
  shows "triple (return_safe env w0) (refusing (user, leaseID) r p w0 e)
    (update_freeze user leaseID (\<lambda>r. ff_return_revision r = v \<and> ff_pending r = Some p) (\<lambda>r. r\<lparr>ff_pending := None\<rparr>)) (\<lambda>_ _. True)"
  unfolding update_freeze_def
proof (rule triple_remote)
  fix w assume I: "return_safe env w0 w" and P: "refusing (user, leaseID) r p w0 e w"
  let ?k = "(user, leaseID)" and ?r = "r\<lparr>ff_pending := None\<rparr>"
  obtain t where t: "w_log w = w_log w0 @ [CReturn (fp_Request p) t (Inl e)]" "return_ok (CReturn (fp_Request p) t (Inl e))"
    and f: "map_of (w_freeze w) = (map_of (w_freeze w0))(?k \<mapsto> r\<lparr>ff_pending := Some p\<rparr>)" using P by (auto simp: refusing_def)
  have "return_safe env w0 (w\<lparr>w_freeze := AList.update ?k ?r (w_freeze w)\<rparr>)"
  proof (rule return_safe_row)
    show "registered (be_key env) ?k ?r" if "freeze_inv (be_key env) (w_freeze w0)"
      using freeze_invD [OF that row(1)] by (auto simp: registered_def receipt_agrees_def freeze_checks_def)
    have "refused (fp_Request p) [CReturn (fp_Request p) t (Inl e)]" using e by (auto simp: refused_def)
    then show "pending_kept [CReturn (fp_Request p) t (Inl e)] x ?r" if "map_of (w_freeze w0) ?k = Some x" for x
      using that row p0 by (simp add: pending_kept_def)
  qed (use t f in \<open>simp_all add: update_conv'\<close>)
  then show "return_safe env w0 (fst (case map_of (w_freeze w) ?k of None \<Rightarrow> (w, Inr False)
      | Some r \<Rightarrow> if \<not> (ff_return_revision r = v \<and> ff_pending r = Some p) then (w, Inr False)
          else if \<not> freeze_update_ok ?k r (r\<lparr>ff_pending := None\<rparr>) then (w, Inl (BNew ''wallet funding identity/revision conflict''))
          else (w\<lparr>w_freeze := AList.update ?k (r\<lparr>ff_pending := None\<rparr>) (w_freeze w)\<rparr>, Inr True))) \<and> True \<and> True"
    using I f by simp
qed (simp_all add: blind_return, simp add: blind_def refusing_def)

lemma send_safe:
  assumes row: "map_of (w_freeze w0) (user, leaseID) = Some r" and fits: "pending_fits user leaseID r p"
    and p: "fp_DispatchStarted p = Some True"
    and fresh: "fresh \<Longrightarrow> \<exists>p0. ff_pending r = Some p0 \<and> fp_DispatchStarted p0 = Some False \<and> fp_Request p0 = fp_Request p"
  shows "triple (return_safe env w0) (sending (user, leaseID) r p w0)
    (send_return env user leaseID (ff_return_revision r) fresh p) (\<lambda>_ _. True)"
  unfolding send_return_def
proof (rule triple_bind [OF control_return_safe])
  fix answer :: "bridge_error + signed_return"
  let ?Q = "\<lambda>w. case answer of Inl e \<Rightarrow> is_funding_conflict e \<longrightarrow> refusing (user, leaseID) r p w0 e w | Inr _ \<Rightarrow> True"
  show "triple (return_safe env w0) ?Q
    (case answer of
       Inl e \<Rightarrow> if is_funding_conflict e \<and> fresh
         then try_call (update_freeze user leaseID (\<lambda>x. ff_return_revision x = ff_return_revision r \<and> ff_pending x = Some p)
           (\<lambda>r. r\<lparr>ff_pending := None\<rparr>)) (\<lambda>_. ret (Inl e))
         else ret (Inl e)
     | Inr receipt \<Rightarrow>
         (case verifyFundingReturnReceipt (be_key env) (fp_Basis p) (frq_Mode (fp_Request p)) receipt of
            Inl e \<Rightarrow> ret (Inl e)
          | Inr _ \<Rightarrow> try_call (record_receipt user leaseID (ff_return_revision r) p receipt) (\<lambda>_.
              try_call (query (\<lambda>_. ())) (\<lambda>_. applyFundingReturnACK env receipt)))) (\<lambda>_ _. True)"
  proof (cases answer)
    case (Inl e)
    have "triple (return_safe env w0) (refusing (user, leaseID) r p w0 e)
      (try_call (update_freeze user leaseID (\<lambda>x. ff_return_revision x = ff_return_revision r \<and> ff_pending x = Some p)
        (\<lambda>r. r\<lparr>ff_pending := None\<rparr>)) (\<lambda>_. ret (Inl e))) (\<lambda>_ _. True)" if "is_funding_conflict e" fresh
      using withdraw_safe [OF row] fresh that
      by (intro triple_try [where R = "\<lambda>_ _. True"] triple_ret) (auto intro: triple_post split: sum.split)
    then show ?thesis using Inl by (auto intro!: triple_ret)
  next
    case (Inr receipt)
    show ?thesis
    proof (cases "verifyFundingReturnReceipt (be_key env) (fp_Basis p) (frq_Mode (fp_Request p)) receipt")
      case (Inr u)
      have "ReturnRevision (basis_Lease (fp_Basis p)) = ff_return_revision r" using fits by (simp add: pending_fits_def Let_def)
      then show ?thesis using Inr \<open>answer = Inr receipt\<close>
        by (auto intro!: triple_safe safe_frame.keeps_try safe_frame.keeps_query apply_safe record_safe)
    qed (use Inr in \<open>simp add: triple_ret\<close>)
  qed
qed (use fits p in \<open>simp_all add: pending_fits_def Let_def\<close>)

lemma mark_safe:
  assumes row: "map_of (w_freeze w0) (user, leaseID) = Some r" "ff_pending r = Some p"
  shows "triple (return_safe env w0) (unmoved w0) (mark_dispatched user leaseID r p)
    (\<lambda>x w. x = Inr () \<longrightarrow> sending (user, leaseID) r (marked p) w0 w)"
proof -
  let ?k = "(user, leaseID)" and ?new = "r\<lparr>ff_pending := Some (marked p)\<rparr>" and ?mid = "r\<lparr>ff_pending := None\<rparr>"
  let ?I = "return_safe env w0" and ?S = "sending ?k r (marked p) w0"
  have commit: "triple ?I (unmoved w0) (remote (\<lambda>w. (w\<lparr>w_freeze := AList.update ?k ?new (w_freeze w)\<rparr>, Inr ())))
      (\<lambda>x w. case x of Inl e \<Rightarrow> True | Inr _ \<Rightarrow> ?S w)"
    if ok: "freeze_update_ok ?k r ?mid" "freeze_update_ok ?k ?mid ?new"
  proof (rule triple_remote)
    fix w assume u: "unmoved w0 w"
    have "registered (be_key env) ?k ?new" if "freeze_inv (be_key env) (w_freeze w0)"
      using registered_update [OF registered_update [OF freeze_invD [OF that row(1)] ok(1)] ok(2)] by simp
    then have "?I (w\<lparr>w_freeze := AList.update ?k ?new (w_freeze w)\<rparr>)"
      using row u by (intro return_safe_row [of _ _ "[]"]) (auto simp: update_conv' unmoved_def pending_kept_def)
    then show "?I (fst (w\<lparr>w_freeze := AList.update ?k ?new (w_freeze w)\<rparr>, Inr ()))
      \<and> (case snd (w\<lparr>w_freeze := AList.update ?k ?new (w_freeze w)\<rparr>, Inr ()) of Inl e \<Rightarrow> True
          | Inr _ \<Rightarrow> ?S (fst (w\<lparr>w_freeze := AList.update ?k ?new (w_freeze w)\<rparr>, Inr ())))
      \<and> (case Inl BTransport of Inl e \<Rightarrow> True | Inr _ \<Rightarrow> ?S (fst (w\<lparr>w_freeze := AList.update ?k ?new (w_freeze w)\<rparr>, Inr ())))"
      using row u by (simp add: sending_def unmoved_def update_conv')
  qed (simp_all add: blind_return, simp add: blind_def sending_def split: sum.split)
  have silent: "triple ?I P (query q) (\<lambda>x w. case x of Inl e \<Rightarrow> True | Inr _ \<Rightarrow> P w)" if "blind P" for P and q :: "world \<Rightarrow> 'z"
    by (rule triple_post [OF triple_silent [OF blind_return(1) that]]) (simp split: sum.split)
  show ?thesis
    unfolding mark_dispatched_def Let_def
    by (intro triple_try [where R = "\<lambda>_. unmoved w0"] triple_try [where R = "\<lambda>_. ?S"] triple_if triple_ret
        triple_post [OF silent] triple_post [OF commit]) (auto simp: blind_return split: sum.splits)
qed

lemma replay_safe: "keeps (return_safe env) (replayPendingFundingReturn env user leaseID)"
  unfolding keeps_def
proof
  fix w0 :: world
  let ?k = "(user, leaseID)" and ?I = "return_safe env w0"
  have find: "triple ?I (unmoved w0) (find_freeze user leaseID) (\<lambda>x w. case x of Inl e \<Rightarrow> True
      | Inr row \<Rightarrow> unmoved w0 w \<and> row = map_of (w_freeze w0) ?k)"
    unfolding find_freeze_def by (rule triple_query [OF blind_return(1,2)]) (simp_all add: blind_def unmoved_def split: sum.split)
  have lead: "triple ?I (unmoved w0) (query (\<lambda>_. ())) (\<lambda>x w. case x of Inl e \<Rightarrow> True | Inr _ \<Rightarrow> unmoved w0 w)"
    by (rule triple_query [OF blind_return(1,2)]) (simp_all add: blind_def unmoved_def split: sum.split)
  have send: "triple ?I (unmoved w0) (if fp_DispatchStarted p = Some True
        then send_return env user leaseID (ff_return_revision r) False p
        else try_call (mark_dispatched user leaseID r p) (\<lambda>_.
          send_return env user leaseID (ff_return_revision r) (fp_DispatchStarted p = Some False) (marked p))) (\<lambda>_ _. True)"
    if row: "map_of (w_freeze w0) ?k = Some r" "ff_pending r = Some p" and ok: "check_pending user leaseID r p = Inr ()" for r p
  proof (rule triple_if)
    have fits: "pending_fits user leaseID r p" using ok by (simp add: check_pending_def Let_def split: if_splits)
    have "r\<lparr>ff_pending := Some p\<rparr> = r" using row(2) by (cases r) simp
    then have s: "unmoved w0 w \<Longrightarrow> sending ?k r p w0 w" for w using row by (auto simp: unmoved_def sending_def)
    show "triple ?I (unmoved w0) (send_return env user leaseID (ff_return_revision r) False p) (\<lambda>_ _. True)"
      if "fp_DispatchStarted p = Some True"
      by (rule triple_pre [OF send_safe [OF row(1) fits that] s]) simp
    have "pending_fits user leaseID r (marked p)" using fits by (simp add: pending_fits_def)
    then have m: "triple ?I (sending ?k r (marked p) w0)
        (send_return env user leaseID (ff_return_revision r) (fp_DispatchStarted p = Some False) (marked p)) (\<lambda>_ _. True)"
      using row by (intro send_safe) simp_all
    show "triple ?I (unmoved w0) (try_call (mark_dispatched user leaseID r p) (\<lambda>_.
          send_return env user leaseID (ff_return_revision r) (fp_DispatchStarted p = Some False) (marked p))) (\<lambda>_ _. True)"
      by (rule triple_try [OF triple_post [OF mark_safe [OF row]] m]) (simp split: sum.split)
  qed
  have row: "triple ?I (\<lambda>w. unmoved w0 w \<and> row = map_of (w_freeze w0) ?k) (case row of
        None \<Rightarrow> ret (Inl no_rows)
      | Some r \<Rightarrow> (case ff_pending r of
            None \<Rightarrow> query (\<lambda>_. ())
          | Some p \<Rightarrow> (case check_pending user leaseID r p of
                Inl e \<Rightarrow> ret (Inl e)
              | Inr _ \<Rightarrow> if fp_DispatchStarted p = Some True
                  then send_return env user leaseID (ff_return_revision r) False p
                  else try_call (mark_dispatched user leaseID r p) (\<lambda>_.
                    send_return env user leaseID (ff_return_revision r) (fp_DispatchStarted p = Some False) (marked p)))))
      (\<lambda>_ _. True)" (is "triple _ _ ?body _") for row
  proof (cases "row = map_of (w_freeze w0) ?k")
    case True
    have silent: "triple ?I (unmoved w0) (query (\<lambda>_. ())) (\<lambda>_ _. True)"
      by (rule triple_post [OF triple_silent [OF blind_return(1,2)]]) simp
    show ?thesis
    proof (rule triple_pre [where P = "unmoved w0"], cases row)
      case (Some r)
      then show "triple ?I (unmoved w0) ?body (\<lambda>_ _. True)"
        using True silent send [of r] by (cases "ff_pending r"; cases "check_pending user leaseID r (the (ff_pending r))")
          (simp_all add: triple_ret)
    qed (simp_all add: triple_ret)
  qed (simp add: triple_def)
  have "triple ?I (unmoved w0) (replayPendingFundingReturn env user leaseID) (\<lambda>_ _. True)"
    unfolding replayPendingFundingReturn_def
    by (intro triple_if triple_ret triple_try [where Q = "\<lambda>_ _. True", OF lead] triple_try [where Q = "\<lambda>_ _. True", OF find row]) simp_all
  then show "?I (fst (replayPendingFundingReturn env user leaseID w0))"
    by (rule tripleD) (simp_all add: safe_frame.R_refl unmoved_def)
qed

text \<open>So every action of the bridge is safe.\<close>

lemma return_safe_log: "\<not> is_return call \<Longrightarrow> return_safe env w (w\<lparr>w_log := w_log w @ [call]\<rparr>)"
  by (cases call) (auto simp: return_safe_def return_ok_def pending_kept_refl)

interpretation return_delivery: delivery_order "return_safe env" env for env
proof
  show "keeps (return_safe env) (update_freeze user leaseID (\<lambda>r. C r \<and> (ff_pending r = None \<or> ff_pending r = Some p))
      (\<lambda>r. r\<lparr>ff_pending := Some p\<rparr>))" for user leaseID C p
    by (rule update_freeze_safe) (auto simp: pending_kept_def)
qed (simp_all add: return_safe_same return_safe_log insert_freeze_safe replay_safe apply_safe)

end
