(* ===== verification/Funding_Properties.thy ===== *)
theory Funding_Properties
  imports Bridge_Properties Wallet_Return_Safety
begin

text \<open>
  The properties of the funding return, over every run of the bridge: its loops and its calls in any
  order, cut short anywhere, while Redis, the outbox and the source intents may change in between. A
  demonstration bridge fences, returns and applies the free part of a lease.
\<close>

section \<open>Runs\<close>

inductive bridge_step :: "bridge_env \<Rightarrow> world \<Rightarrow> world \<Rightarrow> bool" for env where
  dispatch: "bridge_step env w (fst (runOutboxDispatcher_tick env w))"
| collect: "bridge_step env w (fst (collectReceivableOnce env w))"
| recovery: "bridge_step env w (fst (runFundingRecovery_tick env w))"
| return: "bridge_step env w (fst (returnFrozenFunding env user leaseID mode w))"
| reclaim: "bridge_step env w (fst (reclaimSharedFreeFunding env user w))"
| close_pinless: "bridge_step env w (fst (closePinlessMediaLease env user leaseID basis w))"
| close_media: "bridge_step env w (fst (closeMediaFundingLeases env user taskID ids w))"
| acquire: "bridge_step env w (fst (ensureLease env user currency amount purpose prefer w))"
| others: "bridge_step env w (w\<lparr>w_store := c, w_outbox := t, w_intents := i, w_faults := fs\<rparr>)"

inductive bridge_run :: "bridge_env \<Rightarrow> world \<Rightarrow> world \<Rightarrow> bool" for env where
  start: "bridge_run env w w"
| step: "bridge_run env u v \<Longrightarrow> bridge_step env v w \<Longrightarrow> bridge_run env u w"

lemma bridge_step_safe: "bridge_step env w w' \<Longrightarrow> return_safe env w w'"
proof (induction rule: bridge_step.induct)
  case (others w c t i fs)
  show ?case by (rule return_safe_same) simp_all
qed (simp_all add: keepsD return_delivery.tick_keeps return_delivery.collect_keeps return_delivery.recovery_tick_keeps
  return_delivery.return_keeps return_delivery.reclaim_keeps return_delivery.close_pinless_keeps
  return_delivery.close_media_keeps return_delivery.ensureLease_keeps)

lemma bridge_run_safe: "bridge_run env w w' \<Longrightarrow> return_safe env w w'"
  by (induction rule: bridge_run.induct) (blast intro: safe_frame.R_refl safe_frame.R_trans bridge_step_safe)+

section \<open>The demonstration return\<close>

definition fund_key :: receipt_key where
  "fund_key = \<lparr>rk_secret = replicate 32 CHR ''k'', rk_mac = (\<lambda>_ _. replicate 32 CHR 0x00), rk_time = (\<lambda>_. Some (Some 7))\<rparr>"

definition fund_lease :: CanonicalWalletLease where
  "fund_lease = zeroLease\<lparr>FundedUnits := 100, FundingScope := ''llm'', FundingOwnerID := ''o1'', FundingIssuanceKey := ''k1'',
     LeaseID := ''L1'', PlatformUserID := ''u1'', Currency := ''USD'', BudgetUnits := 100, ConsumedUnits := 40,
     ExpiresAt := Some 9000000000\<rparr>"

definition fund_view :: canonicalWalletLeaseWireView where
  "fund_view = \<lparr>lv_ActivePinCount = Some 0, lv_ActiveLivePinCount = Some 0, lv_FundingScope = ''llm'', lv_FundingOwnerID = ''o1'',
     lv_FundingIssuanceKey = ''k1'', lv_FundingFrozenAt = Some 5, lv_ReturnRevision = 0, lv_BudgetRevision = 0, lv_LeaseID = ''L1'',
     lv_PlatformUserID = ''u1'', lv_Currency = ''USD'', lv_UnitVersion = ''usd-e8-v1'', lv_Scale = 8,
     lv_Budget = newCanonicalWalletAmountObject 100, lv_Reserved = newCanonicalWalletAmountObject 0,
     lv_Captured = newCanonicalWalletAmountObject 40, lv_Released = newCanonicalWalletAmountObject 0, lv_CaptureSeq = 1,
     lv_Status = ''active'', lv_ExpiresAt = Some 9000000000\<rparr>"

definition fund_fence :: WalletFundingSourceReceipt where
  "fund_fence = \<lparr>sf_Protocol = ''wallet-funding-source-v1'', sf_FreezeID = ''L1.source-freeze.v1'', sf_PlatformUserID = ''u1'',
     sf_LeaseID = ''L1'', sf_FundingScope = ''llm'', sf_FundingOwnerID = ''o1'', sf_FundingIssuanceKey = ''k1'',
     sf_FundedUnits = ''100'', sf_BudgetRevision = 0, sf_CommittedAt = ''t'',
     sf_Sources = [\<lparr>so_AllocationID = ''a1'', so_CreditID = ''c1'', so_AllocatedUnits = ''100''\<rparr>], sf_Signature = replicate 64 CHR ''0''\<rparr>"

definition fund_receipt :: signed_return where
  "fund_receipt = zeroReturnReceipt\<lparr>rcpt_Protocol := ''wallet-funding-return-v1'', rcpt_ReceiptID := ''r1'', rcpt_PlatformUserID := ''u1'',
     rcpt_LeaseID := ''L1'', rcpt_FundingScope := ''llm'', rcpt_FundingOwnerID := ''o1'', rcpt_FundingIssuanceKey := ''k1'',
     rcpt_ReturnRevision := 1, rcpt_BudgetRevision := 0, rcpt_CaptureSeq := 1, rcpt_FundedUnits := ''100'', rcpt_CapturedUnits := ''40'',
     rcpt_ReturnedBeforeUnits := ''0'', rcpt_ReturnedUnits := ''60'', rcpt_ReturnedAfterUnits := ''60'', rcpt_CreditedUnits := ''60'',
     rcpt_WriteOffUnits := ''0'', rcpt_HeldUnits := ''0'', rcpt_GatewayConsumedUnits := ''40'', rcpt_GatewayReleasedUnits := ''0'',
     rcpt_Mode := ''partial'', rcpt_CommittedAt := ''t'', rcpt_Signature := replicate 64 CHR ''0'',
     rcpt_Sources := Some [\<lparr>fs_AllocationID = ''a1'', fs_CreditID = ''c1'', fs_ReturnedUnits = ''60'', fs_CreditedUnits = ''60'',
       fs_WriteOffReason = []\<rparr>]\<rparr>"

definition fund_reply :: "'a \<Rightarrow> 'a http_reply" where
  "fund_reply v = \<lparr>hr_status = 200, hr_oversize = False, hr_unread = False, hr_empty = False, hr_refusal = None, hr_value = Some v\<rparr>"

definition fund_env :: bridge_env where
  "fund_env = demo_env\<lparr>be_key := fund_key, be_db := True, be_fundingStore := True, be_signed := True,
     be_pool := (\<lambda>_ _ _. Some (fund_reply [fund_view])), be_freeze_source := (\<lambda>_ _. Some (fund_reply fund_fence)),
     be_return := (\<lambda>_ _. Some (fund_reply fund_receipt))\<rparr>"

text \<open>
  A world in which the request was sent and its outcome is not known, and one tick of the recovery. The
  fifth call is the control plane's, the eighth applies the receipt to Redis.
\<close>

definition fund_row :: funding_freeze where
  "fund_row = new_freeze fund_lease ''partial''\<lparr>ff_pending := Some (marked (pending_request ''u1'' ''L1'' ''partial''
     \<lparr>basis_Lease = fund_lease\<lparr>FundingFrozen := True\<rparr>, basis_Holds = []\<rparr>))\<rparr>"

definition fund_sent :: "fault list \<Rightarrow> world" where
  "fund_sent fs = demo_world\<lparr>w_store := None, w_freeze := [((''u1'', ''L1''), fund_row)], w_faults := fs\<rparr>"

definition fund_after :: "fault list \<Rightarrow> world" where
  "fund_after fs = fst (runFundingRecovery_tick fund_env (fund_sent fs))"

definition fund_facts :: "world \<Rightarrow> (int \<times> int \<times> bool \<times> bool option option) option \<times> nat" where
  "fund_facts w = (map_option (\<lambda>r. (ff_return_revision r, ff_returned_units r, ff_receipt r = None, map_option fp_DispatchStarted (ff_pending r)))
      (map_of (w_freeze w) (''u1'', ''L1'')), length (filter is_return (w_log w)))"

lemma fund_answered: "fund_facts (fund_after (replicate 7 Fine @ [Crash])) = (Some (1, 60, False, None), 1)"
  by code_simp


lemma fund_run: "bridge_run fund_env (fund_sent fs) (fund_after fs)"
  unfolding fund_after_def by (rule bridge_run.step [OF bridge_run.start bridge_step.recovery])



section \<open>Properties\<close>

text \<open>
  C13 (returns are sent from the record). Whatever the bridge asked the control plane to return was at
  that moment the pending request of the lease's row, marked as sent, and made for the row's revision.
\<close>

theorem returns_are_sent_from_the_record:
  assumes "bridge_run env w w'"
  shows "\<exists>new. w_log w' = w_log w @ new \<and> (\<forall>q t answer. CReturn q t answer \<in> set new \<longrightarrow>
    (\<exists>r p. map_of t (frq_PlatformUserID q, frq_LeaseID q) = Some r \<and> ff_pending r = Some p \<and> fp_Request p = q
      \<and> fp_DispatchStarted p = Some True \<and> ff_return_revision r = frq_BaseReturnRevision q))"
proof -
  obtain new where "w_log w' = w_log w @ new" "list_all return_ok new"
    using bridge_run_safe [OF assms] by (auto simp: return_safe_def)
  then show ?thesis by (fastforce simp: list_all_iff return_ok_def)
qed

theorem returns_are_sent_from_the_record_witness:
  "\<exists>q t answer r p. CReturn q t answer \<in> set (w_log (fund_after (replicate 7 Fine @ [Crash])))
     \<and> map_of t (frq_PlatformUserID q, frq_LeaseID q) = Some r \<and> ff_pending r = Some p \<and> fp_Request p = q"
proof -
  let ?w = "fund_after (replicate 7 Fine @ [Crash])"
  have "w_log (fund_sent fs) = []" for fs by (simp add: fund_sent_def demo_world_def)
  moreover have "filter is_return (w_log ?w) \<noteq> []" using fund_answered by (auto simp: fund_facts_def)
  then obtain c where c: "c \<in> set (w_log ?w)" "is_return c" by (metis filter_False)
  obtain q t answer where "c = CReturn q t answer" using c(2) by (cases c) auto
  ultimately show ?thesis using c(1) returns_are_sent_from_the_record [OF fund_run [of "replicate 7 Fine @ [Crash]"]] by fastforce
qed






text \<open>What the entries of a receipt add up to.\<close>

abbreviation units_of :: "string \<Rightarrow> int" where
  "units_of s \<equiv> num0 (ParseInt s)"

lemma parse_units:
  assumes "parseCanonicalWalletAmountObject field (newCanonicalWalletAmountObjectString s) = Inr u"
  shows "units_of s = u \<and> in_int64 u"
proof -
  have "0 \<le> u \<and> u \<le> int64_max" using assms by (rule parse_amount_range)
  moreover have "units_of s = u"
    using assms by (auto simp: parseCanonicalWalletAmountObject_def newCanonicalWalletAmountObjectString_def num0_def split: if_splits option.splits)
  ultimately show ?thesis by (simp add: in_int64_nonneg)
qed

lemma AddUnits_sum: "lift_units (AddUnits a b) = Inr c \<Longrightarrow> in_int64 a \<Longrightarrow> in_int64 b \<Longrightarrow> c = a + b \<and> in_int64 c"
  by (auto simp: lift_units_def AddUnits_exact in_int64_nonneg split: if_splits)

lemma sum_sources_total:
  "sum_sources ss seen a b = Inr (x, y) \<Longrightarrow> in_int64 a \<Longrightarrow> in_int64 b \<Longrightarrow> x = a + (\<Sum>s\<leftarrow>ss. units_of (fs_ReturnedUnits s))
     \<and> y = b + (\<Sum>s\<leftarrow>ss. units_of (fs_CreditedUnits s)) \<and> distinct (map fs_AllocationID ss) \<and> set (map fs_AllocationID ss) \<inter> set seen = {}"
proof (induction ss arbitrary: seen a b)
  case (Cons s ss)
  obtain u c a' b' where
    u: "parseCanonicalWalletAmountObject ''source returned'' (newCanonicalWalletAmountObjectString (fs_ReturnedUnits s)) = Inr u"
    and c: "parseCanonicalWalletAmountObject ''source credited'' (newCanonicalWalletAmountObjectString (fs_CreditedUnits s)) = Inr c"
    and ab: "lift_units (AddUnits a u) = Inr a'" "lift_units (AddUnits b c) = Inr b'"
    and rest: "sum_sources ss (fs_AllocationID s # seen) a' b' = Inr (x, y)" and new: "fs_AllocationID s \<notin> set seen"
    using Cons.prems(1) by (auto simp: bind_err_def bad_allocation_def split: if_splits sum.splits)
  have "a' = a + u \<and> in_int64 a'" "b' = b + c \<and> in_int64 b'"
    using AddUnits_sum [OF ab(1)] AddUnits_sum [OF ab(2)] parse_units [OF u] parse_units [OF c] Cons.prems(2,3) by blast+
  with Cons.IH [OF rest] parse_units [OF u] parse_units [OF c] new show ?case by auto
qed simp

lemma sum_held_total:
  "sum_held hs a = Inr x \<Longrightarrow> in_int64 a \<Longrightarrow> list_all (\<lambda>h. in_int64 (hold_HeldUnits h)) hs \<Longrightarrow> x = a + (\<Sum>h\<leftarrow>hs. hold_HeldUnits h)"
proof (induction hs arbitrary: a)
  case (Cons h hs)
  then obtain a' where "lift_units (AddUnits a (hold_HeldUnits h)) = Inr a'" "sum_held hs a' = Inr x"
    by (auto simp: bind_err_def split: sum.splits)
  then show ?case using Cons.IH [of a'] Cons.prems(2,3) AddUnits_sum [of a "hold_HeldUnits h" a'] by auto
qed simp

lemma validate_parts:
  assumes "validateFundingReturnReceipt key r = Inr units"
  shows "units = map units_of (return_values r)" "return_conserved (rcpt_Mode r) units"
    "sum_sources (slice (rcpt_Sources r)) [] 0 0 = Inr (units ! 3, units ! 5)"
proof -
  have p: "parse_all ''funding receipt'' (return_values r) = Inr units" "return_conserved (rcpt_Mode r) units"
    "sum_sources (slice (rcpt_Sources r)) [] 0 0 = Inr (units ! 3, units ! 5)"
    using assms by (auto simp: validateFundingReturnReceipt_def bind_err_def split: if_splits option.splits sum.splits)
  show "units = map units_of (return_values r)"
    using parse_all_nth [OF p(1)] by (auto simp: list_eq_iff_nth_eq num0_def)
  show "return_conserved (rcpt_Mode r) units" "sum_sources (slice (rcpt_Sources r)) [] 0 0 = Inr (units ! 3, units ! 5)"
    by (fact p)+
qed

text \<open>
  C15 (verified returns conserve funding). A receipt accepted against a frozen basis leaves the lease
  exactly the funding its outstanding obligations need: what is returned in all and what is consumed and
  not released make up the principal; captures and open holds make up the latter; the credit and the
  write-off make up what is returned now, and so do the sources, each allocation named once. A close
  leaves no hold.
\<close>

theorem verified_returns_conserve_funding:
  assumes "verifyFundingReturnReceipt key basis mode r = Inr ()" "list_all (\<lambda>h. in_int64 (hold_HeldUnits h)) (basis_Holds basis)"
  shows "let l = basis_Lease basis; kept = ConsumedUnits l - ReleasedUnits l; held = (\<Sum>h\<leftarrow>basis_Holds basis. hold_HeldUnits h)
    in units_of (rcpt_ReturnedAfterUnits r) = ReturnedUnits l + units_of (rcpt_ReturnedUnits r)
     \<and> units_of (rcpt_ReturnedAfterUnits r) + kept = FundingPrincipalUnits l
     \<and> units_of (rcpt_CapturedUnits r) + held = kept
     \<and> units_of (rcpt_CreditedUnits r) + units_of (rcpt_WriteOffUnits r) = units_of (rcpt_ReturnedUnits r)
     \<and> (\<Sum>s\<leftarrow>slice (rcpt_Sources r). units_of (fs_ReturnedUnits s)) = units_of (rcpt_ReturnedUnits r)
     \<and> (\<Sum>s\<leftarrow>slice (rcpt_Sources r). units_of (fs_CreditedUnits s)) = units_of (rcpt_CreditedUnits r)
     \<and> distinct (map fs_AllocationID (slice (rcpt_Sources r))) \<and> (mode = ''close'' \<longrightarrow> held = 0)"
proof -
  let ?l = "basis_Lease basis" and ?held = "\<Sum>h\<leftarrow>basis_Holds basis. hold_HeldUnits h"
  obtain units where v: "validateFundingReturnReceipt key r = Inr units" and mode: "rcpt_Mode r = mode"
    and basis: "units ! 0 = FundingPrincipalUnits ?l" "units ! 2 = ReturnedUnits ?l" "units ! 8 = ConsumedUnits ?l"
      "units ! 9 = ReleasedUnits ?l" "sum_held (basis_Holds basis) 0 = Inr (units ! 7)"
    using assms(1) by (auto simp: verifyFundingReturnReceipt_def bind_err_def Let_def split: sum.splits if_splits)
  have held: "units ! 7 = ?held" using sum_held_total [OF basis(5) _ assms(2)] by (simp add: in_int64_def int64_min_def int64_max_def)
  note parts = validate_parts [OF v]
  have sources: "units ! 3 = (\<Sum>s\<leftarrow>slice (rcpt_Sources r). units_of (fs_ReturnedUnits s))"
    "units ! 5 = (\<Sum>s\<leftarrow>slice (rcpt_Sources r). units_of (fs_CreditedUnits s))" "distinct (map fs_AllocationID (slice (rcpt_Sources r)))"
    using sum_sources_total [OF parts(3)] by (simp_all add: in_int64_def int64_min_def int64_max_def)
  have fields: "units ! 1 = units_of (rcpt_CapturedUnits r)" "units ! 3 = units_of (rcpt_ReturnedUnits r)"
    "units ! 4 = units_of (rcpt_ReturnedAfterUnits r)" "units ! 5 = units_of (rcpt_CreditedUnits r)" "units ! 6 = units_of (rcpt_WriteOffUnits r)"
    by (simp_all add: parts(1) return_values_def)
  show ?thesis
    using parts(2) basis(1-4) held sources fields mode by (auto simp: return_conserved_def Let_def)
qed

theorem verified_returns_conserve_funding_witness:
  "units_of (rcpt_ReturnedAfterUnits fund_receipt) + 40 = 100 \<and> units_of (rcpt_CapturedUnits fund_receipt) = 40
     \<and> (\<Sum>s\<leftarrow>slice (rcpt_Sources fund_receipt). units_of (fs_ReturnedUnits s)) = units_of (rcpt_ReturnedUnits fund_receipt)"
proof -
  have "verifyFundingReturnReceipt fund_key \<lparr>basis_Lease = fund_lease, basis_Holds = []\<rparr> ''partial'' fund_receipt = Inr ()" by code_simp
  from verified_returns_conserve_funding [OF this]
  show ?thesis by (simp add: Let_def fund_lease_def zeroLease_def FundingPrincipalUnits_def)
qed

end
