(* ===== verification/Apicompat_Types.thy ===== *)
theory Apicompat_Types
  imports Go_Json
begin

text \<open>
  The wire types of the protocol converters (\<open>pkg/apicompat/types.go\<close>): Anthropic Messages,
  OpenAI Responses and OpenAI Chat Completions, with their stream events. Each struct is a record
  with the source's fields under a two-letter prefix; a pointer that may be nil is an option, a
  \<open>json.RawMessage\<close> is its bytes (nil and empty coincide, as \<open>len\<close> and \<open>omitempty\<close> treat them).
  \<open>zeroT\<close> is the zero value of struct \<open>T\<close>, from which composite literals are written.
\<close>

section \<open>Records\<close>

record AnthropicCacheControl =
  cc_Type :: string
  cc_TTL :: string

record AnthropicImageSource =
  img_Type :: string
  img_MediaType :: string
  img_Data :: string

record AnthropicContentBlock =
  cb_Type :: string
  cb_CacheControl :: "AnthropicCacheControl option"
  cb_Text :: string
  cb_Thinking :: string
  cb_Signature :: string
  cb_Source :: "AnthropicImageSource option"
  cb_ID :: string
  cb_Name :: string
  cb_Input :: string
  cb_ToolUseID :: string
  cb_Content :: string
  cb_IsError :: bool

record AnthropicUsage =
  au_InputTokens :: int
  au_OutputTokens :: int
  au_CacheCreationInputTokens :: int
  au_CacheReadInputTokens :: int

record AnthropicResponse =
  ar_ID :: string
  ar_Type :: string
  ar_Role :: string
  ar_Content :: "AnthropicContentBlock list"
  ar_Model :: string
  ar_StopReason :: "string option"
  ar_StopSequence :: "string option"
  ar_Usage :: AnthropicUsage

record AnthropicDelta =
  ad_Type :: string
  ad_Text :: string
  ad_PartialJSON :: string
  ad_Thinking :: string
  ad_Signature :: string
  ad_StopReason :: string
  ad_StopSequence :: "string option"

record AnthropicStreamEvent =
  ae_Type :: string
  ae_Message :: "AnthropicResponse option"
  ae_Index :: "int option"
  ae_ContentBlock :: "AnthropicContentBlock option"
  ae_Delta :: "AnthropicDelta option"
  ae_Usage :: "AnthropicUsage option"

record ResponsesContentPart =
  cp_Type :: string
  cp_Text :: string
  cp_ImageURL :: string

record WebSearchAction =
  wa_Type :: string
  wa_Query :: string

record ResponsesSummary =
  sm_Type :: string
  sm_Text :: string

record ResponsesOutput =
  ro_Type :: string
  ro_ID :: string
  ro_Role :: string
  ro_Content :: "ResponsesContentPart list"
  ro_Status :: string
  ro_EncryptedContent :: string
  ro_Summary :: "ResponsesSummary list"
  ro_CallID :: string
  ro_Name :: string
  ro_Arguments :: string
  ro_Namespace :: string
  ro_Input :: string
  ro_Action :: "WebSearchAction option"

record ResponsesInputTokensDetails =
  it_CachedTokens :: int
  it_AudioTokens :: int
  it_CacheCreationTokens :: int
  it_CacheWriteTokens :: int

record ResponsesOutputTokensDetails =
  ot_ReasoningTokens :: int
  ot_AudioTokens :: int
  ot_AcceptedPredictionTokens :: int
  ot_RejectedPredictionTokens :: int

record ResponsesUsage =
  ru_InputTokens :: int
  ru_OutputTokens :: int
  ru_TotalTokens :: int
  ru_CacheCreationInputTokens :: int
  ru_InputTokensDetails :: "ResponsesInputTokensDetails option"
  ru_OutputTokensDetails :: "ResponsesOutputTokensDetails option"

record ResponsesIncompleteDetails =
  rd_Reason :: string

record ResponsesError =
  re_Code :: string
  re_Message :: string

record ResponsesResponse =
  rr_ID :: string
  rr_Object :: string
  rr_Model :: string
  rr_Status :: string
  rr_Output :: "ResponsesOutput list"
  rr_Usage :: "ResponsesUsage option"
  rr_IncompleteDetails :: "ResponsesIncompleteDetails option"
  rr_Error :: "ResponsesError option"

record ResponsesStreamEvent =
  rv_Type :: string
  rv_Response :: "ResponsesResponse option"
  rv_Usage :: "ResponsesUsage option"
  rv_Item :: "ResponsesOutput option"
  rv_OutputIndex :: int
  rv_ContentIndex :: int
  rv_Delta :: string
  rv_Text :: string
  rv_ItemID :: string
  rv_CallID :: string
  rv_Name :: string
  rv_Arguments :: string
  rv_Input :: string
  rv_SummaryIndex :: int
  rv_Part :: "ResponsesContentPart option"
  rv_Code :: string
  rv_Param :: string
  rv_SequenceNumber :: int

record ChatFunctionCall =
  fc_Name :: string
  fc_Arguments :: string

record ChatToolCall =
  tc_Index :: "int option"
  tc_ID :: string
  tc_Type :: string
  tc_Function :: ChatFunctionCall

record ChatMessage =
  cm_Role :: string
  cm_Content :: string
  cm_ReasoningContent :: string
  cm_Name :: string
  cm_ToolCalls :: "ChatToolCall list"
  cm_ToolCallID :: string
  cm_FunctionCall :: "ChatFunctionCall option"

record ChatChoice =
  ch_Index :: int
  ch_Message :: ChatMessage
  ch_FinishReason :: string

record ChatTokenDetails =
  td_CachedTokens :: int
  td_AudioTokens :: int
  td_CacheCreationTokens :: int
  td_CacheWriteTokens :: int
  td_ReasoningTokens :: int
  td_AcceptedPredictionTokens :: int
  td_RejectedPredictionTokens :: int

record ChatUsage =
  cu_PromptTokens :: int
  cu_CompletionTokens :: int
  cu_TotalTokens :: int
  cu_PromptTokensDetails :: "ChatTokenDetails option"
  cu_CompletionTokensDetails :: "ChatTokenDetails option"

record ChatCompletionsResponse =
  cr_ID :: string
  cr_Object :: string
  cr_Created :: int
  cr_Model :: string
  cr_Choices :: "ChatChoice list"
  cr_Usage :: "ChatUsage option"
  cr_SystemFingerprint :: string
  cr_ServiceTier :: string

record ChatDelta =
  cd_Role :: string
  cd_Content :: "string option"
  cd_ReasoningContent :: "string option"
  cd_ToolCalls :: "ChatToolCall list"

record ChatChunkChoice =
  ck_Index :: int
  ck_Delta :: ChatDelta
  ck_FinishReason :: "string option"

record ChatCompletionsChunk =
  cx_ID :: string
  cx_Object :: string
  cx_Created :: int
  cx_Model :: string
  cx_Choices :: "ChatChunkChoice list"
  cx_Usage :: "ChatUsage option"
  cx_SystemFingerprint :: string
  cx_ServiceTier :: string

section \<open>Zero values\<close>

definition zeroAnthropicCacheControl :: AnthropicCacheControl where
  "zeroAnthropicCacheControl = \<lparr>cc_Type = [], cc_TTL = []\<rparr>"

definition zeroAnthropicImageSource :: AnthropicImageSource where
  "zeroAnthropicImageSource = \<lparr>img_Type = [], img_MediaType = [], img_Data = []\<rparr>"

definition zeroAnthropicContentBlock :: AnthropicContentBlock where
  "zeroAnthropicContentBlock = \<lparr>cb_Type = [], cb_CacheControl = None, cb_Text = [], cb_Thinking = [],
     cb_Signature = [], cb_Source = None, cb_ID = [], cb_Name = [], cb_Input = [],
     cb_ToolUseID = [], cb_Content = [], cb_IsError = False\<rparr>"

definition zeroAnthropicUsage :: AnthropicUsage where
  "zeroAnthropicUsage = \<lparr>au_InputTokens = 0, au_OutputTokens = 0, au_CacheCreationInputTokens = 0,
     au_CacheReadInputTokens = 0\<rparr>"

definition zeroAnthropicResponse :: AnthropicResponse where
  "zeroAnthropicResponse = \<lparr>ar_ID = [], ar_Type = [], ar_Role = [], ar_Content = [], ar_Model = [],
     ar_StopReason = None, ar_StopSequence = None, ar_Usage = zeroAnthropicUsage\<rparr>"

definition zeroAnthropicDelta :: AnthropicDelta where
  "zeroAnthropicDelta = \<lparr>ad_Type = [], ad_Text = [], ad_PartialJSON = [], ad_Thinking = [],
     ad_Signature = [], ad_StopReason = [], ad_StopSequence = None\<rparr>"

definition zeroAnthropicStreamEvent :: AnthropicStreamEvent where
  "zeroAnthropicStreamEvent = \<lparr>ae_Type = [], ae_Message = None, ae_Index = None, ae_ContentBlock = None,
     ae_Delta = None, ae_Usage = None\<rparr>"

definition zeroResponsesContentPart :: ResponsesContentPart where
  "zeroResponsesContentPart = \<lparr>cp_Type = [], cp_Text = [], cp_ImageURL = []\<rparr>"

definition zeroWebSearchAction :: WebSearchAction where
  "zeroWebSearchAction = \<lparr>wa_Type = [], wa_Query = []\<rparr>"

definition zeroResponsesSummary :: ResponsesSummary where
  "zeroResponsesSummary = \<lparr>sm_Type = [], sm_Text = []\<rparr>"

definition zeroResponsesOutput :: ResponsesOutput where
  "zeroResponsesOutput = \<lparr>ro_Type = [], ro_ID = [], ro_Role = [], ro_Content = [], ro_Status = [],
     ro_EncryptedContent = [], ro_Summary = [], ro_CallID = [], ro_Name = [],
     ro_Arguments = [], ro_Namespace = [], ro_Input = [], ro_Action = None\<rparr>"

definition zeroResponsesInputTokensDetails :: ResponsesInputTokensDetails where
  "zeroResponsesInputTokensDetails = \<lparr>it_CachedTokens = 0, it_AudioTokens = 0, it_CacheCreationTokens = 0,
     it_CacheWriteTokens = 0\<rparr>"

definition zeroResponsesOutputTokensDetails :: ResponsesOutputTokensDetails where
  "zeroResponsesOutputTokensDetails = \<lparr>ot_ReasoningTokens = 0, ot_AudioTokens = 0, ot_AcceptedPredictionTokens = 0,
     ot_RejectedPredictionTokens = 0\<rparr>"

definition zeroResponsesUsage :: ResponsesUsage where
  "zeroResponsesUsage = \<lparr>ru_InputTokens = 0, ru_OutputTokens = 0, ru_TotalTokens = 0,
     ru_CacheCreationInputTokens = 0, ru_InputTokensDetails = None,
     ru_OutputTokensDetails = None\<rparr>"

definition zeroResponsesIncompleteDetails :: ResponsesIncompleteDetails where
  "zeroResponsesIncompleteDetails = \<lparr>rd_Reason = []\<rparr>"

definition zeroResponsesError :: ResponsesError where
  "zeroResponsesError = \<lparr>re_Code = [], re_Message = []\<rparr>"

definition zeroResponsesResponse :: ResponsesResponse where
  "zeroResponsesResponse = \<lparr>rr_ID = [], rr_Object = [], rr_Model = [], rr_Status = [], rr_Output = [],
     rr_Usage = None, rr_IncompleteDetails = None, rr_Error = None\<rparr>"

definition zeroResponsesStreamEvent :: ResponsesStreamEvent where
  "zeroResponsesStreamEvent = \<lparr>rv_Type = [], rv_Response = None, rv_Usage = None, rv_Item = None,
     rv_OutputIndex = 0, rv_ContentIndex = 0, rv_Delta = [], rv_Text = [],
     rv_ItemID = [], rv_CallID = [], rv_Name = [], rv_Arguments = [], rv_Input = [],
     rv_SummaryIndex = 0, rv_Part = None, rv_Code = [], rv_Param = [],
     rv_SequenceNumber = 0\<rparr>"

definition zeroChatFunctionCall :: ChatFunctionCall where
  "zeroChatFunctionCall = \<lparr>fc_Name = [], fc_Arguments = []\<rparr>"

definition zeroChatToolCall :: ChatToolCall where
  "zeroChatToolCall = \<lparr>tc_Index = None, tc_ID = [], tc_Type = [], tc_Function = zeroChatFunctionCall\<rparr>"

definition zeroChatMessage :: ChatMessage where
  "zeroChatMessage = \<lparr>cm_Role = [], cm_Content = [], cm_ReasoningContent = [], cm_Name = [],
     cm_ToolCalls = [], cm_ToolCallID = [], cm_FunctionCall = None\<rparr>"

definition zeroChatChoice :: ChatChoice where
  "zeroChatChoice = \<lparr>ch_Index = 0, ch_Message = zeroChatMessage, ch_FinishReason = []\<rparr>"

definition zeroChatTokenDetails :: ChatTokenDetails where
  "zeroChatTokenDetails = \<lparr>td_CachedTokens = 0, td_AudioTokens = 0, td_CacheCreationTokens = 0,
     td_CacheWriteTokens = 0, td_ReasoningTokens = 0, td_AcceptedPredictionTokens = 0,
     td_RejectedPredictionTokens = 0\<rparr>"

definition zeroChatUsage :: ChatUsage where
  "zeroChatUsage = \<lparr>cu_PromptTokens = 0, cu_CompletionTokens = 0, cu_TotalTokens = 0,
     cu_PromptTokensDetails = None, cu_CompletionTokensDetails = None\<rparr>"

definition zeroChatCompletionsResponse :: ChatCompletionsResponse where
  "zeroChatCompletionsResponse = \<lparr>cr_ID = [], cr_Object = [], cr_Created = 0, cr_Model = [], cr_Choices = [],
     cr_Usage = None, cr_SystemFingerprint = [], cr_ServiceTier = []\<rparr>"

definition zeroChatDelta :: ChatDelta where
  "zeroChatDelta = \<lparr>cd_Role = [], cd_Content = None, cd_ReasoningContent = None, cd_ToolCalls = []\<rparr>"

definition zeroChatChunkChoice :: ChatChunkChoice where
  "zeroChatChunkChoice = \<lparr>ck_Index = 0, ck_Delta = zeroChatDelta, ck_FinishReason = None\<rparr>"

definition zeroChatCompletionsChunk :: ChatCompletionsChunk where
  "zeroChatCompletionsChunk = \<lparr>cx_ID = [], cx_Object = [], cx_Created = 0, cx_Model = [], cx_Choices = [],
     cx_Usage = None, cx_SystemFingerprint = [], cx_ServiceTier = []\<rparr>"

lemmas zero_defs =
  zeroAnthropicCacheControl_def
  zeroAnthropicImageSource_def
  zeroAnthropicContentBlock_def
  zeroAnthropicUsage_def
  zeroAnthropicResponse_def
  zeroAnthropicDelta_def
  zeroAnthropicStreamEvent_def
  zeroResponsesContentPart_def
  zeroWebSearchAction_def
  zeroResponsesSummary_def
  zeroResponsesOutput_def
  zeroResponsesInputTokensDetails_def
  zeroResponsesOutputTokensDetails_def
  zeroResponsesUsage_def
  zeroResponsesIncompleteDetails_def
  zeroResponsesError_def
  zeroResponsesResponse_def
  zeroResponsesStreamEvent_def
  zeroChatFunctionCall_def
  zeroChatToolCall_def
  zeroChatMessage_def
  zeroChatChoice_def
  zeroChatTokenDetails_def
  zeroChatUsage_def
  zeroChatCompletionsResponse_def
  zeroChatDelta_def
  zeroChatChunkChoice_def
  zeroChatCompletionsChunk_def

section \<open>Small helpers\<close>

definition AnthropicStopReasonPtr :: "string \<Rightarrow> string option" where
  "AnthropicStopReasonPtr s = Some s"

definition AnthropicStopReasonString :: "string option \<Rightarrow> string" where
  "AnthropicStopReasonString p = (case p of None \<Rightarrow> [] | Some s \<Rightarrow> s)"

definition toResponsesCallID :: "string \<Rightarrow> string" where
  "toResponsesCallID i = i"

definition fromResponsesCallID :: "string \<Rightarrow> string" where
  "fromResponsesCallID i =
     (if prefix ''fc_'' i then
        (let after = drop 3 i
         in if prefix ''toolu_'' after \<or> prefix ''call_'' after then after else i)
      else i)"

section \<open>Usage on the wire\<close>

text \<open>
  What \<open>ResponsesUsage.UnmarshalJSON\<close> reads: the struct's own fields, the aliases other upstreams
  use, and the nested cache counts, where an absent count differs from a zero one.
\<close>

record cacheTokenPresence =
  tp_CacheCreationTokens :: "int option"
  tp_CacheWriteTokens :: "int option"

record responsesUsageWire =
  uw_alias :: ResponsesUsage
  uw_PromptTokens :: int
  uw_CompletionTokens :: int
  uw_CacheCreationTokens :: int
  uw_CacheWriteInputTokens :: int
  uw_CacheWriteTokens :: int
  uw_PromptTokensDetails :: "ResponsesInputTokensDetails option"
  uw_CompletionTokensDetails :: "ResponsesOutputTokensDetails option"
  uw_inputPresence :: "cacheTokenPresence option"
  uw_promptPresence :: "cacheTokenPresence option"

definition canonicalCacheCreationTokens :: "responsesUsageWire \<Rightarrow> int option" where
  "canonicalCacheCreationTokens w =
     (case Option.bind (uw_inputPresence w) tp_CacheWriteTokens of
        Some n \<Rightarrow> Some n
      | None \<Rightarrow> (case Option.bind (uw_promptPresence w) tp_CacheWriteTokens of
          Some n \<Rightarrow> Some n
        | None \<Rightarrow> (case Option.bind (uw_inputPresence w) tp_CacheCreationTokens of
            Some n \<Rightarrow> Some n
          | None \<Rightarrow> Option.bind (uw_promptPresence w) tp_CacheCreationTokens)))"

definition ResponsesUsage_UnmarshalJSON :: "responsesUsageWire \<Rightarrow> ResponsesUsage" where
  "ResponsesUsage_UnmarshalJSON w =
     (let a = uw_alias w;
          inp = (if ru_InputTokens a = 0 \<and> uw_PromptTokens w \<noteq> 0 then uw_PromptTokens w else ru_InputTokens a);
          outp = (if ru_OutputTokens a = 0 \<and> uw_CompletionTokens w \<noteq> 0 then uw_CompletionTokens w
                  else ru_OutputTokens a);
          cache = (if ru_CacheCreationInputTokens a = 0 then
                     (if uw_CacheWriteInputTokens w > 0 then uw_CacheWriteInputTokens w
                      else if uw_CacheCreationTokens w > 0 then uw_CacheCreationTokens w
                      else if uw_CacheWriteTokens w > 0 then uw_CacheWriteTokens w else 0)
                   else ru_CacheCreationInputTokens a);
          cache' = (case canonicalCacheCreationTokens w of Some n \<Rightarrow> max n 0 | None \<Rightarrow> cache)
      in a\<lparr>ru_InputTokens := inp, ru_OutputTokens := outp, ru_CacheCreationInputTokens := cache',
           ru_InputTokensDetails :=
             (if ru_InputTokensDetails a = None then uw_PromptTokensDetails w else ru_InputTokensDetails a),
           ru_OutputTokensDetails :=
             (if ru_OutputTokensDetails a = None then uw_CompletionTokensDetails w else ru_OutputTokensDetails a),
           ru_TotalTokens := (if ru_TotalTokens a = 0 \<and> (inp \<noteq> 0 \<or> outp \<noteq> 0) then wrap64 (inp + outp)
                              else ru_TotalTokens a)\<rparr>)"

section \<open>Runs of a converter\<close>

text \<open>
  A stream converter consumes one event and produces a list of events; a run threads the state
  through a list of events and concatenates the output.
\<close>

fun run_stream :: "('e \<Rightarrow> 's \<Rightarrow> 's \<times> 'o list) \<Rightarrow> 'e list \<Rightarrow> 's \<Rightarrow> 's \<times> 'o list" where
  "run_stream f [] s = (s, [])"
| "run_stream f (e # es) s =
     (let (s1, out1) = f e s; (s2, out2) = run_stream f es s1 in (s2, out1 @ out2))"

text \<open>Two emissions in sequence, as the handlers append to their event list.\<close>

definition emit_seq :: "'s \<times> 'o list \<Rightarrow> ('s \<Rightarrow> 's \<times> 'o list) \<Rightarrow> 's \<times> 'o list" where
  "emit_seq r f = (case r of (s1, o1) \<Rightarrow> (case f s1 of (s2, o2) \<Rightarrow> (s2, o1 @ o2)))"

text \<open>A monitor reads the emitted events one by one and rejects a forbidden one.\<close>

fun run_monitor :: "('o \<Rightarrow> 'm \<Rightarrow> 'm option) \<Rightarrow> 'o list \<Rightarrow> 'm \<Rightarrow> 'm option" where
  "run_monitor f [] m = Some m"
| "run_monitor f (x # xs) m = (case f x m of None \<Rightarrow> None | Some m' \<Rightarrow> run_monitor f xs m')"

text \<open>A result of a handler that keeps the invariant and that the monitor accepts.\<close>

definition emits_ok ::
  "('s \<Rightarrow> bool) \<Rightarrow> ('o \<Rightarrow> 'm \<Rightarrow> 'm option) \<Rightarrow> ('s \<Rightarrow> 'm) \<Rightarrow> 's \<Rightarrow> 's \<times> 'o list \<Rightarrow> bool" where
  "emits_ok I monitor watch st r \<longleftrightarrow>
     I (fst r) \<and> run_monitor monitor (snd r) (watch st) = Some (watch (fst r))"

section \<open>Lemmas\<close>

lemma run_monitor_append:
  "run_monitor f (xs @ ys) m = (case run_monitor f xs m of None \<Rightarrow> None | Some m' \<Rightarrow> run_monitor f ys m')"
  by (induction xs arbitrary: m) (auto split: option.split)

lemma emits_ok_seq:
  assumes "emits_ok I monitor watch st r" "I (fst r) \<Longrightarrow> emits_ok I monitor watch (fst r) (f (fst r))"
  shows "emits_ok I monitor watch st (emit_seq r f)"
  using assms by (cases r; cases "f (fst r)") (auto simp: emits_ok_def emit_seq_def run_monitor_append)

text \<open>The handlers of a converter that are well behaved; proofs of the handlers that call them go by these.\<close>

named_theorems emit_ok

declare emits_ok_seq [emit_ok]

lemma emits_ok_if [emit_ok]:
  assumes "b \<Longrightarrow> emits_ok I monitor watch st x" "\<not> b \<Longrightarrow> emits_ok I monitor watch st y"
  shows "emits_ok I monitor watch st (if b then x else y)"
  using assms by simp

lemma emit_seq_cong: "f (fst r) = g (fst r) \<Longrightarrow> emit_seq r f = emit_seq r g"
  by (cases r) (simp add: emit_seq_def)

lemma emits_ok_idle:
  "I st' \<Longrightarrow> watch st' = watch st \<Longrightarrow> emits_ok I monitor watch st (st', [])"
  by (simp add: emits_ok_def)

lemma emits_ok_cong:
  "emits_ok I monitor watch st r \<Longrightarrow> watch st' = watch st \<Longrightarrow> emits_ok I monitor watch st' r"
  by (simp add: emits_ok_def)

lemma emit_seq_fst [simp]: "fst (emit_seq r f) = fst (f (fst r))"
  by (simp add: emit_seq_def split: prod.split)

lemma emit_seq_snd [simp]: "snd (emit_seq r f) = snd r @ snd (f (fst r))"
  by (simp add: emit_seq_def split: prod.split)

text \<open>
  The contract of a stream converter: from a state that satisfies the invariant, every step keeps
  it and its output is accepted by a monitor that tracks the state's view. Whole runs follow.
\<close>

locale stream_converter =
  fixes step :: "'e \<Rightarrow> 's \<Rightarrow> 's \<times> 'o list"
    and inv :: "'s \<Rightarrow> bool"
    and monitor :: "'o \<Rightarrow> 'm \<Rightarrow> 'm option"
    and watch :: "'s \<Rightarrow> 'm"
  assumes step_ok: "inv s \<Longrightarrow> step e s = (s', out) \<Longrightarrow>
    inv s' \<and> run_monitor monitor out (watch s) = Some (watch s')"
begin

lemma run_ok:
  "inv s \<Longrightarrow> run_stream step es s = (s', out) \<Longrightarrow>
     inv s' \<and> run_monitor monitor out (watch s) = Some (watch s')"
proof (induction es arbitrary: s s' out)
  case (Cons e es)
  obtain s1 o1 where 1: "step e s = (s1, o1)" by (cases "step e s")
  obtain s2 o2 where 2: "run_stream step es s1 = (s2, o2)" by (cases "run_stream step es s1")
  from step_ok [OF Cons.prems(1) 1] Cons.IH [OF _ 2] Cons.prems(2) 1 2 show ?case
    by (auto simp: run_monitor_append)
qed simp

end

lemma run_stream_append:
  "run_stream f (xs @ ys) s =
     (let (s1, o1) = run_stream f xs s; (s2, o2) = run_stream f ys s1 in (s2, o1 @ o2))"
  by (induction xs arbitrary: s) (auto simp: Let_def split: prod.splits)

lemma fromResponsesCallID_id: "\<not> prefix ''fc_'' i \<Longrightarrow> fromResponsesCallID i = i"
  by (simp add: fromResponsesCallID_def)

end
