(* ===== verification/Responses_To_Anthropic.thy ===== *)
theory Responses_To_Anthropic
  imports Apicompat_Types
begin

text \<open>
  Responses API output as Anthropic Messages output (\<open>pkg/apicompat/responses_to_anthropic.go\<close>):
  the conversion of a finished response, and the stateful conversion of a stream, one handler per
  event type. A handler takes the event and the state and returns the new state and the events it
  emits. The block index counts the blocks of one message; it stays far from the range of Go's
  \<open>int\<close> and is an unbounded integer here, while token sums wrap.
\<close>

section \<open>A finished response\<close>

definition anthropicUsageFromResponsesUsage :: "ResponsesUsage option \<Rightarrow> AnthropicUsage" where
  "anthropicUsageFromResponsesUsage usage =
     (case usage of
        None \<Rightarrow> zeroAnthropicUsage
      | Some u \<Rightarrow>
          (let cachedTokens = (case ru_InputTokensDetails u of None \<Rightarrow> 0 | Some d \<Rightarrow> it_CachedTokens d);
               n = wrap64 (wrap64 (ru_InputTokens u - cachedTokens) - ru_CacheCreationInputTokens u);
               inputTokens = (if n < 0 then 0 else n)
           in \<lparr>au_InputTokens = inputTokens, au_OutputTokens = ru_OutputTokens u,
               au_CacheCreationInputTokens = ru_CacheCreationInputTokens u,
               au_CacheReadInputTokens = cachedTokens\<rparr>))"

definition containsAnthropicToolUseBlock :: "AnthropicContentBlock list \<Rightarrow> bool" where
  "containsAnthropicToolUseBlock blocks = list_ex (\<lambda>b. cb_Type b = ''tool_use'') blocks"

definition responsesStatusToAnthropicStopReason ::
  "string \<Rightarrow> ResponsesIncompleteDetails option \<Rightarrow> AnthropicContentBlock list \<Rightarrow> string" where
  "responsesStatusToAnthropicStopReason status details blocks =
     (if status = ''incomplete'' then
        (case details of
           Some d \<Rightarrow> if rd_Reason d = ''max_output_tokens'' then ''max_tokens'' else ''end_turn''
         | None \<Rightarrow> ''end_turn'')
      else if status = ''completed'' then
        (if containsAnthropicToolUseBlock blocks then ''tool_use'' else ''end_turn'')
      else ''end_turn'')"

definition sanitizeAnthropicToolUseInput :: "string \<Rightarrow> string \<Rightarrow> string" where
  "sanitizeAnthropicToolUseInput name raw =
     (if name \<noteq> ''Read'' \<or> raw = [] then raw
      else case unmarshal_raw_map raw of
          None \<Rightarrow> raw
        | Some input \<Rightarrow>
            if raw_lookup input ''pages'' \<noteq> Some [CHR 0x22, CHR 0x22] then raw
            else marshal_raw_map (raw_delete ''pages'' input))"

fun summary_text :: "ResponsesSummary list \<Rightarrow> string" where
  "summary_text [] = []"
| "summary_text (s # ss) =
     (if sm_Type s = ''summary_text'' \<and> sm_Text s \<noteq> [] then sm_Text s @ summary_text ss else summary_text ss)"

definition web_search_query :: "ResponsesOutput \<Rightarrow> string" where
  "web_search_query item = (case ro_Action item of None \<Rightarrow> [] | Some a \<Rightarrow> wa_Query a)"

text \<open>The blocks one output item contributes.\<close>

definition item_blocks :: "ResponsesOutput \<Rightarrow> AnthropicContentBlock list" where
  "item_blocks item =
     (if ro_Type item = ''reasoning'' then
        (let t = summary_text (ro_Summary item)
         in if t \<noteq> [] \<or> TrimSpace (ro_EncryptedContent item) \<noteq> [] then
              [zeroAnthropicContentBlock\<lparr>cb_Type := ''thinking'', cb_Thinking := t,
                 cb_Signature := ro_EncryptedContent item\<rparr>]
            else [])
      else if ro_Type item = ''message'' then
        [zeroAnthropicContentBlock\<lparr>cb_Type := ''text'', cb_Text := cp_Text p\<rparr>.
           p \<leftarrow> ro_Content item, cp_Type p = ''output_text'' \<and> cp_Text p \<noteq> []]
      else if ro_Type item = ''function_call'' then
        [zeroAnthropicContentBlock\<lparr>cb_Type := ''tool_use'', cb_ID := fromResponsesCallID (ro_CallID item),
           cb_Name := ro_Name item,
           cb_Input := sanitizeAnthropicToolUseInput (ro_Name item) (ro_Arguments item)\<rparr>]
      else if ro_Type item = ''web_search_call'' then
        (let toolUseID = ''srvtoolu_'' @ ro_ID item
         in [zeroAnthropicContentBlock\<lparr>cb_Type := ''server_tool_use'', cb_ID := toolUseID,
               cb_Name := ''web_search'', cb_Input := marshal_pair ''query'' (web_search_query item)\<rparr>,
             zeroAnthropicContentBlock\<lparr>cb_Type := ''web_search_tool_result'', cb_ToolUseID := toolUseID,
               cb_Content := ''[]''\<rparr>])
      else [])"

definition ResponsesToAnthropic :: "ResponsesResponse \<Rightarrow> string \<Rightarrow> AnthropicResponse" where
  "ResponsesToAnthropic resp model =
     (let bs = concat (map item_blocks (rr_Output resp));
          blocks = (if bs = [] then [zeroAnthropicContentBlock\<lparr>cb_Type := ''text'', cb_Text := []\<rparr>] else bs)
      in zeroAnthropicResponse\<lparr>ar_ID := rr_ID resp, ar_Type := ''message'', ar_Role := ''assistant'',
           ar_Model := model, ar_Content := blocks,
           ar_StopReason := AnthropicStopReasonPtr
             (responsesStatusToAnthropicStopReason (rr_Status resp) (rr_IncompleteDetails resp) blocks),
           ar_Usage := (case rr_Usage resp of None \<Rightarrow> zeroAnthropicUsage
                        | Some u \<Rightarrow> anthropicUsageFromResponsesUsage (Some u))\<rparr>)"

section \<open>The stream state\<close>

record ResponsesEventToAnthropicState =
  ra_MessageStartSent :: bool
  ra_MessageStopSent :: bool
  ra_ContentBlockIndex :: int
  ra_ContentBlockOpen :: bool
  ra_CurrentBlockType :: string
  ra_CurrentToolName :: string
  ra_CurrentToolArgs :: string
  ra_CurrentToolHadDelta :: bool
  ra_PendingThinkingSignature :: string
  ra_HasToolCall :: bool
  ra_OutputIndexToBlockIdx :: "int \<rightharpoonup> int"
  ra_InputTokens :: int
  ra_OutputTokens :: int
  ra_CacheReadInputTokens :: int
  ra_CacheCreationInputTokens :: int
  ra_ResponseID :: string
  ra_Model :: string
  ra_Created :: int

text \<open>\<open>created\<close> is \<open>time.Now().Unix()\<close>.\<close>

definition NewResponsesEventToAnthropicState :: "int \<Rightarrow> ResponsesEventToAnthropicState" where
  "NewResponsesEventToAnthropicState created = \<lparr>ra_MessageStartSent = False, ra_MessageStopSent = False,
     ra_ContentBlockIndex = 0, ra_ContentBlockOpen = False, ra_CurrentBlockType = [], ra_CurrentToolName = [],
     ra_CurrentToolArgs = [], ra_CurrentToolHadDelta = False, ra_PendingThinkingSignature = [],
     ra_HasToolCall = False, ra_OutputIndexToBlockIdx = Map.empty, ra_InputTokens = 0, ra_OutputTokens = 0,
     ra_CacheReadInputTokens = 0, ra_CacheCreationInputTokens = 0, ra_ResponseID = [], ra_Model = [],
     ra_Created = created\<rparr>"

type_synonym ra_result = "ResponsesEventToAnthropicState \<times> AnthropicStreamEvent list"

definition block_event :: "string \<Rightarrow> int \<Rightarrow> AnthropicStreamEvent" where
  "block_event t i = zeroAnthropicStreamEvent\<lparr>ae_Type := t, ae_Index := Some i\<rparr>"

definition block_start :: "int \<Rightarrow> AnthropicContentBlock \<Rightarrow> AnthropicStreamEvent" where
  "block_start i b = (block_event ''content_block_start'' i)\<lparr>ae_ContentBlock := Some b\<rparr>"

definition block_delta :: "int \<Rightarrow> AnthropicDelta \<Rightarrow> AnthropicStreamEvent" where
  "block_delta i d = (block_event ''content_block_delta'' i)\<lparr>ae_Delta := Some d\<rparr>"

definition block_stop :: "int \<Rightarrow> AnthropicStreamEvent" where
  "block_stop i = block_event ''content_block_stop'' i"

section \<open>Handlers\<close>

definition closeCurrentBlock :: "ResponsesEventToAnthropicState \<Rightarrow> ra_result" where
  "closeCurrentBlock st =
     (if \<not> ra_ContentBlockOpen st then (st, [])
      else
        (let idx = ra_ContentBlockIndex st;
             thinking = (ra_CurrentBlockType st = ''thinking'');
             sig = TrimSpace (ra_PendingThinkingSignature st);
             evs = (if thinking \<and> sig \<noteq> []
                    then [block_delta idx (zeroAnthropicDelta\<lparr>ad_Type := ''signature_delta'', ad_Signature := sig\<rparr>)]
                    else []);
             st' = st\<lparr>ra_PendingThinkingSignature := (if thinking then [] else ra_PendingThinkingSignature st),
                      ra_ContentBlockOpen := False, ra_ContentBlockIndex := idx + 1,
                      ra_CurrentToolName := [], ra_CurrentToolArgs := [], ra_CurrentToolHadDelta := False\<rparr>
         in (st', evs @ [block_stop idx])))"

definition resToAnthHandleCreated ::
  "ResponsesStreamEvent \<Rightarrow> ResponsesEventToAnthropicState \<Rightarrow> ra_result" where
  "resToAnthHandleCreated evt st0 =
     (let st = (case rv_Response evt of
                  None \<Rightarrow> st0
                | Some r \<Rightarrow> st0\<lparr>ra_ResponseID := rr_ID r,
                                ra_Model := (if ra_Model st0 = [] then rr_Model r else ra_Model st0)\<rparr>)
      in if ra_MessageStartSent st then (st, [])
         else (st\<lparr>ra_MessageStartSent := True\<rparr>,
               [zeroAnthropicStreamEvent\<lparr>ae_Type := ''message_start'',
                  ae_Message := Some (zeroAnthropicResponse\<lparr>ar_ID := ra_ResponseID st, ar_Type := ''message'',
                    ar_Role := ''assistant'', ar_Content := [], ar_Model := ra_Model st, ar_StopReason := None,
                    ar_Usage := zeroAnthropicUsage\<rparr>)\<rparr>]))"

definition resToAnthHandleOutputItemAdded ::
  "ResponsesStreamEvent \<Rightarrow> ResponsesEventToAnthropicState \<Rightarrow> ra_result" where
  "resToAnthHandleOutputItemAdded evt st0 =
     (case rv_Item evt of
        None \<Rightarrow> (st0, [])
      | Some item \<Rightarrow>
          if ro_Type item = ''function_call'' \<or> ro_Type item = ''custom_tool_call'' then
            (let (st, evs) = closeCurrentBlock st0;
                 idx = ra_ContentBlockIndex st
             in (st\<lparr>ra_OutputIndexToBlockIdx := (ra_OutputIndexToBlockIdx st)(rv_OutputIndex evt \<mapsto> idx),
                    ra_ContentBlockOpen := True, ra_CurrentBlockType := ''tool_use'',
                    ra_CurrentToolName := ro_Name item, ra_CurrentToolArgs := [],
                    ra_CurrentToolHadDelta := False, ra_HasToolCall := True\<rparr>,
                 evs @ [block_start idx (zeroAnthropicContentBlock\<lparr>cb_Type := ''tool_use'',
                          cb_ID := fromResponsesCallID (ro_CallID item), cb_Name := ro_Name item,
                          cb_Input := [CHR 0x7B, CHR 0x7D]\<rparr>)]))
          else if ro_Type item = ''reasoning'' then
            (let (st, evs) = closeCurrentBlock st0;
                 idx = ra_ContentBlockIndex st
             in (st\<lparr>ra_OutputIndexToBlockIdx := (ra_OutputIndexToBlockIdx st)(rv_OutputIndex evt \<mapsto> idx),
                    ra_ContentBlockOpen := True, ra_CurrentBlockType := ''thinking'',
                    ra_PendingThinkingSignature := TrimSpace (ro_EncryptedContent item)\<rparr>,
                 evs @ [block_start idx (zeroAnthropicContentBlock\<lparr>cb_Type := ''thinking'', cb_Thinking := []\<rparr>)]))
          else (st0, []))"

definition resToAnthHandleTextDelta ::
  "ResponsesStreamEvent \<Rightarrow> ResponsesEventToAnthropicState \<Rightarrow> ra_result" where
  "resToAnthHandleTextDelta evt st0 =
     (if rv_Delta evt = [] then (st0, [])
      else
        (let (st, evs) =
               (if \<not> ra_ContentBlockOpen st0 \<or> ra_CurrentBlockType st0 \<noteq> ''text'' then
                  (let (st1, es) = closeCurrentBlock st0; idx = ra_ContentBlockIndex st1
                   in (st1\<lparr>ra_ContentBlockOpen := True, ra_CurrentBlockType := ''text''\<rparr>,
                       es @ [block_start idx (zeroAnthropicContentBlock\<lparr>cb_Type := ''text'', cb_Text := []\<rparr>)]))
                else (st0, []))
         in (st, evs @ [block_delta (ra_ContentBlockIndex st)
                          (zeroAnthropicDelta\<lparr>ad_Type := ''text_delta'', ad_Text := rv_Delta evt\<rparr>)])))"

definition input_json_delta :: "int \<Rightarrow> string \<Rightarrow> AnthropicStreamEvent" where
  "input_json_delta i s =
     block_delta i (zeroAnthropicDelta\<lparr>ad_Type := ''input_json_delta'', ad_PartialJSON := s\<rparr>)"

definition resToAnthHandleFuncArgsDelta ::
  "ResponsesStreamEvent \<Rightarrow> ResponsesEventToAnthropicState \<Rightarrow> ra_result" where
  "resToAnthHandleFuncArgsDelta evt st0 =
     (if rv_Delta evt = [] then (st0, [])
      else if ra_CurrentBlockType st0 = ''tool_use'' \<and> ra_CurrentToolName st0 = ''Read'' then
        (let st = st0\<lparr>ra_CurrentToolArgs := ra_CurrentToolArgs st0 @ rv_Delta evt\<rparr>
         in if ra_CurrentToolHadDelta st \<or> \<not> json_Valid (ra_CurrentToolArgs st) then (st, [])
            else case ra_OutputIndexToBlockIdx st (rv_OutputIndex evt) of
                None \<Rightarrow> (st, [])
              | Some blockIdx \<Rightarrow>
                  (st\<lparr>ra_CurrentToolHadDelta := True\<rparr>,
                   [input_json_delta blockIdx
                      (sanitizeAnthropicToolUseInput (ra_CurrentToolName st) (ra_CurrentToolArgs st))]))
      else
        (let st = (if ra_CurrentBlockType st0 = ''tool_use'' then st0\<lparr>ra_CurrentToolHadDelta := True\<rparr> else st0)
         in case ra_OutputIndexToBlockIdx st (rv_OutputIndex evt) of
              None \<Rightarrow> (st, [])
            | Some blockIdx \<Rightarrow> (st, [input_json_delta blockIdx (rv_Delta evt)])))"

definition resToAnthHandleBlockDone :: "ResponsesEventToAnthropicState \<Rightarrow> ra_result" where
  "resToAnthHandleBlockDone st = (if \<not> ra_ContentBlockOpen st then (st, []) else closeCurrentBlock st)"

definition resToAnthHandleFuncArgsDone ::
  "ResponsesStreamEvent \<Rightarrow> ResponsesEventToAnthropicState \<Rightarrow> ra_result" where
  "resToAnthHandleFuncArgsDone evt st =
     (if \<not> ra_ContentBlockOpen st then (st, [])
      else if ra_CurrentBlockType st \<noteq> ''tool_use'' then resToAnthHandleBlockDone st
      else
        (let raw0 = (if rv_Arguments evt = [] then ra_CurrentToolArgs st else rv_Arguments evt)
         in if raw0 = [] \<or> ra_CurrentToolHadDelta st then closeCurrentBlock st
            else
              (let raw = (if ra_CurrentToolName st = ''Read''
                          then sanitizeAnthropicToolUseInput (ra_CurrentToolName st) raw0 else raw0)
               in if ra_CurrentToolName st = ''Read'' \<and> raw = [] then closeCurrentBlock st
                  else
                    (let blockIdx = (case ra_OutputIndexToBlockIdx st (rv_OutputIndex evt) of
                                       None \<Rightarrow> ra_ContentBlockIndex st | Some i \<Rightarrow> i)
                     in if \<not> ra_ContentBlockOpen st \<or> blockIdx \<noteq> ra_ContentBlockIndex st then (st, [])
                        else (let (st', evs) = closeCurrentBlock st
                              in (st', input_json_delta blockIdx raw # evs))))))"

definition resToAnthHandleReasoningDelta ::
  "ResponsesStreamEvent \<Rightarrow> ResponsesEventToAnthropicState \<Rightarrow> ra_result" where
  "resToAnthHandleReasoningDelta evt st =
     (if rv_Delta evt = [] then (st, [])
      else case ra_OutputIndexToBlockIdx st (rv_OutputIndex evt) of
          None \<Rightarrow> (st, [])
        | Some blockIdx \<Rightarrow>
            (st, [block_delta blockIdx (zeroAnthropicDelta\<lparr>ad_Type := ''thinking_delta'', ad_Thinking := rv_Delta evt\<rparr>)]))"

definition resToAnthHandleWebSearchDone ::
  "ResponsesOutput \<Rightarrow> ResponsesEventToAnthropicState \<Rightarrow> ra_result" where
  "resToAnthHandleWebSearchDone item st0 =
     (let (st, evs) = closeCurrentBlock st0;
          toolUseID = ''srvtoolu_'' @ ro_ID item;
          idx1 = ra_ContentBlockIndex st;
          idx2 = idx1 + 1
      in (st\<lparr>ra_ContentBlockIndex := idx2 + 1\<rparr>,
          evs @ [block_start idx1 (zeroAnthropicContentBlock\<lparr>cb_Type := ''server_tool_use'', cb_ID := toolUseID,
                    cb_Name := ''web_search'', cb_Input := marshal_pair ''query'' (web_search_query item)\<rparr>),
                 block_stop idx1,
                 block_start idx2 (zeroAnthropicContentBlock\<lparr>cb_Type := ''web_search_tool_result'',
                    cb_ToolUseID := toolUseID, cb_Content := ''[]''\<rparr>),
                 block_stop idx2]))"

definition resToAnthHandleOutputItemDone ::
  "ResponsesStreamEvent \<Rightarrow> ResponsesEventToAnthropicState \<Rightarrow> ra_result" where
  "resToAnthHandleOutputItemDone evt st0 =
     (case rv_Item evt of
        None \<Rightarrow> (st0, [])
      | Some item \<Rightarrow>
          if ro_Type item = ''web_search_call'' \<and> ro_Status item = ''completed''
          then resToAnthHandleWebSearchDone item st0
          else
            (let sig = TrimSpace (ro_EncryptedContent item);
                 st = (if ro_Type item = ''reasoning'' \<and> sig \<noteq> []
                       then st0\<lparr>ra_PendingThinkingSignature := sig\<rparr> else st0)
             in if ra_ContentBlockOpen st then closeCurrentBlock st else (st, [])))"

definition set_usage :: "AnthropicUsage \<Rightarrow> ResponsesEventToAnthropicState \<Rightarrow> ResponsesEventToAnthropicState" where
  "set_usage u st = st\<lparr>ra_InputTokens := au_InputTokens u, ra_OutputTokens := au_OutputTokens u,
     ra_CacheReadInputTokens := au_CacheReadInputTokens u,
     ra_CacheCreationInputTokens := au_CacheCreationInputTokens u\<rparr>"

text \<open>The closing pair of events.\<close>

definition message_end :: "string \<Rightarrow> ResponsesEventToAnthropicState \<Rightarrow> AnthropicStreamEvent list" where
  "message_end stopReason st =
     [zeroAnthropicStreamEvent\<lparr>ae_Type := ''message_delta'',
        ae_Delta := Some (zeroAnthropicDelta\<lparr>ad_StopReason := stopReason\<rparr>),
        ae_Usage := Some \<lparr>au_InputTokens = ra_InputTokens st, au_OutputTokens = ra_OutputTokens st,
          au_CacheCreationInputTokens = ra_CacheCreationInputTokens st,
          au_CacheReadInputTokens = ra_CacheReadInputTokens st\<rparr>\<rparr>,
      zeroAnthropicStreamEvent\<lparr>ae_Type := ''message_stop''\<rparr>]"

definition terminal_stop_reason :: "ResponsesStreamEvent \<Rightarrow> bool \<Rightarrow> string" where
  "terminal_stop_reason evt hasToolCall =
     (case rv_Response evt of
        None \<Rightarrow> ''end_turn''
      | Some r \<Rightarrow>
          if rr_Status r = ''incomplete'' then
            (case rr_IncompleteDetails r of
               Some d \<Rightarrow> if rd_Reason d = ''max_output_tokens'' then ''max_tokens'' else ''end_turn''
             | None \<Rightarrow> ''end_turn'')
          else if rr_Status r = ''completed'' \<and> hasToolCall then ''tool_use'' else ''end_turn'')"

definition resToAnthHandleCompleted ::
  "ResponsesStreamEvent \<Rightarrow> ResponsesEventToAnthropicState \<Rightarrow> ra_result" where
  "resToAnthHandleCompleted evt st0 =
     (if ra_MessageStopSent st0 then (st0, [])
      else
        (let (st1, evs) = closeCurrentBlock st0;
             st2 = (case rv_Usage evt of None \<Rightarrow> st1
                    | Some u \<Rightarrow> set_usage (anthropicUsageFromResponsesUsage (Some u)) st1);
             st3 = (case Option.bind (rv_Response evt) rr_Usage of None \<Rightarrow> st2
                    | Some u \<Rightarrow> set_usage (anthropicUsageFromResponsesUsage (Some u)) st2)
         in (st3\<lparr>ra_MessageStopSent := True\<rparr>,
             evs @ message_end (terminal_stop_reason evt (ra_HasToolCall st3)) st3)))"

definition ResponsesEventToAnthropicEvents ::
  "ResponsesStreamEvent \<Rightarrow> ResponsesEventToAnthropicState \<Rightarrow> ra_result" where
  "ResponsesEventToAnthropicEvents evt st =
     (let t = rv_Type evt
      in if t = ''response.created'' then resToAnthHandleCreated evt st
         else if t = ''response.output_item.added'' then resToAnthHandleOutputItemAdded evt st
         else if t = ''response.output_text.delta'' then resToAnthHandleTextDelta evt st
         else if t = ''response.output_text.done'' then resToAnthHandleBlockDone st
         else if t = ''response.function_call_arguments.delta'' \<or> t = ''response.custom_tool_call_input.delta''
         then resToAnthHandleFuncArgsDelta evt st
         else if t = ''response.function_call_arguments.done'' then resToAnthHandleFuncArgsDone evt st
         else if t = ''response.output_item.done'' then resToAnthHandleOutputItemDone evt st
         else if t = ''response.reasoning_summary_text.delta'' \<or> t = ''response.reasoning_text.delta''
         then resToAnthHandleReasoningDelta evt st
         else if t = ''response.reasoning_summary_text.done'' then (st, [])
         else if t = ''response.completed'' \<or> t = ''response.done'' \<or> t = ''response.incomplete''
                 \<or> t = ''response.failed''
         then resToAnthHandleCompleted evt st
         else (st, []))"

definition FinalizeResponsesAnthropicStream :: "ResponsesEventToAnthropicState \<Rightarrow> ra_result" where
  "FinalizeResponsesAnthropicStream st0 =
     (if \<not> ra_MessageStartSent st0 \<or> ra_MessageStopSent st0 then (st0, [])
      else
        (let (st, evs) = closeCurrentBlock st0;
             stopReason = (if ra_HasToolCall st then ''tool_use'' else ''end_turn'')
         in (st\<lparr>ra_MessageStopSent := True\<rparr>, evs @ message_end stopReason st)))"

declare resToAnthHandleTextDelta_def [convert_defs] resToAnthHandleCreated_def [convert_defs]
  resToAnthHandleOutputItemAdded_def [convert_defs] resToAnthHandleFuncArgsDelta_def [convert_defs]
  resToAnthHandleBlockDone_def [convert_defs] resToAnthHandleFuncArgsDone_def [convert_defs]
  resToAnthHandleReasoningDelta_def [convert_defs] resToAnthHandleOutputItemDone_def [convert_defs]
  resToAnthHandleWebSearchDone_def [convert_defs] resToAnthHandleCompleted_def [convert_defs]

end
