(* ===== verification/Responses_To_Chat.thy ===== *)
theory Responses_To_Chat
  imports Responses_To_Anthropic
begin

text \<open>
  Responses API output as Chat Completions output
  (\<open>pkg/apicompat/responses_to_chatcompletions.go\<close>): the conversion of a finished response, the
  stateful conversion of a stream into chunks, and the accumulator that rebuilds a response's
  output from its stream when the terminal event carries none. The random id, the clock and the
  caller's options are arguments.
\<close>

section \<open>A finished response\<close>

definition generateChatCmplID :: "string \<Rightarrow> string" where
  "generateChatCmplID random_hex = ''chatcmpl-'' @ random_hex"

definition responsesStatusToChatFinishReason ::
  "string \<Rightarrow> ResponsesIncompleteDetails option \<Rightarrow> ChatToolCall list \<Rightarrow> string" where
  "responsesStatusToChatFinishReason status details toolCalls =
     (if status = ''incomplete'' then
        (case details of
           None \<Rightarrow> ''stop''
         | Some d \<Rightarrow> if rd_Reason d = ''max_output_tokens'' then ''length''
                     else if rd_Reason d = ''content_filter'' then ''content_filter'' else ''stop'')
      else if status = ''completed'' then (if toolCalls \<noteq> [] then ''tool_calls'' else ''stop'')
      else ''stop'')"

definition promptDetailsFromResponses :: "ResponsesInputTokensDetails option \<Rightarrow> ChatTokenDetails option" where
  "promptDetailsFromResponses src =
     (case src of
        None \<Rightarrow> None
      | Some d \<Rightarrow>
          if it_CachedTokens d = 0 \<and> it_AudioTokens d = 0 \<and> it_CacheCreationTokens d = 0 \<and> it_CacheWriteTokens d = 0
          then None
          else Some (zeroChatTokenDetails\<lparr>td_CachedTokens := it_CachedTokens d, td_AudioTokens := it_AudioTokens d,
                 td_CacheCreationTokens := it_CacheCreationTokens d, td_CacheWriteTokens := it_CacheWriteTokens d\<rparr>))"

definition completionDetailsFromResponses :: "ResponsesOutputTokensDetails option \<Rightarrow> ChatTokenDetails option" where
  "completionDetailsFromResponses src =
     (case src of
        None \<Rightarrow> None
      | Some d \<Rightarrow>
          if ot_ReasoningTokens d = 0 \<and> ot_AudioTokens d = 0 \<and> ot_AcceptedPredictionTokens d = 0
             \<and> ot_RejectedPredictionTokens d = 0
          then None
          else Some (zeroChatTokenDetails\<lparr>td_ReasoningTokens := ot_ReasoningTokens d,
                 td_AudioTokens := ot_AudioTokens d,
                 td_AcceptedPredictionTokens := ot_AcceptedPredictionTokens d,
                 td_RejectedPredictionTokens := ot_RejectedPredictionTokens d\<rparr>))"

definition chatUsageFromResponsesUsage :: "ResponsesUsage option \<Rightarrow> ChatUsage option" where
  "chatUsageFromResponsesUsage usage =
     (case usage of
        None \<Rightarrow> None
      | Some u \<Rightarrow>
          (let pd0 = promptDetailsFromResponses (ru_InputTokensDetails u);
               pd = (if ru_CacheCreationInputTokens u > 0 then
                       (let d = (case pd0 of None \<Rightarrow> zeroChatTokenDetails | Some d \<Rightarrow> d)
                        in Some (if td_CacheWriteTokens d = 0 \<and> td_CacheCreationTokens d = 0
                                 then d\<lparr>td_CacheCreationTokens := ru_CacheCreationInputTokens u\<rparr> else d))
                     else pd0)
           in Some \<lparr>cu_PromptTokens = ru_InputTokens u, cu_CompletionTokens = ru_OutputTokens u,
                    cu_TotalTokens = wrap64 (ru_InputTokens u + ru_OutputTokens u),
                    cu_PromptTokensDetails = pd,
                    cu_CompletionTokensDetails = completionDetailsFromResponses (ru_OutputTokensDetails u)\<rparr>))"

fun parts_text :: "ResponsesContentPart list \<Rightarrow> string" where
  "parts_text [] = []"
| "parts_text (p # ps) =
     (if cp_Type p = ''output_text'' \<and> cp_Text p \<noteq> [] then cp_Text p @ parts_text ps else parts_text ps)"

text \<open>The loop over the output items: content, reasoning and tool calls collected so far.\<close>

fun collect_outputs ::
  "ResponsesOutput list \<Rightarrow> string \<times> string \<times> ChatToolCall list \<Rightarrow> string \<times> string \<times> ChatToolCall list" where
  "collect_outputs [] acc = acc"
| "collect_outputs (item # items) (content, reasoning, calls) =
     collect_outputs items
       (if ro_Type item = ''message'' then (content @ parts_text (ro_Content item), reasoning, calls)
        else if ro_Type item = ''function_call'' then
          (content, reasoning, calls @ [zeroChatToolCall\<lparr>tc_ID := ro_CallID item, tc_Type := ''function'',
             tc_Function := \<lparr>fc_Name = ro_Name item, fc_Arguments = ro_Arguments item\<rparr>\<rparr>])
        else if ro_Type item = ''reasoning'' then (content, reasoning @ summary_text (ro_Summary item), calls)
        else (content, reasoning, calls))"

definition ResponsesToChatCompletions ::
  "string \<Rightarrow> int \<Rightarrow> ResponsesResponse \<Rightarrow> string \<Rightarrow> ChatCompletionsResponse" where
  "ResponsesToChatCompletions random_hex now resp model =
     (let i = (if rr_ID resp = [] then generateChatCmplID random_hex else rr_ID resp);
          (contentText, reasoningText, toolCalls) = collect_outputs (rr_Output resp) ([], [], []);
          msg = zeroChatMessage\<lparr>cm_Role := ''assistant'', cm_ToolCalls := toolCalls,
                  cm_Content := (if contentText \<noteq> [] then marshal_string contentText else []),
                  cm_ReasoningContent := reasoningText\<rparr>
      in zeroChatCompletionsResponse\<lparr>cr_ID := i, cr_Object := ''chat.completion'', cr_Created := now,
           cr_Model := model,
           cr_Choices := [\<lparr>ch_Index = 0, ch_Message = msg, ch_FinishReason =
              responsesStatusToChatFinishReason (rr_Status resp) (rr_IncompleteDetails resp) toolCalls\<rparr>],
           cr_Usage := chatUsageFromResponsesUsage (rr_Usage resp)\<rparr>)"

section \<open>The stream\<close>

record ResponsesEventToChatState =
  sc_ID :: string
  sc_Model :: string
  sc_Created :: int
  sc_SentRole :: bool
  sc_SawToolCall :: bool
  sc_SawText :: bool
  sc_Finalized :: bool
  sc_NextToolCallIndex :: int
  sc_OutputIndexToToolIndex :: "int \<rightharpoonup> int"
  sc_IncludeUsage :: bool
  sc_Usage :: "ChatUsage option"

definition NewResponsesEventToChatState :: "string \<Rightarrow> int \<Rightarrow> ResponsesEventToChatState" where
  "NewResponsesEventToChatState random_hex now = \<lparr>sc_ID = generateChatCmplID random_hex, sc_Model = [],
     sc_Created = now, sc_SentRole = False, sc_SawToolCall = False, sc_SawText = False, sc_Finalized = False,
     sc_NextToolCallIndex = 0, sc_OutputIndexToToolIndex = Map.empty, sc_IncludeUsage = False, sc_Usage = None\<rparr>"

type_synonym sc_result = "ResponsesEventToChatState \<times> ChatCompletionsChunk list"

definition makeChatDeltaChunk :: "ResponsesEventToChatState \<Rightarrow> ChatDelta \<Rightarrow> ChatCompletionsChunk" where
  "makeChatDeltaChunk st delta = zeroChatCompletionsChunk\<lparr>cx_ID := sc_ID st,
     cx_Object := ''chat.completion.chunk'', cx_Created := sc_Created st, cx_Model := sc_Model st,
     cx_Choices := [\<lparr>ck_Index = 0, ck_Delta = delta, ck_FinishReason = None\<rparr>]\<rparr>"

definition makeChatFinishChunk :: "ResponsesEventToChatState \<Rightarrow> string \<Rightarrow> ChatCompletionsChunk" where
  "makeChatFinishChunk st finishReason = zeroChatCompletionsChunk\<lparr>cx_ID := sc_ID st,
     cx_Object := ''chat.completion.chunk'', cx_Created := sc_Created st, cx_Model := sc_Model st,
     cx_Choices := [\<lparr>ck_Index = 0, ck_Delta = zeroChatDelta\<lparr>cd_Content := Some []\<rparr>,
                     ck_FinishReason = Some finishReason\<rparr>]\<rparr>"

text \<open>The chunk without choices that carries the usage, when the client asked for it.\<close>

definition usage_chunks :: "ResponsesEventToChatState \<Rightarrow> ChatCompletionsChunk list" where
  "usage_chunks st =
     (if sc_IncludeUsage st \<and> sc_Usage st \<noteq> None then
        [zeroChatCompletionsChunk\<lparr>cx_ID := sc_ID st, cx_Object := ''chat.completion.chunk'',
           cx_Created := sc_Created st, cx_Model := sc_Model st, cx_Choices := [], cx_Usage := sc_Usage st\<rparr>]
      else [])"

definition resToChatHandleCreated ::
  "ResponsesStreamEvent \<Rightarrow> ResponsesEventToChatState \<Rightarrow> sc_result" where
  "resToChatHandleCreated evt st0 =
     (let st = (case rv_Response evt of
                  None \<Rightarrow> st0
                | Some r \<Rightarrow>
                    st0\<lparr>sc_ID := (if rr_ID r \<noteq> [] then rr_ID r else sc_ID st0),
                        sc_Model := (if sc_Model st0 = [] \<and> rr_Model r \<noteq> [] then rr_Model r else sc_Model st0)\<rparr>)
      in if sc_SentRole st then (st, [])
         else (let st' = st\<lparr>sc_SentRole := True\<rparr>
               in (st', [makeChatDeltaChunk st' (zeroChatDelta\<lparr>cd_Role := ''assistant''\<rparr>)])))"

definition resToChatHandleTextDelta ::
  "ResponsesStreamEvent \<Rightarrow> ResponsesEventToChatState \<Rightarrow> sc_result" where
  "resToChatHandleTextDelta evt st =
     (if rv_Delta evt = [] then (st, [])
      else (st\<lparr>sc_SawText := True\<rparr>,
            [makeChatDeltaChunk st (zeroChatDelta\<lparr>cd_Content := Some (rv_Delta evt)\<rparr>)]))"

definition is_tool_item :: "ResponsesOutput option \<Rightarrow> bool" where
  "is_tool_item io =
     (case io of None \<Rightarrow> False | Some i \<Rightarrow> ro_Type i = ''function_call'' \<or> ro_Type i = ''custom_tool_call'')"

definition resToChatHandleOutputItemAdded ::
  "ResponsesStreamEvent \<Rightarrow> ResponsesEventToChatState \<Rightarrow> sc_result" where
  "resToChatHandleOutputItemAdded evt st =
     (case rv_Item evt of
        None \<Rightarrow> (st, [])
      | Some item \<Rightarrow>
          if \<not> is_tool_item (rv_Item evt) then (st, [])
          else
            (let idx = sc_NextToolCallIndex st;
                 st' = st\<lparr>sc_SawToolCall := True,
                          sc_OutputIndexToToolIndex := (sc_OutputIndexToToolIndex st)(rv_OutputIndex evt \<mapsto> idx),
                          sc_NextToolCallIndex := idx + 1\<rparr>
             in (st', [makeChatDeltaChunk st' (zeroChatDelta\<lparr>cd_ToolCalls :=
                         [\<lparr>tc_Index = Some idx, tc_ID = ro_CallID item, tc_Type = ''function'',
                           tc_Function = zeroChatFunctionCall\<lparr>fc_Name := ro_Name item\<rparr>\<rparr>]\<rparr>)])))"

definition resToChatHandleFuncArgsDelta ::
  "ResponsesStreamEvent \<Rightarrow> ResponsesEventToChatState \<Rightarrow> sc_result" where
  "resToChatHandleFuncArgsDelta evt st =
     (if rv_Delta evt = [] then (st, [])
      else case sc_OutputIndexToToolIndex st (rv_OutputIndex evt) of
          None \<Rightarrow> (st, [])
        | Some idx \<Rightarrow>
            (st, [makeChatDeltaChunk st (zeroChatDelta\<lparr>cd_ToolCalls :=
                    [zeroChatToolCall\<lparr>tc_Index := Some idx,
                       tc_Function := zeroChatFunctionCall\<lparr>fc_Arguments := rv_Delta evt\<rparr>\<rparr>]\<rparr>)]))"

definition resToChatHandleReasoningDelta ::
  "ResponsesStreamEvent \<Rightarrow> ResponsesEventToChatState \<Rightarrow> sc_result" where
  "resToChatHandleReasoningDelta evt st =
     (if rv_Delta evt = [] then (st, [])
      else (st, [makeChatDeltaChunk st (zeroChatDelta\<lparr>cd_ReasoningContent := Some (rv_Delta evt)\<rparr>)]))"

definition terminal_finish_reason :: "ResponsesStreamEvent \<Rightarrow> bool \<Rightarrow> string" where
  "terminal_finish_reason evt sawToolCall =
     (case rv_Response evt of
        None \<Rightarrow> if sawToolCall then ''tool_calls'' else ''stop''
      | Some r \<Rightarrow>
          if rr_Status r = ''incomplete'' then
            (case rr_IncompleteDetails r of
               None \<Rightarrow> ''stop''
             | Some d \<Rightarrow> if rd_Reason d = ''max_output_tokens'' then ''length''
                         else if rd_Reason d = ''content_filter'' then ''content_filter'' else ''stop'')
          else if rr_Status r = ''completed'' \<and> sawToolCall then ''tool_calls'' else ''stop'')"

definition resToChatHandleCompleted ::
  "ResponsesStreamEvent \<Rightarrow> ResponsesEventToChatState \<Rightarrow> sc_result" where
  "resToChatHandleCompleted evt st0 =
     (let st1 = st0\<lparr>sc_Finalized := True\<rparr>;
          st2 = (case rv_Usage evt of None \<Rightarrow> st1
                 | Some u \<Rightarrow> st1\<lparr>sc_Usage := chatUsageFromResponsesUsage (Some u)\<rparr>);
          st3 = (case Option.bind (rv_Response evt) rr_Usage of None \<Rightarrow> st2
                 | Some u \<Rightarrow> st2\<lparr>sc_Usage := chatUsageFromResponsesUsage (Some u)\<rparr>)
      in (st3, makeChatFinishChunk st3 (terminal_finish_reason evt (sc_SawToolCall st3)) # usage_chunks st3))"

definition ResponsesEventToChatChunks ::
  "ResponsesStreamEvent \<Rightarrow> ResponsesEventToChatState \<Rightarrow> sc_result" where
  "ResponsesEventToChatChunks evt st =
     (let t = rv_Type evt
      in if t = ''response.created'' then resToChatHandleCreated evt st
         else if t = ''response.output_text.delta'' then resToChatHandleTextDelta evt st
         else if t = ''response.output_item.added'' then resToChatHandleOutputItemAdded evt st
         else if t = ''response.function_call_arguments.delta'' \<or> t = ''response.custom_tool_call_input.delta''
         then resToChatHandleFuncArgsDelta evt st
         else if t = ''response.reasoning_summary_text.delta'' \<or> t = ''response.reasoning_text.delta''
         then resToChatHandleReasoningDelta evt st
         else if t = ''response.reasoning_summary_text.done'' then (st, [])
         else if t = ''response.completed'' \<or> t = ''response.done'' \<or> t = ''response.incomplete''
                 \<or> t = ''response.failed''
         then resToChatHandleCompleted evt st
         else (st, []))"

definition FinalizeResponsesChatStream :: "ResponsesEventToChatState \<Rightarrow> sc_result" where
  "FinalizeResponsesChatStream st0 =
     (if sc_Finalized st0 then (st0, [])
      else
        (let st = st0\<lparr>sc_Finalized := True\<rparr>;
             finishReason = (if sc_SawToolCall st then ''tool_calls'' else ''stop'')
         in (st, makeChatFinishChunk st finishReason # usage_chunks st)))"

section \<open>The accumulator\<close>

record bufferedFuncCall =
  bf_CallID :: string
  bf_Name :: string
  bf_Args :: string

record BufferedResponseAccumulator =
  ba_text :: string
  ba_reasoning :: string
  ba_funcCalls :: "bufferedFuncCall list"
  ba_outputIndexToFuncIdx :: "int \<rightharpoonup> nat"

definition NewBufferedResponseAccumulator :: BufferedResponseAccumulator where
  "NewBufferedResponseAccumulator =
     \<lparr>ba_text = [], ba_reasoning = [], ba_funcCalls = [], ba_outputIndexToFuncIdx = Map.empty\<rparr>"

definition ProcessEvent ::
  "ResponsesStreamEvent \<Rightarrow> BufferedResponseAccumulator \<Rightarrow> BufferedResponseAccumulator" where
  "ProcessEvent event a =
     (let t = rv_Type event
      in if t = ''response.output_text.delta'' then
           (if rv_Delta event \<noteq> [] then a\<lparr>ba_text := ba_text a @ rv_Delta event\<rparr> else a)
         else if t = ''response.output_item.added'' then
           (case rv_Item event of
              None \<Rightarrow> a
            | Some item \<Rightarrow>
                if is_tool_item (rv_Item event) then
                  a\<lparr>ba_outputIndexToFuncIdx :=
                      (ba_outputIndexToFuncIdx a)(rv_OutputIndex event \<mapsto> length (ba_funcCalls a)),
                    ba_funcCalls := ba_funcCalls a
                      @ [\<lparr>bf_CallID = ro_CallID item, bf_Name = ro_Name item, bf_Args = []\<rparr>]\<rparr>
                else a)
         else if t = ''response.function_call_arguments.delta'' \<or> t = ''response.custom_tool_call_input.delta'' then
           (if rv_Delta event \<noteq> [] then
              (case ba_outputIndexToFuncIdx a (rv_OutputIndex event) of
                 None \<Rightarrow> a
               | Some idx \<Rightarrow>
                   a\<lparr>ba_funcCalls := (ba_funcCalls a)[idx := (ba_funcCalls a ! idx)
                       \<lparr>bf_Args := bf_Args (ba_funcCalls a ! idx) @ rv_Delta event\<rparr>]\<rparr>)
            else a)
         else if t = ''response.reasoning_summary_text.delta'' \<or> t = ''response.reasoning_text.delta'' then
           (if rv_Delta event \<noteq> [] then a\<lparr>ba_reasoning := ba_reasoning a @ rv_Delta event\<rparr> else a)
         else a)"

definition HasContent :: "BufferedResponseAccumulator \<Rightarrow> bool" where
  "HasContent a \<longleftrightarrow> ba_text a \<noteq> [] \<or> ba_funcCalls a \<noteq> [] \<or> ba_reasoning a \<noteq> []"

definition BuildOutput :: "BufferedResponseAccumulator \<Rightarrow> ResponsesOutput list" where
  "BuildOutput a =
     (if ba_reasoning a \<noteq> [] then
        [zeroResponsesOutput\<lparr>ro_Type := ''reasoning'',
           ro_Summary := [\<lparr>sm_Type = ''summary_text'', sm_Text = ba_reasoning a\<rparr>]\<rparr>] else [])
     @ (if ba_text a \<noteq> [] then
          [zeroResponsesOutput\<lparr>ro_Type := ''message'', ro_Role := ''assistant'',
             ro_Content := [zeroResponsesContentPart\<lparr>cp_Type := ''output_text'', cp_Text := ba_text a\<rparr>]\<rparr>] else [])
     @ map (\<lambda>c. zeroResponsesOutput\<lparr>ro_Type := ''function_call'', ro_CallID := bf_CallID c,
                  ro_Name := bf_Name c, ro_Arguments := bf_Args c\<rparr>) (ba_funcCalls a)"

definition SupplementResponseOutput ::
  "BufferedResponseAccumulator \<Rightarrow> ResponsesResponse option \<Rightarrow> ResponsesResponse option" where
  "SupplementResponseOutput a resp =
     (case resp of
        None \<Rightarrow> None
      | Some r \<Rightarrow>
          if rr_Output r \<noteq> [] then Some r
          else if \<not> HasContent a then Some r
          else Some (r\<lparr>rr_Output := BuildOutput a\<rparr>))"

end
