(* ===== verification/Anthropic_To_Responses.thy ===== *)
theory Anthropic_To_Responses
  imports Apicompat_Types
begin

text \<open>
  Anthropic Messages output as Responses API output
  (\<open>pkg/apicompat/anthropic_to_responses_response.go\<close>): the conversion of a finished response and
  the stateful conversion of a stream. \<open>generateItemID\<close> and \<open>generateResponsesID\<close> read
  \<open>crypto/rand\<close>: the parameter \<open>rand\<close> is the hex text of the n-th draw, and the number of draws
  so far is threaded through (in the stream, as the field \<open>st_rand\<close>).
\<close>

section \<open>Identifiers\<close>

definition generateItemID :: "(nat \<Rightarrow> string) \<Rightarrow> nat \<Rightarrow> string" where
  "generateItemID rand n = ''item_'' @ rand n"

definition generateResponsesID :: "(nat \<Rightarrow> string) \<Rightarrow> nat \<Rightarrow> string" where
  "generateResponsesID rand n = ''resp_'' @ rand n"

section \<open>A finished response\<close>

definition anthropicStopReasonToResponsesStatus :: "string \<Rightarrow> AnthropicContentBlock list \<Rightarrow> string" where
  "anthropicStopReasonToResponsesStatus stopReason blocks =
     (if stopReason = ''max_tokens'' then ''incomplete'' else ''completed'')"

text \<open>The loop over the blocks: the draws so far, the output items and the message parts.\<close>

fun convert_blocks ::
  "(nat \<Rightarrow> string) \<Rightarrow> nat \<Rightarrow> AnthropicContentBlock list
     \<Rightarrow> nat \<times> ResponsesOutput list \<times> ResponsesContentPart list" where
  "convert_blocks rand n [] = (n, [], [])"
| "convert_blocks rand n (b # bs) =
     (if cb_Type b = ''thinking'' \<and> cb_Thinking b \<noteq> [] then
        (let (m, outs, parts) = convert_blocks rand (Suc n) bs
         in (m, zeroResponsesOutput\<lparr>ro_Type := ''reasoning'', ro_ID := generateItemID rand n,
                  ro_Summary := [\<lparr>sm_Type = ''summary_text'', sm_Text = cb_Thinking b\<rparr>]\<rparr> # outs, parts))
      else if cb_Type b = ''text'' \<and> cb_Text b \<noteq> [] then
        (let (m, outs, parts) = convert_blocks rand n bs
         in (m, outs, zeroResponsesContentPart\<lparr>cp_Type := ''output_text'', cp_Text := cb_Text b\<rparr> # parts))
      else if cb_Type b = ''tool_use'' then
        (let (m, outs, parts) = convert_blocks rand (Suc n) bs
         in (m, zeroResponsesOutput\<lparr>ro_Type := ''function_call'', ro_ID := generateItemID rand n,
                  ro_CallID := toResponsesCallID (cb_ID b), ro_Name := cb_Name b,
                  ro_Arguments := (if cb_Input b = [] then [CHR 0x7B, CHR 0x7D] else cb_Input b),
                  ro_Status := ''completed''\<rparr> # outs, parts))
      else convert_blocks rand n bs)"

definition message_item :: "string \<Rightarrow> ResponsesContentPart list \<Rightarrow> ResponsesOutput" where
  "message_item i parts = zeroResponsesOutput\<lparr>ro_Type := ''message'', ro_ID := i, ro_Role := ''assistant'',
     ro_Content := parts, ro_Status := ''completed''\<rparr>"

definition responsesUsageFromAnthropic :: "int \<Rightarrow> int \<Rightarrow> int \<Rightarrow> int \<Rightarrow> ResponsesUsage" where
  "responsesUsageFromAnthropic inp outp cacheRead cacheCreation =
     (let totalInputTokens = wrap64 (wrap64 (inp + cacheRead) + cacheCreation)
      in zeroResponsesUsage\<lparr>ru_InputTokens := totalInputTokens, ru_OutputTokens := outp,
           ru_TotalTokens := wrap64 (totalInputTokens + outp),
           ru_CacheCreationInputTokens := cacheCreation,
           ru_InputTokensDetails := (if cacheRead > 0
             then Some (zeroResponsesInputTokensDetails\<lparr>it_CachedTokens := cacheRead\<rparr>) else None)\<rparr>)"

definition AnthropicToResponsesResponse :: "(nat \<Rightarrow> string) \<Rightarrow> AnthropicResponse \<Rightarrow> ResponsesResponse" where
  "AnthropicToResponsesResponse rand resp =
     (let (i, n0) = (if ar_ID resp = [] then (generateResponsesID rand 0, 1) else (ar_ID resp, 0));
          (n, outs, parts) = convert_blocks rand n0 (ar_Content resp);
          outs1 = (if parts \<noteq> [] then outs @ [message_item (generateItemID rand n) parts] else outs);
          n1 = (if parts \<noteq> [] then Suc n else n);
          outs2 = (if outs1 = [] then [message_item (generateItemID rand n1)
                      [zeroResponsesContentPart\<lparr>cp_Type := ''output_text'', cp_Text := []\<rparr>]] else outs1);
          status = anthropicStopReasonToResponsesStatus (AnthropicStopReasonString (ar_StopReason resp)) (ar_Content resp);
          u = ar_Usage resp
      in zeroResponsesResponse\<lparr>rr_ID := i, rr_Object := ''response'', rr_Model := ar_Model resp,
           rr_Output := outs2, rr_Status := status,
           rr_IncompleteDetails := (if status = ''incomplete'' then Some \<lparr>rd_Reason = ''max_output_tokens''\<rparr> else None),
           rr_Usage := Some (responsesUsageFromAnthropic (au_InputTokens u) (au_OutputTokens u)
                               (au_CacheReadInputTokens u) (au_CacheCreationInputTokens u))\<rparr>)"

section \<open>The stream state\<close>

record AnthropicEventToResponsesState =
  st_ResponseID :: string
  st_Model :: string
  st_Created :: int
  st_SequenceNumber :: int
  st_CreatedSent :: bool
  st_CompletedSent :: bool
  st_OutputIndex :: int
  st_CurrentItemID :: string
  st_CurrentItemType :: string
  st_ContentIndex :: int
  st_TextAccum :: string
  st_CurrentCallID :: string
  st_CurrentName :: string
  st_CurrentContent :: "ResponsesContentPart list"
  st_CurrentArgs :: string
  st_CurrentSummary :: string
  st_Outputs :: "ResponsesOutput list"
  st_InputTokens :: int
  st_OutputTokens :: int
  st_CacheReadInputTokens :: int
  st_CacheCreationInputTokens :: int
  st_StopReason :: string
  st_rand :: nat

definition NewAnthropicEventToResponsesState :: "int \<Rightarrow> AnthropicEventToResponsesState" where
  "NewAnthropicEventToResponsesState created = \<lparr>st_ResponseID = [], st_Model = [], st_Created = created,
     st_SequenceNumber = 0, st_CreatedSent = False, st_CompletedSent = False, st_OutputIndex = 0,
     st_CurrentItemID = [], st_CurrentItemType = [], st_ContentIndex = 0, st_TextAccum = [],
     st_CurrentCallID = [], st_CurrentName = [], st_CurrentContent = [], st_CurrentArgs = [],
     st_CurrentSummary = [], st_Outputs = [], st_InputTokens = 0, st_OutputTokens = 0,
     st_CacheReadInputTokens = 0, st_CacheCreationInputTokens = 0, st_StopReason = [], st_rand = 0\<rparr>"

type_synonym ar_result = "AnthropicEventToResponsesState \<times> ResponsesStreamEvent list"

definition makeResponsesEvent ::
  "string \<Rightarrow> ResponsesStreamEvent \<Rightarrow> AnthropicEventToResponsesState \<Rightarrow> ar_result" where
  "makeResponsesEvent eventType template st =
     (st\<lparr>st_SequenceNumber := st_SequenceNumber st + 1\<rparr>,
      [template\<lparr>rv_Type := eventType, rv_SequenceNumber := st_SequenceNumber st\<rparr>])"

definition makeResponsesCreatedEvent :: "AnthropicEventToResponsesState \<Rightarrow> ar_result" where
  "makeResponsesCreatedEvent st =
     (st\<lparr>st_SequenceNumber := st_SequenceNumber st + 1\<rparr>,
      [zeroResponsesStreamEvent\<lparr>rv_Type := ''response.created'', rv_SequenceNumber := st_SequenceNumber st,
         rv_Response := Some (zeroResponsesResponse\<lparr>rr_ID := st_ResponseID st, rr_Object := ''response'',
           rr_Model := st_Model st, rr_Status := ''in_progress'', rr_Output := []\<rparr>)\<rparr>])"

definition makeResponsesCompletedEvent ::
  "string \<Rightarrow> ResponsesIncompleteDetails option \<Rightarrow> AnthropicEventToResponsesState \<Rightarrow> ar_result" where
  "makeResponsesCompletedEvent status details st =
     (st\<lparr>st_SequenceNumber := st_SequenceNumber st + 1\<rparr>,
      [zeroResponsesStreamEvent\<lparr>
         rv_Type := (if status = ''incomplete'' then ''response.incomplete'' else ''response.completed''),
         rv_SequenceNumber := st_SequenceNumber st,
         rv_Response := Some (zeroResponsesResponse\<lparr>rr_ID := st_ResponseID st, rr_Object := ''response'',
           rr_Model := st_Model st, rr_Status := status, rr_Output := st_Outputs st,
           rr_Usage := Some (responsesUsageFromAnthropic (st_InputTokens st) (st_OutputTokens st)
                               (st_CacheReadInputTokens st) (st_CacheCreationInputTokens st)),
           rr_IncompleteDetails := details\<rparr>)\<rparr>])"

section \<open>Handlers\<close>

definition current_item :: "AnthropicEventToResponsesState \<Rightarrow> ResponsesOutput" where
  "current_item st =
     (let item = zeroResponsesOutput\<lparr>ro_Type := st_CurrentItemType st, ro_ID := st_CurrentItemID st,
                   ro_Status := ''completed''\<rparr>
      in if st_CurrentItemType st = ''message'' then
           item\<lparr>ro_Role := ''assistant'', ro_Content := st_CurrentContent st\<rparr>
         else if st_CurrentItemType st = ''function_call'' then
           item\<lparr>ro_CallID := st_CurrentCallID st, ro_Name := st_CurrentName st,
                ro_Arguments := (if st_CurrentArgs st = [] then [CHR 0x7B, CHR 0x7D] else st_CurrentArgs st)\<rparr>
         else if st_CurrentItemType st = ''reasoning'' \<and> st_CurrentSummary st \<noteq> [] then
           item\<lparr>ro_Summary := [\<lparr>sm_Type = ''summary_text'', sm_Text = st_CurrentSummary st\<rparr>]\<rparr>
         else item)"

definition closeCurrentResponsesItem :: "AnthropicEventToResponsesState \<Rightarrow> ar_result" where
  "closeCurrentResponsesItem st =
     (if st_CurrentItemType st = [] then (st, [])
      else
        (let item = current_item st;
             st' = st\<lparr>st_Outputs := st_Outputs st @ [item], st_CurrentItemType := [], st_CurrentItemID := [],
                      st_CurrentCallID := [], st_CurrentName := [], st_CurrentContent := [], st_CurrentArgs := [],
                      st_CurrentSummary := [], st_TextAccum := [], st_OutputIndex := st_OutputIndex st + 1,
                      st_ContentIndex := 0\<rparr>
         in makeResponsesEvent ''response.output_item.done''
              (zeroResponsesStreamEvent\<lparr>rv_OutputIndex := st_OutputIndex st' - 1, rv_Item := Some item\<rparr>) st'))"

definition pos_or :: "int \<Rightarrow> int \<Rightarrow> int" where
  "pos_or new old = (if new > 0 then new else old)"

definition anthToResHandleMessageStart ::
  "AnthropicStreamEvent \<Rightarrow> AnthropicEventToResponsesState \<Rightarrow> ar_result" where
  "anthToResHandleMessageStart evt st0 =
     (let st = (case ae_Message evt of
                  None \<Rightarrow> st0
                | Some m \<Rightarrow>
                    st0\<lparr>st_ResponseID := ar_ID m,
                        st_Model := (if st_Model st0 = [] then ar_Model m else st_Model st0),
                        st_InputTokens := pos_or (au_InputTokens (ar_Usage m)) (st_InputTokens st0),
                        st_CacheReadInputTokens :=
                          pos_or (au_CacheReadInputTokens (ar_Usage m)) (st_CacheReadInputTokens st0),
                        st_CacheCreationInputTokens :=
                          pos_or (au_CacheCreationInputTokens (ar_Usage m)) (st_CacheCreationInputTokens st0)\<rparr>)
      in if st_CreatedSent st then (st, [])
         else makeResponsesCreatedEvent (st\<lparr>st_CreatedSent := True\<rparr>))"

definition open_item ::
  "(nat \<Rightarrow> string) \<Rightarrow> string \<Rightarrow> AnthropicEventToResponsesState \<Rightarrow> AnthropicEventToResponsesState" where
  "open_item rand t st = st\<lparr>st_CurrentItemID := generateItemID rand (st_rand st), st_rand := Suc (st_rand st),
     st_CurrentItemType := t\<rparr>"

definition item_added :: "ResponsesOutput \<Rightarrow> AnthropicEventToResponsesState \<Rightarrow> ar_result" where
  "item_added item st = makeResponsesEvent ''response.output_item.added''
     (zeroResponsesStreamEvent\<lparr>rv_OutputIndex := st_OutputIndex st, rv_Item := Some item\<rparr>) st"

definition anthToResHandleContentBlockStart ::
  "(nat \<Rightarrow> string) \<Rightarrow> AnthropicStreamEvent \<Rightarrow> AnthropicEventToResponsesState \<Rightarrow> ar_result" where
  "anthToResHandleContentBlockStart rand evt st0 =
     (case ae_ContentBlock evt of
        None \<Rightarrow> (st0, [])
      | Some b \<Rightarrow>
          if cb_Type b = ''thinking'' then
            (let st = (open_item rand ''reasoning'' st0)\<lparr>st_ContentIndex := 0\<rparr>
             in item_added (zeroResponsesOutput\<lparr>ro_Type := ''reasoning'', ro_ID := st_CurrentItemID st\<rparr>) st)
          else if cb_Type b = ''text'' then
            (let opened =
                   (if st_CurrentItemType st0 \<noteq> ''message'' then
                      (let st = (open_item rand ''message'' st0)\<lparr>st_ContentIndex := 0\<rparr>
                       in item_added (zeroResponsesOutput\<lparr>ro_Type := ''message'', ro_ID := st_CurrentItemID st,
                            ro_Role := ''assistant'', ro_Status := ''in_progress''\<rparr>) st)
                    else (st0, []));
                 (st', evs) = emit_seq opened (\<lambda>st. makeResponsesEvent ''response.content_part.added''
                   (zeroResponsesStreamEvent\<lparr>rv_OutputIndex := st_OutputIndex st,
                      rv_ContentIndex := st_ContentIndex st, rv_ItemID := st_CurrentItemID st,
                      rv_Part := Some (zeroResponsesContentPart\<lparr>cp_Type := ''output_text'', cp_Text := []\<rparr>)\<rparr>) st)
             in (st'\<lparr>st_TextAccum := []\<rparr>, evs))
          else if cb_Type b = ''tool_use'' then
            emit_seq (closeCurrentResponsesItem st0) (\<lambda>st1.
              (let st = (open_item rand ''function_call'' st1)\<lparr>st_CurrentCallID := toResponsesCallID (cb_ID b),
                          st_CurrentName := cb_Name b\<rparr>
               in item_added (zeroResponsesOutput\<lparr>ro_Type := ''function_call'', ro_ID := st_CurrentItemID st,
                    ro_CallID := st_CurrentCallID st, ro_Name := st_CurrentName st,
                    ro_Status := ''in_progress''\<rparr>) st))
          else (st0, []))"

definition anthToResHandleContentBlockDelta ::
  "AnthropicStreamEvent \<Rightarrow> AnthropicEventToResponsesState \<Rightarrow> ar_result" where
  "anthToResHandleContentBlockDelta evt st =
     (case ae_Delta evt of
        None \<Rightarrow> (st, [])
      | Some d \<Rightarrow>
          if ad_Type d = ''text_delta'' then
            (if ad_Text d = [] then (st, [])
             else makeResponsesEvent ''response.output_text.delta''
               (zeroResponsesStreamEvent\<lparr>rv_OutputIndex := st_OutputIndex st, rv_ContentIndex := st_ContentIndex st,
                  rv_Delta := ad_Text d, rv_ItemID := st_CurrentItemID st\<rparr>)
               (st\<lparr>st_TextAccum := st_TextAccum st @ ad_Text d\<rparr>))
          else if ad_Type d = ''thinking_delta'' then
            (if ad_Thinking d = [] then (st, [])
             else makeResponsesEvent ''response.reasoning_summary_text.delta''
               (zeroResponsesStreamEvent\<lparr>rv_OutputIndex := st_OutputIndex st, rv_SummaryIndex := 0,
                  rv_Delta := ad_Thinking d, rv_ItemID := st_CurrentItemID st\<rparr>)
               (st\<lparr>st_CurrentSummary := st_CurrentSummary st @ ad_Thinking d\<rparr>))
          else if ad_Type d = ''input_json_delta'' then
            (if ad_PartialJSON d = [] then (st, [])
             else makeResponsesEvent ''response.function_call_arguments.delta''
               (zeroResponsesStreamEvent\<lparr>rv_OutputIndex := st_OutputIndex st, rv_Delta := ad_PartialJSON d,
                  rv_ItemID := st_CurrentItemID st, rv_CallID := st_CurrentCallID st, rv_Name := st_CurrentName st\<rparr>)
               (st\<lparr>st_CurrentArgs := st_CurrentArgs st @ ad_PartialJSON d\<rparr>))
          else (st, []))"

definition anthToResHandleContentBlockStop :: "AnthropicEventToResponsesState \<Rightarrow> ar_result" where
  "anthToResHandleContentBlockStop st =
     (if st_CurrentItemType st = ''reasoning'' then
        emit_seq (makeResponsesEvent ''response.reasoning_summary_text.done''
            (zeroResponsesStreamEvent\<lparr>rv_OutputIndex := st_OutputIndex st, rv_SummaryIndex := 0,
               rv_ItemID := st_CurrentItemID st\<rparr>) st) closeCurrentResponsesItem
      else if st_CurrentItemType st = ''function_call'' then
        emit_seq (makeResponsesEvent ''response.function_call_arguments.done''
            (zeroResponsesStreamEvent\<lparr>rv_OutputIndex := st_OutputIndex st, rv_ItemID := st_CurrentItemID st,
               rv_CallID := st_CurrentCallID st, rv_Name := st_CurrentName st\<rparr>) st) closeCurrentResponsesItem
      else if st_CurrentItemType st = ''message'' then
        (let txt = st_TextAccum st;
             part = zeroResponsesContentPart\<lparr>cp_Type := ''output_text'', cp_Text := txt\<rparr>;
             st1 = st\<lparr>st_TextAccum := [], st_CurrentContent := st_CurrentContent st @ [part]\<rparr>
         in emit_seq (makeResponsesEvent ''response.output_text.done''
                (zeroResponsesStreamEvent\<lparr>rv_OutputIndex := st_OutputIndex st1, rv_ContentIndex := st_ContentIndex st1,
                   rv_ItemID := st_CurrentItemID st1, rv_Text := txt\<rparr>) st1)
              (\<lambda>s. makeResponsesEvent ''response.content_part.done''
                (zeroResponsesStreamEvent\<lparr>rv_OutputIndex := st_OutputIndex s, rv_ContentIndex := st_ContentIndex s,
                   rv_ItemID := st_CurrentItemID s, rv_Part := Some part\<rparr>) s))
      else (st, []))"

definition anthToResHandleMessageDelta ::
  "AnthropicStreamEvent \<Rightarrow> AnthropicEventToResponsesState \<Rightarrow> ar_result" where
  "anthToResHandleMessageDelta evt st0 =
     (let st1 = (case ae_Usage evt of
                   None \<Rightarrow> st0
                 | Some u \<Rightarrow>
                     st0\<lparr>st_OutputTokens := au_OutputTokens u,
                         st_InputTokens := pos_or (au_InputTokens u) (st_InputTokens st0),
                         st_CacheReadInputTokens := pos_or (au_CacheReadInputTokens u) (st_CacheReadInputTokens st0),
                         st_CacheCreationInputTokens :=
                           pos_or (au_CacheCreationInputTokens u) (st_CacheCreationInputTokens st0)\<rparr>);
          st2 = (case ae_Delta evt of
                   None \<Rightarrow> st1
                 | Some d \<Rightarrow> if ad_StopReason d \<noteq> [] then st1\<lparr>st_StopReason := ad_StopReason d\<rparr> else st1)
      in (st2, []))"

definition anthropicResponsesStreamTerminalState ::
  "string \<Rightarrow> string \<times> ResponsesIncompleteDetails option" where
  "anthropicResponsesStreamTerminalState stopReason =
     (if stopReason = ''max_tokens'' then (''incomplete'', Some \<lparr>rd_Reason = ''max_output_tokens''\<rparr>)
      else (''completed'', None))"

text \<open>The shared end of \<open>anthToResHandleMessageStop\<close> and \<open>FinalizeAnthropicResponsesStream\<close>.\<close>

definition finish_stream :: "AnthropicEventToResponsesState \<Rightarrow> ar_result" where
  "finish_stream st =
     (let (st', evs) = emit_seq (closeCurrentResponsesItem st) (\<lambda>s.
            (case anthropicResponsesStreamTerminalState (st_StopReason s) of
               (status, details) \<Rightarrow> makeResponsesCompletedEvent status details s))
      in (st'\<lparr>st_CompletedSent := True\<rparr>, evs))"

definition anthToResHandleMessageStop :: "AnthropicEventToResponsesState \<Rightarrow> ar_result" where
  "anthToResHandleMessageStop st = (if st_CompletedSent st then (st, []) else finish_stream st)"

definition AnthropicEventToResponsesEvents ::
  "(nat \<Rightarrow> string) \<Rightarrow> AnthropicStreamEvent \<Rightarrow> AnthropicEventToResponsesState \<Rightarrow> ar_result" where
  "AnthropicEventToResponsesEvents rand evt st =
     (let t = ae_Type evt
      in if t = ''message_start'' then anthToResHandleMessageStart evt st
         else if t = ''content_block_start'' then anthToResHandleContentBlockStart rand evt st
         else if t = ''content_block_delta'' then anthToResHandleContentBlockDelta evt st
         else if t = ''content_block_stop'' then anthToResHandleContentBlockStop st
         else if t = ''message_delta'' then anthToResHandleMessageDelta evt st
         else if t = ''message_stop'' then anthToResHandleMessageStop st
         else (st, []))"

definition FinalizeAnthropicResponsesStream :: "AnthropicEventToResponsesState \<Rightarrow> ar_result" where
  "FinalizeAnthropicResponsesStream st =
     (if \<not> st_CreatedSent st \<or> st_CompletedSent st then (st, []) else finish_stream st)"

end
