(* ===== verification/Stream_Contracts.thy ===== *)
theory Stream_Contracts
  imports Responses_To_Chat Anthropic_To_Responses
begin

text \<open>
  The three stream converters against the contract of a stream converter (\<open>stream_converter\<close>).

  \<^item> Responses to Anthropic: the monitor is a strict client of the Messages protocol. Blocks start
    at index 0 and are numbered in sequence, one is open at a time, a delta names a block that was
    started, the message starts and stops at most once and stops with no block open.
  \<^item> Anthropic to Responses: sequence numbers are consecutive, the output index of every item event
    is the number of finished items, and the terminal event comes once and carries exactly the
    finished items.
  \<^item> Responses to Chat: the monitor is a client that assembles the chunks; it is run beside the
    accumulator of the buffered path, and both hold the same content at every moment.
\<close>

section \<open>Monitors, views and invariants\<close>

text \<open>View: next block index, whether a block is open, message_start sent, message_stop sent.\<close>

type_synonym block_view = "int \<times> bool \<times> bool \<times> bool"

definition block_monitor :: "AnthropicStreamEvent \<Rightarrow> block_view \<Rightarrow> block_view option" where
  "block_monitor e v =
     (case v of (n, opened, started, stopped) \<Rightarrow>
        if ae_Type e = ''content_block_start'' then
          (if \<not> opened \<and> ae_Index e = Some n then Some (n, True, started, stopped) else None)
        else if ae_Type e = ''content_block_stop'' then
          (if opened \<and> ae_Index e = Some n then Some (n + 1, False, started, stopped) else None)
        else if ae_Type e = ''content_block_delta'' then
          (case ae_Index e of
             None \<Rightarrow> None
           | Some i \<Rightarrow> if 0 \<le> i \<and> (i < n \<or> i = n \<and> opened) then Some v else None)
        else if ae_Type e = ''message_start'' then
          (if started then None else Some (n, opened, True, stopped))
        else if ae_Type e = ''message_delta'' then
          (if opened \<or> stopped then None else Some v)
        else if ae_Type e = ''message_stop'' then
          (if opened \<or> stopped then None else Some (n, opened, started, True))
        else None)"

definition block_view :: "ResponsesEventToAnthropicState \<Rightarrow> block_view" where
  "block_view st = (ra_ContentBlockIndex st, ra_ContentBlockOpen st, ra_MessageStartSent st, ra_MessageStopSent st)"

text \<open>Every block an output index points to was started.\<close>

definition block_inv :: "ResponsesEventToAnthropicState \<Rightarrow> bool" where
  "block_inv st \<longleftrightarrow> 0 \<le> ra_ContentBlockIndex st \<and>
     (\<forall>k i. ra_OutputIndexToBlockIdx st k = Some i \<longrightarrow>
        0 \<le> i \<and> (i < ra_ContentBlockIndex st \<or> i = ra_ContentBlockIndex st \<and> ra_ContentBlockOpen st))"

definition block_ok :: "ResponsesEventToAnthropicState \<Rightarrow> ra_result \<Rightarrow> bool" where
  "block_ok st r \<longleftrightarrow> block_inv (fst r) \<and> run_monitor block_monitor (snd r) (block_view st) = Some (block_view (fst r))"

text \<open>View: next sequence number, the items closed so far, response.created sent, terminal event sent.\<close>

type_synonym item_view = "int \<times> ResponsesOutput list \<times> bool \<times> bool"

definition item_monitor :: "ResponsesStreamEvent \<Rightarrow> item_view \<Rightarrow> item_view option" where
  "item_monitor e v =
     (case v of (n, items, created, completed) \<Rightarrow>
        if rv_SequenceNumber e \<noteq> n then None
        else if rv_Type e = ''response.created'' then
          (if created then None else Some (n + 1, items, True, completed))
        else if rv_Type e = ''response.completed'' \<or> rv_Type e = ''response.incomplete'' then
          (if completed \<or> map_option rr_Output (rv_Response e) \<noteq> Some items then None
           else Some (n + 1, items, created, True))
        else if rv_OutputIndex e \<noteq> int (length items) then None
        else if rv_Type e = ''response.output_item.done'' then
          map_option (\<lambda>i. (n + 1, items @ [i], created, completed)) (rv_Item e)
        else Some (n + 1, items, created, completed))"

definition item_view :: "AnthropicEventToResponsesState \<Rightarrow> item_view" where
  "item_view st = (st_SequenceNumber st, st_Outputs st, st_CreatedSent st, st_CompletedSent st)"

text \<open>The output index counts the closed items.\<close>

definition item_inv :: "AnthropicEventToResponsesState \<Rightarrow> bool" where
  "item_inv st \<longleftrightarrow> st_OutputIndex st = int (length (st_Outputs st))"

definition item_ok :: "AnthropicEventToResponsesState \<Rightarrow> ar_result \<Rightarrow> bool" where
  "item_ok st r \<longleftrightarrow> item_inv (fst r) \<and> run_monitor item_monitor (snd r) (item_view st) = Some (item_view (fst r))"

type_synonym assembled = "string \<times> string \<times> (string \<times> string \<times> string) list"

text \<open>A client that assembles a chunk stream: tool calls are opened in order and extended by index.\<close>

fun merge_calls :: "ChatToolCall list \<Rightarrow> (string \<times> string \<times> string) list \<Rightarrow> (string \<times> string \<times> string) list option" where
  "merge_calls [] calls = Some calls"
| "merge_calls (t # ts) calls =
     (case tc_Index t of
        None \<Rightarrow> None
      | Some i \<Rightarrow>
          if tc_Type t = ''function'' then
            (if i = int (length calls)
             then merge_calls ts (calls @ [(tc_ID t, fc_Name (tc_Function t), fc_Arguments (tc_Function t))])
             else None)
          else if 0 \<le> i \<and> i < int (length calls) then
            (case calls ! nat i of (c, n, a) \<Rightarrow>
               merge_calls ts (calls[nat i := (c, n, a @ fc_Arguments (tc_Function t))]))
          else None)"

definition opt_text :: "string option \<Rightarrow> string" where
  "opt_text x = (case x of None \<Rightarrow> [] | Some s \<Rightarrow> s)"

definition assemble :: "ChatCompletionsChunk \<Rightarrow> assembled \<Rightarrow> assembled option" where
  "assemble c acc =
     (case acc of (content, reasoning, calls) \<Rightarrow>
        (case cx_Choices c of
           [] \<Rightarrow> Some acc
         | k # _ \<Rightarrow>
             map_option (\<lambda>calls'. (content @ opt_text (cd_Content (ck_Delta k)),
                                   reasoning @ opt_text (cd_ReasoningContent (ck_Delta k)), calls'))
               (merge_calls (cd_ToolCalls (ck_Delta k)) calls)))"

text \<open>The stream converter and the accumulator side by side.\<close>

definition chat_and_buffer ::
  "ResponsesStreamEvent \<Rightarrow> ResponsesEventToChatState \<times> BufferedResponseAccumulator
     \<Rightarrow> (ResponsesEventToChatState \<times> BufferedResponseAccumulator) \<times> ChatCompletionsChunk list" where
  "chat_and_buffer e s =
     (case ResponsesEventToChatChunks e (fst s) of (st, out) \<Rightarrow> ((st, ProcessEvent e (snd s)), out))"

definition call_triple :: "bufferedFuncCall \<Rightarrow> string \<times> string \<times> string" where
  "call_triple c = (bf_CallID c, bf_Name c, bf_Args c)"

definition buffered :: "BufferedResponseAccumulator \<Rightarrow> assembled" where
  "buffered a = (ba_text a, ba_reasoning a, map call_triple (ba_funcCalls a))"

definition chat_inv :: "ResponsesEventToChatState \<times> BufferedResponseAccumulator \<Rightarrow> bool" where
  "chat_inv s \<longleftrightarrow>
     sc_NextToolCallIndex (fst s) = int (length (ba_funcCalls (snd s))) \<and>
     (\<forall>k. sc_OutputIndexToToolIndex (fst s) k = map_option int (ba_outputIndexToFuncIdx (snd s) k)) \<and>
     (\<forall>k i. ba_outputIndexToFuncIdx (snd s) k = Some i \<longrightarrow> i < length (ba_funcCalls (snd s)))"

definition chat_ok ::
  "BufferedResponseAccumulator \<Rightarrow> (ResponsesEventToChatState \<times> BufferedResponseAccumulator) \<times> ChatCompletionsChunk list
     \<Rightarrow> bool" where
  "chat_ok a r \<longleftrightarrow> chat_inv (fst r) \<and> run_monitor assemble (snd r) (buffered a) = Some (buffered (snd (fst r)))"

section \<open>Responses to Anthropic\<close>

lemmas block_event_defs = block_start_def block_stop_def block_delta_def block_event_def input_json_delta_def
  zeroAnthropicStreamEvent_def

lemma monitor_start [simp]:
  "block_monitor (block_start i b) (n, False, sa, so) = (if i = n then Some (n, True, sa, so) else None)"
  by (simp add: block_monitor_def block_event_defs)

lemma monitor_stop [simp]:
  "block_monitor (block_stop i) (n, True, sa, so) = (if i = n then Some (n + 1, False, sa, so) else None)"
  by (simp add: block_monitor_def block_event_defs)

lemma monitor_delta [simp]:
  "block_monitor (block_delta i d) (n, opened, sa, so) =
     (if 0 \<le> i \<and> (i < n \<or> i = n \<and> opened) then Some (n, opened, sa, so) else None)"
  by (simp add: block_monitor_def block_event_defs)

lemma monitor_json_delta [simp]:
  "block_monitor (input_json_delta i s) (n, opened, sa, so) =
     (if 0 \<le> i \<and> (i < n \<or> i = n \<and> opened) then Some (n, opened, sa, so) else None)"
  by (simp add: input_json_delta_def)

lemma close_block_ok:
  assumes "block_inv st"
  shows "block_ok st (closeCurrentBlock st)"
    and "\<not> ra_ContentBlockOpen (fst (closeCurrentBlock st))"
  using assms by (auto simp: block_ok_def block_inv_def block_view_def closeCurrentBlock_def Let_def; fastforce)+

lemma close_keeps:
  "ra_MessageStartSent (fst (closeCurrentBlock st)) = ra_MessageStartSent st"
  "ra_MessageStopSent (fst (closeCurrentBlock st)) = ra_MessageStopSent st"
  "ra_HasToolCall (fst (closeCurrentBlock st)) = ra_HasToolCall st"
  by (simp_all add: closeCurrentBlock_def Let_def)

lemma close_then:
  assumes "block_inv st"
  obtains st1 evs where "closeCurrentBlock st = (st1, evs)" "block_inv st1" "\<not> ra_ContentBlockOpen st1"
    "run_monitor block_monitor evs (block_view st) = Some (block_view st1)"
    "ra_MessageStopSent st1 = ra_MessageStopSent st" "ra_MessageStartSent st1 = ra_MessageStartSent st"
  using close_block_ok [OF assms] close_keeps [of st] by (cases "closeCurrentBlock st") (auto simp: block_ok_def)

lemma handlers_block_ok:
  assumes inv: "block_inv st"
  shows "block_ok st (resToAnthHandleCreated evt st)"
    and "block_ok st (resToAnthHandleOutputItemAdded evt st)"
    and "block_ok st (resToAnthHandleTextDelta evt st)"
    and "block_ok st (resToAnthHandleFuncArgsDelta evt st)"
    and "block_ok st (resToAnthHandleBlockDone st)"
    and "block_ok st (resToAnthHandleFuncArgsDone evt st)"
    and "block_ok st (resToAnthHandleReasoningDelta evt st)"
    and "block_ok st (resToAnthHandleCompleted evt st)"
    and "block_ok st (FinalizeResponsesAnthropicStream st)"
proof -
  obtain st1 evs where c: "closeCurrentBlock st = (st1, evs)" "block_inv st1" "\<not> ra_ContentBlockOpen st1"
    "run_monitor block_monitor evs (block_view st) = Some (block_view st1)"
    "ra_MessageStopSent st1 = ra_MessageStopSent st" "ra_MessageStartSent st1 = ra_MessageStartSent st"
    by (rule close_then [OF inv])
  have idle: "block_ok st (st, [])" using inv by (simp add: block_ok_def)
  have ok1: "block_ok st (st1, evs)" using c by (simp add: block_ok_def)
  show "block_ok st (resToAnthHandleCreated evt st)"
    using inv by (auto simp: resToAnthHandleCreated_def Let_def block_ok_def block_inv_def block_view_def
        block_monitor_def zeroAnthropicStreamEvent_def split: option.split)
  show "block_ok st (resToAnthHandleOutputItemAdded evt st)"
    using c idle by (auto simp: resToAnthHandleOutputItemAdded_def Let_def block_ok_def run_monitor_append
        block_view_def block_inv_def split: option.split)
  show "block_ok st (resToAnthHandleTextDelta evt st)"
    using c inv by (auto simp: resToAnthHandleTextDelta_def Let_def block_ok_def run_monitor_append
        block_view_def block_inv_def)
  show "block_ok st (resToAnthHandleFuncArgsDelta evt st)"
    using inv by (auto simp: resToAnthHandleFuncArgsDelta_def Let_def block_ok_def block_view_def block_inv_def
        split: option.split)
  show bdone: "block_ok st (resToAnthHandleBlockDone st)"
    using idle ok1 c(1) by (simp add: resToAnthHandleBlockDone_def)
  show "block_ok st (resToAnthHandleFuncArgsDone evt st)"
  proof -
    have "block_ok st (st1, input_json_delta (ra_ContentBlockIndex st) raw # evs)" if "ra_ContentBlockOpen st" for raw
      using c(2,4) inv that by (simp add: block_ok_def block_view_def block_inv_def)
    then show ?thesis
      using idle ok1 bdone c(1) by (simp add: resToAnthHandleFuncArgsDone_def Let_def)
  qed
  show "block_ok st (resToAnthHandleReasoningDelta evt st)"
    using inv by (auto simp: resToAnthHandleReasoningDelta_def block_ok_def block_view_def block_inv_def
        split: option.split)
  show "block_ok st (resToAnthHandleCompleted evt st)"
    using c idle by (auto simp: resToAnthHandleCompleted_def Let_def block_ok_def run_monitor_append
        block_view_def block_inv_def set_usage_def message_end_def block_monitor_def zeroAnthropicStreamEvent_def
        split: option.split)
  show "block_ok st (FinalizeResponsesAnthropicStream st)"
    using c idle by (auto simp: FinalizeResponsesAnthropicStream_def Let_def block_ok_def run_monitor_append
        block_view_def block_inv_def message_end_def block_monitor_def zeroAnthropicStreamEvent_def)
qed

lemma item_done_block_ok:
  assumes inv: "block_inv st"
  shows "block_ok st (resToAnthHandleOutputItemDone evt st)"
proof (cases "rv_Item evt")
  case None
  then show ?thesis using inv by (simp add: resToAnthHandleOutputItemDone_def block_ok_def)
next
  case (Some item)
  let ?st = "if ro_Type item = ''reasoning'' \<and> TrimSpace (ro_EncryptedContent item) \<noteq> []
             then st\<lparr>ra_PendingThinkingSignature := TrimSpace (ro_EncryptedContent item)\<rparr> else st"
  have inv': "block_inv ?st" and view': "block_view ?st = block_view st"
    using inv by (simp_all add: block_inv_def block_view_def)
  have "block_ok st (resToAnthHandleWebSearchDone item st)"
  proof (rule close_then [OF inv])
    fix st1 evs
    assume c: "closeCurrentBlock st = (st1, evs)" "block_inv st1" "\<not> ra_ContentBlockOpen st1"
      "run_monitor block_monitor evs (block_view st) = Some (block_view st1)"
    then have lt: "ra_OutputIndexToBlockIdx st1 k = Some i \<Longrightarrow> 0 \<le> i \<and> i < ra_ContentBlockIndex st1" for k i
      by (auto simp: block_inv_def)
    from c show ?thesis
      by (auto simp: resToAnthHandleWebSearchDone_def Let_def block_ok_def run_monitor_append block_view_def
          block_inv_def dest: lt)
  qed
  moreover have "block_ok st (if ra_ContentBlockOpen ?st then closeCurrentBlock ?st else (?st, []))"
    using close_block_ok(1) [OF inv'] inv' view' by (simp add: block_ok_def split del: if_split) simp
  ultimately show ?thesis using Some by (simp add: resToAnthHandleOutputItemDone_def Let_def)
qed

lemma event_block_ok: "block_inv st \<Longrightarrow> block_ok st (ResponsesEventToAnthropicEvents evt st)"
  unfolding ResponsesEventToAnthropicEvents_def Let_def
  by (simp add: handlers_block_ok item_done_block_ok) (simp add: block_ok_def)

interpretation r2a: stream_converter ResponsesEventToAnthropicEvents block_inv block_monitor block_view
proof unfold_locales
  fix st evt st' out
  assume "block_inv st" "ResponsesEventToAnthropicEvents evt st = (st', out)"
  with event_block_ok [of st evt] show "block_inv st' \<and> run_monitor block_monitor out (block_view st) = Some (block_view st')"
    by (simp add: block_ok_def)
qed

section \<open>Anthropic to Responses\<close>

lemma item_ok_seq:
  assumes "item_ok st r" and "item_inv (fst r) \<Longrightarrow> item_ok (fst r) (f (fst r))"
  shows "item_ok st (emit_seq r f)"
  using assms by (cases r; cases "f (fst r)") (auto simp: item_ok_def emit_seq_def run_monitor_append)

lemma item_ok_event:
  assumes "item_inv st" "item_inv st'" "rv_OutputIndex e = st_OutputIndex st"
    "t \<notin> {''response.created'', ''response.completed'', ''response.incomplete'', ''response.output_item.done''}"
    "st_SequenceNumber st' = st_SequenceNumber st" "st_Outputs st' = st_Outputs st"
    "st_CreatedSent st' = st_CreatedSent st" "st_CompletedSent st' = st_CompletedSent st"
  shows "item_ok st (makeResponsesEvent t e st')"
  using assms by (auto simp: item_ok_def makeResponsesEvent_def item_view_def item_monitor_def item_inv_def)

lemma item_ok_idle:
  assumes "item_inv st'" "item_view st' = item_view st"
  shows "item_ok st (st', [])"
  using assms by (simp add: item_ok_def)

lemma close_item_ok: "item_inv st \<Longrightarrow> item_ok st (closeCurrentResponsesItem st)"
  by (auto simp: closeCurrentResponsesItem_def makeResponsesEvent_def item_ok_def item_inv_def item_view_def
      item_monitor_def Let_def zeroResponsesStreamEvent_def)

lemma finish_ok: "item_inv st \<Longrightarrow> \<not> st_CompletedSent st \<Longrightarrow> item_ok st (finish_stream st)"
proof -
  assume inv: "item_inv st" and open_stream: "\<not> st_CompletedSent st"
  obtain s evs where c: "closeCurrentResponsesItem st = (s, evs)" by (cases "closeCurrentResponsesItem st")
  have "\<not> st_CompletedSent s"
    using c open_stream by (auto simp: closeCurrentResponsesItem_def makeResponsesEvent_def Let_def split: if_splits)
  with close_item_ok [OF inv] c show ?thesis
    by (auto simp: finish_stream_def emit_seq_def Let_def item_ok_def run_monitor_append item_inv_def item_view_def
        makeResponsesCompletedEvent_def anthropicResponsesStreamTerminalState_def item_monitor_def
        zeroResponsesStreamEvent_def zeroResponsesResponse_def split: prod.split)
qed

lemma start_ok: "item_inv st \<Longrightarrow> item_ok st (anthToResHandleMessageStart evt st)"
  by (auto simp: anthToResHandleMessageStart_def Let_def item_ok_def item_inv_def item_view_def
      makeResponsesCreatedEvent_def item_monitor_def zeroResponsesStreamEvent_def split: option.split)

lemma added_ok:
  assumes "item_inv st" "item_inv s" "item_view s = item_view st" "st_OutputIndex s = st_OutputIndex st"
  shows "item_ok st (item_added i s)"
  unfolding item_added_def
  by (rule item_ok_event) (use assms in \<open>auto simp: item_view_def zeroResponsesStreamEvent_def\<close>)

lemma open_item_view [simp]:
  "item_view (open_item rand t st) = item_view st" "item_inv (open_item rand t st) = item_inv st"
  "st_OutputIndex (open_item rand t st) = st_OutputIndex st"
  by (simp_all add: open_item_def item_view_def item_inv_def)

lemma item_upd [simp]:
  "item_view (st\<lparr>st_ContentIndex := i\<rparr>) = item_view st" "item_inv (st\<lparr>st_ContentIndex := i\<rparr>) = item_inv st"
  "item_view (st\<lparr>st_TextAccum := x\<rparr>) = item_view st" "item_inv (st\<lparr>st_TextAccum := x\<rparr>) = item_inv st"
  "item_view (st\<lparr>st_CurrentName := x\<rparr>) = item_view st" "item_inv (st\<lparr>st_CurrentName := x\<rparr>) = item_inv st"
  "item_view (st\<lparr>st_CurrentCallID := x\<rparr>) = item_view st" "item_inv (st\<lparr>st_CurrentCallID := x\<rparr>) = item_inv st"
  by (simp_all add: item_view_def item_inv_def)

lemma item_ok_reset: "item_ok st r \<Longrightarrow> item_ok st (case r of (s, evs) \<Rightarrow> (s\<lparr>st_TextAccum := []\<rparr>, evs))"
  by (cases r) (simp add: item_ok_def)

lemma block_start_ok:
  assumes inv: "item_inv st"
  shows "item_ok st (anthToResHandleContentBlockStart rand evt st)"
proof (cases "ae_ContentBlock evt")
  case None
  then show ?thesis using inv by (simp add: anthToResHandleContentBlockStart_def item_ok_idle)
next
  case (Some b)
  let ?m = "(open_item rand ''message'' st)\<lparr>st_ContentIndex := 0\<rparr>"
  have opened: "item_ok st (if st_CurrentItemType st \<noteq> ''message'' then item_added i ?m else (st, []))" for i
    using inv by (simp add: added_ok item_ok_idle)
  have part: "item_ok st (case emit_seq r (\<lambda>s. makeResponsesEvent ''response.content_part.added''
        (zeroResponsesStreamEvent\<lparr>rv_OutputIndex := st_OutputIndex s, rv_ContentIndex := st_ContentIndex s,
           rv_ItemID := st_CurrentItemID s, rv_Part := p\<rparr>) s) of (st', evs) \<Rightarrow> (st'\<lparr>st_TextAccum := []\<rparr>, evs))"
    if "item_ok st r" for r p
    by (rule item_ok_reset, rule item_ok_seq [OF that], rule item_ok_event) (simp_all add: zeroResponsesStreamEvent_def)
  have tool: "item_ok st (emit_seq (closeCurrentResponsesItem st) (\<lambda>s1. item_added (i s1)
      ((open_item rand ''function_call'' s1)\<lparr>st_CurrentCallID := c, st_CurrentName := n\<rparr>)))" for i c n
    using close_item_ok [OF inv] by (rule item_ok_seq) (simp add: added_ok)
  show ?thesis
    using Some inv opened part tool
    by (simp add: anthToResHandleContentBlockStart_def Let_def added_ok item_ok_idle)
qed

lemma block_delta_ok:
  assumes inv: "item_inv st"
  shows "item_ok st (anthToResHandleContentBlockDelta evt st)"
  using inv unfolding anthToResHandleContentBlockDelta_def
  by (auto intro!: item_ok_event item_ok_idle simp: zeroResponsesStreamEvent_def split: option.split)
     (simp_all add: item_inv_def)

lemma block_stop_ok:
  assumes inv: "item_inv st"
  shows "item_ok st (anthToResHandleContentBlockStop st)"
proof -
  have ev: "item_ok st (makeResponsesEvent t (zeroResponsesStreamEvent\<lparr>rv_OutputIndex := st_OutputIndex st,
       rv_SummaryIndex := 0, rv_ItemID := a\<rparr>) st)"
    "item_ok st (makeResponsesEvent t (zeroResponsesStreamEvent\<lparr>rv_OutputIndex := st_OutputIndex st,
       rv_ItemID := a, rv_CallID := b, rv_Name := c\<rparr>) st)"
    if "t \<notin> {''response.created'', ''response.completed'', ''response.incomplete'', ''response.output_item.done''}" for t a b c
    using inv that by (auto intro!: item_ok_event simp: zeroResponsesStreamEvent_def)
  have msg: "item_ok st (emit_seq (makeResponsesEvent ''response.output_text.done''
        (zeroResponsesStreamEvent\<lparr>rv_OutputIndex := st_OutputIndex s1, rv_ContentIndex := i, rv_ItemID := a, rv_Text := x\<rparr>) s1)
      (\<lambda>s. makeResponsesEvent ''response.content_part.done''
        (zeroResponsesStreamEvent\<lparr>rv_OutputIndex := st_OutputIndex s, rv_ContentIndex := st_ContentIndex s,
           rv_ItemID := st_CurrentItemID s, rv_Part := q\<rparr>) s))"
    if "s1 = st\<lparr>st_TextAccum := [], st_CurrentContent := y\<rparr>" for s1 y i a x q
    by (rule item_ok_seq; rule item_ok_event)
       (use inv that in \<open>auto simp: zeroResponsesStreamEvent_def item_inv_def\<close>)
  show ?thesis
    using inv ev [THEN item_ok_seq] msg [OF refl] close_item_ok
    by (simp add: anthToResHandleContentBlockStop_def Let_def item_ok_idle)
qed

lemma message_delta_ok: "item_inv st \<Longrightarrow> item_ok st (anthToResHandleMessageDelta evt st)"
  by (auto simp: anthToResHandleMessageDelta_def Let_def item_ok_def item_inv_def item_view_def split: option.split)

lemma event_item_ok: "item_inv st \<Longrightarrow> item_ok st (AnthropicEventToResponsesEvents rand evt st)"
  by (simp add: AnthropicEventToResponsesEvents_def Let_def start_ok block_start_ok block_delta_ok block_stop_ok
      message_delta_ok anthToResHandleMessageStop_def finish_ok item_ok_idle)

interpretation a2r: stream_converter "AnthropicEventToResponsesEvents rand" item_inv item_monitor item_view
  for rand
proof unfold_locales
  fix st evt st' out
  assume "item_inv st" "AnthropicEventToResponsesEvents rand evt st = (st', out)"
  with event_item_ok [of st rand evt] show "item_inv st' \<and> run_monitor item_monitor out (item_view st) = Some (item_view st')"
    by (simp add: item_ok_def)
qed

section \<open>Responses to Chat\<close>

lemma assemble_delta:
  "assemble (makeChatDeltaChunk st d) (content, reasoning, calls) =
     map_option (\<lambda>calls'. (content @ opt_text (cd_Content d), reasoning @ opt_text (cd_ReasoningContent d), calls'))
       (merge_calls (cd_ToolCalls d) calls)"
  by (simp add: assemble_def makeChatDeltaChunk_def zeroChatCompletionsChunk_def)

lemma assemble_finish: "assemble (makeChatFinishChunk st r) acc = Some acc"
  by (cases acc) (simp add: assemble_def makeChatFinishChunk_def zeroChatCompletionsChunk_def zeroChatDelta_def opt_text_def)

lemma assemble_usage: "run_monitor assemble (usage_chunks st) acc = Some acc"
  by (cases acc) (simp add: usage_chunks_def assemble_def zeroChatCompletionsChunk_def)

lemma merge_extend:
  "i < length calls \<Longrightarrow> merge_calls [zeroChatToolCall\<lparr>tc_Index := Some (int i),
       tc_Function := zeroChatFunctionCall\<lparr>fc_Arguments := d\<rparr>\<rparr>] (map call_triple calls)
     = Some (map call_triple (calls[i := (calls ! i)\<lparr>bf_Args := bf_Args (calls ! i) @ d\<rparr>]))"
  by (simp add: zeroChatToolCall_def zeroChatFunctionCall_def call_triple_def map_update)

lemma chat_args_ok:
  assumes inv: "chat_inv (st, a)"
    and t: "rv_Type e = ''response.function_call_arguments.delta'' \<or> rv_Type e = ''response.custom_tool_call_input.delta''"
  shows "chat_ok a (chat_and_buffer e (st, a))"
proof -
  have r: "chat_and_buffer e (st, a) =
      (case resToChatHandleFuncArgsDelta e st of (st', out) \<Rightarrow> ((st', ProcessEvent e a), out))"
    using t by (auto simp: chat_and_buffer_def ResponsesEventToChatChunks_def Let_def)
  show ?thesis
  proof (cases "rv_Delta e = [] \<or> ba_outputIndexToFuncIdx a (rv_OutputIndex e) = None")
    case True
    then have "ProcessEvent e a = a" "resToChatHandleFuncArgsDelta e st = (st, [])"
      using t inv by (auto simp: ProcessEvent_def Let_def resToChatHandleFuncArgsDelta_def chat_inv_def)
    then show ?thesis using inv by (simp add: r chat_ok_def)
  next
    case False
    then obtain i where i: "ba_outputIndexToFuncIdx a (rv_OutputIndex e) = Some i" "rv_Delta e \<noteq> []" by auto
    then have lt: "i < length (ba_funcCalls a)" and m: "sc_OutputIndexToToolIndex st (rv_OutputIndex e) = Some (int i)"
      using inv by (auto simp: chat_inv_def)
    have "ProcessEvent e a = a\<lparr>ba_funcCalls := (ba_funcCalls a)[i := (ba_funcCalls a ! i)
        \<lparr>bf_Args := bf_Args (ba_funcCalls a ! i) @ rv_Delta e\<rparr>]\<rparr>"
      using t i by (auto simp: ProcessEvent_def Let_def)
    then show ?thesis
      using inv i m merge_extend [OF lt, of "rv_Delta e"]
      by (simp add: r resToChatHandleFuncArgsDelta_def chat_ok_def chat_inv_def buffered_def assemble_delta
          zeroChatDelta_def opt_text_def)
  qed
qed

lemma chat_terminal_ok:
  assumes inv: "chat_inv (st, a)"
  shows "chat_ok a (case resToChatHandleCompleted e st of (st', out) \<Rightarrow> ((st', a), out))"
  using inv by (simp add: resToChatHandleCompleted_def Let_def chat_ok_def chat_inv_def assemble_finish assemble_usage
      split: option.split)

lemma chat_handlers_ok:
  assumes inv: "chat_inv (st, a)"
  shows "chat_ok a (case resToChatHandleCreated e st of (st', out) \<Rightarrow> ((st', a), out))"
    and "rv_Type e = ''response.output_text.delta'' \<Longrightarrow>
         chat_ok a (case resToChatHandleTextDelta e st of (st', out) \<Rightarrow> ((st', ProcessEvent e a), out))"
    and "rv_Type e = ''response.output_item.added'' \<Longrightarrow>
         chat_ok a (case resToChatHandleOutputItemAdded e st of (st', out) \<Rightarrow> ((st', ProcessEvent e a), out))"
    and "rv_Type e = ''response.reasoning_summary_text.delta'' \<or> rv_Type e = ''response.reasoning_text.delta'' \<Longrightarrow>
         chat_ok a (case resToChatHandleReasoningDelta e st of (st', out) \<Rightarrow> ((st', ProcessEvent e a), out))"
proof -
  note sim = chat_ok_def chat_inv_def buffered_def opt_text_def assemble_delta zeroChatDelta_def ProcessEvent_def Let_def
  show "chat_ok a (case resToChatHandleCreated e st of (st', out) \<Rightarrow> ((st', a), out))"
    using inv by (simp add: sim resToChatHandleCreated_def split: option.split)
  show "chat_ok a (case resToChatHandleTextDelta e st of (st', out) \<Rightarrow> ((st', ProcessEvent e a), out))"
    if "rv_Type e = ''response.output_text.delta''"
    using inv that by (simp add: sim resToChatHandleTextDelta_def)
  show "chat_ok a (case resToChatHandleOutputItemAdded e st of (st', out) \<Rightarrow> ((st', ProcessEvent e a), out))"
    if "rv_Type e = ''response.output_item.added''"
    using inv that by (simp add: sim resToChatHandleOutputItemAdded_def call_triple_def zeroChatFunctionCall_def less_Suc_eq
        split: option.split)
  show "chat_ok a (case resToChatHandleReasoningDelta e st of (st', out) \<Rightarrow> ((st', ProcessEvent e a), out))"
    if "rv_Type e = ''response.reasoning_summary_text.delta'' \<or> rv_Type e = ''response.reasoning_text.delta''"
    using that
  proof
    assume "rv_Type e = ''response.reasoning_summary_text.delta''"
    with inv show ?thesis by (simp add: sim resToChatHandleReasoningDelta_def)
  next
    assume "rv_Type e = ''response.reasoning_text.delta''"
    with inv show ?thesis by (simp add: sim resToChatHandleReasoningDelta_def)
  qed
qed

lemma process_other:
  "rv_Type e \<notin> {''response.output_text.delta'', ''response.output_item.added'',
     ''response.function_call_arguments.delta'', ''response.custom_tool_call_input.delta'',
     ''response.reasoning_summary_text.delta'', ''response.reasoning_text.delta''} \<Longrightarrow> ProcessEvent e a = a"
  by (simp add: ProcessEvent_def Let_def)

lemma chat_event_ok:
  assumes inv: "chat_inv (st, a)"
  shows "chat_ok a (chat_and_buffer e (st, a))"
proof (cases "rv_Type e = ''response.function_call_arguments.delta'' \<or> rv_Type e = ''response.custom_tool_call_input.delta''")
  case True
  with inv show ?thesis by (rule chat_args_ok)
next
  case args: False
  have idle: "chat_ok a ((st, a), [])" using inv by (simp add: chat_ok_def)
  show ?thesis
  proof (cases "rv_Type e \<in> {''response.output_text.delta'', ''response.output_item.added'',
     ''response.reasoning_summary_text.delta'', ''response.reasoning_text.delta''}")
    case True
    then show ?thesis
      using chat_handlers_ok(2-4) [OF inv, of e]
      by (elim insertE emptyE) (simp_all add: chat_and_buffer_def ResponsesEventToChatChunks_def)
  next
    case False
    with args have "ProcessEvent e a = a" by (intro process_other) auto
    with args False show ?thesis
      using chat_handlers_ok(1) [OF inv, of e] chat_terminal_ok [OF inv, of e] idle
      by (simp add: chat_and_buffer_def ResponsesEventToChatChunks_def Let_def)
  qed
qed

interpretation chat: stream_converter chat_and_buffer chat_inv assemble "\<lambda>s. buffered (snd s)"
proof unfold_locales
  fix s e s' out
  assume "chat_inv s" "chat_and_buffer e s = (s', out)"
  with chat_event_ok [of "fst s" "snd s" e]
  show "chat_inv s' \<and> run_monitor assemble out (buffered (snd s)) = Some (buffered (snd s'))"
    by (simp add: chat_ok_def)
qed

end
