(* ===== verification/Apicompat_Properties.thy ===== *)
theory Apicompat_Properties
  imports Stream_Contracts
begin

text \<open>
  The properties of the protocol converters: the streams they emit are well formed, streaming and
  buffered conversions agree, and what the two protocols share (text, tool calls, stop reason,
  usage) survives conversion. Concrete streams show that the hypotheses can hold.
\<close>

section \<open>What a client reads, and examples\<close>

definition delta_text :: "AnthropicStreamEvent \<Rightarrow> string" where
  "delta_text e = (case ae_Delta e of None \<Rightarrow> [] | Some d \<Rightarrow> if ad_Type d = ''text_delta'' then ad_Text d else [])"

definition streamed_text :: "AnthropicStreamEvent list \<Rightarrow> string" where
  "streamed_text es = concat (map delta_text es)"

definition source_text :: "ResponsesStreamEvent list \<Rightarrow> string" where
  "source_text es = concat (map (\<lambda>e. if rv_Type e = ''response.output_text.delta'' then rv_Delta e else []) es)"


definition text_blocks :: "AnthropicContentBlock list \<Rightarrow> string list" where
  "text_blocks bs = map cb_Text (filter (\<lambda>b. cb_Type b = ''text'') bs)"

definition tool_blocks :: "AnthropicContentBlock list \<Rightarrow> (string \<times> string \<times> string) list" where
  "tool_blocks bs = map (\<lambda>b. (cb_ID b, cb_Name b, cb_Input b)) (filter (\<lambda>b. cb_Type b = ''tool_use'') bs)"

definition tool_form :: "string \<times> string \<times> string \<Rightarrow> string \<times> string \<times> string" where
  "tool_form t = (case t of (i, n, a) \<Rightarrow> (fromResponsesCallID i, n,
     sanitizeAnthropicToolUseInput n (if a = [] then [CHR 0x7B, CHR 0x7D] else a)))"

definition index_zero :: "ar_result \<Rightarrow> bool" where
  "index_zero r \<longleftrightarrow> st_ContentIndex (fst r) = 0 \<and> (\<forall>e\<in>set (snd r). rv_ContentIndex e = 0)"

text \<open>Example streams: a Responses stream that breaks off in a tool call, and two Anthropic streams.\<close>

definition rs_event :: "string \<Rightarrow> int \<Rightarrow> string \<Rightarrow> ResponsesStreamEvent" where
  "rs_event t i d = zeroResponsesStreamEvent\<lparr>rv_Type := t, rv_OutputIndex := i, rv_Delta := d\<rparr>"

definition demo_responses :: "ResponsesStreamEvent list" where
  "demo_responses =
     [(rs_event ''response.created'' 0 [])\<lparr>rv_Response := Some (zeroResponsesResponse\<lparr>rr_ID := ''r1'', rr_Model := ''m''\<rparr>)\<rparr>,
      rs_event ''response.output_text.delta'' 0 ''Hel'',
      rs_event ''response.output_text.delta'' 0 ''lo'',
      (rs_event ''response.output_item.added'' 1 [])\<lparr>rv_Item := Some (zeroResponsesOutput\<lparr>ro_Type := ''function_call'',
         ro_CallID := ''fc_call_1'', ro_Name := ''Grep''\<rparr>)\<rparr>,
      rs_event ''response.function_call_arguments.delta'' 1 ''ab'']"

definition an_start :: "string \<Rightarrow> AnthropicStreamEvent" where
  "an_start t = zeroAnthropicStreamEvent\<lparr>ae_Type := ''content_block_start'',
     ae_ContentBlock := Some (zeroAnthropicContentBlock\<lparr>cb_Type := t\<rparr>)\<rparr>"

definition an_delta :: "AnthropicDelta \<Rightarrow> AnthropicStreamEvent" where
  "an_delta d = zeroAnthropicStreamEvent\<lparr>ae_Type := ''content_block_delta'', ae_Delta := Some d\<rparr>"

definition an_text :: "string \<Rightarrow> AnthropicStreamEvent list" where
  "an_text s = [an_start ''text'', an_delta (zeroAnthropicDelta\<lparr>ad_Type := ''text_delta'', ad_Text := s\<rparr>),
     zeroAnthropicStreamEvent\<lparr>ae_Type := ''content_block_stop''\<rparr>]"


definition an_message :: "AnthropicStreamEvent list \<Rightarrow> AnthropicStreamEvent list" where
  "an_message es = zeroAnthropicStreamEvent\<lparr>ae_Type := ''message_start''\<rparr> # es"

definition demo_rand :: "nat \<Rightarrow> string" where
  "demo_rand n = show_nat n"

definition demo_response :: AnthropicResponse where
  "demo_response = zeroAnthropicResponse\<lparr>ar_ID := ''m1'', ar_StopReason := Some ''max_tokens'',
     ar_Content := [zeroAnthropicContentBlock\<lparr>cb_Type := ''text'', cb_Text := ''Hi''\<rparr>]\<rparr>"

section \<open>Responses to Anthropic\<close>

lemma new_block_inv: "block_inv (NewResponsesEventToAnthropicState c)"
  by (simp add: block_inv_def NewResponsesEventToAnthropicState_def)

lemma finalize_r2a:
  assumes "FinalizeResponsesAnthropicStream st = (st', fin)"
  shows "FinalizeResponsesAnthropicStream st' = (st', [])"
    and "ra_MessageStartSent st \<Longrightarrow> ra_MessageStopSent st'"
  using assms by (auto simp: FinalizeResponsesAnthropicStream_def Let_def closeCurrentBlock_def split: if_splits)

lemma streamed_text_simps [simp]:
  "streamed_text [] = []" "streamed_text (xs @ ys) = streamed_text xs @ streamed_text ys"
  "streamed_text (x # xs) = delta_text x @ streamed_text xs"
  by (simp_all add: streamed_text_def)

lemma delta_text_events [simp]:
  "delta_text (block_start i b) = []" "delta_text (block_stop i) = []" "delta_text (input_json_delta i s) = []"
  by (simp_all add: delta_text_def block_event_defs zeroAnthropicDelta_def)

lemma close_no_text [simp]: "closeCurrentBlock st = (st', evs) \<Longrightarrow> streamed_text evs = []"
  by (auto simp: closeCurrentBlock_def Let_def delta_text_def block_event_defs zeroAnthropicDelta_def split: if_splits)

lemma close_no_text' [simp]: "streamed_text (snd (closeCurrentBlock st)) = []"
  by (cases "closeCurrentBlock st") simp

lemma message_end_no_text [simp]: "streamed_text (message_end r st) = []"
  by (simp add: message_end_def delta_text_def zero_defs)

lemma handlers_text:
  "streamed_text (snd (resToAnthHandleTextDelta evt st)) = rv_Delta evt"
  "streamed_text (snd (resToAnthHandleCreated evt st)) = []"
  "streamed_text (snd (resToAnthHandleOutputItemAdded evt st)) = []"
  "streamed_text (snd (resToAnthHandleFuncArgsDelta evt st)) = []"
  "streamed_text (snd (resToAnthHandleBlockDone st)) = []"
  "streamed_text (snd (resToAnthHandleFuncArgsDone evt st)) = []"
  "streamed_text (snd (resToAnthHandleReasoningDelta evt st)) = []"
  "streamed_text (snd (resToAnthHandleOutputItemDone evt st)) = []"
  "streamed_text (snd (resToAnthHandleCompleted evt st)) = []"
  by (auto simp: convert_defs Let_def delta_text_def block_event_defs zeroAnthropicDelta_def
      split: option.splits prod.splits)

lemma event_text:
  "streamed_text (snd (ResponsesEventToAnthropicEvents evt st)) =
     (if rv_Type evt = ''response.output_text.delta'' then rv_Delta evt else [])"
  by (simp add: ResponsesEventToAnthropicEvents_def Let_def handlers_text)

section \<open>Anthropic to Responses\<close>

lemma new_item_inv: "item_inv (NewAnthropicEventToResponsesState c)"
  by (simp add: item_inv_def NewAnthropicEventToResponsesState_def)

lemma finish_marks: "finish_stream st = (st', fin) \<Longrightarrow> st_CompletedSent st'"
  by (auto simp: finish_stream_def Let_def split: prod.splits)

lemma block_lists_append [simp]:
  "text_blocks (xs @ ys) = text_blocks xs @ text_blocks ys" "tool_blocks (xs @ ys) = tool_blocks xs @ tool_blocks ys"
  "text_blocks [] = []" "tool_blocks [] = []"
  by (simp_all add: text_blocks_def tool_blocks_def)

lemma convert_blocks_spec:
  "convert_blocks rand n bs = (m, outs, parts) \<Longrightarrow>
     text_blocks (concat (map item_blocks outs)) = []
     \<and> tool_blocks (concat (map item_blocks outs)) = map tool_form (tool_blocks bs)
     \<and> map cp_Text parts = filter (\<lambda>t. t \<noteq> []) (text_blocks bs)
     \<and> (\<forall>p\<in>set parts. cp_Type p = ''output_text'' \<and> cp_Text p \<noteq> [])"
proof (induction bs arbitrary: n m outs parts)
  case (Cons b bs)
  show ?case
  proof (cases "cb_Type b = ''thinking'' \<and> cb_Thinking b \<noteq> []")
    case True
    with Cons.prems obtain outs' where "convert_blocks rand (Suc n) bs = (m, outs', parts)"
      and "outs = zeroResponsesOutput\<lparr>ro_Type := ''reasoning'', ro_ID := generateItemID rand n,
                  ro_Summary := [\<lparr>sm_Type = ''summary_text'', sm_Text = cb_Thinking b\<rparr>]\<rparr> # outs'"
      by (auto split: prod.splits)
    with Cons.IH True show ?thesis
      by (auto simp: item_blocks_def text_blocks_def tool_blocks_def zero_defs Let_def)
  next
    case nothink: False
    show ?thesis
    proof (cases "cb_Type b = ''text'' \<and> cb_Text b \<noteq> []")
      case True
      with Cons.prems obtain parts' where "convert_blocks rand n bs = (m, outs, parts')"
        and "parts = zeroResponsesContentPart\<lparr>cp_Type := ''output_text'', cp_Text := cb_Text b\<rparr> # parts'"
        by (auto split: prod.splits)
      with Cons.IH True show ?thesis by (auto simp: text_blocks_def tool_blocks_def zero_defs)
    next
      case notext: False
      show ?thesis
      proof (cases "cb_Type b = ''tool_use''")
        case True
        with Cons.prems obtain outs' where c: "convert_blocks rand (Suc n) bs = (m, outs', parts)"
          and o: "outs = zeroResponsesOutput\<lparr>ro_Type := ''function_call'', ro_ID := generateItemID rand n,
                  ro_CallID := toResponsesCallID (cb_ID b), ro_Name := cb_Name b,
                  ro_Arguments := (if cb_Input b = [] then [CHR 0x7B, CHR 0x7D] else cb_Input b),
                  ro_Status := ''completed''\<rparr> # outs'"
          by (auto split: prod.splits)
        from Cons.IH [OF c] True o show ?thesis
          by (simp add: item_blocks_def text_blocks_def tool_blocks_def tool_form_def toResponsesCallID_def zero_defs Let_def)
      next
        case False
        with nothink notext Cons.prems have "convert_blocks rand n bs = (m, outs, parts)" by auto
        with Cons.IH False notext show ?thesis by (auto simp: text_blocks_def tool_blocks_def)
      qed
    qed
  qed
qed simp

lemma message_blocks:
  assumes "\<forall>p\<in>set parts. cp_Type p = ''output_text'' \<and> cp_Text p \<noteq> []"
  shows "text_blocks (item_blocks (message_item i parts)) = map cp_Text parts"
    and "tool_blocks (item_blocks (message_item i parts)) = []"
  using assms
  by (induction parts) (auto simp: item_blocks_def message_item_def text_blocks_def tool_blocks_def zero_defs)

lemma placeholder_blocks:
  "item_blocks (message_item i [zeroResponsesContentPart\<lparr>cp_Type := ''output_text'', cp_Text := []\<rparr>]) = []"
  by (simp add: item_blocks_def message_item_def zero_defs)

lemma finished_content:
  "\<exists>bs. concat (map item_blocks (rr_Output (AnthropicToResponsesResponse rand resp))) = bs
    \<and> tool_blocks bs = map tool_form (tool_blocks (ar_Content resp))
    \<and> text_blocks bs = filter (\<lambda>t. t \<noteq> []) (text_blocks (ar_Content resp))"
proof -
  let ?n0 = "if ar_ID resp = [] then 1 else 0 :: nat"
  obtain m outs parts where c: "convert_blocks rand ?n0 (ar_Content resp) = (m, outs, parts)"
    by (metis prod_cases3)
  note spec = convert_blocks_spec [OF c]
  then have ok: "\<forall>p\<in>set parts. cp_Type p = ''output_text'' \<and> cp_Text p \<noteq> []" by blast
  have "concat (map item_blocks (rr_Output (AnthropicToResponsesResponse rand resp))) =
      concat (map item_blocks outs) @ (if parts = [] then [] else item_blocks (message_item (generateItemID rand m) parts))"
    using c by (cases "ar_ID resp = []"; cases parts; cases outs)
      (simp_all add: AnthropicToResponsesResponse_def Let_def zeroResponsesResponse_def placeholder_blocks)
  with spec message_blocks [OF ok] show ?thesis by auto
qed

lemma content_form:
  "ar_Content (ResponsesToAnthropic r model) =
     (let bs = concat (map item_blocks (rr_Output r))
      in if bs = [] then [zeroAnthropicContentBlock\<lparr>cb_Type := ''text'', cb_Text := []\<rparr>] else bs)"
  by (simp add: ResponsesToAnthropic_def Let_def zeroAnthropicResponse_def)

lemma stop_reason_form:
  "ar_StopReason (ResponsesToAnthropic r model) = Some (responsesStatusToAnthropicStopReason (rr_Status r)
     (rr_IncompleteDetails r) (ar_Content (ResponsesToAnthropic r model)))"
  by (simp add: ResponsesToAnthropic_def Let_def AnthropicStopReasonPtr_def zeroAnthropicResponse_def)

lemma finished_lists:
  "tool_blocks (ar_Content (ResponsesToAnthropic (AnthropicToResponsesResponse rand resp) model)) =
     map tool_form (tool_blocks (ar_Content resp))
   \<and> filter (\<lambda>t. t \<noteq> []) (text_blocks (ar_Content (ResponsesToAnthropic (AnthropicToResponsesResponse rand resp) model))) =
     filter (\<lambda>t. t \<noteq> []) (text_blocks (ar_Content resp))"
proof -
  obtain bs where bs: "concat (map item_blocks (rr_Output (AnthropicToResponsesResponse rand resp))) = bs"
    "tool_blocks bs = map tool_form (tool_blocks (ar_Content resp))"
    "text_blocks bs = filter (\<lambda>t. t \<noteq> []) (text_blocks (ar_Content resp))"
    using finished_content [of rand resp] by blast
  have ph: "tool_blocks [zeroAnthropicContentBlock\<lparr>cb_Type := ''text'', cb_Text := []\<rparr>] = []"
    "text_blocks [zeroAnthropicContentBlock\<lparr>cb_Type := ''text'', cb_Text := []\<rparr>] = [[]]"
    by (simp_all add: tool_blocks_def text_blocks_def zeroAnthropicContentBlock_def)
  show ?thesis
    unfolding content_form bs(1) Let_def using bs(2,3) ph by (cases "bs = []") simp_all
qed

lemma contains_tool_iff: "containsAnthropicToolUseBlock bs \<longleftrightarrow> tool_blocks bs \<noteq> []"
  by (induction bs) (auto simp: containsAnthropicToolUseBlock_def tool_blocks_def)

lemma converted_content_tools:
  "containsAnthropicToolUseBlock (ar_Content (ResponsesToAnthropic (AnthropicToResponsesResponse rand resp) model))
     = containsAnthropicToolUseBlock (ar_Content resp)"
  using finished_lists [of rand resp model] by (simp add: contains_tool_iff)

lemma converted_status:
  "rr_Status (AnthropicToResponsesResponse rand resp) =
     anthropicStopReasonToResponsesStatus (AnthropicStopReasonString (ar_StopReason resp)) (ar_Content resp)"
  "rr_IncompleteDetails (AnthropicToResponsesResponse rand resp) =
     (if rr_Status (AnthropicToResponsesResponse rand resp) = ''incomplete''
      then Some \<lparr>rd_Reason = ''max_output_tokens''\<rparr> else None)"
  unfolding AnthropicToResponsesResponse_def Let_def zeroResponsesResponse_def
  by (simp_all split: prod.split)

section \<open>Chat\<close>





section \<open>Content indexes\<close>

lemma index_zero_seq:
  "index_zero r \<Longrightarrow> (st_ContentIndex (fst r) = 0 \<Longrightarrow> index_zero (f (fst r))) \<Longrightarrow> index_zero (emit_seq r f)"
  by (cases r; cases "f (fst r)") (auto simp: index_zero_def emit_seq_def)

lemma index_zero_event:
  "st_ContentIndex st = 0 \<Longrightarrow> rv_ContentIndex e = 0 \<Longrightarrow> index_zero (makeResponsesEvent t e st)"
  by (simp add: index_zero_def makeResponsesEvent_def)

lemma close_index_zero: "st_ContentIndex st = 0 \<Longrightarrow> index_zero (closeCurrentResponsesItem st)"
  by (auto simp: closeCurrentResponsesItem_def Let_def zeroResponsesStreamEvent_def index_zero_def makeResponsesEvent_def)

lemma handlers_index_zero:
  assumes z: "st_ContentIndex st = 0"
  shows "index_zero (anthToResHandleMessageStart evt st)"
    and "index_zero (anthToResHandleContentBlockStart rand evt st)"
    and "index_zero (anthToResHandleContentBlockDelta evt st)"
    and "index_zero (anthToResHandleContentBlockStop st)"
    and "index_zero (anthToResHandleMessageDelta evt st)"
    and "index_zero (anthToResHandleMessageStop st)"
proof -
  show "index_zero (anthToResHandleMessageStart evt st)"
    using z by (auto simp: anthToResHandleMessageStart_def Let_def index_zero_def makeResponsesCreatedEvent_def
        zeroResponsesStreamEvent_def split: option.split)
  show "index_zero (anthToResHandleContentBlockStart rand evt st)"
    using z close_index_zero [OF z]
    by (auto simp: anthToResHandleContentBlockStart_def Let_def item_added_def makeResponsesEvent_def open_item_def
        emit_seq_def index_zero_def zeroResponsesStreamEvent_def split: option.split prod.splits)
  show "index_zero (anthToResHandleContentBlockDelta evt st)"
    using z by (auto simp: anthToResHandleContentBlockDelta_def makeResponsesEvent_def index_zero_def
        zeroResponsesStreamEvent_def split: option.split)
  show "index_zero (anthToResHandleContentBlockStop st)"
    using z by (auto simp: anthToResHandleContentBlockStop_def Let_def zeroResponsesStreamEvent_def
        intro!: index_zero_seq index_zero_event close_index_zero) (auto simp: index_zero_def makeResponsesEvent_def)
  show "index_zero (anthToResHandleMessageDelta evt st)"
    using z by (auto simp: anthToResHandleMessageDelta_def Let_def index_zero_def split: option.split)
  show "index_zero (anthToResHandleMessageStop st)"
    using z close_index_zero [OF z]
    by (auto simp: anthToResHandleMessageStop_def finish_stream_def Let_def emit_seq_def index_zero_def
        makeResponsesCompletedEvent_def zeroResponsesStreamEvent_def split: prod.splits)
qed

lemma event_index_zero: "st_ContentIndex st = 0 \<Longrightarrow> index_zero (AnthropicEventToResponsesEvents rand evt st)"
  by (simp add: AnthropicEventToResponsesEvents_def Let_def handlers_index_zero) (simp add: index_zero_def)

section \<open>Properties\<close>

text \<open>
  C16 (anthropic stream well formed). Whatever Responses events arrive, the Anthropic stream they become, closed by the finalizer, is
  one a strict Messages client accepts: blocks are numbered from 0 without gaps, one is open at a
  time, deltas name started blocks, the message starts and stops at most once and never stops with
  a block open. A started message always ends stopped, and finalizing twice adds nothing.
\<close>

theorem anthropic_stream_well_formed:
  assumes run: "run_stream ResponsesEventToAnthropicEvents es (NewResponsesEventToAnthropicState c) = (st, out)"
    and fin: "FinalizeResponsesAnthropicStream st = (st', ends)"
  shows "run_monitor block_monitor (out @ ends) (0, False, False, False) = Some (block_view st')
    \<and> (ra_MessageStartSent st \<longrightarrow> ra_MessageStopSent st')
    \<and> (ra_MessageStartSent st \<and> \<not> ra_MessageStopSent st \<longrightarrow> \<not> ra_ContentBlockOpen st')
    \<and> FinalizeResponsesAnthropicStream st' = (st', [])"
proof -
  have v: "block_view (NewResponsesEventToAnthropicState c) = (0, False, False, False)"
    by (simp add: block_view_def NewResponsesEventToAnthropicState_def)
  from r2a.run_ok [OF new_block_inv run] have inv: "block_inv st"
    and m: "run_monitor block_monitor out (0, False, False, False) = Some (block_view st)" by (simp_all add: v)
  from handlers_block_ok(9) [OF inv] fin have "run_monitor block_monitor ends (block_view st) = Some (block_view st')"
    by (simp add: block_ok_def)
  with m have "run_monitor block_monitor (out @ ends) (0, False, False, False) = Some (block_view st')"
    by (simp add: run_monitor_append)
  moreover have "ra_MessageStartSent st \<and> \<not> ra_MessageStopSent st \<longrightarrow> \<not> ra_ContentBlockOpen st'"
    using fin close_block_ok(2) [OF inv] by (auto simp: FinalizeResponsesAnthropicStream_def Let_def split: if_splits prod.splits)
  ultimately show ?thesis using finalize_r2a [OF fin] by simp
qed

theorem anthropic_stream_well_formed_witness:
  "ra_MessageStopSent (fst (FinalizeResponsesAnthropicStream (fst (run_stream ResponsesEventToAnthropicEvents
     demo_responses (NewResponsesEventToAnthropicState 0)))))"
proof -
  let ?r = "run_stream ResponsesEventToAnthropicEvents demo_responses (NewResponsesEventToAnthropicState 0)"
  let ?f = "FinalizeResponsesAnthropicStream (fst ?r)"
  have "ra_MessageStartSent (fst ?r)" by code_simp
  moreover have "?r = (fst ?r, snd ?r)" "?f = (fst ?f, snd ?f)" by simp_all
  ultimately show ?thesis using anthropic_stream_well_formed by blast
qed



text \<open>
  C18 (responses stream well formed). Whatever Anthropic events arrive, the Responses stream they become, closed by the finalizer, has
  consecutive sequence numbers from 0, item events whose output index is the number of finished
  items, at most one created and one terminal event, and a terminal event that carries exactly the
  finished items. A created response always ends with its terminal event; finalizing twice adds nothing.
\<close>

theorem responses_stream_well_formed:
  assumes run: "run_stream (AnthropicEventToResponsesEvents rand) es (NewAnthropicEventToResponsesState c) = (st, out)"
    and fin: "FinalizeAnthropicResponsesStream st = (st', ends)"
  shows "run_monitor item_monitor (out @ ends) (0, [], False, False) = Some (item_view st')
    \<and> st_SequenceNumber st' = int (length (out @ ends))
    \<and> (st_CreatedSent st \<longrightarrow> st_CompletedSent st')
    \<and> FinalizeAnthropicResponsesStream st' = (st', [])"
proof -
  have v: "item_view (NewAnthropicEventToResponsesState c) = (0, [], False, False)"
    by (simp add: item_view_def NewAnthropicEventToResponsesState_def)
  from a2r.run_ok [OF new_item_inv run] have inv: "item_inv st"
    and m: "run_monitor item_monitor out (0, [], False, False) = Some (item_view st)" by (simp_all add: v)
  have f: "item_ok st (FinalizeAnthropicResponsesStream st)"
    using inv by (simp add: FinalizeAnthropicResponsesStream_def finish_ok item_ok_idle)
  with m fin have mm: "run_monitor item_monitor (out @ ends) (0, [], False, False) = Some (item_view st')"
    by (simp add: run_monitor_append item_ok_def)
  have len: "run_monitor item_monitor evs (n, v) = Some (n', v') \<Longrightarrow> n' = n + int (length evs)" for evs n v n' v'
  proof (induction evs arbitrary: n v)
    case (Cons e evs)
    then obtain n1 v1 where "item_monitor e (n, v) = Some (n1, v1)" "run_monitor item_monitor evs (n1, v1) = Some (n', v')"
      by (auto split: option.splits)
    moreover from this(1) have "n1 = n + 1"
      by (auto simp: item_monitor_def split: prod.splits if_splits option.splits)
    ultimately show ?case using Cons.IH by fastforce
  qed simp
  have "st_SequenceNumber st' = int (length (out @ ends))"
    using len [of "out @ ends" 0] mm by (simp add: item_view_def)
  moreover have "(st_CreatedSent st \<longrightarrow> st_CompletedSent st') \<and> FinalizeAnthropicResponsesStream st' = (st', [])"
    using fin finish_marks by (auto simp: FinalizeAnthropicResponsesStream_def split: if_splits)
  ultimately show ?thesis using mm by simp
qed

theorem responses_stream_well_formed_witness:
  "st_CompletedSent (fst (FinalizeAnthropicResponsesStream (fst (run_stream (AnthropicEventToResponsesEvents demo_rand)
     (an_message (an_text ''Hi'')) (NewAnthropicEventToResponsesState 0)))))"
proof -
  let ?r = "run_stream (AnthropicEventToResponsesEvents demo_rand) (an_message (an_text ''Hi'')) (NewAnthropicEventToResponsesState 0)"
  let ?f = "FinalizeAnthropicResponsesStream (fst ?r)"
  have "st_CreatedSent (fst ?r)" by code_simp
  moreover have "?r = (fst ?r, snd ?r)" "?f = (fst ?f, snd ?f)" by simp_all
  ultimately show ?thesis using responses_stream_well_formed by blast
qed

text \<open>
  C31 (anthropic stream keeps text). The text a client reads from the Anthropic stream is the text of the Responses deltas, in order
  and complete, from any state of the converter.
\<close>

theorem anthropic_stream_keeps_text:
  "streamed_text (snd (run_stream ResponsesEventToAnthropicEvents es st)) = source_text es"
proof (induction es arbitrary: st)
  case (Cons e es)
  obtain st1 o1 where 1: "ResponsesEventToAnthropicEvents e st = (st1, o1)" by (cases "ResponsesEventToAnthropicEvents e st")
  with event_text [of e st] Cons.IH [of st1] show ?case
    by (auto simp: source_text_def split: prod.splits)
qed (simp add: source_text_def)

text \<open>
  C32 (finished response roundtrip). A finished Anthropic response converted to Responses and back keeps its tool calls in order (ids
  stripped of the old prefix, empty inputs written as an empty object, the Read tool's empty pages
  argument removed) and its non-empty texts in order.
\<close>

theorem finished_response_roundtrip:
  "tool_blocks (ar_Content (ResponsesToAnthropic (AnthropicToResponsesResponse rand resp) model)) =
     map tool_form (tool_blocks (ar_Content resp))
   \<and> filter (\<lambda>t. t \<noteq> []) (text_blocks (ar_Content (ResponsesToAnthropic (AnthropicToResponsesResponse rand resp) model))) =
     filter (\<lambda>t. t \<noteq> []) (text_blocks (ar_Content resp))"
  by (rule finished_lists)

text \<open>
  The stop reason survives the trip from Anthropic to Responses and back when it is one of end_turn,
  tool_use and max_tokens and reports a tool call exactly when the content has one.
\<close>

theorem stop_reason_roundtrip:
  assumes "ar_StopReason resp = Some s" "s \<in> {''end_turn'', ''tool_use'', ''max_tokens''}"
    and "s \<noteq> ''max_tokens'' \<Longrightarrow> (s = ''tool_use'') = containsAnthropicToolUseBlock (ar_Content resp)"
  shows "ar_StopReason (ResponsesToAnthropic (AnthropicToResponsesResponse rand resp) model) = Some s"
proof -
  let ?r = "AnthropicToResponsesResponse rand resp"
  have st: "rr_Status ?r = (if s = ''max_tokens'' then ''incomplete'' else ''completed'')"
    "rr_IncompleteDetails ?r = (if s = ''max_tokens'' then Some \<lparr>rd_Reason = ''max_output_tokens''\<rparr> else None)"
    using assms(1) converted_status [of rand resp]
    by (simp_all add: anthropicStopReasonToResponsesStatus_def AnthropicStopReasonString_def)
  show ?thesis
    unfolding stop_reason_form st responsesStatusToAnthropicStopReason_def converted_content_tools
    using assms(2) assms(3) by (elim insertE emptyE) simp_all
qed

theorem stop_reason_roundtrip_witness:
  "ar_StopReason (ResponsesToAnthropic (AnthropicToResponsesResponse demo_rand demo_response) ''m'') = Some ''max_tokens''"
  using stop_reason_roundtrip [of demo_response "''max_tokens''" demo_rand "''m''"]
  by (simp add: demo_response_def)

text \<open>
  The streaming and the non-streaming conversion report the same stop reason for the same terminal
  response and the same presence of a tool call.
\<close>

theorem stop_reason_agrees:
  assumes "rv_Response evt = Some r" "hasTool = containsAnthropicToolUseBlock blocks"
  shows "terminal_stop_reason evt hasTool =
    responsesStatusToAnthropicStopReason (rr_Status r) (rr_IncompleteDetails r) blocks"
  using assms by (simp add: terminal_stop_reason_def responsesStatusToAnthropicStopReason_def split: option.split)

theorem stop_reason_agrees_witness:
  "terminal_stop_reason (zeroResponsesStreamEvent\<lparr>rv_Response := Some (zeroResponsesResponse\<lparr>rr_Status := ''completed''\<rparr>)\<rparr>) True
     = ''tool_use''"
proof -
  let ?b = "[zeroAnthropicContentBlock\<lparr>cb_Type := ''tool_use''\<rparr>]"
  let ?r = "zeroResponsesResponse\<lparr>rr_Status := ''completed''\<rparr>"
  have c: "True = containsAnthropicToolUseBlock ?b" by code_simp
  have e: "rv_Response (zeroResponsesStreamEvent\<lparr>rv_Response := Some ?r\<rparr>) = Some ?r" by simp
  have "responsesStatusToAnthropicStopReason (rr_Status ?r) (rr_IncompleteDetails ?r) ?b = ''tool_use''" by code_simp
  then show ?thesis using stop_reason_agrees [OF e c] by simp
qed

text \<open>
  Token usage survives the trip from Anthropic to Responses and back: for non-negative counts whose
  total is a 64-bit integer, the cache counts added to the input on the way out are taken off again.
\<close>

theorem usage_roundtrip:
  assumes "0 \<le> au_InputTokens u" "0 \<le> au_CacheReadInputTokens u" "0 \<le> au_CacheCreationInputTokens u"
    and "au_InputTokens u + au_CacheReadInputTokens u + au_CacheCreationInputTokens u \<le> int64_max"
  shows "anthropicUsageFromResponsesUsage (Some (responsesUsageFromAnthropic (au_InputTokens u) (au_OutputTokens u)
      (au_CacheReadInputTokens u) (au_CacheCreationInputTokens u))) = u"
proof -
  let ?i = "au_InputTokens u" and ?r = "au_CacheReadInputTokens u" and ?w = "au_CacheCreationInputTokens u"
  have "in_int64 (?i + ?r)" "in_int64 (?i + ?r + ?w)" "in_int64 (?i + ?w)" "in_int64 ?i"
    using assms by (auto intro!: in_int64_nonneg)
  with assms show ?thesis
    by (cases u) (auto simp: anthropicUsageFromResponsesUsage_def responsesUsageFromAnthropic_def Let_def zero_defs)
qed

theorem usage_roundtrip_witness:
  "anthropicUsageFromResponsesUsage (Some (responsesUsageFromAnthropic 10 5 7 3)) =
     \<lparr>au_InputTokens = 10, au_OutputTokens = 5, au_CacheCreationInputTokens = 3, au_CacheReadInputTokens = 7\<rparr>"
  using usage_roundtrip [of "\<lparr>au_InputTokens = 10, au_OutputTokens = 5, au_CacheCreationInputTokens = 3,
    au_CacheReadInputTokens = 7\<rparr>"] by (simp add: int64_max_def)

text \<open>
  Every event of the Responses stream carries content index 0, also the events of the second and
  later text parts of one message item: the converter never advances the index.
\<close>

theorem content_index_is_constant:
  "\<forall>e \<in> set (snd (run_stream (AnthropicEventToResponsesEvents rand) es (NewAnthropicEventToResponsesState c))).
     rv_ContentIndex e = 0"
proof -
  have "st_ContentIndex st = 0 \<Longrightarrow> index_zero (run_stream (AnthropicEventToResponsesEvents rand) es st)" for st
  proof (induction es arbitrary: st)
    case (Cons e es)
    then show ?case using event_index_zero [of st rand e]
      by (fastforce simp: index_zero_def split: prod.splits)
  qed (simp add: index_zero_def)
  from this [of "NewAnthropicEventToResponsesState c"] show ?thesis
    by (simp add: index_zero_def NewAnthropicEventToResponsesState_def)
qed

theorem content_index_is_constant_witness:
  "map rv_ContentIndex (filter (\<lambda>e. rv_Type e = ''response.content_part.added'')
     (snd (run_stream (AnthropicEventToResponsesEvents demo_rand) (an_message (an_text ''a'' @ an_text ''b''))
        (NewAnthropicEventToResponsesState 0)))) = [0, 0]"
proof -
  let ?out = "snd (run_stream (AnthropicEventToResponsesEvents demo_rand) (an_message (an_text ''a'' @ an_text ''b''))
        (NewAnthropicEventToResponsesState 0))"
  let ?ps = "filter (\<lambda>e. rv_Type e = ''response.content_part.added'') ?out"
  have "\<forall>e\<in>set ?ps. rv_ContentIndex e = 0"
    using content_index_is_constant [of demo_rand "an_message (an_text ''a'' @ an_text ''b'')" 0] by simp
  then have "map rv_ContentIndex ?ps = replicate (length ?ps) 0"
    by (simp add: map_replicate_const [symmetric] del: filter_filter)
  moreover have "length ?ps = 2" by code_simp
  ultimately show ?thesis by (simp add: numeral_2_eq_2)
qed


end
