(* ===== verification/Chat_To_Responses.thy ===== *)
theory Chat_To_Responses
  imports Anthropic_To_Responses
begin

text \<open>
  Chat Completions output as Responses API output
  (\<open>pkg/apicompat/chatcompletions_responses_bridge.go\<close>, response side): the conversion of a finished
  response and the stateful conversion of a chunk stream. A Go map whose size or keys the code reads
  is a list of pairs with distinct keys (\<open>assoc_set\<close> keeps them so), other maps are functions. Draws
  from \<open>crypto/rand\<close> are numbered as in \<open>Anthropic_To_Responses\<close>. The converters are called with a
  chunk and a state; for a nil one the Go code returns at once.
\<close>

section \<open>Maps with keys\<close>

definition assoc_set :: "'k \<Rightarrow> 'v \<Rightarrow> ('k \<times> 'v) list \<Rightarrow> ('k \<times> 'v) list" where
  "assoc_set k v m = filter (\<lambda>p. fst p \<noteq> k) m @ [(k, v)]"

definition assoc_del :: "'k \<Rightarrow> ('k \<times> 'v) list \<Rightarrow> ('k \<times> 'v) list" where
  "assoc_del k m = filter (\<lambda>p. fst p \<noteq> k) m"

definition opt_string :: "string option \<Rightarrow> string" where
  "opt_string x = (case x of None \<Rightarrow> [] | Some s \<Rightarrow> s)"

section \<open>Message content\<close>

record ChatImageURL =
  iu_URL :: string
  iu_Detail :: string

record ChatContentPart =
  pt_Type :: string
  pt_Text :: string
  pt_ImageURL :: "ChatImageURL option"

text \<open>
  \<open>json.Unmarshal\<close> into \<open>[]ChatContentPart\<close>, field by field in the order of writing; a value of the
  wrong kind makes the whole decoding fail.
\<close>

fun decode_image :: "(string \<times> string) list \<Rightarrow> ChatImageURL \<Rightarrow> ChatImageURL option" where
  "decode_image [] u = Some u"
| "decode_image ((k, v) # ms) u =
     (if is_field ''url'' k then Option.bind (decode_string (iu_URL u) v) (\<lambda>s. decode_image ms (u\<lparr>iu_URL := s\<rparr>))
      else if is_field ''detail'' k
      then Option.bind (decode_string (iu_Detail u) v) (\<lambda>s. decode_image ms (u\<lparr>iu_Detail := s\<rparr>))
      else decode_image ms u)"

definition decode_image_field :: "ChatImageURL option \<Rightarrow> string \<Rightarrow> ChatImageURL option option" where
  "decode_image_field old v =
     (case trim_json v of
        c # _ \<Rightarrow>
          if c = CHR ''n'' then Some None
          else if c = CHR 0x7B then
            map_option Some (decode_image (map (\<lambda>(k, w). (unquote k, w)) (members 0 False False False [] [] v))
              (case old of None \<Rightarrow> \<lparr>iu_URL = [], iu_Detail = []\<rparr> | Some u \<Rightarrow> u))
          else None
      | [] \<Rightarrow> None)"

fun decode_part :: "(string \<times> string) list \<Rightarrow> ChatContentPart \<Rightarrow> ChatContentPart option" where
  "decode_part [] p = Some p"
| "decode_part ((k, v) # ms) p =
     (if is_field ''type'' k then Option.bind (decode_string (pt_Type p) v) (\<lambda>s. decode_part ms (p\<lparr>pt_Type := s\<rparr>))
      else if is_field ''text'' k
      then Option.bind (decode_string (pt_Text p) v) (\<lambda>s. decode_part ms (p\<lparr>pt_Text := s\<rparr>))
      else if is_field ''image_url'' k
      then Option.bind (decode_image_field (pt_ImageURL p) v) (\<lambda>i. decode_part ms (p\<lparr>pt_ImageURL := i\<rparr>))
      else decode_part ms p)"

definition decode_part_value :: "string \<Rightarrow> ChatContentPart option" where
  "decode_part_value v =
     (let zero = \<lparr>pt_Type = [], pt_Text = [], pt_ImageURL = None\<rparr>
      in case v of
           c # _ \<Rightarrow>
             if c = CHR ''n'' then Some zero
             else if c = CHR 0x7B
             then decode_part (map (\<lambda>(k, w). (unquote k, w)) (members 0 False False False [] [] v)) zero
             else None
         | [] \<Rightarrow> None)"

definition unmarshal_parts :: "string \<Rightarrow> ChatContentPart list option" where
  "unmarshal_parts data =
     (case unmarshal_raw_list data of
        None \<Rightarrow> None
      | Some vs \<Rightarrow>
          (let ps = map decode_part_value vs
           in if list_all (\<lambda>p. p \<noteq> None) ps then Some (map the ps) else None))"

fun join_texts :: "string list \<Rightarrow> string" where
  "join_texts [] = []"
| "join_texts [x] = x"
| "join_texts (x # y # xs) = x @ [CHR 0x0A, CHR 0x0A] @ join_texts (y # xs)"

definition chatMessageContentText :: "string \<Rightarrow> string" where
  "chatMessageContentText raw0 =
     (let raw = TrimSpace raw0
      in if raw = [] \<or> raw = ''null'' then []
         else case unmarshal_string raw of
             Some text \<Rightarrow> text
           | None \<Rightarrow>
               (case unmarshal_parts raw of
                  Some parts \<Rightarrow>
                    join_texts (map pt_Text (filter (\<lambda>p. pt_Type p = ''text'' \<and> pt_Text p \<noteq> []) parts))
                | None \<Rightarrow> []))"

definition extractCustomToolCallInput :: "string \<Rightarrow> string" where
  "extractCustomToolCallInput arguments =
     (let trimmed = TrimSpace arguments
      in if trimmed = [] then []
         else case unmarshal_raw_map trimmed of
             None \<Rightarrow> trimmed
           | Some obj \<Rightarrow>
               (case raw_lookup obj ''input'' of
                  Some raw \<Rightarrow> (case unmarshal_string raw of Some s \<Rightarrow> s | None \<Rightarrow> trimmed)
                | None \<Rightarrow> if obj = [] then [] else trimmed))"

text \<open>Blank arguments become an empty object.\<close>

definition arguments_or_empty :: "string \<Rightarrow> string" where
  "arguments_or_empty a = (if TrimSpace a = [] then [CHR 0x7B, CHR 0x7D] else a)"

section \<open>A finished response\<close>

record NamespacedToolName =
  nt_Namespace :: string
  nt_Name :: string

definition toolSearchProxyName :: string where
  "toolSearchProxyName = ''tool_search''"

definition ChatUsageToResponsesUsage :: "ChatUsage option \<Rightarrow> ResponsesUsage option" where
  "ChatUsageToResponsesUsage usage =
     (case usage of
        None \<Rightarrow> None
      | Some u \<Rightarrow>
          (let out = zeroResponsesUsage\<lparr>ru_InputTokens := cu_PromptTokens u, ru_OutputTokens := cu_CompletionTokens u,
                       ru_TotalTokens := (if cu_TotalTokens u = 0 then wrap64 (cu_PromptTokens u + cu_CompletionTokens u)
                                          else cu_TotalTokens u)\<rparr>
           in case cu_PromptTokensDetails u of
                None \<Rightarrow> Some out
              | Some d \<Rightarrow>
                  if td_CachedTokens d > 0 \<or> td_CacheCreationTokens d > 0 \<or> td_CacheWriteTokens d > 0
                  then Some (out\<lparr>ru_InputTokensDetails := Some (zeroResponsesInputTokensDetails\<lparr>
                           it_CachedTokens := td_CachedTokens d, it_CacheCreationTokens := td_CacheCreationTokens d,
                           it_CacheWriteTokens := td_CacheWriteTokens d\<rparr>),
                         ru_CacheCreationInputTokens := (if td_CacheWriteTokens d > 0 then td_CacheWriteTokens d
                                                         else td_CacheCreationTokens d)\<rparr>)
                  else Some out))"

definition reasoning_item :: "string \<Rightarrow> string \<Rightarrow> ResponsesOutput" where
  "reasoning_item i text = zeroResponsesOutput\<lparr>ro_Type := ''reasoning'', ro_ID := i,
     ro_Summary := [\<lparr>sm_Type = ''summary_text'', sm_Text = text\<rparr>]\<rparr>"

definition output_text_item :: "string \<Rightarrow> string \<Rightarrow> ResponsesOutput" where
  "output_text_item i text = zeroResponsesOutput\<lparr>ro_Type := ''message'', ro_ID := i, ro_Role := ''assistant'',
     ro_Content := [zeroResponsesContentPart\<lparr>cp_Type := ''output_text'', cp_Text := text\<rparr>],
     ro_Status := ''completed''\<rparr>"

definition emptyResponsesMessageOutput :: "string \<Rightarrow> ResponsesOutput" where
  "emptyResponsesMessageOutput i = output_text_item i []"

text \<open>The three kinds of finished tool call items.\<close>

definition custom_call_item :: "string \<Rightarrow> ChatToolCall \<Rightarrow> ResponsesOutput" where
  "custom_call_item i t = zeroResponsesOutput\<lparr>ro_Type := ''custom_tool_call'', ro_ID := i, ro_CallID := tc_ID t,
     ro_Name := fc_Name (tc_Function t),
     ro_Input := extractCustomToolCallInput (arguments_or_empty (fc_Arguments (tc_Function t))),
     ro_Status := ''completed''\<rparr>"

definition tool_search_item :: "string \<Rightarrow> ChatToolCall \<Rightarrow> ResponsesOutput" where
  "tool_search_item i t = zeroResponsesOutput\<lparr>ro_Type := ''tool_search_call'', ro_ID := i, ro_CallID := tc_ID t,
     ro_Arguments := arguments_or_empty (fc_Arguments (tc_Function t)), ro_Status := ''completed''\<rparr>"

definition function_call_item :: "string \<Rightarrow> NamespacedToolName \<Rightarrow> ChatToolCall \<Rightarrow> ResponsesOutput" where
  "function_call_item i n t = zeroResponsesOutput\<lparr>ro_Type := ''function_call'', ro_ID := i, ro_CallID := tc_ID t,
     ro_Name := nt_Name n, ro_Namespace := nt_Namespace n,
     ro_Arguments := arguments_or_empty (fc_Arguments (tc_Function t)), ro_Status := ''completed''\<rparr>"

definition tool_name_of :: "NamespacedToolName option \<Rightarrow> ChatToolCall \<Rightarrow> NamespacedToolName" where
  "tool_name_of ns t = (case ns of None \<Rightarrow> \<lparr>nt_Namespace = [], nt_Name = fc_Name (tc_Function t)\<rparr> | Some n \<Rightarrow> n)"

definition tool_call_output ::
  "(string \<times> bool) list \<Rightarrow> bool \<Rightarrow> (string \<times> NamespacedToolName) list \<Rightarrow> string \<Rightarrow> ChatToolCall \<Rightarrow> ResponsesOutput" where
  "tool_call_output customTools toolSearch namespaceTools i t =
     (let name = fc_Name (tc_Function t)
      in if map_of customTools name = Some True then custom_call_item i t
         else if toolSearch \<and> name = toolSearchProxyName then tool_search_item i t
         else function_call_item i (tool_name_of (map_of namespaceTools name) t) t)"

fun tool_call_outputs ::
  "(nat \<Rightarrow> string) \<Rightarrow> nat \<Rightarrow> (string \<times> bool) list \<Rightarrow> bool \<Rightarrow> (string \<times> NamespacedToolName) list \<Rightarrow> ChatToolCall list
     \<Rightarrow> ResponsesOutput list" where
  "tool_call_outputs rand n customTools toolSearch namespaceTools [] = []"
| "tool_call_outputs rand n customTools toolSearch namespaceTools (t # ts) =
     tool_call_output customTools toolSearch namespaceTools (generateItemID rand n) t
       # tool_call_outputs rand (Suc n) customTools toolSearch namespaceTools ts"

text \<open>The visible text of a message: its content, or its reasoning when there is nothing else.\<close>

definition visible_text :: "ChatMessage \<Rightarrow> string" where
  "visible_text m =
     (let text = chatMessageContentText (cm_Content m)
      in if text = [] \<and> TrimSpace (cm_ReasoningContent m) \<noteq> [] \<and> cm_ToolCalls m = []
         then cm_ReasoningContent m else text)"

definition chatMessageToResponsesOutput ::
  "(nat \<Rightarrow> string) \<Rightarrow> nat \<Rightarrow> ChatMessage \<Rightarrow> (string \<times> bool) list \<Rightarrow> bool \<Rightarrow> (string \<times> NamespacedToolName) list
     \<Rightarrow> ResponsesOutput list" where
  "chatMessageToResponsesOutput rand n0 m customTools toolSearch namespaceTools =
     (let n1 = (if cm_ReasoningContent m \<noteq> [] then Suc n0 else n0);
          text = visible_text m;
          has_text = (text \<noteq> [] \<or> cm_ToolCalls m = []);
          n2 = (if has_text then Suc n1 else n1)
      in (if cm_ReasoningContent m \<noteq> [] then [reasoning_item (generateItemID rand n0) (cm_ReasoningContent m)] else [])
         @ (if has_text then [output_text_item (generateItemID rand n1) text] else [])
         @ tool_call_outputs rand n2 customTools toolSearch namespaceTools (cm_ToolCalls m))"

definition ChatCompletionsResponseToResponses ::
  "(nat \<Rightarrow> string) \<Rightarrow> ChatCompletionsResponse option \<Rightarrow> string \<Rightarrow> (string \<times> bool) list \<Rightarrow> bool
     \<Rightarrow> (string \<times> NamespacedToolName) list \<Rightarrow> ResponsesResponse" where
  "ChatCompletionsResponseToResponses rand resp model customTools toolSearch namespaceTools =
     (let id0 = (case resp of None \<Rightarrow> [] | Some r \<Rightarrow> cr_ID r);
          rid = (if id0 = [] then generateResponsesID rand 0 else id0);
          n = (if id0 = [] then 1 else 0);
          out = zeroResponsesResponse\<lparr>rr_ID := rid, rr_Object := ''response'', rr_Model := model,
                  rr_Status := ''completed''\<rparr>
      in case resp of
           None \<Rightarrow> out\<lparr>rr_Output := [emptyResponsesMessageOutput (generateItemID rand n)]\<rparr>
         | Some r \<Rightarrow>
             (let outputs = (case cr_Choices r of
                     [] \<Rightarrow> [] | c # _ \<Rightarrow> chatMessageToResponsesOutput rand n (ch_Message c) customTools toolSearch namespaceTools);
                  cut = (case cr_Choices r of [] \<Rightarrow> False | c # _ \<Rightarrow> ch_FinishReason c = ''length'')
              in out\<lparr>rr_Model := (if model = [] then cr_Model r else model),
                     rr_Output := (if outputs = [] then [emptyResponsesMessageOutput (generateItemID rand n)] else outputs),
                     rr_Status := (if cut then ''incomplete'' else ''completed''),
                     rr_IncompleteDetails := (if cut then Some \<lparr>rd_Reason = ''max_output_tokens''\<rparr> else None),
                     rr_Usage := ChatUsageToResponsesUsage (cr_Usage r)\<rparr>))"

end
