(* ===== verification/Chat_To_Anthropic.thy ===== *)
theory Chat_To_Anthropic
  imports Chat_To_Responses Responses_To_Anthropic
begin

text \<open>
  Chat Completions output as Anthropic Messages output
  (\<open>pkg/apicompat/chatcompletions_anthropic_bridge.go\<close>, response side): the direct conversion of a
  finished response, and the stateful conversion of a chunk stream, in which a tool block is announced
  once its name has arrived. The converters are called with a chunk and a state; for a nil one the Go
  code returns at once.
\<close>

section \<open>A finished response\<close>

definition chatMessageToAnthropicBlocks :: "ChatMessage \<Rightarrow> AnthropicContentBlock list" where
  "chatMessageToAnthropicBlocks m =
     (let text = visible_text m
      in (if cm_ReasoningContent m \<noteq> []
          then [zeroAnthropicContentBlock\<lparr>cb_Type := ''thinking'', cb_Thinking := cm_ReasoningContent m\<rparr>] else [])
         @ (if text \<noteq> [] \<or> cm_ToolCalls m = []
            then [zeroAnthropicContentBlock\<lparr>cb_Type := ''text'', cb_Text := text\<rparr>] else [])
         @ map (\<lambda>t. zeroAnthropicContentBlock\<lparr>cb_Type := ''tool_use'', cb_ID := fromResponsesCallID (tc_ID t),
                 cb_Name := fc_Name (tc_Function t),
                 cb_Input := sanitizeAnthropicToolUseInput (fc_Name (tc_Function t))
                   (arguments_or_empty (fc_Arguments (tc_Function t)))\<rparr>) (cm_ToolCalls m))"

definition chatFinishReasonToAnthropicStopReason :: "string \<Rightarrow> AnthropicContentBlock list \<Rightarrow> string" where
  "chatFinishReasonToAnthropicStopReason reason blocks =
     (if reason = ''length'' then ''max_tokens''
      else if reason = ''tool_calls'' then ''tool_use''
      else if containsAnthropicToolUseBlock blocks then ''tool_use'' else ''end_turn'')"

definition chatUsageToAnthropicUsage :: "ChatUsage option \<Rightarrow> AnthropicUsage" where
  "chatUsageToAnthropicUsage usage =
     (case usage of
        None \<Rightarrow> zeroAnthropicUsage
      | Some u \<Rightarrow>
          (let cachedTokens = (case cu_PromptTokensDetails u of None \<Rightarrow> 0 | Some d \<Rightarrow> td_CachedTokens d);
               cacheCreationTokens = (case cu_PromptTokensDetails u of None \<Rightarrow> 0
                  | Some d \<Rightarrow> if td_CacheWriteTokens d > 0 then td_CacheWriteTokens d else td_CacheCreationTokens d);
               n = wrap64 (wrap64 (cu_PromptTokens u - cachedTokens) - cacheCreationTokens)
           in \<lparr>au_InputTokens = (if n < 0 then 0 else n), au_OutputTokens = cu_CompletionTokens u,
               au_CacheCreationInputTokens = cacheCreationTokens, au_CacheReadInputTokens = cachedTokens\<rparr>))"

definition ChatCompletionsResponseToAnthropic ::
  "(nat \<Rightarrow> string) \<Rightarrow> ChatCompletionsResponse option \<Rightarrow> string \<Rightarrow> AnthropicResponse" where
  "ChatCompletionsResponseToAnthropic rand resp model =
     (let out0 = zeroAnthropicResponse\<lparr>ar_Type := ''message'', ar_Role := ''assistant'', ar_Model := model\<rparr>;
          out1 = (case resp of
             None \<Rightarrow> out0
           | Some r \<Rightarrow>
               (let o1 = out0\<lparr>ar_ID := cr_ID r, ar_Model := (if model = [] then cr_Model r else model)\<rparr>;
                    o2 = (case cr_Choices r of
                       [] \<Rightarrow> o1
                     | c # _ \<Rightarrow>
                         (let content = chatMessageToAnthropicBlocks (ch_Message c)
                          in o1\<lparr>ar_Content := content, ar_StopReason :=
                                  AnthropicStopReasonPtr (chatFinishReasonToAnthropicStopReason (ch_FinishReason c) content)\<rparr>))
                in case cr_Usage r of None \<Rightarrow> o2 | Some u \<Rightarrow> o2\<lparr>ar_Usage := chatUsageToAnthropicUsage (Some u)\<rparr>));
          out2 = (if ar_Content out1 = []
                  then out1\<lparr>ar_Content := [zeroAnthropicContentBlock\<lparr>cb_Type := ''text'', cb_Text := []\<rparr>]\<rparr> else out1);
          out3 = (if AnthropicStopReasonString (ar_StopReason out2) = []
                  then out2\<lparr>ar_StopReason :=
                         AnthropicStopReasonPtr (chatFinishReasonToAnthropicStopReason [] (ar_Content out2))\<rparr> else out2)
      in if ar_ID out3 = [] then out3\<lparr>ar_ID := generateResponsesID rand 0\<rparr> else out3)"

section \<open>The stream state\<close>

record ChatCompletionsToAnthropicStreamState =
  cs_MessageStartSent :: bool
  cs_MessageStopSent :: bool
  cs_ContentBlockIndex :: int
  cs_ContentBlockOpen :: bool
  cs_CurrentBlockType :: string
  cs_CurrentToolName :: string
  cs_CurrentToolHadDelta :: bool
  cs_HasToolCall :: bool
  cs_toolBlockIndex :: "int \<rightharpoonup> int"
  cs_toolAnnounced :: "int \<rightharpoonup> bool"
  cs_toolName :: "int \<rightharpoonup> string"
  cs_pendingToolCallID :: "(int \<times> string) list"
  cs_pendingToolArgs :: "int \<rightharpoonup> string"
  cs_FinishReason :: string
  cs_InputTokens :: int
  cs_OutputTokens :: int
  cs_CacheReadInputTokens :: int
  cs_CacheCreationInputTokens :: int
  cs_ResponseID :: string
  cs_Model :: string
  cs_Created :: int
  cs_rand :: nat

definition NewChatCompletionsToAnthropicStreamState ::
  "(nat \<Rightarrow> string) \<Rightarrow> string \<Rightarrow> int \<Rightarrow> ChatCompletionsToAnthropicStreamState" where
  "NewChatCompletionsToAnthropicStreamState rand model created = \<lparr>cs_MessageStartSent = False,
     cs_MessageStopSent = False, cs_ContentBlockIndex = 0, cs_ContentBlockOpen = False, cs_CurrentBlockType = [],
     cs_CurrentToolName = [], cs_CurrentToolHadDelta = False, cs_HasToolCall = False, cs_toolBlockIndex = Map.empty,
     cs_toolAnnounced = Map.empty, cs_toolName = Map.empty, cs_pendingToolCallID = [], cs_pendingToolArgs = Map.empty,
     cs_FinishReason = [], cs_InputTokens = 0, cs_OutputTokens = 0, cs_CacheReadInputTokens = 0,
     cs_CacheCreationInputTokens = 0, cs_ResponseID = generateResponsesID rand 0, cs_Model = model,
     cs_Created = created, cs_rand = 1\<rparr>"

type_synonym cs_result = "ChatCompletionsToAnthropicStreamState \<times> AnthropicStreamEvent list"

section \<open>Blocks\<close>

definition ensureCCAnthropicMessageStart :: "ChatCompletionsToAnthropicStreamState \<Rightarrow> cs_result" where
  "ensureCCAnthropicMessageStart st =
     (if cs_MessageStartSent st then (st, [])
      else (st\<lparr>cs_MessageStartSent := True\<rparr>,
            [zeroAnthropicStreamEvent\<lparr>ae_Type := ''message_start'',
               ae_Message := Some (zeroAnthropicResponse\<lparr>ar_ID := cs_ResponseID st, ar_Type := ''message'',
                 ar_Role := ''assistant'', ar_Content := [], ar_Model := cs_Model st, ar_StopReason := None,
                 ar_Usage := zeroAnthropicUsage\<rparr>)\<rparr>]))"

definition closeCCAnthropicBlock :: "ChatCompletionsToAnthropicStreamState \<Rightarrow> cs_result" where
  "closeCCAnthropicBlock st =
     (if \<not> cs_ContentBlockOpen st then (st, [])
      else
        (let idx = cs_ContentBlockIndex st;
             evs = (if cs_CurrentBlockType st = ''tool_use'' \<and> \<not> cs_CurrentToolHadDelta st
                    then [input_json_delta idx [CHR 0x7B, CHR 0x7D]] else [])
         in (st\<lparr>cs_ContentBlockOpen := False, cs_ContentBlockIndex := idx + 1, cs_CurrentBlockType := [],
                cs_CurrentToolName := [], cs_CurrentToolHadDelta := False\<rparr>, evs @ [block_stop idx])))"

definition closeCCAnthropicBlockIfOpen :: "string \<Rightarrow> ChatCompletionsToAnthropicStreamState \<Rightarrow> cs_result" where
  "closeCCAnthropicBlockIfOpen blockType st =
     (if \<not> cs_ContentBlockOpen st \<or> cs_CurrentBlockType st \<noteq> blockType then (st, []) else closeCCAnthropicBlock st)"

text \<open>A text or thinking block is opened unless one of its type is open.\<close>

definition open_block ::
  "string \<Rightarrow> AnthropicContentBlock \<Rightarrow> ChatCompletionsToAnthropicStreamState \<Rightarrow> cs_result" where
  "open_block blockType b st =
     (if cs_ContentBlockOpen st \<and> cs_CurrentBlockType st = blockType then (st, [])
      else emit_seq (closeCCAnthropicBlock st) (\<lambda>s.
        (s\<lparr>cs_ContentBlockOpen := True, cs_CurrentBlockType := blockType\<rparr>, [block_start (cs_ContentBlockIndex s) b])))"

definition ensureCCAnthropicThinkingBlock :: "ChatCompletionsToAnthropicStreamState \<Rightarrow> cs_result" where
  "ensureCCAnthropicThinkingBlock =
     open_block ''thinking'' (zeroAnthropicContentBlock\<lparr>cb_Type := ''thinking'', cb_Thinking := []\<rparr>)"

definition ensureCCAnthropicTextBlock :: "ChatCompletionsToAnthropicStreamState \<Rightarrow> cs_result" where
  "ensureCCAnthropicTextBlock =
     open_block ''text'' (zeroAnthropicContentBlock\<lparr>cb_Type := ''text'', cb_Text := []\<rparr>)"

definition ccAnthropicDelta :: "AnthropicDelta \<Rightarrow> ChatCompletionsToAnthropicStreamState \<Rightarrow> cs_result" where
  "ccAnthropicDelta d st = (st, if cs_ContentBlockOpen st then [block_delta (cs_ContentBlockIndex st) d] else [])"

section \<open>Tool calls\<close>

definition announceCCAnthropicToolBlock ::
  "int \<Rightarrow> string \<Rightarrow> string \<Rightarrow> ChatCompletionsToAnthropicStreamState \<Rightarrow> cs_result" where
  "announceCCAnthropicToolBlock idx callID name st =
     (let blockIdx = cs_ContentBlockIndex st; pending = opt_string (cs_pendingToolArgs st idx)
      in (st\<lparr>cs_toolBlockIndex := (cs_toolBlockIndex st)(idx \<mapsto> blockIdx),
             cs_toolAnnounced := (cs_toolAnnounced st)(idx \<mapsto> True), cs_toolName := (cs_toolName st)(idx \<mapsto> name),
             cs_CurrentToolName := name, cs_CurrentToolHadDelta := (pending \<noteq> []), cs_ContentBlockOpen := True,
             cs_CurrentBlockType := ''tool_use'', cs_pendingToolCallID := assoc_del idx (cs_pendingToolCallID st),
             cs_pendingToolArgs := (if pending = [] then cs_pendingToolArgs st else (cs_pendingToolArgs st)(idx := None))\<rparr>,
          block_start blockIdx (zeroAnthropicContentBlock\<lparr>cb_Type := ''tool_use'', cb_ID := fromResponsesCallID callID,
             cb_Name := name, cb_Input := [CHR 0x7B, CHR 0x7D]\<rparr>)
          # (if pending = [] then [] else [input_json_delta blockIdx pending])))"

text \<open>The announcement, at once or when the name arrives.\<close>

definition cc_tool_announce ::
  "(nat \<Rightarrow> string) \<Rightarrow> int \<Rightarrow> ChatToolCall \<Rightarrow> ChatCompletionsToAnthropicStreamState \<Rightarrow> cs_result" where
  "cc_tool_announce rand idx tc st =
     (let name = fc_Name (tc_Function tc)
      in case cs_toolAnnounced st idx of
           None \<Rightarrow>
             emit_seq (closeCCAnthropicBlock st) (\<lambda>s.
               (let s1 = s\<lparr>cs_HasToolCall := True,
                           cs_rand := (if tc_ID tc = [] then Suc (cs_rand s) else cs_rand s)\<rparr>;
                    callID = (if tc_ID tc = [] then generateItemID rand (cs_rand s) else tc_ID tc)
                in if name \<noteq> [] then announceCCAnthropicToolBlock idx callID name s1
                   else (s1\<lparr>cs_toolAnnounced := (cs_toolAnnounced s1)(idx \<mapsto> False),
                            cs_pendingToolCallID := assoc_set idx callID (cs_pendingToolCallID s1)\<rparr>, [])))
         | Some announced \<Rightarrow>
             if \<not> announced \<and> name \<noteq> [] then
               (let callID = (if tc_ID tc \<noteq> [] then tc_ID tc else opt_string (map_of (cs_pendingToolCallID st) idx))
                in emit_seq (closeCCAnthropicBlock st) (announceCCAnthropicToolBlock idx callID name))
             else (st, []))"

text \<open>The argument fragment, on the announced block or into the buffer.\<close>

definition cc_tool_arguments :: "int \<Rightarrow> string \<Rightarrow> ChatCompletionsToAnthropicStreamState \<Rightarrow> cs_result" where
  "cc_tool_arguments idx arguments st =
     (if arguments = [] then (st, [])
      else if cs_toolAnnounced st idx = Some True then
        (let blockIdx = (case cs_toolBlockIndex st idx of None \<Rightarrow> 0 | Some b \<Rightarrow> b)
         in (if cs_ContentBlockOpen st \<and> blockIdx = cs_ContentBlockIndex st
             then st\<lparr>cs_CurrentToolHadDelta := True\<rparr> else st, [input_json_delta blockIdx arguments]))
      else (st\<lparr>cs_pendingToolArgs := (cs_pendingToolArgs st)(idx \<mapsto> opt_string (cs_pendingToolArgs st idx) @ arguments)\<rparr>, []))"

definition handleCCAnthropicToolCall ::
  "(nat \<Rightarrow> string) \<Rightarrow> ChatToolCall \<Rightarrow> ChatCompletionsToAnthropicStreamState \<Rightarrow> cs_result" where
  "handleCCAnthropicToolCall rand tc st =
     (let idx = (case tc_Index tc of None \<Rightarrow> 0 | Some i \<Rightarrow> i)
      in emit_seq (cc_tool_announce rand idx tc st) (cc_tool_arguments idx (fc_Arguments (tc_Function tc))))"

fun cc_tool_calls ::
  "(nat \<Rightarrow> string) \<Rightarrow> ChatToolCall list \<Rightarrow> ChatCompletionsToAnthropicStreamState \<Rightarrow> cs_result" where
  "cc_tool_calls rand [] st = (st, [])"
| "cc_tool_calls rand (t # ts) st =
     emit_seq (emit_seq (closeCCAnthropicBlockIfOpen ''thinking'' st) (handleCCAnthropicToolCall rand t))
       (cc_tool_calls rand ts)"

section \<open>Chunks\<close>

definition cc_choice ::
  "(nat \<Rightarrow> string) \<Rightarrow> ChatChunkChoice \<Rightarrow> ChatCompletionsToAnthropicStreamState \<Rightarrow> cs_result" where
  "cc_choice rand choice st =
     (let d = ck_Delta choice; reasoning = opt_string (cd_ReasoningContent d); content = opt_string (cd_Content d);
          r1 = (if reasoning = [] then (st, [])
                else emit_seq (ensureCCAnthropicThinkingBlock st)
                       (ccAnthropicDelta (zeroAnthropicDelta\<lparr>ad_Type := ''thinking_delta'', ad_Thinking := reasoning\<rparr>)));
          r2 = emit_seq r1 (\<lambda>s. if content = [] then (s, [])
                 else emit_seq (emit_seq (closeCCAnthropicBlockIfOpen ''thinking'' s) ensureCCAnthropicTextBlock)
                        (ccAnthropicDelta (zeroAnthropicDelta\<lparr>ad_Type := ''text_delta'', ad_Text := content\<rparr>)));
          r3 = emit_seq r2 (cc_tool_calls rand (cd_ToolCalls d))
      in emit_seq r3 (\<lambda>s. (if opt_string (ck_FinishReason choice) = [] then s
                           else s\<lparr>cs_FinishReason := opt_string (ck_FinishReason choice)\<rparr>, [])))"

fun cc_choices ::
  "(nat \<Rightarrow> string) \<Rightarrow> ChatChunkChoice list \<Rightarrow> ChatCompletionsToAnthropicStreamState \<Rightarrow> cs_result" where
  "cc_choices rand [] st = (st, [])"
| "cc_choices rand (c # cs) st = emit_seq (cc_choice rand c st) (cc_choices rand cs)"

definition ChatCompletionsChunkToAnthropicEvents ::
  "(nat \<Rightarrow> string) \<Rightarrow> ChatCompletionsChunk \<Rightarrow> ChatCompletionsToAnthropicStreamState \<Rightarrow> cs_result" where
  "ChatCompletionsChunkToAnthropicEvents rand chunk st =
     (let st1 = st\<lparr>cs_ResponseID := (if cx_ID chunk = [] then cs_ResponseID st else cx_ID chunk),
                   cs_Model := (if cs_Model st = [] \<and> cx_Model chunk \<noteq> [] then cx_Model chunk else cs_Model st)\<rparr>;
          st2 = (case cx_Usage chunk of
                   None \<Rightarrow> st1
                 | Some cu \<Rightarrow>
                     (let u = chatUsageToAnthropicUsage (Some cu)
                      in st1\<lparr>cs_InputTokens := au_InputTokens u, cs_OutputTokens := au_OutputTokens u,
                             cs_CacheReadInputTokens := au_CacheReadInputTokens u,
                             cs_CacheCreationInputTokens := au_CacheCreationInputTokens u\<rparr>))
      in emit_seq (ensureCCAnthropicMessageStart st2) (cc_choices rand (cx_Choices chunk)))"

section \<open>The end of the stream\<close>

definition ccFinishReasonToAnthropicStopReason :: "string \<Rightarrow> bool \<Rightarrow> string" where
  "ccFinishReasonToAnthropicStopReason reason hasToolCall =
     (if reason = ''length'' then ''max_tokens''
      else if reason = ''tool_calls'' then ''tool_use''
      else if hasToolCall then ''tool_use'' else ''end_turn'')"

text \<open>Tools whose name never arrived, by sorted index.\<close>

fun announce_pending ::
  "int list \<Rightarrow> ChatCompletionsToAnthropicStreamState \<Rightarrow> cs_result" where
  "announce_pending [] st = (st, [])"
| "announce_pending (i # is) st =
     emit_seq (emit_seq (closeCCAnthropicBlock st)
                (announceCCAnthropicToolBlock i (opt_string (map_of (cs_pendingToolCallID st) i)) []))
       (announce_pending is)"

definition cc_message_end :: "ChatCompletionsToAnthropicStreamState \<Rightarrow> cs_result" where
  "cc_message_end st =
     (st\<lparr>cs_MessageStopSent := True\<rparr>,
      [zeroAnthropicStreamEvent\<lparr>ae_Type := ''message_delta'',
         ae_Delta := Some (zeroAnthropicDelta\<lparr>ad_StopReason :=
           ccFinishReasonToAnthropicStopReason (cs_FinishReason st) (cs_HasToolCall st)\<rparr>),
         ae_Usage := Some \<lparr>au_InputTokens = cs_InputTokens st, au_OutputTokens = cs_OutputTokens st,
           au_CacheCreationInputTokens = cs_CacheCreationInputTokens st,
           au_CacheReadInputTokens = cs_CacheReadInputTokens st\<rparr>\<rparr>,
       zeroAnthropicStreamEvent\<lparr>ae_Type := ''message_stop''\<rparr>])"

definition FinalizeChatCompletionsAnthropicStream :: "ChatCompletionsToAnthropicStreamState \<Rightarrow> cs_result" where
  "FinalizeChatCompletionsAnthropicStream st =
     (if cs_MessageStopSent st then (st, [])
      else emit_seq (emit_seq (emit_seq (ensureCCAnthropicMessageStart st)
             (\<lambda>s. announce_pending (sort (map fst (cs_pendingToolCallID s))) s)) closeCCAnthropicBlock) cc_message_end)"

end
