(* ===== verification/Chat_Anthropic_Contract.thy ===== *)
theory Chat_Anthropic_Contract
  imports Stream_Contracts Chat_To_Anthropic
begin

text \<open>
  The Chat Completions to Anthropic stream against the contract of a stream converter, with the
  strict Messages client of \<open>Stream_Contracts\<close> as its monitor: tool blocks that are announced late,
  interleaved tool calls and the finalizer included.
\<close>

section \<open>View and invariant\<close>

text \<open>View: next block index, whether a block is open, message_start sent, message_stop sent.\<close>

definition cs_view :: "ChatCompletionsToAnthropicStreamState \<Rightarrow> block_view" where
  "cs_view st = (cs_ContentBlockIndex st, cs_ContentBlockOpen st, cs_MessageStartSent st, cs_MessageStopSent st)"

text \<open>Every block a tool call points to was started, and an announced tool call points to one.\<close>

definition cs_inv :: "ChatCompletionsToAnthropicStreamState \<Rightarrow> bool" where
  "cs_inv st \<longleftrightarrow> 0 \<le> cs_ContentBlockIndex st \<and>
     (\<forall>k i. cs_toolBlockIndex st k = Some i \<longrightarrow>
        0 \<le> i \<and> (i < cs_ContentBlockIndex st \<or> i = cs_ContentBlockIndex st \<and> cs_ContentBlockOpen st)) \<and>
     (\<forall>k. cs_toolAnnounced st k = Some True \<longrightarrow> cs_toolBlockIndex st k \<noteq> None)"

abbreviation cs_ok :: "ChatCompletionsToAnthropicStreamState \<Rightarrow> cs_result \<Rightarrow> bool" where
  "cs_ok \<equiv> emits_ok cs_inv block_monitor cs_view"

section \<open>Every handler keeps the contract\<close>

lemmas cs_ok_defs = emits_ok_def cs_inv_def cs_view_def

lemma cs_close_ok:
  assumes "cs_inv st"
  shows "cs_ok st (closeCCAnthropicBlock st)" and "\<not> cs_ContentBlockOpen (fst (closeCCAnthropicBlock st))"
  using assms by (auto simp: cs_ok_defs closeCCAnthropicBlock_def Let_def; fastforce)+

lemma cs_close_if_ok [emit_ok]: "cs_inv st \<Longrightarrow> cs_ok st (closeCCAnthropicBlockIfOpen t st)"
  by (auto simp: closeCCAnthropicBlockIfOpen_def cs_close_ok intro: emits_ok_idle)

text \<open>A handler that closes the current block goes on with no block open.\<close>

lemma cs_close_seq_ok:
  assumes "cs_inv st"
    and "\<And>s. cs_inv s \<Longrightarrow> \<not> cs_ContentBlockOpen s \<Longrightarrow> cs_ok s (f s)"
  shows "cs_ok st (emit_seq (closeCCAnthropicBlock st) f)"
  using assms cs_close_ok by (blast intro: emits_ok_seq)

lemma cs_message_start_ok [emit_ok]: "cs_inv st \<Longrightarrow> cs_ok st (ensureCCAnthropicMessageStart st)"
  by (auto simp: ensureCCAnthropicMessageStart_def cs_ok_defs block_monitor_def zeroAnthropicStreamEvent_def)

lemma cs_open_block_ok [emit_ok]:
  assumes "cs_inv st"
  shows "cs_ok st (open_block t b st)"
proof -
  have "cs_ok st (emit_seq (closeCCAnthropicBlock st) (\<lambda>s.
      (s\<lparr>cs_ContentBlockOpen := True, cs_CurrentBlockType := t\<rparr>, [block_start (cs_ContentBlockIndex s) b])))"
    using assms by (rule cs_close_seq_ok) (auto simp: cs_ok_defs)
  with assms show ?thesis by (simp add: open_block_def emits_ok_idle)
qed

lemma cs_delta_ok [emit_ok]: "cs_inv st \<Longrightarrow> cs_ok st (ccAnthropicDelta d st)"
  by (auto simp: ccAnthropicDelta_def cs_ok_defs)

lemma cs_announce_block_ok:
  "cs_inv st \<Longrightarrow> \<not> cs_ContentBlockOpen st \<Longrightarrow> cs_ok st (announceCCAnthropicToolBlock k c n st)"
  by (auto simp: announceCCAnthropicToolBlock_def cs_ok_defs Let_def)

text \<open>The first sight of a tool call, after the current block is closed.\<close>

lemma cs_register_ok:
  assumes "cs_inv st" "\<not> cs_ContentBlockOpen st"
  shows "cs_ok st (announceCCAnthropicToolBlock k c n (st\<lparr>cs_HasToolCall := h, cs_rand := r\<rparr>))"
    and "cs_ok st (st\<lparr>cs_HasToolCall := h, cs_rand := r, cs_toolAnnounced := (cs_toolAnnounced st)(k \<mapsto> False),
                      cs_pendingToolCallID := p\<rparr>, [])"
proof -
  have "cs_ok (st\<lparr>cs_HasToolCall := h, cs_rand := r\<rparr>)
          (announceCCAnthropicToolBlock k c n (st\<lparr>cs_HasToolCall := h, cs_rand := r\<rparr>))"
    using assms by (intro cs_announce_block_ok) (auto simp: cs_inv_def)
  then show "cs_ok st (announceCCAnthropicToolBlock k c n (st\<lparr>cs_HasToolCall := h, cs_rand := r\<rparr>))"
    by (rule emits_ok_cong) (simp add: cs_view_def)
  show "cs_ok st (st\<lparr>cs_HasToolCall := h, cs_rand := r, cs_toolAnnounced := (cs_toolAnnounced st)(k \<mapsto> False),
                      cs_pendingToolCallID := p\<rparr>, [])"
    using assms by (intro emits_ok_idle) (auto simp: cs_inv_def cs_view_def)
qed

lemma cs_tool_announce_ok [emit_ok]:
  assumes "cs_inv st"
  shows "cs_ok st (cc_tool_announce rand k t st)"
proof (cases "cs_toolAnnounced st k")
  case None
  have "cs_ok st (emit_seq (closeCCAnthropicBlock st) (\<lambda>s.
          let s1 = s\<lparr>cs_HasToolCall := True, cs_rand := (if tc_ID t = [] then Suc (cs_rand s) else cs_rand s)\<rparr>;
              callID = (if tc_ID t = [] then generateItemID rand (cs_rand s) else tc_ID t)
          in if fc_Name (tc_Function t) \<noteq> [] then announceCCAnthropicToolBlock k callID (fc_Name (tc_Function t)) s1
             else (s1\<lparr>cs_toolAnnounced := (cs_toolAnnounced s1)(k \<mapsto> False),
                      cs_pendingToolCallID := assoc_set k callID (cs_pendingToolCallID s1)\<rparr>, [])))"
    by (rule cs_close_seq_ok [OF assms]) (simp add: Let_def cs_register_ok)
  with None show ?thesis by (simp add: cc_tool_announce_def Let_def)
next
  case (Some a)
  have "cs_ok st (emit_seq (closeCCAnthropicBlock st) (announceCCAnthropicToolBlock k c n))" for c n
    by (rule cs_close_seq_ok [OF assms cs_announce_block_ok])
  with Some assms show ?thesis by (simp add: cc_tool_announce_def Let_def emits_ok_idle)
qed

lemma cs_tool_arguments_ok [emit_ok]: "cs_inv st \<Longrightarrow> cs_ok st (cc_tool_arguments k a st)"
  by (auto simp: cc_tool_arguments_def cs_ok_defs Let_def split: option.split)

lemma cs_tool_call_ok [emit_ok]: "cs_inv st \<Longrightarrow> cs_ok st (handleCCAnthropicToolCall rand t st)"
  unfolding handleCCAnthropicToolCall_def Let_def by (intro emit_ok)

lemma cs_tool_calls_ok [emit_ok]: "cs_inv st \<Longrightarrow> cs_ok st (cc_tool_calls rand ts st)"
proof (induction ts arbitrary: st)
  case (Cons t ts)
  then show ?case unfolding cc_tool_calls.simps by (intro emit_ok Cons.IH)
qed (simp add: emits_ok_idle)

lemma cs_frame [simp]:
  "cs_inv (st\<lparr>cs_FinishReason := f\<rparr>) = cs_inv st" "cs_view (st\<lparr>cs_FinishReason := f\<rparr>) = cs_view st"
  by (simp_all add: cs_inv_def cs_view_def)

lemma cs_choice_ok [emit_ok]: "cs_inv st \<Longrightarrow> cs_ok st (cc_choice rand c st)"
  unfolding cc_choice_def Let_def ensureCCAnthropicThinkingBlock_def ensureCCAnthropicTextBlock_def
  by (intro emit_ok) (simp_all add: emits_ok_idle)

lemma cs_choices_ok [emit_ok]: "cs_inv st \<Longrightarrow> cs_ok st (cc_choices rand cs st)"
proof (induction cs arbitrary: st)
  case (Cons c cs)
  then show ?case unfolding cc_choices.simps by (intro emit_ok Cons.IH)
qed (simp add: emits_ok_idle)

lemma cs_chunk_ok [emit_ok]:
  assumes "cs_inv st"
  shows "cs_ok st (ChatCompletionsChunkToAnthropicEvents rand chunk st)"
proof -
  define st2 where "st2 = (let st1 = st\<lparr>cs_ResponseID := (if cx_ID chunk = [] then cs_ResponseID st else cx_ID chunk),
        cs_Model := (if cs_Model st = [] \<and> cx_Model chunk \<noteq> [] then cx_Model chunk else cs_Model st)\<rparr>
      in case cx_Usage chunk of
           None \<Rightarrow> st1
         | Some cu \<Rightarrow> (let u = chatUsageToAnthropicUsage (Some cu)
             in st1\<lparr>cs_InputTokens := au_InputTokens u, cs_OutputTokens := au_OutputTokens u,
                    cs_CacheReadInputTokens := au_CacheReadInputTokens u,
                    cs_CacheCreationInputTokens := au_CacheCreationInputTokens u\<rparr>))"
  have "cs_inv st2" "cs_view st2 = cs_view st"
    using assms by (simp_all add: st2_def Let_def cs_inv_def cs_view_def split: option.split)
  then have "cs_ok st (emit_seq (ensureCCAnthropicMessageStart st2) (cc_choices rand (cx_Choices chunk)))"
    by (intro emits_ok_cong [where st = st2 and st' = st] emit_ok) simp_all
  then show ?thesis by (simp add: ChatCompletionsChunkToAnthropicEvents_def st2_def Let_def)
qed

lemma cs_pending_ok [emit_ok]: "cs_inv st \<Longrightarrow> cs_ok st (announce_pending is st)"
proof (induction "is" arbitrary: st)
  case (Cons i "is")
  then show ?case unfolding announce_pending.simps
    by (intro emits_ok_seq Cons.IH cs_close_seq_ok cs_announce_block_ok)
qed (simp add: emits_ok_idle)

lemma cs_keeps_stop [simp]:
  "cs_MessageStopSent (fst (closeCCAnthropicBlock st)) = cs_MessageStopSent st"
  "cs_MessageStopSent (fst (ensureCCAnthropicMessageStart st)) = cs_MessageStopSent st"
  "cs_MessageStopSent (fst (announceCCAnthropicToolBlock k c n st)) = cs_MessageStopSent st"
  "cs_MessageStopSent (fst (announce_pending is st)) = cs_MessageStopSent st"
proof -
  show "cs_MessageStopSent (fst (closeCCAnthropicBlock s)) = cs_MessageStopSent s" for s
    by (simp add: closeCCAnthropicBlock_def Let_def)
  note [simp] = this
  show "cs_MessageStopSent (fst (announceCCAnthropicToolBlock k c n s)) = cs_MessageStopSent s" for s k c n
    by (simp add: announceCCAnthropicToolBlock_def Let_def)
  note [simp] = this
  show "cs_MessageStopSent (fst (announce_pending is st)) = cs_MessageStopSent st"
    by (induction "is" arbitrary: st) simp_all
qed (simp add: ensureCCAnthropicMessageStart_def)

lemma cs_message_end_ok:
  "cs_inv st \<Longrightarrow> \<not> cs_ContentBlockOpen st \<Longrightarrow> \<not> cs_MessageStopSent st \<Longrightarrow> cs_ok st (cc_message_end st)"
  by (simp add: cc_message_end_def cs_ok_defs block_monitor_def zeroAnthropicStreamEvent_def)

lemma cs_finalize_ok:
  assumes "cs_inv st"
  shows "cs_ok st (FinalizeChatCompletionsAnthropicStream st)"
proof (cases "cs_MessageStopSent st")
  case False
  let ?r1 = "ensureCCAnthropicMessageStart st"
  let ?r2 = "emit_seq ?r1 (\<lambda>s. announce_pending (sort (map fst (cs_pendingToolCallID s))) s)"
  let ?r3 = "emit_seq ?r2 closeCCAnthropicBlock"
  have 2: "cs_ok st ?r2" using assms by (intro emit_ok)
  then have "cs_inv (fst ?r2)" by (simp add: emits_ok_def)
  note closed = cs_close_ok [OF this]
  have 3: "cs_ok st ?r3" using 2 closed(1) by (rule emits_ok_seq)
  have "cs_ok st (emit_seq ?r3 cc_message_end)"
    using 3 by (rule emits_ok_seq) (use closed(2) False in \<open>simp add: cs_message_end_ok\<close>)
  with False show ?thesis by (simp add: FinalizeChatCompletionsAnthropicStream_def)
qed (simp add: FinalizeChatCompletionsAnthropicStream_def emits_ok_idle assms)

lemma new_cs_inv:
  "cs_inv (NewChatCompletionsToAnthropicStreamState rand model now)"
  "cs_view (NewChatCompletionsToAnthropicStreamState rand model now) = (0, False, False, False)"
  by (simp_all add: cs_inv_def cs_view_def NewChatCompletionsToAnthropicStreamState_def)

interpretation c2a: stream_converter "ChatCompletionsChunkToAnthropicEvents rand" cs_inv block_monitor cs_view
  for rand
  using cs_chunk_ok by unfold_locales (metis emits_ok_def fst_conv snd_conv)

text \<open>The finalizer sends message_start and message_stop and leaves no block open.\<close>

lemma cs_finalize_end:
  assumes "cs_inv st" "\<not> cs_MessageStopSent st"
  shows "cs_MessageStopSent (fst (FinalizeChatCompletionsAnthropicStream st))"
    and "cs_MessageStartSent (fst (FinalizeChatCompletionsAnthropicStream st))"
    and "\<not> cs_ContentBlockOpen (fst (FinalizeChatCompletionsAnthropicStream st))"
proof -
  let ?s = "fst (ensureCCAnthropicMessageStart st)"
  let ?p = "fst (announce_pending (sort (map fst (cs_pendingToolCallID ?s))) ?s)"
  have f: "fst (FinalizeChatCompletionsAnthropicStream st) = fst (cc_message_end (fst (closeCCAnthropicBlock ?p)))"
    using assms(2) by (simp add: FinalizeChatCompletionsAnthropicStream_def)
  have start: "cs_MessageStartSent (fst (closeCCAnthropicBlock s)) = cs_MessageStartSent s"
    "cs_MessageStartSent (fst (announceCCAnthropicToolBlock k c n s)) = cs_MessageStartSent s" for s k c n
    by (simp_all add: closeCCAnthropicBlock_def announceCCAnthropicToolBlock_def Let_def)
  have pend: "cs_MessageStartSent (fst (announce_pending is s)) = cs_MessageStartSent s" for "is" s
    by (induction "is" arbitrary: s) (simp_all add: start)
  show "cs_MessageStopSent (fst (FinalizeChatCompletionsAnthropicStream st))"
    unfolding f by (simp add: cc_message_end_def)
  show "cs_MessageStartSent (fst (FinalizeChatCompletionsAnthropicStream st))"
    unfolding f by (simp add: cc_message_end_def start pend ensureCCAnthropicMessageStart_def)
  have "cs_inv ?s" using cs_message_start_ok [OF assms(1)] by (simp add: emits_ok_def)
  then have "cs_inv ?p" using cs_pending_ok by (simp add: emits_ok_def)
  from cs_close_ok(2) [OF this] show "\<not> cs_ContentBlockOpen (fst (FinalizeChatCompletionsAnthropicStream st))"
    unfolding f by (simp add: cc_message_end_def)
qed

end
