(* ===== verification/Chat_Responses_Stream.thy ===== *)
theory Chat_Responses_Stream
  imports Chat_To_Responses
begin

text \<open>
  The stateful conversion of a Chat Completions chunk stream into Responses events
  (\<open>pkg/apicompat/chatcompletions_responses_bridge.go\<close>). Items get their output index when they are
  opened: the reasoning item, the message item, one item per tool call. A tool call is announced once
  its kind can be decided by its name; the stream's end closes every item.
\<close>

section \<open>The stream state\<close>

record ChatCompletionsToResponsesStreamState =
  cq_ResponseID :: string
  cq_Model :: string
  cq_Created :: int
  cq_SequenceNumber :: int
  cq_CreatedSent :: bool
  cq_CompletedSent :: bool
  cq_nextOutputIndex :: int
  cq_ReasoningItemID :: string
  cq_ReasoningIndex :: int
  cq_ReasoningOpen :: bool
  cq_ReasoningDone :: bool
  cq_MessageItemID :: string
  cq_MessageIndex :: int
  cq_TextPartOpen :: bool
  cq_Text :: string
  cq_Reasoning :: string
  cq_ToolCalls :: "(int \<times> ChatToolCall) list"
  cq_ToolItemIDs :: "int \<rightharpoonup> string"
  cq_ToolOutputIndex :: "int \<rightharpoonup> int"
  cq_CustomTools :: "(string \<times> bool) list"
  cq_ToolSearchDeclared :: bool
  cq_NamespaceTools :: "(string \<times> NamespacedToolName) list"
  cq_toolIsCustom :: "int \<Rightarrow> bool"
  cq_toolIsToolSearch :: "int \<Rightarrow> bool"
  cq_toolNamespace :: "int \<rightharpoonup> NamespacedToolName"
  cq_toolAnnounced :: "int \<Rightarrow> bool"
  cq_FinishReason :: string
  cq_Usage :: "ResponsesUsage option"
  cq_rand :: nat

definition NewChatCompletionsToResponsesStreamState ::
  "(nat \<Rightarrow> string) \<Rightarrow> string \<Rightarrow> int \<Rightarrow> ChatCompletionsToResponsesStreamState" where
  "NewChatCompletionsToResponsesStreamState rand model created = \<lparr>cq_ResponseID = generateResponsesID rand 0,
     cq_Model = model, cq_Created = created, cq_SequenceNumber = 0, cq_CreatedSent = False, cq_CompletedSent = False,
     cq_nextOutputIndex = 0, cq_ReasoningItemID = [], cq_ReasoningIndex = 0, cq_ReasoningOpen = False,
     cq_ReasoningDone = False, cq_MessageItemID = [], cq_MessageIndex = 0, cq_TextPartOpen = False, cq_Text = [],
     cq_Reasoning = [], cq_ToolCalls = [], cq_ToolItemIDs = Map.empty, cq_ToolOutputIndex = Map.empty,
     cq_CustomTools = [], cq_ToolSearchDeclared = False, cq_NamespaceTools = [], cq_toolIsCustom = (\<lambda>_. False),
     cq_toolIsToolSearch = (\<lambda>_. False), cq_toolNamespace = Map.empty, cq_toolAnnounced = (\<lambda>_. False),
     cq_FinishReason = [], cq_Usage = None, cq_rand = 1\<rparr>"

type_synonym cq_result = "ChatCompletionsToResponsesStreamState \<times> ResponsesStreamEvent list"

definition chatToResponsesEvent ::
  "string \<Rightarrow> ResponsesStreamEvent \<Rightarrow> ChatCompletionsToResponsesStreamState \<Rightarrow> cq_result" where
  "chatToResponsesEvent eventType template st =
     (st\<lparr>cq_SequenceNumber := cq_SequenceNumber st + 1\<rparr>,
      [template\<lparr>rv_Type := eventType, rv_SequenceNumber := cq_SequenceNumber st\<rparr>])"

text \<open>Several events in a row.\<close>

fun emit_events :: "(string \<times> ResponsesStreamEvent) list \<Rightarrow> ChatCompletionsToResponsesStreamState \<Rightarrow> cq_result" where
  "emit_events [] st = (st, [])"
| "emit_events ((t, e) # es) st = emit_seq (chatToResponsesEvent t e st) (emit_events es)"

definition item_event :: "int \<Rightarrow> ResponsesOutput \<Rightarrow> ResponsesStreamEvent" where
  "item_event i item = zeroResponsesStreamEvent\<lparr>rv_OutputIndex := i, rv_Item := Some item\<rparr>"

definition part_event :: "int \<Rightarrow> string \<Rightarrow> ResponsesStreamEvent" where
  "part_event i itemID = zeroResponsesStreamEvent\<lparr>rv_OutputIndex := i, rv_ItemID := itemID\<rparr>"

definition text_part :: "string \<Rightarrow> string \<Rightarrow> ResponsesContentPart" where
  "text_part t s = zeroResponsesContentPart\<lparr>cp_Type := t, cp_Text := s\<rparr>"

section \<open>Opening and closing items\<close>

definition ensureChatToResponsesCreated :: "ChatCompletionsToResponsesStreamState \<Rightarrow> cq_result" where
  "ensureChatToResponsesCreated st =
     (if cq_CreatedSent st then (st, [])
      else chatToResponsesEvent ''response.created''
             (zeroResponsesStreamEvent\<lparr>rv_Response := Some (zeroResponsesResponse\<lparr>rr_ID := cq_ResponseID st,
                rr_Object := ''response'', rr_Model := cq_Model st, rr_Status := ''in_progress'', rr_Output := []\<rparr>)\<rparr>)
             (st\<lparr>cq_CreatedSent := True\<rparr>))"

definition ensureChatReasoningItem ::
  "(nat \<Rightarrow> string) \<Rightarrow> ChatCompletionsToResponsesStreamState \<Rightarrow> cq_result" where
  "ensureChatReasoningItem rand st =
     (if cq_ReasoningOpen st \<or> cq_ReasoningDone st then (st, [])
      else
        (let i = generateItemID rand (cq_rand st); x = cq_nextOutputIndex st
         in emit_events
              [(''response.output_item.added'', item_event x (zeroResponsesOutput\<lparr>ro_Type := ''reasoning'', ro_ID := i,
                  ro_Status := ''in_progress''\<rparr>)),
               (''response.reasoning_summary_part.added'', (part_event x i)\<lparr>rv_Part := Some (text_part ''summary_text'' [])\<rparr>)]
              (st\<lparr>cq_ReasoningOpen := True, cq_ReasoningItemID := i, cq_ReasoningIndex := x,
                  cq_nextOutputIndex := x + 1, cq_rand := Suc (cq_rand st)\<rparr>)))"

definition closeChatReasoningItem :: "ChatCompletionsToResponsesStreamState \<Rightarrow> cq_result" where
  "closeChatReasoningItem st =
     (if \<not> cq_ReasoningOpen st then (st, [])
      else
        (let i = cq_ReasoningItemID st; x = cq_ReasoningIndex st; reasoning = cq_Reasoning st
         in emit_events
              [(''response.reasoning_summary_text.done'', (part_event x i)\<lparr>rv_Text := reasoning\<rparr>),
               (''response.reasoning_summary_part.done'', (part_event x i)\<lparr>rv_Part := Some (text_part ''summary_text'' reasoning)\<rparr>),
               (''response.output_item.done'', item_event x ((reasoning_item i reasoning)\<lparr>ro_Status := ''completed''\<rparr>))]
              (st\<lparr>cq_ReasoningOpen := False, cq_ReasoningDone := True\<rparr>)))"

definition ensureChatToResponsesMessageItem ::
  "(nat \<Rightarrow> string) \<Rightarrow> ChatCompletionsToResponsesStreamState \<Rightarrow> cq_result" where
  "ensureChatToResponsesMessageItem rand st =
     (if cq_MessageItemID st \<noteq> [] then (st, [])
      else
        (let i = generateItemID rand (cq_rand st); x = cq_nextOutputIndex st
         in chatToResponsesEvent ''response.output_item.added''
              (item_event x (zeroResponsesOutput\<lparr>ro_Type := ''message'', ro_ID := i, ro_Role := ''assistant'',
                 ro_Status := ''in_progress'', ro_Content := [text_part ''output_text'' []]\<rparr>))
              (st\<lparr>cq_MessageItemID := i, cq_MessageIndex := x, cq_nextOutputIndex := x + 1, cq_rand := Suc (cq_rand st)\<rparr>)))"

definition ensureChatToResponsesTextPart :: "ChatCompletionsToResponsesStreamState \<Rightarrow> cq_result" where
  "ensureChatToResponsesTextPart st =
     (if cq_TextPartOpen st then (st, [])
      else chatToResponsesEvent ''response.content_part.added''
             ((part_event (cq_MessageIndex st) (cq_MessageItemID st))\<lparr>rv_Part := Some (text_part ''output_text'' [])\<rparr>)
             (st\<lparr>cq_TextPartOpen := True\<rparr>))"

text \<open>Text appended to the message item, and its delta.\<close>

definition append_text :: "string \<Rightarrow> ChatCompletionsToResponsesStreamState \<Rightarrow> cq_result" where
  "append_text s st = chatToResponsesEvent ''response.output_text.delta''
     ((part_event (cq_MessageIndex st) (cq_MessageItemID st))\<lparr>rv_Delta := s\<rparr>) (st\<lparr>cq_Text := cq_Text st @ s\<rparr>)"

definition append_reasoning :: "string \<Rightarrow> ChatCompletionsToResponsesStreamState \<Rightarrow> cq_result" where
  "append_reasoning s st = chatToResponsesEvent ''response.reasoning_summary_text.delta''
     ((part_event (cq_ReasoningIndex st) (cq_ReasoningItemID st))\<lparr>rv_Delta := s\<rparr>)
     (st\<lparr>cq_Reasoning := cq_Reasoning st @ s\<rparr>)"

section \<open>Tool calls\<close>

definition the_int :: "int option \<Rightarrow> int" where
  "the_int x = (case x of None \<Rightarrow> 0 | Some i \<Rightarrow> i)"

definition arguments_delta :: "int \<Rightarrow> string \<Rightarrow> ChatToolCall \<Rightarrow> ChatCompletionsToResponsesStreamState \<Rightarrow> cq_result" where
  "arguments_delta idx s stored st = chatToResponsesEvent ''response.function_call_arguments.delta''
     ((part_event (the_int (cq_ToolOutputIndex st idx)) (opt_string (cq_ToolItemIDs st idx)))\<lparr>rv_Delta := s,
        rv_CallID := tc_ID stored, rv_Name := fc_Name (tc_Function stored)\<rparr>) st"

definition announceChatToolItem ::
  "int \<Rightarrow> ChatToolCall \<Rightarrow> bool \<Rightarrow> ChatCompletionsToResponsesStreamState \<Rightarrow> cq_result" where
  "announceChatToolItem idx stored force st =
     (let name = fc_Name (tc_Function stored)
      in if cq_toolAnnounced st idx then (st, [])
         else if \<not> force \<and> name = []
                 \<and> (cq_CustomTools st \<noteq> [] \<or> cq_ToolSearchDeclared st \<or> cq_NamespaceTools st \<noteq> [])
         then (st, [])
         else
           (let isCustom = (map_of (cq_CustomTools st) name = Some True);
                isToolSearch = (\<not> isCustom \<and> cq_ToolSearchDeclared st \<and> name = toolSearchProxyName);
                itemType = (if isToolSearch then ''tool_search_call''
                            else if isCustom then ''custom_tool_call'' else ''function_call'');
                ns = (if isCustom \<or> isToolSearch then None else map_of (cq_NamespaceTools st) name);
                st1 = st\<lparr>cq_toolAnnounced := (cq_toolAnnounced st)(idx := True),
                         cq_toolIsCustom := (cq_toolIsCustom st)(idx := isCustom),
                         cq_toolIsToolSearch := (cq_toolIsToolSearch st)(idx := isToolSearch),
                         cq_toolNamespace := (case ns of None \<Rightarrow> cq_toolNamespace st
                                              | Some n \<Rightarrow> (cq_toolNamespace st)(idx \<mapsto> n))\<rparr>
            in emit_seq
                 (chatToResponsesEvent ''response.output_item.added''
                    (item_event (the_int (cq_ToolOutputIndex st idx)) (zeroResponsesOutput\<lparr>ro_Type := itemType,
                       ro_ID := opt_string (cq_ToolItemIDs st idx), ro_CallID := tc_ID stored,
                       ro_Name := nt_Name (tool_name_of ns stored), ro_Namespace := nt_Namespace (tool_name_of ns stored),
                       ro_Status := ''in_progress''\<rparr>)) st1)
                 (\<lambda>s. if \<not> isCustom \<and> \<not> isToolSearch \<and> fc_Arguments (tc_Function stored) \<noteq> []
                      then arguments_delta idx (fc_Arguments (tc_Function stored)) stored s else (s, []))))"

text \<open>A tool call chunk finds its call or registers it; a new call closes the reasoning item.\<close>

definition register_tool ::
  "(nat \<Rightarrow> string) \<Rightarrow> int \<Rightarrow> ChatToolCall \<Rightarrow> ChatCompletionsToResponsesStreamState \<Rightarrow> cq_result" where
  "register_tool rand idx tc st =
     (case map_of (cq_ToolCalls st) idx of
        None \<Rightarrow>
          emit_seq (closeChatReasoningItem st) (\<lambda>s.
            (let n = (if tc_ID tc = [] then Suc (cq_rand s) else cq_rand s);
                 copyCall = tc\<lparr>tc_ID := (if tc_ID tc = [] then generateItemID rand (cq_rand s) else tc_ID tc),
                               tc_Type := ''function'', tc_Function := (tc_Function tc)\<lparr>fc_Arguments := []\<rparr>\<rparr>
             in (s\<lparr>cq_ToolCalls := assoc_set idx copyCall (cq_ToolCalls s),
                   cq_ToolItemIDs := (cq_ToolItemIDs s)(idx \<mapsto> generateItemID rand n),
                   cq_ToolOutputIndex := (cq_ToolOutputIndex s)(idx \<mapsto> cq_nextOutputIndex s),
                   cq_nextOutputIndex := cq_nextOutputIndex s + 1, cq_rand := Suc n\<rparr>, [])))
      | Some stored \<Rightarrow>
          (let stored' = stored\<lparr>tc_ID := (if tc_ID tc = [] then tc_ID stored else tc_ID tc),
                 tc_Function := (tc_Function stored)\<lparr>fc_Name := (if fc_Name (tc_Function tc) = []
                   then fc_Name (tc_Function stored) else fc_Name (tc_Function tc))\<rparr>\<rparr>
           in (st\<lparr>cq_ToolCalls := assoc_set idx stored' (cq_ToolCalls st)\<rparr>, [])))"

definition stored_call :: "int \<Rightarrow> ChatCompletionsToResponsesStreamState \<Rightarrow> ChatToolCall" where
  "stored_call idx st = (case map_of (cq_ToolCalls st) idx of None \<Rightarrow> zeroChatToolCall | Some t \<Rightarrow> t)"

definition append_arguments ::
  "int \<Rightarrow> string \<Rightarrow> ChatCompletionsToResponsesStreamState \<Rightarrow> cq_result" where
  "append_arguments idx s st =
     (if s = [] then (st, [])
      else
        (let stored = stored_call idx st;
             stored' = stored\<lparr>tc_Function := (tc_Function stored)\<lparr>fc_Arguments := fc_Arguments (tc_Function stored) @ s\<rparr>\<rparr>;
             st1 = st\<lparr>cq_ToolCalls := assoc_set idx stored' (cq_ToolCalls st)\<rparr>
         in if cq_toolAnnounced st idx \<and> \<not> cq_toolIsCustom st idx \<and> \<not> cq_toolIsToolSearch st idx
            then arguments_delta idx s stored' st1 else (st1, [])))"

definition chat_tool_delta ::
  "(nat \<Rightarrow> string) \<Rightarrow> ChatToolCall \<Rightarrow> ChatCompletionsToResponsesStreamState \<Rightarrow> cq_result" where
  "chat_tool_delta rand tc st =
     (let idx = the_int (tc_Index tc)
      in emit_seq (emit_seq (register_tool rand idx tc st)
                    (\<lambda>s. announceChatToolItem idx (stored_call idx s) False s))
           (append_arguments idx (fc_Arguments (tc_Function tc))))"

fun chat_tool_deltas ::
  "(nat \<Rightarrow> string) \<Rightarrow> ChatToolCall list \<Rightarrow> ChatCompletionsToResponsesStreamState \<Rightarrow> cq_result" where
  "chat_tool_deltas rand [] st = (st, [])"
| "chat_tool_deltas rand (t # ts) st = emit_seq (chat_tool_delta rand t st) (chat_tool_deltas rand ts)"

section \<open>Chunks\<close>

definition chat_choice ::
  "(nat \<Rightarrow> string) \<Rightarrow> ChatChunkChoice \<Rightarrow> ChatCompletionsToResponsesStreamState \<Rightarrow> cq_result" where
  "chat_choice rand choice st =
     (let d = ck_Delta choice; reasoning = opt_string (cd_ReasoningContent d); content = opt_string (cd_Content d);
          r1 = (if reasoning = [] then (st, [])
                else emit_seq (ensureChatReasoningItem rand st) (append_reasoning reasoning));
          r2 = emit_seq r1 (\<lambda>s. if content = [] then (s, [])
                 else emit_seq (emit_seq (emit_seq (closeChatReasoningItem s) (ensureChatToResponsesMessageItem rand))
                                 ensureChatToResponsesTextPart) (append_text content));
          r3 = emit_seq r2 (chat_tool_deltas rand (cd_ToolCalls d))
      in emit_seq r3 (\<lambda>s. (if opt_string (ck_FinishReason choice) = [] then s
                           else s\<lparr>cq_FinishReason := opt_string (ck_FinishReason choice)\<rparr>, [])))"

fun chat_choices ::
  "(nat \<Rightarrow> string) \<Rightarrow> ChatChunkChoice list \<Rightarrow> ChatCompletionsToResponsesStreamState \<Rightarrow> cq_result" where
  "chat_choices rand [] st = (st, [])"
| "chat_choices rand (c # cs) st = emit_seq (chat_choice rand c st) (chat_choices rand cs)"

definition ChatCompletionsChunkToResponsesEvents ::
  "(nat \<Rightarrow> string) \<Rightarrow> ChatCompletionsChunk \<Rightarrow> ChatCompletionsToResponsesStreamState \<Rightarrow> cq_result" where
  "ChatCompletionsChunkToResponsesEvents rand chunk st =
     (let st1 = st\<lparr>cq_ResponseID := (if cx_ID chunk = [] then cq_ResponseID st else cx_ID chunk),
                   cq_Model := (if cq_Model st = [] \<and> cx_Model chunk \<noteq> [] then cx_Model chunk else cq_Model st),
                   cq_Usage := (case cx_Usage chunk of None \<Rightarrow> cq_Usage st
                                | Some u \<Rightarrow> ChatUsageToResponsesUsage (Some u))\<rparr>
      in emit_seq (ensureChatToResponsesCreated st1) (chat_choices rand (cx_Choices chunk)))"

section \<open>The end of the stream\<close>

definition synthesizeChatReasoningFallbackMessage ::
  "(nat \<Rightarrow> string) \<Rightarrow> ChatCompletionsToResponsesStreamState \<Rightarrow> cq_result" where
  "synthesizeChatReasoningFallbackMessage rand st =
     (if cq_MessageItemID st \<noteq> [] \<or> cq_Text st \<noteq> [] \<or> cq_Reasoning st = [] \<or> cq_ToolCalls st \<noteq> [] then (st, [])
      else if TrimSpace (cq_Reasoning st) = [] then (st, [])
      else emit_seq (emit_seq (ensureChatToResponsesMessageItem rand st) ensureChatToResponsesTextPart)
             (append_text (cq_Reasoning st)))"

definition closeChatMessageItem :: "ChatCompletionsToResponsesStreamState \<Rightarrow> cq_result" where
  "closeChatMessageItem st =
     (if cq_MessageItemID st = [] then (st, [])
      else
        (let i = cq_MessageItemID st; x = cq_MessageIndex st; text = cq_Text st
         in emit_events
              ((if cq_TextPartOpen st
                then [(''response.output_text.done'', (part_event x i)\<lparr>rv_Text := text\<rparr>),
                      (''response.content_part.done'', (part_event x i)\<lparr>rv_Part := Some (text_part ''output_text'' text)\<rparr>)]
                else [])
               @ [(''response.output_item.done'', item_event x (output_text_item i text))]) st))"

definition closeChatToolItem :: "int \<Rightarrow> ChatCompletionsToResponsesStreamState \<Rightarrow> cq_result" where
  "closeChatToolItem i st =
     (case map_of (cq_ToolCalls st) i of
        None \<Rightarrow> (st, [])
      | Some t \<Rightarrow>
          (case cq_ToolItemIDs st i of
             None \<Rightarrow> (st, [])
           | Some itemID \<Rightarrow>
               emit_seq (announceChatToolItem i t True st) (\<lambda>s.
                 (let x = the_int (cq_ToolOutputIndex s i);
                      arguments = arguments_or_empty (fc_Arguments (tc_Function t))
                  in if cq_toolIsCustom s i then
                       (let input = extractCustomToolCallInput arguments
                        in emit_events
                             ((if input = [] then []
                               else [(''response.custom_tool_call_input.delta'', (part_event x itemID)\<lparr>rv_Delta := input\<rparr>)])
                              @ [(''response.custom_tool_call_input.done'', (part_event x itemID)\<lparr>rv_CallID := tc_ID t,
                                    rv_Name := fc_Name (tc_Function t), rv_Input := input\<rparr>),
                                 (''response.output_item.done'', item_event x (custom_call_item itemID t))]) s)
                     else if cq_toolIsToolSearch s i then
                       chatToResponsesEvent ''response.output_item.done'' (item_event x (tool_search_item itemID t)) s
                     else
                       (let name = tool_name_of (cq_toolNamespace s i) t
                        in emit_events
                             [(''response.function_call_arguments.done'', (part_event x itemID)\<lparr>rv_CallID := tc_ID t,
                                 rv_Name := nt_Name name, rv_Arguments := arguments\<rparr>),
                              (''response.output_item.done'', item_event x (function_call_item itemID name t))] s)))))"

text \<open>The loop \<open>for i := 0; i < len(state.ToolCalls); i++\<close>.\<close>

fun closeChatToolItems_from :: "nat \<Rightarrow> nat \<Rightarrow> ChatCompletionsToResponsesStreamState \<Rightarrow> cq_result" where
  "closeChatToolItems_from i 0 st = (st, [])"
| "closeChatToolItems_from i (Suc n) st =
     emit_seq (closeChatToolItem (int i) st) (closeChatToolItems_from (Suc i) n)"

definition closeChatToolItems :: "ChatCompletionsToResponsesStreamState \<Rightarrow> cq_result" where
  "closeChatToolItems st = closeChatToolItems_from 0 (length (cq_ToolCalls st)) st"

text \<open>The terminal output; \<open>n\<close> counts the draws of item ids, which are fresh for all but the message.\<close>

fun chat_tool_output ::
  "(nat \<Rightarrow> string) \<Rightarrow> nat \<Rightarrow> nat \<Rightarrow> nat \<Rightarrow> ChatCompletionsToResponsesStreamState \<Rightarrow> ResponsesOutput list" where
  "chat_tool_output rand n i 0 st = []"
| "chat_tool_output rand n i (Suc k) st =
     (case map_of (cq_ToolCalls st) (int i) of
        None \<Rightarrow> chat_tool_output rand n (Suc i) k st
      | Some t \<Rightarrow>
          (if cq_toolIsCustom st (int i) then custom_call_item (generateItemID rand n) t
           else if cq_toolIsToolSearch st (int i) then tool_search_item (generateItemID rand n) t
           else function_call_item (generateItemID rand n) (tool_name_of (cq_toolNamespace st (int i)) t) t)
          # chat_tool_output rand (Suc n) (Suc i) k st)"

definition chatOutput :: "(nat \<Rightarrow> string) \<Rightarrow> ChatCompletionsToResponsesStreamState \<Rightarrow> ResponsesOutput list" where
  "chatOutput rand st =
     (let n0 = cq_rand st;
          n1 = (if cq_Reasoning st \<noteq> [] then Suc n0 else n0);
          has_message = (cq_MessageItemID st \<noteq> [] \<or> cq_ToolCalls st = []);
          n2 = (if has_message then Suc n1 else n1)
      in (if cq_Reasoning st \<noteq> [] then [reasoning_item (generateItemID rand n0) (cq_Reasoning st)] else [])
         @ (if has_message
            then [output_text_item (if cq_MessageItemID st \<noteq> [] then cq_MessageItemID st else generateItemID rand n1)
                    (cq_Text st)] else [])
         @ chat_tool_output rand n2 0 (length (cq_ToolCalls st)) st)"

definition complete_chat_stream ::
  "(nat \<Rightarrow> string) \<Rightarrow> ChatCompletionsToResponsesStreamState \<Rightarrow> cq_result" where
  "complete_chat_stream rand st =
     (let cut = (cq_FinishReason st = ''length'')
      in chatToResponsesEvent ''response.completed''
           (zeroResponsesStreamEvent\<lparr>rv_Response := Some (zeroResponsesResponse\<lparr>rr_ID := cq_ResponseID st,
              rr_Object := ''response'', rr_Model := cq_Model st,
              rr_Status := (if cut then ''incomplete'' else ''completed''), rr_Output := chatOutput rand st,
              rr_Usage := cq_Usage st,
              rr_IncompleteDetails := (if cut then Some \<lparr>rd_Reason = ''max_output_tokens''\<rparr> else None)\<rparr>)\<rparr>)
           (st\<lparr>cq_CompletedSent := True\<rparr>))"

definition FinalizeChatCompletionsResponsesStream ::
  "(nat \<Rightarrow> string) \<Rightarrow> ChatCompletionsToResponsesStreamState \<Rightarrow> cq_result" where
  "FinalizeChatCompletionsResponsesStream rand st =
     (if cq_CompletedSent st then (st, [])
      else emit_seq (emit_seq (emit_seq (emit_seq (emit_seq (ensureChatToResponsesCreated st)
             closeChatReasoningItem) (synthesizeChatReasoningFallbackMessage rand)) closeChatMessageItem)
             closeChatToolItems) (complete_chat_stream rand))"

end
