(* ===== verification/Chat_Responses_Contract.thy ===== *)
theory Chat_Responses_Contract
  imports Stream_Contracts Chat_Responses_Stream
begin

text \<open>
  The Chat Completions to Responses stream against the contract of a stream converter. The monitor
  is a strict Responses client: sequence numbers are consecutive, the response is created first and
  completed last, an item is announced once and finished at most once, and every other event names
  an announced item that is not finished (reasoning deltas apart, which the code also sends for a
  finished reasoning item). The invariant is the allocation of output indices.
\<close>

section \<open>Monitor, view and invariant\<close>

text \<open>View: next sequence number, created sent, completed sent, announced indices, finished indices.\<close>

type_synonym slot_view = "int \<times> bool \<times> bool \<times> int set \<times> int set"

definition slot_monitor :: "ResponsesStreamEvent \<Rightarrow> slot_view \<Rightarrow> slot_view option" where
  "slot_monitor e v =
     (case v of (n, created, completed, added, finished) \<Rightarrow>
        (let i = rv_OutputIndex e
         in if rv_SequenceNumber e \<noteq> n \<or> completed then None
            else if rv_Type e = ''response.created'' then
              (if created then None else Some (n + 1, True, completed, added, finished))
            else if \<not> created then None
            else if rv_Type e = ''response.completed'' then Some (n + 1, created, True, added, finished)
            else if rv_Type e = ''response.output_item.added'' then
              (if i < 0 \<or> i \<in> added then None else Some (n + 1, created, completed, insert i added, finished))
            else if i \<notin> added then None
            else if rv_Type e = ''response.output_item.done'' then
              (if i \<in> finished then None else Some (n + 1, created, completed, added, insert i finished))
            else if i \<in> finished \<and> rv_Type e \<noteq> ''response.reasoning_summary_text.delta'' then None
            else Some (n + 1, created, completed, added, finished)))"

text \<open>The slots of the three kinds of items.\<close>

definition reasoning_slot :: "ChatCompletionsToResponsesStreamState \<Rightarrow> int option" where
  "reasoning_slot st = (if cq_ReasoningOpen st \<or> cq_ReasoningDone st then Some (cq_ReasoningIndex st) else None)"

definition message_slot :: "ChatCompletionsToResponsesStreamState \<Rightarrow> int option" where
  "message_slot st = (if cq_MessageItemID st \<noteq> [] then Some (cq_MessageIndex st) else None)"

definition added_slots :: "ChatCompletionsToResponsesStreamState \<Rightarrow> int set" where
  "added_slots st = set_option (reasoning_slot st) \<union> set_option (message_slot st)
     \<union> {x. \<exists>k. cq_toolAnnounced st k \<and> cq_ToolOutputIndex st k = Some x}"

definition done_slots :: "ChatCompletionsToResponsesStreamState \<Rightarrow> int set" where
  "done_slots st = (if cq_ReasoningDone st then {cq_ReasoningIndex st} else {})"

definition slot_view :: "int set \<Rightarrow> ChatCompletionsToResponsesStreamState \<Rightarrow> slot_view" where
  "slot_view F st = (cq_SequenceNumber st, cq_CreatedSent st, cq_CompletedSent st, added_slots st, F)"

definition cq_view :: "ChatCompletionsToResponsesStreamState \<Rightarrow> slot_view" where
  "cq_view st = slot_view (done_slots st) st"

text \<open>The indices handed out are the numbers below \<open>n\<close>, each to one item.\<close>

definition alloc_ok :: "int \<Rightarrow> int option \<Rightarrow> int option \<Rightarrow> (int \<rightharpoonup> int) \<Rightarrow> bool" where
  "alloc_ok n r m tools \<longleftrightarrow> 0 \<le> n \<and> set_option r \<union> set_option m \<union> ran tools = {0..<n} \<and>
     set_option r \<inter> set_option m = {} \<and> (set_option r \<union> set_option m) \<inter> ran tools = {} \<and> inj_on tools (dom tools)"

definition cq_alloc :: "ChatCompletionsToResponsesStreamState \<Rightarrow> bool" where
  "cq_alloc st \<longleftrightarrow> alloc_ok (cq_nextOutputIndex st) (reasoning_slot st) (message_slot st) (cq_ToolOutputIndex st)"

definition call_inv :: "ChatCompletionsToResponsesStreamState \<Rightarrow> bool" where
  "call_inv st \<longleftrightarrow> distinct (map fst (cq_ToolCalls st)) \<and>
     dom (cq_ToolOutputIndex st) = fst ` set (cq_ToolCalls st) \<and>
     dom (cq_ToolItemIDs st) = fst ` set (cq_ToolCalls st) \<and>
     (\<forall>k. cq_toolAnnounced st k \<longrightarrow> k \<in> fst ` set (cq_ToolCalls st))"

definition cq_inv :: "ChatCompletionsToResponsesStreamState \<Rightarrow> bool" where
  "cq_inv st \<longleftrightarrow> cq_alloc st \<and> call_inv st \<and> \<not> cq_CompletedSent st \<and>
     \<not> (cq_ReasoningOpen st \<and> cq_ReasoningDone st) \<and> (cq_TextPartOpen st \<longrightarrow> cq_MessageItemID st \<noteq> [])"

abbreviation cq_live :: "ChatCompletionsToResponsesStreamState \<Rightarrow> bool" where
  "cq_live st \<equiv> cq_inv st \<and> cq_CreatedSent st"

abbreviation cq_ok :: "ChatCompletionsToResponsesStreamState \<Rightarrow> cq_result \<Rightarrow> bool" where
  "cq_ok \<equiv> emits_ok cq_live slot_monitor cq_view"

text \<open>An event that names the slot and neither announces nor finishes it.\<close>

definition on_slot :: "int \<Rightarrow> string \<times> ResponsesStreamEvent \<Rightarrow> bool" where
  "on_slot x p \<longleftrightarrow> rv_OutputIndex (snd p) = x \<and>
     fst p \<notin> {''response.created'', ''response.completed'', ''response.output_item.added'', ''response.output_item.done''}"

text \<open>What closing the tool calls leaves.\<close>

definition closed_calls ::
  "(int \<Rightarrow> bool) \<Rightarrow> int set \<Rightarrow> ChatCompletionsToResponsesStreamState \<Rightarrow> cq_result \<Rightarrow> bool" where
  "closed_calls ks F st r \<longleftrightarrow> cq_live (fst r) \<and>
     run_monitor slot_monitor (snd r) (slot_view F st)
       = Some (slot_view (F \<union> {x. \<exists>k. ks k \<and> cq_ToolOutputIndex st k = Some x}) (fst r)) \<and>
     cq_ToolOutputIndex (fst r) = cq_ToolOutputIndex st \<and> cq_ToolCalls (fst r) = cq_ToolCalls st \<and>
     cq_nextOutputIndex (fst r) = cq_nextOutputIndex st \<and>
     reasoning_slot (fst r) = reasoning_slot st \<and> message_slot (fst r) = message_slot st \<and>
     (\<forall>k. cq_toolAnnounced st k \<or> ks k \<and> k \<in> fst ` set (cq_ToolCalls st) \<longrightarrow> cq_toolAnnounced (fst r) k)"

text \<open>The caller sets the declared tools before the first chunk.\<close>

definition declare_tools ::
  "(string \<times> bool) list \<Rightarrow> bool \<Rightarrow> (string \<times> NamespacedToolName) list \<Rightarrow> ChatCompletionsToResponsesStreamState
     \<Rightarrow> ChatCompletionsToResponsesStreamState" where
  "declare_tools custom search ns st =
     st\<lparr>cq_CustomTools := custom, cq_ToolSearchDeclared := search, cq_NamespaceTools := ns\<rparr>"

section \<open>Slots\<close>

lemma slot_event:
  "slot_monitor (e\<lparr>rv_Type := t, rv_SequenceNumber := n\<rparr>) (n, True, False, A, F) =
     (if t = ''response.created'' then None
      else if t = ''response.completed'' then Some (n + 1, True, True, A, F)
      else if t = ''response.output_item.added'' then
        (if rv_OutputIndex e < 0 \<or> rv_OutputIndex e \<in> A then None
         else Some (n + 1, True, False, insert (rv_OutputIndex e) A, F))
      else if rv_OutputIndex e \<notin> A then None
      else if t = ''response.output_item.done'' then
        (if rv_OutputIndex e \<in> F then None else Some (n + 1, True, False, A, insert (rv_OutputIndex e) F))
      else if rv_OutputIndex e \<in> F \<and> t \<noteq> ''response.reasoning_summary_text.delta'' then None
      else Some (n + 1, True, False, A, F))"
  by (simp add: slot_monitor_def Let_def)

lemma atLeastLessThan_add1: "0 \<le> n \<Longrightarrow> {0..<n + 1} = insert n {0..<n::int}"
  by auto

lemma alloc_reasoning: "alloc_ok n None m tools \<Longrightarrow> alloc_ok (n + 1) (Some n) m tools"
  unfolding alloc_ok_def by (auto simp: atLeastLessThan_add1)

lemma alloc_message: "alloc_ok n r None tools \<Longrightarrow> alloc_ok (n + 1) r (Some n) tools"
  unfolding alloc_ok_def by (auto simp: atLeastLessThan_add1)

lemma alloc_tool:
  assumes a: "alloc_ok n r m tools" and k: "tools k = None"
  shows "alloc_ok (n + 1) r m (tools(k \<mapsto> n))"
proof -
  have "n \<notin> ran tools" "n \<notin> set_option r" "n \<notin> set_option m" using a by (auto simp: alloc_ok_def)
  moreover from this have "inj_on (tools(k \<mapsto> n)) (dom (tools(k \<mapsto> n)))"
    using a k by (auto simp: alloc_ok_def inj_on_def ran_def)
  ultimately show ?thesis
    using a k unfolding alloc_ok_def by (auto simp: ran_map_upd atLeastLessThan_add1)
qed

text \<open>The next index is not taken, and indices are not negative.\<close>

lemma next_slot_free:
  assumes "cq_inv st"
  shows "cq_nextOutputIndex st \<notin> added_slots st" "0 \<le> cq_nextOutputIndex st"
    "\<And>x. x \<in> added_slots st \<Longrightarrow> 0 \<le> x"
proof -
  have "added_slots st \<subseteq> {0..<cq_nextOutputIndex st}"
    using assms by (auto simp: cq_inv_def cq_alloc_def alloc_ok_def added_slots_def ran_def)
  then show "cq_nextOutputIndex st \<notin> added_slots st" "\<And>x. x \<in> added_slots st \<Longrightarrow> 0 \<le> x" by auto
  show "0 \<le> cq_nextOutputIndex st" using assms by (simp add: cq_inv_def cq_alloc_def alloc_ok_def)
qed

lemma done_subset: "cq_inv st \<Longrightarrow> done_slots st \<subseteq> added_slots st"
  by (auto simp: done_slots_def added_slots_def reasoning_slot_def)

lemma event_index [simp]:
  "rv_OutputIndex (item_event i item) = i" "rv_OutputIndex (part_event i itemID) = i"
  by (simp_all add: item_event_def part_event_def)

lemmas event_simps = slot_event chatToResponsesEvent_def
lemmas slot_defs = cq_view_def slot_view_def added_slots_def done_slots_def reasoning_slot_def message_slot_def
lemmas inv_defs = cq_inv_def cq_alloc_def call_inv_def

lemma generateItemID_nonempty [simp]: "generateItemID rand n \<noteq> []"
  by (simp add: generateItemID_def)

section \<open>Every handler keeps the contract\<close>

lemma cq_created_ok:
  assumes "cq_inv st"
  shows "emits_ok cq_live slot_monitor cq_view st (ensureChatToResponsesCreated st)"
  using assms
  by (auto simp: ensureChatToResponsesCreated_def emits_ok_def chatToResponsesEvent_def slot_monitor_def slot_defs
      inv_defs zeroResponsesStreamEvent_def)

lemma cq_reasoning_item_ok:
  assumes "cq_live st"
  shows "cq_ok st (ensureChatReasoningItem rand st)"
proof (cases "cq_ReasoningOpen st \<or> cq_ReasoningDone st")
  case False
  let ?r = "ensureChatReasoningItem rand st"
  have "cq_live (fst ?r)"
    using False assms alloc_reasoning
    by (auto simp: ensureChatReasoningItem_def Let_def chatToResponsesEvent_def inv_defs reasoning_slot_def message_slot_def)
  moreover have "added_slots (fst ?r) = insert (cq_nextOutputIndex st) (added_slots st)"
    using False by (auto simp: ensureChatReasoningItem_def Let_def chatToResponsesEvent_def slot_defs)
  ultimately show ?thesis
    using False assms next_slot_free [of st]
    by (simp add: ensureChatReasoningItem_def emits_ok_def Let_def event_simps cq_view_def slot_view_def cq_inv_def
        done_slots_def)
qed (use assms in \<open>auto simp: ensureChatReasoningItem_def emits_ok_idle\<close>)


lemma cq_close_reasoning_ok:
  assumes "cq_live st"
  shows "cq_ok st (closeChatReasoningItem st)"
proof (cases "cq_ReasoningOpen st")
  case True
  let ?r = "closeChatReasoningItem st"
  have "cq_live (fst ?r)" "added_slots (fst ?r) = added_slots st"
    using True assms by (auto simp: closeChatReasoningItem_def Let_def chatToResponsesEvent_def inv_defs slot_defs)
  moreover have "cq_ReasoningIndex st \<in> added_slots st" "done_slots st = {}"
    using True assms by (auto simp: slot_defs cq_inv_def)
  ultimately show ?thesis
    using True assms
    by (simp add: closeChatReasoningItem_def emits_ok_def Let_def event_simps cq_view_def slot_view_def cq_inv_def
        done_slots_def)
qed (use assms in \<open>auto simp: closeChatReasoningItem_def emits_ok_idle\<close>)

lemma cq_message_item_ok:
  assumes "cq_live st"
  shows "cq_ok st (ensureChatToResponsesMessageItem rand st)"
proof (cases "cq_MessageItemID st = []")
  case True
  let ?r = "ensureChatToResponsesMessageItem rand st"
  have "cq_live (fst ?r)"
    using True assms alloc_message
    by (auto simp: ensureChatToResponsesMessageItem_def Let_def chatToResponsesEvent_def inv_defs reasoning_slot_def message_slot_def)
  moreover have "added_slots (fst ?r) = insert (cq_nextOutputIndex st) (added_slots st)" "done_slots (fst ?r) = done_slots st"
    using True by (auto simp: ensureChatToResponsesMessageItem_def Let_def chatToResponsesEvent_def slot_defs)
  ultimately show ?thesis
    using True assms next_slot_free [of st]
    by (simp add: ensureChatToResponsesMessageItem_def emits_ok_def Let_def event_simps cq_view_def slot_view_def cq_inv_def)
qed (use assms in \<open>auto simp: ensureChatToResponsesMessageItem_def emits_ok_idle\<close>)

lemma message_slot_live:
  assumes "cq_inv st" "cq_MessageItemID st \<noteq> []"
  shows "cq_MessageIndex st \<in> added_slots st" "cq_MessageIndex st \<notin> done_slots st"
  using assms by (auto simp: slot_defs cq_inv_def cq_alloc_def alloc_ok_def)

lemma tool_slot_live:
  assumes "cq_inv st" "cq_ToolOutputIndex st k = Some x"
  shows "x \<notin> done_slots st" "0 \<le> x" "x \<in> added_slots st \<longleftrightarrow> cq_toolAnnounced st k"
proof -
  have x: "x \<in> ran (cq_ToolOutputIndex st)" using assms(2) by (rule ranI)
  then show "0 \<le> x" using assms(1) by (auto simp: cq_inv_def cq_alloc_def alloc_ok_def)
  show "x \<notin> done_slots st"
    using assms(1) x by (auto simp: slot_defs cq_inv_def cq_alloc_def alloc_ok_def)
  have inj: "j = k" if "cq_ToolOutputIndex st j = Some x" for j
  proof (rule inj_onD [of "cq_ToolOutputIndex st" "dom (cq_ToolOutputIndex st)"])
    show "inj_on (cq_ToolOutputIndex st) (dom (cq_ToolOutputIndex st))"
      using assms(1) by (simp add: cq_inv_def cq_alloc_def alloc_ok_def)
  qed (use assms that in auto)
  have "(set_option (reasoning_slot st) \<union> set_option (message_slot st)) \<inter> ran (cq_ToolOutputIndex st) = {}"
    using assms(1) by (simp add: cq_inv_def cq_alloc_def alloc_ok_def)
  with x have "x \<in> added_slots st \<longleftrightarrow> (\<exists>j. cq_toolAnnounced st j \<and> cq_ToolOutputIndex st j = Some x)"
    unfolding added_slots_def by blast
  also have "\<dots> \<longleftrightarrow> cq_toolAnnounced st k" using assms(2) inj by blast
  finally show "x \<in> added_slots st \<longleftrightarrow> cq_toolAnnounced st k" .
qed

text \<open>
  Seen with a fixed set \<open>F\<close> of finished slots, an event that names an announced, unfinished item
  only counts. While the chunks come, \<open>F\<close> is the slot of a finished reasoning item.
\<close>

lemma slot_event_ok:
  assumes "cq_live st" "rv_OutputIndex e \<in> added_slots st"
    and "rv_OutputIndex e \<notin> F \<or> t = ''response.reasoning_summary_text.delta''"
    and "t \<notin> {''response.created'', ''response.completed'', ''response.output_item.added'', ''response.output_item.done''}"
  shows "emits_ok cq_live slot_monitor (slot_view F) st (chatToResponsesEvent t e st)"
proof -
  have "cq_live (st\<lparr>cq_SequenceNumber := n\<rparr>)" "added_slots (st\<lparr>cq_SequenceNumber := n\<rparr>) = added_slots st" for n
    using assms(1) by (auto simp: inv_defs slot_defs)
  then show ?thesis using assms by (auto simp: emits_ok_def event_simps slot_view_def cq_inv_def)
qed

lemma cq_ok_slot:
  "emits_ok cq_live slot_monitor (slot_view (done_slots st)) st r \<Longrightarrow> done_slots (fst r) = done_slots st \<Longrightarrow> cq_ok st r"
  by (simp add: emits_ok_def cq_view_def)

lemma cq_event_ok:
  assumes "cq_live st" "rv_OutputIndex e \<in> added_slots st"
    and "rv_OutputIndex e \<notin> done_slots st \<or> t = ''response.reasoning_summary_text.delta''"
    and "t \<notin> {''response.created'', ''response.completed'', ''response.output_item.added'', ''response.output_item.done''}"
  shows "cq_ok st (chatToResponsesEvent t e st)"
  by (rule cq_ok_slot [OF slot_event_ok [OF assms]]) (simp add: chatToResponsesEvent_def done_slots_def)

text \<open>What neither the invariant nor the view reads.\<close>

lemma cq_frame [simp]:
  "cq_inv (st\<lparr>cq_Text := s\<rparr>) = cq_inv st" "cq_view (st\<lparr>cq_Text := s\<rparr>) = cq_view st"
  "cq_inv (st\<lparr>cq_Reasoning := s\<rparr>) = cq_inv st" "cq_view (st\<lparr>cq_Reasoning := s\<rparr>) = cq_view st"
  "cq_inv (st\<lparr>cq_FinishReason := s\<rparr>) = cq_inv st" "cq_view (st\<lparr>cq_FinishReason := s\<rparr>) = cq_view st"
  "added_slots (st\<lparr>cq_Text := s\<rparr>) = added_slots st" "done_slots (st\<lparr>cq_Text := s\<rparr>) = done_slots st"
  "added_slots (st\<lparr>cq_Reasoning := s\<rparr>) = added_slots st" "done_slots (st\<lparr>cq_Reasoning := s\<rparr>) = done_slots st"
  by (simp_all add: inv_defs slot_defs)

lemma cq_append_text_ok:
  assumes "cq_live st" "cq_MessageItemID st \<noteq> []"
  shows "cq_ok st (append_text s st)"
  unfolding append_text_def
  by (rule emits_ok_cong [where st = "st\<lparr>cq_Text := cq_Text st @ s\<rparr>"])
    (use assms message_slot_live [of st] in \<open>auto intro!: cq_event_ok\<close>)

lemma cq_text_part_ok:
  assumes "cq_live st" "cq_MessageItemID st \<noteq> []"
  shows "cq_ok st (ensureChatToResponsesTextPart st)"
proof -
  let ?s = "st\<lparr>cq_TextPartOpen := True\<rparr>"
  have "cq_live ?s" "added_slots ?s = added_slots st" "done_slots ?s = done_slots st" "cq_view ?s = cq_view st"
    using assms by (auto simp: inv_defs slot_defs)
  then have "cq_ok st (chatToResponsesEvent ''response.content_part.added''
     ((part_event (cq_MessageIndex st) (cq_MessageItemID st))\<lparr>rv_Part := Some (text_part ''output_text'' [])\<rparr>) ?s)"
    using message_slot_live [of st] assms by (intro emits_ok_cong [where st = ?s and st' = st] cq_event_ok) auto
  then show ?thesis using assms(1) by (auto simp: ensureChatToResponsesTextPart_def emits_ok_idle)
qed

lemma cq_append_reasoning_ok:
  assumes "cq_live st" "cq_ReasoningOpen st \<or> cq_ReasoningDone st"
  shows "cq_ok st (append_reasoning s st)"
  unfolding append_reasoning_def
  by (rule emits_ok_cong [where st = "st\<lparr>cq_Reasoning := cq_Reasoning st @ s\<rparr>"])
    (use assms in \<open>auto intro!: cq_event_ok simp: added_slots_def reasoning_slot_def\<close>)

lemma assoc_set_fst: "fst ` set (assoc_set k v xs) = insert k (fst ` set xs)"
  by (auto simp: assoc_set_def)

lemma assoc_set_distinct: "distinct (map fst xs) \<Longrightarrow> distinct (map fst (assoc_set k v xs))"
  by (auto simp: assoc_set_def distinct_map inj_on_def)

lemma map_of_assoc_set [simp]: "map_of (assoc_set k v xs) j = (if j = k then Some v else map_of xs j)"
  by (induction xs) (auto simp: assoc_set_def)

lemma call_inv_lookup:
  assumes "call_inv st"
  shows "(cq_ToolOutputIndex st k = None) = (map_of (cq_ToolCalls st) k = None)"
    and "(cq_ToolItemIDs st k = None) = (map_of (cq_ToolCalls st) k = None)"
    and "cq_toolAnnounced st k \<Longrightarrow> map_of (cq_ToolCalls st) k \<noteq> None"
  using assms domIff [of k "cq_ToolOutputIndex st"] domIff [of k "cq_ToolItemIDs st"]
  by (auto simp: call_inv_def map_of_eq_None_iff)


lemma slot_arguments_delta_ok:
  assumes "cq_live st" "cq_ToolOutputIndex st k = Some x" "cq_toolAnnounced st k" "x \<notin> F"
  shows "emits_ok cq_live slot_monitor (slot_view F) st (arguments_delta k s t st)"
  unfolding arguments_delta_def
  by (rule slot_event_ok) (use assms tool_slot_live [of st k x] in \<open>auto simp: the_int_def\<close>)

lemma slot_announce_ok:
  assumes live: "cq_live st" and k: "cq_ToolOutputIndex st k = Some x" and F: "x \<notin> F"
  shows "emits_ok cq_live slot_monitor (slot_view F) st (announceChatToolItem k t force st)"
proof -
  have "emits_ok cq_live slot_monitor (slot_view F) st (emit_seq
      (chatToResponsesEvent ''response.output_item.added'' (item_event x item)
         (st\<lparr>cq_toolAnnounced := (cq_toolAnnounced st)(k := True), cq_toolIsCustom := c, cq_toolIsToolSearch := se,
             cq_toolNamespace := ns\<rparr>))
      (\<lambda>s. if b then arguments_delta k a t s else (s, [])))"
    if fresh: "\<not> cq_toolAnnounced st k" for item c se ns b a
  proof (rule emits_ok_seq)
    let ?r = "chatToResponsesEvent ''response.output_item.added'' (item_event x item)
         (st\<lparr>cq_toolAnnounced := (cq_toolAnnounced st)(k := True), cq_toolIsCustom := c, cq_toolIsToolSearch := se,
             cq_toolNamespace := ns\<rparr>)"
    have kin: "k \<in> fst ` set (cq_ToolCalls st)" using live k by (auto simp: cq_inv_def call_inv_def)
    then have "cq_live (fst ?r)" using live by (auto simp: chatToResponsesEvent_def inv_defs slot_defs)
    moreover have "{x. \<exists>j. ((cq_toolAnnounced st)(k := True)) j \<and> cq_ToolOutputIndex st j = Some x} =
        insert x {x. \<exists>j. cq_toolAnnounced st j \<and> cq_ToolOutputIndex st j = Some x}"
      using k by (auto simp: fun_upd_def) (metis option.inject)
    then have "added_slots (fst ?r) = insert x (added_slots st)"
      by (simp add: chatToResponsesEvent_def slot_defs)
    ultimately show "emits_ok cq_live slot_monitor (slot_view F) st ?r"
      using live fresh tool_slot_live [of st k x] k
      by (auto simp: emits_ok_def event_simps slot_view_def cq_inv_def)
    show "emits_ok cq_live slot_monitor (slot_view F) (fst ?r) (if b then arguments_delta k a t (fst ?r) else (fst ?r, []))"
      if "cq_live (fst ?r)"
      using slot_arguments_delta_ok [OF that, of k x] that k F
      by (auto simp: emits_ok_idle chatToResponsesEvent_def)
  qed
  then show ?thesis using live k
    unfolding announceChatToolItem_def Let_def
    by (intro emits_ok_if) (auto simp: emits_ok_idle the_int_def)
qed

lemma announce_keeps [simp]:
  "cq_ToolOutputIndex (fst (announceChatToolItem k t force st)) = cq_ToolOutputIndex st"
  "cq_ToolCalls (fst (announceChatToolItem k t force st)) = cq_ToolCalls st"
  "done_slots (fst (announceChatToolItem k t force st)) = done_slots st"
  "done_slots (fst (arguments_delta k a t st)) = done_slots st"
  by (simp_all add: announceChatToolItem_def Let_def chatToResponsesEvent_def arguments_delta_def done_slots_def)

lemma cq_announce_ok:
  "cq_live st \<Longrightarrow> cq_ToolOutputIndex st k = Some x \<Longrightarrow> cq_ok st (announceChatToolItem k t force st)"
  using tool_slot_live [of st k x] by (auto intro!: cq_ok_slot slot_announce_ok)

lemma cq_arguments_delta_ok:
  "cq_live st \<Longrightarrow> cq_ToolOutputIndex st k = Some x \<Longrightarrow> cq_toolAnnounced st k \<Longrightarrow> cq_ok st (arguments_delta k a t st)"
  using tool_slot_live [of st k x] by (auto intro!: cq_ok_slot slot_arguments_delta_ok)

lemma register_defined:
  assumes "cq_inv st"
  shows "\<exists>x. cq_ToolOutputIndex (fst (register_tool rand k t st)) k = Some x"
  using assms call_inv_lookup [of st k]
  by (auto simp: register_tool_def Let_def cq_inv_def split: option.split)

lemma cq_register_ok:
  assumes live: "cq_live st"
  shows "cq_ok st (register_tool rand k t st)"
proof (cases "map_of (cq_ToolCalls st) k")
  case None
  let ?f = "\<lambda>s tc i n. s\<lparr>cq_ToolCalls := assoc_set k tc (cq_ToolCalls s), cq_ToolItemIDs := (cq_ToolItemIDs s)(k \<mapsto> i),
      cq_ToolOutputIndex := (cq_ToolOutputIndex s)(k \<mapsto> cq_nextOutputIndex s),
      cq_nextOutputIndex := cq_nextOutputIndex s + 1, cq_rand := n\<rparr>"
  have *: "cq_ok s (?f s tc i n, [])" if "cq_live s" "map_of (cq_ToolCalls s) k = None" for s tc i n
  proof (rule emits_ok_idle)
    have k: "cq_ToolOutputIndex s k = None" "\<not> cq_toolAnnounced s k"
      using call_inv_lookup [of s k] that by (auto simp: cq_inv_def)
    show "cq_live (?f s tc i n)"
      using that k alloc_tool by (auto simp: inv_defs assoc_set_fst assoc_set_distinct reasoning_slot_def message_slot_def)
    show "cq_view (?f s tc i n) = cq_view s" using k(2) by (auto simp: slot_defs)
  qed
  have "map_of (cq_ToolCalls (fst (closeChatReasoningItem st))) k = None"
    using None by (simp add: closeChatReasoningItem_def Let_def chatToResponsesEvent_def)
  then show ?thesis using live None
    by (auto simp: register_tool_def Let_def intro!: emits_ok_seq cq_close_reasoning_ok *)
next
  case (Some t')
  have "cq_ok st (st\<lparr>cq_ToolCalls := assoc_set k tc (cq_ToolCalls st)\<rparr>, [])" for tc
    using live map_of_SomeD [OF Some]
    by (intro emits_ok_idle) (auto simp: inv_defs slot_defs assoc_set_fst assoc_set_distinct rev_image_eqI)
  with Some show ?thesis by (simp add: register_tool_def Let_def)
qed


lemma cq_append_arguments_ok:
  assumes live: "cq_live st" and k: "cq_ToolOutputIndex st k = Some x"
  shows "cq_ok st (append_arguments k a st)"
proof -
  let ?s = "\<lambda>t. st\<lparr>cq_ToolCalls := assoc_set k t (cq_ToolCalls st)\<rparr>"
  have kin: "k \<in> fst ` set (cq_ToolCalls st)" using live k by (auto simp: cq_inv_def call_inv_def)
  have s: "cq_live (?s t)" "cq_view (?s t) = cq_view st" for t
    using live kin by (auto simp: inv_defs slot_defs assoc_set_fst assoc_set_distinct)
  have "cq_ok st (arguments_delta k a t (?s t))" if "cq_toolAnnounced st k" for t
    by (rule emits_ok_cong [OF cq_arguments_delta_ok]) (use s k that in auto)
  then show ?thesis
    unfolding append_arguments_def Let_def using live s by (intro emits_ok_if) (auto simp: emits_ok_idle)
qed

lemma cq_tool_delta_ok:
  assumes "cq_live st"
  shows "cq_ok st (chat_tool_delta rand t st)"
proof -
  obtain x where x: "cq_ToolOutputIndex (fst (register_tool rand (the_int (tc_Index t)) t st)) (the_int (tc_Index t)) = Some x"
    using register_defined assms by blast
  show ?thesis unfolding chat_tool_delta_def Let_def
    using x assms
    by (intro emits_ok_seq cq_register_ok cq_announce_ok [where x = x] cq_append_arguments_ok [where x = x]) simp_all
qed

lemma cq_tool_deltas_ok: "cq_live st \<Longrightarrow> cq_ok st (chat_tool_deltas rand ts st)"
proof (induction ts arbitrary: st)
  case (Cons t ts)
  show ?case unfolding chat_tool_deltas.simps by (intro emits_ok_seq cq_tool_delta_ok Cons.IH) (use Cons.prems in auto)
qed (simp add: emits_ok_idle)

lemma ensure_opens [simp]:
  "cq_ReasoningOpen (fst (ensureChatReasoningItem rand st)) \<or> cq_ReasoningDone (fst (ensureChatReasoningItem rand st))"
  "cq_MessageItemID (fst (ensureChatToResponsesMessageItem rand st)) \<noteq> []"
  "cq_MessageItemID (fst (ensureChatToResponsesTextPart st)) = cq_MessageItemID st"
  by (simp_all add: ensureChatReasoningItem_def ensureChatToResponsesMessageItem_def ensureChatToResponsesTextPart_def
      Let_def chatToResponsesEvent_def)

lemma cq_reasoning_ok:
  assumes "cq_live st"
  shows "cq_ok st (emit_seq (ensureChatReasoningItem rand st) (append_reasoning s))"
  by (intro emits_ok_seq cq_reasoning_item_ok cq_append_reasoning_ok) (use assms in simp_all)

lemma cq_message_ok:
  assumes "cq_live st"
  shows "cq_ok st (emit_seq (emit_seq (ensureChatToResponsesMessageItem rand st)
           ensureChatToResponsesTextPart) (append_text s))"
  by (intro emits_ok_seq cq_message_item_ok cq_text_part_ok cq_append_text_ok) (use assms in simp_all)

lemma cq_content_ok:
  assumes "cq_live st"
  shows "cq_ok st (emit_seq (emit_seq (emit_seq (closeChatReasoningItem st)
           (ensureChatToResponsesMessageItem rand)) ensureChatToResponsesTextPart) (append_text s))"
  by (intro emits_ok_seq cq_close_reasoning_ok cq_message_item_ok cq_text_part_ok cq_append_text_ok)
    (use assms in simp_all)

lemma cq_choice_ok: "cq_live st \<Longrightarrow> cq_ok st (chat_choice rand c st)"
  unfolding chat_choice_def Let_def
  by (intro cq_content_ok cq_reasoning_ok emits_ok_seq emits_ok_if cq_tool_deltas_ok) (auto simp: emits_ok_idle)

lemma cq_choices_ok: "cq_live st \<Longrightarrow> cq_ok st (chat_choices rand cs st)"
proof (induction cs arbitrary: st)
  case (Cons c cs)
  show ?case unfolding chat_choices.simps by (intro emits_ok_seq cq_choice_ok Cons.IH) (use Cons.prems in auto)
qed (simp add: emits_ok_idle)

lemma cq_chunk_ok:
  assumes "cq_inv st"
  shows "cq_ok st (ChatCompletionsChunkToResponsesEvents rand chunk st)"
proof -
  have "cq_ok st (emit_seq (ensureChatToResponsesCreated s) (chat_choices rand cs))"
    if "cq_inv s" "cq_view s = cq_view st" for s cs
    using that by (intro emits_ok_cong [where st = s and st' = st] emits_ok_seq cq_created_ok cq_choices_ok) simp_all
  moreover have "cq_inv (st\<lparr>cq_ResponseID := a, cq_Model := b, cq_Usage := u\<rparr>)"
    "cq_view (st\<lparr>cq_ResponseID := a, cq_Model := b, cq_Usage := u\<rparr>) = cq_view st" for a b u
    using assms by (auto simp: inv_defs slot_defs)
  ultimately show ?thesis by (simp add: ChatCompletionsChunkToResponsesEvents_def Let_def)
qed


section \<open>Closing\<close>

text \<open>Several events on one slot, and the last of them its output_item.done.\<close>

lemma emit_done:
  assumes live: "cq_live st" and x: "x \<in> added_slots st" "x \<notin> F"
    and es: "list_all (on_slot x) es"
    and r: "r = emit_events (es @ [(''response.output_item.done'', item_event x item)]) st"
  shows "run_monitor slot_monitor (snd r) (slot_view F st) = Some (slot_view (insert x F) (fst r))"
    and "\<exists>n. fst r = st\<lparr>cq_SequenceNumber := n\<rparr>"
proof -
  have "run_monitor slot_monitor (snd r) (slot_view F st) = Some (slot_view (insert x F) (fst r)) \<and>
    (\<exists>n. fst r = st\<lparr>cq_SequenceNumber := n\<rparr>)"
    using live x es r
  proof (induction es arbitrary: st r)
    case Nil
    have "added_slots (st\<lparr>cq_SequenceNumber := n\<rparr>) = added_slots st" for n by (simp add: slot_defs)
    with Nil show ?case by (auto simp: event_simps slot_view_def cq_inv_def)
  next
    case (Cons p es)
    obtain t e where p: "p = (t, e)" by (cases p)
    let ?s = "fst (chatToResponsesEvent t e st)"
    have ok: "emits_ok cq_live slot_monitor (slot_view F) st (chatToResponsesEvent t e st)"
      by (rule slot_event_ok) (use Cons.prems p in \<open>auto simp: on_slot_def\<close>)
    moreover have "added_slots ?s = added_slots st" "\<exists>n. ?s = st\<lparr>cq_SequenceNumber := n\<rparr>"
      by (auto simp: slot_defs chatToResponsesEvent_def)
    ultimately show ?case using Cons.IH [of ?s, OF _ _ _ _ refl] Cons.prems p
      by (auto simp: emits_ok_def run_monitor_append)
  qed
  then show "run_monitor slot_monitor (snd r) (slot_view F st) = Some (slot_view (insert x F) (fst r))"
    "\<exists>n. fst r = st\<lparr>cq_SequenceNumber := n\<rparr>" by simp_all
qed

lemma seq_keeps [simp]:
  "cq_inv (st\<lparr>cq_SequenceNumber := n\<rparr>) = cq_inv st"
  "reasoning_slot (st\<lparr>cq_SequenceNumber := n\<rparr>) = reasoning_slot st"
  "message_slot (st\<lparr>cq_SequenceNumber := n\<rparr>) = message_slot st"
  by (simp_all add: inv_defs slot_defs)

lemma close_message:
  assumes "cq_live st" "F \<subseteq> set_option (reasoning_slot st)"
  shows "run_monitor slot_monitor (snd (closeChatMessageItem st)) (slot_view F st)
           = Some (slot_view (F \<union> set_option (message_slot st)) (fst (closeChatMessageItem st)))"
    and "\<exists>n. fst (closeChatMessageItem st) = st\<lparr>cq_SequenceNumber := n\<rparr>"
proof -
  have "run_monitor slot_monitor (snd (closeChatMessageItem st)) (slot_view F st)
           = Some (slot_view (F \<union> set_option (message_slot st)) (fst (closeChatMessageItem st))) \<and>
      (\<exists>n. fst (closeChatMessageItem st) = st\<lparr>cq_SequenceNumber := n\<rparr>)"
  proof (cases "cq_MessageItemID st = []")
    case True
    have "\<exists>n. st = st\<lparr>cq_SequenceNumber := n\<rparr>" by (rule exI [of _ "cq_SequenceNumber st"]) simp
    with True show ?thesis by (simp add: closeChatMessageItem_def message_slot_def)
  next
    case False
    let ?i = "cq_MessageItemID st" and ?x = "cq_MessageIndex st"
    let ?es = "if cq_TextPartOpen st
                then [(''response.output_text.done'', (part_event ?x ?i)\<lparr>rv_Text := cq_Text st\<rparr>),
                      (''response.content_part.done'', (part_event ?x ?i)\<lparr>rv_Part := Some (text_part ''output_text'' (cq_Text st))\<rparr>)]
                else []"
    have x: "?x \<in> added_slots st" "?x \<notin> F"
      using assms False by (auto simp: added_slots_def message_slot_def cq_inv_def cq_alloc_def alloc_ok_def)
    have "list_all (on_slot ?x) ?es" by (simp add: on_slot_def)
    from emit_done [OF assms(1) x this, of "closeChatMessageItem st" "output_text_item ?i (cq_Text st)"] False
    show ?thesis by (simp add: closeChatMessageItem_def Let_def message_slot_def del: emit_events.simps)
  qed
  then show "run_monitor slot_monitor (snd (closeChatMessageItem st)) (slot_view F st)
           = Some (slot_view (F \<union> set_option (message_slot st)) (fst (closeChatMessageItem st)))"
    "\<exists>n. fst (closeChatMessageItem st) = st\<lparr>cq_SequenceNumber := n\<rparr>" by simp_all
qed


lemma announce_announces:
  "cq_toolAnnounced (fst (announceChatToolItem k t True st)) = (cq_toolAnnounced st)(k := True)"
  by (auto simp: announceChatToolItem_def Let_def chatToResponsesEvent_def arguments_delta_def fun_upd_idem)

lemma announce_keeps_slots [simp]:
  "reasoning_slot (fst (announceChatToolItem k t force st)) = reasoning_slot st"
  "message_slot (fst (announceChatToolItem k t force st)) = message_slot st"
  "cq_nextOutputIndex (fst (announceChatToolItem k t force st)) = cq_nextOutputIndex st"
  by (simp_all add: announceChatToolItem_def Let_def chatToResponsesEvent_def arguments_delta_def
      reasoning_slot_def message_slot_def)

lemma emit_events_single [simp]: "emit_seq r (emit_events []) = r"
  by (simp add: emit_seq_def split: prod.split)

lemma close_tool_events:
  assumes "map_of (cq_ToolCalls st) k = Some t" "cq_ToolOutputIndex st k = Some x" "cq_ToolItemIDs st k = Some itemID"
  obtains es item where "list_all (on_slot x) es"
    "closeChatToolItem k st = emit_seq (announceChatToolItem k t True st)
       (emit_events (es @ [(''response.output_item.done'', item_event x item)]))"
proof -
  let ?a = "announceChatToolItem k t True st"
  let ?s = "fst ?a" and ?args = "arguments_or_empty (fc_Arguments (tc_Function t))"
  let ?input = "extractCustomToolCallInput ?args" and ?name = "tool_name_of (cq_toolNamespace ?s k) t"
  let ?custom = "(if ?input = [] then []
                  else [(''response.custom_tool_call_input.delta'', (part_event x itemID)\<lparr>rv_Delta := ?input\<rparr>)])
                 @ [(''response.custom_tool_call_input.done'', (part_event x itemID)\<lparr>rv_CallID := tc_ID t,
                       rv_Name := fc_Name (tc_Function t), rv_Input := ?input\<rparr>)]"
  let ?plain = "[(''response.function_call_arguments.done'', (part_event x itemID)\<lparr>rv_CallID := tc_ID t,
                       rv_Name := nt_Name ?name, rv_Arguments := ?args\<rparr>)]"
  define es where "es = (if cq_toolIsCustom ?s k then ?custom else if cq_toolIsToolSearch ?s k then [] else ?plain)"
  define item where "item = (if cq_toolIsCustom ?s k then custom_call_item itemID t
    else if cq_toolIsToolSearch ?s k then tool_search_item itemID t else function_call_item itemID ?name t)"
  have "list_all (on_slot x) es" by (simp add: es_def on_slot_def)
  moreover have "closeChatToolItem k st = emit_seq ?a (emit_events (es @ [(''response.output_item.done'', item_event x item)]))"
    unfolding closeChatToolItem_def assms option.case
    by (rule emit_seq_cong) (simp add: es_def item_def assms the_int_def Let_def)
  ultimately show thesis by (rule that)
qed

lemma close_tool_item:
  assumes live: "cq_live st" and F: "\<And>x. cq_ToolOutputIndex st k = Some x \<Longrightarrow> x \<notin> F"
  shows "closed_calls (\<lambda>j. j = k) F st (closeChatToolItem k st)"
proof (cases "map_of (cq_ToolCalls st) k")
  case None
  then have "cq_ToolOutputIndex st k = None" "k \<notin> fst ` set (cq_ToolCalls st)"
    using live call_inv_lookup [of st k] by (auto simp: cq_inv_def map_of_eq_None_iff)
  then show ?thesis using None live by (auto simp: closeChatToolItem_def closed_calls_def)
next
  case (Some t)
  then obtain x itemID where x: "cq_ToolOutputIndex st k = Some x" "cq_ToolItemIDs st k = Some itemID"
    using live call_inv_lookup [of st k] by (cases "cq_ToolOutputIndex st k"; cases "cq_ToolItemIDs st k") (auto simp: cq_inv_def)
  let ?a = "announceChatToolItem k t True st"
  let ?s = "fst ?a"
  have ok: "emits_ok cq_live slot_monitor (slot_view F) st ?a" by (rule slot_announce_ok [OF live x(1) F [OF x(1)]])
  then have s: "cq_live ?s" by (simp add: emits_ok_def)
  have xa: "x \<in> added_slots ?s"
    using tool_slot_live(3) [of ?s k x] s x(1) by (simp add: announce_announces)
  obtain es item where es: "list_all (on_slot x) es"
    and eq: "closeChatToolItem k st = emit_seq ?a (emit_events (es @ [(''response.output_item.done'', item_event x item)]))"
    by (rule close_tool_events [OF Some x])
  from emit_done [OF s xa F [OF x(1)] es refl] obtain n where
    "run_monitor slot_monitor (snd (emit_events (es @ [(''response.output_item.done'', item_event x item)]) ?s)) (slot_view F ?s)
       = Some (slot_view (insert x F) (?s\<lparr>cq_SequenceNumber := n\<rparr>))"
    "fst (emit_events (es @ [(''response.output_item.done'', item_event x item)]) ?s) = ?s\<lparr>cq_SequenceNumber := n\<rparr>"
    by metis
  moreover have "{y. cq_ToolOutputIndex st k = Some y} = {x}" using x by auto
  ultimately show ?thesis
    using ok s Some unfolding closed_calls_def eq
    by (auto simp: emits_ok_def run_monitor_append announce_announces)
qed


lemma closed_calls_seq:
  assumes "closed_calls ks F st r"
    and "closed_calls js (F \<union> {x. \<exists>k. ks k \<and> cq_ToolOutputIndex st k = Some x}) (fst r) (f (fst r))"
  shows "closed_calls (\<lambda>k. ks k \<or> js k) F st (emit_seq r f)"
proof -
  have "F \<union> {x. \<exists>k. ks k \<and> cq_ToolOutputIndex st k = Some x} \<union> {x. \<exists>k. js k \<and> cq_ToolOutputIndex st k = Some x}
      = F \<union> {x. \<exists>k. (ks k \<or> js k) \<and> cq_ToolOutputIndex st k = Some x}" by auto
  with assms show ?thesis by (simp add: closed_calls_def run_monitor_append) blast
qed

lemma close_tool_items:
  assumes "cq_live st" "\<And>j x. int i \<le> j \<Longrightarrow> cq_ToolOutputIndex st j = Some x \<Longrightarrow> x \<notin> F"
  shows "closed_calls (\<lambda>j. int i \<le> j \<and> j < int (i + n)) F st (closeChatToolItems_from i n st)"
  using assms
proof (induction n arbitrary: i st F)
  case 0
  have "(\<lambda>j. int i \<le> j \<and> j < int (i + 0)) = (\<lambda>j. False)" by auto
  with 0 show ?case by (simp add: closed_calls_def)
next
  case (Suc n)
  let ?r = "closeChatToolItem (int i) st"
  let ?F = "F \<union> {x. \<exists>k. k = int i \<and> cq_ToolOutputIndex st k = Some x}"
  have r: "closed_calls (\<lambda>j. j = int i) F st ?r" using Suc.prems by (intro close_tool_item) auto
  have "closed_calls (\<lambda>j. int (Suc i) \<le> j \<and> j < int (Suc i + n)) ?F (fst ?r) (closeChatToolItems_from (Suc i) n (fst ?r))"
  proof (rule Suc.IH)
    show "cq_live (fst ?r)" using r by (simp add: closed_calls_def)
    have same: "cq_ToolOutputIndex (fst ?r) = cq_ToolOutputIndex st" using r by (simp add: closed_calls_def)
    fix j x assume j: "int (Suc i) \<le> j" "cq_ToolOutputIndex (fst ?r) j = Some x"
    have "cq_ToolOutputIndex st (int i) \<noteq> Some x"
    proof
      assume "cq_ToolOutputIndex st (int i) = Some x"
      moreover have "inj_on (cq_ToolOutputIndex st) (dom (cq_ToolOutputIndex st))"
        using Suc.prems(1) by (simp add: cq_inv_def cq_alloc_def alloc_ok_def)
      ultimately have "int i = j" using j(2) same by (simp add: inj_on_def domIff)
      with j show False by simp
    qed
    then show "x \<notin> ?F" using Suc.prems(2) [of j x] j same by auto
  qed
  from closed_calls_seq [where f = "closeChatToolItems_from (Suc i) n", OF r this] have "closed_calls (\<lambda>j. j = int i \<or> int (Suc i) \<le> j \<and> j < int (Suc i + n)) F st
      (closeChatToolItems_from i (Suc n) st)" by simp
  moreover have "(\<lambda>j. j = int i \<or> int (Suc i) \<le> j \<and> j < int (Suc i + n)) = (\<lambda>j. int i \<le> j \<and> j < int (i + Suc n))"
    by auto
  ultimately show ?case by simp
qed

lemma closing_keeps [simp]:
  "cq_ToolCalls (fst (ensureChatToResponsesCreated st)) = cq_ToolCalls st"
  "cq_ToolCalls (fst (closeChatReasoningItem st)) = cq_ToolCalls st"
  "cq_ToolCalls (fst (synthesizeChatReasoningFallbackMessage rand st)) = cq_ToolCalls st"
  "\<not> cq_ReasoningOpen (fst (closeChatReasoningItem st))"
  "cq_ReasoningOpen (fst (synthesizeChatReasoningFallbackMessage rand st)) = cq_ReasoningOpen st"
  by (simp_all add: ensureChatToResponsesCreated_def closeChatReasoningItem_def synthesizeChatReasoningFallbackMessage_def
      ensureChatToResponsesMessageItem_def ensureChatToResponsesTextPart_def append_text_def Let_def chatToResponsesEvent_def)

lemma cq_fallback_ok: "cq_live st \<Longrightarrow> cq_ok st (synthesizeChatReasoningFallbackMessage rand st)"
  unfolding synthesizeChatReasoningFallbackMessage_def by (intro cq_message_ok emits_ok_if) (auto simp: emits_ok_idle)

text \<open>The tail of the finalization, from a state with no reasoning item open.\<close>

lemma cq_close_all:
  assumes live: "cq_live st" and idle: "\<not> cq_ReasoningOpen st"
    and dense: "\<forall>k \<in> fst ` set (cq_ToolCalls st). 0 \<le> k \<and> k < int (length (cq_ToolCalls st))"
    and r: "r = emit_seq (closeChatMessageItem st) closeChatToolItems"
  shows "cq_live (fst r)" "added_slots (fst r) = {0..<cq_nextOutputIndex (fst r)}"
    and "run_monitor slot_monitor (snd r) (cq_view st) = Some (slot_view {0..<cq_nextOutputIndex (fst r)} (fst r))"
proof -
  let ?F = "set_option (reasoning_slot st) \<union> set_option (message_slot st)"
  have F: "done_slots st = set_option (reasoning_slot st)" using idle by (simp add: done_slots_def reasoning_slot_def)
  obtain n where m: "fst (closeChatMessageItem st) = st\<lparr>cq_SequenceNumber := n\<rparr>"
    "run_monitor slot_monitor (snd (closeChatMessageItem st)) (cq_view st) = Some (slot_view ?F (st\<lparr>cq_SequenceNumber := n\<rparr>))"
    using close_message [OF live, of "done_slots st"] F by (auto simp: cq_view_def)
  let ?s = "st\<lparr>cq_SequenceNumber := n\<rparr>"
  have free: "?F \<inter> ran (cq_ToolOutputIndex st) = {}" and all: "?F \<union> ran (cq_ToolOutputIndex st) = {0..<cq_nextOutputIndex st}"
    using live by (simp_all add: cq_inv_def cq_alloc_def alloc_ok_def)
  have "closed_calls (\<lambda>j. int 0 \<le> j \<and> j < int (0 + length (cq_ToolCalls ?s))) ?F ?s (closeChatToolItems ?s)"
    unfolding closeChatToolItems_def by (rule close_tool_items) (use live free in \<open>auto dest: ranI\<close>)
  then have c: "closed_calls (\<lambda>j. 0 \<le> j \<and> j < int (length (cq_ToolCalls st))) ?F ?s (closeChatToolItems ?s)" by simp
  have calls: "dom (cq_ToolOutputIndex st) = fst ` set (cq_ToolCalls st)"
    using live by (simp add: cq_inv_def call_inv_def)
  then have "ran (cq_ToolOutputIndex st) =
      {x. \<exists>k. (0 \<le> k \<and> k < int (length (cq_ToolCalls st))) \<and> cq_ToolOutputIndex st k = Some x}"
    using dense unfolding ran_def by blast
  then have fin: "?F \<union> {x. \<exists>k. (0 \<le> k \<and> k < int (length (cq_ToolCalls st))) \<and> cq_ToolOutputIndex ?s k = Some x}
      = {0..<cq_nextOutputIndex st}" using all by simp
  have rr: "fst r = fst (closeChatToolItems ?s)"
    "snd r = snd (closeChatMessageItem st) @ snd (closeChatToolItems ?s)" using r m(1) by simp_all
  have c': "cq_live (fst r)" "cq_ToolOutputIndex (fst r) = cq_ToolOutputIndex st" "cq_ToolCalls (fst r) = cq_ToolCalls st"
    "cq_nextOutputIndex (fst r) = cq_nextOutputIndex st" "reasoning_slot (fst r) = reasoning_slot st"
    "message_slot (fst r) = message_slot st"
    "run_monitor slot_monitor (snd (closeChatToolItems ?s)) (slot_view ?F ?s) = Some (slot_view {0..<cq_nextOutputIndex st} (fst r))"
    "\<And>k. 0 \<le> k \<and> k < int (length (cq_ToolCalls st)) \<Longrightarrow> k \<in> fst ` set (cq_ToolCalls st) \<Longrightarrow> cq_toolAnnounced (fst r) k"
    using c fin unfolding closed_calls_def rr by auto
  show "cq_live (fst r)" by (rule c'(1))
  show "run_monitor slot_monitor (snd r) (cq_view st) = Some (slot_view {0..<cq_nextOutputIndex (fst r)} (fst r))"
    using m(2) c'(4,7) by (simp add: rr(2) run_monitor_append)
  have "cq_toolAnnounced (fst r) k" if "cq_ToolOutputIndex st k = Some x" for k x
    using c'(8) [of k] dense calls domI [of "cq_ToolOutputIndex st", OF that] by simp
  then have "{x. \<exists>k. cq_toolAnnounced (fst r) k \<and> cq_ToolOutputIndex st k = Some x} = ran (cq_ToolOutputIndex st)"
    by (auto simp: ran_def)
  then show "added_slots (fst r) = {0..<cq_nextOutputIndex (fst r)}"
    using all c' by (simp add: added_slots_def)
qed

lemma cq_complete:
  assumes "cq_live st"
  shows "run_monitor slot_monitor (snd (complete_chat_stream rand st)) (slot_view F st)
      = Some (cq_SequenceNumber (fst (complete_chat_stream rand st)), True, True, added_slots st, F)"
    and "cq_nextOutputIndex (fst (complete_chat_stream rand st)) = cq_nextOutputIndex st"
    and "cq_CompletedSent (fst (complete_chat_stream rand st))"
  using assms by (simp_all add: complete_chat_stream_def Let_def event_simps slot_view_def cq_inv_def)

text \<open>
  The end of the stream: every announced item is finished, when the indices of the tool calls are
  the numbers below their count.
\<close>

lemma cq_finalize:
  assumes inv: "cq_inv st" and dense: "\<forall>k \<in> fst ` set (cq_ToolCalls st). 0 \<le> k \<and> k < int (length (cq_ToolCalls st))"
    and fin: "FinalizeChatCompletionsResponsesStream rand st = (st', out)"
  shows "run_monitor slot_monitor out (cq_view st) =
      Some (cq_SequenceNumber st', True, True, {0..<cq_nextOutputIndex st'}, {0..<cq_nextOutputIndex st'})"
    and "cq_CompletedSent st'"
proof -
  let ?r1 = "emit_seq (emit_seq (ensureChatToResponsesCreated st) closeChatReasoningItem)
      (synthesizeChatReasoningFallbackMessage rand)"
  let ?r2 = "emit_seq (closeChatMessageItem (fst ?r1)) closeChatToolItems"
  have live0: "cq_ok st ?r1" by (intro emits_ok_seq cq_created_ok cq_close_reasoning_ok cq_fallback_ok) (use inv in auto)
  then have live1: "cq_live (fst ?r1)" by (simp add: emits_ok_def)
  have "\<forall>k \<in> fst ` set (cq_ToolCalls (fst ?r1)). 0 \<le> k \<and> k < int (length (cq_ToolCalls (fst ?r1)))"
    using dense by simp
  note all = cq_close_all [OF live1 _ this refl]
  have st': "st' = fst (complete_chat_stream rand (fst ?r2))"
    and out: "out = snd ?r1 @ snd ?r2 @ snd (complete_chat_stream rand (fst ?r2))"
    using fin inv by (auto simp: FinalizeChatCompletionsResponsesStream_def cq_inv_def prod_eq_iff)
  have idle: "\<not> cq_ReasoningOpen (fst ?r1)" by simp
  have live2: "cq_live (fst ?r2)" by (rule all(1) [OF idle])
  show "cq_CompletedSent st'" unfolding st' by (rule cq_complete(3) [OF live2])
  have "run_monitor slot_monitor (snd (complete_chat_stream rand (fst ?r2))) (slot_view {0..<cq_nextOutputIndex (fst ?r2)} (fst ?r2)) =
      Some (cq_SequenceNumber st', True, True, {0..<cq_nextOutputIndex st'}, {0..<cq_nextOutputIndex st'})"
    unfolding st' cq_complete [OF live2] all(2) [OF idle] ..
  then show "run_monitor slot_monitor out (cq_view st) =
      Some (cq_SequenceNumber st', True, True, {0..<cq_nextOutputIndex st'}, {0..<cq_nextOutputIndex st'})"
    using live0 all(3) [OF idle] unfolding out emits_ok_def run_monitor_append by simp
qed

lemma new_cq_inv:
  "cq_inv (declare_tools custom search ns (NewChatCompletionsToResponsesStreamState rand model now))"
  "cq_view (declare_tools custom search ns (NewChatCompletionsToResponsesStreamState rand model now))
     = (0, False, False, {}, {})"
  by (simp_all add: declare_tools_def NewChatCompletionsToResponsesStreamState_def inv_defs slot_defs alloc_ok_def)

interpretation c2r: stream_converter "ChatCompletionsChunkToResponsesEvents rand" cq_inv slot_monitor cq_view
  for rand
  using cq_chunk_ok by unfold_locales (metis emits_ok_def fst_conv snd_conv)

end
