(* ===== verification/Chat_Arguments.thy ===== *)
theory Chat_Arguments
  imports Chat_Responses_Contract
begin

text \<open>
  The arguments of a function call in the Chat Completions to Responses stream: what the client
  assembles from the deltas of the call's item is what the converter has stored, whether the call
  was announced at once or only when its name arrived. The contract is \<open>stream_converter\<close> again,
  with a client that keeps the argument text of every output index as the monitor.
\<close>

section \<open>The client's copy of the arguments\<close>

definition is_arguments_delta :: "ResponsesStreamEvent \<Rightarrow> bool" where
  "is_arguments_delta e \<longleftrightarrow> rv_Type e = ''response.function_call_arguments.delta''"

definition arg_monitor :: "ResponsesStreamEvent \<Rightarrow> (int \<Rightarrow> string) \<Rightarrow> (int \<Rightarrow> string) option" where
  "arg_monitor e f =
     Some (if is_arguments_delta e then f(rv_OutputIndex e := f (rv_OutputIndex e) @ rv_Delta e) else f)"

definition streamed_arguments :: "int \<Rightarrow> ResponsesStreamEvent list \<Rightarrow> string" where
  "streamed_arguments x evs = concat [rv_Delta e. e \<leftarrow> evs, is_arguments_delta e \<and> rv_OutputIndex e = x]"

text \<open>A call whose arguments are streamed, and the arguments stored for a call.\<close>

definition streams :: "ChatCompletionsToResponsesStreamState \<Rightarrow> int \<Rightarrow> bool" where
  "streams st k \<longleftrightarrow> cq_toolAnnounced st k \<and> \<not> cq_toolIsCustom st k \<and> \<not> cq_toolIsToolSearch st k"

definition stored_arguments :: "ChatCompletionsToResponsesStreamState \<Rightarrow> int \<Rightarrow> string" where
  "stored_arguments st k = (case map_of (cq_ToolCalls st) k of None \<Rightarrow> [] | Some t \<Rightarrow> fc_Arguments (tc_Function t))"

definition arg_view :: "ChatCompletionsToResponsesStreamState \<Rightarrow> int \<Rightarrow> string" where
  "arg_view st x =
     (case find (\<lambda>k. cq_ToolOutputIndex st k = Some x \<and> streams st k) (map fst (cq_ToolCalls st)) of
        None \<Rightarrow> [] | Some k \<Rightarrow> stored_arguments st k)"

text \<open>All that the view reads.\<close>

definition call_fields ::
  "ChatCompletionsToResponsesStreamState
     \<Rightarrow> (int \<rightharpoonup> int) \<times> (int \<times> ChatToolCall) list \<times> (int \<Rightarrow> bool) \<times> (int \<Rightarrow> bool) \<times> (int \<Rightarrow> bool)" where
  "call_fields st = (cq_ToolOutputIndex st, cq_ToolCalls st, cq_toolAnnounced st, cq_toolIsCustom st, cq_toolIsToolSearch st)"

abbreviation arg_ok :: "ChatCompletionsToResponsesStreamState \<Rightarrow> cq_result \<Rightarrow> bool" where
  "arg_ok \<equiv> emits_ok cq_live arg_monitor arg_view"

text \<open>The fragments the chunks carry for a call.\<close>

definition call_fragments :: "int \<Rightarrow> ChatToolCall list \<Rightarrow> string" where
  "call_fragments k ts = concat [fc_Arguments (tc_Function t). t \<leftarrow> ts, the_int (tc_Index t) = k]"

definition chunk_fragments :: "int \<Rightarrow> ChatCompletionsChunk list \<Rightarrow> string" where
  "chunk_fragments k cs = concat (map (\<lambda>c. concat (map (\<lambda>ch. call_fragments k (cd_ToolCalls (ck_Delta ch))) (cx_Choices c))) cs)"

section \<open>Lemmas on views\<close>

lemma run_arg_monitor: "run_monitor arg_monitor evs f = Some (\<lambda>x. f x @ streamed_arguments x evs)"
  by (induction evs arbitrary: f) (auto simp: arg_monitor_def streamed_arguments_def fun_eq_iff)

lemma slot_inj:
  assumes "cq_inv st" "cq_ToolOutputIndex st j = Some x" "cq_ToolOutputIndex st k = Some x"
  shows "j = k"
proof (rule inj_onD [of "cq_ToolOutputIndex st" "dom (cq_ToolOutputIndex st)"])
  show "inj_on (cq_ToolOutputIndex st) (dom (cq_ToolOutputIndex st))"
    using assms(1) by (simp add: cq_inv_def cq_alloc_def alloc_ok_def)
qed (use assms in auto)

lemma arg_view_at:
  assumes inv: "cq_inv st" and k: "cq_ToolOutputIndex st k = Some x"
  shows "arg_view st x = (if streams st k then stored_arguments st k else [])"
proof -
  have inj: "j = k" if "cq_ToolOutputIndex st j = Some x" for j
    using slot_inj [OF inv that k] .
  have kin: "k \<in> set (map fst (cq_ToolCalls st))"
    using inv domI [of "cq_ToolOutputIndex st", OF k] by (simp add: cq_inv_def call_inv_def)
  show ?thesis
  proof (cases "streams st k")
    case True
    let ?P = "\<lambda>k. cq_ToolOutputIndex st k = Some x \<and> streams st k"
    obtain j where "find ?P (map fst (cq_ToolCalls st)) = Some j"
      using kin k True by (cases "find ?P (map fst (cq_ToolCalls st))") (auto simp: find_None_iff)
    moreover from this have "?P j" by (auto simp: find_Some_iff)
    then have "j = k" using inj [of j] by simp
    ultimately show ?thesis using True by (simp add: arg_view_def)
  next
    case False
    then have "find (\<lambda>k. cq_ToolOutputIndex st k = Some x \<and> streams st k) (map fst (cq_ToolCalls st)) = None"
      by (metis (mono_tags, lifting) find_None_iff inj)
    with False show ?thesis by (simp add: arg_view_def)
  qed
qed

lemma arg_view_free: "x \<notin> ran (cq_ToolOutputIndex st) \<Longrightarrow> arg_view st x = []"
  by (auto simp: arg_view_def find_Some_iff ran_def split: option.split)

text \<open>Two states agree when their calls stream the same arguments.\<close>

lemma arg_view_eq:
  assumes "cq_inv st" "cq_inv st'" "cq_ToolOutputIndex st' = cq_ToolOutputIndex st"
    and "\<And>k. k \<in> dom (cq_ToolOutputIndex st) \<Longrightarrow>
      (if streams st' k then stored_arguments st' k else []) = (if streams st k then stored_arguments st k else [])"
  shows "arg_view st' = arg_view st"
proof
  fix x
  show "arg_view st' x = arg_view st x"
  proof (cases "x \<in> ran (cq_ToolOutputIndex st)")
    case True
    then obtain k where "cq_ToolOutputIndex st k = Some x" by (auto simp: ran_def)
    with assms show ?thesis by (simp add: arg_view_at domI)
  qed (simp add: arg_view_free assms)
qed

lemma arg_view_upd:
  assumes "cq_inv st" "cq_inv st'" "cq_ToolOutputIndex st' = cq_ToolOutputIndex st" "cq_ToolOutputIndex st k = Some x"
    and "\<And>j. j \<in> dom (cq_ToolOutputIndex st) \<Longrightarrow> j \<noteq> k \<Longrightarrow>
      (if streams st' j then stored_arguments st' j else []) = (if streams st j then stored_arguments st j else [])"
  shows "arg_view st' = (arg_view st)(x := if streams st' k then stored_arguments st' k else [])"
proof
  fix y
  show "arg_view st' y = ((arg_view st)(x := if streams st' k then stored_arguments st' k else [])) y"
  proof (cases "y \<in> ran (cq_ToolOutputIndex st)")
    case True
    then obtain j where j: "cq_ToolOutputIndex st j = Some y" by (auto simp: ran_def)
    have "x = y \<longleftrightarrow> j = k" using slot_inj [OF assms(1)] assms(4) j by auto
    with assms j show ?thesis by (cases "j = k") (auto simp: arg_view_at domI)
  next
    case False
    moreover have "x \<in> ran (cq_ToolOutputIndex st)" using assms(4) by (rule ranI)
    ultimately show ?thesis using assms(3) by (auto simp: arg_view_free)
  qed
qed

lemma arg_view_fields:
  assumes "call_fields st' = call_fields st"
  shows "arg_view st' = arg_view st"
proof -
  have "stored_arguments st' = stored_arguments st" "streams st' = streams st"
    using assms by (simp_all add: fun_eq_iff streams_def stored_arguments_def call_fields_def)
  with assms show ?thesis by (intro ext) (simp add: arg_view_def call_fields_def cong: option.case_cong)
qed

text \<open>A new call that is not announced streams nothing.\<close>

lemma arg_view_new_call:
  assumes inv: "cq_inv st" "cq_inv st'" and new: "cq_ToolOutputIndex st' = (cq_ToolOutputIndex st)(k \<mapsto> n)"
    and k: "cq_ToolOutputIndex st k = None" "\<not> streams st' k"
    and rest: "\<And>j. j \<noteq> k \<Longrightarrow> streams st' j = streams st j \<and> stored_arguments st' j = stored_arguments st j"
  shows "arg_view st' = arg_view st"
proof
  fix x
  show "arg_view st' x = arg_view st x"
  proof (cases "\<exists>j. cq_ToolOutputIndex st' j = Some x")
    case True
    then obtain j where j: "cq_ToolOutputIndex st' j = Some x" by blast
    show ?thesis
    proof (cases "j = k")
      case True
      have "cq_ToolOutputIndex st i \<noteq> Some x" for i
        using slot_inj [OF inv(2), of i x k] j True new k by (cases "i = k") auto
      then have "x \<notin> ran (cq_ToolOutputIndex st)" by (auto simp: ran_def)
      then show ?thesis using arg_view_at [OF inv(2) j] True k(2) by (simp add: arg_view_free)
    next
      case False
      then have "cq_ToolOutputIndex st j = Some x" using j new by simp
      then show ?thesis using arg_view_at [OF inv(2) j] arg_view_at [OF inv(1)] rest [OF False] by simp
    qed
  next
    case False
    then have "x \<notin> ran (cq_ToolOutputIndex st')" by (auto simp: ran_def)
    moreover from this have "x \<notin> ran (cq_ToolOutputIndex st)" using k(1) new by (simp add: ran_map_upd)
    ultimately show ?thesis by (simp add: arg_view_free)
  qed
qed

text \<open>A handler that sends no argument fragment and touches no call.\<close>

lemma arg_ok_quiet:
  assumes "cq_ok st r" "list_all (\<lambda>e. \<not> is_arguments_delta e) (snd r)" "call_fields (fst r) = call_fields st"
  shows "arg_ok st r"
proof -
  have "arg_view (fst r) = arg_view st" by (rule arg_view_fields [OF assms(3)])
  moreover
  have "streamed_arguments x (snd r) = []" for x
    using assms(2) by (induction "snd r" arbitrary: r) (auto simp: streamed_arguments_def list_all_iff)
  ultimately show ?thesis using assms(1) by (simp add: emits_ok_def run_arg_monitor)
qed


section \<open>The handlers\<close>

lemmas quiet_defs = chatToResponsesEvent_def is_arguments_delta_def call_fields_def Let_def

lemma arg_reasoning_item: "cq_live st \<Longrightarrow> arg_ok st (ensureChatReasoningItem rand st)"
  by (rule arg_ok_quiet [OF cq_reasoning_item_ok]) (simp_all add: ensureChatReasoningItem_def quiet_defs)

lemma arg_close_reasoning: "cq_live st \<Longrightarrow> arg_ok st (closeChatReasoningItem st)"
  by (rule arg_ok_quiet [OF cq_close_reasoning_ok]) (simp_all add: closeChatReasoningItem_def quiet_defs)

lemma arg_message_item: "cq_live st \<Longrightarrow> arg_ok st (ensureChatToResponsesMessageItem rand st)"
  by (rule arg_ok_quiet [OF cq_message_item_ok]) (simp_all add: ensureChatToResponsesMessageItem_def quiet_defs)

lemma arg_text_part: "cq_live st \<Longrightarrow> cq_MessageItemID st \<noteq> [] \<Longrightarrow> arg_ok st (ensureChatToResponsesTextPart st)"
  by (rule arg_ok_quiet [OF cq_text_part_ok]) (simp_all add: ensureChatToResponsesTextPart_def quiet_defs)

lemma arg_append_text: "cq_live st \<Longrightarrow> cq_MessageItemID st \<noteq> [] \<Longrightarrow> arg_ok st (append_text s st)"
  by (rule arg_ok_quiet [OF cq_append_text_ok]) (simp_all add: append_text_def quiet_defs)

lemma arg_append_reasoning:
  "cq_live st \<Longrightarrow> cq_ReasoningOpen st \<or> cq_ReasoningDone st \<Longrightarrow> arg_ok st (append_reasoning s st)"
  by (rule arg_ok_quiet [OF cq_append_reasoning_ok]) (simp_all add: append_reasoning_def quiet_defs)

lemma arg_created: "cq_inv st \<Longrightarrow> arg_ok st (ensureChatToResponsesCreated st)"
  by (rule arg_ok_quiet [OF cq_created_ok]) (simp_all add: ensureChatToResponsesCreated_def quiet_defs)

lemma arg_arguments_delta:
  assumes live: "cq_live st" "cq_live st'" and same: "cq_ToolOutputIndex st' = cq_ToolOutputIndex st"
    and k: "cq_ToolOutputIndex st k = Some x" "streams st' k"
    and grown: "stored_arguments st' k = (if streams st k then stored_arguments st k else []) @ s"
    and rest: "\<And>j. j \<noteq> k \<Longrightarrow> streams st' j = streams st j \<and> stored_arguments st' j = stored_arguments st j"
  shows "arg_ok st (arguments_delta k s t st')"
proof -
  let ?st = "fst (arguments_delta k s t st')"
  have f: "?st = st'\<lparr>cq_SequenceNumber := cq_SequenceNumber st' + 1\<rparr>"
    by (simp add: arguments_delta_def chatToResponsesEvent_def)
  have inv: "cq_inv ?st" "cq_CreatedSent ?st" using live(2) by (simp_all add: f)
  have "arg_view ?st = (arg_view st)(x := if streams ?st k then stored_arguments ?st k else [])"
    by (rule arg_view_upd) (use live inv same k rest in \<open>auto simp: f streams_def stored_arguments_def\<close>)
  also have "\<dots> = (arg_view st)(x := arg_view st x @ s)"
    using arg_view_at [OF _ k(1)] live(1) k grown by (simp add: f streams_def stored_arguments_def)
  finally show ?thesis
    using inv k(1) same
    by (auto simp: emits_ok_def arg_monitor_def is_arguments_delta_def arguments_delta_def chatToResponsesEvent_def the_int_def)
qed


lemma closed_call_fields: "call_fields (fst (closeChatReasoningItem st)) = call_fields st"
  by (simp add: closeChatReasoningItem_def quiet_defs)

lemma arg_register:
  assumes live: "cq_live st"
  shows "arg_ok st (register_tool rand k t st)"
proof (cases "map_of (cq_ToolCalls st) k")
  case None
  let ?s = "fst (closeChatReasoningItem st)"
  let ?f = "\<lambda>s tc i n. s\<lparr>cq_ToolCalls := assoc_set k tc (cq_ToolCalls s), cq_ToolItemIDs := (cq_ToolItemIDs s)(k \<mapsto> i),
      cq_ToolOutputIndex := (cq_ToolOutputIndex s)(k \<mapsto> cq_nextOutputIndex s),
      cq_nextOutputIndex := cq_nextOutputIndex s + 1, cq_rand := n\<rparr>"
  have s: "cq_live ?s" using cq_close_reasoning_ok [OF live] by (simp add: emits_ok_def)
  have none: "map_of (cq_ToolCalls ?s) k = None" "cq_ToolOutputIndex ?s k = None" "\<not> cq_toolAnnounced ?s k"
    using None closed_call_fields [of st] s call_inv_lookup [of ?s k] by (auto simp: call_fields_def cq_inv_def)
  have *: "arg_ok ?s (?f ?s tc i n, [])" if ok: "cq_live (?f ?s tc i n)" for tc i n
  proof (rule emits_ok_idle)
    show "cq_live (?f ?s tc i n)" by (rule ok)
    show "arg_view (?f ?s tc i n) = arg_view ?s"
      by (rule arg_view_new_call [where k = k and n = "cq_nextOutputIndex ?s"])
        (use s ok none in \<open>simp_all add: streams_def stored_arguments_def\<close>)
  qed
  have "cq_live (fst (register_tool rand k t st))" using cq_register_ok [OF live] by (simp add: emits_ok_def)
  then show ?thesis
    using None * unfolding register_tool_def Let_def
    by (auto simp: None intro!: emits_ok_seq arg_close_reasoning live)
next
  case (Some t')
  have "arg_ok st (st\<lparr>cq_ToolCalls := assoc_set k tc (cq_ToolCalls st)\<rparr>, [])"
    if live': "cq_live (st\<lparr>cq_ToolCalls := assoc_set k tc (cq_ToolCalls st)\<rparr>)"
      and "fc_Arguments (tc_Function tc) = fc_Arguments (tc_Function t')" for tc
    using live live' that Some
    by (intro emits_ok_idle arg_view_eq) (auto simp: streams_def stored_arguments_def)
  moreover have "cq_live (fst (register_tool rand k t st))" using cq_register_ok [OF live] by (simp add: emits_ok_def)
  ultimately show ?thesis using Some by (simp add: register_tool_def Let_def)
qed


lemma arg_announce:
  assumes live: "cq_live st" and k: "cq_ToolOutputIndex st k = Some x"
    and t: "fc_Arguments (tc_Function t) = stored_arguments st k"
  shows "arg_ok st (announceChatToolItem k t force st)"
proof -
  let ?r = "announceChatToolItem k t force st"
  have inv: "cq_live (fst ?r)" using cq_announce_ok [OF live k] by (simp add: emits_ok_def)
  have calls: "stored_arguments (fst ?r) = stored_arguments st" by (simp add: fun_eq_iff stored_arguments_def)
  have other: "streams (fst ?r) j = streams st j" if "j \<noteq> k" for j
    using that by (simp add: announceChatToolItem_def Let_def chatToResponsesEvent_def arguments_delta_def streams_def)
  have view: "arg_view (fst ?r) = (arg_view st)(x := if streams (fst ?r) k then stored_arguments st k else [])"
    using arg_view_upd [of st "fst ?r" k x] live inv k other calls by simp
  have sent: "streamed_arguments y (snd ?r) =
      (if y = x \<and> streams (fst ?r) k \<and> \<not> streams st k then stored_arguments st k else [])" for y
    using t k by (auto simp: announceChatToolItem_def Let_def chatToResponsesEvent_def arguments_delta_def
        streamed_arguments_def is_arguments_delta_def streams_def the_int_def)
  have mono: "streams st k \<Longrightarrow> streams (fst ?r) k"
    by (simp add: announceChatToolItem_def streams_def)
  show ?thesis
    using inv view sent mono arg_view_at [of st k x] live k
    by (auto simp: emits_ok_def run_arg_monitor fun_eq_iff)
qed

lemma arg_append_arguments:
  assumes live: "cq_live st" and k: "cq_ToolOutputIndex st k = Some x"
  shows "arg_ok st (append_arguments k s st)"
proof -
  let ?r = "append_arguments k s st"
  have inv: "cq_live (fst ?r)" using cq_append_arguments_ok [OF live k] by (simp add: emits_ok_def)
  have same: "cq_ToolOutputIndex (fst ?r) = cq_ToolOutputIndex st" "streams (fst ?r) = streams st"
    by (simp_all add: append_arguments_def Let_def arguments_delta_def chatToResponsesEvent_def streams_def fun_eq_iff)
  have "map_of (cq_ToolCalls st) k \<noteq> None" using call_inv_lookup [of st k] live k by (simp add: cq_inv_def)
  then have args: "stored_arguments (fst ?r) = (stored_arguments st)(k := stored_arguments st k @ s)"
    by (auto simp: append_arguments_def Let_def arguments_delta_def chatToResponsesEvent_def stored_arguments_def
        stored_call_def fun_eq_iff zeroChatToolCall_def)
  have view: "arg_view (fst ?r) = (arg_view st)(x := if streams st k then stored_arguments st k @ s else [])"
    using arg_view_upd [of st "fst ?r" k x] live inv k same args by simp
  have sent: "streamed_arguments y (snd ?r) = (if y = x \<and> streams st k then s else [])" for y
    using k by (auto simp: append_arguments_def Let_def chatToResponsesEvent_def arguments_delta_def
        streamed_arguments_def is_arguments_delta_def streams_def the_int_def)
  show ?thesis
    using inv view sent arg_view_at [of st k x] live k
    by (auto simp: emits_ok_def run_arg_monitor fun_eq_iff)
qed

lemma arg_tool_delta:
  assumes "cq_live st"
  shows "arg_ok st (chat_tool_delta rand t st)"
proof -
  let ?k = "the_int (tc_Index t)"
  obtain x where x: "cq_ToolOutputIndex (fst (register_tool rand ?k t st)) ?k = Some x"
    using register_defined assms by blast
  have "fc_Arguments (tc_Function (stored_call k s)) = stored_arguments s k" for k s
    by (simp add: stored_call_def stored_arguments_def zeroChatToolCall_def zeroChatFunctionCall_def split: option.split)
  then show ?thesis unfolding chat_tool_delta_def Let_def
    using x assms
    by (intro emits_ok_seq arg_register arg_announce [where x = x] arg_append_arguments [where x = x]) simp_all
qed

lemma arg_tool_deltas: "cq_live st \<Longrightarrow> arg_ok st (chat_tool_deltas rand ts st)"
proof (induction ts arbitrary: st)
  case (Cons t ts)
  show ?case unfolding chat_tool_deltas.simps by (intro emits_ok_seq arg_tool_delta Cons.IH) (use Cons.prems in auto)
qed (simp add: emits_ok_idle)

lemma arg_choice: "cq_live st \<Longrightarrow> arg_ok st (chat_choice rand c st)"
proof -
  have reasoning: "arg_ok s (emit_seq (ensureChatReasoningItem rand s) (append_reasoning r))" if "cq_live s" for s r
    by (intro emits_ok_seq arg_reasoning_item arg_append_reasoning) (use that in simp_all)
  have content: "arg_ok s (emit_seq (emit_seq (emit_seq (closeChatReasoningItem s)
      (ensureChatToResponsesMessageItem rand)) ensureChatToResponsesTextPart) (append_text r))" if "cq_live s" for s r
    by (intro emits_ok_seq arg_close_reasoning arg_message_item arg_text_part arg_append_text) (use that in simp_all)
  have finish: "arg_view (s\<lparr>cq_FinishReason := f\<rparr>) = arg_view s" for s f
    by (rule arg_view_fields) (simp add: call_fields_def)
  assume "cq_live st"
  then show ?thesis unfolding chat_choice_def Let_def
    by (intro content reasoning emits_ok_seq emits_ok_if arg_tool_deltas) (auto simp: emits_ok_idle finish)
qed

lemma arg_choices: "cq_live st \<Longrightarrow> arg_ok st (chat_choices rand cs st)"
proof (induction cs arbitrary: st)
  case (Cons c cs)
  show ?case unfolding chat_choices.simps by (intro emits_ok_seq arg_choice Cons.IH) (use Cons.prems in auto)
qed (simp add: emits_ok_idle)

lemma arg_chunk:
  assumes "cq_inv st"
  shows "arg_ok st (ChatCompletionsChunkToResponsesEvents rand chunk st)"
proof -
  have "arg_ok st (emit_seq (ensureChatToResponsesCreated s) (chat_choices rand cs))"
    if "cq_inv s" "arg_view s = arg_view st" for s cs
    using that by (intro emits_ok_cong [where st = s and st' = st] emits_ok_seq arg_created arg_choices) simp_all
  moreover have "cq_inv (st\<lparr>cq_ResponseID := a, cq_Model := b, cq_Usage := u\<rparr>)" for a b u
    using assms by (auto simp: inv_defs slot_defs)
  moreover have "arg_view (st\<lparr>cq_ResponseID := a, cq_Model := b, cq_Usage := u\<rparr>) = arg_view st" for a b u
    by (rule arg_view_fields) (simp add: call_fields_def)
  ultimately show ?thesis by (simp add: ChatCompletionsChunkToResponsesEvents_def Let_def)
qed

interpretation c2r_arguments: stream_converter "ChatCompletionsChunkToResponsesEvents rand" cq_inv arg_monitor arg_view
  for rand
  using arg_chunk by unfold_locales (metis emits_ok_def fst_conv snd_conv)


section \<open>What is stored\<close>

lemma stored_keeps [simp]:
  "stored_arguments (fst (ensureChatReasoningItem rand st)) = stored_arguments st"
  "stored_arguments (fst (closeChatReasoningItem st)) = stored_arguments st"
  "stored_arguments (fst (ensureChatToResponsesMessageItem rand st)) = stored_arguments st"
  "stored_arguments (fst (ensureChatToResponsesTextPart st)) = stored_arguments st"
  "stored_arguments (fst (append_text s st)) = stored_arguments st"
  "stored_arguments (fst (append_reasoning s st)) = stored_arguments st"
  "stored_arguments (fst (ensureChatToResponsesCreated st)) = stored_arguments st"
  "stored_arguments (fst (announceChatToolItem k t force st)) = stored_arguments st"
  "stored_arguments (st\<lparr>cq_FinishReason := f\<rparr>) = stored_arguments st"
  "stored_arguments (st\<lparr>cq_ResponseID := a, cq_Model := b, cq_Usage := u\<rparr>) = stored_arguments st"
  by (simp_all add: fun_eq_iff stored_arguments_def ensureChatReasoningItem_def closeChatReasoningItem_def
      ensureChatToResponsesMessageItem_def ensureChatToResponsesTextPart_def append_text_def append_reasoning_def
      ensureChatToResponsesCreated_def chatToResponsesEvent_def Let_def)

lemma stored_register: "stored_arguments (fst (register_tool rand k t st)) = stored_arguments st"
proof
  fix j
  have "map_of (cq_ToolCalls (fst (closeChatReasoningItem st))) = map_of (cq_ToolCalls st)"
    using closed_call_fields [of st] by (simp add: call_fields_def)
  then show "stored_arguments (fst (register_tool rand k t st)) j = stored_arguments st j"
    by (simp add: register_tool_def stored_arguments_def Let_def split: option.split)
qed

lemma stored_append: "stored_arguments (fst (append_arguments k s st)) = (stored_arguments st)(k := stored_arguments st k @ s)"
  by (auto simp: append_arguments_def Let_def arguments_delta_def chatToResponsesEvent_def stored_arguments_def
      stored_call_def fun_eq_iff zeroChatToolCall_def zeroChatFunctionCall_def split: option.split)

lemma stored_tool_deltas:
  "stored_arguments (fst (chat_tool_deltas rand ts st)) k = stored_arguments st k @ call_fragments k ts"
proof (induction ts arbitrary: st)
  case (Cons t ts)
  have "stored_arguments (fst (chat_tool_delta rand t st)) k
      = stored_arguments st k @ (if the_int (tc_Index t) = k then fc_Arguments (tc_Function t) else [])"
    by (simp add: chat_tool_delta_def Let_def stored_append stored_register)
  then show ?case by (simp add: Cons.IH) (simp add: call_fragments_def)
qed (simp add: call_fragments_def)

lemma stored_choices:
  "stored_arguments (fst (chat_choices rand cs st)) k
     = stored_arguments st k @ concat (map (\<lambda>ch. call_fragments k (cd_ToolCalls (ck_Delta ch))) cs)"
proof (induction cs arbitrary: st)
  case (Cons c cs)
  have "stored_arguments (fst (chat_choice rand c st)) k
      = stored_arguments st k @ call_fragments k (cd_ToolCalls (ck_Delta c))"
    by (simp add: chat_choice_def Let_def stored_tool_deltas)
  then show ?case by (simp add: Cons.IH)
qed simp

lemma stored_run:
  "stored_arguments (fst (run_stream (ChatCompletionsChunkToResponsesEvents rand) cs st)) k
     = stored_arguments st k @ chunk_fragments k cs"
proof (induction cs arbitrary: st)
  case (Cons c cs)
  have "stored_arguments (fst (ChatCompletionsChunkToResponsesEvents rand c st)) k = stored_arguments st k @
      concat (map (\<lambda>ch. call_fragments k (cd_ToolCalls (ck_Delta ch))) (cx_Choices c))"
    by (simp add: ChatCompletionsChunkToResponsesEvents_def Let_def stored_choices)
  then show ?case using Cons.IH by (simp add: chunk_fragments_def split: prod.split) (metis append.assoc fst_conv)
qed (simp add: chunk_fragments_def)

end
