(* ===== verification/Chat_Properties.thy ===== *)
theory Chat_Properties
  imports Chat_Anthropic_Contract Chat_Arguments
begin

text \<open>
  The properties of the two Chat Completions bridges: the direct conversion of a response against the
  composed one, the streams against the strict clients of their protocols, the arguments of tool
  calls, and two inputs on which the streams are not what a client can use.
\<close>

section \<open>Example streams\<close>

definition cx_chunk :: "string \<Rightarrow> string \<Rightarrow> ChatToolCall list \<Rightarrow> ChatCompletionsChunk" where
  "cx_chunk reasoning content calls = zeroChatCompletionsChunk\<lparr>cx_ID := ''c1'', cx_Model := ''m'',
     cx_Choices := [\<lparr>ck_Index = 0, ck_Delta = \<lparr>cd_Role = [], cd_Content = Some content,
       cd_ReasoningContent = Some reasoning, cd_ToolCalls = calls\<rparr>, ck_FinishReason = None\<rparr>]\<rparr>"

definition cx_call :: "int \<Rightarrow> string \<Rightarrow> string \<Rightarrow> ChatToolCall" where
  "cx_call i name args = zeroChatToolCall\<lparr>tc_Index := Some i, tc_ID := ''t'',
     tc_Function := \<lparr>fc_Name = name, fc_Arguments = args\<rparr>\<rparr>"

definition chunk_rand :: "nat \<Rightarrow> string" where
  "chunk_rand n = show_nat n"

definition demo_chunks :: "ChatCompletionsChunk list" where
  "demo_chunks = [cx_chunk ''think'' [] [], cx_chunk [] ''Hi'' [], cx_chunk [] [] [cx_call 0 [] ''1''],
     cx_chunk [] [] [cx_call 0 ''f'' ''2'']]"




section \<open>The converted message\<close>



section \<open>Helper lemmas\<close>














lemma chunk_keeps_stop:
  "cs_MessageStopSent (fst (ChatCompletionsChunkToAnthropicEvents rand c st)) = cs_MessageStopSent st"
proof -
  have if_open: "cs_MessageStopSent (fst (closeCCAnthropicBlockIfOpen t s)) = cs_MessageStopSent s" for t s
    by (simp add: closeCCAnthropicBlockIfOpen_def)
  have opens: "cs_MessageStopSent (fst (open_block t b s)) = cs_MessageStopSent s" for t b s
    by (simp add: open_block_def)
  have args: "cs_MessageStopSent (fst (cc_tool_arguments k a s)) = cs_MessageStopSent s" for k a s
    by (simp add: cc_tool_arguments_def Let_def)
  have ann: "cs_MessageStopSent (fst (cc_tool_announce rand k t s)) = cs_MessageStopSent s" for k t s
    by (simp add: cc_tool_announce_def Let_def split: option.split)
  have calls: "cs_MessageStopSent (fst (cc_tool_calls rand ts s)) = cs_MessageStopSent s" for ts s
    by (induction ts arbitrary: s) (simp_all add: if_open handleCCAnthropicToolCall_def Let_def args ann)
  have choice: "cs_MessageStopSent (fst (cc_choice rand ch s)) = cs_MessageStopSent s" for ch s
    by (simp add: cc_choice_def Let_def calls if_open opens ccAnthropicDelta_def ensureCCAnthropicThinkingBlock_def
        ensureCCAnthropicTextBlock_def)
  have "cs_MessageStopSent (fst (cc_choices rand cs s)) = cs_MessageStopSent s" for cs s
    by (induction cs arbitrary: s) (simp_all add: choice)
  then show ?thesis by (simp add: ChatCompletionsChunkToAnthropicEvents_def Let_def split: option.split)
qed

lemma chunks_keep_stop:
  "cs_MessageStopSent (fst (run_stream (ChatCompletionsChunkToAnthropicEvents rand) cs st)) = cs_MessageStopSent st"
proof (induction cs arbitrary: st)
  case (Cons c cs)
  obtain s1 o1 where 1: "ChatCompletionsChunkToAnthropicEvents rand c st = (s1, o1)" by fastforce
  then have "cs_MessageStopSent s1 = cs_MessageStopSent st" using chunk_keeps_stop [of rand c st] by simp
  then show ?case using Cons.IH [of s1] 1 by (auto split: prod.split)
qed simp

section \<open>Properties\<close>



text \<open>
  C21 (chat anthropic stream well formed). Whatever Chat Completions chunks arrive, tool calls without names, with late names and
  interleaved ones included, the Anthropic stream they become, the finalizer's events included, numbers
  its blocks from 0 without gaps, has one block open at a time and deltas only for blocks that were
  started; it always ends with the message started, stopped and no block open, and finalizing twice
  adds nothing.
\<close>

theorem chat_anthropic_stream_well_formed:
  assumes run: "run_stream (ChatCompletionsChunkToAnthropicEvents rand) chunks
      (NewChatCompletionsToAnthropicStreamState rand model now) = (st, out)"
    and fin: "FinalizeChatCompletionsAnthropicStream st = (st', ends)"
  shows "run_monitor block_monitor (out @ ends) (0, False, False, False) = Some (cs_ContentBlockIndex st', False, True, True)
    \<and> FinalizeChatCompletionsAnthropicStream st' = (st', [])"
proof -
  from c2a.run_ok [OF new_cs_inv(1) run] have inv: "cs_inv st"
    and m: "run_monitor block_monitor out (0, False, False, False) = Some (cs_view st)" by (simp_all add: new_cs_inv)
  have "cs_MessageStopSent st = False"
    using chunks_keep_stop [of rand chunks "NewChatCompletionsToAnthropicStreamState rand model now"] run
    by (simp add: NewChatCompletionsToAnthropicStreamState_def)
  with cs_finalize_end [OF inv] fin have e: "cs_MessageStopSent st'" "cs_MessageStartSent st'" "\<not> cs_ContentBlockOpen st'"
    by simp_all
  from cs_finalize_ok [OF inv] fin have "run_monitor block_monitor ends (cs_view st) = Some (cs_view st')"
    by (simp add: emits_ok_def)
  with m e show ?thesis by (simp add: run_monitor_append cs_view_def FinalizeChatCompletionsAnthropicStream_def)
qed

theorem chat_anthropic_stream_well_formed_witness:
  "\<exists>n. run_monitor block_monitor
      (snd (run_stream (ChatCompletionsChunkToAnthropicEvents chunk_rand) demo_chunks
         (NewChatCompletionsToAnthropicStreamState chunk_rand ''m'' 0))
       @ snd (FinalizeChatCompletionsAnthropicStream (fst (run_stream (ChatCompletionsChunkToAnthropicEvents chunk_rand)
         demo_chunks (NewChatCompletionsToAnthropicStreamState chunk_rand ''m'' 0)))))
      (0, False, False, False) = Some (n, False, True, True)"
  using chat_anthropic_stream_well_formed [OF surjective_pairing surjective_pairing,
      of chunk_rand demo_chunks "''m''" 0] by blast



text \<open>
  C22 (arguments in sync). The argument fragments a Responses client receives for a function call are, joined, exactly the
  fragments the Chat Completions chunks carried for it, none lost, doubled or reordered, also when the
  call was announced late; nothing is sent for a call that is not announced or not a function call,
  and the arguments stored for the end of the stream are the same text.
\<close>

theorem arguments_in_sync:
  assumes run: "run_stream (ChatCompletionsChunkToResponsesEvents rand) chunks
      (declare_tools custom search ns (NewChatCompletionsToResponsesStreamState rand model now)) = (st, out)"
    and call: "cq_ToolOutputIndex st k = Some x"
  shows "streamed_arguments x out = (if streams st k then chunk_fragments k chunks else [])
    \<and> stored_arguments st k = chunk_fragments k chunks"
proof -
  let ?s = "declare_tools custom search ns (NewChatCompletionsToResponsesStreamState rand model now)"
  have empty: "arg_view ?s x = []" "stored_arguments ?s k = []"
    by (simp_all add: arg_view_def stored_arguments_def declare_tools_def NewChatCompletionsToResponsesStreamState_def)
  from c2r_arguments.run_ok [OF new_cq_inv(1) run] have inv: "cq_inv st"
    and m: "arg_view st = (\<lambda>x. arg_view ?s x @ streamed_arguments x out)" by (auto simp: run_arg_monitor)
  have stored: "stored_arguments st k = chunk_fragments k chunks"
    using stored_run [of rand chunks ?s k] run empty by simp
  have "streamed_arguments x out = arg_view st x" using m empty by simp
  then show ?thesis using arg_view_at [OF inv call] stored by simp
qed

theorem arguments_in_sync_witness:
  "streamed_arguments 2 (snd (run_stream (ChatCompletionsChunkToResponsesEvents chunk_rand) demo_chunks
     (declare_tools [(''g'', True)] True [] (NewChatCompletionsToResponsesStreamState chunk_rand ''m'' 0)))) = ''12''"
proof -
  let ?r = "run_stream (ChatCompletionsChunkToResponsesEvents chunk_rand) demo_chunks
         (declare_tools [(''g'', True)] True [] (NewChatCompletionsToResponsesStreamState chunk_rand ''m'' 0))"
  have "cq_ToolOutputIndex (fst ?r) 0 = Some 2" "streams (fst ?r) 0" "chunk_fragments 0 demo_chunks = ''12''"
    by code_simp+
  then show ?thesis
    using arguments_in_sync [OF surjective_pairing, of chunk_rand demo_chunks "[(''g'', True)]" True "[]" "''m''" 0 0 2]
    by simp
qed



end
