(* ===== verification/Authorization_Handle.thy ===== *)
theory Authorization_Handle
  imports Go_Prelude "HOL-Library.Word"
begin

text \<open>
  The authorization handle of a billable attempt (\<open>service/authorization_handle.go\<close>): the log of its
  upstream writes, the chain of renewed handles, and the two gates before another write, the one of
  the account failover (\<open>WalletAttemptMayRetry\<close>) and the one of the HTTP retry (\<open>nextHTTPAttempt\<close>).
  Handles live in a heap, a list indexed by pointers; a nil pointer is \<open>None\<close>. Of the callbacks the
  bridge installs, the model keeps whether they are installed, and what they answer is an argument.
  Every method holds the handle's mutex, so it is one step; a \<open>renewed\<close> pointer found set after the
  lock is the case of a call that starts after the renewal.
\<close>

section \<open>The handle\<close>

datatype AuthorizationOutcome =
    AuthorizationOutcomeUnknown
  | AuthorizationOutcomeNotWritten
  | AuthorizationOutcomeResult
  | AuthorizationOutcomeIndeterminate
  | AuthorizationOutcomeRejected

record AuthorizationWrite =
  aw_Token :: string
  aw_Outcome :: AuthorizationOutcome
  aw_StartedAt :: int
  aw_EndedAt :: int
  aw_Err :: "string option"

record AuthorizationHandle =
  ah_ID :: string
  ah_MintedAt :: int
  ah_Mode :: string
  ah_seq :: "64 word"
  ah_writes :: "AuthorizationWrite list"
  ah_abandoned :: string
  ah_beforeWrite :: bool
  ah_onOutcome :: bool
  ah_retryCheck :: bool
  ah_renewAfterZero :: bool
  ah_renewed :: "nat option"
  ah_zeroAcknowledged :: bool

type_synonym handle_heap = "AuthorizationHandle list"

text \<open>\<open>entropy\<close> is the hex text of the 16 random bytes, \<open>None\<close> when the source fails.\<close>

definition newAuthorizationID :: "string option \<Rightarrow> string option" where
  "newAuthorizationID entropy = map_option (\<lambda>hex. ''auth_'' @ hex) entropy"

definition newAuthorizationHandle :: "string option \<Rightarrow> int \<Rightarrow> string \<Rightarrow> AuthorizationHandle option" where
  "newAuthorizationHandle entropy now mode =
     map_option (\<lambda>i. \<lparr>ah_ID = i, ah_MintedAt = now, ah_Mode = mode, ah_seq = 0, ah_writes = [], ah_abandoned = [],
       ah_beforeWrite = False, ah_onOutcome = False, ah_retryCheck = False, ah_renewAfterZero = False,
       ah_renewed = None, ah_zeroAcknowledged = False\<rparr>) (newAuthorizationID entropy)"

section \<open>The write log\<close>

definition MintWriteToken :: "int \<Rightarrow> AuthorizationHandle \<Rightarrow> AuthorizationHandle \<times> string" where
  "MintWriteToken now h =
     (let seq = ah_seq h + 1; tok = ah_ID h @ ''.'' @ show_nat (unat seq)
      in (h\<lparr>ah_seq := seq, ah_writes := ah_writes h @ [\<lparr>aw_Token = tok, aw_Outcome = AuthorizationOutcomeUnknown,
            aw_StartedAt = now, aw_EndedAt = 0, aw_Err = None\<rparr>]\<rparr>, tok))"

text \<open>The last write with the token, searched from the end.\<close>

fun last_write :: "string \<Rightarrow> AuthorizationWrite list \<Rightarrow> nat option" where
  "last_write tok [] = None"
| "last_write tok (w # ws) =
     (case last_write tok ws of
        Some i \<Rightarrow> Some (Suc i)
      | None \<Rightarrow> if aw_Token w = tok then Some 0 else None)"

text \<open>The second component says whether the outcome callback is invoked.\<close>

definition RecordOutcome ::
  "string \<Rightarrow> AuthorizationOutcome \<Rightarrow> string option \<Rightarrow> int \<Rightarrow> AuthorizationHandle \<Rightarrow> AuthorizationHandle \<times> bool" where
  "RecordOutcome tok outcome err now h =
     (if tok = [] then (h, False)
      else case last_write tok (ah_writes h) of
          None \<Rightarrow> (h, False)
        | Some i \<Rightarrow>
            (let w = ah_writes h ! i
             in if ah_beforeWrite h \<and> aw_Outcome w \<noteq> AuthorizationOutcomeUnknown then (h, False)
                else (h\<lparr>ah_writes := (ah_writes h)[i := w\<lparr>aw_Outcome := outcome, aw_EndedAt := now, aw_Err := err\<rparr>]\<rparr>,
                      ah_onOutcome h)))"

definition LastWriteToken :: "AuthorizationHandle option \<Rightarrow> string" where
  "LastWriteToken h =
     (case h of None \<Rightarrow> [] | Some h' \<Rightarrow> if ah_writes h' = [] then [] else aw_Token (last (ah_writes h')))"

definition SettledToken :: "AuthorizationHandle option \<Rightarrow> string" where
  "SettledToken h =
     (case h of
        None \<Rightarrow> []
      | Some h' \<Rightarrow>
          (case find (\<lambda>w. aw_Outcome w = AuthorizationOutcomeResult) (rev (ah_writes h')) of
             None \<Rightarrow> [] | Some w \<Rightarrow> aw_Token w))"

definition MarkAbandoned :: "string \<Rightarrow> AuthorizationHandle \<Rightarrow> AuthorizationHandle" where
  "MarkAbandoned reason h = (if ah_abandoned h \<noteq> [] then h else h\<lparr>ah_abandoned := reason\<rparr>)"

section \<open>The chain of attempts\<close>

text \<open>The loop of \<open>activeAttempt\<close>; not returning is \<open>None\<close>.\<close>

partial_function (option) follow_renewed :: "handle_heap \<Rightarrow> nat \<Rightarrow> nat option" where
  "follow_renewed heap p = (case ah_renewed (heap ! p) of None \<Rightarrow> Some p | Some q \<Rightarrow> follow_renewed heap q)"

definition activeAttempt :: "handle_heap \<Rightarrow> nat option \<Rightarrow> nat option option" where
  "activeAttempt heap p = (case p of None \<Rightarrow> Some None | Some q \<Rightarrow> map_option Some (follow_renewed heap q))"

text \<open>The cost of the last write is settled as zero, or the write never reached a billable point.\<close>

definition known_zero :: "AuthorizationHandle \<Rightarrow> bool" where
  "known_zero h \<longleftrightarrow> ah_zeroAcknowledged h
     \<or> aw_Outcome (last (ah_writes h)) = AuthorizationOutcomeRejected
     \<or> aw_Outcome (last (ah_writes h)) = AuthorizationOutcomeNotWritten"

definition may_retry_on :: "bool \<Rightarrow> AuthorizationHandle \<Rightarrow> bool" where
  "may_retry_on checked h =
     (if \<not> ah_beforeWrite h then True
      else if ah_writes h = [] then True
      else if \<not> known_zero h then False
      else ah_retryCheck h \<and> checked)"

text \<open>\<open>checked\<close>: the installed retry check returned nil.\<close>

definition WalletAttemptMayRetry :: "bool \<Rightarrow> handle_heap \<Rightarrow> nat option \<Rightarrow> bool option" where
  "WalletAttemptMayRetry checked heap p =
     map_option (\<lambda>a. case a of None \<Rightarrow> True | Some q \<Rightarrow> may_retry_on checked (heap ! q)) (activeAttempt heap p)"

datatype attempt_error = ErrWalletUnknownCostRetry | RenewFailed string

text \<open>\<open>renew\<close> is the answer of \<open>renewAfterZero\<close>: an error or the handle of the next attempt.\<close>

definition next_attempt_from ::
  "string + AuthorizationHandle \<Rightarrow> handle_heap \<Rightarrow> nat \<Rightarrow> handle_heap \<times> (attempt_error + nat)" where
  "next_attempt_from renew heap q =
     (let h = heap ! q
      in if ah_writes h = [] then (heap, Inr q)
         else if \<not> ah_renewAfterZero h then
           (if ah_beforeWrite h then (heap, Inl ErrWalletUnknownCostRetry) else (heap, Inr q))
         else if \<not> known_zero h then
           (if ah_beforeWrite h then (heap, Inl ErrWalletUnknownCostRetry) else (heap, Inr q))
         else case renew of
             Inl e \<Rightarrow> (heap, Inl (RenewFailed e))
           | Inr h' \<Rightarrow> (heap[q := h\<lparr>ah_renewed := Some (length heap)\<rparr>] @ [h'], Inr (length heap)))"

definition nextHTTPAttempt ::
  "string + AuthorizationHandle \<Rightarrow> handle_heap \<Rightarrow> nat \<Rightarrow> (handle_heap \<times> (attempt_error + nat)) option" where
  "nextHTTPAttempt renew heap p = map_option (next_attempt_from renew heap) (follow_renewed heap p)"

section \<open>Steps and invariants\<close>

text \<open>What may happen to a handle while the attempt runs; callbacks are installed once, before the writes.\<close>

inductive handle_step :: "AuthorizationHandle \<Rightarrow> AuthorizationHandle \<Rightarrow> bool" where
  mint: "handle_step h (fst (MintWriteToken now h))"
| outcome: "handle_step h (fst (RecordOutcome tok oc err now h))"
| abandon: "handle_step h (MarkAbandoned reason h)"
| acknowledge: "handle_step h (h\<lparr>ah_zeroAcknowledged := True\<rparr>)"
| renew: "handle_step h (h\<lparr>ah_renewed := Some q\<rparr>)"

inductive_cases handle_stepE: "handle_step h h'"

text \<open>The tokens are the numbered ones, in order.\<close>

definition log_inv :: "AuthorizationHandle \<Rightarrow> bool" where
  "log_inv h \<longleftrightarrow> ah_seq h = of_nat (length (ah_writes h)) \<and>
     (\<forall>i < length (ah_writes h). aw_Token (ah_writes h ! i)
        = ah_ID h @ ''.'' @ show_nat (unat (of_nat (Suc i) :: 64 word)))"

text \<open>A renewed pointer points to a later handle.\<close>

definition heap_inv :: "handle_heap \<Rightarrow> bool" where
  "heap_inv heap \<longleftrightarrow> (\<forall>p < length heap. \<forall>q. ah_renewed (heap ! p) = Some q \<longrightarrow> p < q \<and> q < length heap)"

section \<open>The write log\<close>

lemma last_write_Some:
  "last_write tok ws = Some i \<Longrightarrow> i < length ws \<and> aw_Token (ws ! i) = tok"
  by (induction ws arbitrary: i) (auto split: option.splits if_splits)

lemma record_cases:
  obtains "fst (RecordOutcome tok outcome err now h) = h"
  | i where "i < length (ah_writes h)" "aw_Token (ah_writes h ! i) = tok"
      "ah_beforeWrite h \<Longrightarrow> aw_Outcome (ah_writes h ! i) = AuthorizationOutcomeUnknown"
      "fst (RecordOutcome tok outcome err now h) = h\<lparr>ah_writes := (ah_writes h)[i := (ah_writes h ! i)\<lparr>
         aw_Outcome := outcome, aw_EndedAt := now, aw_Err := err\<rparr>]\<rparr>"
proof (cases "tok = [] \<or> last_write tok (ah_writes h) = None")
  case True
  then have "fst (RecordOutcome tok outcome err now h) = h" by (auto simp: RecordOutcome_def)
  then show thesis by (rule that(1))
next
  case False
  then obtain i where i: "last_write tok (ah_writes h) = Some i" by auto
  show thesis
  proof (cases "ah_beforeWrite h \<and> aw_Outcome (ah_writes h ! i) \<noteq> AuthorizationOutcomeUnknown")
    case True
    with False i have "fst (RecordOutcome tok outcome err now h) = h" by (simp add: RecordOutcome_def)
    then show thesis by (rule that(1))
  next
    case known: False
    with False i last_write_Some [OF i] show thesis by (intro that(2) [of i]) (auto simp: RecordOutcome_def Let_def)
  qed
qed

lemma step_keeps_log:
  assumes "handle_step h h'" "log_inv h"
  shows "log_inv h'" "ah_ID h' = ah_ID h" "ah_beforeWrite h' = ah_beforeWrite h"
    "length (ah_writes h) \<le> length (ah_writes h')"
proof -
  have "log_inv h' \<and> ah_ID h' = ah_ID h \<and> ah_beforeWrite h' = ah_beforeWrite h
      \<and> length (ah_writes h) \<le> length (ah_writes h')"
    using assms(1)
  proof cases
    case (mint now)
    have "ah_seq h + 1 = of_nat (Suc (length (ah_writes h)))" using assms(2) by (simp add: log_inv_def)
    with mint assms(2) show ?thesis
      by (auto simp: log_inv_def MintWriteToken_def Let_def nth_append less_Suc_eq)
  next
    case (outcome tok oc err now)
    then show ?thesis using assms(2)
      by (cases rule: record_cases [of tok oc err now h]) (auto simp: log_inv_def nth_list_update)
  qed (use assms(2) in \<open>auto simp: log_inv_def MarkAbandoned_def\<close>)
  then show "log_inv h'" "ah_ID h' = ah_ID h" "ah_beforeWrite h' = ah_beforeWrite h"
    "length (ah_writes h) \<le> length (ah_writes h')" by simp_all
qed

text \<open>A recorded outcome stays, under the wallet.\<close>

lemma step_keeps_outcome:
  assumes "handle_step h h'" "i < length (ah_writes h)" "aw_Outcome (ah_writes h ! i) \<noteq> AuthorizationOutcomeUnknown"
    and "ah_beforeWrite h"
  shows "ah_writes h' ! i = ah_writes h ! i"
  using assms(1)
proof cases
  case (outcome tok oc err now)
  then show ?thesis using assms
    by (cases rule: record_cases [of tok oc err now h]) (auto simp: nth_list_update)
qed (use assms in \<open>auto simp: MintWriteToken_def Let_def nth_append MarkAbandoned_def\<close>)

lemma steps_keep_log:
  assumes "handle_step\<^sup>*\<^sup>* h h'" "log_inv h"
  shows "log_inv h' \<and> ah_ID h' = ah_ID h \<and> ah_beforeWrite h' = ah_beforeWrite h
    \<and> length (ah_writes h) \<le> length (ah_writes h')"
  using assms
proof (induction rule: rtranclp_induct)
  case (step y z)
  then have y: "log_inv y" "ah_ID y = ah_ID h" "ah_beforeWrite y = ah_beforeWrite h"
    "length (ah_writes h) \<le> length (ah_writes y)" by blast+
  with step_keeps_log [OF step.hyps(2) y(1)] show ?case by simp
qed simp

lemma steps_keep_outcome:
  assumes "handle_step\<^sup>*\<^sup>* h h'" "log_inv h" "i < length (ah_writes h)"
    and "aw_Outcome (ah_writes h ! i) \<noteq> AuthorizationOutcomeUnknown" "ah_beforeWrite h"
  shows "ah_writes h' ! i = ah_writes h ! i"
  using assms
proof (induction rule: rtranclp_induct)
  case (step y z)
  have y: "ah_writes y ! i = ah_writes h ! i" by (rule step.IH [OF step.prems])
  have "i < length (ah_writes y)" "ah_beforeWrite y"
    using steps_keep_log [OF step.hyps(1) step.prems(1)] step.prems by auto
  with y step.prems have "ah_writes z ! i = ah_writes y ! i" by (intro step_keeps_outcome [OF step.hyps(2)]) auto
  with y show ?case by simp
qed simp

lemma show_nat_inj: "show_nat m = show_nat n \<Longrightarrow> m = n"
  by (metis option.inject parse_digits_show_nat)

lemma log_tokens_distinct:
  assumes "log_inv h" "length (ah_writes h) < 2 ^ 64"
  shows "distinct (map aw_Token (ah_writes h))"
proof -
  have "aw_Token (ah_writes h ! i) \<noteq> aw_Token (ah_writes h ! j)"
    if "i < length (ah_writes h)" "j < length (ah_writes h)" "i \<noteq> j" for i j
  proof
    assume "aw_Token (ah_writes h ! i) = aw_Token (ah_writes h ! j)"
    with assms(1) that have "unat (of_nat (Suc i) :: 64 word) = unat (of_nat (Suc j) :: 64 word)"
      by (auto simp: log_inv_def intro: show_nat_inj)
    moreover have "unat (of_nat (Suc n) :: 64 word) = Suc n" if "n < length (ah_writes h)" for n
      using that assms(2) by (simp add: unat_of_nat take_bit_nat_eq_self del: of_nat_Suc)
    ultimately show False using that by simp
  qed
  then show ?thesis by (simp add: distinct_conv_nth)
qed

section \<open>The chain\<close>

lemma heap_invD:
  "heap_inv heap \<Longrightarrow> p < length heap \<Longrightarrow> ah_renewed (heap ! p) = Some q \<Longrightarrow> p < q \<and> q < length heap"
  unfolding heap_inv_def by blast

lemma follow_ends:
  assumes "heap_inv heap" "p < length heap"
  shows "\<exists>q. follow_renewed heap p = Some q \<and> p \<le> q \<and> q < length heap \<and> ah_renewed (heap ! q) = None"
  using assms(2)
proof (induction "length heap - p" arbitrary: p rule: less_induct)
  case less
  show ?case
  proof (cases "ah_renewed (heap ! p)")
    case None
    then show ?thesis using less.prems by (subst follow_renewed.simps) simp
  next
    case (Some q)
    then have q: "p < q" "q < length heap" using heap_invD [OF assms(1) less.prems] by simp_all
    then have "length heap - q < length heap - p" by simp
    from less.hyps [OF this q(2)] obtain r where r: "follow_renewed heap q = Some r" "q \<le> r" "r < length heap"
      "ah_renewed (heap ! r) = None" by blast
    have "follow_renewed heap p = Some r" by (subst follow_renewed.simps) (simp add: Some r(1))
    with q r show ?thesis by (intro exI [of _ r]) simp
  qed
qed

text \<open>The outcomes of the HTTP gate, from the active handle.\<close>

lemma next_attempt_cases:
  assumes "next_attempt_from renew heap q = (heap', r)"
  obtains (stay) "heap' = heap" "r = Inr q" "ah_writes (heap ! q) = [] \<or> \<not> ah_beforeWrite (heap ! q)"
  | (refuse) "heap' = heap" "r = Inl ErrWalletUnknownCostRetry" "ah_writes (heap ! q) \<noteq> []" "ah_beforeWrite (heap ! q)"
      "\<not> known_zero (heap ! q) \<or> \<not> ah_renewAfterZero (heap ! q)"
  | (failed) e where "heap' = heap" "r = Inl (RenewFailed e)"
  | (renewed) h where "renew = Inr h" "r = Inr (length heap)" "known_zero (heap ! q)" "ah_writes (heap ! q) \<noteq> []"
      "heap' = heap[q := (heap ! q)\<lparr>ah_renewed := Some (length heap)\<rparr>] @ [h]"
proof (cases "ah_writes (heap ! q) = []")
  case True
  with assms show thesis by (intro stay) (simp_all add: next_attempt_from_def)
next
  case False
  show thesis
  proof (cases "known_zero (heap ! q) \<and> ah_renewAfterZero (heap ! q)")
    case True
    show thesis
    proof (cases renew)
      case (Inl e)
      with True False assms show thesis by (intro failed [of e]) (simp_all add: next_attempt_from_def)
    next
      case (Inr h)
      with True False assms show thesis by (intro renewed [of h]) (simp_all add: next_attempt_from_def Let_def)
    qed
  next
    case unknown: False
    show thesis
    proof (cases "ah_beforeWrite (heap ! q)")
      case True
      with unknown False assms show thesis
        by (intro refuse) (auto simp: next_attempt_from_def Let_def split: if_splits)
    next
      case free: False
      with unknown False assms show thesis
        by (intro stay) (auto simp: next_attempt_from_def Let_def split: if_splits)
    qed
  qed
qed

lemma next_attempt_keeps_heap:
  assumes inv: "heap_inv heap" and q: "q < length heap" and nxt: "next_attempt_from renew heap q = (heap', r)"
    and new: "\<And>h. renew = Inr h \<Longrightarrow> ah_renewed h = None"
  shows "heap_inv heap'"
  using nxt
proof (cases rule: next_attempt_cases)
  case (renewed h)
  have "p < n \<and> n < length heap'" if p: "p < length heap'" "ah_renewed (heap' ! p) = Some n" for p n
  proof (cases "p < length heap")
    case True
    show ?thesis
    proof (cases "p = q")
      case True
      with p renewed q show ?thesis by (simp add: nth_append)
    next
      case neq: False
      with p renewed True have "ah_renewed (heap ! p) = Some n" by (simp add: nth_append)
      with heap_invD [OF inv True] renewed show ?thesis by simp
    qed
  next
    case False
    with p(1) renewed(5) have "p = length heap" by simp
    with p(2) renewed(5) new [OF renewed(1)] show ?thesis by (simp add: nth_append)
  qed
  then show ?thesis unfolding heap_inv_def by blast
qed (use inv in simp_all)

end
