(* ===== verification/Failover.thy ===== *)
theory Failover
  imports Authorization_Handle
begin

text \<open>
  The account failover of a request (\<open>handler/failover_loop.go\<close>, \<open>service/gateway_service.go\<close>) and the
  loop of the gateway handler around it (\<open>handler/gateway_handler.go\<close>). What the request context
  answers is an argument: whether it is cancelled at the call, whether it is done before a timer
  fires, and what \<open>WalletAttemptMayRetry\<close> says of the attempt it carries. Logging is left out; the
  call of \<open>TempUnscheduleRetryableError\<close> is reported in the result.
\<close>

section \<open>State\<close>

datatype FailoverAction = FailoverContinue | FailoverExhausted | FailoverCanceled

datatype NextAccountAction = NextAccountLegacyRetry | NextAccountRetry | NextAccountStop

record UpstreamFailoverError =
  ue_StatusCode :: int
  ue_ResponseBody :: string
  ue_ResponseHeaders :: "(string \<times> string list) list"
  ue_ForceCacheBilling :: bool
  ue_RetryableOnSameAccount :: bool
  ue_SafeToFailoverAfterWrite :: bool
  ue_Stage :: string
  ue_Scope :: string
  ue_Reason :: string
  ue_NextAccountAction :: NextAccountAction
  ue_ClientStatusCode :: int
  ue_ClientMessage :: string

definition ShouldRetryNextAccount :: "UpstreamFailoverError option \<Rightarrow> bool" where
  "ShouldRetryNextAccount e = (case e of None \<Rightarrow> False | Some e' \<Rightarrow> ue_NextAccountAction e' \<noteq> NextAccountStop)"

record FailoverState =
  fs_SwitchCount :: int
  fs_MaxSwitches :: int
  fs_FailedAccountIDs :: "int set"
  fs_SameAccountRetryCount :: "int \<Rightarrow> int"
  fs_LastFailoverErr :: "UpstreamFailoverError option"
  fs_ForceCacheBilling :: bool
  fs_hasBoundSession :: bool

definition NewFailoverState :: "int \<Rightarrow> bool \<Rightarrow> FailoverState" where
  "NewFailoverState maxSwitches hasBoundSession = \<lparr>fs_SwitchCount = 0, fs_MaxSwitches = maxSwitches,
     fs_FailedAccountIDs = {}, fs_SameAccountRetryCount = (\<lambda>_. 0), fs_LastFailoverErr = None,
     fs_ForceCacheBilling = False, fs_hasBoundSession = hasBoundSession\<rparr>"

text \<open>The request context: cancelled now, done before the next timer, the wallet's answer.\<close>

record request_ctx =
  rc_Err :: bool
  rc_Done :: bool
  rc_MayRetry :: bool

section \<open>Decisions\<close>

definition sleepWithContext :: "request_ctx \<Rightarrow> int \<Rightarrow> bool" where
  "sleepWithContext ctx d = (d \<le> 0 \<or> \<not> rc_Done ctx)"

definition sameAccountRetryDelay :: int where "sameAccountRetryDelay = 500000000"

definition singleAccountBackoffDelay :: int where "singleAccountBackoffDelay = 2000000000"

definition PlatformAntigravity :: string where "PlatformAntigravity = ''antigravity''"

definition needForceCacheBilling :: "bool \<Rightarrow> UpstreamFailoverError option \<Rightarrow> bool \<Rightarrow> bool" where
  "needForceCacheBilling hasBoundSession e sameAccountRetry =
     (hasBoundSession \<and> \<not> sameAccountRetry \<or> (case e of None \<Rightarrow> False | Some e' \<Rightarrow> ue_ForceCacheBilling e'))"

text \<open>The result: the state, the action, whether the account is temporarily unscheduled.\<close>

type_synonym failover_result = "FailoverState \<times> FailoverAction \<times> bool"

definition switch_account ::
  "request_ctx \<Rightarrow> int \<Rightarrow> string \<Rightarrow> bool \<Rightarrow> FailoverState \<Rightarrow> failover_result" where
  "switch_account ctx accountID platform unscheduled s =
     (let s1 = s\<lparr>fs_FailedAccountIDs := insert accountID (fs_FailedAccountIDs s)\<rparr>
      in if fs_SwitchCount s1 \<ge> fs_MaxSwitches s1 then (s1, FailoverExhausted, unscheduled)
         else
           (let s2 = s1\<lparr>fs_SwitchCount := fs_SwitchCount s1 + 1\<rparr>
            in if platform = PlatformAntigravity
                  \<and> \<not> sleepWithContext ctx ((fs_SwitchCount s2 - 1) * 1000000000)
               then (s2, FailoverCanceled, unscheduled)
               else (s2, FailoverContinue, unscheduled)))"

definition HandleFailoverError ::
  "request_ctx \<Rightarrow> int \<Rightarrow> string \<Rightarrow> int \<Rightarrow> UpstreamFailoverError option \<Rightarrow> FailoverState \<Rightarrow> failover_result" where
  "HandleFailoverError ctx accountID platform retryLimit failoverErr s =
     (if rc_Err ctx then (s, FailoverCanceled, False)
      else
        (let s1 = s\<lparr>fs_LastFailoverErr := failoverErr\<rparr>
         in case failoverErr of
              None \<Rightarrow> (s1, FailoverExhausted, False)
            | Some e \<Rightarrow>
                if \<not> rc_MayRetry ctx \<or> \<not> ShouldRetryNextAccount failoverErr then (s1, FailoverExhausted, False)
                else
                  (let again = (ue_RetryableOnSameAccount e \<and> fs_SameAccountRetryCount s1 accountID < retryLimit);
                       s2 = (if needForceCacheBilling (fs_hasBoundSession s1) failoverErr again
                             then s1\<lparr>fs_ForceCacheBilling := True\<rparr> else s1)
                   in if again then
                        (let s3 = s2\<lparr>fs_SameAccountRetryCount := (fs_SameAccountRetryCount s2)
                                       (accountID := fs_SameAccountRetryCount s2 accountID + 1)\<rparr>
                         in if \<not> sleepWithContext ctx sameAccountRetryDelay then (s3, FailoverCanceled, False)
                            else (s3, FailoverContinue, False))
                      else switch_account ctx accountID platform (ue_RetryableOnSameAccount e) s2)))"

definition HandleSelectionExhausted :: "request_ctx \<Rightarrow> FailoverState \<Rightarrow> FailoverState \<times> FailoverAction" where
  "HandleSelectionExhausted ctx s =
     (if rc_Err ctx then (s, FailoverCanceled)
      else case fs_LastFailoverErr s of
          None \<Rightarrow> (s, FailoverExhausted)
        | Some e \<Rightarrow>
            if ue_StatusCode e = 503 \<and> fs_SwitchCount s \<le> fs_MaxSwitches s then
              (if \<not> sleepWithContext ctx singleAccountBackoffDelay then (s, FailoverCanceled)
               else (s\<lparr>fs_FailedAccountIDs := {}\<rparr>, FailoverContinue))
            else (s, FailoverExhausted))"

section \<open>The handler's loop\<close>

text \<open>
  What one turn of the loop meets: no account could be selected (by a governance denial or not), the
  billing snapshot could not be frozen, the request was answered before the forward (the model is
  temporarily unavailable, an intercepted warm-up, no concurrency slot, authorization refused), or the
  forward ended: with an answer, with another error, or with a failover error after or before bytes
  were written to the client.
\<close>

datatype forward_end =
    Answered
  | OtherError
  | FailoverFailed bool "UpstreamFailoverError option"

datatype attempt =
    NoAccount bool request_ctx
  | FreezeFailed
  | Refused
  | Forwarded request_ctx int string int forward_end

text \<open>One turn: the new state and whether the loop continues.\<close>

definition failover_turn :: "attempt \<Rightarrow> FailoverState \<Rightarrow> FailoverState \<times> bool" where
  "failover_turn a s =
     (case a of
        NoAccount denied ctx \<Rightarrow>
          if denied \<or> fs_FailedAccountIDs s = {} then (s, False)
          else (case HandleSelectionExhausted ctx s of (s1, act) \<Rightarrow> (s1, act = FailoverContinue))
      | FreezeFailed \<Rightarrow> (s, True)
      | Refused \<Rightarrow> (s, False)
      | Forwarded ctx accountID platform retryLimit end \<Rightarrow>
          (case end of
             Answered \<Rightarrow> (s, False)
           | OtherError \<Rightarrow> (s, False)
           | FailoverFailed written e \<Rightarrow>
               if written then (s, False)
               else (case HandleFailoverError ctx accountID platform retryLimit e s of
                       (s1, act, _) \<Rightarrow> (s1, act = FailoverContinue))))"

text \<open>The loop over the turns that happen; the second component says whether it returned.\<close>

fun failover_loop :: "attempt list \<Rightarrow> FailoverState \<Rightarrow> FailoverState \<times> bool" where
  "failover_loop [] s = (s, False)"
| "failover_loop (a # as) s =
     (case failover_turn a s of (s1, go) \<Rightarrow> if go then failover_loop as s1 else (s1, True))"

section \<open>The budget of the loop\<close>

text \<open>
  A continued turn uses up one same-account retry, a switch, or the failed set a switch had filled.
\<close>

definition loop_budget :: "int set \<Rightarrow> int \<Rightarrow> FailoverState \<Rightarrow> nat" where
  "loop_budget accounts limit s =
     (\<Sum>a\<in>accounts. nat (limit - fs_SameAccountRetryCount s a))
     + 2 * nat (fs_MaxSwitches s - fs_SwitchCount s) + (if fs_FailedAccountIDs s = {} then 0 else 1)"

definition within :: "int set \<Rightarrow> int \<Rightarrow> attempt \<Rightarrow> bool" where
  "within accounts limit a =
     (case a of Forwarded ctx accountID platform retryLimit end \<Rightarrow> accountID \<in> accounts \<and> retryLimit \<le> limit
      | _ \<Rightarrow> True)"

lemma retry_spends:
  assumes "finite accounts" "a \<in> accounts" "f a < limit"
  shows "(\<Sum>x\<in>accounts. nat (limit - (f(a := f a + 1)) x)) < (\<Sum>x\<in>accounts. nat (limit - f x :: int))"
proof -
  have "(\<Sum>x\<in>accounts. nat (limit - (f(a := f a + 1)) x))
      = nat (limit - (f a + 1)) + (\<Sum>x\<in>accounts - {a}. nat (limit - (f(a := f a + 1)) x))"
    using assms(1,2) by (simp add: sum.remove)
  also have "(\<Sum>x\<in>accounts - {a}. nat (limit - (f(a := f a + 1)) x)) = (\<Sum>x\<in>accounts - {a}. nat (limit - f x))"
    by (rule sum.cong) auto
  also have "nat (limit - (f a + 1)) + (\<Sum>x\<in>accounts - {a}. nat (limit - f x))
      < nat (limit - f a) + (\<Sum>x\<in>accounts - {a}. nat (limit - f x))" using assms(3) by simp
  also have "\<dots> = (\<Sum>x\<in>accounts. nat (limit - f x))" using assms(1,2) by (simp add: sum.remove)
  finally show ?thesis .
qed

text \<open>What a continued failover did: a retry on the account, or a switch.\<close>

lemma continue_cases:
  assumes "HandleFailoverError ctx k platform retryLimit failoverErr s = (s', FailoverContinue, u)"
  obtains e where "failoverErr = Some e" "\<not> rc_Err ctx" "rc_MayRetry ctx" "ue_NextAccountAction e \<noteq> NextAccountStop"
    and "fs_MaxSwitches s' = fs_MaxSwitches s" "fs_LastFailoverErr s' = failoverErr"
    and "ue_RetryableOnSameAccount e \<and> fs_SameAccountRetryCount s k < retryLimit
        \<and> fs_SameAccountRetryCount s' = (fs_SameAccountRetryCount s)(k := fs_SameAccountRetryCount s k + 1)
        \<and> fs_SwitchCount s' = fs_SwitchCount s \<and> fs_FailedAccountIDs s' = fs_FailedAccountIDs s
      \<or> fs_SameAccountRetryCount s' = fs_SameAccountRetryCount s \<and> fs_SwitchCount s < fs_MaxSwitches s
        \<and> fs_SwitchCount s' = fs_SwitchCount s + 1 \<and> fs_FailedAccountIDs s' = insert k (fs_FailedAccountIDs s)
        \<and> (ue_RetryableOnSameAccount e \<longrightarrow> retryLimit \<le> fs_SameAccountRetryCount s k)"
proof -
  have gates: "\<not> rc_Err ctx" using assms by (auto simp: HandleFailoverError_def split: if_splits)
  obtain e where e: "failoverErr = Some e"
    using assms gates by (cases failoverErr) (auto simp: HandleFailoverError_def Let_def)
  have may: "rc_MayRetry ctx" "ue_NextAccountAction e \<noteq> NextAccountStop"
    using assms gates e by (auto simp: HandleFailoverError_def Let_def ShouldRetryNextAccount_def split: if_splits)
  show thesis
  proof (cases "ue_RetryableOnSameAccount e \<and> fs_SameAccountRetryCount s k < retryLimit")
    case True
    with assms gates e may show thesis
      by (intro that [of e]) (auto simp: HandleFailoverError_def Let_def ShouldRetryNextAccount_def split: if_splits)
  next
    case False
    with assms gates e may show thesis
      by (intro that [of e])
        (auto simp: HandleFailoverError_def switch_account_def Let_def ShouldRetryNextAccount_def split: if_splits)
  qed
qed

lemma exhausted_continue:
  assumes "HandleSelectionExhausted ctx s = (s', FailoverContinue)"
  shows "s' = s\<lparr>fs_FailedAccountIDs := {}\<rparr>"
  using assms by (auto simp: HandleSelectionExhausted_def split: if_splits option.splits)

lemma turn_spends:
  assumes fin: "finite accounts" and w: "within accounts limit a" and go: "failover_turn a s = (s', True)"
    and f: "a \<noteq> FreezeFailed"
  shows "loop_budget accounts limit s' < loop_budget accounts limit s"
proof (cases a)
  case (NoAccount denied ctx)
  with go have failed: "fs_FailedAccountIDs s \<noteq> {}" and "HandleSelectionExhausted ctx s = (s', FailoverContinue)"
    by (auto simp: failover_turn_def split: if_splits prod.splits)
  from exhausted_continue [OF this(2)] failed show ?thesis by (simp add: loop_budget_def)
next
  case (Forwarded ctx k platform retryLimit fe)
  with w have k: "k \<in> accounts" "retryLimit \<le> limit" by (simp_all add: within_def)
  from go Forwarded obtain failoverErr u where
    "HandleFailoverError ctx k platform retryLimit failoverErr s = (s', FailoverContinue, u)"
    by (auto simp: failover_turn_def split: forward_end.splits if_splits prod.splits)
  then show ?thesis
  proof (cases rule: continue_cases)
    case (1 e)
    show ?thesis
    proof (cases "fs_SwitchCount s' = fs_SwitchCount s")
      case True
      with 1 have "fs_SameAccountRetryCount s k < limit"
        "fs_SameAccountRetryCount s' = (fs_SameAccountRetryCount s)(k := fs_SameAccountRetryCount s k + 1)"
        "fs_FailedAccountIDs s' = fs_FailedAccountIDs s" using k by auto
      then show ?thesis
        using retry_spends [OF fin k(1), of "fs_SameAccountRetryCount s" limit] 1(5) True by (simp add: loop_budget_def)
    next
      case False
      with 1 have "fs_SameAccountRetryCount s' = fs_SameAccountRetryCount s" "fs_SwitchCount s < fs_MaxSwitches s"
        "fs_SwitchCount s' = fs_SwitchCount s + 1" by auto
      moreover from this have "nat (fs_MaxSwitches s - fs_SwitchCount s) = Suc (nat (fs_MaxSwitches s - fs_SwitchCount s'))"
        by linarith
      ultimately show ?thesis using 1(5) by (simp add: loop_budget_def)
    qed
  qed
qed (use f go in \<open>simp_all add: failover_turn_def\<close>)

lemma loop_returns:
  assumes "finite accounts" "list_all (within accounts limit) as"
    and "loop_budget accounts limit s < length (filter (\<lambda>a. a \<noteq> FreezeFailed) as)"
  shows "snd (failover_loop as s)"
  using assms(2,3)
proof (induction as arbitrary: s)
  case (Cons a as)
  obtain s1 go where t: "failover_turn a s = (s1, go)" by fastforce
  show ?case
  proof (cases go)
    case True
    have "loop_budget accounts limit s1 < length (filter (\<lambda>a. a \<noteq> FreezeFailed) as)"
    proof (cases "a = FreezeFailed")
      case True
      with t Cons.prems show ?thesis by (simp add: failover_turn_def)
    next
      case False
      with turn_spends [OF assms(1) _ _ False, of limit s s1] t True Cons.prems show ?thesis by simp
    qed
    with Cons.IH [of s1] Cons.prems t True show ?thesis by simp
  qed (simp add: t)
qed simp

end
