(* ===== verification/Stream_Circuit.thy ===== *)
theory Stream_Circuit
  imports Go_Prelude "HOL-Library.Multiset"
begin

text \<open>
  The circuit that quarantines a proxy after repeated stream disconnects
  (\<open>service/openai_proxy_stream_circuit.go\<close>). A \<open>time.Time\<close> is its number of nanoseconds, 0 for the
  zero value. The entries are a Go map: a list of pairs with distinct keys, in no particular order;
  where the code ranges over the map and the order matters, the order is the parameter \<open>range_order\<close>.
  Every method holds the mutex, so it is one step. A proxy id that is not positive is the early
  return; a nil service has no circuit and nothing happens, which the model leaves out.
\<close>

section \<open>State\<close>

record openAIProxyStreamCircuitSettings =
  ps_failureThreshold :: int
  ps_failureWindow :: int
  ps_quarantineTTL :: int
  ps_maxEntries :: int

record openAIProxyStreamCircuitEntry =
  pe_failureCount :: int
  pe_windowStart :: int
  pe_blockedUntil :: int
  pe_lastTouched :: int

type_synonym circuit_entries = "(int \<times> openAIProxyStreamCircuitEntry) list"

record openAIProxyStreamCircuit =
  pc_settings :: openAIProxyStreamCircuitSettings
  pc_entries :: circuit_entries

definition default_circuit_settings :: openAIProxyStreamCircuitSettings where
  "default_circuit_settings = \<lparr>ps_failureThreshold = 2, ps_failureWindow = 60000000000,
     ps_quarantineTTL = 600000000000, ps_maxEntries = 4096\<rparr>"

text \<open>The configured threshold, window and TTL in seconds; \<open>None\<close> without a service or configuration.\<close>

definition resolveOpenAIProxyStreamCircuitSettings ::
  "(int \<times> int \<times> int) option \<Rightarrow> openAIProxyStreamCircuitSettings" where
  "resolveOpenAIProxyStreamCircuitSettings cfg =
     (case cfg of
        None \<Rightarrow> default_circuit_settings
      | Some (threshold, window, ttl) \<Rightarrow>
          (let s1 = (if threshold > 0 then default_circuit_settings\<lparr>ps_failureThreshold := threshold\<rparr> else default_circuit_settings);
               s2 = (if window > 0 then s1\<lparr>ps_failureWindow := wrap64 (window * 1000000000)\<rparr> else s1)
           in if ttl > 0 then s2\<lparr>ps_quarantineTTL := wrap64 (ttl * 1000000000)\<rparr> else s2))"

definition positive_or :: "int \<Rightarrow> int \<Rightarrow> int" where
  "positive_or d x = (if x \<le> 0 then d else x)"

definition newOpenAIProxyStreamCircuit :: "openAIProxyStreamCircuitSettings \<Rightarrow> openAIProxyStreamCircuit" where
  "newOpenAIProxyStreamCircuit s = \<lparr>pc_settings =
     \<lparr>ps_failureThreshold = positive_or 2 (ps_failureThreshold s),
      ps_failureWindow = positive_or 60000000000 (ps_failureWindow s),
      ps_quarantineTTL = positive_or 600000000000 (ps_quarantineTTL s),
      ps_maxEntries = positive_or 4096 (ps_maxEntries s)\<rparr>, pc_entries = []\<rparr>"

section \<open>Operations\<close>

definition zero_entry :: openAIProxyStreamCircuitEntry where
  "zero_entry = \<lparr>pe_failureCount = 0, pe_windowStart = 0, pe_blockedUntil = 0, pe_lastTouched = 0\<rparr>"

definition put_entry :: "int \<Rightarrow> openAIProxyStreamCircuitEntry \<Rightarrow> circuit_entries \<Rightarrow> circuit_entries" where
  "put_entry p e es = (p, e) # filter (\<lambda>x. fst x \<noteq> p) es"

definition drop_entry :: "int \<Rightarrow> circuit_entries \<Rightarrow> circuit_entries" where
  "drop_entry p es = filter (\<lambda>x. fst x \<noteq> p) es"

text \<open>An observation out of its window, or a quarantine that is over.\<close>

definition removable :: "openAIProxyStreamCircuitSettings \<Rightarrow> int \<Rightarrow> openAIProxyStreamCircuitEntry \<Rightarrow> bool" where
  "removable s now e \<longleftrightarrow>
     pe_blockedUntil e = 0 \<and> now - pe_lastTouched e > ps_failureWindow s
     \<or> pe_blockedUntil e \<noteq> 0 \<and> \<not> now < pe_blockedUntil e"

fun oldest_entry :: "circuit_entries \<Rightarrow> int \<times> int \<Rightarrow> int" where
  "oldest_entry [] (i, t) = i"
| "oldest_entry ((p, e) # es) (i, t) =
     (if i = 0 \<or> pe_lastTouched e < t then oldest_entry es (p, pe_lastTouched e) else oldest_entry es (i, t))"

definition ensureCapacityLocked ::
  "(circuit_entries \<Rightarrow> circuit_entries) \<Rightarrow> int \<Rightarrow> openAIProxyStreamCircuit \<Rightarrow> openAIProxyStreamCircuit" where
  "ensureCapacityLocked range_order now c =
     (let cap = ps_maxEntries (pc_settings c)
      in if int (length (pc_entries c)) < cap then c
         else
           (let es = filter (\<lambda>x. \<not> removable (pc_settings c) now (snd x)) (pc_entries c)
            in if int (length es) < cap then c\<lparr>pc_entries := es\<rparr>
               else
                 (let oldest = oldest_entry (range_order es) (0, 0)
                  in c\<lparr>pc_entries := (if oldest > 0 then drop_entry oldest es else es)\<rparr>)))"

definition recordFailure ::
  "(circuit_entries \<Rightarrow> circuit_entries) \<Rightarrow> int \<Rightarrow> int \<Rightarrow> openAIProxyStreamCircuit
     \<Rightarrow> openAIProxyStreamCircuit \<times> bool \<times> int" where
  "recordFailure range_order proxyID now c =
     (if proxyID \<le> 0 then (c, False, 0)
      else
        (let found = map_of (pc_entries c) proxyID;
             entry = (case found of None \<Rightarrow> zero_entry | Some e \<Rightarrow> e)
         in if found \<noteq> None \<and> now < pe_blockedUntil entry
            then (c\<lparr>pc_entries := put_entry proxyID (entry\<lparr>pe_lastTouched := now\<rparr>) (pc_entries c)\<rparr>,
                  False, pe_blockedUntil entry)
            else
              (let c1 = (if found = None then ensureCapacityLocked range_order now c else c);
                   e1 = (if pe_windowStart entry = 0 \<or> now < pe_windowStart entry
                            \<or> now - pe_windowStart entry > ps_failureWindow (pc_settings c)
                         then entry\<lparr>pe_failureCount := 0, pe_windowStart := now, pe_blockedUntil := 0\<rparr> else entry);
                   e2 = e1\<lparr>pe_failureCount := pe_failureCount e1 + 1, pe_lastTouched := now\<rparr>;
                   tripped = (pe_failureCount e2 \<ge> ps_failureThreshold (pc_settings c));
                   e3 = (if tripped then e2\<lparr>pe_blockedUntil := now + ps_quarantineTTL (pc_settings c)\<rparr> else e2)
               in (c1\<lparr>pc_entries := put_entry proxyID e3 (pc_entries c1)\<rparr>, tripped, pe_blockedUntil e3))))"

definition recordSuccess :: "int \<Rightarrow> openAIProxyStreamCircuit \<Rightarrow> openAIProxyStreamCircuit \<times> bool" where
  "recordSuccess proxyID c =
     (if proxyID \<le> 0 then (c, False)
      else if map_of (pc_entries c) proxyID = None then (c, False)
      else (c\<lparr>pc_entries := drop_entry proxyID (pc_entries c)\<rparr>, True))"

definition isBlocked :: "int \<Rightarrow> int \<Rightarrow> openAIProxyStreamCircuit \<Rightarrow> openAIProxyStreamCircuit \<times> bool" where
  "isBlocked proxyID now c =
     (if proxyID \<le> 0 then (c, False)
      else case map_of (pc_entries c) proxyID of
          None \<Rightarrow> (c, False)
        | Some e \<Rightarrow>
            if pe_blockedUntil e = 0 then (c, False)
            else if \<not> now < pe_blockedUntil e then (c\<lparr>pc_entries := drop_entry proxyID (pc_entries c)\<rparr>, False)
            else (c, True))"

section \<open>The gateway service's side\<close>

text \<open>
  The service creates its circuit at the first use, from its configuration. Of an account the circuit
  reads the platform and the proxy; a stream ends well, by cancellation, by a deadline or broken.
\<close>

record circuit_account =
  ca_Platform :: string
  ca_ProxyID :: "int option"

datatype stream_end = StreamDone | StreamCanceled | StreamDeadline | StreamBroken

type_synonym service_circuit = "openAIProxyStreamCircuit option"

definition getOpenAIProxyStreamCircuit :: "(int \<times> int \<times> int) option \<Rightarrow> service_circuit \<Rightarrow> openAIProxyStreamCircuit" where
  "getOpenAIProxyStreamCircuit cfg sc =
     (case sc of None \<Rightarrow> newOpenAIProxyStreamCircuit (resolveOpenAIProxyStreamCircuitSettings cfg) | Some c \<Rightarrow> c)"

definition openAIProxyStreamCircuitProxyID :: "circuit_account option \<Rightarrow> int option" where
  "openAIProxyStreamCircuitProxyID account =
     (case account of
        None \<Rightarrow> None
      | Some a \<Rightarrow>
          if ca_Platform a \<noteq> ''openai'' then None
          else (case ca_ProxyID a of None \<Rightarrow> None | Some p \<Rightarrow> if p \<le> 0 then None else Some p))"

definition recordOpenAIProxyStreamDisconnect ::
  "(circuit_entries \<Rightarrow> circuit_entries) \<Rightarrow> (int \<times> int \<times> int) option \<Rightarrow> circuit_account option \<Rightarrow> stream_end \<Rightarrow> int
     \<Rightarrow> service_circuit \<Rightarrow> service_circuit" where
  "recordOpenAIProxyStreamDisconnect range_order cfg account streamErr now sc =
     (case openAIProxyStreamCircuitProxyID account of
        None \<Rightarrow> sc
      | Some p \<Rightarrow>
          if streamErr \<noteq> StreamBroken then sc
          else Some (fst (recordFailure range_order p now (getOpenAIProxyStreamCircuit cfg sc))))"

definition clearOpenAIProxyStreamDisconnect ::
  "(int \<times> int \<times> int) option \<Rightarrow> circuit_account option \<Rightarrow> service_circuit \<Rightarrow> service_circuit" where
  "clearOpenAIProxyStreamDisconnect cfg account sc =
     (case openAIProxyStreamCircuitProxyID account of
        None \<Rightarrow> sc
      | Some p \<Rightarrow> Some (fst (recordSuccess p (getOpenAIProxyStreamCircuit cfg sc))))"

definition isOpenAIProxyStreamQuarantined ::
  "(int \<times> int \<times> int) option \<Rightarrow> circuit_account option \<Rightarrow> int \<Rightarrow> service_circuit \<Rightarrow> service_circuit \<times> bool" where
  "isOpenAIProxyStreamQuarantined cfg account now sc =
     (case openAIProxyStreamCircuitProxyID account of
        None \<Rightarrow> (sc, False)
      | Some p \<Rightarrow> (case isBlocked p now (getOpenAIProxyStreamCircuit cfg sc) of (c, b) \<Rightarrow> (Some c, b)))"

section \<open>Runs\<close>

inductive circuit_step ::
  "(circuit_entries \<Rightarrow> circuit_entries) \<Rightarrow> openAIProxyStreamCircuit \<Rightarrow> openAIProxyStreamCircuit \<Rightarrow> bool"
  for range_order where
  failure: "circuit_step range_order c (fst (recordFailure range_order p now c))"
| success: "circuit_step range_order c (fst (recordSuccess p c))"
| look: "circuit_step range_order c (fst (isBlocked p now c))"

definition circuit_inv :: "openAIProxyStreamCircuit \<Rightarrow> bool" where
  "circuit_inv c \<longleftrightarrow> 0 < ps_maxEntries (pc_settings c)
     \<and> int (length (pc_entries c)) \<le> ps_maxEntries (pc_settings c)
     \<and> distinct (map fst (pc_entries c)) \<and> (\<forall>p\<in>set (map fst (pc_entries c)). 0 < p)"

text \<open>Failures of one proxy one after the other, with what each reported.\<close>

fun record_failures ::
  "(circuit_entries \<Rightarrow> circuit_entries) \<Rightarrow> int \<Rightarrow> int list \<Rightarrow> openAIProxyStreamCircuit
     \<Rightarrow> openAIProxyStreamCircuit \<times> (bool \<times> int) list" where
  "record_failures range_order p [] c = (c, [])"
| "record_failures range_order p (t # ts) c =
     (case recordFailure range_order p t c of (c1, r) \<Rightarrow>
        (case record_failures range_order p ts c1 of (c2, rs) \<Rightarrow> (c2, r # rs)))"

text \<open>The parameter lists the entries it is given.\<close>

definition is_range_order :: "(circuit_entries \<Rightarrow> circuit_entries) \<Rightarrow> bool" where
  "is_range_order range_order \<longleftrightarrow> (\<forall>es. mset (range_order es) = mset es)"

section \<open>The entries\<close>

lemma service_steps:
  "(circuit_step range_order)\<^sup>*\<^sup>* (getOpenAIProxyStreamCircuit cfg sc)
     (getOpenAIProxyStreamCircuit cfg (recordOpenAIProxyStreamDisconnect range_order cfg account streamErr now sc))"
  "(circuit_step range_order)\<^sup>*\<^sup>* (getOpenAIProxyStreamCircuit cfg sc)
     (getOpenAIProxyStreamCircuit cfg (clearOpenAIProxyStreamDisconnect cfg account sc))"
  "(circuit_step range_order)\<^sup>*\<^sup>* (getOpenAIProxyStreamCircuit cfg sc)
     (getOpenAIProxyStreamCircuit cfg (fst (isOpenAIProxyStreamQuarantined cfg account now sc)))"
  by (auto simp: recordOpenAIProxyStreamDisconnect_def clearOpenAIProxyStreamDisconnect_def
      isOpenAIProxyStreamQuarantined_def getOpenAIProxyStreamCircuit_def case_prod_unfold
      intro: circuit_step.intros split: option.split)

lemma put_entry_length:
  assumes "distinct (map fst es)"
  shows "length (put_entry p e es) = (if p \<in> fst ` set es then length es else Suc (length es))"
proof (cases "p \<in> fst ` set es")
  case True
  then obtain v where "(p, v) \<in> set es" by auto
  from split_list [OF this] obtain xs ys where es: "es = xs @ (p, v) # ys" by blast
  with assms have fresh: "p \<notin> fst ` set xs" "p \<notin> fst ` set ys" by auto
  have keep: "filter (\<lambda>x. fst x \<noteq> p) zs = zs" if "p \<notin> fst ` set zs" for zs
    using that by (induction zs) auto
  show ?thesis using es True keep [OF fresh(1)] keep [OF fresh(2)] by (simp add: put_entry_def)
next
  case False
  then have "filter (\<lambda>x. fst x \<noteq> p) es = es" by (induction es) auto
  with False show ?thesis by (simp add: put_entry_def)
qed

lemma filter_fst_distinct: "distinct (map fst es) \<Longrightarrow> distinct (map fst (filter P es))"
  by (induction es) auto

lemma map_of_put [simp]: "map_of (put_entry p e es) q = (if q = p then Some e else map_of es q)"
  by (induction es) (auto simp: put_entry_def)

lemma map_of_drop [simp]: "map_of (drop_entry p es) q = (if q = p then None else map_of es q)"
  by (induction es) (auto simp: drop_entry_def)

lemma oldest_in:
  assumes "i = 0 \<or> i \<in> K" "\<forall>x\<in>set es. fst x \<in> K \<and> fst x \<noteq> 0" "es \<noteq> [] \<or> i \<noteq> 0"
  shows "oldest_entry es (i, t) \<in> K \<and> oldest_entry es (i, t) \<noteq> 0"
  using assms by (induction es "(i, t)" arbitrary: i t rule: oldest_entry.induct) auto

lemma circuit_inv_sub:
  assumes "circuit_inv c" "distinct (map fst es)" "set es \<subseteq> set (pc_entries c)" "length es \<le> length (pc_entries c)"
  shows "circuit_inv (c\<lparr>pc_entries := es\<rparr>)"
proof -
  have "0 < p" if "p \<in> fst ` set es" for p using that assms(1,3) unfolding circuit_inv_def by auto
  with assms show ?thesis by (simp add: circuit_inv_def)
qed

lemma ensureCapacity_inv:
  assumes inv: "circuit_inv c" and perm: "mset (range_order (filter (\<lambda>x. \<not> removable (pc_settings c) now (snd x)) (pc_entries c)))
      = mset (filter (\<lambda>x. \<not> removable (pc_settings c) now (snd x)) (pc_entries c))"
  defines "c' \<equiv> ensureCapacityLocked range_order now c"
  shows "circuit_inv c' \<and> int (length (pc_entries c')) < ps_maxEntries (pc_settings c')
    \<and> pc_settings c' = pc_settings c \<and> set (pc_entries c') \<subseteq> set (pc_entries c)"
proof -
  let ?es = "filter (\<lambda>x. \<not> removable (pc_settings c) now (snd x)) (pc_entries c)"
  have es: "distinct (map fst ?es)" "set ?es \<subseteq> set (pc_entries c)" "length ?es \<le> length (pc_entries c)"
    using inv by (auto simp: circuit_inv_def filter_fst_distinct)
  consider "int (length (pc_entries c)) < ps_maxEntries (pc_settings c)"
    | "\<not> int (length (pc_entries c)) < ps_maxEntries (pc_settings c)" "int (length ?es) < ps_maxEntries (pc_settings c)"
    | "\<not> int (length (pc_entries c)) < ps_maxEntries (pc_settings c)" "\<not> int (length ?es) < ps_maxEntries (pc_settings c)"
    by blast
  then show ?thesis
  proof cases
    case 1
    then show ?thesis using inv by (simp add: c'_def ensureCapacityLocked_def Let_def)
  next
    case 2
    then have "c' = c\<lparr>pc_entries := ?es\<rparr>" by (simp add: c'_def ensureCapacityLocked_def Let_def)
    with circuit_inv_sub [OF inv es] 2 es(2) show ?thesis by simp
  next
    case 3
    let ?o = "oldest_entry (range_order ?es) (0, 0)"
    have same: "set (range_order ?es) = set ?es" using perm by (rule mset_eq_setD)
    have "0 < ps_maxEntries (pc_settings c)" using inv by (simp add: circuit_inv_def)
    with 3(2) have "?es \<noteq> []" by (metis list.size(3) of_nat_0)
    then have "range_order ?es \<noteq> []" using same by (metis set_empty)
    moreover have pos: "\<forall>x\<in>set ?es. 0 < fst x" using inv es(2) unfolding circuit_inv_def by auto
    ultimately have o: "?o \<in> fst ` set ?es"
      using oldest_in [of 0 "fst ` set ?es" "range_order ?es" 0] unfolding same by force
    then obtain x where "x \<in> set ?es" "?o = fst x" by (rule imageE)
    with pos have "0 < ?o" by metis
    have shorter: "length (drop_entry ?o ?es) < length ?es"
      unfolding drop_entry_def by (rule length_filter_less [OF \<open>x \<in> set ?es\<close>]) (simp add: \<open>?o = fst x\<close>)
    have "distinct (map fst (drop_entry ?o ?es))" "set (drop_entry ?o ?es) \<subseteq> set (pc_entries c)"
      using filter_fst_distinct [OF es(1)] es(2) unfolding drop_entry_def by (blast, auto)
    then have inv': "circuit_inv (c\<lparr>pc_entries := drop_entry ?o ?es\<rparr>)" "set (drop_entry ?o ?es) \<subseteq> set (pc_entries c)"
      using circuit_inv_sub [OF inv, of "drop_entry ?o ?es"] shorter es(3) by simp_all
    have "int (length (pc_entries c)) \<le> ps_maxEntries (pc_settings c)" using inv by (simp add: circuit_inv_def)
    with shorter es(3) have "int (length (drop_entry ?o ?es)) < ps_maxEntries (pc_settings c)" by linarith
    moreover have "c' = c\<lparr>pc_entries := drop_entry ?o ?es\<rparr>"
      using 3 \<open>0 < ?o\<close> by (simp add: c'_def ensureCapacityLocked_def Let_def)
    ultimately show ?thesis using inv' by simp
  qed
qed


lemma put_entry_inv:
  assumes "circuit_inv c" "0 < p" "p \<in> fst ` set (pc_entries c) \<or> int (length (pc_entries c)) < ps_maxEntries (pc_settings c)"
  shows "circuit_inv (c\<lparr>pc_entries := put_entry p e (pc_entries c)\<rparr>)"
proof -
  have "distinct (map fst (pc_entries c))" using assms(1) by (simp add: circuit_inv_def)
  note len = put_entry_length [OF this, of p e] and dist = filter_fst_distinct [OF this, of "\<lambda>x. fst x \<noteq> p"]
  have "int (length (put_entry p e (pc_entries c))) \<le> ps_maxEntries (pc_settings c)"
    using assms(1,3) unfolding len by (auto simp: circuit_inv_def)
  moreover have "distinct (map fst (put_entry p e (pc_entries c)))" using dist by (auto simp: put_entry_def)
  moreover have "0 < q" if "q \<in> fst ` set (put_entry p e (pc_entries c))" for q
    using that assms(1,2) unfolding circuit_inv_def put_entry_def by auto
  ultimately show ?thesis using assms(1) by (simp add: circuit_inv_def)
qed

lemma drop_entry_inv: "circuit_inv c \<Longrightarrow> circuit_inv (c\<lparr>pc_entries := drop_entry p (pc_entries c)\<rparr>)"
  by (rule circuit_inv_sub) (auto simp: drop_entry_def filter_fst_distinct circuit_inv_def)

lemma recordFailure_inv:
  assumes "is_range_order range_order" "circuit_inv c"
  shows "circuit_inv (fst (recordFailure range_order p now c))"
proof (cases "map_of (pc_entries c) p")
  case None
  let ?c = "ensureCapacityLocked range_order now c"
  have "circuit_inv ?c" "int (length (pc_entries ?c)) < ps_maxEntries (pc_settings ?c)"
    using ensureCapacity_inv [OF assms(2), of range_order now] assms(1) unfolding is_range_order_def by blast+
  then have "circuit_inv (?c\<lparr>pc_entries := put_entry p e (pc_entries ?c)\<rparr>)" if "0 < p" for e
    using put_entry_inv that by blast
  with None assms(2) show ?thesis by (simp add: recordFailure_def Let_def)
next
  case (Some e)
  then have "p \<in> fst ` set (pc_entries c)" by (force dest: map_of_SomeD)
  then have "circuit_inv (c\<lparr>pc_entries := put_entry p e' (pc_entries c)\<rparr>)" if "0 < p" for e'
    using put_entry_inv [OF assms(2)] that by blast
  with Some assms(2) show ?thesis by (simp add: recordFailure_def Let_def)
qed

lemma circuit_step_inv:
  assumes "is_range_order range_order" "circuit_step range_order c c'" "circuit_inv c"
  shows "circuit_inv c' \<and> pc_settings c' = pc_settings c"
  using assms(2)
proof cases
  case (failure p now)
  moreover have "pc_settings (fst (recordFailure range_order p now c)) = pc_settings c"
    by (simp add: recordFailure_def Let_def ensureCapacityLocked_def)
  ultimately show ?thesis using recordFailure_inv [OF assms(1,3)] by simp
next
  case (success p)
  then show ?thesis using assms(3) drop_entry_inv by (simp add: recordSuccess_def)
next
  case (look p now)
  then show ?thesis using assms(3) drop_entry_inv by (simp add: isBlocked_def split: option.split)
qed

section \<open>Failures in a row\<close>

text \<open>In the window of the first failure, the entry counts the failures and trips at the threshold.\<close>

lemma failure_counts:
  assumes p: "0 < p" and e: "map_of (pc_entries c) p = Some e"
    and w: "0 < pe_windowStart e" "pe_windowStart e \<le> t" "t - pe_windowStart e \<le> ps_failureWindow (pc_settings c)"
    and b: "pe_blockedUntil e \<le> t"
  defines "n \<equiv> pe_failureCount e + 1"
  defines "u \<equiv> (if n \<ge> ps_failureThreshold (pc_settings c) then t + ps_quarantineTTL (pc_settings c) else pe_blockedUntil e)"
  shows "recordFailure range_order p t c = (c\<lparr>pc_entries := put_entry p
      (e\<lparr>pe_failureCount := n, pe_lastTouched := t, pe_blockedUntil := u\<rparr>) (pc_entries c)\<rparr>,
      n \<ge> ps_failureThreshold (pc_settings c), u)"
  using assms by (auto simp: recordFailure_def Let_def)

lemma failures_below_threshold:
  assumes p: "0 < p" and e: "map_of (pc_entries c) p = Some e" "pe_blockedUntil e = 0"
    and w: "0 < pe_windowStart e"
    and ts: "\<forall>t\<in>set ts. pe_windowStart e \<le> t \<and> t - pe_windowStart e \<le> ps_failureWindow (pc_settings c)"
    and n: "pe_failureCount e + int (length ts) < ps_failureThreshold (pc_settings c)"
  shows "\<exists>c' e'. record_failures range_order p ts c = (c', replicate (length ts) (False, 0))
    \<and> pc_settings c' = pc_settings c \<and> map_of (pc_entries c') p = Some e' \<and> pe_blockedUntil e' = 0
    \<and> pe_windowStart e' = pe_windowStart e \<and> pe_failureCount e' = pe_failureCount e + int (length ts)"
  using e ts n w
proof (induction ts arbitrary: c e)
  case (Cons t ts)
  let ?e = "e\<lparr>pe_failureCount := pe_failureCount e + 1, pe_lastTouched := t, pe_blockedUntil := 0\<rparr>"
  let ?c = "c\<lparr>pc_entries := put_entry p ?e (pc_entries c)\<rparr>"
  have t: "pe_windowStart e \<le> t" "t - pe_windowStart e \<le> ps_failureWindow (pc_settings c)" using Cons.prems(3) by auto
  have r: "recordFailure range_order p t c = (?c, False, 0)"
    using failure_counts [OF p Cons.prems(1) Cons.prems(5) t, of range_order] Cons.prems(2,4,5) t(1) by simp
  have "\<exists>c' e'. record_failures range_order p ts ?c = (c', replicate (length ts) (False, 0))
    \<and> pc_settings c' = pc_settings ?c \<and> map_of (pc_entries c') p = Some e' \<and> pe_blockedUntil e' = 0
    \<and> pe_windowStart e' = pe_windowStart ?e \<and> pe_failureCount e' = pe_failureCount ?e + int (length ts)"
    by (rule Cons.IH) (use Cons.prems in auto)
  then show ?case using r by auto
qed simp

text \<open>While the quarantine lasts, further failures neither trip nor extend it.\<close>

lemma failures_in_quarantine:
  assumes "0 < p" "map_of (pc_entries c) p = Some e" "\<forall>t\<in>set ts. t < pe_blockedUntil e"
  shows "\<exists>c' e'. record_failures range_order p ts c = (c', replicate (length ts) (False, pe_blockedUntil e))
    \<and> map_of (pc_entries c') p = Some e' \<and> pe_blockedUntil e' = pe_blockedUntil e"
  using assms(2,3)
proof (induction ts arbitrary: c e)
  case (Cons t ts)
  let ?e = "e\<lparr>pe_lastTouched := t\<rparr>"
  have r: "recordFailure range_order p t c = (c\<lparr>pc_entries := put_entry p ?e (pc_entries c)\<rparr>, False, pe_blockedUntil e)"
    using assms(1) Cons.prems by (simp add: recordFailure_def)
  have "\<exists>c' e'. record_failures range_order p ts (c\<lparr>pc_entries := put_entry p ?e (pc_entries c)\<rparr>)
      = (c', replicate (length ts) (False, pe_blockedUntil ?e))
    \<and> map_of (pc_entries c') p = Some e' \<and> pe_blockedUntil e' = pe_blockedUntil ?e"
    by (rule Cons.IH) (use Cons.prems in auto)
  then show ?case using r by auto
qed simp

lemma record_failures_append:
  "record_failures range_order p (ts @ us) c =
     (case record_failures range_order p ts c of (c1, r1) \<Rightarrow>
        (case record_failures range_order p us c1 of (c2, r2) \<Rightarrow> (c2, r1 @ r2)))"
  by (induction ts arbitrary: c) (auto split: prod.splits)

end
