(* ===== verification/Idempotency.thy ===== *)
theory Idempotency
  imports Go_Json
begin

text \<open>
  Idempotent execution of write requests: the coordinator (\<open>service/idempotency.go\<close>) on its table
  (\<open>repository/idempotency_repo.go\<close>). The table is the list of its rows with the id sequence; every
  SQL statement is one function on it, and a statement that fails is a flag of \<open>db_faults\<close>. A call
  of \<open>Execute\<close> claims the key (\<open>claim_key\<close>), runs the handler and records the end
  (\<open>finish_execution\<close>). Times are nanoseconds. Parameters: \<open>H\<close> is SHA-256 in hex, \<open>redact\<close> is
  \<open>logredact.RedactText\<close> (regular expressions), and of a Go value the model has the text
  \<open>json.Marshal\<close> gives, \<open>None\<close> if it fails. The metrics and audit log calls, and the columns
  \<open>created_at\<close> and \<open>updated_at\<close> that nothing reads, are left out.
\<close>

section \<open>The table\<close>

definition IdempotencyStatusProcessing :: string where "IdempotencyStatusProcessing = ''processing''"
definition IdempotencyStatusSucceeded :: string where "IdempotencyStatusSucceeded = ''succeeded''"
definition IdempotencyStatusFailedRetryable :: string where "IdempotencyStatusFailedRetryable = ''failed_retryable''"

record IdempotencyRecord =
  ir_ID :: int
  ir_Scope :: string
  ir_IdempotencyKeyHash :: string
  ir_RequestFingerprint :: string
  ir_Status :: string
  ir_ResponseStatus :: "int option"
  ir_ResponseBody :: "string option"
  ir_ErrorReason :: "string option"
  ir_LockedUntil :: "int option"
  ir_ExpiresAt :: int

record idempotency_table =
  ix_rows :: "IdempotencyRecord list"
  ix_next :: int

definition has_key :: "string \<Rightarrow> string \<Rightarrow> IdempotencyRecord \<Rightarrow> bool" where
  "has_key scope keyHash r \<longleftrightarrow> ir_Scope r = scope \<and> ir_IdempotencyKeyHash r = keyHash"

definition GetByScopeAndKeyHash :: "string \<Rightarrow> string \<Rightarrow> idempotency_table \<Rightarrow> IdempotencyRecord option" where
  "GetByScopeAndKeyHash scope keyHash t = find (has_key scope keyHash) (ix_rows t)"

text \<open>The id of the inserted row, \<open>None\<close> on a conflict.\<close>

definition CreateProcessing :: "IdempotencyRecord \<Rightarrow> idempotency_table \<Rightarrow> idempotency_table \<times> int option" where
  "CreateProcessing r t =
     (if list_ex (has_key (ir_Scope r) (ir_IdempotencyKeyHash r)) (ix_rows t) then (t, None)
      else (t\<lparr>ix_rows := ix_rows t @ [r\<lparr>ir_ID := ix_next t, ir_ResponseStatus := None, ir_ResponseBody := None,
                                       ir_ErrorReason := None\<rparr>], ix_next := ix_next t + 1\<rparr>, Some (ix_next t)))"

text \<open>An update of the rows that satisfy a condition, and whether there was one.\<close>

definition update_rows ::
  "(IdempotencyRecord \<Rightarrow> bool) \<Rightarrow> (IdempotencyRecord \<Rightarrow> IdempotencyRecord) \<Rightarrow> idempotency_table \<Rightarrow> idempotency_table \<times> bool" where
  "update_rows P f t = (t\<lparr>ix_rows := map (\<lambda>r. if P r then f r else r) (ix_rows t)\<rparr>, list_ex P (ix_rows t))"

definition unlocked_at :: "int \<Rightarrow> IdempotencyRecord \<Rightarrow> bool" where
  "unlocked_at now r = (case ir_LockedUntil r of None \<Rightarrow> True | Some u \<Rightarrow> u \<le> now)"

definition TryReclaim ::
  "int \<Rightarrow> string \<Rightarrow> int \<Rightarrow> int \<Rightarrow> int \<Rightarrow> idempotency_table \<Rightarrow> idempotency_table \<times> bool" where
  "TryReclaim recordID fromStatus now newLockedUntil newExpiresAt =
     update_rows (\<lambda>r. ir_ID r = recordID \<and> ir_Status r = fromStatus \<and> unlocked_at now r)
       (\<lambda>r. r\<lparr>ir_Status := IdempotencyStatusProcessing, ir_LockedUntil := Some newLockedUntil, ir_ErrorReason := None,
              ir_ExpiresAt := newExpiresAt\<rparr>)"

definition ExtendProcessingLock ::
  "int \<Rightarrow> string \<Rightarrow> int \<Rightarrow> int \<Rightarrow> idempotency_table \<Rightarrow> idempotency_table \<times> bool" where
  "ExtendProcessingLock recordID fingerprint newLockedUntil newExpiresAt =
     update_rows (\<lambda>r. ir_ID r = recordID \<and> ir_Status r = IdempotencyStatusProcessing \<and> ir_RequestFingerprint r = fingerprint)
       (\<lambda>r. r\<lparr>ir_LockedUntil := Some newLockedUntil, ir_ExpiresAt := newExpiresAt\<rparr>)"

definition MarkSucceeded :: "int \<Rightarrow> int \<Rightarrow> string \<Rightarrow> int \<Rightarrow> idempotency_table \<Rightarrow> idempotency_table" where
  "MarkSucceeded recordID responseStatus responseBody expiresAt t =
     fst (update_rows (\<lambda>r. ir_ID r = recordID)
       (\<lambda>r. r\<lparr>ir_Status := IdempotencyStatusSucceeded, ir_ResponseStatus := Some responseStatus,
              ir_ResponseBody := Some responseBody, ir_ErrorReason := None, ir_LockedUntil := None,
              ir_ExpiresAt := expiresAt\<rparr>) t)"

definition MarkFailedRetryable :: "int \<Rightarrow> string \<Rightarrow> int \<Rightarrow> int \<Rightarrow> idempotency_table \<Rightarrow> idempotency_table" where
  "MarkFailedRetryable recordID reason lockedUntil expiresAt t =
     fst (update_rows (\<lambda>r. ir_ID r = recordID)
       (\<lambda>r. r\<lparr>ir_Status := IdempotencyStatusFailedRetryable, ir_ErrorReason := Some reason,
              ir_LockedUntil := Some lockedUntil, ir_ExpiresAt := expiresAt\<rparr>) t)"

text \<open>The expired rows, by expiry, up to the limit.\<close>

definition DeleteExpired :: "int \<Rightarrow> int \<Rightarrow> idempotency_table \<Rightarrow> idempotency_table \<times> int" where
  "DeleteExpired now limit0 t =
     (let limit = (if limit0 \<le> 0 then 500 else limit0);
          victims = map ir_ID (take (nat limit) (sort_key ir_ExpiresAt (filter (\<lambda>r. ir_ExpiresAt r \<le> now) (ix_rows t))));
          gone = filter (\<lambda>r. ir_ID r \<in> set victims) (ix_rows t)
      in (t\<lparr>ix_rows := filter (\<lambda>r. ir_ID r \<notin> set victims) (ix_rows t)\<rparr>, int (length gone)))"

section \<open>Keys and fingerprints\<close>

datatype idempotency_error =
    ErrIdempotencyKeyRequired
  | ErrIdempotencyKeyInvalid
  | ErrIdempotencyKeyConflict
  | ErrIdempotencyInProgress "int option"
  | ErrIdempotencyRetryBackoff "int option"
  | ErrIdempotencyStoreUnavail
  | ErrIdempotencyInvalidPayload
  | ErrIdempotencyScopeRequired
  | ErrExecution string

definition NormalizeIdempotencyKey :: "string \<Rightarrow> idempotency_error + string" where
  "NormalizeIdempotencyKey raw =
     (let key = TrimSpace raw
      in if key = [] then Inr []
         else if length key > 128 then Inl ErrIdempotencyKeyInvalid
         else if list_ex (\<lambda>c. (of_char c :: nat) < 33 \<or> (of_char c :: nat) > 126) key then Inl ErrIdempotencyKeyInvalid
         else Inr key)"

definition BuildIdempotencyFingerprint ::
  "(string \<Rightarrow> string) \<Rightarrow> string \<Rightarrow> string \<Rightarrow> string \<Rightarrow> string option \<Rightarrow> idempotency_error + string" where
  "BuildIdempotencyFingerprint H httpMethod route actorScope payload =
     (let m = (if httpMethod = [] then ''POST'' else httpMethod);
          r = (if route = [] then ''/'' else route);
          a = (if actorScope = [] then ''anonymous'' else actorScope)
      in case payload of
           None \<Rightarrow> Inl ErrIdempotencyInvalidPayload
         | Some raw \<Rightarrow> Inr (H (ToUpper m @ [CHR 0x0A] @ r @ [CHR 0x0A] @ a @ [CHR 0x0A] @ raw)))"

text \<open>The whole seconds until the lock ends, at least one.\<close>

definition retry_after :: "int option \<Rightarrow> int \<Rightarrow> int option" where
  "retry_after lockedUntil now =
     (case lockedUntil of
        None \<Rightarrow> None
      | Some u \<Rightarrow> (let sec = go_div (u - now) 1000000000 in Some (if sec \<le> 0 then 1 else sec)))"

section \<open>Stored responses\<close>

record IdempotencyConfig =
  ic_DefaultTTL :: int
  ic_ProcessingTimeout :: int
  ic_FailedRetryBackoff :: int
  ic_MaxStoredResponseLen :: int
  ic_ObserveOnly :: bool

text \<open>\<open>utf8.ValidString\<close>.\<close>

function valid_utf8 :: "string \<Rightarrow> bool" where
  "valid_utf8 s =
     (case s of
        [] \<Rightarrow> True
      | c # rest \<Rightarrow>
          if (of_char c :: nat) < 128 then valid_utf8 rest
          else case utf8_len s of None \<Rightarrow> False | Some n \<Rightarrow> valid_utf8 (drop (max n 1) s))"
  by auto
termination
  by (relation "measure length") auto

declare valid_utf8.simps [simp del]

fun truncate_at :: "string \<Rightarrow> nat \<Rightarrow> string" where
  "truncate_at s 0 = []"
| "truncate_at s (Suc n) = (if valid_utf8 (take (Suc n) s) then take (Suc n) s else truncate_at s n)"

definition truncateUTF8 :: "string \<Rightarrow> int \<Rightarrow> string" where
  "truncateUTF8 s maxBytes = (if maxBytes \<le> 0 \<or> int (length s) \<le> maxBytes then s else truncate_at s (nat maxBytes))"

definition marshalStoredResponse :: "IdempotencyConfig \<Rightarrow> (string \<Rightarrow> string) \<Rightarrow> string option \<Rightarrow> string option" where
  "marshalStoredResponse cfg redact raw =
     (case raw of
        None \<Rightarrow> None
      | Some s \<Rightarrow>
          (let redacted = redact s
           in Some (if ic_MaxStoredResponseLen cfg > 0 \<and> int (length redacted) > ic_MaxStoredResponseLen cfg
                    then truncateUTF8 redacted (ic_MaxStoredResponseLen cfg) @ ''...(truncated)'' else redacted)))"

text \<open>The JSON text of the decoded value; \<open>json.Unmarshal\<close> into \<open>any\<close> fails on text that is not valid
  (and on a number beyond \<open>float64\<close>, which the responses of the handlers do not hold).\<close>

definition decodeStoredResponse :: "string option \<Rightarrow> string option" where
  "decodeStoredResponse stored =
     (case stored of
        None \<Rightarrow> Some [CHR 0x7B, CHR 0x7D]
      | Some s \<Rightarrow> if TrimSpace s = [] then Some [CHR 0x7B, CHR 0x7D] else if json_Valid s then Some s else None)"

section \<open>Claiming a key\<close>

record IdempotencyExecuteOptions =
  io_Scope :: string
  io_ActorScope :: string
  io_Method :: string
  io_Route :: string
  io_IdempotencyKey :: string
  io_Payload :: "string option"
  io_TTL :: int
  io_RequireKey :: bool

text \<open>What fails in a call: there is no repository, or one of the statements.\<close>

record db_faults =
  df_no_repo :: bool
  df_create :: bool
  df_get :: bool
  df_reclaim :: bool
  df_latest :: bool
  df_mark :: bool

text \<open>
  What the claim of a call comes to: the handler runs without a record, the handler runs as the owner
  of a row until its expiry, a stored response is replayed, or the call fails.
\<close>

datatype claim =
    RunUnrecorded
  | RunOwner int int
  | Replay string
  | Refuse idempotency_error

definition effective_ttl :: "IdempotencyConfig \<Rightarrow> IdempotencyExecuteOptions \<Rightarrow> int" where
  "effective_ttl cfg opts = (if io_TTL opts \<le> 0 then ic_DefaultTTL cfg else io_TTL opts)"

text \<open>The row is the call's own; an id of 0 stands for a record that has none.\<close>

definition owner_claim :: "int \<Rightarrow> int \<Rightarrow> claim" where
  "owner_claim recordID expiresAt = (if recordID = 0 then Refuse ErrIdempotencyStoreUnavail else RunOwner recordID expiresAt)"

text \<open>A row that exists and is not reclaimed for its expiry.\<close>

definition claim_existing ::
  "db_faults \<Rightarrow> int \<Rightarrow> int \<Rightarrow> int \<Rightarrow> IdempotencyRecord \<Rightarrow> idempotency_table \<Rightarrow> idempotency_table \<times> claim" where
  "claim_existing faults now lockedUntil expiresAt existing t =
     (if ir_Status existing = IdempotencyStatusSucceeded then
        (t, case decodeStoredResponse (ir_ResponseBody existing) of
              None \<Rightarrow> Refuse ErrIdempotencyStoreUnavail | Some data \<Rightarrow> Replay data)
      else if ir_Status existing = IdempotencyStatusProcessing then
        (t, Refuse (ErrIdempotencyInProgress (retry_after (ir_LockedUntil existing) now)))
      else if ir_Status existing = IdempotencyStatusFailedRetryable then
        (if \<not> unlocked_at now existing
         then (t, Refuse (ErrIdempotencyRetryBackoff (retry_after (ir_LockedUntil existing) now)))
         else if df_reclaim faults then (t, Refuse ErrIdempotencyStoreUnavail)
         else case TryReclaim (ir_ID existing) IdempotencyStatusFailedRetryable now lockedUntil expiresAt t of
             (t1, taken) \<Rightarrow>
               if taken then (t1, owner_claim (ir_ID existing) expiresAt)
               else (t1, Refuse (ErrIdempotencyInProgress (retry_after (ir_LockedUntil existing) now))))
      else (t, Refuse ErrIdempotencyKeyConflict))"

definition claim_taken ::
  "db_faults \<Rightarrow> string \<Rightarrow> string \<Rightarrow> string \<Rightarrow> int \<Rightarrow> int \<Rightarrow> int \<Rightarrow> idempotency_table \<Rightarrow> idempotency_table \<times> claim" where
  "claim_taken faults scope keyHash fingerprint now lockedUntil expiresAt t =
     (if df_get faults then (t, Refuse ErrIdempotencyStoreUnavail)
      else case GetByScopeAndKeyHash scope keyHash t of
          None \<Rightarrow> (t, Refuse ErrIdempotencyStoreUnavail)
        | Some existing \<Rightarrow>
            if ir_RequestFingerprint existing \<noteq> fingerprint then (t, Refuse ErrIdempotencyKeyConflict)
            else if ir_ExpiresAt existing > now then claim_existing faults now lockedUntil expiresAt existing t
            else if df_reclaim faults then (t, Refuse ErrIdempotencyStoreUnavail)
            else case TryReclaim (ir_ID existing) (ir_Status existing) now lockedUntil expiresAt t of
                (t1, taken) \<Rightarrow>
                  if taken then (t1, owner_claim (ir_ID existing) expiresAt)
                  else if df_latest faults then (t1, Refuse ErrIdempotencyStoreUnavail)
                  else case GetByScopeAndKeyHash scope keyHash t1 of
                      None \<Rightarrow> (t1, Refuse ErrIdempotencyStoreUnavail)
                    | Some latest \<Rightarrow>
                        if ir_RequestFingerprint latest \<noteq> fingerprint then (t1, Refuse ErrIdempotencyKeyConflict)
                        else claim_existing faults now lockedUntil expiresAt latest t1)"

definition new_record :: "string \<Rightarrow> string \<Rightarrow> string \<Rightarrow> int \<Rightarrow> int \<Rightarrow> IdempotencyRecord" where
  "new_record scope keyHash fingerprint lockedUntil expiresAt = \<lparr>ir_ID = 0, ir_Scope = scope,
     ir_IdempotencyKeyHash = keyHash, ir_RequestFingerprint = fingerprint, ir_Status = IdempotencyStatusProcessing,
     ir_ResponseStatus = None, ir_ResponseBody = None, ir_ErrorReason = None, ir_LockedUntil = Some lockedUntil,
     ir_ExpiresAt = expiresAt\<rparr>"

definition claim_key ::
  "(string \<Rightarrow> string) \<Rightarrow> IdempotencyConfig \<Rightarrow> db_faults \<Rightarrow> IdempotencyExecuteOptions \<Rightarrow> int \<Rightarrow> idempotency_table
     \<Rightarrow> idempotency_table \<times> claim" where
  "claim_key H cfg faults opts now t =
     (case NormalizeIdempotencyKey (io_IdempotencyKey opts) of
        Inl e \<Rightarrow> (t, Refuse e)
      | Inr key \<Rightarrow>
          if key = [] then
            (t, if io_RequireKey opts \<and> \<not> ic_ObserveOnly cfg then Refuse ErrIdempotencyKeyRequired else RunUnrecorded)
          else if df_no_repo faults then (t, Refuse ErrIdempotencyStoreUnavail)
          else if io_Scope opts = [] then (t, Refuse ErrIdempotencyScopeRequired)
          else case BuildIdempotencyFingerprint H (io_Method opts) (io_Route opts) (io_ActorScope opts) (io_Payload opts) of
              Inl e \<Rightarrow> (t, Refuse e)
            | Inr fingerprint \<Rightarrow>
                (let expiresAt = now + effective_ttl cfg opts; lockedUntil = now + ic_ProcessingTimeout cfg; keyHash = H key
                 in if df_create faults then (t, Refuse ErrIdempotencyStoreUnavail)
                    else case CreateProcessing (new_record (io_Scope opts) keyHash fingerprint lockedUntil expiresAt) t of
                        (t1, Some recordID) \<Rightarrow>
                          (t1, owner_claim recordID expiresAt)
                      | (t1, None) \<Rightarrow>
                          claim_taken faults (io_Scope opts) keyHash fingerprint now lockedUntil expiresAt t1))"

section \<open>Running and recording\<close>

text \<open>The handler's end: an error with its reason, or the JSON text of its value.\<close>

definition finish_execution ::
  "IdempotencyConfig \<Rightarrow> (string \<Rightarrow> string) \<Rightarrow> db_faults \<Rightarrow> int \<Rightarrow> int \<Rightarrow> int \<Rightarrow> string + string option
     \<Rightarrow> idempotency_table \<Rightarrow> idempotency_table \<times> (idempotency_error + string)" where
  "finish_execution cfg redact faults recordID expiresAt later outcome t =
     (case outcome of
        Inl reason \<Rightarrow>
          (if df_mark faults then t
           else MarkFailedRetryable recordID (if reason = [] then ''EXECUTION_FAILED'' else reason)
                  (later + ic_FailedRetryBackoff cfg) expiresAt t, Inl (ErrExecution reason))
      | Inr raw \<Rightarrow>
          (case marshalStoredResponse cfg redact raw of
             None \<Rightarrow> (t, Inl ErrIdempotencyStoreUnavail)
           | Some body \<Rightarrow>
               if df_mark faults then (t, Inl ErrIdempotencyStoreUnavail)
               else (MarkSucceeded recordID 200 body expiresAt t, Inr (the raw))))"

text \<open>The result of a call: the data, whether it was replayed, and whether the handler ran.\<close>

definition Execute ::
  "(string \<Rightarrow> string) \<Rightarrow> IdempotencyConfig \<Rightarrow> (string \<Rightarrow> string) \<Rightarrow> db_faults \<Rightarrow> IdempotencyExecuteOptions \<Rightarrow> int \<Rightarrow> int
     \<Rightarrow> string + string option \<Rightarrow> idempotency_table \<Rightarrow> idempotency_table \<times> (idempotency_error + string \<times> bool) \<times> bool" where
  "Execute H cfg redact faults opts now later outcome t =
     (case claim_key H cfg faults opts now t of
        (t1, RunUnrecorded) \<Rightarrow>
          (t1, (case outcome of Inl reason \<Rightarrow> Inl (ErrExecution reason)
                | Inr raw \<Rightarrow> Inr (case raw of None \<Rightarrow> [] | Some s \<Rightarrow> s, False)), True)
      | (t1, RunOwner recordID expiresAt) \<Rightarrow>
          (case finish_execution cfg redact faults recordID expiresAt later outcome t1 of
             (t2, r) \<Rightarrow> (t2, map_sum (\<lambda>e. e) (\<lambda>d. (d, False)) r, True))
      | (t1, Replay data) \<Rightarrow> (t1, Inr (data, True), False)
      | (t1, Refuse e) \<Rightarrow> (t1, Inl e, False))"

section \<open>Interleavings\<close>

text \<open>
  The calls of many requests: claims, the ends of executions, and the cleanup. A claim is one step
  here; what a claim broken up by another call can do is shown apart.
\<close>

datatype idempotency_op =
    OpClaim IdempotencyConfig db_faults IdempotencyExecuteOptions int
  | OpFinish IdempotencyConfig db_faults int int int "string + string option"
  | OpDelete int int

definition idempotency_step ::
  "(string \<Rightarrow> string) \<Rightarrow> (string \<Rightarrow> string) \<Rightarrow> idempotency_op \<Rightarrow> idempotency_table \<Rightarrow> idempotency_table" where
  "idempotency_step H redact op t =
     (case op of
        OpClaim cfg faults opts now \<Rightarrow> fst (claim_key H cfg faults opts now t)
      | OpFinish cfg faults recordID expiresAt later outcome \<Rightarrow>
          fst (finish_execution cfg redact faults recordID expiresAt later outcome t)
      | OpDelete now limit \<Rightarrow> fst (DeleteExpired now limit t))"

text \<open>Ids and keys are unique, and the sequence is past every id.\<close>

definition table_inv :: "idempotency_table \<Rightarrow> bool" where
  "table_inv t \<longleftrightarrow> 0 < ix_next t \<and> (\<forall>r\<in>set (ix_rows t). 0 < ir_ID r \<and> ir_ID r < ix_next t)
     \<and> distinct (map ir_ID (ix_rows t)) \<and> distinct (map (\<lambda>r. (ir_Scope r, ir_IdempotencyKeyHash r)) (ix_rows t))"

text \<open>The row of a running or finished execution until its expiry.\<close>

definition owned_row :: "int \<Rightarrow> int \<Rightarrow> string \<Rightarrow> string \<Rightarrow> IdempotencyRecord \<Rightarrow> bool" where
  "owned_row i expiresAt scope keyHash r \<longleftrightarrow> ir_ID r = i \<and> has_key scope keyHash r \<and> ir_ExpiresAt r = expiresAt
     \<and> ir_Status r \<in> {IdempotencyStatusProcessing, IdempotencyStatusSucceeded}"

definition owned :: "int \<Rightarrow> int \<Rightarrow> string \<Rightarrow> string \<Rightarrow> idempotency_table \<Rightarrow> bool" where
  "owned i expiresAt scope keyHash t \<longleftrightarrow> table_inv t \<and> (\<exists>r\<in>set (ix_rows t). owned_row i expiresAt scope keyHash r)"

definition stamped :: "int \<Rightarrow> string \<Rightarrow> idempotency_table \<Rightarrow> bool" where
  "stamped i fingerprint t \<longleftrightarrow> (\<forall>r\<in>set (ix_rows t). ir_ID r = i \<longrightarrow> ir_RequestFingerprint r = fingerprint)"

text \<open>
  Before the expiry: any claim, any cleanup, the ends of other executions, and this one's success.
\<close>

definition before_expiry :: "int \<Rightarrow> int \<Rightarrow> idempotency_op \<Rightarrow> bool" where
  "before_expiry i expiresAt op =
     (case op of
        OpClaim cfg faults opts now \<Rightarrow> now < expiresAt
      | OpFinish cfg faults recordID ex later outcome \<Rightarrow> recordID = i \<longrightarrow> ex = expiresAt \<and> \<not> isl outcome
      | OpDelete now limit \<Rightarrow> now < expiresAt)"

section \<open>Rows\<close>

lemma owner_claim_runs [simp]: "owner_claim j ex = RunOwner i e \<longleftrightarrow> j \<noteq> 0 \<and> i = j \<and> e = ex"
  by (auto simp: owner_claim_def)

lemma update_rows_inv:
  assumes "table_inv t" "\<And>r. ir_ID (f r) = ir_ID r \<and> ir_Scope (f r) = ir_Scope r \<and> ir_IdempotencyKeyHash (f r) = ir_IdempotencyKeyHash r"
  shows "table_inv (fst (update_rows P f t))"
proof -
  have "ir_ID \<circ> (\<lambda>r. if P r then f r else r) = ir_ID"
    "(\<lambda>r. (ir_Scope r, ir_IdempotencyKeyHash r)) \<circ> (\<lambda>r. if P r then f r else r)
      = (\<lambda>r. (ir_Scope r, ir_IdempotencyKeyHash r))"
    using assms(2) by (auto simp: fun_eq_iff)
  moreover have "ir_ID (f r) = ir_ID r" for r using assms(2) by simp
  ultimately show ?thesis using assms(1) by (auto simp: table_inv_def update_rows_def)
qed

lemma row_by_id:
  "table_inv t \<Longrightarrow> r \<in> set (ix_rows t) \<Longrightarrow> r' \<in> set (ix_rows t) \<Longrightarrow> ir_ID r = ir_ID r' \<Longrightarrow> r = r'"
  by (auto simp: table_inv_def distinct_map inj_on_def)

lemma row_by_key:
  assumes "table_inv t" "r \<in> set (ix_rows t)" "has_key scope keyHash r"
  shows "GetByScopeAndKeyHash scope keyHash t = Some r"
proof -
  obtain r' where r': "find (has_key scope keyHash) (ix_rows t) = Some r'"
    using assms(2,3) by (cases "find (has_key scope keyHash) (ix_rows t)") (auto simp: find_None_iff)
  then have "r' \<in> set (ix_rows t)" "has_key scope keyHash r'" by (auto simp: find_Some_iff)
  then have "r' = r" using assms by (auto simp: table_inv_def distinct_map inj_on_def has_key_def)
  with r' show ?thesis by (simp add: GetByScopeAndKeyHash_def)
qed

lemma get_row:
  "GetByScopeAndKeyHash scope keyHash t = Some r \<Longrightarrow> r \<in> set (ix_rows t) \<and> has_key scope keyHash r"
  by (auto simp: GetByScopeAndKeyHash_def find_Some_iff)

lemma owned_the_row:
  assumes "owned i e s k t" "r \<in> set (ix_rows t)" "ir_ID r = i"
  shows "owned_row i e s k r"
proof -
  obtain r0 where r0: "r0 \<in> set (ix_rows t)" "owned_row i e s k r0" "table_inv t" using assms(1) by (auto simp: owned_def)
  then have "ir_ID r0 = ir_ID r" using assms(3) by (simp add: owned_row_def)
  with row_by_id [OF r0(3,1) assms(2)] r0(2) show ?thesis by simp
qed

text \<open>An update that leaves the owned row alone.\<close>

lemma update_rows_owned:
  assumes "owned i e s k t" "\<And>r. ir_ID (f r) = ir_ID r \<and> ir_Scope (f r) = ir_Scope r \<and> ir_IdempotencyKeyHash (f r) = ir_IdempotencyKeyHash r"
    and "\<And>r. P r \<Longrightarrow> owned_row i e s k r \<Longrightarrow> owned_row i e s k (f r)"
  shows "owned i e s k (fst (update_rows P f t))"
proof -
  obtain r where r: "r \<in> set (ix_rows t)" "owned_row i e s k r" using assms(1) by (auto simp: owned_def)
  have "owned_row i e s k (if P r then f r else r)" using r(2) assms(3) by simp
  moreover have "(if P r then f r else r) \<in> set (ix_rows (fst (update_rows P f t)))"
    using r(1) by (auto simp: update_rows_def)
  ultimately show ?thesis using update_rows_inv [of t f P] assms(1,2) by (auto simp: owned_def)
qed

lemma reclaim_owned:
  assumes "owned i e s k t" "j \<noteq> i"
  shows "owned i e s k (fst (TryReclaim j st now lock ex t))"
  unfolding TryReclaim_def by (rule update_rows_owned [OF assms(1)]) (use assms(2) in \<open>auto simp: owned_row_def\<close>)

lemma create_owned:
  assumes "owned i e s k t"
  shows "owned i e s k (fst (CreateProcessing r t))"
proof (cases "list_ex (has_key (ir_Scope r) (ir_IdempotencyKeyHash r)) (ix_rows t)")
  case False
  then have fresh: "(ir_Scope r, ir_IdempotencyKeyHash r) \<notin> (\<lambda>r. (ir_Scope r, ir_IdempotencyKeyHash r)) ` set (ix_rows t)"
    by (auto simp: list_ex_iff has_key_def)
  have t: "table_inv t" using assms by (simp add: owned_def)
  then have "ix_next t \<notin> ir_ID ` set (ix_rows t)" by (auto simp: table_inv_def)
  with t fresh have "table_inv (fst (CreateProcessing r t))"
    using False by (auto simp: table_inv_def CreateProcessing_def)
  with assms False show ?thesis by (auto simp: owned_def CreateProcessing_def)
qed (simp add: CreateProcessing_def assms)

lemma claim_existing_owned:
  assumes "owned i e s k t" "existing \<in> set (ix_rows t)"
  shows "owned i e s k (fst (claim_existing faults now lock ex existing t))"
proof (cases "ir_ID existing = i")
  case True
  then have "ir_Status existing \<in> {IdempotencyStatusProcessing, IdempotencyStatusSucceeded}"
    using owned_the_row [OF assms True] by (simp add: owned_row_def)
  with assms(1) show ?thesis by (auto simp: claim_existing_def)
next
  case False
  show ?thesis
  proof (cases "TryReclaim (ir_ID existing) IdempotencyStatusFailedRetryable now lock ex t")
    case (Pair t1 taken)
    with reclaim_owned [OF assms(1) False] have "owned i e s k t1" by (metis fst_conv)
    with assms(1) Pair show ?thesis by (simp add: claim_existing_def)
  qed
qed

lemma claim_taken_owned:
  assumes own: "owned i e s k t" and now: "now < e"
  shows "owned i e s k (fst (claim_taken faults scope keyHash fp now lock ex t))"
proof (cases "GetByScopeAndKeyHash scope keyHash t")
  case None
  then show ?thesis using own by (simp add: claim_taken_def)
next
  case (Some existing)
  then have row: "existing \<in> set (ix_rows t)" by (simp add: get_row)
  note ex = claim_existing_owned [OF own row]
  show ?thesis
  proof (cases "ir_ExpiresAt existing > now")
    case True
    with Some own ex show ?thesis by (simp add: claim_taken_def)
  next
    case False
    have "ir_ID existing \<noteq> i"
    proof
      assume "ir_ID existing = i"
      then have "ir_ExpiresAt existing = e" using owned_the_row [OF own row] by (simp add: owned_row_def)
      with False now show False by simp
    qed
    note rec = reclaim_owned [OF own this, of "ir_Status existing" now lock ex]
    show ?thesis
    proof (cases "TryReclaim (ir_ID existing) (ir_Status existing) now lock ex t")
      case (Pair t1 taken)
      with rec have t1: "owned i e s k t1" by simp
      have "owned i e s k (fst (claim_existing faults now lock ex latest t1))"
        if "GetByScopeAndKeyHash scope keyHash t1 = Some latest" for latest
        using claim_existing_owned [OF t1] get_row [OF that] by blast
      with Some False Pair own t1 show ?thesis by (simp add: claim_taken_def split: option.split)
    qed
  qed
qed

lemma claim_key_owned:
  assumes own: "owned i e s k t" and now: "now < e"
  shows "owned i e s k (fst (claim_key H cfg faults opts now t))"
proof (cases "NormalizeIdempotencyKey (io_IdempotencyKey opts)")
  case (Inl a)
  then show ?thesis using own by (simp add: claim_key_def)
next
  case (Inr key)
  have "owned i e s k (fst (case CreateProcessing r t of
      (t1, Some j) \<Rightarrow> (t1, owner_claim j ex)
    | (t1, None) \<Rightarrow> claim_taken faults scope keyHash fp now lock ex t1))" for r ex scope keyHash fp lock
  proof (cases "CreateProcessing r t")
    case (Pair t1 c)
    with create_owned [OF own, of r] have "owned i e s k t1" by simp
    with Pair claim_taken_owned [OF _ now] show ?thesis by (simp split: option.split)
  qed
  with Inr own show ?thesis by (simp add: claim_key_def Let_def split: sum.split)
qed

lemma finish_owned:
  assumes own: "owned i e s k t" and own_end: "j = i \<longrightarrow> ex = e \<and> \<not> isl outcome"
  shows "owned i e s k (fst (finish_execution cfg redact faults j ex later outcome t))"
proof -
  have "owned i e s k (MarkFailedRetryable j reason lock ex t)" if "j \<noteq> i" for reason lock
    unfolding MarkFailedRetryable_def by (rule update_rows_owned [OF own]) (use that in \<open>auto simp: owned_row_def\<close>)
  moreover have "owned i e s k (MarkSucceeded j status body ex t)" for status body
    unfolding MarkSucceeded_def
    by (rule update_rows_owned [OF own]) (use own_end in \<open>auto simp: owned_row_def has_key_def\<close>)
  ultimately show ?thesis
    using own own_end by (auto simp: finish_execution_def split: sum.split option.split)
qed

lemma delete_owned:
  assumes own: "owned i e s k t" and now: "now < e"
  shows "owned i e s k (fst (DeleteExpired now limit t))"
proof -
  obtain r where r: "r \<in> set (ix_rows t)" "owned_row i e s k r" and t: "table_inv t" using own by (auto simp: owned_def)
  let ?n = "nat (if limit \<le> 0 then 500 else limit)"
  let ?v = "map ir_ID (take ?n (sort_key ir_ExpiresAt (filter (\<lambda>r. ir_ExpiresAt r \<le> now) (ix_rows t))))"
  have "ir_ID r \<notin> set ?v"
  proof
    assume "ir_ID r \<in> set ?v"
    then obtain r' where r': "r' \<in> set (take ?n (sort_key ir_ExpiresAt (filter (\<lambda>r. ir_ExpiresAt r \<le> now) (ix_rows t))))"
      "ir_ID r = ir_ID r'" by auto
    then have "r' \<in> set (ix_rows t)" "ir_ExpiresAt r' \<le> now" by (auto dest!: in_set_takeD)
    with row_by_id [OF t r(1)] r' have "r' = r" by simp
    with \<open>ir_ExpiresAt r' \<le> now\<close> r(2) now show False by (simp add: owned_row_def)
  qed
  moreover have "table_inv (t\<lparr>ix_rows := filter P (ix_rows t)\<rparr>)" for P
    using t by (auto simp: table_inv_def distinct_map_filter)
  ultimately show ?thesis using r by (auto simp: owned_def DeleteExpired_def Let_def)
qed

lemma steps_owned:
  "owned i e s k t \<Longrightarrow> list_all (before_expiry i e) ops \<Longrightarrow> owned i e s k (fold (idempotency_step H redact) ops t)"
proof (induction ops arbitrary: t)
  case (Cons op ops)
  have "owned i e s k (idempotency_step H redact op t)"
    using Cons.prems claim_key_owned finish_owned delete_owned
    by (cases op) (auto simp: before_expiry_def idempotency_step_def)
  with Cons show ?case by simp
qed simp

section \<open>Claims\<close>

text \<open>A key in the owner's hands is not claimed again.\<close>

lemma owned_not_claimed:
  assumes own: "owned i e (io_Scope opts) (H key) t" and now: "now < e"
    and key: "NormalizeIdempotencyKey (io_IdempotencyKey opts) = Inr key" "key \<noteq> []"
  shows "(\<exists>x. claim_key H cfg faults opts now t = (t, Refuse x)) \<or> (\<exists>d. claim_key H cfg faults opts now t = (t, Replay d))"
proof -
  obtain r where r: "r \<in> set (ix_rows t)" "owned_row i e (io_Scope opts) (H key) r" and t: "table_inv t"
    using own by (auto simp: owned_def)
  have hk: "has_key (io_Scope opts) (H key) r" and st: "ir_ExpiresAt r = e"
    "ir_Status r = IdempotencyStatusProcessing \<or> ir_Status r = IdempotencyStatusSucceeded"
    using r(2) by (auto simp: owned_row_def)
  have conflict: "CreateProcessing (new_record (io_Scope opts) (H key) fp lock ex) t = (t, None)" for fp lock ex
    using r(1) hk by (auto simp: CreateProcessing_def new_record_def list_ex_iff)
  have get: "GetByScopeAndKeyHash (io_Scope opts) (H key) t = Some r" by (rule row_by_key [OF t r(1) hk])
  have taken: "(\<exists>x. claim_taken faults (io_Scope opts) (H key) fp now lock ex t = (t, Refuse x))
      \<or> (\<exists>d. claim_taken faults (io_Scope opts) (H key) fp now lock ex t = (t, Replay d))" for fp lock ex
  proof (cases "df_get faults \<or> ir_RequestFingerprint r \<noteq> fp")
    case True
    then show ?thesis by (auto simp: claim_taken_def get)
  next
    case False
    then have eq: "claim_taken faults (io_Scope opts) (H key) fp now lock ex t = claim_existing faults now lock ex r t"
      using st(1) now by (simp add: claim_taken_def get)
    show ?thesis unfolding eq using st(2)
      by (cases "decodeStoredResponse (ir_ResponseBody r)") (auto simp: claim_existing_def)
  qed
  show ?thesis
  proof (cases "BuildIdempotencyFingerprint H (io_Method opts) (io_Route opts) (io_ActorScope opts) (io_Payload opts)")
    case (Inl x)
    then show ?thesis using key by (simp add: claim_key_def)
  next
    case (Inr fp)
    show ?thesis
      using taken [of fp "now + ic_ProcessingTimeout cfg" "now + effective_ttl cfg opts"] key Inr conflict
      by (auto simp: claim_key_def Let_def)
  qed
qed

text \<open>A claim that lets the handler run owns the key until the expiry it returns.\<close>

lemma create_claims:
  assumes "table_inv t" "CreateProcessing (new_record scope keyHash fp lock ex) t = (t1, Some j)"
  shows "owned j ex scope keyHash t1 \<and> stamped j fp t1"
proof -
  let ?r = "new_record scope keyHash fp lock ex"
  have free: "\<not> list_ex (has_key scope keyHash) (ix_rows t)" and j: "j = ix_next t"
    and t1: "t1 = t\<lparr>ix_rows := ix_rows t @ [?r\<lparr>ir_ID := ix_next t\<rparr>], ix_next := ix_next t + 1\<rparr>"
    using assms(2) by (auto simp: CreateProcessing_def new_record_def split: if_splits)
  have "(scope, keyHash) \<notin> (\<lambda>r. (ir_Scope r, ir_IdempotencyKeyHash r)) ` set (ix_rows t)"
    using free by (auto simp: list_ex_iff has_key_def)
  moreover have "ix_next t \<notin> ir_ID ` set (ix_rows t)" using assms(1) by (auto simp: table_inv_def)
  ultimately have "table_inv t1" using assms(1) unfolding t1 by (auto simp: table_inv_def new_record_def)
  moreover have "owned_row j ex scope keyHash (?r\<lparr>ir_ID := ix_next t\<rparr>)"
    using j by (simp add: owned_row_def new_record_def has_key_def)
  moreover have "stamped j fp t1"
    unfolding stamped_def
  proof (intro ballI impI)
    fix r assume "r \<in> set (ix_rows t1)" "ir_ID r = j"
    moreover have "r \<notin> set (ix_rows t)"
      using \<open>ix_next t \<notin> ir_ID ` set (ix_rows t)\<close> \<open>ir_ID r = j\<close> j imageI [of r "set (ix_rows t)" ir_ID] by auto
    ultimately have "r = ?r\<lparr>ir_ID := ix_next t\<rparr>" by (simp add: t1)
    then show "ir_RequestFingerprint r = fp" by (simp add: new_record_def)
  qed
  ultimately show ?thesis by (auto simp: owned_def t1)
qed

lemma reclaim_inv: "table_inv t \<Longrightarrow> table_inv (fst (TryReclaim j st now lock ex t))"
  unfolding TryReclaim_def by (rule update_rows_inv) simp_all

lemma reclaim_claims:
  assumes "table_inv t" "r \<in> set (ix_rows t)" "has_key scope keyHash r"
    and "TryReclaim (ir_ID r) st now lock ex t = (t1, True)" "ir_Status r = st" "ir_RequestFingerprint r = fp"
  shows "owned (ir_ID r) ex scope keyHash t1 \<and> stamped (ir_ID r) fp t1"
proof -
  let ?P = "\<lambda>x. ir_ID x = ir_ID r \<and> ir_Status x = st \<and> unlocked_at now x"
  let ?f = "\<lambda>x. x\<lparr>ir_Status := IdempotencyStatusProcessing, ir_LockedUntil := Some lock, ir_ErrorReason := None, ir_ExpiresAt := ex\<rparr>"
  have t1: "t1 = fst (update_rows ?P ?f t)" and "list_ex ?P (ix_rows t)"
    using assms(4) by (auto simp: TryReclaim_def update_rows_def)
  then obtain x where x: "x \<in> set (ix_rows t)" "?P x" by (auto simp: list_ex_iff)
  then have "x = r" using row_by_id [OF assms(1) x(1) assms(2)] by simp
  with x have "?f r \<in> set (ix_rows t1)" unfolding t1 by (force simp: update_rows_def)
  moreover have "owned_row (ir_ID r) ex scope keyHash (?f r)" using assms(3) by (simp add: owned_row_def has_key_def)
  moreover have inv: "table_inv t1" unfolding t1 by (rule update_rows_inv [OF assms(1)]) simp
  moreover have "stamped (ir_ID r) fp t1"
    unfolding stamped_def
  proof (intro ballI impI)
    fix y assume "y \<in> set (ix_rows t1)" "ir_ID y = ir_ID r"
    then have "y = ?f r" using row_by_id [OF inv _ \<open>?f r \<in> set (ix_rows t1)\<close>] by simp
    then show "ir_RequestFingerprint y = fp" using assms(6) by simp
  qed
  ultimately show ?thesis by (auto simp: owned_def)
qed

lemma claim_existing_claims:
  assumes "table_inv t" "r \<in> set (ix_rows t)" "has_key scope keyHash r"
    and "claim_existing faults now lock ex r t = (t1, RunOwner i e)" "ir_RequestFingerprint r = fp"
  shows "e = ex \<and> owned i e scope keyHash t1 \<and> stamped i fp t1"
  using assms(4,5) reclaim_claims [OF assms(1-3)]
  by (auto simp: claim_existing_def split: if_splits option.splits prod.splits)

lemma claim_taken_claims:
  assumes "table_inv t" "claim_taken faults scope keyHash fp now lock ex t = (t1, RunOwner i e)"
  shows "e = ex \<and> owned i e scope keyHash t1 \<and> stamped i fp t1"
proof -
  obtain r where r: "GetByScopeAndKeyHash scope keyHash t = Some r" and fp: "ir_RequestFingerprint r = fp"
    using assms(2) by (auto simp: claim_taken_def split: if_splits option.splits)
  note row = get_row [OF r]
  show ?thesis
  proof (cases "ir_ExpiresAt r > now")
    case True
    with assms(2) r have "claim_existing faults now lock ex r t = (t1, RunOwner i e)"
      by (auto simp: claim_taken_def split: if_splits)
    with claim_existing_claims assms(1) row fp show ?thesis by blast
  next
    case False
    obtain t2 taken where rec: "TryReclaim (ir_ID r) (ir_Status r) now lock ex t = (t2, taken)" by fastforce
    show ?thesis
    proof (cases taken)
      case True
      with assms(2) r rec False have "t1 = t2" "i = ir_ID r" "e = ex"
        by (auto simp: claim_taken_def split: if_splits)
      moreover from rec True have "TryReclaim (ir_ID r) (ir_Status r) now lock ex t = (t2, True)" by simp
      ultimately show ?thesis using reclaim_claims [OF assms(1) conjunct1 [OF row] conjunct2 [OF row]] fp by simp
    next
      case lost: False
      have inv2: "table_inv t2" using reclaim_inv [OF assms(1)] rec by (metis fst_conv)
      obtain r2 where "GetByScopeAndKeyHash scope keyHash t2 = Some r2" "ir_RequestFingerprint r2 = fp"
        "claim_existing faults now lock ex r2 t2 = (t1, RunOwner i e)"
        using assms(2) r rec False lost by (auto simp: claim_taken_def split: if_splits option.splits)
      with claim_existing_claims [OF inv2] get_row show ?thesis by blast
    qed
  qed
qed

lemma claim_key_claims:
  assumes inv: "table_inv t" and run: "claim_key H cfg faults opts now t = (t1, RunOwner i e)"
  obtains key fp where "NormalizeIdempotencyKey (io_IdempotencyKey opts) = Inr key" "key \<noteq> []"
    "BuildIdempotencyFingerprint H (io_Method opts) (io_Route opts) (io_ActorScope opts) (io_Payload opts) = Inr fp"
    "e = now + effective_ttl cfg opts" "owned i e (io_Scope opts) (H key) t1" "stamped i fp t1"
proof -
  obtain key where key: "NormalizeIdempotencyKey (io_IdempotencyKey opts) = Inr key" "key \<noteq> []"
    using run by (auto simp: claim_key_def split: sum.splits if_splits)
  obtain fp where fp: "BuildIdempotencyFingerprint H (io_Method opts) (io_Route opts) (io_ActorScope opts) (io_Payload opts) = Inr fp"
    using run key by (auto simp: claim_key_def split: sum.splits if_splits)
  let ?ex = "now + effective_ttl cfg opts" and ?lock = "now + ic_ProcessingTimeout cfg"
  obtain t2 c where create: "CreateProcessing (new_record (io_Scope opts) (H key) fp ?lock ?ex) t = (t2, c)" by fastforce
  show thesis
  proof (cases c)
    case None
    then have "t2 = t" using create by (auto simp: CreateProcessing_def split: if_splits)
    with None create run key fp have "claim_taken faults (io_Scope opts) (H key) fp now ?lock ?ex t = (t1, RunOwner i e)"
      by (auto simp: claim_key_def Let_def split: if_splits)
    with claim_taken_claims [OF inv] key fp that show thesis by blast
  next
    case (Some j)
    with create run key fp have "t1 = t2" "i = j" "e = ?ex" by (auto simp: claim_key_def Let_def split: if_splits)
    with create_claims [OF inv] create Some key fp that show thesis by blast
  qed
qed

section \<open>Replays\<close>

lemma trim_left_by_keeps:
  assumes "c \<in> set s" "\<forall>w\<in>set ws. c \<notin> set w"
  shows "c \<in> set (trim_left_by ws s)"
  using assms
proof (induction ws s rule: trim_left_by.induct)
  case (1 ws s)
  show ?case
  proof (cases "find (\<lambda>w. w \<noteq> [] \<and> prefix w s) ws")
    case None
    then show ?thesis using 1(2) by (simp add: trim_left_by.simps)
  next
    case (Some w)
    then have w: "w \<in> set ws" "prefix w s" by (auto simp: find_Some_iff)
    then obtain u where "s = w @ u" by (auto simp: prefix_def)
    with w 1(2,3) have "c \<in> set (drop (length w) s)" by auto
    with 1(1) [OF Some] 1(3) Some show ?thesis by (simp add: trim_left_by.simps)
  qed
qed

lemma TrimSpace_nonblank:
  assumes "CHR '')'' \<in> set s"
  shows "TrimSpace s \<noteq> []"
proof -
  have "\<forall>w\<in>set go_spaces. CHR '')'' \<notin> set w" by (simp add: go_spaces_def)
  then have "CHR '')'' \<in> set (trim_left_by go_spaces s)" "\<forall>w\<in>set (map rev go_spaces). CHR '')'' \<notin> set w"
    using trim_left_by_keeps [OF assms] by auto
  then have "CHR '')'' \<in> set (trim_left_by (map rev go_spaces) (rev (trim_left_by go_spaces s)))"
    using trim_left_by_keeps [of "CHR '')''" "rev (trim_left_by go_spaces s)" "map rev go_spaces"] by simp
  then show ?thesis by (auto simp: TrimSpace_def)
qed

text \<open>No JSON text ends with a closing parenthesis.\<close>

lemma paren_class [simp]: "\<not> isSpace (CHR '')'')" "\<not> isDigit (CHR '')'')" "\<not> isHex (CHR '')'')"
  by (simp_all add: isSpace_def isDigit_def isHex_def)

lemma scan_paren:
  assumes "\<And>l. fst st = JLit l \<Longrightarrow> CHR '')'' \<notin> set l"
  shows "fst (scan_step st (CHR '')'')) \<in> {JError, JInString}"
proof -
  have [simp]: "fst (step_end_value ps (CHR '')'')) = JError" for ps
    by (cases ps) (auto simp: step_end_value_def split: jparse.split)
  show ?thesis using assms
    by (cases st; cases "fst st")
      (auto simp: step_begin_value_def step_begin_string_def step_0_def step_e_sign_def split: list.split)
qed

lemma scan_literal:
  assumes "\<And>l. fst st = JLit l \<Longrightarrow> x \<notin> set l" "x \<notin> set ''ruealseull''"
  shows "fst (scan_step st c) = JLit l \<Longrightarrow> x \<notin> set l"
proof -
  have [simp]: "fst (step_end_value ps d) \<noteq> JLit l" for ps l d
    by (cases ps) (auto simp: step_end_value_def pop_parse_def split: jparse.split)
  have [simp]: "fst (step_begin_value ps c) = JLit l \<Longrightarrow> x \<notin> set l" for ps l
    using assms(2) by (auto simp: step_begin_value_def push_parse_def split: if_splits)
  show "fst (scan_step st c) = JLit l \<Longrightarrow> x \<notin> set l" using assms(1)
    by (cases st; cases "fst st")
      (auto simp: step_begin_string_def step_0_def step_e_sign_def split: list.splits if_splits)
qed

lemma scan_literals:
  "x \<notin> set ''ruealseull'' \<Longrightarrow> fst (foldl scan_step (JBeginValue, []) s) = JLit l \<Longrightarrow> x \<notin> set l"
proof (induction s arbitrary: l rule: rev_induct)
  case (snoc c s)
  then show ?case using scan_literal [of "foldl scan_step (JBeginValue, []) s" x c l] by simp
qed simp

lemma paren_not_valid: "\<not> json_Valid (u @ '')'')"
proof -
  let ?st = "foldl scan_step (JBeginValue, []) u"
  obtain js ps where p: "scan_step ?st (CHR '')'') = (js, ps)" by fastforce
  have "fst (scan_step ?st (CHR '')'')) \<in> {JError, JInString}"
    by (rule scan_paren, rule scan_literals [of "CHR '')''" u]) simp_all
  with p have "js = JError \<or> js = JInString" by simp
  with p show ?thesis by (auto simp: json_Valid_def)
qed

lemma truncated_not_valid: "\<not> json_Valid (s @ ''...(truncated)'')"
  using paren_not_valid [of "s @ ''...(truncated''"] by simp

lemma decode_truncated: "decodeStoredResponse (Some (s @ ''...(truncated)'')) = None"
  using truncated_not_valid TrimSpace_nonblank [of "s @ ''...(truncated)''"]
  by (simp add: decodeStoredResponse_def)

text \<open>After a recorded success, the same call within the expiry is answered from the row.\<close>

lemma replay_after_success:
  assumes inv: "table_inv t" and run: "claim_key H cfg faults opts now t = (t1, RunOwner i e)"
    and again: "now' < e" "\<not> df_no_repo faults'" "\<not> df_create faults'" "\<not> df_get faults'"
  shows "claim_key H cfg faults' opts now' (MarkSucceeded i 200 body e t1) = (MarkSucceeded i 200 body e t1,
    case decodeStoredResponse (Some body) of None \<Rightarrow> Refuse ErrIdempotencyStoreUnavail | Some d \<Rightarrow> Replay d)"
proof -
  obtain key fp where key: "NormalizeIdempotencyKey (io_IdempotencyKey opts) = Inr key" "key \<noteq> []"
    and fp: "BuildIdempotencyFingerprint H (io_Method opts) (io_Route opts) (io_ActorScope opts) (io_Payload opts) = Inr fp"
    and own: "owned i e (io_Scope opts) (H key) t1" "stamped i fp t1" by (rule claim_key_claims [OF inv run])
  have scope: "io_Scope opts \<noteq> []" using run key by (auto simp: claim_key_def split: if_splits)
  let ?f = "\<lambda>r. r\<lparr>ir_Status := IdempotencyStatusSucceeded, ir_ResponseStatus := Some 200, ir_ResponseBody := Some body,
      ir_ErrorReason := None, ir_LockedUntil := None, ir_ExpiresAt := e\<rparr>"
  let ?t = "MarkSucceeded i 200 body e t1"
  obtain r where r: "r \<in> set (ix_rows t1)" "owned_row i e (io_Scope opts) (H key) r" and t1: "table_inv t1"
    using own by (auto simp: owned_def)
  have row: "?f r \<in> set (ix_rows ?t)" using r by (force simp: MarkSucceeded_def update_rows_def owned_row_def)
  have inv': "table_inv ?t" unfolding MarkSucceeded_def by (rule update_rows_inv [OF t1]) simp
  have hk: "has_key (io_Scope opts) (H key) (?f r)" using r(2) by (simp add: owned_row_def has_key_def)
  have get: "GetByScopeAndKeyHash (io_Scope opts) (H key) ?t = Some (?f r)" by (rule row_by_key [OF inv' row hk])
  have same: "ir_RequestFingerprint r = fp" using own(2) r by (auto simp: stamped_def owned_row_def)
  have conflict: "CreateProcessing (new_record (io_Scope opts) (H key) fp lock ex) ?t = (?t, None)" for lock ex
    using row hk by (auto simp: CreateProcessing_def new_record_def list_ex_iff)
  have "claim_taken faults' (io_Scope opts) (H key) fp now' lock ex ?t = (?t,
      case decodeStoredResponse (Some body) of None \<Rightarrow> Refuse ErrIdempotencyStoreUnavail | Some d \<Rightarrow> Replay d)" for lock ex
    using same again by (simp add: claim_taken_def get claim_existing_def)
  then show ?thesis using key fp scope again conflict by (simp add: claim_key_def Let_def)
qed

end
