(* ===== verification/Gateway_Properties.thy ===== *)
theory Gateway_Properties
  imports Failover Stream_Circuit Idempotency
begin

text \<open>
  The properties of the request path around the upstream call: the failover loop, the authorization
  handle it consults, the proxy circuit and idempotent execution.
\<close>

section \<open>Examples\<close>

definition demo_error :: UpstreamFailoverError where
  "demo_error = \<lparr>ue_StatusCode = 503, ue_ResponseBody = [], ue_ResponseHeaders = [], ue_ForceCacheBilling = False,
     ue_RetryableOnSameAccount = False, ue_SafeToFailoverAfterWrite = False, ue_Stage = [], ue_Scope = [], ue_Reason = [],
     ue_NextAccountAction = NextAccountLegacyRetry, ue_ClientStatusCode = 0, ue_ClientMessage = []\<rparr>"

definition demo_ctx :: request_ctx where
  "demo_ctx = \<lparr>rc_Err = False, rc_Done = False, rc_MayRetry = True\<rparr>"

definition demo_turn :: attempt where
  "demo_turn = Forwarded demo_ctx 7 ''openai'' 3 (FailoverFailed False (Some demo_error))"

definition demo_handle :: AuthorizationHandle where
  "demo_handle = (the (newAuthorizationHandle (Some ''00'') 0 ''enforce''))\<lparr>ah_beforeWrite := True\<rparr>"

definition demo_settings :: openAIProxyStreamCircuitSettings where
  "demo_settings = \<lparr>ps_failureThreshold = 2, ps_failureWindow = 60, ps_quarantineTTL = 600, ps_maxEntries = 1\<rparr>"

definition demo_config :: IdempotencyConfig where
  "demo_config = \<lparr>ic_DefaultTTL = 100, ic_ProcessingTimeout = 30, ic_FailedRetryBackoff = 5,
     ic_MaxStoredResponseLen = 4, ic_ObserveOnly = False\<rparr>"

definition demo_opts :: IdempotencyExecuteOptions where
  "demo_opts = \<lparr>io_Scope = ''s'', io_ActorScope = ''a'', io_Method = ''POST'', io_Route = ''/r'', io_IdempotencyKey = ''k'',
     io_Payload = Some ''1'', io_TTL = 0, io_RequireKey = True\<rparr>"

definition no_faults :: db_faults where
  "no_faults = \<lparr>df_no_repo = False, df_create = False, df_get = False, df_reclaim = False, df_latest = False, df_mark = False\<rparr>"

definition empty_table :: idempotency_table where
  "empty_table = \<lparr>ix_rows = [], ix_next = 1\<rparr>"

section \<open>Properties\<close>

text \<open>
  C25 (failover terminates). The failover loop ends: when the accounts come from a finite set and no retry limit exceeds a bound,
  every run of turns longer than accounts times bound plus twice the allowed switches returns, turns
  whose billing snapshot could not be frozen apart, which the code repeats without excluding the account.
\<close>

theorem failover_terminates:
  assumes "finite accounts" "list_all (within accounts limit) turns"
    and "card accounts * nat limit + 2 * nat maxSwitches < length (filter (\<lambda>a. a \<noteq> FreezeFailed) turns)"
  shows "snd (failover_loop turns (NewFailoverState maxSwitches bound))"
proof -
  have "loop_budget accounts limit (NewFailoverState maxSwitches bound) = card accounts * nat limit + 2 * nat maxSwitches"
    by (simp add: loop_budget_def NewFailoverState_def)
  with loop_returns [OF assms(1,2)] assms(3) show ?thesis by simp
qed

theorem failover_terminates_witness:
  "snd (failover_loop (replicate 6 demo_turn) (NewFailoverState 1 False))"
  by (rule failover_terminates [where accounts = "{7}" and limit = 3])
    (simp_all add: demo_turn_def within_def numeral_eq_Suc)

text \<open>
  C24 (failover never replays unresolved cost). When the failover goes on after an upstream error, the request is alive, the error allows
  another account, and the wallet's active attempt is one whose repetition cannot charge twice: it
  wrote nothing, or its last write was rejected, never left the process or was acknowledged as free.
  The failover then used one same-account retry within the limit, or one switch within the maximum
  and excluded the account.
\<close>

theorem failover_never_replays_unresolved_cost:
  assumes "HandleFailoverError ctx k platform retryLimit failoverErr s = (s', FailoverContinue, u)"
    and "heap_inv heap" "p < length heap" "WalletAttemptMayRetry checked heap (Some p) = Some (rc_MayRetry ctx)"
  shows "\<exists>q e. activeAttempt heap (Some p) = Some (Some q) \<and> failoverErr = Some e \<and> \<not> rc_Err ctx
    \<and> ue_NextAccountAction e \<noteq> NextAccountStop
    \<and> (ah_beforeWrite (heap ! q) \<longrightarrow> ah_writes (heap ! q) = [] \<or> known_zero (heap ! q))
    \<and> (fs_SameAccountRetryCount s' k = fs_SameAccountRetryCount s k + 1 \<and> fs_SameAccountRetryCount s' k \<le> retryLimit
         \<and> fs_SwitchCount s' = fs_SwitchCount s
       \<or> fs_SwitchCount s' = fs_SwitchCount s + 1 \<and> fs_SwitchCount s' \<le> fs_MaxSwitches s'
         \<and> k \<in> fs_FailedAccountIDs s')"
  using assms(1)
proof (cases rule: continue_cases)
  case (1 e)
  obtain q where q: "follow_renewed heap p = Some q" using follow_ends [OF assms(2,3)] by blast
  then have "activeAttempt heap (Some p) = Some (Some q)" by (simp add: activeAttempt_def)
  moreover from this assms(4) 1(3) have "may_retry_on checked (heap ! q)" by (simp add: WalletAttemptMayRetry_def)
  then have "ah_beforeWrite (heap ! q) \<longrightarrow> ah_writes (heap ! q) = [] \<or> known_zero (heap ! q)"
    by (auto simp: may_retry_on_def split: if_splits)
  moreover have "fs_SameAccountRetryCount s' k = fs_SameAccountRetryCount s k + 1 \<and> fs_SameAccountRetryCount s' k \<le> retryLimit
      \<and> fs_SwitchCount s' = fs_SwitchCount s
    \<or> fs_SwitchCount s' = fs_SwitchCount s + 1 \<and> fs_SwitchCount s' \<le> fs_MaxSwitches s' \<and> k \<in> fs_FailedAccountIDs s'"
    using 1(7) 1(5) by (elim disjE) simp_all
  ultimately show ?thesis using 1(1,2,4) by blast
qed

theorem failover_never_replays_unresolved_cost_witness:
  "\<exists>q. activeAttempt [demo_handle] (Some 0) = Some (Some q) \<and> ah_writes ([demo_handle] ! q) = []"
proof -
  let ?h = "HandleFailoverError demo_ctx 7 ''openai'' 3 (Some demo_error) (NewFailoverState 1 False)"
  have "snd ?h = (FailoverContinue, False)" by code_simp
  then have h: "?h = (fst ?h, FailoverContinue, False)" by (metis prod.collapse)
  have inv: "heap_inv [demo_handle]" by (simp add: heap_inv_def demo_handle_def newAuthorizationHandle_def newAuthorizationID_def)
  have active: "follow_renewed [demo_handle] 0 = Some 0"
    by (subst follow_renewed.simps) (simp add: demo_handle_def newAuthorizationHandle_def newAuthorizationID_def)
  then have may: "WalletAttemptMayRetry True [demo_handle] (Some 0) = Some (rc_MayRetry demo_ctx)"
    by (simp add: WalletAttemptMayRetry_def activeAttempt_def may_retry_on_def demo_ctx_def demo_handle_def
        newAuthorizationHandle_def newAuthorizationID_def)
  from failover_never_replays_unresolved_cost [OF h inv _ may] obtain q where
    q: "activeAttempt [demo_handle] (Some 0) = Some (Some q)" by auto
  with active have "q = 0" by (simp add: activeAttempt_def)
  with q show ?thesis by (auto simp: demo_handle_def newAuthorizationHandle_def newAuthorizationID_def)
qed

text \<open>
  C35 (write log is sound). Whatever happens to a handle while its attempt runs, its write log only grows, no two writes share a
  token, and under the wallet an outcome once recorded is final.
\<close>

theorem write_log_is_sound:
  assumes new: "newAuthorizationHandle entropy now mode = Some h0"
    and run: "handle_step\<^sup>*\<^sup>* (h0\<lparr>ah_beforeWrite := wallet, ah_onOutcome := hold\<rparr>) h" "handle_step\<^sup>*\<^sup>* h h'"
    and count: "length (ah_writes h') < 2 ^ 64"
  shows "distinct (map aw_Token (ah_writes h')) \<and> length (ah_writes h) \<le> length (ah_writes h')
    \<and> (wallet \<longrightarrow> (\<forall>i < length (ah_writes h). aw_Outcome (ah_writes h ! i) \<noteq> AuthorizationOutcomeUnknown \<longrightarrow>
         ah_writes h' ! i = ah_writes h ! i))"
proof -
  have "log_inv (h0\<lparr>ah_beforeWrite := wallet, ah_onOutcome := hold\<rparr>)"
    using new by (auto simp: newAuthorizationHandle_def newAuthorizationID_def log_inv_def)
  note l1 = steps_keep_log [OF run(1) this]
  then have inv: "log_inv h" and w: "ah_beforeWrite h = wallet" by simp_all
  note l2 = steps_keep_log [OF run(2) inv]
  then show ?thesis using log_tokens_distinct count steps_keep_outcome [OF run(2) inv] w by simp
qed

theorem write_log_is_sound_witness:
  "distinct (map aw_Token (ah_writes (fst (MintWriteToken 2 (fst (MintWriteToken 1 demo_handle))))))"
proof -
  let ?h0 = "the (newAuthorizationHandle (Some ''00'') 0 ''enforce'')"
  let ?h1 = "fst (MintWriteToken 1 demo_handle)" and ?h2 = "fst (MintWriteToken 2 (fst (MintWriteToken 1 demo_handle)))"
  have new: "newAuthorizationHandle (Some ''00'') 0 ''enforce'' = Some ?h0"
    by (simp add: newAuthorizationHandle_def newAuthorizationID_def)
  have "?h0\<lparr>ah_beforeWrite := True, ah_onOutcome := False\<rparr> = demo_handle"
    by (simp add: demo_handle_def newAuthorizationHandle_def newAuthorizationID_def)
  then have r1: "handle_step\<^sup>*\<^sup>* (?h0\<lparr>ah_beforeWrite := True, ah_onOutcome := False\<rparr>) ?h1"
    by (auto intro: handle_step.mint)
  have r2: "handle_step\<^sup>*\<^sup>* ?h1 ?h2" by (auto intro: handle_step.mint)
  have "length (ah_writes ?h2) < 2 ^ 64"
    by (simp add: MintWriteToken_def Let_def demo_handle_def newAuthorizationHandle_def newAuthorizationID_def)
  from write_log_is_sound [OF new r1 r2 this] show ?thesis by simp
qed

text \<open>
  Whatever failures, successes and looks the circuit sees, for any order in which the map is ranged
  over, it never holds more entries than its capacity, each proxy once and only positive ids.
\<close>

theorem circuit_is_bounded:
  assumes "is_range_order range_order" "(circuit_step range_order)\<^sup>*\<^sup>* (newOpenAIProxyStreamCircuit settings) c"
  shows "int (length (pc_entries c)) \<le> ps_maxEntries (pc_settings c) \<and> distinct (map fst (pc_entries c))
    \<and> list_all (\<lambda>x. 0 < fst x) (pc_entries c)
    \<and> pc_settings c = pc_settings (newOpenAIProxyStreamCircuit settings)"
proof -
  have "circuit_inv c \<and> pc_settings c = pc_settings (newOpenAIProxyStreamCircuit settings)"
    using assms(2)
  proof (induction rule: rtranclp_induct)
    case base
    show ?case by (simp add: circuit_inv_def newOpenAIProxyStreamCircuit_def positive_or_def)
  next
    case (step y z)
    then show ?case using circuit_step_inv [OF assms(1) step.hyps(2)] by simp
  qed
  then show ?thesis by (auto simp: circuit_inv_def list_all_iff)
qed

theorem circuit_is_bounded_witness:
  "length (pc_entries (fst (recordFailure rev 2 5 (fst (recordFailure rev 1 4 (newOpenAIProxyStreamCircuit demo_settings)))))) \<le> 1"
proof -
  let ?c0 = "newOpenAIProxyStreamCircuit demo_settings"
  let ?c1 = "fst (recordFailure rev 1 4 ?c0)" and ?c2 = "fst (recordFailure rev 2 5 (fst (recordFailure rev 1 4 ?c0)))"
  have "circuit_step rev ?c0 ?c1" "circuit_step rev ?c1 ?c2" by (rule circuit_step.failure)+
  then have "(circuit_step rev)\<^sup>*\<^sup>* ?c0 ?c2" using rtranclp.rtrancl_into_rtrancl r_into_rtranclp by metis
  moreover have "is_range_order rev" by (simp add: is_range_order_def)
  ultimately have "int (length (pc_entries ?c2)) \<le> ps_maxEntries (pc_settings ?c2)" "pc_settings ?c2 = pc_settings ?c0"
    using circuit_is_bounded by blast+
  moreover have "ps_maxEntries (pc_settings ?c0) = 1"
    by (simp add: newOpenAIProxyStreamCircuit_def demo_settings_def positive_or_def)
  ultimately show ?thesis by simp
qed

text \<open>
  Failures of a proxy within the window of the first one report nothing until the threshold is
  reached; the one that reaches it trips the circuit for exactly the quarantine time, further
  failures neither trip again nor extend it, and the proxy is blocked before its end and released at
  the end, when the entry is dropped.
\<close>

theorem circuit_trips_and_releases:
  assumes p: "0 < p" and fresh: "map_of (pc_entries c) p = None" and first: "0 < t0"
    and threshold: "ps_failureThreshold (pc_settings c) = int (length ts) + 2"
    and window: "\<forall>t\<in>set (ts @ [t1]). t0 \<le> t \<and> t - t0 \<le> ps_failureWindow (pc_settings c)"
    and ttl: "0 < ps_quarantineTTL (pc_settings c)"
    and during: "\<forall>t\<in>set us. t < t1 + ps_quarantineTTL (pc_settings c)"
  shows "\<exists>c'. record_failures range_order p (t0 # ts @ t1 # us) c =
      (c', replicate (Suc (length ts)) (False, 0) @ (True, t1 + ps_quarantineTTL (pc_settings c))
         # replicate (length us) (False, t1 + ps_quarantineTTL (pc_settings c)))
    \<and> (\<forall>t. isBlocked p t c' = (if t < t1 + ps_quarantineTTL (pc_settings c) then (c', True)
                               else (c'\<lparr>pc_entries := drop_entry p (pc_entries c')\<rparr>, False)))"
proof -
  let ?until = "t1 + ps_quarantineTTL (pc_settings c)"
  let ?c0 = "ensureCapacityLocked range_order t0 c"
  let ?e0 = "\<lparr>pe_failureCount = 1, pe_windowStart = t0, pe_blockedUntil = 0, pe_lastTouched = t0\<rparr>"
  let ?c1 = "?c0\<lparr>pc_entries := put_entry p ?e0 (pc_entries ?c0)\<rparr>"
  have set0: "pc_settings ?c0 = pc_settings c" by (simp add: ensureCapacityLocked_def Let_def)
  have r0: "recordFailure range_order p t0 c = (?c1, False, 0)"
    using p fresh threshold by (simp add: recordFailure_def Let_def zero_entry_def)
  have "\<exists>c2 e2. record_failures range_order p ts ?c1 = (c2, replicate (length ts) (False, 0))
    \<and> pc_settings c2 = pc_settings ?c1 \<and> map_of (pc_entries c2) p = Some e2 \<and> pe_blockedUntil e2 = 0
    \<and> pe_windowStart e2 = pe_windowStart ?e0 \<and> pe_failureCount e2 = pe_failureCount ?e0 + int (length ts)"
    by (rule failures_below_threshold [OF p]) (use first threshold window set0 in auto)
  then obtain c2 e2 where r1: "record_failures range_order p ts ?c1 = (c2, replicate (length ts) (False, 0))"
    and c2: "pc_settings c2 = pc_settings c" "map_of (pc_entries c2) p = Some e2" "pe_blockedUntil e2 = 0"
      "pe_windowStart e2 = t0" "pe_failureCount e2 = 1 + int (length ts)" using set0 by auto
  obtain c3 e3 where r2: "recordFailure range_order p t1 c2 = (c3, True, ?until)"
    and c3: "map_of (pc_entries c3) p = Some e3" "pe_blockedUntil e3 = ?until"
    using failure_counts [OF p c2(2), of t1 range_order] c2 first window threshold by simp
  obtain c4 e4 where r3: "record_failures range_order p us c3 = (c4, replicate (length us) (False, ?until))"
    and c4: "map_of (pc_entries c4) p = Some e4" "pe_blockedUntil e4 = ?until"
    using failures_in_quarantine [OF p c3(1), of us range_order] c3(2) during by auto
  have "record_failures range_order p (t0 # ts @ t1 # us) c = (c4, replicate (Suc (length ts)) (False, 0) @ (True, ?until)
      # replicate (length us) (False, ?until))"
    using r0 r1 r2 r3 by (simp add: record_failures_append)
  moreover have "?until \<noteq> 0" using first window ttl by auto
  then have "isBlocked p t c4 = (if t < ?until then (c4, True) else (c4\<lparr>pc_entries := drop_entry p (pc_entries c4)\<rparr>, False))" for t
    using p c4 by (simp add: isBlocked_def)
  ultimately show ?thesis by blast
qed

theorem circuit_trips_and_releases_witness:
  "\<exists>c. record_failures rev 3 [10, 20, 30] (newOpenAIProxyStreamCircuit demo_settings)
      = (c, [(False, 0), (True, 620), (False, 620)]) \<and> snd (isBlocked 3 619 c) \<and> \<not> snd (isBlocked 3 620 c)"
proof -
  let ?c = "newOpenAIProxyStreamCircuit demo_settings"
  have s: "pc_settings ?c = demo_settings" "pc_entries ?c = []"
    by (simp_all add: newOpenAIProxyStreamCircuit_def demo_settings_def positive_or_def)
  have "\<exists>c'. record_failures rev 3 (10 # [] @ 20 # [30]) ?c =
      (c', replicate (Suc (length ([] :: int list))) (False, 0) @ (True, 20 + ps_quarantineTTL (pc_settings ?c))
         # replicate (length [30 :: int]) (False, 20 + ps_quarantineTTL (pc_settings ?c)))
    \<and> (\<forall>t. isBlocked 3 t c' = (if t < 20 + ps_quarantineTTL (pc_settings ?c) then (c', True)
                               else (c'\<lparr>pc_entries := drop_entry 3 (pc_entries c')\<rparr>, False)))"
    by (rule circuit_trips_and_releases)
      (simp_all add: newOpenAIProxyStreamCircuit_def demo_settings_def positive_or_def)
  then show ?thesis unfolding s by (auto simp: demo_settings_def)
qed



text \<open>
  C34 (idempotent replay). After a successful execution the same call within the expiry does not run the handler and changes nothing.
  It returns the redacted response as a replay when that is a JSON text of admissible length; a
  response longer than the limit is stored truncated, is no JSON, and every replay fails as if the
  store were unavailable.
\<close>

theorem idempotent_replay:
  assumes inv: "table_inv t" and claim: "claim_key H cfg faults opts now t = (t1, RunOwner i e)" and mark: "\<not> df_mark faults"
    and first: "Execute H cfg redact faults opts now later (Inr (Some raw)) t = (t2, r, handled)"
    and again: "now' < e" "\<not> df_no_repo faults'" "\<not> df_create faults'" "\<not> df_get faults'"
    and ok: "json_Valid (redact raw)" "TrimSpace (redact raw) \<noteq> []"
  shows "r = Inr (raw, False) \<and> handled
    \<and> Execute H cfg redact faults' opts now' later' outcome t2 = (t2,
        (if ic_MaxStoredResponseLen cfg > 0 \<and> int (length (redact raw)) > ic_MaxStoredResponseLen cfg
         then Inl ErrIdempotencyStoreUnavail else Inr (redact raw, True)), False)"
proof -
  let ?long = "ic_MaxStoredResponseLen cfg > 0 \<and> int (length (redact raw)) > ic_MaxStoredResponseLen cfg"
  define body where "body = (if ?long then truncateUTF8 (redact raw) (ic_MaxStoredResponseLen cfg) @ ''...(truncated)'' else redact raw)"
  have stored: "marshalStoredResponse cfg redact (Some raw) = Some body"
    by (simp add: marshalStoredResponse_def body_def Let_def)
  have t2: "t2 = MarkSucceeded i 200 body e t1" and r: "r = Inr (raw, False)" "handled"
    using first claim mark stored by (auto simp: Execute_def finish_execution_def)
  have "decodeStoredResponse (Some body) = (if ?long then None else Some (redact raw))"
  proof (cases ?long)
    case True
    then show ?thesis using decode_truncated by (simp add: body_def)
  next
    case False
    then have "body = redact raw" unfolding body_def by (rule if_not_P)
    with False ok show ?thesis by (simp add: decodeStoredResponse_def)
  qed
  with replay_after_success [OF inv claim again, of body] r t2 show ?thesis by (simp add: Execute_def)
qed

theorem idempotent_replay_witness:
  "\<exists>t. snd (Execute rev demo_config id no_faults demo_opts 50 60 (Inl ''x'') t) = (Inr (''12'', True), False)"
proof -
  let ?c = "claim_key rev demo_config no_faults demo_opts 0 empty_table"
  let ?x = "Execute rev demo_config id no_faults demo_opts 0 1 (Inr (Some ''12'')) empty_table"
  have "snd ?c = RunOwner 1 100" by code_simp
  then have c: "?c = (fst ?c, RunOwner 1 100)" by (metis prod.collapse)
  have x: "?x = (fst ?x, fst (snd ?x), snd (snd ?x))" by simp
  have inv: "table_inv empty_table" by (simp add: table_inv_def empty_table_def)
  have lt: "(50 :: int) < 100" by simp
  have f: "\<not> df_mark no_faults" "\<not> df_no_repo no_faults" "\<not> df_create no_faults" "\<not> df_get no_faults"
    by (simp_all add: no_faults_def)
  have j: "json_Valid (id ''12'')" "TrimSpace (id ''12'') \<noteq> []" by code_simp+
  have "snd (Execute rev demo_config id no_faults demo_opts 50 60 (Inl ''x'') (fst ?x)) =
      ((if ic_MaxStoredResponseLen demo_config > 0 \<and> int (length (id ''12'')) > ic_MaxStoredResponseLen demo_config
        then Inl ErrIdempotencyStoreUnavail else Inr (id ''12'', True)), False)"
    using idempotent_replay [OF inv c f(1) x lt f(2-4) j, of 60 "Inl ''x''"] by (simp only: snd_conv)
  moreover have "ic_MaxStoredResponseLen demo_config = 4" by (simp add: demo_config_def)
  ultimately show ?thesis by (intro exI [of _ "fst ?x"]) simp
qed

section \<open>A claim that is broken up\<close>

text \<open>
  The statements of a claim are separate transactions. A call that read an expired success loses the processor; another call reclaims the key, runs and
  records its success; the first call's reclaim still succeeds, because the update compares the
  status and the lock but not the expiry, so the handler runs again within the new expiry.
\<close>

theorem reclaim_after_success_runs_twice:
  "let t0 = fst (Execute rev demo_config id no_faults demo_opts 0 1 (Inr (Some ''1'')) empty_table);
       existing = the (GetByScopeAndKeyHash ''s'' ''k'' t0);
       second = Execute rev demo_config id no_faults demo_opts 100 101 (Inr (Some ''2'')) t0
   in ir_ExpiresAt existing \<le> 100 \<and> snd (snd second)
      \<and> map ir_ExpiresAt (ix_rows (fst second)) = [200]
      \<and> snd (TryReclaim (ir_ID existing) (ir_Status existing) 100 130 200 (fst second))"
  by code_simp

end
